(* ===== verification/MH_Prelude.thy ===== *)
theory MH_Prelude
  imports Main "HOL-Library.Word" "HOL-Library.Sublist"
begin

text \<open>
  Shared vocabulary of the development: Rust results, fixed-width integers, UTF-8 strings,
  timestamps and JSON values, with the generic lemmas the component theories rely on.

  \<^item> A Rust \<open>Result<T, E>\<close> is the sum \<open>'e + 't\<close>; \<open>Err\<close> and \<open>Ok\<close> name its injections and
    \<open>and_then\<close> is the question-mark operator.
  \<^item> \<open>u8\<close>, \<open>u32\<close> and \<open>u64\<close> are words of that width; \<open>checked_add\<close> and \<open>saturating_add\<close>
    are the two checked additions the sources use.
  \<^item> A Rust \<open>str\<close> is the list of its UTF-8 bytes (\<^typ>\<open>string\<close>), so that \<open>len()\<close> is
    \<^const>\<open>length\<close>; \<open>chars\<close> decodes it into Unicode scalar values.
  \<^item> A \<open>time::OffsetDateTime\<close> is compared by its instant only, so a timestamp is an integer
    number of nanoseconds; a \<open>uuid::Uuid\<close> is a 128-bit word.
  \<^item> \<open>serde_json::Value\<close> is the datatype \<open>json\<close>; an object is the list of its entries in
    iteration order.
\<close>

named_theorems result_simps \<open>unfolding rules of the result combinators\<close>
named_theorems valid_defs \<open>definitions of the validity predicates and validators\<close>

section \<open>Results\<close>

abbreviation Err :: "'e \<Rightarrow> 'e + 'a" where
  "Err \<equiv> Inl"

abbreviation Ok :: "'a \<Rightarrow> 'e + 'a" where
  "Ok \<equiv> Inr"

fun and_then :: "'e + 'a \<Rightarrow> ('a \<Rightarrow> 'e + 'b) \<Rightarrow> 'e + 'b" where
  "and_then (Inl e) f = Inl e"
| "and_then (Inr a) f = f a"

fun is_ok :: "'e + 'a \<Rightarrow> bool" where
  "is_ok (Inl e) = False"
| "is_ok (Inr a) = True"

definition ok_or :: "'e \<Rightarrow> 'a option \<Rightarrow> 'e + 'a" where
  "ok_or e x = (case x of None \<Rightarrow> Inl e | Some a \<Rightarrow> Inr a)"

definition is_some_and :: "'a option \<Rightarrow> ('a \<Rightarrow> bool) \<Rightarrow> bool" where
  "is_some_and x p = (case x of None \<Rightarrow> False | Some a \<Rightarrow> p a)"

definition is_none_or :: "'a option \<Rightarrow> ('a \<Rightarrow> bool) \<Rightarrow> bool" where
  "is_none_or x p = (case x of None \<Rightarrow> True | Some a \<Rightarrow> p a)"

text \<open>\<open>iter().map(f).collect::<Result<Vec<_>, _>>()\<close> stops at the first error.\<close>

fun try_map :: "('a \<Rightarrow> 'e + 'b) \<Rightarrow> 'a list \<Rightarrow> 'e + 'b list" where
  "try_map f [] = Inr []"
| "try_map f (x # xs) = and_then (f x) (\<lambda>y. and_then (try_map f xs) (\<lambda>ys. Inr (y # ys)))"

section \<open>Fixed-width integers\<close>

type_synonym u8 = "8 word"
type_synonym u16 = "16 word"
type_synonym u32 = "32 word"
type_synonym u64 = "64 word"

definition checked_add :: "'a::len word \<Rightarrow> 'a word \<Rightarrow> 'a word option" where
  "checked_add a b = (if unat a + unat b < 2 ^ LENGTH('a) then Some (a + b) else None)"

definition saturating_add :: "'a::len word \<Rightarrow> 'a word \<Rightarrow> 'a word" where
  "saturating_add a b = (if unat a + unat b < 2 ^ LENGTH('a) then a + b else - 1)"

section \<open>Identifiers and timestamps\<close>

type_synonym uuid = "128 word"
type_synonym timestamp = int

definition nanos_per_second :: int where
  "nanos_per_second = 1000000000"

section \<open>Strings\<close>

type_synonym str = string

abbreviation byte :: "char \<Rightarrow> nat" where
  "byte \<equiv> of_char"

definition is_ascii :: "char \<Rightarrow> bool" where
  "is_ascii c \<longleftrightarrow> byte c < 128"

definition is_ascii_control :: "char \<Rightarrow> bool" where
  "is_ascii_control c \<longleftrightarrow> byte c < 32 \<or> byte c = 127"

definition is_ascii_digit :: "char \<Rightarrow> bool" where
  "is_ascii_digit c \<longleftrightarrow> 48 \<le> byte c \<and> byte c \<le> 57"

definition is_ascii_lowercase :: "char \<Rightarrow> bool" where
  "is_ascii_lowercase c \<longleftrightarrow> 97 \<le> byte c \<and> byte c \<le> 122"

definition is_ascii_uppercase :: "char \<Rightarrow> bool" where
  "is_ascii_uppercase c \<longleftrightarrow> 65 \<le> byte c \<and> byte c \<le> 90"

definition is_ascii_alphanumeric :: "char \<Rightarrow> bool" where
  "is_ascii_alphanumeric c \<longleftrightarrow> is_ascii_digit c \<or> is_ascii_lowercase c \<or> is_ascii_uppercase c"

definition is_ascii_hexdigit :: "char \<Rightarrow> bool" where
  "is_ascii_hexdigit c \<longleftrightarrow> is_ascii_digit c \<or> (65 \<le> byte c \<and> byte c \<le> 70) \<or> (97 \<le> byte c \<and> byte c \<le> 102)"

definition is_ascii_whitespace :: "char \<Rightarrow> bool" where
  "is_ascii_whitespace c \<longleftrightarrow> byte c \<in> {9, 10, 12, 13, 32}"

definition byte_lower :: "char \<Rightarrow> char" where
  "byte_lower c = (if is_ascii_uppercase c then char_of (byte c + 32) else c)"

definition to_ascii_lowercase :: "str \<Rightarrow> str" where
  "to_ascii_lowercase s = map byte_lower s"

definition eq_ignore_ascii_case :: "str \<Rightarrow> str \<Rightarrow> bool" where
  "eq_ignore_ascii_case a b \<longleftrightarrow> to_ascii_lowercase a = to_ascii_lowercase b"

definition starts_with :: "str \<Rightarrow> str \<Rightarrow> bool" where
  "starts_with s p \<longleftrightarrow> take (length p) s = p"

definition ends_with :: "str \<Rightarrow> str \<Rightarrow> bool" where
  "ends_with s p \<longleftrightarrow> length p \<le> length s \<and> drop (length s - length p) s = p"

definition strip_prefix :: "str \<Rightarrow> str \<Rightarrow> str option" where
  "strip_prefix s p = (if starts_with s p then Some (drop (length p) s) else None)"

definition strip_suffix :: "str \<Rightarrow> str \<Rightarrow> str option" where
  "strip_suffix s p = (if ends_with s p then Some (take (length s - length p) s) else None)"

fun contains_str :: "str \<Rightarrow> str \<Rightarrow> bool" where
  "contains_str [] p = (p = [])"
| "contains_str (c # s) p = (starts_with (c # s) p \<or> contains_str s p)"

fun split_once :: "char \<Rightarrow> str \<Rightarrow> (str \<times> str) option" where
  "split_once d [] = None"
| "split_once d (c # s) =
     (if c = d then Some ([], s)
      else map_option (\<lambda>(a, b). (c # a, b)) (split_once d s))"

definition rsplit_once :: "char \<Rightarrow> str \<Rightarrow> (str \<times> str) option" where
  "rsplit_once d s = map_option (\<lambda>(a, b). (rev b, rev a)) (split_once d (rev s))"

text \<open>\<open>split(d)\<close> and \<open>splitn(n, d)\<close> for a one-byte separator.\<close>

fun split_on :: "char \<Rightarrow> str \<Rightarrow> str list" where
  "split_on d [] = [[]]"
| "split_on d (c # s) =
     (if c = d then [] # split_on d s
      else (case split_on d s of [] \<Rightarrow> [[c]] | p # ps \<Rightarrow> (c # p) # ps))"

fun splitn :: "nat \<Rightarrow> char \<Rightarrow> str \<Rightarrow> str list" where
  "splitn 0 d s = []"
| "splitn (Suc 0) d s = [s]"
| "splitn (Suc (Suc n)) d s =
     (case split_once d s of None \<Rightarrow> [s] | Some (a, b) \<Rightarrow> a # splitn (Suc n) d b)"

text \<open>
  \<open>chars()\<close>: the Unicode scalar values of a UTF-8 string. A Rust \<open>str\<close> is always valid
  UTF-8; the byte that leads a sequence tells its length.
\<close>

fun chars :: "str \<Rightarrow> nat list" where
  "chars [] = []"
| "chars (a # s) =
     (if byte a < 128 then byte a # chars s
      else if byte a < 224 then
        (case s of
           b # t \<Rightarrow> ((byte a mod 32) * 64 + byte b mod 64) # chars t
         | _ \<Rightarrow> [])
      else if byte a < 240 then
        (case s of
           b # c # t \<Rightarrow> ((byte a mod 16) * 4096 + (byte b mod 64) * 64 + byte c mod 64) # chars t
         | _ \<Rightarrow> [])
      else
        (case s of
           b # c # d # t \<Rightarrow>
             ((byte a mod 8) * 262144 + (byte b mod 64) * 4096 + (byte c mod 64) * 64
               + byte d mod 64) # chars t
         | _ \<Rightarrow> []))"

text \<open>\<open>char::is_control\<close> (general category Cc) and \<open>char::is_whitespace\<close> (White\_Space).\<close>

definition char_is_control :: "nat \<Rightarrow> bool" where
  "char_is_control c \<longleftrightarrow> c < 32 \<or> (127 \<le> c \<and> c \<le> 159)"

definition char_is_whitespace :: "nat \<Rightarrow> bool" where
  "char_is_whitespace c \<longleftrightarrow>
     (9 \<le> c \<and> c \<le> 13) \<or> c = 32 \<or> c = 133 \<or> c = 160 \<or> c = 5760 \<or> (8192 \<le> c \<and> c \<le> 8202)
     \<or> c = 8232 \<or> c = 8233 \<or> c = 8239 \<or> c = 8287 \<or> c = 12288"

text \<open>The UTF-8 encodings of the White\_Space characters, which \<open>str::trim\<close> removes.\<close>

definition whitespace_encodings :: "nat list list" where
  "whitespace_encodings =
     [[9], [10], [11], [12], [13], [32], [194, 133], [194, 160], [225, 154, 128],
      [226, 128, 128], [226, 128, 129], [226, 128, 130], [226, 128, 131], [226, 128, 132],
      [226, 128, 133], [226, 128, 134], [226, 128, 135], [226, 128, 136], [226, 128, 137],
      [226, 128, 138], [226, 128, 168], [226, 128, 169], [226, 128, 175], [226, 129, 159],
      [227, 128, 128]]"

definition leading :: "nat list list \<Rightarrow> str \<Rightarrow> nat option" where
  "leading encs s =
     (case filter (\<lambda>e. e \<noteq> [] \<and> take (length e) (map byte s) = e) encs of
        [] \<Rightarrow> None | e # _ \<Rightarrow> Some (length e))"

lemma leading_pos: "leading encs s = Some n \<Longrightarrow> 0 < n \<and> s \<noteq> []"
proof -
  assume a: "leading encs s = Some n"
  then obtain e es where f: "filter (\<lambda>e. e \<noteq> [] \<and> take (length e) (map byte s) = e) encs = e # es"
    and n: "n = length e"
    by (auto simp: leading_def split: list.splits)
  then have "e \<noteq> [] \<and> take (length e) (map byte s) = e"
    by (metis (mono_tags, lifting) filter_eq_ConsD)
  with n show ?thesis by auto
qed

function trim_with :: "nat list list \<Rightarrow> str \<Rightarrow> str" where
  "trim_with encs s = (case leading encs s of None \<Rightarrow> s | Some n \<Rightarrow> trim_with encs (drop n s))"
  by pat_completeness auto
termination
  by (relation "measure (\<lambda>(encs, s). length s)") (use leading_pos in auto)

declare trim_with.simps [simp del]

definition trim :: "str \<Rightarrow> str" where
  "trim s = rev (trim_with (map rev whitespace_encodings) (rev (trim_with whitespace_encodings s)))"

section \<open>JSON values\<close>

datatype json_number = PosInt u64 | NegInt int | Float u64

datatype json =
    JNull
  | JBool bool
  | JNumber json_number
  | JString str
  | JArray "json list"
  | JObject "(str \<times> json) list"

fun as_str :: "json \<Rightarrow> str option" where
  "as_str (JString s) = Some s"
| "as_str _ = None"

fun as_object :: "json \<Rightarrow> (str \<times> json) list option" where
  "as_object (JObject m) = Some m"
| "as_object _ = None"

fun as_array :: "json \<Rightarrow> json list option" where
  "as_array (JArray xs) = Some xs"
| "as_array _ = None"

fun is_object :: "json \<Rightarrow> bool" where
  "is_object (JObject m) = True"
| "is_object _ = False"

fun number_as_u64 :: "json_number \<Rightarrow> u64 option" where
  "number_as_u64 (PosInt n) = Some n"
| "number_as_u64 _ = None"

section \<open>Lemmas on results and options\<close>

lemma and_then_Ok_iff [result_simps]:
  "and_then m f = Inr b \<longleftrightarrow> (\<exists>a. m = Inr a \<and> f a = Inr b)"
  by (cases m) auto

lemma and_then_Err_iff [result_simps]:
  "and_then m f = Inl e \<longleftrightarrow> m = Inl e \<or> (\<exists>a. m = Inr a \<and> f a = Inl e)"
  by (cases m) auto

lemma and_then_cong [fundef_cong]:
  "m = m' \<Longrightarrow> (\<And>a. m' = Inr a \<Longrightarrow> f a = g a) \<Longrightarrow> and_then m f = and_then m' g"
  by (cases m') auto

lemma and_then_unit_Ok [result_simps]:
  "and_then (m :: 'e + unit) f = Inr b \<longleftrightarrow> m = Inr () \<and> f () = Inr b"
  by (cases m) auto

lemma is_ok_iff: "is_ok m \<longleftrightarrow> (\<exists>a. m = Inr a)"
  by (cases m) auto

lemma is_ok_unit_iff: "is_ok (m :: 'e + unit) \<longleftrightarrow> m = Inr ()"
  by (cases m) auto

lemma ok_or_simps [simp]:
  "ok_or e None = Inl e"
  "ok_or e (Some a) = Inr a"
  by (simp_all add: ok_or_def)

lemma ok_or_Ok_iff [simp]: "ok_or e x = Inr a \<longleftrightarrow> x = Some a"
  by (cases x) auto

lemma is_some_and_simps [simp]:
  "is_some_and None p = False"
  "is_some_and (Some a) p = p a"
  by (simp_all add: is_some_and_def)

lemma is_none_or_simps [simp]:
  "is_none_or None p = True"
  "is_none_or (Some a) p = p a"
  by (simp_all add: is_none_or_def)

lemma is_some_and_iff: "is_some_and x p \<longleftrightarrow> (\<exists>a. x = Some a \<and> p a)"
  by (cases x) auto

lemma is_none_or_iff: "is_none_or x p \<longleftrightarrow> (\<forall>a. x = Some a \<longrightarrow> p a)"
  by (cases x) auto

lemma try_map_Ok_iff:
  "try_map f xs = Inr ys \<longleftrightarrow> list_all2 (\<lambda>x y. f x = Inr y) xs ys"
proof (induction xs arbitrary: ys)
  case Nil
  show ?case by auto
next
  case (Cons x xs)
  then show ?case by (cases ys) (auto simp: result_simps)
qed

lemma try_map_Ok_set:
  assumes "try_map f xs = Inr ys" and "y \<in> set ys"
  obtains x where "x \<in> set xs" and "f x = Inr y"
proof -
  from assms obtain i where i: "i < length ys" "ys ! i = y"
    by (auto simp: in_set_conv_nth)
  from assms(1) have "list_all2 (\<lambda>x y. f x = Inr y) xs ys"
    by (simp add: try_map_Ok_iff)
  with i have "xs ! i \<in> set xs" and "f (xs ! i) = Inr y"
    by (auto simp: list_all2_conv_all_nth)
  with that show thesis by blast
qed

section \<open>Lemmas on machine integers\<close>

lemma unat_less_pow: "unat (w :: 'a::len word) < 2 ^ LENGTH('a)"
  by (rule unsigned_less)

text \<open>Executable forms that compare binary integers instead of unary naturals.\<close>

lemma unat_sum_less_iff: "unat a + unat b < 2 ^ LENGTH('a) \<longleftrightarrow> uint (a :: 'a::len word) + uint b < 2 ^ LENGTH('a)"
proof -
  have "int (unat a + unat b) < int (2 ^ LENGTH('a)) \<longleftrightarrow> uint a + uint b < 2 ^ LENGTH('a)" by simp
  then show ?thesis by linarith
qed

lemma checked_add_code [code]:
  "checked_add a b = (if uint (a :: 'a::len word) + uint b < 2 ^ LENGTH('a) then Some (a + b) else None)"
  by (simp add: checked_add_def unat_sum_less_iff)

lemma saturating_add_code [code]:
  "saturating_add a b = (if uint (a :: 'a::len word) + uint b < 2 ^ LENGTH('a) then a + b else - 1)"
  by (simp add: saturating_add_def unat_sum_less_iff)

lemma unat_max_word: "unat (- 1 :: 'a::len word) = 2 ^ LENGTH('a) - 1"
  by (simp add: unsigned_minus_1_eq_mask mask_eq_exp_minus_1)

lemma checked_add_one_Some:
  "checked_add r (1 :: 'a::len word) = Some r' \<Longrightarrow> unat r' = Suc (unat r)"
  by (auto simp: checked_add_def unat_word_ariths unat_1 split: if_splits)

lemma checked_add_one_None_iff:
  "checked_add r (1 :: u64) = None \<longleftrightarrow> r = - 1"
proof -
  have "unat r < 2 ^ 64" using unat_less_pow [of r] by simp
  moreover have "r = - 1 \<longleftrightarrow> unat r = 2 ^ 64 - 1"
    by (simp add: word_unat_eq_iff unat_max_word)
  ultimately show ?thesis by (auto simp: checked_add_def)
qed

lemma unat_plus_one:
  assumes "a < (b :: 'a::len word)"
  shows "unat (a + 1) = Suc (unat a)"
proof -
  from assms have "Suc (unat a) < 2 ^ LENGTH('a)"
    using unat_less_pow [of b] unfolding word_less_nat_alt by linarith
  then show ?thesis by (simp add: unat_word_ariths)
qed

lemma unat_saturating_add:
  "unat (saturating_add a (b :: 'a::len word)) = min (unat a + unat b) (2 ^ LENGTH('a) - 1)"
  by (auto simp: saturating_add_def unat_word_ariths unat_max_word)

lemma saturating_add_mono: "a \<le> saturating_add a (b :: 'a::len word)"
proof -
  have "unat a \<le> 2 ^ LENGTH('a) - 1" using unat_less_pow [of a] by linarith
  then show ?thesis by (simp add: word_le_nat_alt unat_saturating_add)
qed

lemma saturating_add_one_neq:
  "r \<noteq> - 1 \<Longrightarrow> saturating_add r (1 :: u64) \<noteq> r"
proof -
  assume r: "r \<noteq> - 1"
  have "unat r < 2 ^ 64" using unat_less_pow [of r] by simp
  moreover from r have "unat r \<noteq> 2 ^ 64 - 1"
    by (simp add: word_unat_eq_iff unat_max_word)
  ultimately show ?thesis by (simp add: word_unat_eq_iff unat_saturating_add)
qed

section \<open>Lemmas on strings\<close>

lemma char_of_eq_iff: "n < 256 \<Longrightarrow> char_of n = c \<longleftrightarrow> byte c = n"
  by (metis char_of_char char_of_eq_iff mod_less of_char_of)

lemma byte_char_of [simp]: "n < 256 \<Longrightarrow> byte (char_of n) = n"
  by simp

lemma byte_lower_idem [simp]: "byte_lower (byte_lower c) = byte_lower c"
  by (auto simp: byte_lower_def is_ascii_uppercase_def)

lemma to_ascii_lowercase_idem [simp]:
  "to_ascii_lowercase (to_ascii_lowercase s) = to_ascii_lowercase s"
  by (simp add: to_ascii_lowercase_def)

lemma length_to_ascii_lowercase [simp]: "length (to_ascii_lowercase s) = length s"
  by (simp add: to_ascii_lowercase_def)

lemma eq_ignore_ascii_case_refl [simp]: "eq_ignore_ascii_case s s"
  by (simp add: eq_ignore_ascii_case_def)

lemma byte_lower_hexdigit [simp]: "is_ascii_hexdigit (byte_lower c) = is_ascii_hexdigit c"
  by (auto simp: byte_lower_def is_ascii_hexdigit_def is_ascii_digit_def is_ascii_uppercase_def)

lemma list_all_lower_hexdigit [simp]:
  "list_all is_ascii_hexdigit (to_ascii_lowercase s) = list_all is_ascii_hexdigit s"
  by (simp add: to_ascii_lowercase_def list.pred_map comp_def)

lemma starts_with_append [simp]: "starts_with (p @ s) p"
  by (simp add: starts_with_def)

lemma starts_with_iff_prefix: "starts_with s p \<longleftrightarrow> prefix p s"
  by (metis append_eq_conv_conj append_take_drop_id prefix_def starts_with_def)

lemma strip_prefix_Some_iff: "strip_prefix s p = Some t \<longleftrightarrow> s = p @ t"
  by (auto simp: strip_prefix_def starts_with_def) (metis append_take_drop_id)

lemma strip_suffix_Some_iff: "strip_suffix s p = Some t \<longleftrightarrow> s = t @ p"
  by (auto simp: strip_suffix_def ends_with_def) (metis append_take_drop_id)

lemma split_once_Some_iff:
  "split_once d s = Some (a, b) \<longleftrightarrow> s = a @ d # b \<and> d \<notin> set a"
proof (induction s arbitrary: a)
  case Nil
  show ?case by simp
next
  case (Cons c s)
  show ?case
  proof (cases a)
    case Nil
    then show ?thesis by auto
  next
    case (Cons x xs)
    then show ?thesis using Cons.IH [of xs] by (auto simp: map_option_case split: option.splits)
  qed
qed

lemma split_once_None_iff: "split_once d s = None \<longleftrightarrow> d \<notin> set s"
  by (induction s) auto

lemma splitn_nonempty: "0 < n \<Longrightarrow> splitn n d s \<noteq> []"
  by (induction n d s rule: splitn.induct) (auto split: option.splits)

lemma contains_str_iff_sublist: "contains_str s p \<longleftrightarrow> sublist p s"
  by (induction s) (auto simp: starts_with_iff_prefix sublist_Cons_right)

lemma split_on_append: "d \<notin> set a \<Longrightarrow> split_on d (a @ d # b) = a # split_on d b"
  by (induction a) auto

lemma split_on_single: "d \<notin> set a \<Longrightarrow> split_on d a = [a]"
  by (induction a) auto

fun join_with :: "char \<Rightarrow> str list \<Rightarrow> str" where
  "join_with d [] = []"
| "join_with d [x] = x"
| "join_with d (x # y # xs) = x @ d # join_with d (y # xs)"

lemma split_on_join: "xs \<noteq> [] \<Longrightarrow> list_all (\<lambda>x. d \<notin> set x) xs \<Longrightarrow> split_on d (join_with d xs) = xs"
  by (induction d xs rule: join_with.induct) (auto simp: split_on_append split_on_single)

end
