(* ===== verification/MH_Aggregates.thy ===== *)
theory MH_Aggregates
  imports MH_Prelude
begin

text \<open>
  Interfaces shared by the domain aggregates. Every aggregate of \<^verbatim>\<open>mediahub-core\<close> is a value
  changed by a handful of guarded operations and stored through a persistence record that
  is validated again when it is read. The locales below state that contract once:

  \<^item> \<open>aggregate\<close>: a validity predicate kept by every enabled operation;
  \<^item> \<open>rehydratable\<close>: additionally, a valid aggregate survives the trip through persistence;
  \<^item> \<open>absorbing\<close>: a terminal aggregate is never changed again;
  \<^item> \<open>ranked\<close>: a quantity no operation ever decreases.

  Their lemmas lift each law from one operation to a whole history of operations.
\<close>

section \<open>Histories\<close>

definition run :: "('a \<Rightarrow> 'op \<Rightarrow> 'a) \<Rightarrow> 'a \<Rightarrow> 'op list \<Rightarrow> 'a" where
  "run step a ops = foldl step a ops"

lemma run_simps [simp]:
  "run step a [] = a"
  "run step a (x # xs) = run step (step a x) xs"
  by (simp_all add: run_def)

lemma run_append: "run step a (xs @ ys) = run step (run step a xs) ys"
  by (simp add: run_def)

text \<open>Every operation of the history is enabled in the state it meets.\<close>

fun admissible :: "('a \<Rightarrow> 'op \<Rightarrow> 'a) \<Rightarrow> ('a \<Rightarrow> 'op \<Rightarrow> bool) \<Rightarrow> 'a \<Rightarrow> 'op list \<Rightarrow> bool" where
  "admissible step enabled a [] = True"
| "admissible step enabled a (x # xs) = (enabled a x \<and> admissible step enabled (step a x) xs)"

lemma admissible_True [simp]: "admissible step (\<lambda>_ _. True) a xs"
  by (induction xs arbitrary: a) auto

lemma admissible_append:
  "admissible step enabled a (xs @ ys) \<longleftrightarrow>
     admissible step enabled a xs \<and> admissible step enabled (run step a xs) ys"
  by (induction xs arbitrary: a) auto

section \<open>Contracts\<close>

locale aggregate =
  fixes valid :: "'a \<Rightarrow> bool"
    and step :: "'a \<Rightarrow> 'op \<Rightarrow> 'a"
    and enabled :: "'a \<Rightarrow> 'op \<Rightarrow> bool"
  assumes step_valid: "valid a \<Longrightarrow> enabled a x \<Longrightarrow> valid (step a x)"
begin

lemma run_valid: "valid a \<Longrightarrow> admissible step enabled a xs \<Longrightarrow> valid (run step a xs)"
  by (induction xs arbitrary: a) (auto intro: step_valid)

end

locale rehydratable = aggregate valid step enabled
  for valid :: "'a \<Rightarrow> bool" and step :: "'a \<Rightarrow> 'op \<Rightarrow> 'a" and enabled :: "'a \<Rightarrow> 'op \<Rightarrow> bool" +
  fixes to_persisted :: "'a \<Rightarrow> 'p"
    and from_persistence :: "'p \<Rightarrow> 'e + 'a"
  assumes rehydrate: "valid a \<Longrightarrow> from_persistence (to_persisted a) = Inr a"
begin

lemma run_rehydrates:
  "valid a \<Longrightarrow> admissible step enabled a xs \<Longrightarrow>
   from_persistence (to_persisted (run step a xs)) = Inr (run step a xs)"
  by (rule rehydrate) (rule run_valid)

end

locale absorbing =
  fixes step :: "'a \<Rightarrow> 'op \<Rightarrow> 'a"
    and terminal :: "'a \<Rightarrow> bool"
  assumes terminal_step: "terminal a \<Longrightarrow> step a x = a"
begin

lemma terminal_run: "terminal a \<Longrightarrow> run step a xs = a"
  by (induction xs) (auto simp: terminal_step)

lemma first_terminal_wins: "terminal (run step a xs) \<Longrightarrow> run step a (xs @ ys) = run step a xs"
  by (simp add: run_append terminal_run)

end

locale ranked = aggregate valid step enabled
  for valid :: "'a \<Rightarrow> bool" and step :: "'a \<Rightarrow> 'op \<Rightarrow> 'a" and enabled :: "'a \<Rightarrow> 'op \<Rightarrow> bool" +
  fixes rank :: "'a \<Rightarrow> 'r::preorder"
  assumes step_rank: "valid a \<Longrightarrow> enabled a x \<Longrightarrow> rank a \<le> rank (step a x)"
begin

lemma run_rank: "valid a \<Longrightarrow> admissible step enabled a xs \<Longrightarrow> rank a \<le> rank (run step a xs)"
proof (induction xs arbitrary: a)
  case Nil
  show ?case by simp
next
  case (Cons x xs)
  then have "rank a \<le> rank (step a x)" by (simp add: step_rank)
  also have "\<dots> \<le> rank (run step (step a x) xs)"
    using Cons by (simp add: step_valid)
  finally show ?case by simp
qed

end

end
