(* ===== verification/S3_Lifecycle_Config.thy ===== *)
theory S3_Lifecycle_Config
  imports MH_Prelude
begin

text \<open>
  \<^verbatim>\<open>crates/mediahub-core/src/s3_lifecycle.rs\<close>: the normalized lifecycle rules of a
  bucket and their validation, together with \<open>S3ModelError\<close> of \<^verbatim>\<open>s3_bucket.rs\<close>,
  the error type the S3 domain model shares. A rule set is accepted exactly when it is
  non-empty, bounded, made of valid rules, and its explicit rule ids are pairwise distinct.
\<close>

section \<open>Errors of the S3 model\<close>

datatype versioning_status = Unversioned | VersioningEnabled | VersioningSuspended

datatype s3_model_error =
    InvalidBucketName
  | InvalidRegion
  | InvalidDefaultRetention
  | RetentionRequiresObjectLock
  | InvalidLifecycleConfiguration
  | UnsupportedLifecycleAction str
  | InvalidEntityTag
  | InvalidChecksum
  | InvalidUploadIntent
  | InvalidStorageLocator
  | InvalidStorageGcTask
  | InvalidConfigurationRevision
  | ObjectLockRequiresEnabledVersioning
  | InvalidVersioningTransition versioning_status versioning_status
  | InvalidObjectKey
  | InvalidVersionId
  | InvalidObjectGeneration
  | InvalidObjectVersionPayload
  | InvalidObjectRetention
  | ObjectVersionOwnershipMismatch
  | InvalidCreatedBy

section \<open>Rules\<close>

definition MAX_S3_LIFECYCLE_RULES :: nat where
  "MAX_S3_LIFECYCLE_RULES = 1000"

datatype s3_lifecycle_rule_status = RuleEnabled | RuleDisabled

datatype s3_lifecycle_filter = FilterEmpty | FilterPrefix str

datatype s3_expiration = ExpirationDays u32 | ExpirationDate timestamp | ExpiredObjectDeleteMarker

record s3_noncurrent_version_expiration =
  noncurrent_days :: u32

record s3_abort_incomplete_multipart_upload =
  days_after_initiation :: u32

record s3_lifecycle_rule =
  lr_id :: "str option"
  lr_status :: s3_lifecycle_rule_status
  lr_filter :: s3_lifecycle_filter
  lr_expiration :: "s3_expiration option"
  lr_noncurrent_version_expiration :: "s3_noncurrent_version_expiration option"
  lr_abort_incomplete_multipart_upload :: "s3_abort_incomplete_multipart_upload option"

definition lifecycle_rule_validate :: "s3_lifecycle_rule \<Rightarrow> s3_model_error + unit" where
  "lifecycle_rule_validate r =
     (if is_some_and (lr_id r) (\<lambda>i. i = [] \<or> length i > 255 \<or> list_ex is_ascii_control i)
      then Err InvalidLifecycleConfiguration
      else if (case lr_filter r of
                 FilterEmpty \<Rightarrow> False
               | FilterPrefix p \<Rightarrow> length p > 1024 \<or> list_ex (\<lambda>c. byte c = 0) p)
      then Err InvalidLifecycleConfiguration
      else if lr_expiration r = Some (ExpirationDays 0)
           \<or> is_some_and (lr_noncurrent_version_expiration r) (\<lambda>a. noncurrent_days a = 0)
           \<or> is_some_and (lr_abort_incomplete_multipart_upload r) (\<lambda>a. days_after_initiation a = 0)
      then Err InvalidLifecycleConfiguration
      else if lr_expiration r = None \<and> lr_noncurrent_version_expiration r = None
           \<and> lr_abort_incomplete_multipart_upload r = None
      then Err InvalidLifecycleConfiguration
      else Ok ())"

section \<open>Configurations\<close>

record s3_lifecycle_configuration =
  lc_rules :: "s3_lifecycle_rule list"

text \<open>The loop of \<open>S3LifecycleConfiguration::validate\<close>; \<open>ids\<close> is the hash set of ids seen.\<close>

fun validate_rules :: "str set \<Rightarrow> s3_lifecycle_rule list \<Rightarrow> s3_model_error + unit" where
  "validate_rules ids [] = Ok ()"
| "validate_rules ids (r # rs) =
     and_then (lifecycle_rule_validate r) (\<lambda>_.
       (case lr_id r of
          None \<Rightarrow> validate_rules ids rs
        | Some i \<Rightarrow> if i \<in> ids then Err InvalidLifecycleConfiguration
                   else validate_rules (insert i ids) rs))"

definition lifecycle_configuration_validate :: "s3_lifecycle_configuration \<Rightarrow> s3_model_error + unit" where
  "lifecycle_configuration_validate c =
     (if lc_rules c = [] \<or> length (lc_rules c) > MAX_S3_LIFECYCLE_RULES
      then Err InvalidLifecycleConfiguration
      else validate_rules {} (lc_rules c))"

definition lifecycle_configuration_new :: "s3_lifecycle_rule list \<Rightarrow> s3_model_error + s3_lifecycle_configuration" where
  "lifecycle_configuration_new rules =
     (let configuration = \<lparr>lc_rules = rules\<rparr> in
      and_then (lifecycle_configuration_validate configuration) (\<lambda>_. Ok configuration))"

definition ALLOWED_RULE_FIELDS :: "str list" where
  "ALLOWED_RULE_FIELDS =
     [''id'', ''status'', ''filter'', ''expiration'', ''noncurrent_version_expiration'',
      ''abort_incomplete_multipart_upload'']"

text \<open>The loop over the raw rules that rejects unknown fields by name.\<close>

fun check_rule_fields :: "json list \<Rightarrow> s3_model_error + unit" where
  "check_rule_fields [] = Ok ()"
| "check_rule_fields (v # vs) =
     and_then (ok_or InvalidLifecycleConfiguration (as_object v)) (\<lambda>rule.
       (case find (\<lambda>key. key \<notin> set ALLOWED_RULE_FIELDS) (map fst rule) of
          Some unsupported \<Rightarrow> Err (UnsupportedLifecycleAction unsupported)
        | None \<Rightarrow> check_rule_fields vs))"

text \<open>
  \<open>from_normalized_json\<close>; \<open>from_value\<close> is \<open>serde_json::from_value\<close> for the configuration type
  (derived code of an external crate), \<open>None\<close> when deserialization fails.
\<close>

definition from_normalized_json ::
  "(json \<Rightarrow> s3_lifecycle_configuration option) \<Rightarrow> json \<Rightarrow> s3_model_error + s3_lifecycle_configuration" where
  "from_normalized_json from_value value =
     and_then (ok_or InvalidLifecycleConfiguration (as_object value)) (\<lambda>object.
       if list_ex (\<lambda>key. key \<noteq> ''rules'') (map fst object) then Err InvalidLifecycleConfiguration
       else and_then (ok_or InvalidLifecycleConfiguration
                        (Option.bind (map_of object ''rules'') as_array)) (\<lambda>rules.
         and_then (check_rule_fields rules) (\<lambda>_.
         and_then (ok_or InvalidLifecycleConfiguration (from_value value)) (\<lambda>configuration.
         and_then (lifecycle_configuration_validate configuration) (\<lambda>_. Ok configuration)))))"

definition to_normalized_json ::
  "(s3_lifecycle_configuration \<Rightarrow> json option) \<Rightarrow> s3_lifecycle_configuration \<Rightarrow> s3_model_error + json" where
  "to_normalized_json to_value c =
     and_then (lifecycle_configuration_validate c) (\<lambda>_.
       ok_or InvalidLifecycleConfiguration (to_value c))"

section \<open>What validation accepts\<close>

definition rule_ids :: "s3_lifecycle_rule list \<Rightarrow> str list" where
  "rule_ids rs = List.map_filter lr_id rs"

lemma rule_ids_simps [simp]:
  "rule_ids [] = []"
  "rule_ids (r # rs) = (case lr_id r of None \<Rightarrow> rule_ids rs | Some i \<Rightarrow> i # rule_ids rs)"
  by (simp_all add: rule_ids_def List.map_filter_simps split: option.splits)

lemma validate_rules_Ok_iff:
  "validate_rules ids rs = Ok () \<longleftrightarrow>
     (\<forall>r \<in> set rs. lifecycle_rule_validate r = Ok ()) \<and> distinct (rule_ids rs)
     \<and> set (rule_ids rs) \<inter> ids = {}"
  by (induction rs arbitrary: ids) (auto simp: result_simps split: option.splits)

lemma lifecycle_configuration_validate_Ok_iff:
  "lifecycle_configuration_validate c = Ok () \<longleftrightarrow>
     lc_rules c \<noteq> [] \<and> length (lc_rules c) \<le> 1000
     \<and> (\<forall>r \<in> set (lc_rules c). lifecycle_rule_validate r = Ok ())
     \<and> distinct (rule_ids (lc_rules c))"
  by (auto simp: lifecycle_configuration_validate_def MAX_S3_LIFECYCLE_RULES_def validate_rules_Ok_iff)

end
