(* ===== verification/S3_Bucket.thy ===== *)
theory S3_Bucket
  imports MH_Aggregates S3_Lifecycle_Config
begin

text \<open>
  \<^verbatim>\<open>crates/mediahub-core/src/s3_bucket.rs\<close>: versioning status, default retention, the
  bucket-scoped S3 configuration aggregate and the S3 bucket. The methods that take
  \<open>&mut self\<close> return the new configuration with their result, because the code assigns
  fields before the last check that can fail (the revision overflow).

  The \<open>time\<close> crate's calendar is a parameter (\<open>calendar\<close>) of the default retention.
\<close>

section \<open>Versioning status and default retention\<close>

fun can_transition_to :: "versioning_status \<Rightarrow> versioning_status \<Rightarrow> bool" where
  "can_transition_to Unversioned next = (next = Unversioned \<or> next = VersioningEnabled)"
| "can_transition_to VersioningEnabled next = (next = VersioningEnabled \<or> next = VersioningSuspended)"
| "can_transition_to VersioningSuspended next = (next = VersioningEnabled \<or> next = VersioningSuspended)"

datatype retention_mode = Governance | Compliance

datatype default_retention_period = RetentionDays u32 | RetentionYears u32

fun period_is_valid :: "default_retention_period \<Rightarrow> bool" where
  "period_is_valid (RetentionDays v) = (v > 0)"
| "period_is_valid (RetentionYears v) = (v > 0)"

record default_retention =
  dr_mode :: retention_mode
  dr_period :: default_retention_period

definition default_retention_new ::
  "retention_mode \<Rightarrow> default_retention_period \<Rightarrow> s3_model_error + default_retention" where
  "default_retention_new mode period =
     (if \<not> period_is_valid period then Err InvalidDefaultRetention
      else Ok \<lparr>dr_mode = mode, dr_period = period\<rparr>)"

record object_retention =
  or_mode :: retention_mode
  or_retain_until :: timestamp

text \<open>The calendar operations of the \<open>time\<close> crate that \<open>for_object_at\<close> calls.\<close>

record 'd calendar =
  cal_checked_add_days :: "timestamp \<Rightarrow> nat \<Rightarrow> timestamp option"
  cal_year :: "timestamp \<Rightarrow> int"
  cal_date :: "timestamp \<Rightarrow> 'd"
  cal_replace_year :: "'d \<Rightarrow> int \<Rightarrow> 'd option"
  cal_replace_day :: "'d \<Rightarrow> nat \<Rightarrow> 'd option"
  cal_replace_date :: "timestamp \<Rightarrow> 'd \<Rightarrow> timestamp"

definition for_object_at ::
  "'d calendar \<Rightarrow> default_retention \<Rightarrow> timestamp \<Rightarrow> s3_model_error + object_retention" where
  "for_object_at cal r created_at =
     and_then
       (case dr_period r of
          RetentionDays days \<Rightarrow>
            ok_or InvalidObjectRetention (cal_checked_add_days cal created_at (unat days))
        | RetentionYears years \<Rightarrow>
            (if unat years \<ge> 2 ^ 31 then Err InvalidObjectRetention
             else let year = cal_year cal created_at + int (unat years) in
               if year \<ge> 2 ^ 31 then Err InvalidObjectRetention
               else and_then
                 (case cal_replace_year cal (cal_date cal created_at) year of
                    Some date \<Rightarrow> Ok date
                  | None \<Rightarrow> ok_or InvalidObjectRetention
                      (Option.bind (cal_replace_day cal (cal_date cal created_at) 28)
                         (\<lambda>date. cal_replace_year cal date year)))
                 (\<lambda>date. Ok (cal_replace_date cal created_at date))))
       (\<lambda>retain_until. Ok \<lparr>or_mode = dr_mode r, or_retain_until = retain_until\<rparr>)"

section \<open>Bucket configuration\<close>

record bucket_s3_configuration =
  bc_region :: str
  bc_versioning_status :: versioning_status
  bc_object_lock_enabled :: bool
  bc_default_retention :: "default_retention option"
  bc_lifecycle_configuration :: "s3_lifecycle_configuration option"
  bc_revision :: u64
  bc_updated_at :: timestamp

text \<open>The persistence record has the same fields, all public and unchecked.\<close>

type_synonym persisted_bucket_s3_configuration = bucket_s3_configuration

definition MAX_REGION_BYTES :: nat where
  "MAX_REGION_BYTES = 63"

definition validate_region :: "str \<Rightarrow> s3_model_error + unit" where
  "validate_region region =
     (if region \<noteq> [] \<and> length region \<le> MAX_REGION_BYTES
         \<and> list_all (\<lambda>c. is_ascii_alphanumeric c \<or> c = CHR ''-'') region
         \<and> \<not> starts_with region ''-'' \<and> \<not> ends_with region ''-''
      then Ok () else Err InvalidRegion)"

definition configuration_from_persistence ::
  "persisted_bucket_s3_configuration \<Rightarrow> s3_model_error + bucket_s3_configuration" where
  "configuration_from_persistence p =
     and_then (validate_region (bc_region p)) (\<lambda>_.
       if bc_revision p = 0 then Err InvalidConfigurationRevision
       else and_then (case bc_lifecycle_configuration p of
                        None \<Rightarrow> Ok ()
                      | Some configuration \<Rightarrow> lifecycle_configuration_validate configuration) (\<lambda>_.
         if bc_default_retention p \<noteq> None \<and> \<not> bc_object_lock_enabled p
         then Err RetentionRequiresObjectLock
         else if bc_object_lock_enabled p \<and> bc_versioning_status p \<noteq> VersioningEnabled
         then Err ObjectLockRequiresEnabledVersioning
         else Ok p))"

definition configuration_new ::
  "str \<Rightarrow> bool \<Rightarrow> default_retention option \<Rightarrow> s3_lifecycle_configuration option \<Rightarrow> timestamp
   \<Rightarrow> s3_model_error + bucket_s3_configuration" where
  "configuration_new region object_lock_enabled default_retention lifecycle_configuration now =
     configuration_from_persistence
       \<lparr>bc_region = region,
        bc_versioning_status = (if object_lock_enabled then VersioningEnabled else Unversioned),
        bc_object_lock_enabled = object_lock_enabled,
        bc_default_retention = default_retention,
        bc_lifecycle_configuration = lifecycle_configuration,
        bc_revision = 1,
        bc_updated_at = now\<rparr>"

text \<open>The common tail of the three mutators: bump the revision, then stamp the time.\<close>

definition bump_revision ::
  "bucket_s3_configuration \<Rightarrow> timestamp \<Rightarrow> bucket_s3_configuration \<times> (s3_model_error + bool)" where
  "bump_revision c now =
     (case checked_add (bc_revision c) 1 of
        None \<Rightarrow> (c, Err InvalidConfigurationRevision)
      | Some r \<Rightarrow> (c\<lparr>bc_revision := r, bc_updated_at := now\<rparr>, Ok True))"

definition transition_versioning ::
  "bucket_s3_configuration \<Rightarrow> versioning_status \<Rightarrow> timestamp
   \<Rightarrow> bucket_s3_configuration \<times> (s3_model_error + bool)" where
  "transition_versioning c next now =
     (if bc_object_lock_enabled c \<and> next \<noteq> VersioningEnabled
      then (c, Err ObjectLockRequiresEnabledVersioning)
      else if \<not> can_transition_to (bc_versioning_status c) next
      then (c, Err (InvalidVersioningTransition (bc_versioning_status c) next))
      else if bc_versioning_status c = next then (c, Ok False)
      else bump_revision (c\<lparr>bc_versioning_status := next\<rparr>) now)"

definition replace_lifecycle_configuration ::
  "bucket_s3_configuration \<Rightarrow> s3_lifecycle_configuration option \<Rightarrow> timestamp
   \<Rightarrow> bucket_s3_configuration \<times> (s3_model_error + bool)" where
  "replace_lifecycle_configuration c lifecycle_configuration now =
     (case (case lifecycle_configuration of
              None \<Rightarrow> Ok ()
            | Some configuration \<Rightarrow> lifecycle_configuration_validate configuration) of
        Inl e \<Rightarrow> (c, Err e)
      | Inr _ \<Rightarrow>
          if bc_lifecycle_configuration c = lifecycle_configuration then (c, Ok False)
          else bump_revision (c\<lparr>bc_lifecycle_configuration := lifecycle_configuration\<rparr>) now)"

definition replace_object_lock_configuration ::
  "bucket_s3_configuration \<Rightarrow> default_retention option \<Rightarrow> timestamp
   \<Rightarrow> bucket_s3_configuration \<times> (s3_model_error + bool)" where
  "replace_object_lock_configuration c default_retention now =
     (if bc_object_lock_enabled c \<and> bc_versioning_status c = VersioningEnabled
         \<and> bc_default_retention c = default_retention
      then (c, Ok False)
      else bump_revision
        (c\<lparr>bc_object_lock_enabled := True, bc_versioning_status := VersioningEnabled,
           bc_default_retention := default_retention\<rparr>) now)"

section \<open>Buckets\<close>

type_synonym bucket_id = uuid
type_synonym application_id = uuid

record s3_bucket =
  sb_id :: bucket_id
  sb_application_id :: application_id
  sb_name :: str
  sb_configuration :: bucket_s3_configuration
  sb_created_at :: timestamp

type_synonym persisted_s3_bucket = s3_bucket

definition validate_s3_bucket_name :: "str \<Rightarrow> s3_model_error + unit" where
  "validate_s3_bucket_name name =
     (if 3 \<le> length name \<and> length name \<le> 63
         \<and> list_all (\<lambda>c. is_ascii_lowercase c \<or> is_ascii_digit c \<or> c = CHR ''-'' \<or> c = CHR ''.'') name
         \<and> (case name of [] \<Rightarrow> False | c # _ \<Rightarrow> is_ascii_lowercase c \<or> is_ascii_digit c)
         \<and> (case rev name of [] \<Rightarrow> False | c # _ \<Rightarrow> is_ascii_lowercase c \<or> is_ascii_digit c)
         \<and> \<not> contains_str name ''..'' \<and> \<not> contains_str name ''.-'' \<and> \<not> contains_str name ''-.''
      then Ok () else Err InvalidBucketName)"

definition s3_bucket_new ::
  "bucket_id \<Rightarrow> application_id \<Rightarrow> str \<Rightarrow> str \<Rightarrow> bool \<Rightarrow> default_retention option \<Rightarrow> timestamp
   \<Rightarrow> s3_model_error + s3_bucket" where
  "s3_bucket_new i application_id name region object_lock_enabled default_retention now =
     and_then (validate_s3_bucket_name name) (\<lambda>_.
     and_then (configuration_new region object_lock_enabled default_retention None now) (\<lambda>configuration.
       Ok \<lparr>sb_id = i, sb_application_id = application_id, sb_name = name,
           sb_configuration = configuration, sb_created_at = now\<rparr>))"

definition s3_bucket_from_persistence :: "persisted_s3_bucket \<Rightarrow> s3_model_error + s3_bucket" where
  "s3_bucket_from_persistence p =
     and_then (validate_s3_bucket_name (sb_name p)) (\<lambda>_.
     and_then (configuration_from_persistence (sb_configuration p)) (\<lambda>configuration.
       Ok \<lparr>sb_id = sb_id p, sb_application_id = sb_application_id p, sb_name = sb_name p,
           sb_configuration = configuration, sb_created_at = sb_created_at p\<rparr>))"

section \<open>Histories of a configuration\<close>

datatype config_op =
    SetVersioning versioning_status timestamp
  | SetLifecycle "s3_lifecycle_configuration option" timestamp
  | SetObjectLock "default_retention option" timestamp

fun config_apply :: "bucket_s3_configuration \<Rightarrow> config_op \<Rightarrow> bucket_s3_configuration \<times> (s3_model_error + bool)" where
  "config_apply c (SetVersioning next now) = transition_versioning c next now"
| "config_apply c (SetLifecycle l now) = replace_lifecycle_configuration c l now"
| "config_apply c (SetObjectLock d now) = replace_object_lock_configuration c d now"

fun config_op_time :: "config_op \<Rightarrow> timestamp" where
  "config_op_time (SetVersioning next now) = now"
| "config_op_time (SetLifecycle l now) = now"
| "config_op_time (SetObjectLock d now) = now"

definition config_step :: "bucket_s3_configuration \<Rightarrow> config_op \<Rightarrow> bucket_s3_configuration" where
  "config_step c x = fst (config_apply c x)"

definition config_valid :: "bucket_s3_configuration \<Rightarrow> bool" where
  "config_valid c \<longleftrightarrow> configuration_from_persistence c = Ok c"

lemmas config_op_defs =
  transition_versioning_def replace_lifecycle_configuration_def
  replace_object_lock_configuration_def bump_revision_def

lemma configuration_from_persistence_Ok:
  "configuration_from_persistence p = Ok c \<Longrightarrow> c = p"
  by (auto simp: configuration_from_persistence_def result_simps split: if_splits)

lemma config_valid_iff:
  "config_valid c \<longleftrightarrow>
     validate_region (bc_region c) = Ok () \<and> bc_revision c \<noteq> 0
     \<and> (\<forall>l. bc_lifecycle_configuration c = Some l \<longrightarrow> lifecycle_configuration_validate l = Ok ())
     \<and> (bc_default_retention c \<noteq> None \<longrightarrow> bc_object_lock_enabled c)
     \<and> (bc_object_lock_enabled c \<longrightarrow> bc_versioning_status c = VersioningEnabled)"
  by (cases "bc_lifecycle_configuration c")
     (auto simp: config_valid_def configuration_from_persistence_def result_simps)

lemma configuration_new_valid: "configuration_new r l d lc now = Ok c \<Longrightarrow> config_valid c"
  unfolding configuration_new_def config_valid_def
  by (metis configuration_from_persistence_Ok)

lemma bump_revision_fst:
  "fst (bump_revision c now) = c \<or>
   (\<exists>r. unat r = Suc (unat (bc_revision c)) \<and> r \<noteq> 0
        \<and> fst (bump_revision c now) = c\<lparr>bc_revision := r, bc_updated_at := now\<rparr>)"
proof (cases "checked_add (bc_revision c) 1")
  case None
  then show ?thesis by (simp add: bump_revision_def)
next
  case (Some r)
  then have "unat r = Suc (unat (bc_revision c))" by (rule checked_add_one_Some)
  moreover from this have "r \<noteq> 0" by auto
  ultimately show ?thesis using Some by (auto simp: bump_revision_def)
qed

lemma config_valid_bump: "config_valid c \<Longrightarrow> config_valid (fst (bump_revision c now))"
  using bump_revision_fst [of c now] by (auto simp: config_valid_iff)

lemma bump_revision_frame [simp]:
  "bc_versioning_status (fst (bump_revision c now)) = bc_versioning_status c"
  "bc_object_lock_enabled (fst (bump_revision c now)) = bc_object_lock_enabled c"
  "unat (bc_revision c) \<le> unat (bc_revision (fst (bump_revision c now)))"
  using bump_revision_fst [of c now] by auto

lemma transition_versioning_valid:
  "config_valid c \<Longrightarrow> config_valid (fst (transition_versioning c next now))"
  unfolding transition_versioning_def
  by (auto intro!: config_valid_bump) (auto simp: config_valid_iff)

lemma replace_lifecycle_configuration_valid:
  "config_valid c \<Longrightarrow> config_valid (fst (replace_lifecycle_configuration c l now))"
  unfolding replace_lifecycle_configuration_def
  by (auto intro!: config_valid_bump split: sum.splits option.splits) (auto simp: config_valid_iff)

lemma replace_object_lock_configuration_valid:
  "config_valid c \<Longrightarrow> config_valid (fst (replace_object_lock_configuration c d now))"
  unfolding replace_object_lock_configuration_def
  by (auto intro!: config_valid_bump) (auto simp: config_valid_iff)

lemma config_step_valid: "config_valid c \<Longrightarrow> config_valid (config_step c x)"
  by (cases x) (simp_all add: config_step_def transition_versioning_valid
    replace_lifecycle_configuration_valid replace_object_lock_configuration_valid)

text \<open>What an operation does to the versioning status, the lock flag and the revision.\<close>

lemma config_step_versioned:
  "bc_versioning_status c \<noteq> Unversioned \<Longrightarrow> bc_versioning_status (config_step c x) \<noteq> Unversioned"
  by (cases x; cases "bc_versioning_status c")
     (auto simp: config_step_def transition_versioning_def replace_lifecycle_configuration_def
       replace_object_lock_configuration_def split: sum.splits)

lemma config_step_locked:
  "bc_object_lock_enabled c \<Longrightarrow> bc_object_lock_enabled (config_step c x)"
  by (cases x)
     (auto simp: config_step_def transition_versioning_def replace_lifecycle_configuration_def
       replace_object_lock_configuration_def split: sum.splits)

lemma config_step_revision: "bc_revision c \<le> bc_revision (config_step c x)"
  by (cases x)
     (auto simp: config_step_def transition_versioning_def replace_lifecycle_configuration_def
       replace_object_lock_configuration_def word_le_nat_alt split: sum.splits
       intro: order_trans [OF _ bump_revision_frame(3)])

interpretation cfg: rehydratable config_valid config_step "\<lambda>_ _. True" id configuration_from_persistence
  by unfold_locales (auto simp: config_step_valid, simp add: config_valid_def)

interpretation cfg_versioned: ranked config_valid config_step "\<lambda>_ _. True"
  "\<lambda>c. bc_versioning_status c \<noteq> Unversioned"
  by unfold_locales (auto simp: config_step_valid config_step_versioned)

interpretation cfg_locked: ranked config_valid config_step "\<lambda>_ _. True" bc_object_lock_enabled
  by unfold_locales (auto simp: config_step_valid config_step_locked)

interpretation cfg_revision: ranked config_valid config_step "\<lambda>_ _. True" bc_revision
  by unfold_locales (auto simp: config_step_valid config_step_revision)

section \<open>Properties\<close>

text \<open>An unversioned bucket's configuration at a given revision, used in the examples below.\<close>

definition configuration_example :: "u64 \<Rightarrow> bucket_s3_configuration" where
  "configuration_example revision =
     \<lparr>bc_region = ''us-east-1'', bc_versioning_status = Unversioned,
      bc_object_lock_enabled = False, bc_default_retention = None,
      bc_lifecycle_configuration = None, bc_revision = revision, bc_updated_at = 0\<rparr>"

text \<open>C32: whatever sequence of versioning, lifecycle and Object Lock calls a configuration that
  \<open>BucketS3Configuration::new\<close> accepted goes through (failed calls included), the result
  still passes every check of \<open>from_persistence\<close> and is read back unchanged.\<close>

theorem configuration_history_rehydrates:
  assumes "configuration_new region lock dr lc now = Ok c"
  shows "configuration_from_persistence (run config_step c ops) = Ok (run config_step c ops)"
  using cfg.run_rehydrates [of c ops] configuration_new_valid [OF assms] by simp

theorem configuration_history_rehydrates_witness:
  "configuration_new ''us-east-1'' False None None 0 = Ok (configuration_example 1)
   \<and> configuration_from_persistence
       (run config_step (configuration_example 1)
         [SetVersioning VersioningEnabled 1, SetVersioning Unversioned 2, SetObjectLock None 3])
     = Ok (run config_step (configuration_example 1)
         [SetVersioning VersioningEnabled 1, SetVersioning Unversioned 2, SetObjectLock None 3])"
proof -
  have h: "configuration_new ''us-east-1'' False None None 0 = Ok (configuration_example 1)"
    by code_simp
  from h configuration_history_rehydrates [OF h] show ?thesis by blast
qed

text \<open>C33: versioning and Object Lock are irreversible. Along any history of calls on a valid
  configuration, a bucket that has left \<open>Unversioned\<close> never returns to it, a bucket with
  Object Lock keeps it and keeps versioning enabled, and the revision never decreases.\<close>

theorem configuration_irreversible:
  assumes "config_valid c"
  shows "(bc_versioning_status c \<noteq> Unversioned
            \<longrightarrow> bc_versioning_status (run config_step c ops) \<noteq> Unversioned)
         \<and> (bc_object_lock_enabled c
            \<longrightarrow> bc_object_lock_enabled (run config_step c ops)
              \<and> bc_versioning_status (run config_step c ops) = VersioningEnabled)
         \<and> bc_revision c \<le> bc_revision (run config_step c ops)"
proof -
  have valid: "config_valid (run config_step c ops)"
    using assms by (simp add: cfg.run_valid)
  moreover have "bc_versioning_status c \<noteq> Unversioned
      \<longrightarrow> bc_versioning_status (run config_step c ops) \<noteq> Unversioned"
    using cfg_versioned.run_rank [of c ops] assms by (auto simp: le_bool_def)
  moreover have "bc_object_lock_enabled c \<longrightarrow> bc_object_lock_enabled (run config_step c ops)"
    using cfg_locked.run_rank [of c ops] assms by (auto simp: le_bool_def)
  moreover have "bc_revision c \<le> bc_revision (run config_step c ops)"
    using cfg_revision.run_rank [of c ops] assms by simp
  ultimately show ?thesis by (simp add: config_valid_iff)
qed

theorem configuration_irreversible_witness:
  "bc_versioning_status
     (run config_step (configuration_example 7\<lparr>bc_versioning_status := VersioningEnabled\<rparr>)
        [SetVersioning Unversioned 1, SetVersioning VersioningSuspended 2]) \<noteq> Unversioned"
proof -
  let ?c = "configuration_example 7\<lparr>bc_versioning_status := VersioningEnabled\<rparr>"
  have "config_valid ?c" by code_simp
  from configuration_irreversible [OF this,
      of "[SetVersioning Unversioned 1, SetVersioning VersioningSuspended 2]"]
  show ?thesis by (simp add: configuration_example_def del: run_simps)
qed

text \<open>Outcome of every configuration call while the revision counter has room: \<open>Ok(true)\<close>
  advances the revision by exactly one and stamps the call's time, while \<open>Ok(false)\<close> and
  every error leave the configuration exactly as it was.\<close>

theorem configuration_outcome:
  assumes "bc_revision c \<noteq> - 1"
  shows "case snd (config_apply c x) of
           Inr True \<Rightarrow> unat (bc_revision (config_step c x)) = unat (bc_revision c) + 1
                      \<and> bc_updated_at (config_step c x) = config_op_time x
         | Inr False \<Rightarrow> config_step c x = c
         | Inl e \<Rightarrow> config_step c x = c"
proof -
  obtain r where r: "checked_add (bc_revision c) 1 = Some r"
    using assms checked_add_one_None_iff [of "bc_revision c"] by (cases "checked_add (bc_revision c) 1") auto
  then have "unat r = Suc (unat (bc_revision c))" by (rule checked_add_one_Some)
  with r show ?thesis
    by (cases x) (auto simp: config_step_def config_op_defs split: sum.splits)
qed

text \<open>At the last revision the versioning call is not atomic: with the revision counter at
  \<open>u64::MAX\<close>, enabling versioning on an unversioned, unlocked bucket reports
  \<open>InvalidConfigurationRevision\<close> although the configuration has already been switched to
  \<open>Enabled\<close> under its old revision and time stamp.\<close>

theorem transition_versioning_overflow_mutates:
  assumes "bc_revision c = - 1" and "bc_versioning_status c = Unversioned"
    and "\<not> bc_object_lock_enabled c"
  shows "transition_versioning c VersioningEnabled now
           = (c\<lparr>bc_versioning_status := VersioningEnabled\<rparr>, Err InvalidConfigurationRevision)"
proof -
  have "checked_add (- 1 :: u64) 1 = None" by (simp add: checked_add_one_None_iff)
  with assms show ?thesis by (simp add: config_op_defs)
qed

end
