(* ===== verification/S3_Tagging.thy ===== *)
theory S3_Tagging
  imports MH_Prelude
begin

text \<open>
  \<^verbatim>\<open>crates/mediahub-core/src/s3_tagging.rs\<close>: object and bucket tags. The two Unicode derived
  properties \<open>char::is_alphabetic\<close> and \<open>char::is_numeric\<close> are tables of the standard library and
  enter as the parameter \<open>unicode_tables\<close>; counting, whitespace and control classes are defined.
\<close>

record unicode_tables =
  uc_is_alphabetic :: "nat \<Rightarrow> bool"
  uc_is_numeric :: "nat \<Rightarrow> bool"

definition MAX_S3_OBJECT_TAGS :: nat where
  "MAX_S3_OBJECT_TAGS = 10"

definition MAX_S3_BUCKET_TAGS :: nat where
  "MAX_S3_BUCKET_TAGS = 50"

definition MAX_S3_OBJECT_TAG_KEY_CHARS :: nat where
  "MAX_S3_OBJECT_TAG_KEY_CHARS = 128"

definition MAX_S3_OBJECT_TAG_VALUE_CHARS :: nat where
  "MAX_S3_OBJECT_TAG_VALUE_CHARS = 256"

datatype s3_tagging_error = TooManyTags | InvalidKey | InvalidValue | DuplicateKey

record s3_object_tag =
  tag_key :: str
  tag_value :: str

definition is_valid_tag_character :: "unicode_tables \<Rightarrow> nat \<Rightarrow> bool" where
  "is_valid_tag_character uc c \<longleftrightarrow>
     uc_is_alphabetic uc c \<or> uc_is_numeric uc c
     \<or> (char_is_whitespace c \<and> \<not> char_is_control c)
     \<or> c \<in> set (map byte ''_.:/=+-@'')"

definition validate_tag_text ::
  "unicode_tables \<Rightarrow> str \<Rightarrow> nat \<Rightarrow> nat \<Rightarrow> s3_tagging_error \<Rightarrow> s3_tagging_error + unit" where
  "validate_tag_text uc value minimum_chars maximum_chars error =
     (let count = length (chars value) in
      if \<not> (minimum_chars \<le> count \<and> count \<le> maximum_chars)
         \<or> \<not> list_all (is_valid_tag_character uc) (chars value)
      then Err error else Ok ())"

definition tag_validate :: "unicode_tables \<Rightarrow> s3_object_tag \<Rightarrow> s3_tagging_error + unit" where
  "tag_validate uc tag =
     and_then (validate_tag_text uc (tag_key tag) 1 MAX_S3_OBJECT_TAG_KEY_CHARS InvalidKey) (\<lambda>_.
       validate_tag_text uc (tag_value tag) 0 MAX_S3_OBJECT_TAG_VALUE_CHARS InvalidValue)"

definition tag_new :: "unicode_tables \<Rightarrow> str \<Rightarrow> str \<Rightarrow> s3_tagging_error + s3_object_tag" where
  "tag_new uc key value =
     (let tag = \<lparr>tag_key = key, tag_value = value\<rparr> in
      and_then (tag_validate uc tag) (\<lambda>_. Ok tag))"

text \<open>The loop of \<open>validate_tag_set\<close>; \<open>keys\<close> is the hash set of keys seen so far.\<close>

fun validate_tags :: "unicode_tables \<Rightarrow> str set \<Rightarrow> s3_object_tag list \<Rightarrow> s3_tagging_error + unit" where
  "validate_tags uc keys [] = Ok ()"
| "validate_tags uc keys (t # ts) =
     and_then (tag_validate uc t) (\<lambda>_.
       if tag_key t \<in> keys then Err DuplicateKey
       else validate_tags uc (insert (tag_key t) keys) ts)"

definition validate_tag_set ::
  "unicode_tables \<Rightarrow> s3_object_tag list \<Rightarrow> nat \<Rightarrow> s3_tagging_error + unit" where
  "validate_tag_set uc tags maximum_tags =
     (if length tags > maximum_tags then Err TooManyTags else validate_tags uc {} tags)"

datatype s3_object_tag_set = ObjectTagSet (object_tags_vec: "s3_object_tag list")

datatype s3_bucket_tag_set = BucketTagSet (bucket_tags_vec: "s3_object_tag list")

definition object_tag_set_new :: "unicode_tables \<Rightarrow> s3_object_tag list \<Rightarrow> s3_tagging_error + s3_object_tag_set" where
  "object_tag_set_new uc tags =
     and_then (validate_tag_set uc tags MAX_S3_OBJECT_TAGS) (\<lambda>_. Ok (ObjectTagSet tags))"

definition object_tag_set_validate :: "unicode_tables \<Rightarrow> s3_object_tag_set \<Rightarrow> s3_tagging_error + unit" where
  "object_tag_set_validate uc s =
     and_then (object_tag_set_new uc (object_tags_vec s)) (\<lambda>_. Ok ())"

definition bucket_tag_set_new :: "unicode_tables \<Rightarrow> s3_object_tag list \<Rightarrow> s3_tagging_error + s3_bucket_tag_set" where
  "bucket_tag_set_new uc tags =
     and_then (validate_tag_set uc tags MAX_S3_BUCKET_TAGS) (\<lambda>_. Ok (BucketTagSet tags))"

definition bucket_tag_set_validate :: "unicode_tables \<Rightarrow> s3_bucket_tag_set \<Rightarrow> s3_tagging_error + unit" where
  "bucket_tag_set_validate uc s =
     and_then (bucket_tag_set_new uc (bucket_tags_vec s)) (\<lambda>_. Ok ())"

section \<open>What validation accepts\<close>

lemma tag_validate_Ok_iff:
  "tag_validate uc t = Ok () \<longleftrightarrow>
     1 \<le> length (chars (tag_key t)) \<and> length (chars (tag_key t)) \<le> 128
     \<and> length (chars (tag_value t)) \<le> 256
     \<and> list_all (is_valid_tag_character uc) (chars (tag_key t) @ chars (tag_value t))"
  by (auto simp: tag_validate_def validate_tag_text_def MAX_S3_OBJECT_TAG_KEY_CHARS_def
      MAX_S3_OBJECT_TAG_VALUE_CHARS_def result_simps Let_def)

lemma validate_tags_Ok_iff:
  "validate_tags uc keys ts = Ok () \<longleftrightarrow>
     (\<forall>t \<in> set ts. tag_validate uc t = Ok ()) \<and> distinct (map tag_key ts)
     \<and> set (map tag_key ts) \<inter> keys = {}"
  by (induction ts arbitrary: keys) (auto simp: result_simps)

lemma validate_tag_set_Ok_iff:
  "validate_tag_set uc ts n = Ok () \<longleftrightarrow>
     length ts \<le> n \<and> (\<forall>t \<in> set ts. tag_validate uc t = Ok ()) \<and> distinct (map tag_key ts)"
  by (auto simp: validate_tag_set_def validate_tags_Ok_iff)

lemma tag_new_self_iff: "tag_new uc (tag_key t) (tag_value t) = Ok t \<longleftrightarrow> tag_validate uc t = Ok ()"
  by (cases t) (simp add: tag_new_def Let_def result_simps)

section \<open>Properties\<close>

text \<open>\<open>S3ObjectTagSet::new\<close> and \<open>S3BucketTagSet::new\<close> accept a list of tags exactly when it
  stays within the resource limit (10 and 50), every tag satisfies the key and value rules, and
  no key occurs twice; an accepted set keeps the given tags in the given order.\<close>

theorem tag_set_new_Ok_iff:
  "(object_tag_set_new uc ts = Ok s \<longleftrightarrow>
      s = ObjectTagSet ts \<and> length ts \<le> 10 \<and> (\<forall>t \<in> set ts. tag_new uc (tag_key t) (tag_value t) = Ok t)
      \<and> distinct (map tag_key ts))
   \<and> (bucket_tag_set_new uc ts = Ok b \<longleftrightarrow>
      b = BucketTagSet ts \<and> length ts \<le> 50 \<and> (\<forall>t \<in> set ts. tag_new uc (tag_key t) (tag_value t) = Ok t)
      \<and> distinct (map tag_key ts))"
  by (auto simp: object_tag_set_new_def bucket_tag_set_new_def tag_new_self_iff result_simps
      validate_tag_set_Ok_iff MAX_S3_OBJECT_TAGS_def MAX_S3_BUCKET_TAGS_def)

end
