(* ===== verification/S3_Storage.thy ===== *)
theory S3_Storage
  imports S3_Bucket S3_Tagging
begin

text \<open>
  \<^verbatim>\<open>crates/mediahub-core/src/s3_storage.rs\<close>: entity tags, checksums, the durable upload
  intent that owns an in-flight payload, and storage garbage-collection tasks. An intent is
  accepted from persistence only when its facts, lease and commit pointers agree with its state.
\<close>

section \<open>Entity tags and checksums\<close>

definition MAX_OPAQUE_TAG_BYTES :: nat where
  "MAX_OPAQUE_TAG_BYTES = 1024"

definition MAX_STORAGE_NAME_BYTES :: nat where
  "MAX_STORAGE_NAME_BYTES = 255"

definition MAX_STORAGE_KEY_BYTES :: nat where
  "MAX_STORAGE_KEY_BYTES = 2048"

definition MAX_GC_ERROR_BYTES :: nat where
  "MAX_GC_ERROR_BYTES = 4096"

datatype entity_tag = EntityTag (entity_tag_str: str)

definition entity_tag_new :: "str \<Rightarrow> s3_model_error + entity_tag" where
  "entity_tag_new value =
     (if value \<noteq> [] \<and> length value \<le> MAX_OPAQUE_TAG_BYTES
         \<and> \<not> list_ex (\<lambda>c. byte c = 34) value \<and> \<not> list_ex is_ascii_control value
      then Ok (EntityTag value) else Err InvalidEntityTag)"

datatype checksum_algorithm = Sha256

record checksum =
  cs_algorithm :: checksum_algorithm
  cs_value :: str

definition sha256_hex :: "str \<Rightarrow> s3_model_error + checksum" where
  "sha256_hex value =
     (if length value \<noteq> 64 \<or> \<not> list_all is_ascii_hexdigit value then Err InvalidChecksum
      else Ok \<lparr>cs_algorithm = Sha256, cs_value = to_ascii_lowercase value\<rparr>)"

fun checksum_from_parts :: "checksum_algorithm \<Rightarrow> str \<Rightarrow> s3_model_error + checksum" where
  "checksum_from_parts Sha256 value = sha256_hex value"

section \<open>Upload intents\<close>

type_synonym upload_intent_id = uuid
type_synonym storage_gc_task_id = uuid
type_synonym object_id = uuid
type_synonym object_version_id = uuid

datatype upload_intent_state =
  IntentStaging | IntentReady | IntentCommitting | IntentCommitted | IntentAborted | IntentExpired

record upload_intent =
  ui_id :: upload_intent_id
  ui_application_id :: application_id
  ui_bucket_id :: bucket_id
  ui_object_key :: str
  ui_proposed_version_id :: object_version_id
  ui_state :: upload_intent_state
  ui_storage_backend :: str
  ui_temporary_storage_key :: str
  ui_final_storage_key :: str
  ui_entity_tag :: "entity_tag option"
  ui_checksum :: "checksum option"
  ui_expected_size_bytes :: u64
  ui_size_bytes :: "u64 option"
  ui_content_type :: "str option"
  ui_user_metadata :: json
  ui_object_tags :: s3_object_tag_set
  ui_lease_token :: "str option"
  ui_lease_until :: "timestamp option"
  ui_committed_object_id :: "object_id option"
  ui_committed_version_id :: "object_version_id option"
  ui_expires_at :: timestamp
  ui_created_at :: timestamp
  ui_updated_at :: timestamp

type_synonym persisted_upload_intent = upload_intent

definition validate_storage_locator :: "str \<Rightarrow> str \<Rightarrow> s3_model_error + unit" where
  "validate_storage_locator backend key =
     (if backend = [] \<or> length backend > MAX_STORAGE_NAME_BYTES
         \<or> key = [] \<or> length key > MAX_STORAGE_KEY_BYTES
         \<or> list_ex is_ascii_control backend \<or> list_ex is_ascii_control key
      then Err InvalidStorageLocator else Ok ())"

definition validate_object_key :: "str \<Rightarrow> s3_model_error + unit" where
  "validate_object_key key =
     (if key = [] \<or> length key > 1024 \<or> list_ex (\<lambda>c. byte c = 0) key
      then Err InvalidObjectKey else Ok ())"

definition valid_token :: "str \<Rightarrow> bool" where
  "valid_token value \<longleftrightarrow> value \<noteq> [] \<and> length value \<le> 1024 \<and> \<not> list_ex is_ascii_control value"

definition intent_fact_count :: "persisted_upload_intent \<Rightarrow> nat" where
  "intent_fact_count p =
     of_bool (ui_entity_tag p \<noteq> None) + of_bool (ui_checksum p \<noteq> None) + of_bool (ui_size_bytes p \<noteq> None)"

definition intent_state_is_valid :: "upload_intent_state \<Rightarrow> bool \<Rightarrow> bool \<Rightarrow> bool \<Rightarrow> bool" where
  "intent_state_is_valid state has_facts has_lease has_commit =
     (case state of
        IntentStaging \<Rightarrow> \<not> has_facts \<and> \<not> has_lease \<and> \<not> has_commit
      | IntentReady \<Rightarrow> has_facts \<and> \<not> has_lease \<and> \<not> has_commit
      | IntentCommitting \<Rightarrow> has_facts \<and> has_lease \<and> \<not> has_commit
      | IntentCommitted \<Rightarrow> has_facts \<and> \<not> has_lease \<and> has_commit
      | IntentAborted \<Rightarrow> \<not> has_lease \<and> \<not> has_commit
      | IntentExpired \<Rightarrow> \<not> has_lease \<and> \<not> has_commit)"

definition intent_from_persistence ::
  "unicode_tables \<Rightarrow> persisted_upload_intent \<Rightarrow> s3_model_error + upload_intent" where
  "intent_from_persistence uc p =
     and_then (validate_object_key (ui_object_key p)) (\<lambda>_.
     and_then (validate_storage_locator (ui_storage_backend p) (ui_temporary_storage_key p)) (\<lambda>_.
     and_then (validate_storage_locator (ui_storage_backend p) (ui_final_storage_key p)) (\<lambda>_.
       if ui_temporary_storage_key p = ui_final_storage_key p
          \<or> \<not> is_object (ui_user_metadata p)
          \<or> \<not> is_ok (object_tag_set_validate uc (ui_object_tags p))
          \<or> ui_expires_at p \<le> ui_created_at p
       then Err InvalidUploadIntent
       else if intent_fact_count p \<noteq> 0 \<and> intent_fact_count p \<noteq> 3 then Err InvalidUploadIntent
       else if is_some_and (ui_size_bytes p) (\<lambda>size. size \<noteq> ui_expected_size_bytes p)
       then Err InvalidUploadIntent
       else
         let has_facts = (intent_fact_count p = 3);
             has_lease = (ui_lease_token p \<noteq> None \<and> ui_lease_until p \<noteq> None);
             has_commit = (ui_committed_object_id p \<noteq> None \<and> ui_committed_version_id p \<noteq> None)
         in if \<not> intent_state_is_valid (ui_state p) has_facts has_lease has_commit
               \<or> (ui_lease_token p \<noteq> None) \<noteq> (ui_lease_until p \<noteq> None)
               \<or> (ui_committed_object_id p \<noteq> None) \<noteq> (ui_committed_version_id p \<noteq> None)
               \<or> is_some_and (ui_lease_token p) (\<lambda>token. \<not> valid_token token)
            then Err InvalidUploadIntent
            else Ok p)))"

definition intent_new ::
  "unicode_tables \<Rightarrow> upload_intent_id \<Rightarrow> application_id \<Rightarrow> bucket_id \<Rightarrow> str \<Rightarrow> object_version_id
   \<Rightarrow> str \<Rightarrow> str \<Rightarrow> str \<Rightarrow> u64 \<Rightarrow> str option \<Rightarrow> json \<Rightarrow> s3_object_tag_set \<Rightarrow> timestamp \<Rightarrow> timestamp
   \<Rightarrow> s3_model_error + upload_intent" where
  "intent_new uc i application_id bucket_id object_key proposed_version_id storage_backend
     temporary_storage_key final_storage_key expected_size_bytes content_type user_metadata
     object_tags expires_at now =
     intent_from_persistence uc
       \<lparr>ui_id = i, ui_application_id = application_id, ui_bucket_id = bucket_id,
        ui_object_key = object_key, ui_proposed_version_id = proposed_version_id,
        ui_state = IntentStaging, ui_storage_backend = storage_backend,
        ui_temporary_storage_key = temporary_storage_key,
        ui_final_storage_key = final_storage_key, ui_entity_tag = None, ui_checksum = None,
        ui_expected_size_bytes = expected_size_bytes, ui_size_bytes = None,
        ui_content_type = content_type, ui_user_metadata = user_metadata,
        ui_object_tags = object_tags, ui_lease_token = None, ui_lease_until = None,
        ui_committed_object_id = None, ui_committed_version_id = None,
        ui_expires_at = expires_at, ui_created_at = now, ui_updated_at = now\<rparr>"

section \<open>Garbage-collection tasks\<close>

datatype storage_gc_reason =
  AbortedUploadIntent | MultipartTemporary | ReplacedNullVersion | LifecycleExpiration | ExplicitDelete

datatype storage_gc_task_state = GcPending | GcLeased | GcCompleted | GcDeadLetter

record new_storage_gc_task =
  gc_id :: storage_gc_task_id
  gc_application_id :: application_id
  gc_bucket_id :: bucket_id
  gc_object_version_id :: "object_version_id option"
  gc_upload_intent_id :: "upload_intent_id option"
  gc_multipart_upload_id :: "str option"
  gc_storage_backend :: str
  gc_storage_key :: str
  gc_reason :: storage_gc_reason
  gc_not_before :: timestamp
  gc_max_attempts :: u32
  gc_created_at :: timestamp

definition new_gc_task_validate :: "new_storage_gc_task \<Rightarrow> s3_model_error + unit" where
  "new_gc_task_validate t =
     and_then (validate_storage_locator (gc_storage_backend t) (gc_storage_key t)) (\<lambda>_.
       if gc_max_attempts t = 0
          \<or> is_some_and (gc_multipart_upload_id t) (\<lambda>value. \<not> valid_token value)
       then Err InvalidStorageGcTask else Ok ())"

record storage_gc_task =
  gt_task :: new_storage_gc_task
  gt_state :: storage_gc_task_state
  gt_attempts :: u32
  gt_lease_token :: "str option"
  gt_lease_until :: "timestamp option"
  gt_last_error :: "str option"
  gt_completed_at :: "timestamp option"
  gt_updated_at :: timestamp

definition gc_task_validate :: "storage_gc_task \<Rightarrow> s3_model_error + unit" where
  "gc_task_validate t =
     and_then (new_gc_task_validate (gt_task t)) (\<lambda>_.
       if gt_attempts t > gc_max_attempts (gt_task t)
          \<or> is_some_and (gt_last_error t) (\<lambda>error. length error > MAX_GC_ERROR_BYTES)
       then Err InvalidStorageGcTask
       else
         let has_lease = (gt_lease_token t \<noteq> None \<and> gt_lease_until t \<noteq> None);
             valid_state =
               (case gt_state t of
                  GcPending \<Rightarrow> \<not> has_lease \<and> gt_completed_at t = None
                | GcLeased \<Rightarrow> has_lease \<and> gt_completed_at t = None
                | GcCompleted \<Rightarrow> \<not> has_lease \<and> gt_completed_at t \<noteq> None
                | GcDeadLetter \<Rightarrow> \<not> has_lease \<and> gt_completed_at t = None)
         in if valid_state then Ok () else Err InvalidStorageGcTask)"

section \<open>What validation accepts\<close>

lemma intent_fact_count_le: "intent_fact_count p \<le> 3"
  by (simp add: intent_fact_count_def of_bool_def)

lemma intent_fact_count_3_iff:
  "intent_fact_count p = 3 \<longleftrightarrow> ui_entity_tag p \<noteq> None \<and> ui_checksum p \<noteq> None \<and> ui_size_bytes p \<noteq> None"
  by (simp add: intent_fact_count_def of_bool_def)

lemma intent_fact_count_0_iff:
  "intent_fact_count p = 0 \<longleftrightarrow> ui_entity_tag p = None \<and> ui_checksum p = None \<and> ui_size_bytes p = None"
  by (simp add: intent_fact_count_def of_bool_def)

lemma intent_from_persistence_Ok:
  assumes "intent_from_persistence uc p = Ok i"
  shows "i = p"
    and "intent_fact_count p = 0 \<or> intent_fact_count p = 3"
    and "\<And>s. ui_size_bytes p = Some s \<Longrightarrow> s = ui_expected_size_bytes p"
    and "intent_state_is_valid (ui_state p) (intent_fact_count p = 3)
           (ui_lease_token p \<noteq> None \<and> ui_lease_until p \<noteq> None)
           (ui_committed_object_id p \<noteq> None \<and> ui_committed_version_id p \<noteq> None)"
    and "(ui_lease_token p \<noteq> None) = (ui_lease_until p \<noteq> None)"
    and "(ui_committed_object_id p \<noteq> None) = (ui_committed_version_id p \<noteq> None)"
    and "ui_temporary_storage_key p \<noteq> ui_final_storage_key p"
    and "ui_created_at p < ui_expires_at p"
  using assms
  by (auto simp: intent_from_persistence_def result_simps Let_def split: if_splits)

section \<open>Properties\<close>

text \<open>An accepted upload intent is well-formed for its state: a lease is present exactly while
  the intent is committing, commit pointers are present exactly once it is committed, the three
  payload facts (entity tag, checksum, size) are present or absent together, are absent while
  staging and present from ready on, the recorded size equals the announced size, and the
  staging key differs from the final key.\<close>

theorem upload_intent_state_shape:
  assumes "intent_from_persistence uc p = Ok i"
  shows "(ui_lease_token i \<noteq> None \<longleftrightarrow> ui_state i = IntentCommitting)
       \<and> (ui_lease_until i \<noteq> None \<longleftrightarrow> ui_state i = IntentCommitting)
       \<and> (ui_committed_object_id i \<noteq> None \<longleftrightarrow> ui_state i = IntentCommitted)
       \<and> (ui_committed_version_id i \<noteq> None \<longleftrightarrow> ui_state i = IntentCommitted)
       \<and> (ui_entity_tag i \<noteq> None \<longleftrightarrow> ui_size_bytes i \<noteq> None)
       \<and> (ui_checksum i \<noteq> None \<longleftrightarrow> ui_size_bytes i \<noteq> None)
       \<and> (ui_state i = IntentStaging \<longrightarrow> ui_size_bytes i = None)
       \<and> (ui_state i \<in> {IntentReady, IntentCommitting, IntentCommitted}
            \<longrightarrow> ui_size_bytes i = Some (ui_expected_size_bytes i))
       \<and> ui_temporary_storage_key i \<noteq> ui_final_storage_key i
       \<and> ui_created_at i < ui_expires_at i"
proof -
  note ok = intent_from_persistence_Ok [OF assms]
  have facts: "(ui_entity_tag p \<noteq> None) = (ui_size_bytes p \<noteq> None)"
       "(ui_checksum p \<noteq> None) = (ui_size_bytes p \<noteq> None)"
       "(intent_fact_count p = 3) = (ui_size_bytes p \<noteq> None)"
    using ok(2) by (auto simp: intent_fact_count_3_iff intent_fact_count_0_iff)
  have state: "intent_state_is_valid (ui_state p) (ui_size_bytes p \<noteq> None)
      (ui_lease_token p \<noteq> None) (ui_committed_object_id p \<noteq> None)"
    using ok(4,5,6) facts(3) by simp
  show ?thesis
    unfolding ok(1)
    using facts(1,2) state ok(3,5,6,7,8)
    by (cases "ui_state p") (auto simp: intent_state_is_valid_def)
qed

definition intent_example :: upload_intent where
  "intent_example =
     \<lparr>ui_id = 1, ui_application_id = 2, ui_bucket_id = 3, ui_object_key = ''asset.png'',
      ui_proposed_version_id = 4, ui_state = IntentCommitting, ui_storage_backend = ''filesystem'',
      ui_temporary_storage_key = ''staging/asset'', ui_final_storage_key = ''objects/version'',
      ui_entity_tag = Some (EntityTag ''etag''),
      ui_checksum = Some \<lparr>cs_algorithm = Sha256, cs_value = ''00''\<rparr>,
      ui_expected_size_bytes = 42, ui_size_bytes = Some 42, ui_content_type = None,
      ui_user_metadata = JObject [], ui_object_tags = ObjectTagSet [],
      ui_lease_token = Some ''lease'', ui_lease_until = Some 50,
      ui_committed_object_id = None, ui_committed_version_id = None,
      ui_expires_at = 100, ui_created_at = 0, ui_updated_at = 10\<rparr>"

text \<open>SHA-256 checksums have one canonical spelling: two spellings of the same digest give the
  same checksum, a stored value is accepted again unchanged, and every accepted value is 64
  hexadecimal digits long.\<close>

theorem checksum_canonical:
  assumes "sha256_hex v = Ok c"
  shows "checksum_from_parts (cs_algorithm c) (cs_value c) = Ok c
       \<and> length (cs_value c) = 64
       \<and> (eq_ignore_ascii_case w v \<longrightarrow> sha256_hex w = Ok c)"
proof -
  have c: "c = \<lparr>cs_algorithm = Sha256, cs_value = to_ascii_lowercase v\<rparr>"
    and v: "length v = 64" "list_all is_ascii_hexdigit v"
    using assms by (auto simp: sha256_hex_def split: if_splits)
  have "sha256_hex w = Ok c" if "eq_ignore_ascii_case w v"
  proof -
    from that have eq: "to_ascii_lowercase w = to_ascii_lowercase v"
      by (simp add: eq_ignore_ascii_case_def)
    then have "length w = 64" by (metis length_to_ascii_lowercase v(1))
    moreover have "list_all is_ascii_hexdigit w"
      using v(2) eq by (metis list_all_lower_hexdigit)
    ultimately show ?thesis by (simp add: sha256_hex_def c eq)
  qed
  then show ?thesis using v by (simp add: c sha256_hex_def)
qed

end
