(* ===== verification/Object_Version.thy ===== *)
theory Object_Version
  imports S3_Storage
begin

text \<open>
  \<^verbatim>\<open>crates/mediahub-core/src/object_version.rs\<close>: S3 version ids, the immutable object version
  with its Object Lock metadata, and the logical object whose single pointer names the current
  version. The persistence records have the fields of the aggregates, so \<open>from_persistence\<close> is a
  check that returns its argument.
\<close>

section \<open>Version identifiers and payloads\<close>

datatype s3_version_id = S3VersionId (version_id_str: str)

definition s3_version_id_new :: "str \<Rightarrow> s3_model_error + s3_version_id" where
  "s3_version_id_new value =
     (if value \<noteq> [] \<and> length value \<le> 1024 \<and> \<not> list_ex is_ascii_control value
      then Ok (S3VersionId value) else Err InvalidVersionId)"

definition version_id_is_null :: "s3_version_id \<Rightarrow> bool" where
  "version_id_is_null v \<longleftrightarrow> version_id_str v = ''null''"

datatype object_version_state = VersionStaged | VersionCommitted | VersionDeleting | VersionFailed

datatype source_protocol = ProtocolS3 | ProtocolDav | ProtocolJson | ProtocolProcessor

datatype object_retention_update_error =
    InvalidVersion | RetainUntilMustBeFuture | ComplianceRetentionLocked | GovernanceRetentionLocked

record stored_object_version =
  sv_storage_backend :: str
  sv_storage_key :: str
  sv_provider_etag :: "entity_tag option"
  sv_provider_version :: "str option"
  sv_etag :: entity_tag
  sv_size_bytes :: u64
  sv_content_type :: "str option"
  sv_user_metadata :: json
  sv_checksum :: "checksum option"

definition stored_object_version_new ::
  "str \<Rightarrow> str \<Rightarrow> entity_tag option \<Rightarrow> str option \<Rightarrow> entity_tag \<Rightarrow> u64 \<Rightarrow> str option \<Rightarrow> json
   \<Rightarrow> checksum option \<Rightarrow> s3_model_error + stored_object_version" where
  "stored_object_version_new storage_backend storage_key provider_etag provider_version etag
     size_bytes content_type user_metadata checksum =
     (if storage_backend = [] \<or> storage_key = [] \<or> \<not> is_object user_metadata
      then Err InvalidObjectVersionPayload
      else Ok \<lparr>sv_storage_backend = storage_backend, sv_storage_key = storage_key,
               sv_provider_etag = provider_etag, sv_provider_version = provider_version,
               sv_etag = etag, sv_size_bytes = size_bytes, sv_content_type = content_type,
               sv_user_metadata = user_metadata, sv_checksum = checksum\<rparr>)"

datatype object_version_payload = PayloadObject stored_object_version | DeleteMarker

section \<open>Object versions\<close>

record object_version =
  ov_id :: object_version_id
  ov_object_id :: object_id
  ov_application_id :: application_id
  ov_bucket_id :: bucket_id
  ov_external_version_id :: s3_version_id
  ov_generation :: u64
  ov_is_null_version :: bool
  ov_state :: object_version_state
  ov_payload :: object_version_payload
  ov_retention :: "object_retention option"
  ov_legal_hold :: bool
  ov_created_by :: str
  ov_source_protocol :: source_protocol
  ov_created_at :: timestamp
  ov_became_noncurrent_at :: "timestamp option"

type_synonym persisted_object_version = object_version

definition is_delete_marker :: "object_version \<Rightarrow> bool" where
  "is_delete_marker v \<longleftrightarrow> ov_payload v = DeleteMarker"

definition version_from_persistence :: "persisted_object_version \<Rightarrow> s3_model_error + object_version" where
  "version_from_persistence p =
     (if ov_generation p = 0 then Err InvalidObjectGeneration
      else if ov_is_null_version p \<noteq> version_id_is_null (ov_external_version_id p) then Err InvalidVersionId
      else if ov_created_by p = [] \<or> list_ex is_ascii_control (ov_created_by p) then Err InvalidCreatedBy
      else if ov_payload p = DeleteMarker \<and> (ov_retention p \<noteq> None \<or> ov_legal_hold p)
      then Err InvalidObjectVersionPayload
      else Ok p)"

definition new_object ::
  "object_version_id \<Rightarrow> object_id \<Rightarrow> application_id \<Rightarrow> bucket_id \<Rightarrow> s3_version_id \<Rightarrow> u64 \<Rightarrow> bool
   \<Rightarrow> object_version_state \<Rightarrow> stored_object_version \<Rightarrow> object_retention option \<Rightarrow> bool \<Rightarrow> str
   \<Rightarrow> source_protocol \<Rightarrow> timestamp \<Rightarrow> s3_model_error + object_version" where
  "new_object i object_id application_id bucket_id external_version_id generation is_null_version
     state object retention legal_hold created_by source_protocol created_at =
     version_from_persistence
       \<lparr>ov_id = i, ov_object_id = object_id, ov_application_id = application_id,
        ov_bucket_id = bucket_id, ov_external_version_id = external_version_id,
        ov_generation = generation, ov_is_null_version = is_null_version, ov_state = state,
        ov_payload = PayloadObject object, ov_retention = retention, ov_legal_hold = legal_hold,
        ov_created_by = created_by, ov_source_protocol = source_protocol,
        ov_created_at = created_at, ov_became_noncurrent_at = None\<rparr>"

definition new_delete_marker ::
  "object_version_id \<Rightarrow> object_id \<Rightarrow> application_id \<Rightarrow> bucket_id \<Rightarrow> s3_version_id \<Rightarrow> u64 \<Rightarrow> bool
   \<Rightarrow> str \<Rightarrow> source_protocol \<Rightarrow> timestamp \<Rightarrow> s3_model_error + object_version" where
  "new_delete_marker i object_id application_id bucket_id external_version_id generation
     is_null_version created_by source_protocol created_at =
     version_from_persistence
       \<lparr>ov_id = i, ov_object_id = object_id, ov_application_id = application_id,
        ov_bucket_id = bucket_id, ov_external_version_id = external_version_id,
        ov_generation = generation, ov_is_null_version = is_null_version,
        ov_state = VersionCommitted, ov_payload = DeleteMarker, ov_retention = None,
        ov_legal_hold = False, ov_created_by = created_by, ov_source_protocol = source_protocol,
        ov_created_at = created_at, ov_became_noncurrent_at = None\<rparr>"

definition with_became_noncurrent_at ::
  "object_version \<Rightarrow> timestamp option \<Rightarrow> s3_model_error + object_version" where
  "with_became_noncurrent_at v became_noncurrent_at =
     (if is_some_and became_noncurrent_at (\<lambda>value. value < ov_created_at v)
      then Err InvalidObjectVersionPayload
      else Ok (v\<lparr>ov_became_noncurrent_at := became_noncurrent_at\<rparr>))"

definition with_initial_object_lock ::
  "object_version \<Rightarrow> object_retention option \<Rightarrow> bool \<Rightarrow> s3_model_error + object_version" where
  "with_initial_object_lock v retention legal_hold =
     (if ov_state v \<noteq> VersionCommitted \<or> is_delete_marker v then Err InvalidObjectVersionPayload
      else if is_some_and retention (\<lambda>value. or_retain_until value \<le> ov_created_at v)
      then Err InvalidObjectRetention
      else Ok (v\<lparr>ov_retention := retention, ov_legal_hold := legal_hold\<rparr>))"

definition with_retention_update ::
  "object_version \<Rightarrow> object_retention \<Rightarrow> timestamp \<Rightarrow> bool \<Rightarrow> object_retention_update_error + object_version" where
  "with_retention_update v retention now bypass_governance =
     (if ov_state v \<noteq> VersionCommitted \<or> is_delete_marker v then Err InvalidVersion
      else if or_retain_until retention \<le> now then Err RetainUntilMustBeFuture
      else
        let proceed = Ok (v\<lparr>ov_retention := Some retention\<rparr>) in
        case ov_retention v of
          None \<Rightarrow> proceed
        | Some current \<Rightarrow>
            if or_retain_until current > now then
              (case or_mode current of
                 Compliance \<Rightarrow>
                   if or_mode retention \<noteq> Compliance \<or> or_retain_until retention < or_retain_until current
                   then Err ComplianceRetentionLocked else proceed
               | Governance \<Rightarrow>
                   if or_retain_until retention < or_retain_until current \<and> \<not> bypass_governance
                   then Err GovernanceRetentionLocked else proceed)
            else proceed)"

definition with_legal_hold_update :: "object_version \<Rightarrow> bool \<Rightarrow> s3_model_error + object_version" where
  "with_legal_hold_update v legal_hold =
     (if ov_state v \<noteq> VersionCommitted \<or> is_delete_marker v then Err InvalidObjectVersionPayload
      else Ok (v\<lparr>ov_legal_hold := legal_hold\<rparr>))"

section \<open>Logical objects\<close>

record s3_object =
  so_id :: object_id
  so_application_id :: application_id
  so_bucket_id :: bucket_id
  so_key :: str
  so_current_version_id :: "object_version_id option"
  so_generation :: u64
  so_created_at :: timestamp
  so_updated_at :: timestamp

type_synonym persisted_s3_object = s3_object

definition object_key_check :: "str \<Rightarrow> s3_model_error + unit" where
  "object_key_check key =
     (if key = [] \<or> length key > 1024 \<or> list_ex (\<lambda>c. byte c = 0) key
      then Err InvalidObjectKey else Ok ())"

definition s3_object_from_persistence :: "persisted_s3_object \<Rightarrow> s3_model_error + s3_object" where
  "s3_object_from_persistence p = and_then (object_key_check (so_key p)) (\<lambda>_. Ok p)"

definition s3_object_new ::
  "object_id \<Rightarrow> application_id \<Rightarrow> bucket_id \<Rightarrow> str \<Rightarrow> timestamp \<Rightarrow> s3_model_error + s3_object" where
  "s3_object_new i application_id bucket_id key now =
     s3_object_from_persistence
       \<lparr>so_id = i, so_application_id = application_id, so_bucket_id = bucket_id, so_key = key,
        so_current_version_id = None, so_generation = 0, so_created_at = now, so_updated_at = now\<rparr>"

definition advanced_to :: "s3_object \<Rightarrow> object_version \<Rightarrow> timestamp \<Rightarrow> s3_model_error + s3_object" where
  "advanced_to obj v now =
     (if ov_object_id v \<noteq> so_id obj \<or> ov_application_id v \<noteq> so_application_id obj
         \<or> ov_bucket_id v \<noteq> so_bucket_id obj
      then Err ObjectVersionOwnershipMismatch
      else if ov_state v \<noteq> VersionCommitted then Err InvalidObjectVersionPayload
      else case checked_add (so_generation obj) 1 of
             None \<Rightarrow> Err InvalidObjectGeneration
           | Some generation \<Rightarrow>
               if ov_generation v \<noteq> generation then Err InvalidObjectGeneration
               else Ok (obj\<lparr>so_current_version_id := Some (ov_id v), so_generation := generation,
                          so_updated_at := now\<rparr>))"

section \<open>Histories of a version\<close>

datatype version_op =
    BecameNoncurrent "timestamp option"
  | UpdateRetention object_retention timestamp bool
  | UpdateLegalHold bool

text \<open>A call that returns an error leaves the stored version as it was.\<close>

fun version_step :: "object_version \<Rightarrow> version_op \<Rightarrow> object_version" where
  "version_step v (BecameNoncurrent at) =
     (case with_became_noncurrent_at v at of Inr v' \<Rightarrow> v' | Inl _ \<Rightarrow> v)"
| "version_step v (UpdateRetention r now bypass) =
     (case with_retention_update v r now bypass of Inr v' \<Rightarrow> v' | Inl _ \<Rightarrow> v)"
| "version_step v (UpdateLegalHold h) =
     (case with_legal_hold_update v h of Inr v' \<Rightarrow> v' | Inl _ \<Rightarrow> v)"

definition version_valid :: "object_version \<Rightarrow> bool" where
  "version_valid v \<longleftrightarrow> version_from_persistence v = Ok v"

lemmas version_op_defs =
  with_became_noncurrent_at_def with_retention_update_def with_legal_hold_update_def is_delete_marker_def

lemma version_valid_iff:
  "version_valid v \<longleftrightarrow>
     ov_generation v \<noteq> 0
     \<and> (ov_is_null_version v \<longleftrightarrow> version_id_is_null (ov_external_version_id v))
     \<and> ov_created_by v \<noteq> [] \<and> \<not> list_ex is_ascii_control (ov_created_by v)
     \<and> (is_delete_marker v \<longrightarrow> ov_retention v = None \<and> \<not> ov_legal_hold v)"
  by (auto simp: version_valid_def version_from_persistence_def is_delete_marker_def)

lemma with_retention_update_Ok_iff:
  "with_retention_update v r now bypass = Ok w \<longleftrightarrow>
     ov_state v = VersionCommitted \<and> \<not> is_delete_marker v \<and> now < or_retain_until r
     \<and> (\<forall>c. ov_retention v = Some c \<and> now < or_retain_until c \<longrightarrow>
          (or_mode c = Compliance \<longrightarrow> or_mode r = Compliance \<and> or_retain_until c \<le> or_retain_until r)
          \<and> (or_mode c = Governance \<longrightarrow> bypass \<or> or_retain_until c \<le> or_retain_until r))
     \<and> w = v\<lparr>ov_retention := Some r\<rparr>"
proof (cases "ov_retention v")
  case None
  then show ?thesis by (auto simp: with_retention_update_def)
next
  case (Some c)
  then show ?thesis
    by (cases "or_mode c") (auto simp: with_retention_update_def Let_def)
qed

text \<open>The three calls touch only the chronology and lock fields.\<close>

lemma version_step_cases:
  "version_step v x = v
   \<or> (\<exists>at. version_step v x = v\<lparr>ov_became_noncurrent_at := at\<rparr>)
   \<or> (\<exists>r. version_step v x = v\<lparr>ov_retention := Some r\<rparr> \<and> \<not> is_delete_marker v)
   \<or> (\<exists>h. version_step v x = v\<lparr>ov_legal_hold := h\<rparr> \<and> \<not> is_delete_marker v)"
proof (cases x)
  case (BecameNoncurrent at)
  then show ?thesis by (auto simp: with_became_noncurrent_at_def)
next
  case (UpdateRetention r now b)
  show ?thesis
  proof (cases "with_retention_update v r now b")
    case (Inr w)
    then have "w = v\<lparr>ov_retention := Some r\<rparr>" "\<not> is_delete_marker v"
      by (simp_all add: with_retention_update_Ok_iff)
    with UpdateRetention Inr show ?thesis by auto
  qed (use UpdateRetention in simp)
next
  case (UpdateLegalHold h)
  then show ?thesis by (auto simp: with_legal_hold_update_def)
qed

lemma version_step_valid: "version_valid v \<Longrightarrow> version_valid (version_step v x)"
  using version_step_cases [of v x] by (auto simp: version_valid_iff is_delete_marker_def)

interpretation ver: rehydratable version_valid version_step "\<lambda>_ _. True" id version_from_persistence
  by unfold_locales (auto simp: version_step_valid, simp add: version_valid_def)

text \<open>The facts of a version that are frozen at commit.\<close>

definition frozen_facts :: "object_version \<Rightarrow> object_version" where
  "frozen_facts v = v\<lparr>ov_retention := None, ov_legal_hold := False, ov_became_noncurrent_at := None\<rparr>"

lemma frozen_facts_step: "frozen_facts (version_step v x) = frozen_facts v"
  using version_step_cases [of v x] by (auto simp: frozen_facts_def)

lemma frozen_facts_run: "frozen_facts (run version_step v xs) = frozen_facts v"
  by (induction xs arbitrary: v) (simp_all add: frozen_facts_step)

section \<open>Retention along a history\<close>

definition retained_until :: "retention_mode set \<Rightarrow> timestamp \<Rightarrow> object_version \<Rightarrow> bool" where
  "retained_until modes u v \<longleftrightarrow>
     is_some_and (ov_retention v) (\<lambda>r. or_mode r \<in> modes \<and> u \<le> or_retain_until r)"

text \<open>Calls made before \<open>u\<close>; the second predicate also excludes governance bypass.\<close>

fun called_before :: "timestamp \<Rightarrow> object_version \<Rightarrow> version_op \<Rightarrow> bool" where
  "called_before u v (UpdateRetention r now bypass) = (now < u)"
| "called_before u v _ = True"

fun unprivileged_before :: "timestamp \<Rightarrow> object_version \<Rightarrow> version_op \<Rightarrow> bool" where
  "unprivileged_before u v (UpdateRetention r now bypass) = (now < u \<and> \<not> bypass)"
| "unprivileged_before u v _ = True"

lemma compliance_step:
  assumes "retained_until {Compliance} u v" and "called_before u v x"
  shows "retained_until {Compliance} u (version_step v x)"
proof -
  obtain r where r: "ov_retention v = Some r" "or_mode r = Compliance" "u \<le> or_retain_until r"
    using assms(1) by (auto simp: retained_until_def is_some_and_iff)
  show ?thesis
  proof (cases x)
    case (UpdateRetention q now bypass)
    with r assms(2) show ?thesis
      by (auto simp: retained_until_def with_retention_update_def Let_def)
  qed (use r in \<open>auto simp: retained_until_def with_became_noncurrent_at_def with_legal_hold_update_def\<close>)
qed

lemma retention_step:
  assumes "retained_until UNIV u v" and "unprivileged_before u v x"
  shows "retained_until UNIV u (version_step v x)"
proof -
  obtain r where r: "ov_retention v = Some r" "u \<le> or_retain_until r"
    using assms(1) by (auto simp: retained_until_def is_some_and_iff)
  show ?thesis
  proof (cases x)
    case (UpdateRetention q now bypass)
    with r assms(2) show ?thesis
      by (cases "or_mode r") (auto simp: retained_until_def with_retention_update_def Let_def)
  qed (use r in \<open>auto simp: retained_until_def with_became_noncurrent_at_def with_legal_hold_update_def\<close>)
qed

interpretation compliance: aggregate "retained_until {Compliance} u" version_step "called_before u"
  for u by unfold_locales (rule compliance_step)

interpretation retention: aggregate "retained_until UNIV u" version_step "unprivileged_before u"
  for u by unfold_locales (rule retention_step)

section \<open>Advancing the current pointer\<close>

lemma advanced_to_Ok_iff:
  "advanced_to obj v now = Ok obj' \<longleftrightarrow>
     ov_object_id v = so_id obj \<and> ov_application_id v = so_application_id obj
     \<and> ov_bucket_id v = so_bucket_id obj \<and> ov_state v = VersionCommitted
     \<and> unat (ov_generation v) = Suc (unat (so_generation obj))
     \<and> obj' = obj\<lparr>so_current_version_id := Some (ov_id v), so_generation := ov_generation v,
                 so_updated_at := now\<rparr>"
proof (cases "checked_add (so_generation obj) 1")
  case None
  then have "so_generation obj = - 1" by (simp add: checked_add_one_None_iff)
  then have "unat (ov_generation v) \<noteq> Suc (unat (so_generation obj))"
    using unat_less_pow [of "ov_generation v"] by (simp add: unat_max_word)
  with None show ?thesis by (simp add: advanced_to_def)
next
  case (Some g)
  then have "unat g = Suc (unat (so_generation obj))" by (rule checked_add_one_Some)
  then have "ov_generation v = g \<longleftrightarrow> unat (ov_generation v) = Suc (unat (so_generation obj))"
    by (metis word_unat_eq_iff)
  with Some show ?thesis by (auto simp: advanced_to_def)
qed

text \<open>The head after committing a list of versions, each at its own time.\<close>

fun advance_all :: "s3_object \<Rightarrow> (object_version \<times> timestamp) list \<Rightarrow> s3_model_error + s3_object" where
  "advance_all obj [] = Ok obj"
| "advance_all obj ((v, now) # vs) = and_then (advanced_to obj v now) (\<lambda>obj'. advance_all obj' vs)"

lemma advance_all_generations:
  "advance_all obj vs = Ok obj' \<Longrightarrow>
     map (unat \<circ> ov_generation \<circ> fst) vs = [Suc (unat (so_generation obj)) ..< Suc (unat (so_generation obj)) + length vs]
     \<and> unat (so_generation obj') = unat (so_generation obj) + length vs"
proof (induction obj vs rule: advance_all.induct)
  case (1 obj)
  then show ?case by simp
next
  case (2 obj v now vs)
  then obtain mid where mid: "advanced_to obj v now = Ok mid" "advance_all mid vs = Ok obj'"
    by (auto simp: result_simps)
  from mid(1) have g: "unat (so_generation mid) = Suc (unat (so_generation obj))"
    "unat (ov_generation v) = Suc (unat (so_generation obj))"
    by (auto simp: advanced_to_Ok_iff)
  from "2.IH" [OF mid] g show ?case
    by (simp add: upt_conv_Cons del: upt_Suc)
qed

lemma advance_all_frame:
  "advance_all obj vs = Ok obj' \<Longrightarrow>
     so_id obj' = so_id obj \<and> so_key obj' = so_key obj \<and> so_bucket_id obj' = so_bucket_id obj
     \<and> so_application_id obj' = so_application_id obj
     \<and> so_current_version_id obj' = (if vs = [] then so_current_version_id obj else Some (ov_id (fst (last vs))))
     \<and> (\<forall>(v, now) \<in> set vs. ov_object_id v = so_id obj \<and> ov_bucket_id v = so_bucket_id obj
          \<and> ov_application_id v = so_application_id obj \<and> ov_state v = VersionCommitted)"
proof (induction obj vs rule: advance_all.induct)
  case (1 obj)
  then show ?case by simp
next
  case (2 obj v now vs)
  then obtain mid where mid: "advanced_to obj v now = Ok mid" "advance_all mid vs = Ok obj'"
    by (auto simp: result_simps)
  from mid(1) "2.IH" [OF mid] show ?case
    by (auto simp: advanced_to_Ok_iff)
qed

section \<open>Properties\<close>

definition version_example :: object_version where
  "version_example =
     \<lparr>ov_id = 1, ov_object_id = 2, ov_application_id = 3, ov_bucket_id = 4,
      ov_external_version_id = S3VersionId ''version-1'', ov_generation = 1,
      ov_is_null_version = False, ov_state = VersionCommitted,
      ov_payload = PayloadObject
        \<lparr>sv_storage_backend = ''filesystem'', sv_storage_key = ''objects/version-1'',
         sv_provider_etag = None, sv_provider_version = None, sv_etag = EntityTag ''etag'',
         sv_size_bytes = 4, sv_content_type = None, sv_user_metadata = JObject [], sv_checksum = None\<rparr>,
      ov_retention = Some \<lparr>or_mode = Compliance, or_retain_until = 30\<rparr>, ov_legal_hold = False,
      ov_created_by = ''test'', ov_source_protocol = ProtocolS3, ov_created_at = 0,
      ov_became_noncurrent_at = None\<rparr>"

text \<open>Compliance retention is write-once-read-many. If a version is under compliance retention
  until \<open>u\<close>, then no sequence of chronology, legal-hold and retention calls issued before \<open>u\<close>,
  with or without governance bypass, can shorten the period or weaken the mode.\<close>

theorem compliance_retention_cannot_be_weakened:
  assumes "ov_retention v = Some \<lparr>or_mode = Compliance, or_retain_until = u\<rparr>"
    and "\<forall>r now bypass. UpdateRetention r now bypass \<in> set ops \<longrightarrow> now < u"
  shows "\<exists>u'. u \<le> u' \<and> ov_retention (run version_step v ops)
                 = Some \<lparr>or_mode = Compliance, or_retain_until = u'\<rparr>"
proof -
  have "admissible version_step (called_before u) w ops" for w
    using assms(2) by (induction ops arbitrary: w) (auto, metis called_before.elims(3))
  moreover have "retained_until {Compliance} u v"
    using assms(1) by (simp add: retained_until_def)
  ultimately have "retained_until {Compliance} u (run version_step v ops)"
    using compliance.run_valid [of u v ops] by blast
  then show ?thesis by (auto simp: retained_until_def is_some_and_iff)
qed

text \<open>Without the governance-bypass permission no retention period, governance or compliance, is
  ever shortened before it ends: as long as every retention call before \<open>u\<close> is unprivileged, the
  version stays retained at least until \<open>u\<close>.\<close>

theorem retention_never_shortened_without_bypass:
  assumes "ov_retention v = Some r" and "u \<le> or_retain_until r"
    and "\<forall>q now bypass. UpdateRetention q now bypass \<in> set ops \<longrightarrow> now < u \<and> \<not> bypass"
  shows "\<exists>r'. ov_retention (run version_step v ops) = Some r' \<and> u \<le> or_retain_until r'"
proof -
  have "admissible version_step (unprivileged_before u) w ops" for w
    using assms(3) by (induction ops arbitrary: w) (auto, metis unprivileged_before.elims(3))
  moreover have "retained_until UNIV u v"
    using assms(1,2) by (simp add: retained_until_def)
  ultimately have "retained_until UNIV u (run version_step v ops)"
    using retention.run_valid [of u v ops] by blast
  then show ?thesis by (auto simp: retained_until_def is_some_and_iff)
qed

text \<open>Object versions are immutable apart from their chronology and lock metadata. Along any
  history of calls a valid version stays valid for \<open>from_persistence\<close>, and its identity, owner,
  external id, generation, state, payload, creator and creation time never change.\<close>

theorem object_version_immutable:
  assumes "version_valid v"
  shows "version_from_persistence (run version_step v ops) = Ok (run version_step v ops)
       \<and> frozen_facts (run version_step v ops) = frozen_facts v
       \<and> ov_payload (run version_step v ops) = ov_payload v
       \<and> ov_generation (run version_step v ops) = ov_generation v"
proof -
  have frozen: "frozen_facts (run version_step v ops) = frozen_facts v" by (rule frozen_facts_run)
  have "ov_payload (run version_step v ops) = ov_payload v"
    using arg_cong [OF frozen, of ov_payload] by (simp add: frozen_facts_def)
  moreover have "ov_generation (run version_step v ops) = ov_generation v"
    using arg_cong [OF frozen, of ov_generation] by (simp add: frozen_facts_def)
  ultimately show ?thesis using frozen ver.run_rehydrates [of v ops] assms by simp
qed

text \<open>The current pointer of a logical object advances one generation at a time. When a list of
  versions is committed in order onto an object, their generations are consecutive, starting
  right after the object's own; every version belongs to the object and is committed; and the
  pointer ends on the last version, with the object's identity and key unchanged.\<close>

theorem object_head_follows_generations:
  assumes "advance_all obj vs = Ok obj'" and "vs \<noteq> []"
  shows "so_current_version_id obj' = Some (ov_id (fst (last vs)))
       \<and> map (unat \<circ> ov_generation \<circ> fst) vs
           = [Suc (unat (so_generation obj)) ..< Suc (unat (so_generation obj)) + length vs]
       \<and> unat (so_generation obj') = unat (so_generation obj) + length vs
       \<and> so_id obj' = so_id obj \<and> so_key obj' = so_key obj
       \<and> (\<forall>(v, now) \<in> set vs. ov_object_id v = so_id obj \<and> ov_state v = VersionCommitted)"
  using advance_all_generations [OF assms(1)] advance_all_frame [OF assms(1)] assms(2) by auto

end
