(* ===== verification/MH_Text.thy ===== *)
theory MH_Text
  imports MH_Prelude
begin

text \<open>
  The textual numbers and addresses of the Rust standard library that the sources use: decimal
  printing and parsing of unsigned integers, and \<open>FromStr\<close> of \<open>Ipv4Addr\<close>, \<open>Ipv6Addr\<close> and
  \<open>IpAddr\<close>, written after the recursive-descent reader of \<open>core::net::parser\<close>.
\<close>

unbundle bit_operations_syntax

section \<open>Decimal integers\<close>

text \<open>\<open>to_string()\<close> of an unsigned integer.\<close>

fun decimal :: "nat \<Rightarrow> str" where
  "decimal n =
     (if n < 10 then [char_of (48 + n)] else decimal (n div 10) @ [char_of (48 + n mod 10)])"

declare decimal.simps [simp del]

definition digits_value :: "str \<Rightarrow> nat" where
  "digits_value s = foldl (\<lambda>a c. a * 10 + (byte c - 48)) 0 s"

text \<open>\<open>parse::<uN>()\<close>: an optional plus sign, at least one digit, no overflow.\<close>

definition parse_uint :: "nat \<Rightarrow> str \<Rightarrow> nat option" where
  "parse_uint max_value s =
     (let t = (case s of [] \<Rightarrow> [] | c # u \<Rightarrow> if c = CHR ''+'' then u else s)
      in if t = [] \<or> \<not> list_all is_ascii_digit t \<or> digits_value t > max_value then None
         else Some (digits_value t))"

lemma decimal_digits: "list_all is_ascii_digit (decimal n)"
proof (induction n rule: decimal.induct)
  case (1 n)
  have "n mod 10 < 10" by simp
  then have "is_ascii_digit (char_of (48 + n mod 10))" by (simp add: is_ascii_digit_def)
  with 1 show ?case by (subst decimal.simps) (cases "n < 10"; simp)
qed

lemma decimal_nonempty [simp]: "decimal n \<noteq> []"
  by (subst decimal.simps) simp

lemma digits_value_decimal [simp]: "digits_value (decimal n) = n"
proof (induction n rule: decimal.induct)
  case (1 n)
  show ?case
  proof (cases "n < 10")
    case True
    then show ?thesis by (subst decimal.simps) (simp add: digits_value_def)
  next
    case False
    then have "digits_value (decimal n) = digits_value (decimal (n div 10)) * 10 + n mod 10"
      by (subst decimal.simps) (simp add: digits_value_def)
    with 1 False show ?thesis by simp
  qed
qed

lemma decimal_inject [simp]: "decimal m = decimal n \<longleftrightarrow> m = n"
  by (metis digits_value_decimal)

lemma digit_not_plus: "is_ascii_digit c \<Longrightarrow> c \<noteq> CHR ''+''"
  by (auto simp: is_ascii_digit_def)

lemma parse_uint_decimal: "n \<le> max_value \<Longrightarrow> parse_uint max_value (decimal n) = Some n"
proof -
  assume n: "n \<le> max_value"
  obtain c u where d: "decimal n = c # u" by (cases "decimal n") auto
  then have "c \<noteq> CHR ''+''" using decimal_digits [of n] digit_not_plus [of c] by auto
  then show ?thesis
    using n decimal_digits [of n] digits_value_decimal [of n]
    by (auto simp: parse_uint_def d Let_def)
qed

section \<open>Address readers\<close>

text \<open>A reader consumes a prefix of the input; \<open>None\<close> means it failed without consuming.\<close>

definition to_digit :: "nat \<Rightarrow> char \<Rightarrow> nat option" where
  "to_digit radix c =
     (let v = (if is_ascii_digit c then Some (byte c - 48)
               else if 97 \<le> byte c \<and> byte c \<le> 122 then Some (byte c - 87)
               else if 65 \<le> byte c \<and> byte c \<le> 90 then Some (byte c - 55) else None)
      in case v of None \<Rightarrow> None | Some d \<Rightarrow> if d < radix then Some d else None)"

definition read_number :: "nat \<Rightarrow> nat \<Rightarrow> bool \<Rightarrow> nat \<Rightarrow> str \<Rightarrow> (nat \<times> str) option" where
  "read_number radix max_digits allow_zero_prefix limit s =
     (let ds = takeWhile (\<lambda>c. to_digit radix c \<noteq> None) s;
          v = foldl (\<lambda>a c. a * radix + the (to_digit radix c)) 0 ds
      in if ds = [] \<or> length ds > max_digits
           \<or> (\<not> allow_zero_prefix \<and> hd ds = CHR ''0'' \<and> length ds > 1) \<or> v \<ge> limit
         then None else Some (v, drop (length ds) s))"

definition read_given_char :: "char \<Rightarrow> str \<Rightarrow> str option" where
  "read_given_char d s = (case s of c # t \<Rightarrow> if c = d then Some t else None | [] \<Rightarrow> None)"

definition read_separator :: "char \<Rightarrow> nat \<Rightarrow> (str \<Rightarrow> ('a \<times> str) option) \<Rightarrow> str \<Rightarrow> ('a \<times> str) option" where
  "read_separator sep index inner s =
     (if index > 0 then Option.bind (read_given_char sep s) inner else inner s)"

fun read_octets :: "nat \<Rightarrow> nat \<Rightarrow> str \<Rightarrow> (nat list \<times> str) option" where
  "read_octets 0 i s = Some ([], s)"
| "read_octets (Suc r) i s =
     (case read_separator CHR ''.'' i (read_number 10 3 False 256) s of
        None \<Rightarrow> None
      | Some (n, t) \<Rightarrow> map_option (\<lambda>(ns, u). (n # ns, u)) (read_octets r (Suc i) t))"

definition read_ipv4_addr :: "str \<Rightarrow> (nat list \<times> str) option" where
  "read_ipv4_addr s = read_octets 4 0 s"

text \<open>Groups read, whether an embedded IPv4 address ended them, and the rest of the input.\<close>

fun read_groups :: "nat \<Rightarrow> nat \<Rightarrow> str \<Rightarrow> nat list \<times> bool \<times> str" where
  "read_groups 0 i s = ([], False, s)"
| "read_groups (Suc r) i s =
     (case (if 0 < r then read_separator CHR '':'' i read_ipv4_addr s else None) of
        Some (os, t) \<Rightarrow> ([os ! 0 * 256 + os ! 1, os ! 2 * 256 + os ! 3], True, t)
      | None \<Rightarrow>
         (case read_separator CHR '':'' i (read_number 16 4 True 65536) s of
            None \<Rightarrow> ([], False, s)
          | Some (g, t) \<Rightarrow> (let (gs, v4, u) = read_groups r (Suc i) t in (g # gs, v4, u))))"

definition read_ipv6_addr :: "str \<Rightarrow> (nat list \<times> str) option" where
  "read_ipv6_addr s =
     (let (head, head_ipv4, t) = read_groups 8 0 s
      in if length head = 8 then Some (head, t)
         else if head_ipv4 then None
         else Option.bind (read_given_char CHR '':'' t) (\<lambda>t.
              Option.bind (read_given_char CHR '':'' t) (\<lambda>t.
                let (tail, _, u) = read_groups (8 - (length head + 1)) 0 t
                in Some (head @ replicate (8 - length head - length tail) 0 @ tail, u))))"

datatype ip_addr = V4 u32 | V6 "128 word"

definition ipv4_of_octets :: "nat list \<Rightarrow> u32" where
  "ipv4_of_octets os = foldl (\<lambda>a n. a * 256 + of_nat n) 0 os"

definition ipv6_of_groups :: "nat list \<Rightarrow> 128 word" where
  "ipv6_of_groups gs = foldl (\<lambda>a n. a * 65536 + of_nat n) 0 gs"

definition parse_ipv4 :: "str \<Rightarrow> u32 option" where
  "parse_ipv4 s =
     (if length s > 15 then None
      else case read_ipv4_addr s of
             Some (os, []) \<Rightarrow> Some (ipv4_of_octets os)
           | _ \<Rightarrow> None)"

definition parse_ipv6 :: "str \<Rightarrow> 128 word option" where
  "parse_ipv6 s =
     (case read_ipv6_addr s of Some (gs, []) \<Rightarrow> Some (ipv6_of_groups gs) | _ \<Rightarrow> None)"

definition parse_ip :: "str \<Rightarrow> ip_addr option" where
  "parse_ip s =
     (case read_ipv4_addr s of
        Some (os, t) \<Rightarrow> if t = [] then Some (V4 (ipv4_of_octets os)) else None
      | None \<Rightarrow>
         (case read_ipv6_addr s of
            Some (gs, t) \<Rightarrow> if t = [] then Some (V6 (ipv6_of_groups gs)) else None
          | None \<Rightarrow> None))"

text \<open>Unfolding at numerals, so that closed addresses are read by simplification.\<close>

lemma read_octets_numeral:
  "read_octets (numeral k) i s =
     (case read_separator CHR ''.'' i (read_number 10 3 False 256) s of
        None \<Rightarrow> None
      | Some (n, t) \<Rightarrow> map_option (\<lambda>(ns, u). (n # ns, u)) (read_octets (pred_numeral k) (Suc i) t))"
  by (simp add: numeral_eq_Suc)

lemma read_groups_numeral:
  "read_groups (numeral k) i s =
     (case (if 0 < pred_numeral k then read_separator CHR '':'' i read_ipv4_addr s else None) of
        Some (os, t) \<Rightarrow> ([os ! 0 * 256 + os ! 1, os ! 2 * 256 + os ! 3], True, t)
      | None \<Rightarrow>
         (case read_separator CHR '':'' i (read_number 16 4 True 65536) s of
            None \<Rightarrow> ([], False, s)
          | Some (g, t) \<Rightarrow> (let (gs, v4, u) = read_groups (pred_numeral k) (Suc i) t in (g # gs, v4, u))))"
  by (simp only: numeral_eq_Suc read_groups.simps)

lemmas read_addr_simps = read_ipv4_addr_def read_ipv6_addr_def read_octets_numeral read_groups_numeral
  read_separator_def read_number_def read_given_char_def to_digit_def is_ascii_digit_def

fun is_ipv4 :: "ip_addr \<Rightarrow> bool" where
  "is_ipv4 (V4 _) = True"
| "is_ipv4 (V6 _) = False"

end
