(* ===== verification/S3_Cors.thy ===== *)
theory S3_Cors
  imports MH_Text
begin

text \<open>
  \<^verbatim>\<open>crates/mediahub-core/src/s3_cors.rs\<close>: CORS rules and configurations with their validators,
  including the syntax of allowed origins. The derived JSON (de)serializers are left out; both
  end in the constructors below.
\<close>

definition MAX_S3_CORS_RULES :: nat where
  "MAX_S3_CORS_RULES = 100"

definition MAX_S3_CORS_ID_CHARACTERS :: nat where
  "MAX_S3_CORS_ID_CHARACTERS = 255"

definition MAX_S3_CORS_ORIGINS_PER_RULE :: nat where
  "MAX_S3_CORS_ORIGINS_PER_RULE = 100"

definition MAX_S3_CORS_HEADERS_PER_RULE :: nat where
  "MAX_S3_CORS_HEADERS_PER_RULE = 100"

definition MAX_S3_CORS_ORIGIN_BYTES :: nat where
  "MAX_S3_CORS_ORIGIN_BYTES = 2048"

definition MAX_S3_CORS_HEADER_BYTES :: nat where
  "MAX_S3_CORS_HEADER_BYTES = 1024"

datatype s3_cors_error =
    EmptyConfiguration | TooManyRules | DuplicateRule | InvalidRuleId | DuplicateRuleId
  | MissingAllowedMethod | DuplicateAllowedMethod | InvalidAllowedMethod
  | MissingAllowedOrigin | TooManyAllowedOrigins | InvalidAllowedOrigin | DuplicateAllowedOrigin
  | TooManyAllowedHeaders | InvalidAllowedHeader | DuplicateAllowedHeader
  | TooManyExposeHeaders | InvalidExposeHeader | DuplicateExposeHeader

section \<open>Methods\<close>

datatype s3_cors_method = GetM | PutM | HeadM | PostM | DeleteM

fun method_as_str :: "s3_cors_method \<Rightarrow> str" where
  "method_as_str GetM = ''GET''"
| "method_as_str PutM = ''PUT''"
| "method_as_str HeadM = ''HEAD''"
| "method_as_str PostM = ''POST''"
| "method_as_str DeleteM = ''DELETE''"

definition method_from_str :: "str \<Rightarrow> s3_cors_error + s3_cors_method" where
  "method_from_str v =
     (if v = ''GET'' then Ok GetM else if v = ''PUT'' then Ok PutM
      else if v = ''HEAD'' then Ok HeadM else if v = ''POST'' then Ok PostM
      else if v = ''DELETE'' then Ok DeleteM else Err InvalidAllowedMethod)"

section \<open>Character classes\<close>

definition is_http_token_byte :: "char \<Rightarrow> bool" where
  "is_http_token_byte c \<longleftrightarrow> is_ascii_alphanumeric c
     \<or> c \<in> {CHR ''!'', CHR ''#'', CHR ''$'', CHR ''%'', CHR ''&'', CHR 0x27, CHR ''*'', CHR ''+'',
            CHR ''-'', CHR ''.'', CHR ''^'', CHR ''_'', CHR 0x60, CHR ''|'', CHR ''~''}"

definition is_xml_10_character :: "nat \<Rightarrow> bool" where
  "is_xml_10_character c \<longleftrightarrow>
     c = 9 \<or> c = 10 \<or> c = 13 \<or> (0x20 \<le> c \<and> c \<le> 0xD7FF) \<or> (0xE000 \<le> c \<and> c \<le> 0xFFFD)
     \<or> (0x10000 \<le> c \<and> c \<le> 0x10FFFF)"

section \<open>Origins\<close>

definition valid_optional_port :: "str \<Rightarrow> bool" where
  "valid_optional_port rest \<longleftrightarrow>
     rest = [] \<or> is_some_and (strip_prefix rest '':'') (\<lambda>port. port \<noteq> [] \<and> parse_uint 65535 port \<noteq> None)"

definition valid_label :: "str \<Rightarrow> bool" where
  "valid_label l \<longleftrightarrow> l \<noteq> [] \<and> \<not> starts_with l ''-'' \<and> \<not> ends_with l ''-'' \<and> length l \<le> 63"

text \<open>The authority of an origin, after the scheme: an IPv6 literal or a host name, with a port.\<close>

definition valid_authority :: "str \<Rightarrow> bool" where
  "valid_authority authority =
     (if authority = []
         \<or> list_ex (\<lambda>c. c \<in> {CHR ''/'', CHR ''?'', CHR ''#'', CHR ''@''} \<or> is_ascii_whitespace c) authority
      then False
      else case strip_prefix authority ''['' of
        Some ipv6 \<Rightarrow>
          (case split_once CHR '']'' ipv6 of
             None \<Rightarrow> False
           | Some (address, rest) \<Rightarrow>
               CHR ''*'' \<notin> set address \<and> parse_ipv6 address \<noteq> None \<and> valid_optional_port rest)
      | None \<Rightarrow>
          (case (case rsplit_once CHR '':'' authority of
                   Some (host, port) \<Rightarrow>
                     if port \<noteq> [] \<and> list_all is_ascii_digit port then Some (host, Some port) else None
                 | None \<Rightarrow> Some (authority, None)) of
             None \<Rightarrow> False
           | Some (host, port) \<Rightarrow>
               if is_some_and port (\<lambda>port. parse_uint 65535 port = None)
                  \<or> host = [] \<or> starts_with host ''.'' \<or> starts_with host ''-''
                  \<or> ends_with host ''.'' \<or> ends_with host ''-'' \<or> contains_str host ''..''
                  \<or> \<not> list_all (\<lambda>c. is_ascii_alphanumeric c \<or> c \<in> {CHR ''.'', CHR ''-'', CHR ''*''}) host
               then False
               else list_all valid_label (split_on CHR ''.'' host)))"

definition is_valid_origin :: "str \<Rightarrow> bool" where
  "is_valid_origin origin =
     (if origin = ''*'' then True
      else if origin = [] \<or> length origin > MAX_S3_CORS_ORIGIN_BYTES \<or> \<not> list_all is_ascii origin
              \<or> length (filter (\<lambda>c. c = CHR ''*'') origin) > 1
      then False
      else
        let lowercase = to_ascii_lowercase origin
        in if starts_with lowercase ''http://'' then valid_authority (drop 7 origin)
           else if starts_with lowercase ''https://'' then valid_authority (drop 8 origin)
           else False)"

section \<open>Rules\<close>

record s3_cors_rule =
  cr_id :: "str option"
  cr_allowed_methods :: "s3_cors_method list"
  cr_allowed_origins :: "str list"
  cr_allowed_headers :: "str list"
  cr_expose_headers :: "str list"
  cr_max_age_seconds :: "u32 option"

fun check_methods :: "s3_cors_method set \<Rightarrow> s3_cors_method list \<Rightarrow> s3_cors_error + unit" where
  "check_methods seen [] = Ok ()"
| "check_methods seen (m # ms) =
     (if m \<in> seen then Err DuplicateAllowedMethod else check_methods (insert m seen) ms)"

definition validate_methods :: "s3_cors_method list \<Rightarrow> s3_cors_error + unit" where
  "validate_methods ms = (if ms = [] then Err MissingAllowedMethod else check_methods {} ms)"

fun check_origins :: "str set \<Rightarrow> str list \<Rightarrow> s3_cors_error + unit" where
  "check_origins seen [] = Ok ()"
| "check_origins seen (x # xs) =
     (if \<not> is_valid_origin x then Err InvalidAllowedOrigin
      else if to_ascii_lowercase x \<in> seen then Err DuplicateAllowedOrigin
      else check_origins (insert (to_ascii_lowercase x) seen) xs)"

definition validate_origins :: "str list \<Rightarrow> s3_cors_error + unit" where
  "validate_origins xs =
     (if xs = [] then Err MissingAllowedOrigin
      else if length xs > MAX_S3_CORS_ORIGINS_PER_RULE then Err TooManyAllowedOrigins
      else check_origins {} xs)"

definition valid_header :: "bool \<Rightarrow> str \<Rightarrow> bool" where
  "valid_header wildcard_allowed header \<longleftrightarrow>
     header \<noteq> [] \<and> length header \<le> MAX_S3_CORS_HEADER_BYTES \<and> list_all is_ascii header
     \<and> list_all is_http_token_byte header
     \<and> (if wildcard_allowed then length (filter (\<lambda>c. c = CHR ''*'') header) \<le> 1
        else CHR ''*'' \<notin> set header)"

fun check_headers :: "bool \<Rightarrow> str set \<Rightarrow> str list \<Rightarrow> s3_cors_error + unit" where
  "check_headers wildcard_allowed seen [] = Ok ()"
| "check_headers wildcard_allowed seen (x # xs) =
     (if \<not> valid_header wildcard_allowed x
      then Err (if wildcard_allowed then InvalidAllowedHeader else InvalidExposeHeader)
      else if to_ascii_lowercase x \<in> seen
      then Err (if wildcard_allowed then DuplicateAllowedHeader else DuplicateExposeHeader)
      else check_headers wildcard_allowed (insert (to_ascii_lowercase x) seen) xs)"

definition validate_headers :: "str list \<Rightarrow> bool \<Rightarrow> s3_cors_error + unit" where
  "validate_headers xs wildcard_allowed =
     (if length xs > MAX_S3_CORS_HEADERS_PER_RULE
      then Err (if wildcard_allowed then TooManyAllowedHeaders else TooManyExposeHeaders)
      else check_headers wildcard_allowed {} xs)"

definition cors_rule_validate :: "s3_cors_rule \<Rightarrow> s3_cors_error + unit" where
  "cors_rule_validate r =
     (if is_some_and (cr_id r) (\<lambda>i. i = [] \<or> length (chars i) > MAX_S3_CORS_ID_CHARACTERS
           \<or> list_ex (\<lambda>c. char_is_control c \<or> \<not> is_xml_10_character c) (chars i))
      then Err InvalidRuleId
      else
        and_then (validate_methods (cr_allowed_methods r)) (\<lambda>_.
        and_then (validate_origins (cr_allowed_origins r)) (\<lambda>_.
        and_then (validate_headers (cr_allowed_headers r) True) (\<lambda>_.
        and_then (validate_headers (cr_expose_headers r) False) (\<lambda>_. Ok ())))))"

definition cors_rule_new ::
  "str option \<Rightarrow> s3_cors_method list \<Rightarrow> str list \<Rightarrow> str list \<Rightarrow> str list \<Rightarrow> u32 option
   \<Rightarrow> s3_cors_error + s3_cors_rule" where
  "cors_rule_new i methods origins headers expose max_age =
     (let rule = \<lparr>cr_id = i, cr_allowed_methods = methods, cr_allowed_origins = origins,
        cr_allowed_headers = headers, cr_expose_headers = expose, cr_max_age_seconds = max_age\<rparr>
      in and_then (cors_rule_validate rule) (\<lambda>_. Ok rule))"

section \<open>Configurations\<close>

record s3_cors_configuration =
  cc_rules :: "s3_cors_rule list"

fun check_cors_rules :: "str set \<Rightarrow> s3_cors_rule set \<Rightarrow> s3_cors_rule list \<Rightarrow> s3_cors_error + unit" where
  "check_cors_rules ids unique [] = Ok ()"
| "check_cors_rules ids unique (r # rs) =
     and_then (cors_rule_validate r) (\<lambda>_.
       if r \<in> unique then Err DuplicateRule
       else case cr_id r of
              None \<Rightarrow> check_cors_rules ids (insert r unique) rs
            | Some i \<Rightarrow> if i \<in> ids then Err DuplicateRuleId
                        else check_cors_rules (insert i ids) (insert r unique) rs)"

definition cors_configuration_validate :: "s3_cors_configuration \<Rightarrow> s3_cors_error + unit" where
  "cors_configuration_validate c =
     (if cc_rules c = [] then Err EmptyConfiguration
      else if length (cc_rules c) > MAX_S3_CORS_RULES then Err TooManyRules
      else check_cors_rules {} {} (cc_rules c))"

definition cors_configuration_new :: "s3_cors_rule list \<Rightarrow> s3_cors_error + s3_cors_configuration" where
  "cors_configuration_new rules =
     (let c = \<lparr>cc_rules = rules\<rparr> in and_then (cors_configuration_validate c) (\<lambda>_. Ok c))"

section \<open>What the validators accept\<close>

lemma check_methods_Ok_iff: "check_methods seen ms = Ok () \<longleftrightarrow> distinct ms \<and> set ms \<inter> seen = {}"
  by (induction ms arbitrary: seen) auto

lemma check_origins_Ok_iff:
  "check_origins seen xs = Ok () \<longleftrightarrow>
     list_all is_valid_origin xs \<and> distinct (map to_ascii_lowercase xs)
     \<and> to_ascii_lowercase ` set xs \<inter> seen = {}"
  by (induction xs arbitrary: seen) auto

lemma check_headers_Ok_iff:
  "check_headers w seen xs = Ok () \<longleftrightarrow>
     list_all (valid_header w) xs \<and> distinct (map to_ascii_lowercase xs)
     \<and> to_ascii_lowercase ` set xs \<inter> seen = {}"
  by (induction xs arbitrary: seen) auto

definition identified :: "s3_cors_rule list \<Rightarrow> str list" where
  "identified rs = List.map_filter cr_id rs"

lemma identified_simps [simp]:
  "identified [] = []"
  "identified (r # rs) = (case cr_id r of None \<Rightarrow> identified rs | Some i \<Rightarrow> i # identified rs)"
  by (simp_all add: identified_def List.map_filter_simps split: option.splits)

lemma check_cors_rules_Ok_iff:
  "check_cors_rules ids unique rs = Ok () \<longleftrightarrow>
     list_all (\<lambda>r. cors_rule_validate r = Ok ()) rs \<and> distinct rs \<and> set rs \<inter> unique = {}
     \<and> distinct (identified rs) \<and> set (identified rs) \<inter> ids = {}"
  by (induction rs arbitrary: ids unique) (auto simp: result_simps split: option.splits)

definition cors_rule_ok :: "s3_cors_rule \<Rightarrow> bool" where
  "cors_rule_ok r \<longleftrightarrow>
     is_none_or (cr_id r) (\<lambda>i. i \<noteq> [] \<and> length (chars i) \<le> 255
        \<and> list_all (\<lambda>c. \<not> char_is_control c \<and> is_xml_10_character c) (chars i))
     \<and> cr_allowed_methods r \<noteq> [] \<and> distinct (cr_allowed_methods r)
     \<and> cr_allowed_origins r \<noteq> [] \<and> length (cr_allowed_origins r) \<le> 100
     \<and> list_all is_valid_origin (cr_allowed_origins r)
     \<and> distinct (map to_ascii_lowercase (cr_allowed_origins r))
     \<and> length (cr_allowed_headers r) \<le> 100 \<and> list_all (valid_header True) (cr_allowed_headers r)
     \<and> distinct (map to_ascii_lowercase (cr_allowed_headers r))
     \<and> length (cr_expose_headers r) \<le> 100 \<and> list_all (valid_header False) (cr_expose_headers r)
     \<and> distinct (map to_ascii_lowercase (cr_expose_headers r))"

lemma cors_rule_validate_Ok_iff: "cors_rule_validate r = Ok () \<longleftrightarrow> cors_rule_ok r"
  by (auto simp: cors_rule_validate_def cors_rule_ok_def result_simps validate_methods_def
      validate_origins_def validate_headers_def check_methods_Ok_iff check_origins_Ok_iff
      check_headers_Ok_iff MAX_S3_CORS_ORIGINS_PER_RULE_def MAX_S3_CORS_HEADERS_PER_RULE_def
      MAX_S3_CORS_ID_CHARACTERS_def is_some_and_iff is_none_or_iff list_ex_iff list_all_iff not_less
      split: if_splits)

section \<open>Properties\<close>

text \<open>A CORS configuration is accepted exactly when it has between 1 and 100 distinct rules with
  distinct identifiers, each with a well-formed identifier, distinct methods, one to 100 valid
  origins and at most 100 valid allowed and exposed headers, origins and headers being distinct
  up to letter case; and the accepted value holds the rules as given.\<close>

theorem cors_configuration_accepted_iff:
  "cors_configuration_new rules = Ok c \<longleftrightarrow>
     c = \<lparr>cc_rules = rules\<rparr> \<and> rules \<noteq> [] \<and> length rules \<le> 100 \<and> distinct rules
     \<and> distinct (identified rules) \<and> list_all cors_rule_ok rules"
  by (auto simp: cors_configuration_new_def cors_configuration_validate_def result_simps Let_def
      check_cors_rules_Ok_iff cors_rule_validate_Ok_iff MAX_S3_CORS_RULES_def split: if_splits)

text \<open>Port syntax of IPv6 origins: A port after a bracketed IPv6 address may carry a plus sign,
  which the port of a host name may not: \<open>valid_optional_port\<close> relies on integer parsing alone,
  where the host-name branch also requires digits.\<close>

lemma ipv6_origin_port_accepts_sign:
  "is_valid_origin ''https://[::1]:+443'' \<and> \<not> is_valid_origin ''https://example.com:+443''"
proof
  have "read_ipv6_addr ''::1'' = Some (replicate 7 0 @ [1], [])"
    by (simp add: read_addr_simps)
  then have address: "parse_ipv6 ''::1'' \<noteq> None" by (simp add: parse_ipv6_def)
  have port: "valid_optional_port '':+443''"
    by (simp add: valid_optional_port_def strip_prefix_def starts_with_def parse_uint_def
        digits_value_def is_ascii_digit_def)
  have "valid_authority ''[::1]:+443''"
    using address port
    by (simp add: valid_authority_def strip_prefix_def starts_with_def is_ascii_whitespace_def)
  then show "is_valid_origin ''https://[::1]:+443''"
    by (simp add: is_valid_origin_def MAX_S3_CORS_ORIGIN_BYTES_def is_ascii_def Let_def
        to_ascii_lowercase_def byte_lower_def is_ascii_uppercase_def starts_with_def)
  show "\<not> is_valid_origin ''https://example.com:+443''"
    by (simp add: is_valid_origin_def MAX_S3_CORS_ORIGIN_BYTES_def is_ascii_def Let_def
        to_ascii_lowercase_def byte_lower_def is_ascii_uppercase_def starts_with_def
        valid_authority_def strip_prefix_def is_ascii_whitespace_def rsplit_once_def is_ascii_digit_def)
qed

end
