(* ===== verification/MH_Visibility.thy ===== *)
theory MH_Visibility
  imports MH_Prelude
begin

text \<open>
  \<^verbatim>\<open>crates/mediahub-core/src/visibility.rs\<close>, and the identifier types of
  \<^verbatim>\<open>crates/mediahub-core/src/ids.rs\<close> that the media side of the domain uses. Every identifier
  wraps a \<open>Uuid\<close>; the wrapper types keep Rust callers from mixing them up and carry no behaviour.
\<close>

datatype visibility = VisPublic | VisPrivate

type_synonym media_id = uuid
type_synonym upload_session_id = uuid
type_synonym async_job_id = uuid

end
