(* ===== verification/Async_Job.thy ===== *)
theory Async_Job
  imports MH_Aggregates MH_Visibility
begin

text \<open>
  \<^verbatim>\<open>crates/mediahub-core/src/async_job*.rs\<close>: batch jobs that workers claim under a fenced lease,
  renew, complete, fail with a retry, or cancel. The methods check everything before they
  assign a field, so a call either returns an error and changes nothing or returns the new job
  with its result; the step function of a history keeps the job on an error.
\<close>

section \<open>Limits, states and errors\<close>

definition MAX_ASYNC_JOB_ERROR_BYTES :: nat where
  "MAX_ASYNC_JOB_ERROR_BYTES = 2048"

definition MAX_ASYNC_JOB_IDEMPOTENCY_KEY_BYTES :: nat where
  "MAX_ASYNC_JOB_IDEMPOTENCY_KEY_BYTES = 255"

definition MAX_ASYNC_JOB_OPERATION_SCOPE_BYTES :: nat where
  "MAX_ASYNC_JOB_OPERATION_SCOPE_BYTES = 128"

definition MAX_ASYNC_JOB_ITEMS :: u32 where
  "MAX_ASYNC_JOB_ITEMS = 1000"

definition MAX_ASYNC_JOB_ATTEMPTS :: u32 where
  "MAX_ASYNC_JOB_ATTEMPTS = 100"

definition MAX_ASYNC_JOB_LEASE_SECONDS :: int where
  "MAX_ASYNC_JOB_LEASE_SECONDS = 3600"

definition MAX_ASYNC_JOB_REQUEST_ID_BYTES :: nat where
  "MAX_ASYNC_JOB_REQUEST_ID_BYTES = 255"

text \<open>\<open>Duration::seconds(MAX_ASYNC_JOB_LEASE_SECONDS)\<close> in nanoseconds.\<close>

definition max_lease :: int where
  "max_lease = MAX_ASYNC_JOB_LEASE_SECONDS * nanos_per_second"

datatype async_job_state = JobPending | JobRunning | JobCompleted | JobFailed | JobCancelled

fun job_state_is_terminal :: "async_job_state \<Rightarrow> bool" where
  "job_state_is_terminal JobCompleted = True"
| "job_state_is_terminal JobFailed = True"
| "job_state_is_terminal JobCancelled = True"
| "job_state_is_terminal _ = False"

datatype async_job_action =
    UpdateTtlSeconds "u64 option"
  | UpdateVisibility visibility
  | DeleteAction

datatype async_job_item_state = ItemPending | ItemSucceeded | ItemFailed | ItemCancelled

fun item_state_is_terminal :: "async_job_item_state \<Rightarrow> bool" where
  "item_state_is_terminal ItemPending = False"
| "item_state_is_terminal _ = True"

datatype async_job_transition = JobApplied | JobAlreadyApplied

datatype async_job_failure_disposition = TerminalFailure | RetryScheduled timestamp

datatype async_job_error =
    EmptyBatch
  | InvalidMaxAttempts
  | TooManyItems
  | TooManyAttempts
  | InvalidTtlSeconds
  | InvalidLeaseToken
  | InvalidLeaseExpiry
  | LeaseTooLong
  | AttemptsExhausted
  | NotClaimable
  | IncompleteItemResults u32 u32
  | InvalidRetryTime
  | StaleLease
  | ExpiredLease
  | InvalidStateTransition async_job_state async_job_state
  | InvalidOperationScope
  | InvalidIdempotencyKey
  | InvalidRequestHash
  | InvalidRequestId
  | InvalidErrorSummary
  | InvalidErrorCode
  | InvalidItemAttempt
  | InvalidItemTimes
  | InvalidPersistedJob

section \<open>Validators\<close>

fun action_validate :: "async_job_action \<Rightarrow> async_job_error + unit" where
  "action_validate (UpdateTtlSeconds (Some t)) = (if t = 0 then Err InvalidTtlSeconds else Ok ())"
| "action_validate _ = Ok ()"

definition validate_identity :: "str \<Rightarrow> str \<Rightarrow> str \<Rightarrow> async_job_error + unit" where
  "validate_identity scope key request_hash =
     (if scope = [] \<or> length scope > MAX_ASYNC_JOB_OPERATION_SCOPE_BYTES then Err InvalidOperationScope
      else if key = [] \<or> length key > MAX_ASYNC_JOB_IDEMPOTENCY_KEY_BYTES then Err InvalidIdempotencyKey
      else if length request_hash \<noteq> 64 \<or> \<not> list_all is_ascii_hexdigit request_hash
      then Err InvalidRequestHash
      else Ok ())"

definition validate_request_id :: "str option \<Rightarrow> async_job_error + unit" where
  "validate_request_id value =
     (if is_some_and value (\<lambda>v. v = [] \<or> length v > MAX_ASYNC_JOB_REQUEST_ID_BYTES)
      then Err InvalidRequestId else Ok ())"

definition validate_error_summary :: "str \<Rightarrow> async_job_error + unit" where
  "validate_error_summary value =
     (if value = [] \<or> length value > MAX_ASYNC_JOB_ERROR_BYTES then Err InvalidErrorSummary else Ok ())"

definition validate_error_code :: "str \<Rightarrow> async_job_error + unit" where
  "validate_error_code value =
     (if value = [] \<or> length value > 64
         \<or> \<not> list_all (\<lambda>c. is_ascii_alphanumeric c \<or> c = CHR ''_'' \<or> c = CHR ''-'' \<or> c = CHR ''.'') value
      then Err InvalidErrorCode else Ok ())"

definition validate_item_attempt :: "u32 \<Rightarrow> async_job_error + unit" where
  "validate_item_attempt value = (if value = 0 then Err InvalidItemAttempt else Ok ())"

definition validate_item_times :: "timestamp \<Rightarrow> timestamp \<Rightarrow> async_job_error + unit" where
  "validate_item_times started_at completed_at =
     (if completed_at < started_at then Err InvalidItemTimes else Ok ())"

section \<open>The job aggregate\<close>

record new_async_job =
  nj_id :: async_job_id
  nj_application_id :: uuid
  nj_operation_scope :: str
  nj_idempotency_key :: str
  nj_request_hash :: str
  nj_request_id :: "str option"
  nj_action :: async_job_action
  nj_total_items :: u32
  nj_max_attempts :: u32

record async_job =
  aj_id :: async_job_id
  aj_application_id :: uuid
  aj_operation_scope :: str
  aj_idempotency_key :: str
  aj_request_hash :: str
  aj_request_id :: "str option"
  aj_action :: async_job_action
  aj_state :: async_job_state
  aj_total_items :: u32
  aj_succeeded_items :: u32
  aj_failed_items :: u32
  aj_attempt_count :: u32
  aj_max_attempts :: u32
  aj_next_attempt_at :: "timestamp option"
  aj_lease_token :: "str option"
  aj_leased_until :: "timestamp option"
  aj_error_summary :: "str option"
  aj_started_at :: "timestamp option"
  aj_completed_at :: "timestamp option"
  aj_failed_at :: "timestamp option"
  aj_cancelled_at :: "timestamp option"
  aj_created_at :: timestamp
  aj_updated_at :: timestamp

type_synonym persisted_async_job = async_job

definition job_new :: "new_async_job \<Rightarrow> timestamp \<Rightarrow> async_job_error + async_job" where
  "job_new input now =
     and_then (validate_identity (nj_operation_scope input) (nj_idempotency_key input) (nj_request_hash input)) (\<lambda>_.
     and_then (action_validate (nj_action input)) (\<lambda>_.
       if nj_total_items input = 0 then Err EmptyBatch
       else if nj_total_items input > MAX_ASYNC_JOB_ITEMS then Err TooManyItems
       else if nj_max_attempts input = 0 then Err InvalidMaxAttempts
       else if nj_max_attempts input > MAX_ASYNC_JOB_ATTEMPTS then Err TooManyAttempts
       else and_then (validate_request_id (nj_request_id input)) (\<lambda>_.
         Ok \<lparr>aj_id = nj_id input, aj_application_id = nj_application_id input,
             aj_operation_scope = nj_operation_scope input,
             aj_idempotency_key = nj_idempotency_key input,
             aj_request_hash = nj_request_hash input, aj_request_id = nj_request_id input,
             aj_action = nj_action input, aj_state = JobPending,
             aj_total_items = nj_total_items input, aj_succeeded_items = 0, aj_failed_items = 0,
             aj_attempt_count = 0, aj_max_attempts = nj_max_attempts input,
             aj_next_attempt_at = Some now, aj_lease_token = None, aj_leased_until = None,
             aj_error_summary = None, aj_started_at = None, aj_completed_at = None,
             aj_failed_at = None, aj_cancelled_at = None, aj_created_at = now, aj_updated_at = now\<rparr>)))"

definition outside_lifetime :: "persisted_async_job \<Rightarrow> timestamp option \<Rightarrow> bool" where
  "outside_lifetime v at = is_some_and at (\<lambda>t. t < aj_created_at v \<or> t > aj_updated_at v)"

text \<open>The final \<open>match\<close> of \<open>validate_persisted\<close>: the fields each state requires.\<close>

definition persisted_state_invalid :: "persisted_async_job \<Rightarrow> bool" where
  "persisted_state_invalid v =
     (case aj_state v of
        JobPending \<Rightarrow>
          aj_lease_token v \<noteq> None \<or> aj_leased_until v \<noteq> None \<or> aj_next_attempt_at v = None
          \<or> aj_completed_at v \<noteq> None \<or> aj_failed_at v \<noteq> None \<or> aj_cancelled_at v \<noteq> None
      | JobRunning \<Rightarrow>
          (case aj_leased_until v of
             None \<Rightarrow> True
           | Some leased_until \<Rightarrow>
               aj_lease_token v = None \<or> aj_next_attempt_at v \<noteq> None \<or> aj_started_at v = None
               \<or> aj_completed_at v \<noteq> None \<or> aj_failed_at v \<noteq> None \<or> aj_cancelled_at v \<noteq> None
               \<or> leased_until \<le> aj_updated_at v \<or> leased_until - aj_updated_at v > max_lease)
      | JobCompleted \<Rightarrow>
          aj_completed_at v = None \<or> aj_started_at v = None \<or> aj_failed_at v \<noteq> None
          \<or> aj_cancelled_at v \<noteq> None \<or> aj_lease_token v \<noteq> None \<or> aj_leased_until v \<noteq> None
          \<or> aj_next_attempt_at v \<noteq> None
          \<or> saturating_add (aj_succeeded_items v) (aj_failed_items v) \<noteq> aj_total_items v
          \<or> aj_error_summary v \<noteq> None
      | JobFailed \<Rightarrow>
          aj_failed_at v = None \<or> aj_started_at v = None \<or> aj_completed_at v \<noteq> None
          \<or> aj_cancelled_at v \<noteq> None \<or> aj_lease_token v \<noteq> None \<or> aj_leased_until v \<noteq> None
          \<or> aj_next_attempt_at v \<noteq> None \<or> aj_attempt_count v \<noteq> aj_max_attempts v
          \<or> aj_error_summary v = None
      | JobCancelled \<Rightarrow>
          aj_cancelled_at v = None \<or> aj_completed_at v \<noteq> None \<or> aj_failed_at v \<noteq> None
          \<or> aj_lease_token v \<noteq> None \<or> aj_leased_until v \<noteq> None \<or> aj_next_attempt_at v \<noteq> None)"

definition validate_persisted :: "persisted_async_job \<Rightarrow> async_job_error + unit" where
  "validate_persisted v =
     (if aj_total_items v = 0 \<or> aj_total_items v > MAX_ASYNC_JOB_ITEMS
      then Err (if aj_total_items v = 0 then EmptyBatch else TooManyItems)
      else if aj_max_attempts v = 0 then Err InvalidMaxAttempts
      else if aj_max_attempts v > MAX_ASYNC_JOB_ATTEMPTS then Err TooManyAttempts
      else if saturating_add (aj_succeeded_items v) (aj_failed_items v) > aj_total_items v
           \<or> aj_attempt_count v > aj_max_attempts v
           \<or> aj_updated_at v < aj_created_at v
           \<or> outside_lifetime v (aj_started_at v)
           \<or> outside_lifetime v (aj_completed_at v)
           \<or> outside_lifetime v (aj_failed_at v)
           \<or> outside_lifetime v (aj_cancelled_at v)
      then Err InvalidPersistedJob
      else and_then (validate_request_id (aj_request_id v)) (\<lambda>_.
           and_then (case aj_error_summary v of None \<Rightarrow> Ok () | Some s \<Rightarrow> validate_error_summary s) (\<lambda>_.
             if is_some_and (aj_lease_token v)
                  (\<lambda>t. t = [] \<or> length t > MAX_ASYNC_JOB_IDEMPOTENCY_KEY_BYTES)
             then Err InvalidLeaseToken
             else if persisted_state_invalid v then Err InvalidPersistedJob
             else Ok ())))"

definition job_from_persistence :: "persisted_async_job \<Rightarrow> async_job_error + async_job" where
  "job_from_persistence v =
     and_then (validate_identity (aj_operation_scope v) (aj_idempotency_key v) (aj_request_hash v)) (\<lambda>_.
     and_then (action_validate (aj_action v)) (\<lambda>_.
     and_then (validate_persisted v) (\<lambda>_. Ok v)))"

definition job_to_persisted :: "async_job \<Rightarrow> persisted_async_job" where
  "job_to_persisted j = j"

definition is_claimable_at :: "async_job \<Rightarrow> timestamp \<Rightarrow> bool" where
  "is_claimable_at j now =
     (if aj_attempt_count j \<ge> aj_max_attempts j then False
      else case aj_state j of
             JobPending \<Rightarrow> is_some_and (aj_next_attempt_at j) (\<lambda>due. due \<le> now)
           | JobRunning \<Rightarrow> is_some_and (aj_leased_until j) (\<lambda>until. until \<le> now)
           | _ \<Rightarrow> False)"

definition claim :: "async_job \<Rightarrow> str \<Rightarrow> timestamp \<Rightarrow> timestamp \<Rightarrow> async_job_error + async_job" where
  "claim j lease_token leased_until now =
     (if lease_token = [] \<or> length lease_token > 255 then Err InvalidLeaseToken
      else if leased_until \<le> now then Err InvalidLeaseExpiry
      else if leased_until - now > max_lease then Err LeaseTooLong
      else if \<not> is_claimable_at j now
      then Err (if aj_attempt_count j \<ge> aj_max_attempts j then AttemptsExhausted else NotClaimable)
      else Ok (j\<lparr>aj_state := JobRunning,
                 aj_attempt_count := aj_attempt_count j + 1,
                 aj_next_attempt_at := None,
                 aj_lease_token := Some lease_token,
                 aj_leased_until := Some leased_until,
                 aj_started_at := (case aj_started_at j of None \<Rightarrow> Some now | Some t \<Rightarrow> Some t),
                 aj_updated_at := now\<rparr>))"

definition verify_lease :: "async_job \<Rightarrow> str \<Rightarrow> timestamp \<Rightarrow> async_job_error + unit" where
  "verify_lease j lease_token now =
     (if aj_state j \<noteq> JobRunning then Err (InvalidStateTransition (aj_state j) JobCompleted)
      else if aj_lease_token j \<noteq> Some lease_token then Err StaleLease
      else if is_none_or (aj_leased_until j) (\<lambda>until. until \<le> now) then Err ExpiredLease
      else Ok ())"

definition renew_lease :: "async_job \<Rightarrow> str \<Rightarrow> timestamp \<Rightarrow> timestamp \<Rightarrow> async_job_error + async_job" where
  "renew_lease j lease_token leased_until now =
     and_then (verify_lease j lease_token now) (\<lambda>_.
       if leased_until \<le> now then Err InvalidLeaseExpiry
       else if leased_until - now > max_lease then Err LeaseTooLong
       else Ok (j\<lparr>aj_leased_until := Some leased_until, aj_updated_at := now\<rparr>))"

definition complete ::
  "async_job \<Rightarrow> str \<Rightarrow> u32 \<Rightarrow> u32 \<Rightarrow> timestamp \<Rightarrow> async_job_error + (async_job \<times> async_job_transition)" where
  "complete j lease_token succeeded_items failed_items now =
     (if aj_state j = JobCompleted then Ok (j, JobAlreadyApplied)
      else and_then (verify_lease j lease_token now) (\<lambda>_.
        if saturating_add succeeded_items failed_items \<noteq> aj_total_items j
        then Err (IncompleteItemResults (aj_total_items j) (saturating_add succeeded_items failed_items))
        else Ok (j\<lparr>aj_state := JobCompleted,
                   aj_succeeded_items := succeeded_items,
                   aj_failed_items := failed_items,
                   aj_completed_at := Some now,
                   aj_next_attempt_at := None,
                   aj_lease_token := None,
                   aj_leased_until := None,
                   aj_error_summary := None,
                   aj_updated_at := now\<rparr>, JobApplied)))"

definition fail ::
  "async_job \<Rightarrow> str \<Rightarrow> str \<Rightarrow> timestamp option \<Rightarrow> timestamp
   \<Rightarrow> async_job_error + (async_job \<times> async_job_failure_disposition)" where
  "fail j lease_token error_summary retry_at now =
     and_then (verify_lease j lease_token now) (\<lambda>_.
     and_then (validate_error_summary error_summary) (\<lambda>_.
       let exhausted = (aj_attempt_count j \<ge> aj_max_attempts j);
           released = j\<lparr>aj_lease_token := None, aj_leased_until := None,
                        aj_error_summary := Some error_summary, aj_updated_at := now\<rparr>
       in if exhausted
          then Ok (released\<lparr>aj_state := JobFailed, aj_next_attempt_at := None,
                            aj_failed_at := Some now\<rparr>, TerminalFailure)
          else (case retry_at of
                  None \<Rightarrow> Err InvalidRetryTime
                | Some at \<Rightarrow>
                    if at \<le> now then Err InvalidRetryTime
                    else Ok (released\<lparr>aj_state := JobPending, aj_next_attempt_at := retry_at\<rparr>,
                             RetryScheduled at))))"

definition cancel :: "async_job \<Rightarrow> timestamp \<Rightarrow> async_job_error + (async_job \<times> async_job_transition)" where
  "cancel j now =
     (if aj_state j = JobCancelled then Ok (j, JobAlreadyApplied)
      else if job_state_is_terminal (aj_state j)
      then Err (InvalidStateTransition (aj_state j) JobCancelled)
      else Ok (j\<lparr>aj_state := JobCancelled, aj_next_attempt_at := None, aj_lease_token := None,
                 aj_leased_until := None, aj_cancelled_at := Some now, aj_updated_at := now\<rparr>,
               JobApplied))"

section \<open>Item results\<close>

record async_job_item_result =
  ir_job_id :: async_job_id
  ir_application_id :: uuid
  ir_media_id :: media_id
  ir_ordinal :: u32
  ir_state :: async_job_item_state
  ir_attempt_count :: u32
  ir_result :: "json option"
  ir_error_code :: "str option"
  ir_error_summary :: "str option"
  ir_started_at :: "timestamp option"
  ir_completed_at :: "timestamp option"
  ir_updated_at :: timestamp

definition item_pending ::
  "async_job_id \<Rightarrow> uuid \<Rightarrow> media_id \<Rightarrow> u32 \<Rightarrow> timestamp \<Rightarrow> async_job_item_result" where
  "item_pending job_id application_id media_id ordinal now =
     \<lparr>ir_job_id = job_id, ir_application_id = application_id, ir_media_id = media_id,
      ir_ordinal = ordinal, ir_state = ItemPending, ir_attempt_count = 0, ir_result = None,
      ir_error_code = None, ir_error_summary = None, ir_started_at = None,
      ir_completed_at = None, ir_updated_at = now\<rparr>"

definition item_succeeded ::
  "async_job_id \<Rightarrow> uuid \<Rightarrow> media_id \<Rightarrow> u32 \<Rightarrow> u32 \<Rightarrow> json option \<Rightarrow> timestamp \<Rightarrow> timestamp
   \<Rightarrow> async_job_error + async_job_item_result" where
  "item_succeeded job_id application_id media_id ordinal attempt_count result started_at completed_at =
     and_then (validate_item_attempt attempt_count) (\<lambda>_.
     and_then (validate_item_times started_at completed_at) (\<lambda>_.
       Ok \<lparr>ir_job_id = job_id, ir_application_id = application_id, ir_media_id = media_id,
           ir_ordinal = ordinal, ir_state = ItemSucceeded, ir_attempt_count = attempt_count,
           ir_result = result, ir_error_code = None, ir_error_summary = None,
           ir_started_at = Some started_at, ir_completed_at = Some completed_at,
           ir_updated_at = completed_at\<rparr>))"

definition item_failed ::
  "async_job_id \<Rightarrow> uuid \<Rightarrow> media_id \<Rightarrow> u32 \<Rightarrow> u32 \<Rightarrow> str \<Rightarrow> str \<Rightarrow> timestamp \<Rightarrow> timestamp
   \<Rightarrow> async_job_error + async_job_item_result" where
  "item_failed job_id application_id media_id ordinal attempt_count error_code error_summary
     started_at completed_at =
     and_then (validate_item_attempt attempt_count) (\<lambda>_.
     and_then (validate_item_times started_at completed_at) (\<lambda>_.
     and_then (validate_error_code error_code) (\<lambda>_.
     and_then (validate_error_summary error_summary) (\<lambda>_.
       Ok \<lparr>ir_job_id = job_id, ir_application_id = application_id, ir_media_id = media_id,
           ir_ordinal = ordinal, ir_state = ItemFailed, ir_attempt_count = attempt_count,
           ir_result = None, ir_error_code = Some error_code,
           ir_error_summary = Some error_summary, ir_started_at = Some started_at,
           ir_completed_at = Some completed_at, ir_updated_at = completed_at\<rparr>))))"

section \<open>Histories of a job\<close>

datatype job_op =
    Claim str timestamp timestamp
  | RenewLease str timestamp timestamp
  | Complete str u32 u32 timestamp
  | Fail str str "timestamp option" timestamp
  | Cancel timestamp

fun job_apply :: "async_job \<Rightarrow> job_op \<Rightarrow> async_job_error + async_job" where
  "job_apply j (Claim token until now) = claim j token until now"
| "job_apply j (RenewLease token until now) = renew_lease j token until now"
| "job_apply j (Complete token s f now) = and_then (complete j token s f now) (\<lambda>r. Ok (fst r))"
| "job_apply j (Fail token summary retry now) = and_then (fail j token summary retry now) (\<lambda>r. Ok (fst r))"
| "job_apply j (Cancel now) = and_then (cancel j now) (\<lambda>r. Ok (fst r))"

definition job_step :: "async_job \<Rightarrow> job_op \<Rightarrow> async_job" where
  "job_step j x = (case job_apply j x of Inr j' \<Rightarrow> j' | Inl _ \<Rightarrow> j)"

fun job_op_time :: "job_op \<Rightarrow> timestamp" where
  "job_op_time (Claim token until now) = now"
| "job_op_time (RenewLease token until now) = now"
| "job_op_time (Complete token s f now) = now"
| "job_op_time (Fail token summary retry now) = now"
| "job_op_time (Cancel now) = now"

text \<open>The clock has not gone backwards since the job was last written.\<close>

definition clock_ok :: "async_job \<Rightarrow> job_op \<Rightarrow> bool" where
  "clock_ok j x \<longleftrightarrow> aj_updated_at j \<le> job_op_time x"

definition job_valid :: "async_job \<Rightarrow> bool" where
  "job_valid j \<longleftrightarrow> job_from_persistence (job_to_persisted j) = Ok j"

definition job_static :: "async_job \<Rightarrow> bool" where
  "job_static j \<longleftrightarrow>
     validate_identity (aj_operation_scope j) (aj_idempotency_key j) (aj_request_hash j) = Ok ()
     \<and> action_validate (aj_action j) = Ok () \<and> validate_request_id (aj_request_id j) = Ok ()
     \<and> 0 < aj_total_items j \<and> aj_total_items j \<le> MAX_ASYNC_JOB_ITEMS
     \<and> 0 < aj_max_attempts j \<and> aj_max_attempts j \<le> MAX_ASYNC_JOB_ATTEMPTS"

lemma job_valid_iff:
  "job_valid j \<longleftrightarrow>
     job_static j
     \<and> saturating_add (aj_succeeded_items j) (aj_failed_items j) \<le> aj_total_items j
     \<and> aj_attempt_count j \<le> aj_max_attempts j \<and> aj_created_at j \<le> aj_updated_at j
     \<and> \<not> outside_lifetime j (aj_started_at j) \<and> \<not> outside_lifetime j (aj_completed_at j)
     \<and> \<not> outside_lifetime j (aj_failed_at j) \<and> \<not> outside_lifetime j (aj_cancelled_at j)
     \<and> is_none_or (aj_error_summary j) (\<lambda>s. validate_error_summary s = Ok ())
     \<and> is_none_or (aj_lease_token j) (\<lambda>t. t \<noteq> [] \<and> length t \<le> 255)
     \<and> \<not> persisted_state_invalid j"
  by (auto simp: job_valid_def job_from_persistence_def job_to_persisted_def validate_persisted_def
      job_static_def result_simps is_none_or_iff is_some_and_iff word_neq_0_conv
      MAX_ASYNC_JOB_IDEMPOTENCY_KEY_BYTES_def not_less split: option.splits)

lemma claim_Ok_iff:
  "claim j token until now = Ok k \<longleftrightarrow>
     token \<noteq> [] \<and> length token \<le> 255 \<and> now < until \<and> until - now \<le> max_lease
     \<and> is_claimable_at j now
     \<and> k = j\<lparr>aj_state := JobRunning, aj_attempt_count := aj_attempt_count j + 1,
             aj_next_attempt_at := None, aj_lease_token := Some token,
             aj_leased_until := Some until,
             aj_started_at := (case aj_started_at j of None \<Rightarrow> Some now | Some t \<Rightarrow> Some t),
             aj_updated_at := now\<rparr>"
  by (auto simp: claim_def)

lemma verify_lease_Ok_iff:
  "verify_lease j token now = Ok () \<longleftrightarrow>
     aj_state j = JobRunning \<and> aj_lease_token j = Some token
     \<and> (\<exists>until. aj_leased_until j = Some until \<and> now < until)"
  by (auto simp: verify_lease_def is_none_or_iff not_le)

lemma outside_lifetime_mono:
  "\<not> outside_lifetime j at \<Longrightarrow> aj_created_at k = aj_created_at j \<Longrightarrow> aj_updated_at j \<le> aj_updated_at k \<Longrightarrow>
   \<not> outside_lifetime k at"
  by (auto simp: outside_lifetime_def is_some_and_iff)

lemma is_claimable_at_attempts: "is_claimable_at j now \<Longrightarrow> aj_attempt_count j < aj_max_attempts j"
  by (auto simp: is_claimable_at_def not_le split: if_splits)

lemma is_claimable_at_state: "is_claimable_at j now \<Longrightarrow> aj_state j = JobPending \<or> aj_state j = JobRunning"
  by (cases "aj_state j") (auto simp: is_claimable_at_def split: if_splits)

text \<open>What the end-of-life time stamps of a live job look like.\<close>

lemma live_job_stamps:
  "job_valid j \<Longrightarrow> aj_state j = JobPending \<or> aj_state j = JobRunning \<Longrightarrow>
   aj_completed_at j = None \<and> aj_failed_at j = None \<and> aj_cancelled_at j = None"
  by (auto simp: job_valid_iff persisted_state_invalid_def split: option.splits)

lemma running_job_started: "job_valid j \<Longrightarrow> aj_state j = JobRunning \<Longrightarrow> \<exists>t. aj_started_at j = Some t"
  by (auto simp: job_valid_iff persisted_state_invalid_def split: option.splits)

lemma job_static_frame:
  "aj_operation_scope k = aj_operation_scope j \<Longrightarrow> aj_idempotency_key k = aj_idempotency_key j \<Longrightarrow>
   aj_request_hash k = aj_request_hash j \<Longrightarrow> aj_action k = aj_action j \<Longrightarrow>
   aj_request_id k = aj_request_id j \<Longrightarrow> aj_total_items k = aj_total_items j \<Longrightarrow>
   aj_max_attempts k = aj_max_attempts j \<Longrightarrow> job_static k = job_static j"
  by (simp add: job_static_def)

lemma claim_valid:
  assumes "job_valid j" and "aj_updated_at j \<le> now" and "claim j token until now = Ok k"
  shows "job_valid k"
proof -
  from assms(3) have c: "token \<noteq> []" "length token \<le> 255" "now < until" "until - now \<le> max_lease"
      "is_claimable_at j now"
    and k: "k = j\<lparr>aj_state := JobRunning, aj_attempt_count := aj_attempt_count j + 1,
             aj_next_attempt_at := None, aj_lease_token := Some token,
             aj_leased_until := Some until,
             aj_started_at := (case aj_started_at j of None \<Rightarrow> Some now | Some t \<Rightarrow> Some t),
             aj_updated_at := now\<rparr>"
    by (auto simp: claim_Ok_iff)
  have live: "aj_completed_at j = None" "aj_failed_at j = None" "aj_cancelled_at j = None"
    using live_job_stamps [OF assms(1)] is_claimable_at_state [OF c(5)] by auto
  have "job_static k = job_static j" by (rule job_static_frame) (simp_all add: k)
  moreover have "aj_attempt_count j + 1 \<le> aj_max_attempts j"
    using is_claimable_at_attempts [OF c(5)] by (rule inc_le)
  moreover have "\<not> outside_lifetime k (aj_started_at k)"
    using assms(1,2) by (auto simp: k job_valid_iff outside_lifetime_def is_some_and_iff split: option.splits)
  moreover have "\<not> persisted_state_invalid k"
    using c live by (auto simp: k persisted_state_invalid_def split: option.splits)
  ultimately show ?thesis
    using assms(1,2) c live by (simp add: job_valid_iff k outside_lifetime_def)
qed

lemma renew_lease_valid:
  assumes "job_valid j" and "aj_updated_at j \<le> now" and "renew_lease j token until now = Ok k"
  shows "job_valid k"
proof -
  from assms(3) have run: "aj_state j = JobRunning" and u: "now < until" "until - now \<le> max_lease"
    and k: "k = j\<lparr>aj_leased_until := Some until, aj_updated_at := now\<rparr>"
    by (auto simp: renew_lease_def result_simps verify_lease_Ok_iff split: if_splits)
  have "job_static k = job_static j" by (rule job_static_frame) (simp_all add: k)
  moreover have "\<not> persisted_state_invalid k"
    using assms(1) run u by (auto simp: k job_valid_iff persisted_state_invalid_def split: option.splits)
  ultimately show ?thesis
    using assms(1,2) outside_lifetime_mono [of j _ k] by (simp add: job_valid_iff k)
qed

lemma complete_valid:
  assumes "job_valid j" and "aj_updated_at j \<le> now" and "complete j token s f now = Ok (k, r)"
  shows "job_valid k"
proof (cases "aj_state j = JobCompleted")
  case True
  with assms show ?thesis by (simp add: complete_def)
next
  case False
  with assms(3) have run: "aj_state j = JobRunning" and sum: "saturating_add s f = aj_total_items j"
    and k: "k = j\<lparr>aj_state := JobCompleted, aj_succeeded_items := s, aj_failed_items := f,
        aj_completed_at := Some now, aj_next_attempt_at := None, aj_lease_token := None,
        aj_leased_until := None, aj_error_summary := None, aj_updated_at := now\<rparr>"
    by (auto simp: complete_def result_simps verify_lease_Ok_iff split: if_splits)
  have live: "aj_completed_at j = None" "aj_failed_at j = None" "aj_cancelled_at j = None"
    using live_job_stamps [OF assms(1)] run by auto
  have "job_static k = job_static j" by (rule job_static_frame) (simp_all add: k)
  moreover have "\<not> persisted_state_invalid k"
    using running_job_started [OF assms(1) run] live sum by (auto simp: k persisted_state_invalid_def)
  ultimately show ?thesis
    using assms(1,2) live sum outside_lifetime_mono [of j _ k]
    by (simp add: job_valid_iff k) (simp add: outside_lifetime_def)
qed

lemma fail_valid:
  assumes "job_valid j" and "aj_updated_at j \<le> now" and "fail j token summary retry now = Ok (k, r)"
  shows "job_valid k"
proof -
  from assms(3) have run: "aj_state j = JobRunning" and sum: "validate_error_summary summary = Ok ()"
    by (auto simp: fail_def result_simps verify_lease_Ok_iff)
  have live: "aj_completed_at j = None" "aj_failed_at j = None" "aj_cancelled_at j = None"
    using live_job_stamps [OF assms(1)] run by auto
  have next_none: "aj_next_attempt_at j = None"
    using assms(1) run by (auto simp: job_valid_iff persisted_state_invalid_def split: option.splits)
  let ?rel = "j\<lparr>aj_lease_token := None, aj_leased_until := None, aj_error_summary := Some summary,
    aj_updated_at := now\<rparr>"
  consider "k = ?rel\<lparr>aj_state := JobFailed, aj_next_attempt_at := None, aj_failed_at := Some now\<rparr>"
      "aj_max_attempts j \<le> aj_attempt_count j"
    | at where "k = ?rel\<lparr>aj_state := JobPending, aj_next_attempt_at := Some at\<rparr>"
    using assms(3) by (auto simp: fail_def result_simps Let_def split: if_splits option.splits)
  then show ?thesis
  proof cases
    case 1
    have "job_static k = job_static j" by (rule job_static_frame) (simp_all add: 1)
    moreover have "\<not> persisted_state_invalid k"
      using running_job_started [OF assms(1) run] live assms(1) 1(2)
      by (auto simp: 1(1) persisted_state_invalid_def job_valid_iff)
    ultimately show ?thesis
      using assms(1,2) live sum outside_lifetime_mono [of j _ k]
      by (simp add: job_valid_iff 1(1)) (simp add: outside_lifetime_def)
  next
    case 2
    have "job_static k = job_static j" by (rule job_static_frame) (simp_all add: 2)
    moreover have "\<not> persisted_state_invalid k" using live by (simp add: 2 persisted_state_invalid_def)
    ultimately show ?thesis
      using assms(1,2) live sum outside_lifetime_mono [of j _ k] by (simp add: job_valid_iff 2)
  qed
qed

lemma cancel_valid:
  assumes "job_valid j" and "aj_updated_at j \<le> now" and "cancel j now = Ok (k, r)"
  shows "job_valid k"
proof (cases "aj_state j = JobCancelled")
  case True
  with assms show ?thesis by (simp add: cancel_def)
next
  case False
  with assms(3) have live: "aj_state j = JobPending \<or> aj_state j = JobRunning"
    and k: "k = j\<lparr>aj_state := JobCancelled, aj_next_attempt_at := None, aj_lease_token := None,
        aj_leased_until := None, aj_cancelled_at := Some now, aj_updated_at := now\<rparr>"
    by (cases "aj_state j"; auto simp: cancel_def)+
  have stamps: "aj_completed_at j = None" "aj_failed_at j = None" "aj_cancelled_at j = None"
    using live_job_stamps [OF assms(1) live] by auto
  have "job_static k = job_static j" by (rule job_static_frame) (simp_all add: k)
  then show ?thesis
    using assms(1,2) stamps outside_lifetime_mono [of j _ k]
    by (simp add: job_valid_iff k persisted_state_invalid_def) (simp add: outside_lifetime_def)
qed

lemma job_step_valid: "job_valid j \<Longrightarrow> clock_ok j x \<Longrightarrow> job_valid (job_step j x)"
  by (cases x)
     (auto simp: job_step_def clock_ok_def result_simps split: sum.splits
       intro: claim_valid renew_lease_valid complete_valid fail_valid cancel_valid)

interpretation job: rehydratable job_valid job_step clock_ok job_to_persisted job_from_persistence
  by unfold_locales (auto simp: job_step_valid, simp add: job_valid_def)

lemma job_new_valid: "job_new input now = Ok j \<Longrightarrow> job_valid j"
  by (auto simp: job_new_def result_simps job_valid_iff job_static_def saturating_add_def
      outside_lifetime_def persisted_state_invalid_def word_neq_0_conv not_less split: if_splits)

section \<open>Terminal jobs, leases and attempts\<close>

lemma terminal_job_step: "job_state_is_terminal (aj_state j) \<Longrightarrow> job_step j x = j"
  by (cases x; cases "aj_state j")
     (auto simp: job_step_def claim_def renew_lease_def complete_def fail_def cancel_def
       verify_lease_def is_claimable_at_def)

interpretation job_end: absorbing job_step "\<lambda>j. job_state_is_terminal (aj_state j)"
  by unfold_locales (rule terminal_job_step)

text \<open>How many claims of a history were granted.\<close>

fun claims_granted :: "async_job \<Rightarrow> job_op list \<Rightarrow> nat" where
  "claims_granted j [] = 0"
| "claims_granted j (x # xs) =
     (case x of Claim t u n \<Rightarrow> of_bool (is_ok (claim j t u n)) | _ \<Rightarrow> 0) + claims_granted (job_step j x) xs"

lemma job_step_max_attempts: "aj_max_attempts (job_step j x) = aj_max_attempts j"
  by (cases x)
     (auto simp: job_step_def claim_Ok_iff renew_lease_def complete_def fail_def cancel_def
       result_simps Let_def split: sum.splits if_splits option.splits)

lemma job_step_attempts:
  assumes "job_valid j"
  shows "unat (aj_attempt_count (job_step j x)) = unat (aj_attempt_count j)
           + (case x of Claim t u n \<Rightarrow> of_bool (is_ok (claim j t u n)) | _ \<Rightarrow> 0)"
proof (cases x)
  case (Claim t u n)
  show ?thesis
  proof (cases "claim j t u n")
    case (Inr k)
    then have "aj_attempt_count j < aj_max_attempts j"
      and k: "aj_attempt_count k = aj_attempt_count j + 1"
      by (auto simp: claim_Ok_iff dest: is_claimable_at_attempts)
    then have "unat (aj_attempt_count j + 1) = Suc (unat (aj_attempt_count j))"
      by (simp add: unat_plus_one)
    with Claim Inr k show ?thesis by (simp add: job_step_def)
  qed (use Claim in \<open>simp add: job_step_def\<close>)
qed (auto simp: job_step_def renew_lease_def complete_def fail_def cancel_def
       result_simps Let_def split: sum.splits if_splits option.splits)

lemma claims_granted_attempts:
  "job_valid j \<Longrightarrow> admissible job_step clock_ok j xs \<Longrightarrow>
   unat (aj_attempt_count (run job_step j xs)) = unat (aj_attempt_count j) + claims_granted j xs
   \<and> aj_max_attempts (run job_step j xs) = aj_max_attempts j"
  by (induction xs arbitrary: j)
     (auto simp: job_step_valid job_step_attempts job_step_max_attempts)

section \<open>Properties\<close>

definition new_job_example :: new_async_job where
  "new_job_example =
     \<lparr>nj_id = 1, nj_application_id = 2, nj_operation_scope = ''media.batch'',
      nj_idempotency_key = ''key-1'', nj_request_hash = replicate 64 CHR ''a'',
      nj_request_id = None, nj_action = DeleteAction, nj_total_items = 2, nj_max_attempts = 3\<rparr>"

definition job_example :: async_job where
  "job_example =
     \<lparr>aj_id = 1, aj_application_id = 2, aj_operation_scope = ''media.batch'',
      aj_idempotency_key = ''key-1'', aj_request_hash = replicate 64 CHR ''a'',
      aj_request_id = None, aj_action = DeleteAction, aj_state = JobPending, aj_total_items = 2,
      aj_succeeded_items = 0, aj_failed_items = 0, aj_attempt_count = 0, aj_max_attempts = 3,
      aj_next_attempt_at = Some 0, aj_lease_token = None, aj_leased_until = None,
      aj_error_summary = None, aj_started_at = None, aj_completed_at = None, aj_failed_at = None,
      aj_cancelled_at = None, aj_created_at = 0, aj_updated_at = 0\<rparr>"

lemma job_example_new: "job_new new_job_example 0 = Ok job_example"
  by code_simp

text \<open>C34: a job stays storable. Whatever claims, renewals, completions, failures and cancellations a
  new job goes through under a clock that does not run backwards, the resulting job passes every
  check of \<open>from_persistence\<close> and is read back exactly as it was written.\<close>

theorem job_history_rehydrates:
  assumes "job_new input now = Ok j" and "admissible job_step clock_ok j ops"
  shows "job_from_persistence (job_to_persisted (run job_step j ops)) = Ok (run job_step j ops)"
  using job.run_rehydrates [OF job_new_valid [OF assms(1)] assms(2)] .

theorem job_history_rehydrates_witness:
  "job_from_persistence (job_to_persisted (run job_step job_example [Claim ''w1'' 10 1, Fail ''w1'' ''timeout'' (Some 5) 2, Cancel 4]))
   = Ok (run job_step job_example [Claim ''w1'' 10 1, Fail ''w1'' ''timeout'' (Some 5) 2, Cancel 4])"
proof -
  have "admissible job_step clock_ok job_example [Claim ''w1'' 10 1, Fail ''w1'' ''timeout'' (Some 5) 2, Cancel 4]"
    by (simp add: job_example_def clock_ok_def job_step_def claim_def fail_def verify_lease_def
        max_lease_def MAX_ASYNC_JOB_LEASE_SECONDS_def nanos_per_second_def is_claimable_at_def
        validate_error_summary_def MAX_ASYNC_JOB_ERROR_BYTES_def Let_def)
  from job_history_rehydrates [OF job_example_new this] show ?thesis .
qed



text \<open>Takeover. Once an expired lease has been claimed again with a different token, the former
  holder is locked out: its renewals, completions and failures are all rejected as stale.\<close>

theorem job_takeover_rejects_former_holder:
  assumes "claim j token' until now = Ok k" and "token \<noteq> token'"
  shows "renew_lease k token u t = Err StaleLease
       \<and> complete k token s f t = Err StaleLease
       \<and> fail k token summary retry t = Err StaleLease"
  using assms by (auto simp: claim_Ok_iff renew_lease_def complete_def fail_def verify_lease_def)

text \<open>Attempts are bounded. In every history of a new job the attempt counter equals the number
  of granted claims, and no more than \<open>max_attempts\<close> claims are ever granted.\<close>

theorem job_attempts_bounded:
  assumes "job_new input now = Ok j" and "admissible job_step clock_ok j ops"
  shows "unat (aj_attempt_count (run job_step j ops)) = claims_granted j ops
       \<and> claims_granted j ops \<le> unat (nj_max_attempts input)"
proof -
  have valid: "job_valid j" using assms(1) by (rule job_new_valid)
  have j: "aj_attempt_count j = 0" "aj_max_attempts j = nj_max_attempts input"
    using assms(1) by (auto simp: job_new_def result_simps split: if_splits)
  have "job_valid (run job_step j ops)" using valid assms(2) by (rule job.run_valid)
  then have "unat (aj_attempt_count (run job_step j ops)) \<le> unat (aj_max_attempts (run job_step j ops))"
    by (simp add: job_valid_iff word_le_nat_alt)
  with claims_granted_attempts [OF valid assms(2)] j show ?thesis by simp
qed

text \<open>A finished job is final. Once a job is completed, failed or cancelled, no later call
  changes any of its fields.\<close>

theorem job_terminal_is_final:
  assumes "job_state_is_terminal (aj_state (run job_step j ops))"
  shows "run job_step j (ops @ later) = run job_step j ops"
  using job_end.first_terminal_wins [OF assms] .

text \<open>Availability. A valid live job with attempts left can always be claimed again: as soon as
  its retry time or its lease end has passed, a claim with a well-formed token and a lease of at
  most one hour succeeds and makes the caller the holder.\<close>

theorem job_claim_available:
  assumes "job_valid j" and "aj_attempt_count j < aj_max_attempts j"
    and "aj_state j = JobPending \<and> the (aj_next_attempt_at j) \<le> now
         \<or> aj_state j = JobRunning \<and> the (aj_leased_until j) \<le> now"
    and "token \<noteq> []" and "length token \<le> 255"
    and "now < until" and "until \<le> now + 3600 * nanos_per_second"
  shows "\<exists>k. claim j token until now = Ok k \<and> aj_state k = JobRunning
           \<and> aj_lease_token k = Some token \<and> aj_leased_until k = Some until
           \<and> unat (aj_attempt_count k) = Suc (unat (aj_attempt_count j))"
proof -
  have "aj_state j = JobPending \<Longrightarrow> \<exists>d. aj_next_attempt_at j = Some d"
    and "aj_state j = JobRunning \<Longrightarrow> \<exists>d. aj_leased_until j = Some d"
    using assms(1) by (auto simp: job_valid_iff persisted_state_invalid_def split: option.splits)
  then have "is_claimable_at j now"
    using assms(2,3) by (auto simp: is_claimable_at_def)
  then show ?thesis
    using assms(2,4-7)
    by (auto simp: claim_Ok_iff max_lease_def MAX_ASYNC_JOB_LEASE_SECONDS_def unat_plus_one)
qed

end
