(* ===== verification/MH_Domain_Error.thy ===== *)
theory MH_Domain_Error
  imports MH_Visibility
begin

text \<open>
  \<^verbatim>\<open>crates/mediahub-core/src/error.rs\<close>: the error type of the media domain, with the two state
  enumerations its variants carry (\<open>MediaState\<close> of \<^verbatim>\<open>media.rs\<close> and \<open>UploadSessionState\<close> of
  \<^verbatim>\<open>upload_session.rs\<close>), and the text-field checks that media and upload sessions share.
\<close>

datatype media_state =
  Uploading | Active | ArchivePending | Archived | DeletePending | Deleted | Quarantined

datatype upload_session_state = SessionPending | SessionCompleted | SessionCancelled | SessionExpired

datatype domain_error =
    DomInvalidBucketName
  | DomInvalidLifecycleRule
  | DomInvalidBucketPolicy
  | DomInvalidObjectKey
  | DomInvalidDisplayName
  | DomInvalidTextField str nat
  | DomInvalidMimeType str
  | DomInvalidSha256
  | DomInvalidMetadataVersion
  | DomInvalidMediaStateTransition media_state media_state
  | DomMediaNotReadable media_state
  | DomRevisionConflict u64 u64
  | DomInvalidUploadSessionExpiry
  | DomUploadSessionNotExpired
  | DomUploadSessionExpired
  | DomInvalidUploadSessionStateTransition upload_session_state upload_session_state
  | DomRestrictedMetadataNamespace
  | DomUnknownMetadataNamespace str
  | DomInvalidMetadataShape
  | DomMetadataTooLarge nat
  | DomMetadataTooDeep nat
  | DomMetadataTooManyKeys nat
  | DomMetadataStringTooLong nat
  | DomObjectTooLarge u64 u64
  | DomMimeTypeNotAllowed str

definition media_validate_object_key :: "str \<Rightarrow> domain_error + unit" where
  "media_validate_object_key value =
     (if value = [] \<or> length value > 1024 \<or> list_ex (\<lambda>c. byte c = 0) value
      then Err DomInvalidObjectKey else Ok ())"

definition validate_text_field :: "str \<Rightarrow> str \<Rightarrow> nat \<Rightarrow> domain_error + unit" where
  "validate_text_field field value max_bytes =
     (if value = [] \<or> length value > max_bytes \<or> list_ex is_ascii_control value
      then Err (DomInvalidTextField field max_bytes) else Ok ())"

text \<open>The \<open>if let Some(..)\<close> around the check of an optional field.\<close>

definition validate_opt_text :: "str \<Rightarrow> str option \<Rightarrow> nat \<Rightarrow> domain_error + unit" where
  "validate_opt_text field x n = (case x of None \<Rightarrow> Ok () | Some v \<Rightarrow> validate_text_field field v n)"

end
