(* ===== verification/MH_Bucket.thy ===== *)
theory MH_Bucket
  imports MH_Domain_Error
begin

text \<open>
  \<^verbatim>\<open>crates/mediahub-core/src/bucket.rs\<close>: media buckets, their upload policy and lifecycle rules,
  and the canonical form of MIME types that the metadata and upload-session types reuse.
\<close>

section \<open>MIME types\<close>

definition canonical_mime_type :: "str \<Rightarrow> domain_error + str" where
  "canonical_mime_type raw =
     (let value = trim raw;
          valid = is_some_and (split_once CHR ''/'' value) (\<lambda>(type_part, subtype_part).
            type_part \<noteq> [] \<and> subtype_part \<noteq> []
            \<and> list_all (\<lambda>c. is_ascii c \<and> \<not> is_ascii_control c \<and> c \<noteq> CHR '' '') value)
      in if \<not> valid then Err (DomInvalidMimeType value) else Ok (to_ascii_lowercase value))"

section \<open>Lifecycle rules and policies\<close>

definition MAX_LIFECYCLE_RULES :: nat where
  "MAX_LIFECYCLE_RULES = 32"

datatype lifecycle_rule =
    ExpireAfter (rule_id: str) (rule_enabled: bool) (rule_prefix: str) (duration_seconds: u64)
  | KeepLatest (rule_id: str) (rule_enabled: bool) (rule_prefix: str) (keep_count: u32)

definition media_rule_validate :: "lifecycle_rule \<Rightarrow> domain_error + unit" where
  "media_rule_validate r =
     (let valid_common = rule_id r \<noteq> [] \<and> length (rule_id r) \<le> 128
            \<and> \<not> list_ex is_ascii_control (rule_id r)
            \<and> length (rule_prefix r) \<le> 1024 \<and> \<not> list_ex is_ascii_control (rule_prefix r);
          valid_value = (case r of
            ExpireAfter _ _ _ d \<Rightarrow> d > 0 \<and> unat d < 2 ^ 63
          | KeepLatest _ _ _ n \<Rightarrow> n > 0)
      in if valid_common \<and> valid_value then Ok () else Err DomInvalidLifecycleRule)"

record bucket_policy =
  bp_visibility :: visibility
  bp_default_ttl_seconds :: "u64 option"
  bp_max_object_size :: "u64 option"
  bp_allowed_mime_types :: "str set"
  bp_lifecycle_rules :: "lifecycle_rule list"

text \<open>The loop that canonicalizes the allowed MIME types into an ordered set.\<close>

fun collect_mime_types :: "str set \<Rightarrow> str list \<Rightarrow> domain_error + str set" where
  "collect_mime_types acc [] = Ok acc"
| "collect_mime_types acc (m # ms) =
     and_then (canonical_mime_type m) (\<lambda>c. collect_mime_types (insert c acc) ms)"

definition bucket_policy_new ::
  "visibility \<Rightarrow> u64 option \<Rightarrow> u64 option \<Rightarrow> str list \<Rightarrow> domain_error + bucket_policy" where
  "bucket_policy_new vis default_ttl_seconds max_object_size allowed_mime_types =
     (if default_ttl_seconds = Some 0 \<or> max_object_size = Some 0 then Err DomInvalidBucketPolicy
      else and_then (collect_mime_types {} allowed_mime_types) (\<lambda>mime_types.
        Ok \<lparr>bp_visibility = vis, bp_default_ttl_seconds = default_ttl_seconds,
            bp_max_object_size = max_object_size, bp_allowed_mime_types = mime_types,
            bp_lifecycle_rules = []\<rparr>))"

definition bucket_policy_unrestricted :: "visibility \<Rightarrow> bucket_policy" where
  "bucket_policy_unrestricted vis =
     \<lparr>bp_visibility = vis, bp_default_ttl_seconds = None, bp_max_object_size = None,
      bp_allowed_mime_types = {}, bp_lifecycle_rules = []\<rparr>"

fun check_media_rules :: "str set \<Rightarrow> lifecycle_rule list \<Rightarrow> domain_error + unit" where
  "check_media_rules ids [] = Ok ()"
| "check_media_rules ids (r # rs) =
     and_then (media_rule_validate r) (\<lambda>_.
       if rule_id r \<in> ids then Err DomInvalidLifecycleRule
       else check_media_rules (insert (rule_id r) ids) rs)"

definition with_lifecycle_rules :: "bucket_policy \<Rightarrow> lifecycle_rule list \<Rightarrow> domain_error + bucket_policy" where
  "with_lifecycle_rules p rules =
     (if length rules > MAX_LIFECYCLE_RULES then Err DomInvalidLifecycleRule
      else and_then (check_media_rules {} rules) (\<lambda>_. Ok (p\<lparr>bp_lifecycle_rules := rules\<rparr>)))"

definition policy_validate_upload :: "bucket_policy \<Rightarrow> str \<Rightarrow> u64 \<Rightarrow> domain_error + unit" where
  "policy_validate_upload p raw_mime sz =
     and_then (canonical_mime_type raw_mime) (\<lambda>mime.
       if is_some_and (bp_max_object_size p) (\<lambda>maximum. sz > maximum)
       then Err (DomObjectTooLarge sz (the (bp_max_object_size p)))
       else if bp_allowed_mime_types p \<noteq> {} \<and> mime \<notin> bp_allowed_mime_types p
       then Err (DomMimeTypeNotAllowed mime)
       else Ok ())"

section \<open>Buckets\<close>

record media_bucket =
  mb_id :: uuid
  mb_application_id :: uuid
  mb_name :: str
  mb_policy :: bucket_policy
  mb_created_at :: timestamp
  mb_updated_at :: timestamp

definition validate_bucket_name :: "str \<Rightarrow> domain_error + unit" where
  "validate_bucket_name name =
     (if name = [] \<or> length name > 255 \<or> list_ex is_ascii_control name
      then Err DomInvalidBucketName else Ok ())"

definition media_bucket_new ::
  "uuid \<Rightarrow> uuid \<Rightarrow> str \<Rightarrow> bucket_policy \<Rightarrow> timestamp \<Rightarrow> domain_error + media_bucket" where
  "media_bucket_new i application_id name policy now =
     and_then (validate_bucket_name name) (\<lambda>_.
       Ok \<lparr>mb_id = i, mb_application_id = application_id, mb_name = name, mb_policy = policy,
           mb_created_at = now, mb_updated_at = now\<rparr>)"

definition update_policy :: "media_bucket \<Rightarrow> bucket_policy \<Rightarrow> timestamp \<Rightarrow> media_bucket" where
  "update_policy b policy now = b\<lparr>mb_policy := policy, mb_updated_at := now\<rparr>"

definition bucket_validate_upload :: "media_bucket \<Rightarrow> str \<Rightarrow> u64 \<Rightarrow> domain_error + unit" where
  "bucket_validate_upload b mime sz = policy_validate_upload (mb_policy b) mime sz"

section \<open>Canonical MIME types are fixed points\<close>

definition mime_byte :: "char \<Rightarrow> bool" where
  "mime_byte c \<longleftrightarrow> is_ascii c \<and> \<not> is_ascii_control c \<and> c \<noteq> CHR '' ''"

lemma mime_byte_range: "mime_byte c \<longleftrightarrow> 33 \<le> byte c \<and> byte c \<le> 126"
proof -
  have "c = CHR '' '' \<longleftrightarrow> byte c = 32"
    using of_char_eq_iff [of c "CHR '' ''", where ?'a = nat] by simp
  then show ?thesis by (auto simp: mime_byte_def is_ascii_def is_ascii_control_def)
qed

lemma leading_None:
  assumes "\<forall>e \<in> set encs. e \<noteq> [] \<longrightarrow> hd e \<noteq> byte c"
  shows "leading encs (c # s) = None"
proof -
  have "\<not> (e \<noteq> [] \<and> take (length e) (map byte (c # s)) = e)" if "e \<in> set encs" for e
    using assms that by (cases e) auto
  then have "filter (\<lambda>e. e \<noteq> [] \<and> take (length e) (map byte (c # s)) = e) encs = []"
    by (simp add: filter_empty_conv)
  then show ?thesis by (simp only: leading_def list.case)
qed

lemma leading_Nil: "leading encs [] = None"
  using leading_pos [of encs "[]"] by (cases "leading encs []") auto

lemma trim_with_stop: "leading encs s = None \<Longrightarrow> trim_with encs s = s"
  by (subst trim_with.simps) simp

lemma trim_with_graphic:
  assumes "\<forall>e \<in> set encs. e \<noteq> [] \<longrightarrow> hd e < 33 \<or> 126 < hd e"
    and "s \<noteq> [] \<Longrightarrow> mime_byte (hd s)"
  shows "trim_with encs s = s"
proof (cases s)
  case Nil
  then show ?thesis by (simp add: leading_Nil trim_with_stop)
next
  case (Cons c t)
  then have "33 \<le> byte c \<and> byte c \<le> 126" using assms(2) by (simp add: mime_byte_range)
  then have "leading encs (c # t) = None"
    using assms(1) by (intro leading_None) auto
  with Cons show ?thesis by (simp add: trim_with_stop)
qed

lemma trim_graphic: "list_all mime_byte s \<Longrightarrow> trim s = s"
proof -
  assume s: "list_all mime_byte s"
  have "trim_with whitespace_encodings s = s"
    by (rule trim_with_graphic) (use s in \<open>auto simp: whitespace_encodings_def list_all_iff\<close>)
  moreover have "trim_with (map rev whitespace_encodings) (rev s) = rev s"
    by (rule trim_with_graphic)
       (use s in \<open>auto simp: whitespace_encodings_def list_all_iff hd_rev\<close>)
  ultimately show ?thesis by (simp add: trim_def)
qed

lemma byte_lower_mime: "mime_byte c \<Longrightarrow> mime_byte (byte_lower c)"
  by (auto simp: mime_byte_range byte_lower_def is_ascii_uppercase_def)

lemma byte_lower_slash: "byte_lower c = CHR ''/'' \<longleftrightarrow> c = CHR ''/''"
proof -
  have eq: "d = CHR ''/'' \<longleftrightarrow> byte d = 47" for d
    using of_char_eq_iff [of d "CHR ''/''", where ?'a = nat] by simp
  show ?thesis unfolding eq by (auto simp: byte_lower_def is_ascii_uppercase_def)
qed

lemma split_once_map:
  assumes "\<And>c. f c = d \<longleftrightarrow> c = d"
  shows "split_once d (map f s) = map_option (\<lambda>(a, b). (map f a, map f b)) (split_once d s)"
  by (induction s) (auto simp: assms option.map_comp comp_def split_def)

lemma canonical_mime_type_Ok_iff:
  "canonical_mime_type raw = Ok m \<longleftrightarrow>
     list_all mime_byte (trim raw)
     \<and> (\<exists>a b. split_once CHR ''/'' (trim raw) = Some (a, b) \<and> a \<noteq> [] \<and> b \<noteq> [])
     \<and> m = to_ascii_lowercase (trim raw)"
  unfolding mime_byte_def [abs_def]
  by (auto simp: canonical_mime_type_def Let_def is_some_and_iff)

lemma canonical_mime_type_fixpoint: "canonical_mime_type raw = Ok m \<Longrightarrow> canonical_mime_type m = Ok m"
proof -
  assume "canonical_mime_type raw = Ok m"
  then obtain a b where t: "list_all mime_byte (trim raw)"
      "split_once CHR ''/'' (trim raw) = Some (a, b)" "a \<noteq> []" "b \<noteq> []"
    and m: "m = to_ascii_lowercase (trim raw)"
    by (auto simp: canonical_mime_type_Ok_iff)
  have g: "list_all mime_byte m"
    using t(1) by (auto simp: m to_ascii_lowercase_def list_all_iff byte_lower_mime)
  then have "trim m = m" by (rule trim_graphic)
  moreover have "split_once CHR ''/'' m = Some (map byte_lower a, map byte_lower b)"
    using t(2) by (simp add: m to_ascii_lowercase_def split_once_map byte_lower_slash)
  ultimately show ?thesis
    using g t(3,4) m by (simp add: canonical_mime_type_Ok_iff)
qed

lemma collect_mime_types_Ok:
  "collect_mime_types acc ms = Ok s \<Longrightarrow>
   s = acc \<union> {c. \<exists>m \<in> set ms. canonical_mime_type m = Ok c}"
  by (induction acc ms rule: collect_mime_types.induct) (auto simp: result_simps)

lemma check_media_rules_Ok_iff:
  "check_media_rules ids rs = Ok () \<longleftrightarrow>
     (\<forall>r \<in> set rs. media_rule_validate r = Ok ()) \<and> distinct (map rule_id rs)
     \<and> set (map rule_id rs) \<inter> ids = {}"
  by (induction rs arbitrary: ids) (auto simp: result_simps)

section \<open>Properties\<close>

text \<open>Upload admission. A bucket whose policy was built by \<open>BucketPolicy::new\<close> accepts an upload
  exactly when its MIME type is well-formed, its size is within the configured maximum, and the
  allow list is empty or contains a type with the same canonical form.\<close>

theorem upload_admission:
  assumes "bucket_policy_new vis ttl maximum allowed = Ok p"
  shows "policy_validate_upload p mime sz = Ok () \<longleftrightarrow>
           (\<exists>c. canonical_mime_type mime = Ok c
              \<and> (\<forall>m. maximum = Some m \<longrightarrow> sz \<le> m)
              \<and> (allowed = [] \<or> (\<exists>a \<in> set allowed. canonical_mime_type a = Ok c)))"
proof -
  obtain s where s: "collect_mime_types {} allowed = Ok s" and p: "bp_allowed_mime_types p = s"
      "bp_max_object_size p = maximum"
    using assms by (auto simp: bucket_policy_new_def result_simps split: if_splits)
  have set: "s = {c. \<exists>m \<in> set allowed. canonical_mime_type m = Ok c}"
    using collect_mime_types_Ok [OF s] by simp
  have "s = {} \<longleftrightarrow> allowed = []"
    using s set by (cases allowed) (auto simp: result_simps)
  then show ?thesis
    using set by (auto simp: policy_validate_upload_def result_simps p is_some_and_iff not_less)
qed

text \<open>Canonical MIME types are fixed points: normalizing an accepted type again changes
  nothing, so a stored type is always read back as it was written.\<close>

lemma canonical_mime_type_idempotent:
  "and_then (canonical_mime_type raw) canonical_mime_type = canonical_mime_type raw"
  using canonical_mime_type_fixpoint [of raw] by (cases "canonical_mime_type raw") auto

end
