(* ===== verification/Media_Metadata.thy ===== *)
theory Media_Metadata
  imports MH_Bucket
begin

text \<open>
  \<^verbatim>\<open>crates/mediahub-core/src/metadata.rs\<close>: facts measured by the server (\<open>SystemMetadata\<close>),
  untrusted client metadata and their combination, with the depth, key-count, string-length and
  total-size limits. The byte length of the JSON that \<open>serde_json\<close> writes for the two metadata
  types is a parameter (\<open>serializer\<close>).
\<close>

definition CURRENT_METADATA_VERSION :: u32 where
  "CURRENT_METADATA_VERSION = 1"

definition MAX_METADATA_BYTES :: nat where
  "MAX_METADATA_BYTES = 64 * 1024"

definition MAX_METADATA_DEPTH :: nat where
  "MAX_METADATA_DEPTH = 16"

definition MAX_METADATA_KEYS :: nat where
  "MAX_METADATA_KEYS = 256"

definition MAX_METADATA_STRING_BYTES :: nat where
  "MAX_METADATA_STRING_BYTES = 8 * 1024"

type_synonym json_map = "(str \<times> json) list"

section \<open>System metadata\<close>

record system_metadata =
  sm_mime :: str
  sm_size :: u64
  sm_width :: "u32 option"
  sm_height :: "u32 option"
  sm_duration_ms :: "u64 option"
  sm_sha256 :: str

definition validate_sha256 :: "str \<Rightarrow> domain_error + unit" where
  "validate_sha256 value =
     (if length value \<noteq> 64 \<or> \<not> list_all is_ascii_hexdigit value then Err DomInvalidSha256 else Ok ())"

definition system_metadata_new ::
  "str \<Rightarrow> u64 \<Rightarrow> u32 option \<Rightarrow> u32 option \<Rightarrow> u64 option \<Rightarrow> str \<Rightarrow> domain_error + system_metadata" where
  "system_metadata_new mime sz width height duration_ms sha256 =
     and_then
       (case (width, height) of
          (None, None) \<Rightarrow> Ok (None, None)
        | (Some w, Some h) \<Rightarrow>
            if w > 0 \<and> h > 0 then Ok (Some w, Some h) else Err DomInvalidMetadataShape
        | _ \<Rightarrow> Err DomInvalidMetadataShape)
       (\<lambda>(width, height).
          let sha256 = to_ascii_lowercase sha256 in
          and_then (validate_sha256 sha256) (\<lambda>_.
          and_then (canonical_mime_type mime) (\<lambda>mime.
            Ok \<lparr>sm_mime = mime, sm_size = sz, sm_width = width, sm_height = height,
                sm_duration_ms = duration_ms, sm_sha256 = sha256\<rparr>)))"

section \<open>Limits on JSON values\<close>

definition validate_string :: "str \<Rightarrow> domain_error + unit" where
  "validate_string value =
     (if length value > MAX_METADATA_STRING_BYTES
      then Err (DomMetadataStringTooLong MAX_METADATA_STRING_BYTES) else Ok ())"

text \<open>\<open>validate_value\<close> threads the running key count and returns it.\<close>

fun validate_value :: "json \<Rightarrow> nat \<Rightarrow> nat \<Rightarrow> domain_error + nat"
and validate_values :: "json list \<Rightarrow> nat \<Rightarrow> nat \<Rightarrow> domain_error + nat"
and validate_entries :: "json_map \<Rightarrow> nat \<Rightarrow> nat \<Rightarrow> domain_error + nat" where
  "validate_value v depth key_count =
     (if depth > MAX_METADATA_DEPTH then Err (DomMetadataTooDeep MAX_METADATA_DEPTH)
      else case v of
             JString s \<Rightarrow> and_then (validate_string s) (\<lambda>_. Ok key_count)
           | JArray vs \<Rightarrow> validate_values vs depth key_count
           | JObject es \<Rightarrow> validate_entries es depth key_count
           | _ \<Rightarrow> Ok key_count)"
| "validate_values [] depth key_count = Ok key_count"
| "validate_values (v # vs) depth key_count =
     and_then (validate_value v (depth + 1) key_count) (\<lambda>k. validate_values vs depth k)"
| "validate_entries [] depth key_count = Ok key_count"
| "validate_entries ((key, v) # es) depth key_count =
     and_then (validate_string key) (\<lambda>_.
       if key_count + 1 > MAX_METADATA_KEYS then Err (DomMetadataTooManyKeys MAX_METADATA_KEYS)
       else and_then (validate_value v (depth + 1) (key_count + 1)) (\<lambda>k. validate_entries es depth k))"

declare validate_value.simps [simp del]

section \<open>Client and media metadata\<close>

record client_metadata =
  cm_user :: json_map
  cm_ai :: json_map

record media_metadata =
  mm_system :: system_metadata
  mm_user :: json_map
  mm_ai :: json_map

record serializer =
  client_bytes :: "client_metadata \<Rightarrow> nat"
  media_bytes :: "media_metadata \<Rightarrow> nat"

definition client_validate_content :: "serializer \<Rightarrow> client_metadata \<Rightarrow> domain_error + unit" where
  "client_validate_content ser m =
     and_then (validate_value (JObject (cm_user m)) 1 0) (\<lambda>k.
     and_then (validate_value (JObject (cm_ai m)) 1 k) (\<lambda>_.
       if client_bytes ser m > MAX_METADATA_BYTES then Err (DomMetadataTooLarge MAX_METADATA_BYTES)
       else Ok ()))"

definition client_metadata_new :: "serializer \<Rightarrow> json_map \<Rightarrow> json_map \<Rightarrow> domain_error + client_metadata" where
  "client_metadata_new ser user ai =
     (let metadata = \<lparr>cm_user = user, cm_ai = ai\<rparr> in
      and_then (client_validate_content ser metadata) (\<lambda>_. Ok metadata))"

text \<open>\<open>Map::remove\<close>: the entry's value, if present, and the map without it.\<close>

definition take_namespace :: "json_map \<Rightarrow> str \<Rightarrow> domain_error + json_map" where
  "take_namespace namespaces name =
     (case map_of namespaces name of
        None \<Rightarrow> Ok []
      | Some (JObject value) \<Rightarrow> Ok value
      | Some _ \<Rightarrow> Err DomInvalidMetadataShape)"

definition client_metadata_from_value :: "serializer \<Rightarrow> json \<Rightarrow> domain_error + client_metadata" where
  "client_metadata_from_value ser value =
     (case value of
        JObject namespaces \<Rightarrow>
          if ''system'' \<in> set (map fst namespaces) then Err DomRestrictedMetadataNamespace
          else (case find (\<lambda>n. n \<noteq> ''user'' \<and> n \<noteq> ''ai'') (map fst namespaces) of
                  Some n \<Rightarrow> Err (DomUnknownMetadataNamespace n)
                | None \<Rightarrow>
                    and_then (take_namespace namespaces ''user'') (\<lambda>user.
                    and_then (take_namespace namespaces ''ai'') (\<lambda>ai.
                      client_metadata_new ser user ai)))
      | _ \<Rightarrow> Err DomInvalidMetadataShape)"

definition media_metadata_validate :: "serializer \<Rightarrow> media_metadata \<Rightarrow> domain_error + unit" where
  "media_metadata_validate ser m =
     and_then (validate_value (JObject (mm_user m)) 1 0) (\<lambda>k.
     and_then (validate_value (JObject (mm_ai m)) 1 k) (\<lambda>_.
       if media_bytes ser m > MAX_METADATA_BYTES then Err (DomMetadataTooLarge MAX_METADATA_BYTES)
       else Ok ()))"

definition media_metadata_new ::
  "serializer \<Rightarrow> system_metadata \<Rightarrow> client_metadata \<Rightarrow> domain_error + media_metadata" where
  "media_metadata_new ser system client =
     (let metadata = \<lparr>mm_system = system, mm_user = cm_user client, mm_ai = cm_ai client\<rparr> in
      and_then (media_metadata_validate ser metadata) (\<lambda>_. Ok metadata))"

definition metadata_replace_client ::
  "serializer \<Rightarrow> media_metadata \<Rightarrow> client_metadata \<Rightarrow> domain_error + media_metadata" where
  "metadata_replace_client ser m client =
     (let replacement = \<lparr>mm_system = mm_system m, mm_user = cm_user client, mm_ai = cm_ai client\<rparr> in
      and_then (media_metadata_validate ser replacement) (\<lambda>_. Ok replacement))"

section \<open>Measures of a JSON value\<close>

text \<open>Nesting depth, number of object keys and the strings of a value.\<close>

fun json_depth :: "json \<Rightarrow> nat" where
  "json_depth (JArray vs) = Suc (Max (insert 0 (set (map json_depth vs))))"
| "json_depth (JObject es) = Suc (Max (insert 0 (set (map (\<lambda>(k, v). json_depth v) es))))"
| "json_depth _ = 1"

fun json_keys :: "json \<Rightarrow> nat" where
  "json_keys (JArray vs) = sum_list (map json_keys vs)"
| "json_keys (JObject es) = sum_list (map (\<lambda>(k, v). Suc (json_keys v)) es)"
| "json_keys _ = 0"

fun json_strings :: "json \<Rightarrow> str list" where
  "json_strings (JString s) = [s]"
| "json_strings (JArray vs) = concat (map json_strings vs)"
| "json_strings (JObject es) = concat (map (\<lambda>(k, v). k # json_strings v) es)"
| "json_strings _ = []"

lemma json_depth_pos: "0 < json_depth v"
  by (cases v) auto

definition short_strings :: "json \<Rightarrow> bool" where
  "short_strings v \<longleftrightarrow> list_all (\<lambda>s. length s \<le> MAX_METADATA_STRING_BYTES) (json_strings v)"

lemma short_strings_simps [simp]:
  "short_strings (JString s) = (length s \<le> MAX_METADATA_STRING_BYTES)"
  "short_strings (JArray vs) = list_all short_strings vs"
  "short_strings (JObject es) = list_all (\<lambda>(k, v). length k \<le> MAX_METADATA_STRING_BYTES \<and> short_strings v) es"
  "short_strings JNull" "short_strings (JBool b)" "short_strings (JNumber n)"
  by (auto simp: short_strings_def list_all_iff)

lemma add_Max_le:
  "d + Max (insert 0 (set ns)) \<le> m \<longleftrightarrow> d \<le> m \<and> list_all (\<lambda>n. d + n \<le> m) (ns :: nat list)"
proof -
  have "Max (insert 0 (set ns)) \<le> m - d \<longleftrightarrow> list_all (\<lambda>n. n \<le> m - d) ns"
    by (subst Max_le_iff) (auto simp: list_all_iff)
  then show ?thesis
    by (cases "d \<le> m") (simp_all add: list_all_iff le_diff_conv2 add.commute)
qed

lemma json_depth_le:
  "d + json_depth (JArray vs) \<le> Suc m \<longleftrightarrow> d \<le> m \<and> list_all (\<lambda>v. d + json_depth v \<le> m) vs"
  "d + json_depth (JObject es) \<le> Suc m \<longleftrightarrow> d \<le> m \<and> list_all (\<lambda>(k, v). d + json_depth v \<le> m) es"
  using add_Max_le [of d "map json_depth vs" m] add_Max_le [of d "map (\<lambda>(k, v). json_depth v) es" m]
  by (simp_all add: list.pred_map comp_def split_def)

text \<open>What the validator accepts, in terms of the measures: the three mutually recursive walks.\<close>

lemma validate_walk:
  "k \<le> MAX_METADATA_KEYS \<Longrightarrow>
   validate_value v d k = Ok k' \<longleftrightarrow>
     d + json_depth v \<le> Suc MAX_METADATA_DEPTH \<and> k + json_keys v \<le> MAX_METADATA_KEYS
     \<and> short_strings v \<and> k' = k + json_keys v"
  "k \<le> MAX_METADATA_KEYS \<Longrightarrow>
   validate_values vs d k = Ok k' \<longleftrightarrow>
     list_all (\<lambda>v. d + json_depth v \<le> MAX_METADATA_DEPTH) vs
     \<and> k + sum_list (map json_keys vs) \<le> MAX_METADATA_KEYS
     \<and> list_all short_strings vs \<and> k' = k + sum_list (map json_keys vs)"
  "k \<le> MAX_METADATA_KEYS \<Longrightarrow>
   validate_entries es d k = Ok k' \<longleftrightarrow>
     list_all (\<lambda>(_, v). d + json_depth v \<le> MAX_METADATA_DEPTH) es
     \<and> k + sum_list (map (\<lambda>(_, v). Suc (json_keys v)) es) \<le> MAX_METADATA_KEYS
     \<and> list_all (\<lambda>(key, v). length key \<le> MAX_METADATA_STRING_BYTES \<and> short_strings v) es
     \<and> k' = k + sum_list (map (\<lambda>(_, v). Suc (json_keys v)) es)"
proof (induction v d k and vs d k and es d k arbitrary: k' and k' and k'
    rule: validate_value_validate_values_validate_entries.induct)
  case (1 v d k)
  then show ?case
    by (subst validate_value.simps) (cases v; auto simp: json_depth_le validate_string_def result_simps simp del: json_depth.simps(1,2))
next
  case (3 v vs d k)
  note head = 3(1) [OF 3(3)]
  show ?case
  proof (cases "validate_value v (d + 1) k")
    case (Inl e)
    with head [of "k + json_keys v"] show ?thesis by auto
  next
    case (Inr a)
    then have a: "a = k + json_keys v" "d + json_depth v \<le> MAX_METADATA_DEPTH"
        "a \<le> MAX_METADATA_KEYS" "short_strings v"
      using head [of a] by auto
    with 3(2) [OF Inr a(3)] Inr show ?thesis by (auto simp: add.assoc)
  qed
next
  case (5 key v es d k)
  show ?case
  proof (cases "validate_string key = Ok () \<and> k + 1 \<le> MAX_METADATA_KEYS")
    case False
    then show ?thesis by (auto simp: result_simps validate_string_def)
  next
    case True
    then have key: "validate_string key = Ok ()" and k: "\<not> MAX_METADATA_KEYS < k + 1" by auto
    note head = 5(1) [OF key k, simplified]
    show ?thesis
    proof (cases "validate_value v (d + 1) (k + 1)")
      case (Inl e)
      with head [of "Suc k + json_keys v"] True show ?thesis by auto
    next
      case (Inr a)
      then have a: "a = Suc k + json_keys v" "d + json_depth v \<le> MAX_METADATA_DEPTH"
          "a \<le> MAX_METADATA_KEYS" "short_strings v"
        using head [of a] k by auto
      with 5(2) [OF key k Inr a(3)] Inr True show ?thesis
        by (auto simp: validate_string_def add.assoc split: if_splits)
    qed
  qed
qed auto

section \<open>What the validators accept\<close>

definition within_limits :: "json_map \<Rightarrow> json_map \<Rightarrow> bool" where
  "within_limits user ai \<longleftrightarrow>
     json_depth (JObject user) \<le> MAX_METADATA_DEPTH \<and> json_depth (JObject ai) \<le> MAX_METADATA_DEPTH
     \<and> json_keys (JObject user) + json_keys (JObject ai) \<le> MAX_METADATA_KEYS
     \<and> short_strings (JObject user) \<and> short_strings (JObject ai)"

lemma validate_both_Ok_iff:
  "and_then (validate_value (JObject user) (Suc 0) 0) (\<lambda>k. and_then (validate_value (JObject ai) (Suc 0) k) f) = Ok r \<longleftrightarrow>
     within_limits user ai \<and> f (json_keys (JObject user) + json_keys (JObject ai)) = Ok r"
  by (auto simp: and_then_Ok_iff validate_walk(1) within_limits_def
      simp del: json_depth.simps json_keys.simps short_strings_simps)

lemma client_metadata_new_Ok_iff:
  "client_metadata_new ser user ai = Ok m \<longleftrightarrow>
     m = \<lparr>cm_user = user, cm_ai = ai\<rparr> \<and> within_limits user ai
     \<and> client_bytes ser m \<le> MAX_METADATA_BYTES"
  by (auto simp: client_metadata_new_def client_validate_content_def and_then_unit_Ok
      validate_both_Ok_iff Let_def not_less split: if_splits)

lemma media_metadata_validate_Ok_iff:
  "media_metadata_validate ser m = Ok () \<longleftrightarrow>
     within_limits (mm_user m) (mm_ai m) \<and> media_bytes ser m \<le> MAX_METADATA_BYTES"
  by (auto simp: media_metadata_validate_def validate_both_Ok_iff not_less split: if_splits)

lemma take_namespace_Ok_iff:
  "take_namespace ns name = Ok es \<longleftrightarrow>
     map_of ns name = Some (JObject es) \<or> map_of ns name = None \<and> es = []"
  by (auto simp: take_namespace_def split: option.splits json.splits)

lemma system_metadata_new_fixpoint:
  "system_metadata_new mime sz w h d sha = Ok m \<Longrightarrow>
   system_metadata_new (sm_mime m) (sm_size m) (sm_width m) (sm_height m) (sm_duration_ms m) (sm_sha256 m) = Ok m"
  by (auto simp: system_metadata_new_def result_simps Let_def canonical_mime_type_fixpoint
      split: option.splits if_splits)

section \<open>Properties\<close>

text \<open>Client metadata is accepted exactly when it is an object with no namespace besides
  \<open>user\<close> and \<open>ai\<close> (in particular no \<open>system\<close> namespace), both objects when present, nested at
  most 16 deep, with at most 256 keys over both namespaces, no string or key above 8192 bytes and
  a serialized form of at most 65536 bytes; and what is kept is exactly what was sent.\<close>

theorem client_metadata_accepted_iff:
  "client_metadata_from_value ser value = Ok m \<longleftrightarrow>
     (\<exists>ns. value = JObject ns \<and> set (map fst ns) \<subseteq> {''user'', ''ai''}
        \<and> take_namespace ns ''user'' = Ok (cm_user m) \<and> take_namespace ns ''ai'' = Ok (cm_ai m)
        \<and> within_limits (cm_user m) (cm_ai m)
        \<and> client_bytes ser m \<le> 65536)"
proof (cases "value")
  case (JObject ns)
  have "find (\<lambda>n. n \<noteq> ''user'' \<and> n \<noteq> ''ai'') (map fst ns) = None \<longleftrightarrow> set (map fst ns) \<subseteq> {''user'', ''ai''}"
    by (auto simp: find_None_iff)
  then show ?thesis
    unfolding JObject client_metadata_from_value_def
    by (auto simp: result_simps client_metadata_new_Ok_iff MAX_METADATA_BYTES_def
        simp del: find_None_iff find_None_iff2 split: option.splits)
qed (auto simp: client_metadata_from_value_def)

end
