(* ===== verification/Media.thy ===== *)
theory Media
  imports Media_Metadata MH_Aggregates
begin

text \<open>
  \<^verbatim>\<open>crates/mediahub-core/src/media.rs\<close>: the media aggregate, an immutable binary object with
  mutable metadata, visibility and lifecycle state, guarded by an optimistic revision number. An
  operation on \<open>&mut self\<close> returns the updated record; none of them writes before its last check,
  so an error leaves the aggregate as it was.
\<close>

section \<open>The lifecycle state machine\<close>

fun can_transition_to :: "media_state \<Rightarrow> media_state \<Rightarrow> bool" where
  "can_transition_to Uploading Active = True"
| "can_transition_to Active ArchivePending = True"
| "can_transition_to ArchivePending Archived = True"
| "can_transition_to Active DeletePending = True"
| "can_transition_to DeletePending Deleted = True"
| "can_transition_to Active Quarantined = True"
| "can_transition_to _ _ = False"

definition ensure_transition_to :: "media_state \<Rightarrow> media_state \<Rightarrow> domain_error + unit" where
  "ensure_transition_to from to =
     (if can_transition_to from to then Ok () else Err (DomInvalidMediaStateTransition from to))"

definition is_readable :: "media_state \<Rightarrow> bool" where
  "is_readable s \<longleftrightarrow> s = Active"

section \<open>Records\<close>

record media_dimensions =
  md_width :: u32
  md_height :: u32

definition dimensions_new :: "u32 \<Rightarrow> u32 \<Rightarrow> domain_error + media_dimensions" where
  "dimensions_new w h =
     (if w = 0 \<or> h = 0 then Err DomInvalidMetadataShape else Ok \<lparr>md_width = w, md_height = h\<rparr>)"

record new_media =
  nm_id :: media_id
  nm_application_id :: uuid
  nm_bucket_id :: uuid
  nm_object_key :: str
  nm_original_name :: "str option"
  nm_display_name :: str
  nm_extension :: "str option"
  nm_storage_backend :: str
  nm_storage_key :: str
  nm_visibility_override :: "visibility option"
  nm_expire_at :: "timestamp option"
  nm_system_metadata :: system_metadata
  nm_client_metadata :: client_metadata

text \<open>\<open>PersistedSystemMetadata\<close> has the fields of \<open>SystemMetadata\<close>, unchecked.\<close>

type_synonym persisted_system_metadata = system_metadata

record persisted_media =
  pm_id :: media_id
  pm_application_id :: uuid
  pm_bucket_id :: uuid
  pm_object_key :: str
  pm_original_name :: "str option"
  pm_display_name :: str
  pm_extension :: "str option"
  pm_storage_backend :: str
  pm_storage_key :: str
  pm_state :: media_state
  pm_visibility_override :: "visibility option"
  pm_system_metadata :: persisted_system_metadata
  pm_client_metadata :: client_metadata
  pm_metadata_version :: u32
  pm_revision :: u64
  pm_expire_at :: "timestamp option"
  pm_archived_at :: "timestamp option"
  pm_deleted_at :: "timestamp option"
  pm_created_at :: timestamp
  pm_updated_at :: timestamp

record media =
  m_id :: media_id
  m_application_id :: uuid
  m_bucket_id :: uuid
  m_object_key :: str
  m_original_name :: "str option"
  m_display_name :: str
  m_mime :: str
  m_extension :: "str option"
  m_size :: u64
  m_dimensions :: "media_dimensions option"
  m_duration_ms :: "u64 option"
  m_sha256 :: str
  m_etag :: str
  m_storage_backend :: str
  m_storage_key :: str
  m_state :: media_state
  m_visibility_override :: "visibility option"
  m_metadata :: media_metadata
  m_metadata_version :: u32
  m_revision :: u64
  m_expire_at :: "timestamp option"
  m_archived_at :: "timestamp option"
  m_deleted_at :: "timestamp option"
  m_created_at :: timestamp
  m_updated_at :: timestamp

section \<open>Construction and persistence\<close>

text \<open>The checks on text fields that \<open>new\<close> and \<open>from_persistence\<close> open with.\<close>

definition validate_media_text ::
  "str \<Rightarrow> str \<Rightarrow> str option \<Rightarrow> str option \<Rightarrow> str \<Rightarrow> str \<Rightarrow> domain_error + unit" where
  "validate_media_text object_key display_name original_name extension backend storage_key =
     and_then (media_validate_object_key object_key) (\<lambda>_.
     and_then (validate_text_field ''display name'' display_name 255) (\<lambda>_.
     and_then (validate_opt_text ''original name'' original_name 255) (\<lambda>_.
     and_then (validate_opt_text ''extension'' extension 32) (\<lambda>_.
     and_then (validate_text_field ''storage backend'' backend 128) (\<lambda>_.
       validate_text_field ''storage key'' storage_key 1024)))))"

definition dimensions_of :: "system_metadata \<Rightarrow> domain_error + media_dimensions option" where
  "dimensions_of sm =
     (case (sm_width sm, sm_height sm) of
        (Some w, Some h) \<Rightarrow> and_then (dimensions_new w h) (\<lambda>d. Ok (Some d))
      | (None, None) \<Rightarrow> Ok None
      | _ \<Rightarrow> Err DomInvalidMetadataShape)"

definition media_new :: "serializer \<Rightarrow> new_media \<Rightarrow> timestamp \<Rightarrow> domain_error + media" where
  "media_new ser input now =
     and_then (validate_media_text (nm_object_key input) (nm_display_name input)
         (nm_original_name input) (nm_extension input) (nm_storage_backend input) (nm_storage_key input)) (\<lambda>_.
     and_then (dimensions_of (nm_system_metadata input)) (\<lambda>dims.
     and_then (media_metadata_new ser (nm_system_metadata input) (nm_client_metadata input)) (\<lambda>meta.
       Ok \<lparr>m_id = nm_id input, m_application_id = nm_application_id input,
           m_bucket_id = nm_bucket_id input, m_object_key = nm_object_key input,
           m_original_name = nm_original_name input, m_display_name = nm_display_name input,
           m_mime = sm_mime (mm_system meta), m_extension = nm_extension input,
           m_size = sm_size (mm_system meta), m_dimensions = dims,
           m_duration_ms = sm_duration_ms (mm_system meta), m_sha256 = sm_sha256 (mm_system meta),
           m_etag = sm_sha256 (mm_system meta), m_storage_backend = nm_storage_backend input,
           m_storage_key = nm_storage_key input, m_state = Uploading,
           m_visibility_override = nm_visibility_override input, m_metadata = meta,
           m_metadata_version = CURRENT_METADATA_VERSION, m_revision = 0,
           m_expire_at = nm_expire_at input, m_archived_at = None, m_deleted_at = None,
           m_created_at = now, m_updated_at = now\<rparr>)))"

definition media_validate_terminal_timestamps ::
  "media_state \<Rightarrow> timestamp option \<Rightarrow> timestamp option \<Rightarrow> domain_error + unit" where
  "media_validate_terminal_timestamps state archived_at deleted_at =
     (let archived_valid = (state \<noteq> Archived \<or> archived_at \<noteq> None);
          deleted_valid = (state \<noteq> Deleted \<or> deleted_at \<noteq> None)
      in if archived_valid \<and> deleted_valid then Ok () else Err DomInvalidMetadataShape)"

definition media_from_persistence :: "serializer \<Rightarrow> persisted_media \<Rightarrow> domain_error + media" where
  "media_from_persistence ser p =
     and_then (validate_media_text (pm_object_key p) (pm_display_name p)
         (pm_original_name p) (pm_extension p) (pm_storage_backend p) (pm_storage_key p)) (\<lambda>_.
     if pm_metadata_version p = 0 then Err DomInvalidMetadataVersion
     else
     and_then (media_validate_terminal_timestamps (pm_state p) (pm_archived_at p) (pm_deleted_at p)) (\<lambda>_.
     let psm = pm_system_metadata p in
     and_then (system_metadata_new (sm_mime psm) (sm_size psm) (sm_width psm) (sm_height psm)
         (sm_duration_ms psm) (sm_sha256 psm)) (\<lambda>sm.
     and_then (dimensions_of sm) (\<lambda>dims.
     and_then (media_metadata_new ser sm (pm_client_metadata p)) (\<lambda>meta.
       Ok \<lparr>m_id = pm_id p, m_application_id = pm_application_id p, m_bucket_id = pm_bucket_id p,
           m_object_key = pm_object_key p, m_original_name = pm_original_name p,
           m_display_name = pm_display_name p, m_mime = sm_mime (mm_system meta),
           m_extension = pm_extension p, m_size = sm_size (mm_system meta), m_dimensions = dims,
           m_duration_ms = sm_duration_ms (mm_system meta), m_sha256 = sm_sha256 (mm_system meta),
           m_etag = sm_sha256 (mm_system meta), m_storage_backend = pm_storage_backend p,
           m_storage_key = pm_storage_key p, m_state = pm_state p,
           m_visibility_override = pm_visibility_override p, m_metadata = meta,
           m_metadata_version = pm_metadata_version p, m_revision = pm_revision p,
           m_expire_at = pm_expire_at p, m_archived_at = pm_archived_at p,
           m_deleted_at = pm_deleted_at p, m_created_at = pm_created_at p,
           m_updated_at = pm_updated_at p\<rparr>)))))"

text \<open>
  \<open>to_persisted\<close> rebuilds the client metadata with \<open>ClientMetadata::new(..).expect(..)\<close>; the value
  \<open>None\<close> is the panic of that \<open>expect\<close>.
\<close>

definition media_to_persisted :: "serializer \<Rightarrow> media \<Rightarrow> persisted_media option" where
  "media_to_persisted ser m =
     (case client_metadata_new ser (mm_user (m_metadata m)) (mm_ai (m_metadata m)) of
        Inl _ \<Rightarrow> None
      | Inr client \<Rightarrow> Some
          \<lparr>pm_id = m_id m, pm_application_id = m_application_id m, pm_bucket_id = m_bucket_id m,
           pm_object_key = m_object_key m, pm_original_name = m_original_name m,
           pm_display_name = m_display_name m, pm_extension = m_extension m,
           pm_storage_backend = m_storage_backend m, pm_storage_key = m_storage_key m,
           pm_state = m_state m, pm_visibility_override = m_visibility_override m,
           pm_system_metadata =
             \<lparr>sm_mime = m_mime m, sm_size = m_size m, sm_width = map_option md_width (m_dimensions m),
              sm_height = map_option md_height (m_dimensions m), sm_duration_ms = m_duration_ms m,
              sm_sha256 = m_sha256 m\<rparr>,
           pm_client_metadata = client, pm_metadata_version = m_metadata_version m,
           pm_revision = m_revision m, pm_expire_at = m_expire_at m,
           pm_archived_at = m_archived_at m, pm_deleted_at = m_deleted_at m,
           pm_created_at = m_created_at m, pm_updated_at = m_updated_at m\<rparr>)"

section \<open>Operations\<close>

definition effective_visibility :: "media \<Rightarrow> visibility \<Rightarrow> visibility" where
  "effective_visibility m bucket_visibility =
     (case m_visibility_override m of Some v \<Rightarrow> v | None \<Rightarrow> bucket_visibility)"

definition ensure_readable :: "media \<Rightarrow> domain_error + unit" where
  "ensure_readable m =
     (if is_readable (m_state m) then Ok () else Err (DomMediaNotReadable (m_state m)))"

definition touch :: "media \<Rightarrow> timestamp \<Rightarrow> media" where
  "touch m now = m\<lparr>m_revision := saturating_add (m_revision m) 1, m_updated_at := now\<rparr>"

definition transition_to :: "media \<Rightarrow> media_state \<Rightarrow> timestamp \<Rightarrow> domain_error + media" where
  "transition_to m next now =
     and_then (ensure_transition_to (m_state m) next) (\<lambda>_.
       let m = m\<lparr>m_state := next\<rparr>;
           m = (if next = Archived then m\<lparr>m_archived_at := Some now\<rparr> else m);
           m = (if next = Deleted then m\<lparr>m_deleted_at := Some now\<rparr> else m)
       in Ok (touch m now))"

definition ensure_expected_revision :: "media \<Rightarrow> u64 \<Rightarrow> domain_error + unit" where
  "ensure_expected_revision m expected =
     (if m_revision m = expected then Ok () else Err (DomRevisionConflict expected (m_revision m)))"

definition replace_client_metadata ::
  "serializer \<Rightarrow> media \<Rightarrow> client_metadata \<Rightarrow> u64 \<Rightarrow> timestamp \<Rightarrow> domain_error + media" where
  "replace_client_metadata ser m client expected now =
     and_then (ensure_expected_revision m expected) (\<lambda>_.
     and_then (metadata_replace_client ser (m_metadata m) client) (\<lambda>meta.
       Ok (touch (m\<lparr>m_metadata := meta\<rparr>) now)))"

definition set_display_name :: "media \<Rightarrow> str \<Rightarrow> u64 \<Rightarrow> timestamp \<Rightarrow> domain_error + media" where
  "set_display_name m name expected now =
     and_then (ensure_expected_revision m expected) (\<lambda>_.
     and_then (validate_text_field ''display name'' name 255) (\<lambda>_.
       Ok (touch (m\<lparr>m_display_name := name\<rparr>) now)))"

definition set_visibility_override ::
  "media \<Rightarrow> visibility option \<Rightarrow> u64 \<Rightarrow> timestamp \<Rightarrow> domain_error + media" where
  "set_visibility_override m v expected now =
     and_then (ensure_expected_revision m expected) (\<lambda>_.
       Ok (touch (m\<lparr>m_visibility_override := v\<rparr>) now))"

definition set_expire_at :: "media \<Rightarrow> timestamp option \<Rightarrow> u64 \<Rightarrow> timestamp \<Rightarrow> domain_error + media" where
  "set_expire_at m at expected now =
     and_then (ensure_expected_revision m expected) (\<lambda>_.
       Ok (touch (m\<lparr>m_expire_at := at\<rparr>) now))"

section \<open>Histories of a media object\<close>

text \<open>The four updates that carry the revision the client last saw, and the lifecycle transition.\<close>

datatype media_change =
    ChangeMetadata client_metadata
  | ChangeName str
  | ChangeVisibility "visibility option"
  | ChangeExpiry "timestamp option"

fun media_update :: "serializer \<Rightarrow> media \<Rightarrow> media_change \<Rightarrow> u64 \<Rightarrow> timestamp \<Rightarrow> domain_error + media" where
  "media_update ser m (ChangeMetadata c) expected now = replace_client_metadata ser m c expected now"
| "media_update ser m (ChangeName n) expected now = set_display_name m n expected now"
| "media_update ser m (ChangeVisibility v) expected now = set_visibility_override m v expected now"
| "media_update ser m (ChangeExpiry e) expected now = set_expire_at m e expected now"

datatype media_op =
    TransitionTo media_state timestamp
  | Update media_change u64 timestamp

fun media_apply :: "serializer \<Rightarrow> media \<Rightarrow> media_op \<Rightarrow> domain_error + media" where
  "media_apply ser m (TransitionTo next now) = transition_to m next now"
| "media_apply ser m (Update c expected now) = media_update ser m c expected now"

definition media_step :: "serializer \<Rightarrow> media \<Rightarrow> media_op \<Rightarrow> media" where
  "media_step ser m x = (case media_apply ser m x of Inr m' \<Rightarrow> m' | Inl _ \<Rightarrow> m)"

text \<open>How many operations of a history took effect.\<close>

fun media_effects :: "serializer \<Rightarrow> media \<Rightarrow> media_op list \<Rightarrow> nat" where
  "media_effects ser m [] = 0"
| "media_effects ser m (x # xs) =
     of_bool (is_ok (media_apply ser m x)) + media_effects ser (media_step ser m x) xs"

lemmas media_op_defs = transition_to_def replace_client_metadata_def set_display_name_def
  set_visibility_override_def set_expire_at_def touch_def

lemma media_apply_cases:
  assumes "media_apply ser m x = Ok k"
  obtains (transition) nxt now where "x = TransitionTo nxt now" "can_transition_to (m_state m) nxt"
      "k = touch (m\<lparr>m_state := nxt,
              m_archived_at := (if nxt = Archived then Some now else m_archived_at m),
              m_deleted_at := (if nxt = Deleted then Some now else m_deleted_at m)\<rparr>) now"
    | (metadata) c now where "x = Update (ChangeMetadata c) (m_revision m) now"
        "media_metadata_validate ser \<lparr>mm_system = mm_system (m_metadata m), mm_user = cm_user c, mm_ai = cm_ai c\<rparr> = Ok ()"
        "k = touch (m\<lparr>m_metadata := \<lparr>mm_system = mm_system (m_metadata m), mm_user = cm_user c, mm_ai = cm_ai c\<rparr>\<rparr>) now"
    | (name) n now where "x = Update (ChangeName n) (m_revision m) now"
        "validate_text_field ''display name'' n 255 = Ok ()" "k = touch (m\<lparr>m_display_name := n\<rparr>) now"
    | (visibility) v now where "x = Update (ChangeVisibility v) (m_revision m) now"
        "k = touch (m\<lparr>m_visibility_override := v\<rparr>) now"
    | (expiry) e now where "x = Update (ChangeExpiry e) (m_revision m) now"
        "k = touch (m\<lparr>m_expire_at := e\<rparr>) now"
proof (cases x)
  case (TransitionTo nxt now)
  with assms show thesis
    by (intro transition [of nxt now])
       (auto simp: transition_to_def ensure_transition_to_def Let_def split: if_splits)
next
  case (Update c expected now)
  with assms show thesis
    by (cases c)
       (auto simp: media_op_defs ensure_expected_revision_def metadata_replace_client_def
         result_simps Let_def split: if_splits intro: metadata name visibility expiry)
qed

lemma media_step_cases:
  obtains (rejected) e where "media_apply ser m x = Err e" "media_step ser m x = m"
    | (applied) "media_apply ser m x = Ok (media_step ser m x)"
  by (cases "media_apply ser m x") (auto simp: media_step_def)

section \<open>Validity\<close>

text \<open>
  The JSON of the combined metadata also holds the system facts, so it is at least as long as the
  JSON of the client metadata alone.
\<close>

definition media_json_contains_client :: "serializer \<Rightarrow> bool" where
  "media_json_contains_client ser \<longleftrightarrow>
     (\<forall>system user ai. client_bytes ser \<lparr>cm_user = user, cm_ai = ai\<rparr>
        \<le> media_bytes ser \<lparr>mm_system = system, mm_user = user, mm_ai = ai\<rparr>)"

definition system_facts :: "media \<Rightarrow> system_metadata" where
  "system_facts m =
     \<lparr>sm_mime = m_mime m, sm_size = m_size m, sm_width = map_option md_width (m_dimensions m),
      sm_height = map_option md_height (m_dimensions m), sm_duration_ms = m_duration_ms m,
      sm_sha256 = m_sha256 m\<rparr>"

definition system_metadata_valid :: "system_metadata \<Rightarrow> bool" where
  "system_metadata_valid sm \<longleftrightarrow>
     system_metadata_new (sm_mime sm) (sm_size sm) (sm_width sm) (sm_height sm)
       (sm_duration_ms sm) (sm_sha256 sm) = Ok sm"

lemma system_metadata_new_eq:
  "system_metadata_new mime sz w h d sha = Ok sm \<Longrightarrow>
   system_metadata_valid sm"
  unfolding system_metadata_valid_def by (rule system_metadata_new_fixpoint)

definition media_valid :: "serializer \<Rightarrow> media \<Rightarrow> bool" where
  "media_valid ser m \<longleftrightarrow>
     validate_media_text (m_object_key m) (m_display_name m) (m_original_name m)
       (m_extension m) (m_storage_backend m) (m_storage_key m) = Ok ()
     \<and> m_metadata_version m \<noteq> 0
     \<and> media_validate_terminal_timestamps (m_state m) (m_archived_at m) (m_deleted_at m) = Ok ()
     \<and> mm_system (m_metadata m) = system_facts m \<and> system_metadata_valid (system_facts m)
     \<and> dimensions_of (system_facts m) = Ok (m_dimensions m) \<and> m_etag m = m_sha256 m
     \<and> media_metadata_validate ser (m_metadata m) = Ok ()
     \<and> client_bytes ser \<lparr>cm_user = mm_user (m_metadata m), cm_ai = mm_ai (m_metadata m)\<rparr>
         \<le> MAX_METADATA_BYTES"

lemma system_facts_simps:
  "sm_mime (system_facts m) = m_mime m" "sm_size (system_facts m) = m_size m"
  "sm_duration_ms (system_facts m) = m_duration_ms m" "sm_sha256 (system_facts m) = m_sha256 m"
  by (simp_all add: system_facts_def)

lemma media_rehydrates:
  assumes "media_valid ser m"
  shows "\<exists>p. media_to_persisted ser m = Some p \<and> media_from_persistence ser p = Ok m"
proof -
  let ?c = "\<lparr>cm_user = mm_user (m_metadata m), cm_ai = mm_ai (m_metadata m)\<rparr>"
  have "client_metadata_new ser (mm_user (m_metadata m)) (mm_ai (m_metadata m)) = Ok ?c"
    using assms by (simp add: media_valid_def client_metadata_new_Ok_iff media_metadata_validate_Ok_iff)
  moreover have eq: "\<lparr>mm_system = system_facts m, mm_user = mm_user (m_metadata m), mm_ai = mm_ai (m_metadata m)\<rparr> = m_metadata m"
    using assms by (simp add: media_valid_def)
  have "media_metadata_new ser (system_facts m) ?c = Ok (m_metadata m)"
    unfolding media_metadata_new_def Let_def client_metadata.select_convs eq
    using assms by (simp add: media_valid_def)
  ultimately show ?thesis
    using assms
    by (simp add: media_valid_def media_to_persisted_def media_from_persistence_def Let_def
        system_metadata_valid_def system_facts_simps flip: system_facts_def)
qed

lemma media_transition_timestamps:
  assumes "media_validate_terminal_timestamps s a d = Ok ()" and "can_transition_to s nxt"
  shows "media_validate_terminal_timestamps nxt (if nxt = Archived then Some now else a)
           (if nxt = Deleted then Some now else d) = Ok ()"
  using assms by (auto simp: media_validate_terminal_timestamps_def)

lemma media_text_display:
  "validate_media_text k n og x b sk = Ok () \<Longrightarrow> validate_text_field ''display name'' n' 255 = Ok () \<Longrightarrow>
   validate_media_text k n' og x b sk = Ok ()"
  by (simp add: validate_media_text_def result_simps)

lemma media_apply_valid:
  assumes "media_valid ser m" and "media_json_contains_client ser" and "media_apply ser m x = Ok k"
  shows "media_valid ser k"
  using assms(3)
proof (cases rule: media_apply_cases)
  case (transition nxt now)
  then show ?thesis
    using assms(1) media_transition_timestamps [of "m_state m" "m_archived_at m" "m_deleted_at m" nxt now]
    by (simp add: media_valid_def touch_def system_facts_def)
next
  case (metadata c now)
  then have "client_bytes ser \<lparr>cm_user = cm_user c, cm_ai = cm_ai c\<rparr> \<le> MAX_METADATA_BYTES"
    using assms(2) unfolding media_json_contains_client_def media_metadata_validate_Ok_iff
    using order_trans by blast
  with metadata assms(1) show ?thesis
    by (simp add: media_valid_def touch_def system_facts_def)
next
  case (name n now)
  with assms(1) show ?thesis
    by (auto simp: media_valid_def touch_def system_facts_def intro: media_text_display)
qed (use assms(1) in \<open>auto simp: media_valid_def touch_def system_facts_def\<close>)

lemma media_step_valid:
  "media_valid ser m \<Longrightarrow> media_json_contains_client ser \<Longrightarrow> media_valid ser (media_step ser m x)"
  by (cases rule: media_step_cases [of ser m x]) (auto intro: media_apply_valid)

interpretation media: rehydratable "media_valid ser" "media_step ser"
    "\<lambda>_ _. media_json_contains_client ser" "\<lambda>m. the (media_to_persisted ser m)"
    "media_from_persistence ser" for ser
  by unfold_locales (auto intro: media_step_valid dest: media_rehydrates)

lemma media_new_fields:
  assumes "media_new ser input now = Ok m"
  shows "m_state m = Uploading" "m_revision m = 0" "m_archived_at m = None" "m_deleted_at m = None"
  using assms by (auto simp: media_new_def result_simps)

lemma dimensions_of_facts:
  "dimensions_of sm = Ok d \<Longrightarrow> map_option md_width d = sm_width sm \<and> map_option md_height d = sm_height sm"
  by (auto simp: dimensions_of_def dimensions_new_def result_simps split: option.splits if_splits)

lemma media_new_valid:
  assumes "media_new ser input now = Ok m" and "system_metadata_valid (nm_system_metadata input)"
    and "media_json_contains_client ser"
  shows "media_valid ser m"
proof -
  from assms(1) obtain d where d: "dimensions_of (nm_system_metadata input) = Ok d"
    and fields: "validate_media_text (nm_object_key input) (nm_display_name input)
         (nm_original_name input) (nm_extension input) (nm_storage_backend input) (nm_storage_key input) = Ok ()"
    and meta: "media_metadata_validate ser (m_metadata m) = Ok ()"
    by (auto simp: media_new_def result_simps media_metadata_new_def Let_def)
  have m: "m_object_key m = nm_object_key input" "m_display_name m = nm_display_name input"
      "m_original_name m = nm_original_name input" "m_extension m = nm_extension input"
      "m_storage_backend m = nm_storage_backend input" "m_storage_key m = nm_storage_key input"
      "m_metadata_version m = 1" "m_etag m = m_sha256 m" "m_dimensions m = d"
      "mm_system (m_metadata m) = nm_system_metadata input"
      "m_state m = Uploading" "m_mime m = sm_mime (nm_system_metadata input)"
      "m_size m = sm_size (nm_system_metadata input)" "m_sha256 m = sm_sha256 (nm_system_metadata input)"
      "m_duration_ms m = sm_duration_ms (nm_system_metadata input)"
    using assms(1) d by (auto simp: media_new_def result_simps media_metadata_new_def Let_def
        CURRENT_METADATA_VERSION_def)
  have facts: "system_facts m = nm_system_metadata input"
    using dimensions_of_facts [OF d] by (simp add: system_facts_def m)
  have "media_bytes ser (m_metadata m) \<le> MAX_METADATA_BYTES"
    using meta by (simp add: media_metadata_validate_Ok_iff)
  moreover have "client_bytes ser \<lparr>cm_user = mm_user (m_metadata m), cm_ai = mm_ai (m_metadata m)\<rparr>
      \<le> media_bytes ser (m_metadata m)"
    using assms(3) by (cases "m_metadata m") (simp add: media_json_contains_client_def)
  ultimately show ?thesis
    using assms(2) fields meta d facts
    by (simp add: media_valid_def m media_validate_terminal_timestamps_def)
qed

section \<open>Lifecycle order, revisions and content\<close>

fun lifecycle_rank :: "media_state \<Rightarrow> nat" where
  "lifecycle_rank Uploading = 0"
| "lifecycle_rank Active = 1"
| "lifecycle_rank ArchivePending = 2"
| "lifecycle_rank DeletePending = 2"
| "lifecycle_rank _ = 3"

lemma can_transition_rank: "can_transition_to s t \<Longrightarrow> lifecycle_rank s < lifecycle_rank t"
  by (cases s; cases t) auto

lemma media_apply_state:
  "media_apply ser m x = Ok k \<Longrightarrow> m_state k = m_state m \<or> can_transition_to (m_state m) (m_state k)"
  by (erule media_apply_cases) (auto simp: touch_def)

interpretation media_order: ranked "\<lambda>_. True" "media_step ser" "\<lambda>_ _. True" "\<lambda>m. lifecycle_rank (m_state m)" for ser
proof (unfold_locales, goal_cases)
  case (2 m x)
  then show ?case
    by (cases rule: media_step_cases [of ser m x])
       (auto dest!: media_apply_state can_transition_rank)
qed simp

lemma media_apply_revision:
  "media_apply ser m x = Ok k \<Longrightarrow> m_revision k = saturating_add (m_revision m) 1"
  by (erule media_apply_cases) (auto simp: touch_def)

lemma media_revision_counts:
  "unat (m_revision (run (media_step ser) m xs)) = min (unat (m_revision m) + media_effects ser m xs) (2 ^ 64 - 1)"
proof (induction xs arbitrary: m)
  case Nil
  show ?case using unat_less_pow [of "m_revision m"] by simp
next
  case (Cons x xs)
  show ?case
  proof (cases rule: media_step_cases [of ser m x])
    case (rejected e)
    then show ?thesis using Cons.IH [of m] by simp
  next
    case applied
    have "unat (m_revision (media_step ser m x)) = min (unat (m_revision m) + 1) (2 ^ 64 - 1)"
      using media_apply_revision [OF applied] by (simp add: unat_saturating_add)
    with applied show ?thesis using Cons.IH [of "media_step ser m x"] by (simp add: min_def)
  qed
qed

text \<open>Retirement stamps follow the state.\<close>

definition stamps_match :: "media \<Rightarrow> bool" where
  "stamps_match m \<longleftrightarrow>
     (m_archived_at m \<noteq> None \<longleftrightarrow> m_state m = Archived) \<and> (m_deleted_at m \<noteq> None \<longleftrightarrow> m_state m = Deleted)"

interpretation media_stamps: aggregate stamps_match "media_step ser" "\<lambda>_ _. True" for ser
proof (unfold_locales, goal_cases)
  case (1 m x)
  show ?case
  proof (cases rule: media_step_cases [of ser m x])
    case (rejected e)
    with 1 show ?thesis by simp
  next
    case applied
    then show ?thesis
    proof (cases rule: media_apply_cases)
      case (transition nxt now)
      with 1 show ?thesis by (cases "m_state m"; cases nxt) (auto simp: stamps_match_def touch_def)
    qed (use 1 in \<open>auto simp: stamps_match_def touch_def\<close>)
  qed
qed

text \<open>Everything that identifies the stored bytes.\<close>

definition media_content :: "media \<Rightarrow> _" where
  "media_content m =
     ((m_id m, m_application_id m, m_bucket_id m, m_object_key m, m_original_name m, m_extension m),
      (m_mime m, m_size m, m_dimensions m, m_duration_ms m, m_sha256 m, m_etag m),
      (m_storage_backend m, m_storage_key m, mm_system (m_metadata m), m_metadata_version m, m_created_at m))"

lemma media_step_content: "media_content (media_step ser m x) = media_content m"
proof (cases rule: media_step_cases [of ser m x])
  case applied
  then show ?thesis by (cases rule: media_apply_cases) (simp_all add: media_content_def touch_def)
qed simp

section \<open>Properties\<close>

definition plain_serializer :: serializer where
  "plain_serializer =
     \<lparr>client_bytes = (\<lambda>c. length (cm_user c) + length (cm_ai c)),
      media_bytes = (\<lambda>m. 6 + length (mm_user m) + length (mm_ai m))\<rparr>"

definition media_input_example :: new_media where
  "media_input_example =
     \<lparr>nm_id = 1, nm_application_id = 2, nm_bucket_id = 3, nm_object_key = ''a.png'',
      nm_original_name = None, nm_display_name = ''A'', nm_extension = Some ''png'',
      nm_storage_backend = ''local'', nm_storage_key = ''o/a'', nm_visibility_override = None,
      nm_expire_at = None,
      nm_system_metadata = \<lparr>sm_mime = ''image/png'', sm_size = 12, sm_width = Some 2,
        sm_height = Some 3, sm_duration_ms = None, sm_sha256 = replicate 64 CHR ''a''\<rparr>,
      nm_client_metadata = \<lparr>cm_user = [(''project'', JString ''one'')], cm_ai = []\<rparr>\<rparr>"

definition media_example :: media where
  "media_example =
     \<lparr>m_id = 1, m_application_id = 2, m_bucket_id = 3, m_object_key = ''a.png'',
      m_original_name = None, m_display_name = ''A'', m_mime = ''image/png'',
      m_extension = Some ''png'', m_size = 12,
      m_dimensions = Some \<lparr>md_width = 2, md_height = 3\<rparr>, m_duration_ms = None,
      m_sha256 = replicate 64 CHR ''a'', m_etag = replicate 64 CHR ''a'',
      m_storage_backend = ''local'', m_storage_key = ''o/a'', m_state = Uploading,
      m_visibility_override = None,
      m_metadata = \<lparr>mm_system = nm_system_metadata media_input_example,
        mm_user = [(''project'', JString ''one'')], mm_ai = []\<rparr>,
      m_metadata_version = 1, m_revision = 0, m_expire_at = None, m_archived_at = None,
      m_deleted_at = None, m_created_at = 0, m_updated_at = 0\<rparr>"

lemma media_example_new: "media_new plain_serializer media_input_example 0 = Ok media_example"
  by code_simp

lemma plain_serializer_ok: "media_json_contains_client plain_serializer"
  by (simp add: media_json_contains_client_def plain_serializer_def)

text \<open>C36: persistence of media. Whatever transitions and updates a new media object goes through,
  storing it never hits the panic of \<open>to_persisted\<close> and reading it back passes every check of
  \<open>from_persistence\<close> and yields the same object. The system facts of the input come from
  \<open>SystemMetadata::new\<close>, and the JSON of the combined metadata is at least as long as that of the
  client part.\<close>

theorem media_history_rehydrates:
  assumes "media_new ser input now = Ok m"
    and "system_metadata_new mime sz w h d sha = Ok (nm_system_metadata input)"
    and "media_json_contains_client ser"
  shows "\<exists>p. media_to_persisted ser (run (media_step ser) m ops) = Some p
           \<and> media_from_persistence ser p = Ok (run (media_step ser) m ops)"
proof -
  have "media_valid ser m"
    using assms(1) system_metadata_new_eq [OF assms(2)] assms(3) by (rule media_new_valid)
  moreover have "admissible (media_step ser) (\<lambda>_ _. media_json_contains_client ser) m ops"
    using assms(3) by (induction ops arbitrary: m) auto
  ultimately have "media_valid ser (run (media_step ser) m ops)" by (rule media.run_valid)
  then show ?thesis by (rule media_rehydrates)
qed

theorem media_history_rehydrates_witness:
  "\<exists>p. media_to_persisted plain_serializer (run (media_step plain_serializer) media_example
          [TransitionTo Active 1, Update (ChangeName ''B'') 1 2]) = Some p
     \<and> media_from_persistence plain_serializer p
       = Ok (run (media_step plain_serializer) media_example [TransitionTo Active 1, Update (ChangeName ''B'') 1 2])"
proof -
  have "system_metadata_new '' IMAGE/png'' 12 (Some 2) (Some 3) None (replicate 64 CHR ''A'')
      = Ok (nm_system_metadata media_input_example)"
    by code_simp
  from media_history_rehydrates [OF media_example_new this plain_serializer_ok] show ?thesis .
qed

text \<open>No lost updates. Two clients that read the same revision cannot both write: once any
  operation has taken effect since a revision below the 64-bit maximum was read, every
  metadata, name, visibility or expiry update that carries that revision is rejected as a
  conflict and names the current revision.\<close>

theorem media_no_lost_update:
  assumes "m_revision m \<noteq> - 1" and "0 < media_effects ser m ops"
  shows "media_update ser (run (media_step ser) m ops) change (m_revision m) now
         = Err (DomRevisionConflict (m_revision m) (m_revision (run (media_step ser) m ops)))"
proof -
  have "unat (m_revision m) < 2 ^ 64 - 1"
    using assms(1) unat_less_pow [of "m_revision m"]
    by (simp add: word_unat_eq_iff unat_max_word)
  then have "m_revision (run (media_step ser) m ops) \<noteq> m_revision m"
    using assms(2) media_revision_counts [of ser m ops] by (auto simp: word_unat_eq_iff)
  then show ?thesis
    by (cases change) (auto simp: media_op_defs ensure_expected_revision_def)
qed

text \<open>Retired media stays unreadable. In every history of a new media object, content readable
  at some point was, at every earlier point, uploading or active: once archiving, deletion or
  quarantine has begun no operation makes it readable again. The archive and deletion stamps are
  present exactly in the archived and the deleted state.\<close>

theorem media_retirement_is_final:
  assumes "media_new ser input now = Ok m"
  shows "(ensure_readable (run (media_step ser) m (before @ after)) = Ok () \<longrightarrow>
            m_state (run (media_step ser) m before) \<in> {Uploading, Active})
       \<and> stamps_match (run (media_step ser) m before)"
proof
  let ?b = "run (media_step ser) m before"
  have rank: "lifecycle_rank (m_state ?b) \<le> lifecycle_rank (m_state (run (media_step ser) ?b after))"
    by (rule media_order.run_rank) simp_all
  show "ensure_readable (run (media_step ser) m (before @ after)) = Ok () \<longrightarrow>
            m_state ?b \<in> {Uploading, Active}"
  proof
    assume "ensure_readable (run (media_step ser) m (before @ after)) = Ok ()"
    then have "m_state (run (media_step ser) ?b after) = Active"
      by (simp add: ensure_readable_def is_readable_def run_append split: if_splits)
    with rank show "m_state ?b \<in> {Uploading, Active}" by (cases "m_state ?b") auto
  qed
  show "stamps_match ?b"
    by (rule media_stamps.run_valid) (simp_all add: stamps_match_def media_new_fields [OF assms])
qed

text \<open>Content is immutable. No sequence of operations changes the identity of a media object,
  its object key, media facts, digest, entity tag or storage location.\<close>

theorem media_content_immutable:
  "media_content (run (media_step ser) m ops) = media_content m"
  by (induction ops arbitrary: m) (simp_all add: media_step_content)

end
