(* ===== verification/Upload_Session.thy ===== *)
theory Upload_Session
  imports Media_Metadata MH_Aggregates
begin

text \<open>
  \<^verbatim>\<open>crates/mediahub-core/src/upload_session.rs\<close>: a reserved direct-upload intent that is pending
  until exactly one of completion, cancellation and expiry takes effect.
\<close>

section \<open>Records\<close>

definition session_is_terminal :: "upload_session_state \<Rightarrow> bool" where
  "session_is_terminal s \<longleftrightarrow> s \<noteq> SessionPending"

datatype session_transition = Applied | AlreadyApplied

record new_upload_session =
  nu_id :: upload_session_id
  nu_media_id :: media_id
  nu_application_id :: uuid
  nu_bucket_id :: uuid
  nu_object_key :: str
  nu_original_name :: "str option"
  nu_display_name :: str
  nu_extension :: "str option"
  nu_expected_size :: u64
  nu_expected_mime :: str
  nu_storage_backend :: str
  nu_storage_key :: str
  nu_visibility_override :: "visibility option"
  nu_media_expires_at :: "timestamp option"
  nu_client_metadata :: client_metadata
  nu_session_expires_at :: timestamp

record upload_session =
  us_id :: upload_session_id
  us_media_id :: media_id
  us_application_id :: uuid
  us_bucket_id :: uuid
  us_object_key :: str
  us_original_name :: "str option"
  us_display_name :: str
  us_extension :: "str option"
  us_expected_size :: u64
  us_expected_mime :: str
  us_storage_backend :: str
  us_storage_key :: str
  us_visibility_override :: "visibility option"
  us_media_expires_at :: "timestamp option"
  us_client_metadata :: client_metadata
  us_session_expires_at :: timestamp
  us_state :: upload_session_state
  us_completed_at :: "timestamp option"
  us_cancelled_at :: "timestamp option"
  us_expired_at :: "timestamp option"
  us_created_at :: timestamp
  us_updated_at :: timestamp

text \<open>\<open>PersistedUploadSession\<close> has the same fields with no invariant attached.\<close>

type_synonym persisted_upload_session = upload_session

section \<open>Validation\<close>

definition upload_validate_fields ::
  "str \<Rightarrow> str option \<Rightarrow> str \<Rightarrow> str option \<Rightarrow> str \<Rightarrow> str \<Rightarrow> domain_error + unit" where
  "upload_validate_fields object_key original_name display_name extension backend storage_key =
     (if object_key = [] \<or> length object_key > 1024 \<or> list_ex (\<lambda>c. byte c = 0) object_key
      then Err DomInvalidObjectKey
      else
        and_then (validate_text_field ''display name'' display_name 255) (\<lambda>_.
        and_then (validate_opt_text ''original name'' original_name 255) (\<lambda>_.
        and_then (validate_opt_text ''extension'' extension 32) (\<lambda>_.
        and_then (validate_text_field ''storage backend'' backend 128) (\<lambda>_.
          validate_text_field ''storage key'' storage_key 1024)))))"

definition upload_validate_terminal_timestamps ::
  "upload_session_state \<Rightarrow> timestamp option \<Rightarrow> timestamp option \<Rightarrow> timestamp option \<Rightarrow> domain_error + unit" where
  "upload_validate_terminal_timestamps state completed_at cancelled_at expired_at =
     (let valid = (case state of
          SessionPending \<Rightarrow> completed_at = None \<and> cancelled_at = None \<and> expired_at = None
        | SessionCompleted \<Rightarrow> completed_at \<noteq> None \<and> cancelled_at = None \<and> expired_at = None
        | SessionCancelled \<Rightarrow> completed_at = None \<and> cancelled_at \<noteq> None \<and> expired_at = None
        | SessionExpired \<Rightarrow> completed_at = None \<and> cancelled_at = None \<and> expired_at \<noteq> None)
      in if valid then Ok () else Err (DomInvalidUploadSessionStateTransition state state))"

section \<open>Construction and persistence\<close>

definition session_new :: "new_upload_session \<Rightarrow> timestamp \<Rightarrow> domain_error + upload_session" where
  "session_new input now =
     and_then (upload_validate_fields (nu_object_key input) (nu_original_name input)
         (nu_display_name input) (nu_extension input) (nu_storage_backend input) (nu_storage_key input)) (\<lambda>_.
     if nu_session_expires_at input \<le> now then Err DomInvalidUploadSessionExpiry
     else and_then (canonical_mime_type (nu_expected_mime input)) (\<lambda>mime.
       Ok \<lparr>us_id = nu_id input, us_media_id = nu_media_id input,
           us_application_id = nu_application_id input, us_bucket_id = nu_bucket_id input,
           us_object_key = nu_object_key input, us_original_name = nu_original_name input,
           us_display_name = nu_display_name input, us_extension = nu_extension input,
           us_expected_size = nu_expected_size input, us_expected_mime = mime,
           us_storage_backend = nu_storage_backend input, us_storage_key = nu_storage_key input,
           us_visibility_override = nu_visibility_override input,
           us_media_expires_at = nu_media_expires_at input,
           us_client_metadata = nu_client_metadata input,
           us_session_expires_at = nu_session_expires_at input, us_state = SessionPending,
           us_completed_at = None, us_cancelled_at = None, us_expired_at = None,
           us_created_at = now, us_updated_at = now\<rparr>))"

definition session_from_persistence :: "persisted_upload_session \<Rightarrow> domain_error + upload_session" where
  "session_from_persistence p =
     and_then (upload_validate_fields (us_object_key p) (us_original_name p)
         (us_display_name p) (us_extension p) (us_storage_backend p) (us_storage_key p)) (\<lambda>_.
     and_then (upload_validate_terminal_timestamps (us_state p) (us_completed_at p)
         (us_cancelled_at p) (us_expired_at p)) (\<lambda>_.
     and_then (canonical_mime_type (us_expected_mime p)) (\<lambda>mime.
       Ok (p\<lparr>us_expected_mime := mime\<rparr>))))"

definition session_to_persisted :: "upload_session \<Rightarrow> persisted_upload_session" where
  "session_to_persisted s = s"

section \<open>Operations\<close>

definition is_expired_at :: "upload_session \<Rightarrow> timestamp \<Rightarrow> bool" where
  "is_expired_at s now \<longleftrightarrow> us_state s = SessionPending \<and> now \<ge> us_session_expires_at s"

definition reserved_bytes :: "upload_session \<Rightarrow> u64" where
  "reserved_bytes s = us_expected_size s"

text \<open>
  Only the three terminal states are passed to \<open>apply_terminal_state\<close>; a pending one either equals
  the current state or differs from a terminal one, so the \<open>unreachable!\<close> arm is never met and the
  first two tests already return.
\<close>

definition apply_terminal_state ::
  "upload_session \<Rightarrow> upload_session_state \<Rightarrow> timestamp
   \<Rightarrow> domain_error + (upload_session \<times> session_transition)" where
  "apply_terminal_state s next now =
     (if us_state s = next then Ok (s, AlreadyApplied)
      else if us_state s \<noteq> SessionPending
      then Err (DomInvalidUploadSessionStateTransition (us_state s) next)
      else
        let s = s\<lparr>us_state := next\<rparr>;
            s = (case next of
                   SessionCompleted \<Rightarrow> s\<lparr>us_completed_at := Some now\<rparr>
                 | SessionCancelled \<Rightarrow> s\<lparr>us_cancelled_at := Some now\<rparr>
                 | SessionExpired \<Rightarrow> s\<lparr>us_expired_at := Some now\<rparr>
                 | SessionPending \<Rightarrow> s)
        in Ok (s\<lparr>us_updated_at := now\<rparr>, Applied))"

definition session_complete ::
  "upload_session \<Rightarrow> timestamp \<Rightarrow> domain_error + (upload_session \<times> session_transition)" where
  "session_complete s now =
     (if is_expired_at s now then Err DomUploadSessionExpired
      else apply_terminal_state s SessionCompleted now)"

definition session_cancel ::
  "upload_session \<Rightarrow> timestamp \<Rightarrow> domain_error + (upload_session \<times> session_transition)" where
  "session_cancel s now = apply_terminal_state s SessionCancelled now"

definition session_expire ::
  "upload_session \<Rightarrow> timestamp \<Rightarrow> domain_error + (upload_session \<times> session_transition)" where
  "session_expire s now =
     (if us_state s = SessionPending \<and> now < us_session_expires_at s then Err DomUploadSessionNotExpired
      else apply_terminal_state s SessionExpired now)"

section \<open>Histories\<close>

datatype session_op = CompleteUpload timestamp | CancelUpload timestamp | ExpireUpload timestamp

fun session_apply :: "upload_session \<Rightarrow> session_op \<Rightarrow> domain_error + (upload_session \<times> session_transition)" where
  "session_apply s (CompleteUpload now) = session_complete s now"
| "session_apply s (CancelUpload now) = session_cancel s now"
| "session_apply s (ExpireUpload now) = session_expire s now"

definition session_step :: "upload_session \<Rightarrow> session_op \<Rightarrow> upload_session" where
  "session_step s x = (case session_apply s x of Inr (s', _) \<Rightarrow> s' | Inl _ \<Rightarrow> s)"

fun target_state :: "session_op \<Rightarrow> upload_session_state" where
  "target_state (CompleteUpload now) = SessionCompleted"
| "target_state (CancelUpload now) = SessionCancelled"
| "target_state (ExpireUpload now) = SessionExpired"

definition session_valid :: "upload_session \<Rightarrow> bool" where
  "session_valid s \<longleftrightarrow> session_from_persistence (session_to_persisted s) = Ok s"

lemmas session_op_defs = session_complete_def session_cancel_def session_expire_def
  apply_terminal_state_def is_expired_at_def

lemma session_valid_iff:
  "session_valid s \<longleftrightarrow>
     upload_validate_fields (us_object_key s) (us_original_name s) (us_display_name s)
       (us_extension s) (us_storage_backend s) (us_storage_key s) = Ok ()
     \<and> upload_validate_terminal_timestamps (us_state s) (us_completed_at s) (us_cancelled_at s)
         (us_expired_at s) = Ok ()
     \<and> canonical_mime_type (us_expected_mime s) = Ok (us_expected_mime s)"
proof -
  have "s\<lparr>us_expected_mime := mime\<rparr> = s \<longleftrightarrow> mime = us_expected_mime s" for mime
    by (cases s) auto
  then show ?thesis
    by (auto simp: session_valid_def session_from_persistence_def session_to_persisted_def result_simps)
qed

lemma pending_stamps:
  "session_valid s \<Longrightarrow> us_state s = SessionPending \<Longrightarrow>
   us_completed_at s = None \<and> us_cancelled_at s = None \<and> us_expired_at s = None"
  by (auto simp: session_valid_iff upload_validate_terminal_timestamps_def Let_def split: if_splits)

lemma terminal_session_step: "session_is_terminal (us_state s) \<Longrightarrow> session_step s x = s"
  by (cases x) (auto simp: session_step_def session_op_defs session_is_terminal_def)

lemma session_step_valid: "session_valid s \<Longrightarrow> session_valid (session_step s x)"
proof (cases "us_state s = SessionPending")
  case True
  assume v: "session_valid s"
  note st = pending_stamps [OF v True]
  from v True st show ?thesis
    by (cases x)
       (auto simp: session_step_def session_op_defs session_valid_iff
         upload_validate_terminal_timestamps_def)
qed (simp add: terminal_session_step session_is_terminal_def)

interpretation session: rehydratable session_valid session_step "\<lambda>_ _. True"
    session_to_persisted session_from_persistence
  by unfold_locales (auto simp: session_step_valid, simp add: session_valid_def)

interpretation session_end: absorbing session_step "\<lambda>s. session_is_terminal (us_state s)"
  by unfold_locales (rule terminal_session_step)

lemma session_new_valid: "session_new input now = Ok s \<Longrightarrow> session_valid s"
  by (auto simp: session_new_def result_simps session_valid_iff canonical_mime_type_fixpoint
      upload_validate_terminal_timestamps_def split: if_splits)

section \<open>Properties\<close>

definition session_input_example :: new_upload_session where
  "session_input_example =
     \<lparr>nu_id = 1, nu_media_id = 2, nu_application_id = 3, nu_bucket_id = 4,
      nu_object_key = ''a.png'', nu_original_name = None, nu_display_name = ''A'',
      nu_extension = None, nu_expected_size = 42, nu_expected_mime = ''IMAGE/PNG'',
      nu_storage_backend = ''s3'', nu_storage_key = ''u/a'', nu_visibility_override = None,
      nu_media_expires_at = None, nu_client_metadata = \<lparr>cm_user = [], cm_ai = []\<rparr>,
      nu_session_expires_at = 900\<rparr>"

definition session_example :: upload_session where
  "session_example =
     \<lparr>us_id = 1, us_media_id = 2, us_application_id = 3, us_bucket_id = 4,
      us_object_key = ''a.png'', us_original_name = None, us_display_name = ''A'',
      us_extension = None, us_expected_size = 42, us_expected_mime = ''image/png'',
      us_storage_backend = ''s3'', us_storage_key = ''u/a'', us_visibility_override = None,
      us_media_expires_at = None, us_client_metadata = \<lparr>cm_user = [], cm_ai = []\<rparr>,
      us_session_expires_at = 900, us_state = SessionPending, us_completed_at = None,
      us_cancelled_at = None, us_expired_at = None, us_created_at = 0, us_updated_at = 0\<rparr>"

lemma session_example_new: "session_new session_input_example 0 = Ok session_example"
  by code_simp

text \<open>The first terminal action wins. In every history of a new session at most one call is ever
  reported as applied; after it, repeating the same action reports \<open>AlreadyApplied\<close>, every other
  action is rejected, and the session (its time stamps included) never changes again.\<close>

theorem session_first_terminal_wins:
  assumes "session_new input now = Ok s0" and "s = run session_step s0 before"
    and "session_apply s x = Ok (s', Applied)"
  shows "run session_step s0 (before @ [x] @ after) = s'
       \<and> session_apply s' y =
           (if target_state y = target_state x then Ok (s', AlreadyApplied)
            else Err (DomInvalidUploadSessionStateTransition (target_state x) (target_state y)))"
proof -
  have s': "us_state s' = target_state x" "session_is_terminal (target_state x)"
    using assms(3) by (cases x; auto simp: session_op_defs session_is_terminal_def split: if_splits)+
  have "run session_step s0 (before @ [x]) = s'"
    using assms(2,3) by (simp add: run_append session_step_def)
  then have "run session_step s0 ((before @ [x]) @ after) = s'"
    using session_end.first_terminal_wins [of s0 "before @ [x]" after] s' by simp
  moreover have "session_apply s' y =
           (if target_state y = target_state x then Ok (s', AlreadyApplied)
            else Err (DomInvalidUploadSessionStateTransition (target_state x) (target_state y)))"
    using s' by (cases y; cases x) (auto simp: session_op_defs)
  ultimately show ?thesis by simp
qed

text \<open>The expiry instant separates completion from expiry. A pending session can be completed
  exactly before its expiry instant and can be expired exactly from that instant on, so at every
  time one of the two succeeds and the other is refused with the matching error.\<close>

theorem session_expiry_exclusive:
  assumes "us_state s = SessionPending"
  shows "(now < us_session_expires_at s \<longrightarrow>
            is_ok (session_complete s now) \<and> session_expire s now = Err DomUploadSessionNotExpired)
       \<and> (us_session_expires_at s \<le> now \<longrightarrow>
            session_complete s now = Err DomUploadSessionExpired \<and> is_ok (session_expire s now))"
  using assms by (auto simp: session_op_defs)

text \<open>C37: persistence of upload sessions. Every state a new session can reach is read back from its
  persisted form unchanged, with exactly the time stamp of its terminal state set.\<close>

theorem session_history_rehydrates:
  assumes "session_new input now = Ok s"
  shows "session_from_persistence (session_to_persisted (run session_step s ops)) = Ok (run session_step s ops)"
  using session.run_rehydrates [OF session_new_valid [OF assms], of ops] by simp

theorem session_history_rehydrates_witness:
  "session_from_persistence (session_to_persisted (run session_step session_example [ExpireUpload 5, CancelUpload 6]))
   = Ok (run session_step session_example [ExpireUpload 5, CancelUpload 6])"
  using session_history_rehydrates [OF session_example_new] .

end
