(* ===== verification/Variant.thy ===== *)
theory Variant
  imports MH_Text
begin

text \<open>
  \<^verbatim>\<open>crates/mediahub-core/src/variant.rs\<close>: image variant transforms, their bounds, and the canonical
  text that identifies a transform in cache keys.
\<close>

definition MAX_VARIANT_DIMENSION :: u32 where
  "MAX_VARIANT_DIMENSION = 4096"

definition MAX_VARIANT_OUTPUT_PIXELS :: u64 where
  "MAX_VARIANT_OUTPUT_PIXELS = 16777216"

datatype variant_fit = Cover | Contain | Inside

datatype crop_position = Center | Top | Bottom | Left | Right

datatype variant_format = Jpeg | Png | Webp

fun format_extension :: "variant_format \<Rightarrow> str" where
  "format_extension Jpeg = ''jpg''"
| "format_extension Png = ''png''"
| "format_extension Webp = ''webp''"

fun format_mime :: "variant_format \<Rightarrow> str" where
  "format_mime Jpeg = ''image/jpeg''"
| "format_mime Png = ''image/png''"
| "format_mime Webp = ''image/webp''"

datatype variant_error =
  InvalidDimension | OutputTooLarge | InvalidQuality | InvalidBlur | InvalidBackground

record variant_transform =
  vt_width :: "u32 option"
  vt_height :: "u32 option"
  vt_fit :: variant_fit
  vt_quality :: u8
  vt_format :: variant_format
  vt_blur :: u8
  vt_crop :: crop_position
  vt_background :: str

definition variant_new ::
  "u32 option \<Rightarrow> u32 option \<Rightarrow> variant_fit \<Rightarrow> u8 \<Rightarrow> variant_format \<Rightarrow> u8 \<Rightarrow> crop_position \<Rightarrow> str
   \<Rightarrow> variant_error + variant_transform" where
  "variant_new width height fit quality format blur crop background =
     (if is_some_and width (\<lambda>v. v = 0 \<or> v > MAX_VARIANT_DIMENSION)
         \<or> is_some_and height (\<lambda>v. v = 0 \<or> v > MAX_VARIANT_DIMENSION)
      then Err InvalidDimension
      else if (case (width, height) of
                 (Some w, Some h) \<Rightarrow> (ucast w :: u64) * ucast h > MAX_VARIANT_OUTPUT_PIXELS
               | _ \<Rightarrow> False)
      then Err OutputTooLarge
      else if \<not> (1 \<le> quality \<and> quality \<le> 100) then Err InvalidQuality
      else if blur > 100 then Err InvalidBlur
      else
        let background = to_ascii_lowercase background
        in if length background \<noteq> 6 \<or> \<not> list_all is_ascii_hexdigit background
           then Err InvalidBackground
           else Ok \<lparr>vt_width = width, vt_height = height, vt_fit = fit, vt_quality = quality,
                    vt_format = format, vt_blur = blur, vt_crop = crop, vt_background = background\<rparr>)"

fun fit_name :: "variant_fit \<Rightarrow> str" where
  "fit_name Cover = ''cover''"
| "fit_name Contain = ''contain''"
| "fit_name Inside = ''inside''"

fun format_name :: "variant_format \<Rightarrow> str" where
  "format_name Jpeg = ''jpeg''"
| "format_name Png = ''png''"
| "format_name Webp = ''webp''"

fun crop_name :: "crop_position \<Rightarrow> str" where
  "crop_name Center = ''center''"
| "crop_name Top = ''top''"
| "crop_name Bottom = ''bottom''"
| "crop_name Left = ''left''"
| "crop_name Right = ''right''"

definition dimension_text :: "u32 option \<Rightarrow> str" where
  "dimension_text x = (case x of None \<Rightarrow> [] | Some v \<Rightarrow> decimal (unat v))"

definition variant_canonical :: "variant_transform \<Rightarrow> str" where
  "variant_canonical t =
     ''w='' @ dimension_text (vt_width t) @ ''&h='' @ dimension_text (vt_height t)
     @ ''&fit='' @ fit_name (vt_fit t) @ ''&quality='' @ decimal (unat (vt_quality t))
     @ ''&format='' @ format_name (vt_format t) @ ''&blur='' @ decimal (unat (vt_blur t))
     @ ''&crop='' @ crop_name (vt_crop t) @ ''&background='' @ vt_background t"

section \<open>Canonical text\<close>

lemma fit_name_inject [simp]: "fit_name a = fit_name b \<longleftrightarrow> a = b"
  by (cases a; cases b) auto

lemma format_name_inject [simp]: "format_name a = format_name b \<longleftrightarrow> a = b"
  by (cases a; cases b) auto

lemma crop_name_inject [simp]: "crop_name a = crop_name b \<longleftrightarrow> a = b"
  by (cases a; cases b) auto

lemma dimension_text_inject [simp]: "dimension_text a = dimension_text b \<longleftrightarrow> a = b"
  by (cases a; cases b) (auto simp: dimension_text_def word_unat_eq_iff eq_commute [of "[]"])

lemma digits_no_amp: "list_all is_ascii_digit s \<Longrightarrow> CHR ''&'' \<notin> set s"
  by (auto simp: list_all_iff is_ascii_digit_def)

lemma hex_no_amp: "list_all is_ascii_hexdigit s \<Longrightarrow> CHR ''&'' \<notin> set s"
  by (auto simp: list_all_iff is_ascii_hexdigit_def is_ascii_digit_def)

lemma names_no_amp:
  "CHR ''&'' \<notin> set (fit_name f)" "CHR ''&'' \<notin> set (format_name g)" "CHR ''&'' \<notin> set (crop_name c)"
  "CHR ''&'' \<notin> set (dimension_text d)" "CHR ''&'' \<notin> set (decimal n)"
  using digits_no_amp [OF decimal_digits]
  by (cases f; simp; cases g; simp; cases c; simp; cases d; simp add: dimension_text_def)+

definition variant_fields :: "variant_transform \<Rightarrow> str list" where
  "variant_fields t =
     [''w='' @ dimension_text (vt_width t), ''h='' @ dimension_text (vt_height t),
      ''fit='' @ fit_name (vt_fit t), ''quality='' @ decimal (unat (vt_quality t)),
      ''format='' @ format_name (vt_format t), ''blur='' @ decimal (unat (vt_blur t)),
      ''crop='' @ crop_name (vt_crop t), ''background='' @ vt_background t]"

lemma variant_canonical_split:
  assumes "CHR ''&'' \<notin> set (vt_background t)"
  shows "split_on CHR ''&'' (variant_canonical t) = variant_fields t"
proof -
  have "variant_canonical t = join_with CHR ''&'' (variant_fields t)"
    by (simp add: variant_canonical_def variant_fields_def)
  moreover have "list_all (\<lambda>x. CHR ''&'' \<notin> set x) (variant_fields t)"
    using assms by (simp add: variant_fields_def names_no_amp)
  moreover have "variant_fields t \<noteq> []" by (simp add: variant_fields_def)
  ultimately show ?thesis by (simp add: split_on_join)
qed

lemma variant_new_Ok:
  assumes "variant_new w h f q g b c bg = Ok t"
  shows "t = \<lparr>vt_width = w, vt_height = h, vt_fit = f, vt_quality = q, vt_format = g, vt_blur = b,
             vt_crop = c, vt_background = to_ascii_lowercase bg\<rparr>"
    and "length bg = 6" and "list_all is_ascii_hexdigit (vt_background t)"
    and "1 \<le> q" and "q \<le> 100" and "b \<le> 100"
    and "is_none_or w (\<lambda>v. 1 \<le> unat v \<and> unat v \<le> 4096)"
    and "is_none_or h (\<lambda>v. 1 \<le> unat v \<and> unat v \<le> 4096)"
proof -
  have dim: "\<not> (v = 0 \<or> v > MAX_VARIANT_DIMENSION) \<Longrightarrow> 1 \<le> unat v \<and> unat v \<le> 4096" for v
    by (auto simp: MAX_VARIANT_DIMENSION_def word_less_nat_alt unat_eq_0 Suc_le_eq simp flip: neq0_conv)
  show "is_none_or w (\<lambda>v. 1 \<le> unat v \<and> unat v \<le> 4096)"
    using assms dim by (cases w) (auto simp: variant_new_def split: if_splits)
  show "is_none_or h (\<lambda>v. 1 \<le> unat v \<and> unat v \<le> 4096)"
    using assms dim by (cases h) (auto simp: variant_new_def split: if_splits)
qed (use assms in \<open>auto simp: variant_new_def Let_def split: if_splits\<close>)

section \<open>Properties\<close>

text \<open>C39: cache keys do not collide. Two transforms accepted by \<open>VariantTransform::new\<close> have the same
  canonical text exactly when they are the same transform.\<close>

theorem variant_canonical_injective:
  assumes "variant_new w h f q g b c bg = Ok s" and "variant_new w' h' f' q' g' b' c' bg' = Ok t"
  shows "variant_canonical s = variant_canonical t \<longleftrightarrow> s = t"
proof
  assume eq: "variant_canonical s = variant_canonical t"
  have "CHR ''&'' \<notin> set (vt_background s)" "CHR ''&'' \<notin> set (vt_background t)"
    using variant_new_Ok(3) [OF assms(1)] variant_new_Ok(3) [OF assms(2)] by (simp_all add: hex_no_amp)
  then have "variant_fields s = variant_fields t"
    using eq by (metis variant_canonical_split)
  then show "s = t"
    by (intro variant_transform.equality) (auto simp: variant_fields_def word_unat_eq_iff)
qed simp

theorem variant_canonical_injective_witness:
  "\<exists>s t. variant_new (Some 1) None Cover 80 Jpeg 0 Center ''FFFFFF'' = Ok s
     \<and> variant_new None (Some 1) Cover 80 Jpeg 0 Center ''ffffff'' = Ok t
     \<and> variant_canonical s \<noteq> variant_canonical t"
proof -
  have "is_ok (variant_new (Some 1) None Cover 80 Jpeg 0 Center ''FFFFFF'')"
    and "is_ok (variant_new None (Some 1) Cover 80 Jpeg 0 Center ''ffffff'')"
    by code_simp+
  then obtain s t where st: "variant_new (Some 1) None Cover 80 Jpeg 0 Center ''FFFFFF'' = Ok s"
      "variant_new None (Some 1) Cover 80 Jpeg 0 Center ''ffffff'' = Ok t"
    by (auto simp: is_ok_iff)
  have "s \<noteq> t" using variant_new_Ok(1) [OF st(1)] variant_new_Ok(1) [OF st(2)] by auto
  with variant_canonical_injective [OF st] st show ?thesis by blast
qed

end
