(* ===== verification/Policy_Model.thy ===== *)
theory Policy_Model
  imports MH_Text
begin

text \<open>
  The vocabulary of \<^verbatim>\<open>crates/mediahub-core/src/s3_policy.rs\<close>: errors, effects and decisions, the
  table of S3 actions with their scopes, principals, clauses, conditions, statements, policies and
  the requests they are evaluated on. Borrowed text of a request is the text itself.
\<close>

section \<open>Limits and errors\<close>

definition S3_POLICY_VERSION :: str where
  "S3_POLICY_VERSION = ''2012-10-17''"

definition S3_POLICY_LEGACY_VERSION :: str where
  "S3_POLICY_LEGACY_VERSION = ''2008-10-17''"

definition MAX_S3_POLICY_BYTES :: nat where
  "MAX_S3_POLICY_BYTES = 20 * 1024"

definition MAX_S3_POLICY_DEPTH :: nat where
  "MAX_S3_POLICY_DEPTH = 16"

definition MAX_S3_POLICY_STATEMENTS :: nat where
  "MAX_S3_POLICY_STATEMENTS = 100"

definition MAX_S3_POLICY_ACTIONS :: nat where
  "MAX_S3_POLICY_ACTIONS = 64"

definition MAX_S3_POLICY_RESOURCES :: nat where
  "MAX_S3_POLICY_RESOURCES = 64"

definition MAX_S3_POLICY_PRINCIPALS :: nat where
  "MAX_S3_POLICY_PRINCIPALS = 64"

definition MAX_S3_POLICY_CONDITION_OPERATORS :: nat where
  "MAX_S3_POLICY_CONDITION_OPERATORS = 16"

definition MAX_S3_POLICY_CONDITION_KEYS :: nat where
  "MAX_S3_POLICY_CONDITION_KEYS = 32"

definition MAX_S3_POLICY_CONDITION_VALUES :: nat where
  "MAX_S3_POLICY_CONDITION_VALUES = 64"

definition MAX_S3_POLICY_STRING_BYTES :: nat where
  "MAX_S3_POLICY_STRING_BYTES = 2048"

definition MAX_S3_POLICY_SID_BYTES :: nat where
  "MAX_S3_POLICY_SID_BYTES = 128"

definition MAX_S3_POLICY_RUNTIME_KEY_BYTES :: nat where
  "MAX_S3_POLICY_RUNTIME_KEY_BYTES = 1024"

datatype s3_policy_error_kind = Syntax | Validation | LimitKind

datatype s3_policy_error_code =
    MalformedJson | PolicyTooLarge | PolicyTooDeep | InvalidDocument | UnsupportedVersion
  | UnsupportedField | InvalidStatement | InvalidPrincipal | UnsupportedAction | InvalidResource
  | UnsupportedCondition | LimitExceeded

record s3_policy_error =
  pe_kind :: s3_policy_error_kind
  pe_code :: s3_policy_error_code

definition syntax_error :: "s3_policy_error_code \<Rightarrow> s3_policy_error" where
  "syntax_error c = \<lparr>pe_kind = Syntax, pe_code = c\<rparr>"

definition validation :: "s3_policy_error_code \<Rightarrow> s3_policy_error" where
  "validation c = \<lparr>pe_kind = Validation, pe_code = c\<rparr>"

definition limit :: "s3_policy_error_code \<Rightarrow> s3_policy_error" where
  "limit c = \<lparr>pe_kind = LimitKind, pe_code = c\<rparr>"

datatype s3_policy_effect = Allow | Deny

datatype s3_policy_decision = AllowDecision | ExplicitDeny | ImplicitDeny

definition is_allowed :: "s3_policy_decision \<Rightarrow> bool" where
  "is_allowed d \<longleftrightarrow> d = AllowDecision"

section \<open>Actions\<close>

datatype s3_policy_resource_scope = AccountScope | BucketScope | ObjectScope

datatype s3_policy_action =
    ListAllMyBuckets | CreateBucket | ListBucket | ListBucketVersions |
    ListBucketMultipartUploads | GetBucketLocation | GetBucketVersioning |
    PutBucketVersioning | GetLifecycleConfiguration | PutLifecycleConfiguration |
    DeleteLifecycleConfiguration | GetBucketObjectLockConfiguration |
    PutBucketObjectLockConfiguration | GetBucketCors | PutBucketCors | GetBucketTagging |
    PutBucketTagging | GetBucketPolicy | GetBucketPolicyStatus | PutBucketPolicy |
    DeleteBucketPolicy | DeleteBucket | GetObject | GetObjectVersion | GetObjectAcl |
    GetObjectVersionAcl | PutObjectAcl | PutObjectVersionAcl | PutObject | DeleteObject |
    DeleteObjectVersion | GetObjectTagging | GetObjectVersionTagging | PutObjectTagging |
    PutObjectVersionTagging | DeleteObjectTagging | DeleteObjectVersionTagging |
    GetObjectRetention | PutObjectRetention | GetObjectLegalHold | PutObjectLegalHold |
    BypassGovernanceRetention | AbortMultipartUpload | ListMultipartUploadParts

definition ALL_ACTIONS :: "s3_policy_action list" where
  "ALL_ACTIONS =
     [ListAllMyBuckets, CreateBucket, ListBucket, ListBucketVersions,
      ListBucketMultipartUploads, GetBucketLocation, GetBucketVersioning, PutBucketVersioning,
      GetLifecycleConfiguration, PutLifecycleConfiguration, DeleteLifecycleConfiguration,
      GetBucketObjectLockConfiguration, PutBucketObjectLockConfiguration, GetBucketCors,
      PutBucketCors, GetBucketTagging, PutBucketTagging, GetBucketPolicy,
      GetBucketPolicyStatus, PutBucketPolicy, DeleteBucketPolicy, DeleteBucket, GetObject,
      GetObjectVersion, GetObjectAcl, GetObjectVersionAcl, PutObjectAcl, PutObjectVersionAcl,
      PutObject, DeleteObject, DeleteObjectVersion, GetObjectTagging, GetObjectVersionTagging,
      PutObjectTagging, PutObjectVersionTagging, DeleteObjectTagging,
      DeleteObjectVersionTagging, GetObjectRetention, PutObjectRetention, GetObjectLegalHold,
      PutObjectLegalHold, BypassGovernanceRetention, AbortMultipartUpload,
      ListMultipartUploadParts]"

primrec action_as_str :: "s3_policy_action \<Rightarrow> str" where
  "action_as_str ListAllMyBuckets = ''s3:ListAllMyBuckets''"
| "action_as_str CreateBucket = ''s3:CreateBucket''"
| "action_as_str ListBucket = ''s3:ListBucket''"
| "action_as_str ListBucketVersions = ''s3:ListBucketVersions''"
| "action_as_str ListBucketMultipartUploads = ''s3:ListBucketMultipartUploads''"
| "action_as_str GetBucketLocation = ''s3:GetBucketLocation''"
| "action_as_str GetBucketVersioning = ''s3:GetBucketVersioning''"
| "action_as_str PutBucketVersioning = ''s3:PutBucketVersioning''"
| "action_as_str GetLifecycleConfiguration = ''s3:GetLifecycleConfiguration''"
| "action_as_str PutLifecycleConfiguration = ''s3:PutLifecycleConfiguration''"
| "action_as_str DeleteLifecycleConfiguration = ''s3:DeleteLifecycleConfiguration''"
| "action_as_str GetBucketObjectLockConfiguration = ''s3:GetBucketObjectLockConfiguration''"
| "action_as_str PutBucketObjectLockConfiguration = ''s3:PutBucketObjectLockConfiguration''"
| "action_as_str GetBucketCors = ''s3:GetBucketCORS''"
| "action_as_str PutBucketCors = ''s3:PutBucketCORS''"
| "action_as_str GetBucketTagging = ''s3:GetBucketTagging''"
| "action_as_str PutBucketTagging = ''s3:PutBucketTagging''"
| "action_as_str GetBucketPolicy = ''s3:GetBucketPolicy''"
| "action_as_str GetBucketPolicyStatus = ''s3:GetBucketPolicyStatus''"
| "action_as_str PutBucketPolicy = ''s3:PutBucketPolicy''"
| "action_as_str DeleteBucketPolicy = ''s3:DeleteBucketPolicy''"
| "action_as_str DeleteBucket = ''s3:DeleteBucket''"
| "action_as_str GetObject = ''s3:GetObject''"
| "action_as_str GetObjectVersion = ''s3:GetObjectVersion''"
| "action_as_str GetObjectAcl = ''s3:GetObjectAcl''"
| "action_as_str GetObjectVersionAcl = ''s3:GetObjectVersionAcl''"
| "action_as_str PutObjectAcl = ''s3:PutObjectAcl''"
| "action_as_str PutObjectVersionAcl = ''s3:PutObjectVersionAcl''"
| "action_as_str PutObject = ''s3:PutObject''"
| "action_as_str DeleteObject = ''s3:DeleteObject''"
| "action_as_str DeleteObjectVersion = ''s3:DeleteObjectVersion''"
| "action_as_str GetObjectTagging = ''s3:GetObjectTagging''"
| "action_as_str GetObjectVersionTagging = ''s3:GetObjectVersionTagging''"
| "action_as_str PutObjectTagging = ''s3:PutObjectTagging''"
| "action_as_str PutObjectVersionTagging = ''s3:PutObjectVersionTagging''"
| "action_as_str DeleteObjectTagging = ''s3:DeleteObjectTagging''"
| "action_as_str DeleteObjectVersionTagging = ''s3:DeleteObjectVersionTagging''"
| "action_as_str GetObjectRetention = ''s3:GetObjectRetention''"
| "action_as_str PutObjectRetention = ''s3:PutObjectRetention''"
| "action_as_str GetObjectLegalHold = ''s3:GetObjectLegalHold''"
| "action_as_str PutObjectLegalHold = ''s3:PutObjectLegalHold''"
| "action_as_str BypassGovernanceRetention = ''s3:BypassGovernanceRetention''"
| "action_as_str AbortMultipartUpload = ''s3:AbortMultipartUpload''"
| "action_as_str ListMultipartUploadParts = ''s3:ListMultipartUploadParts''"

primrec scope :: "s3_policy_action \<Rightarrow> s3_policy_resource_scope" where
  "scope ListAllMyBuckets = AccountScope"
| "scope CreateBucket = AccountScope"
| "scope ListBucket = BucketScope"
| "scope ListBucketVersions = BucketScope"
| "scope ListBucketMultipartUploads = BucketScope"
| "scope GetBucketLocation = BucketScope"
| "scope GetBucketVersioning = BucketScope"
| "scope PutBucketVersioning = BucketScope"
| "scope GetLifecycleConfiguration = BucketScope"
| "scope PutLifecycleConfiguration = BucketScope"
| "scope DeleteLifecycleConfiguration = BucketScope"
| "scope GetBucketObjectLockConfiguration = BucketScope"
| "scope PutBucketObjectLockConfiguration = BucketScope"
| "scope GetBucketCors = BucketScope"
| "scope PutBucketCors = BucketScope"
| "scope GetBucketTagging = BucketScope"
| "scope PutBucketTagging = BucketScope"
| "scope GetBucketPolicy = BucketScope"
| "scope GetBucketPolicyStatus = BucketScope"
| "scope PutBucketPolicy = BucketScope"
| "scope DeleteBucketPolicy = BucketScope"
| "scope DeleteBucket = BucketScope"
| "scope GetObject = ObjectScope"
| "scope GetObjectVersion = ObjectScope"
| "scope GetObjectAcl = ObjectScope"
| "scope GetObjectVersionAcl = ObjectScope"
| "scope PutObjectAcl = ObjectScope"
| "scope PutObjectVersionAcl = ObjectScope"
| "scope PutObject = ObjectScope"
| "scope DeleteObject = ObjectScope"
| "scope DeleteObjectVersion = ObjectScope"
| "scope GetObjectTagging = ObjectScope"
| "scope GetObjectVersionTagging = ObjectScope"
| "scope PutObjectTagging = ObjectScope"
| "scope PutObjectVersionTagging = ObjectScope"
| "scope DeleteObjectTagging = ObjectScope"
| "scope DeleteObjectVersionTagging = ObjectScope"
| "scope GetObjectRetention = ObjectScope"
| "scope PutObjectRetention = ObjectScope"
| "scope GetObjectLegalHold = ObjectScope"
| "scope PutObjectLegalHold = ObjectScope"
| "scope BypassGovernanceRetention = ObjectScope"
| "scope AbortMultipartUpload = ObjectScope"
| "scope ListMultipartUploadParts = ObjectScope"

definition from_name :: "str \<Rightarrow> s3_policy_action option" where
  "from_name name = find (\<lambda>a. eq_ignore_ascii_case (action_as_str a) name) ALL_ACTIONS"

definition S3_BUCKET_POLICY_ACTIONS :: "s3_policy_action list" where
  "S3_BUCKET_POLICY_ACTIONS =
     [ListBucket, ListBucketVersions, ListBucketMultipartUploads, GetBucketLocation,
      GetBucketVersioning, PutBucketVersioning, GetLifecycleConfiguration,
      PutLifecycleConfiguration, DeleteLifecycleConfiguration,
      GetBucketObjectLockConfiguration, PutBucketObjectLockConfiguration, GetBucketCors,
      PutBucketCors, GetBucketTagging, PutBucketTagging, GetBucketPolicy,
      GetBucketPolicyStatus, PutBucketPolicy, DeleteBucketPolicy, DeleteBucket, GetObject,
      GetObjectVersion, GetObjectAcl, GetObjectVersionAcl, PutObjectAcl, PutObjectVersionAcl,
      PutObject, DeleteObject, DeleteObjectVersion, GetObjectTagging, GetObjectVersionTagging,
      PutObjectTagging, PutObjectVersionTagging, DeleteObjectTagging,
      DeleteObjectVersionTagging, GetObjectRetention, PutObjectRetention, GetObjectLegalHold,
      PutObjectLegalHold, BypassGovernanceRetention, AbortMultipartUpload,
      ListMultipartUploadParts]"

section \<open>Principals, clauses and conditions\<close>

datatype s3_aws_principal = AnyAws | AccountP str | ArnP str

datatype s3_policy_principal = AnyPrincipal | Aws "s3_aws_principal list"

datatype s3_principal_clause = Principal s3_policy_principal | NotPrincipal s3_policy_principal

datatype s3_action_clause = Action "str list" | NotAction "str list"

datatype s3_resource_clause = Resource "str list" | NotResource "str list"

datatype s3_condition_operator =
    StringEquals | StringNotEquals | StringLike | StringNotLike | BoolOp | IpAddress | NotIpAddress
  | NumericLessThanEquals | NullOp

datatype s3_condition_key =
  SecureTransport | SourceIp | PrincipalArn | UserId | PrefixKey | Delimiter | MaxKeys | VersionId

record ip_network =
  net_address :: ip_addr
  net_prefix :: u8

datatype s3_condition_value = CvString str | CvBool bool | CvIp ip_network | CvUnsigned u64

record s3_policy_condition =
  c_operator :: s3_condition_operator
  c_key :: s3_condition_key
  c_values :: "s3_condition_value list"

record s3_policy_statement =
  st_sid :: "str option"
  st_effect :: s3_policy_effect
  st_principal :: s3_principal_clause
  st_actions :: s3_action_clause
  st_resources :: s3_resource_clause
  st_conditions :: "s3_policy_condition list"

record s3_identity_policy_statement =
  is_sid :: "str option"
  is_effect :: s3_policy_effect
  is_actions :: s3_action_clause
  is_resources :: s3_resource_clause
  is_conditions :: "s3_policy_condition list"

record s3_identity_policy =
  ip_version :: str
  ip_id :: "str option"
  ip_statements :: "s3_identity_policy_statement list"

record s3_bucket_policy =
  bp_version :: str
  bp_id :: "str option"
  bp_target_bucket :: str
  bp_statements :: "s3_policy_statement list"

section \<open>Requests\<close>

record s3_policy_query =
  q_prefix :: "str option"
  q_delimiter :: "str option"
  q_max_keys :: "u64 option"

text \<open>The condition context that bucket requests, identity requests and evaluation requests share
  (the trait \<open>S3PolicyRequestContext\<close>).\<close>

record request_context =
  rc_version_id :: "str option"
  rc_principal_arn :: "str option"
  rc_principal_account :: "str option"
  rc_userid :: "str option"
  rc_secure_transport :: bool
  rc_source_ip :: "ip_addr option"
  rc_query :: s3_policy_query

record s3_policy_request = request_context +
  pr_action :: s3_policy_action
  pr_bucket :: str
  pr_key :: "str option"

datatype s3_identity_policy_resource =
    AccountResource
  | BucketResource str
  | ObjectResource str str

record s3_identity_policy_request = request_context +
  ir_action :: s3_policy_action
  ir_resource :: s3_identity_policy_resource

record s3_policy_evaluation_request = request_context +
  er_action :: s3_policy_action
  er_resource :: str

fun resource_scope :: "s3_identity_policy_resource \<Rightarrow> s3_policy_resource_scope" where
  "resource_scope AccountResource = AccountScope"
| "resource_scope (BucketResource _) = BucketScope"
| "resource_scope (ObjectResource _ _) = ObjectScope"

definition identity_request_new ::
  "s3_policy_action \<Rightarrow> s3_identity_policy_resource \<Rightarrow> s3_identity_policy_request" where
  "identity_request_new action resource =
     \<lparr>rc_version_id = None, rc_principal_arn = None, rc_principal_account = None, rc_userid = None,
      rc_secure_transport = False, rc_source_ip = None,
      rc_query = \<lparr>q_prefix = None, q_delimiter = None, q_max_keys = None\<rparr>,
      ir_action = action, ir_resource = resource\<rparr>"

definition identity_request_account :: "s3_policy_action \<Rightarrow> s3_identity_policy_request" where
  "identity_request_account action = identity_request_new action AccountResource"

definition identity_request_bucket :: "s3_policy_action \<Rightarrow> str \<Rightarrow> s3_identity_policy_request" where
  "identity_request_bucket action bucket = identity_request_new action (BucketResource bucket)"

definition identity_request_object :: "s3_policy_action \<Rightarrow> str \<Rightarrow> str \<Rightarrow> s3_identity_policy_request" where
  "identity_request_object action bucket key = identity_request_new action (ObjectResource bucket key)"

section \<open>The action table\<close>

lemma all_actions_complete: "a \<in> set ALL_ACTIONS"
  by (cases a) (simp_all add: ALL_ACTIONS_def)

lemma action_names_distinct: "distinct (map (\<lambda>a. to_ascii_lowercase (action_as_str a)) ALL_ACTIONS)"
  by code_simp

lemma action_name_inject:
  "to_ascii_lowercase (action_as_str a) = to_ascii_lowercase (action_as_str b) \<Longrightarrow> a = b"
  using action_names_distinct all_actions_complete [of a] all_actions_complete [of b]
  by (auto simp: distinct_map inj_on_def)

lemma bucket_policy_actions: "set S3_BUCKET_POLICY_ACTIONS = {a. scope a \<noteq> AccountScope}"
proof -
  have "a \<in> set S3_BUCKET_POLICY_ACTIONS \<longleftrightarrow> scope a \<noteq> AccountScope" for a
    by (cases a) (simp_all add: S3_BUCKET_POLICY_ACTIONS_def)
  then show ?thesis by blast
qed

text \<open>Action names: Looking up the name of an action in any letter case finds exactly that action,
  and the actions a bucket policy supports are exactly those not of account scope.\<close>

lemma action_name_lookup:
  "(eq_ignore_ascii_case name (action_as_str a) \<longrightarrow> from_name name = Some a)
   \<and> set S3_BUCKET_POLICY_ACTIONS = {a. scope a \<noteq> AccountScope}"
proof
  show "eq_ignore_ascii_case name (action_as_str a) \<longrightarrow> from_name name = Some a"
  proof
    assume n: "eq_ignore_ascii_case name (action_as_str a)"
    obtain b where "from_name name = Some b"
      using all_actions_complete [of a] n
      by (cases "from_name name") (auto simp: from_name_def find_None_iff eq_ignore_ascii_case_def)
    moreover from this have "eq_ignore_ascii_case (action_as_str b) name"
      by (auto simp: from_name_def find_Some_iff)
    then have "b = a" using n by (intro action_name_inject) (simp add: eq_ignore_ascii_case_def)
    ultimately show "from_name name = Some a" by simp
  qed
qed (rule bucket_policy_actions)

end
