(* ===== verification/Policy_Glob.thy ===== *)
theory Policy_Glob
  imports MH_Prelude
begin

text \<open>
  The wildcard matcher of \<^verbatim>\<open>crates/mediahub-core/src/s3_policy.rs\<close> (\<open>glob_matches\<close>,
  \<open>characters_equal\<close>): a dynamic program over two boolean rows, and its equivalence with the
  meaning of a pattern, a split of the text into one segment per pattern character.
\<close>

section \<open>The dynamic program\<close>

definition char_lower :: "nat \<Rightarrow> nat" where
  "char_lower c = (if 65 \<le> c \<and> c \<le> 90 then c + 32 else c)"

definition characters_equal :: "nat \<Rightarrow> nat \<Rightarrow> bool \<Rightarrow> bool" where
  "characters_equal left right ascii_case_insensitive =
     (if ascii_case_insensitive then char_lower left = char_lower right else left = right)"

abbreviation star :: nat where
  "star \<equiv> 42"

abbreviation question_mark :: nat where
  "question_mark \<equiv> 63"

text \<open>
  The inner loop: \<open>previous[index..]\<close>, the rest of the value and \<open>current[index]\<close>; the result is
  \<open>current[index + 1..]\<close>.
\<close>

fun glob_scan :: "bool \<Rightarrow> nat \<Rightarrow> bool list \<Rightarrow> nat list \<Rightarrow> bool \<Rightarrow> bool list" where
  "glob_scan ci p (q # q' # qs) (v # vs) c =
     (let c' = (if p = star then q' \<or> c
                else q \<and> (p = question_mark \<or> characters_equal p v ci))
      in c' # glob_scan ci p (q' # qs) vs c')"
| "glob_scan ci p _ _ c = []"

definition glob_row :: "bool \<Rightarrow> nat list \<Rightarrow> bool list \<Rightarrow> nat \<Rightarrow> bool list" where
  "glob_row ci vs previous p =
     (let c = (if p = star then previous ! 0 else False)
      in c # glob_scan ci p previous vs c)"

definition glob_matches :: "str \<Rightarrow> str \<Rightarrow> bool \<Rightarrow> bool" where
  "glob_matches pattern text ascii_case_insensitive =
     (let ps = chars pattern;
          vs = chars text;
          rows = foldl (glob_row ascii_case_insensitive vs) (True # replicate (length vs) False) ps
      in rows ! length vs)"

section \<open>What a pattern means\<close>

definition segment_ok :: "bool \<Rightarrow> nat \<Rightarrow> nat list \<Rightarrow> bool" where
  "segment_ok ci p seg \<longleftrightarrow>
     p = star \<or> (\<exists>c. seg = [c] \<and> (p = question_mark \<or> characters_equal p c ci))"

definition glob_spec :: "bool \<Rightarrow> nat list \<Rightarrow> nat list \<Rightarrow> bool" where
  "glob_spec ci ps vs \<longleftrightarrow> (\<exists>segs. vs = concat segs \<and> list_all2 (segment_ok ci) ps segs)"

lemma glob_spec_Nil [simp]: "glob_spec ci [] vs \<longleftrightarrow> vs = []"
  by (auto simp: glob_spec_def)

lemma glob_spec_snoc:
  "glob_spec ci (ps @ [p]) vs \<longleftrightarrow> (\<exists>us seg. vs = us @ seg \<and> glob_spec ci ps us \<and> segment_ok ci p seg)"
proof
  assume "glob_spec ci (ps @ [p]) vs"
  then obtain segs where v: "vs = concat segs" and a: "list_all2 (segment_ok ci) (ps @ [p]) segs"
    by (auto simp: glob_spec_def)
  from a obtain us z where "segs = us @ [z]" "list_all2 (segment_ok ci) ps us" "segment_ok ci p z"
    by (auto simp: list_all2_append1 list_all2_Cons1)
  with v have "vs = concat us @ z \<and> glob_spec ci ps (concat us) \<and> segment_ok ci p z"
    by (auto simp: glob_spec_def)
  then show "\<exists>us seg. vs = us @ seg \<and> glob_spec ci ps us \<and> segment_ok ci p seg" by blast
next
  assume "\<exists>us seg. vs = us @ seg \<and> glob_spec ci ps us \<and> segment_ok ci p seg"
  then obtain segs seg where "vs = concat segs @ seg" "list_all2 (segment_ok ci) ps segs" "segment_ok ci p seg"
    by (auto simp: glob_spec_def)
  then show "glob_spec ci (ps @ [p]) vs"
    unfolding glob_spec_def by (intro exI [of _ "segs @ [seg]"]) (auto intro: list_all2_appendI)
qed

lemma glob_spec_star:
  "glob_spec ci (ps @ [star]) vs \<longleftrightarrow> (\<exists>k \<le> length vs. glob_spec ci ps (take k vs))"
proof -
  have "(\<exists>us seg. vs = us @ seg \<and> glob_spec ci ps us) \<longleftrightarrow> (\<exists>k \<le> length vs. glob_spec ci ps (take k vs))"
    (is "?l \<longleftrightarrow> ?r")
  proof
    assume ?l
    then obtain us seg where "vs = us @ seg" "glob_spec ci ps us" by blast
    then show ?r by (intro exI [of _ "length us"]) simp
  next
    assume ?r
    then show ?l by (metis append_take_drop_id)
  qed
  then show ?thesis by (simp add: glob_spec_snoc segment_ok_def)
qed

lemma glob_spec_star_take:
  "j \<le> length vs \<Longrightarrow>
   glob_spec ci (ps @ [star]) (take j vs) \<longleftrightarrow> (\<exists>k \<le> j. glob_spec ci ps (take k vs))"
  unfolding glob_spec_star by (simp add: min_absorb2 min_absorb1 cong: conj_cong)

lemma glob_spec_char:
  "p \<noteq> star \<Longrightarrow> glob_spec ci (ps @ [p]) (vs @ [v]) \<longleftrightarrow>
     glob_spec ci ps vs \<and> (p = question_mark \<or> characters_equal p v ci)"
  by (auto simp: glob_spec_snoc segment_ok_def)

lemma glob_spec_char_Nil: "p \<noteq> star \<Longrightarrow> \<not> glob_spec ci (ps @ [p]) []"
  by (auto simp: glob_spec_snoc segment_ok_def)

section \<open>The rows of the dynamic program\<close>

lemma length_glob_scan:
  "length qs = Suc (length vs) \<Longrightarrow> length (glob_scan ci p qs vs c) = length vs"
  by (induction ci p qs vs c rule: glob_scan.induct) (auto simp: Let_def)

lemma glob_scan_nth:
  "length qs = Suc (length vs) \<Longrightarrow> j < length vs \<Longrightarrow>
   glob_scan ci p qs vs c ! j =
     (if p = star then qs ! Suc j \<or> (c # glob_scan ci p qs vs c) ! j
      else qs ! j \<and> (p = question_mark \<or> characters_equal p (vs ! j) ci))"
proof (induction ci p qs vs c arbitrary: j rule: glob_scan.induct)
  case (1 ci p q q' qs v vs c)
  then show ?case by (cases j) (auto simp: Let_def)
qed auto

lemma length_glob_row: "length qs = Suc (length vs) \<Longrightarrow> length (glob_row ci vs qs p) = Suc (length vs)"
  by (simp add: glob_row_def Let_def length_glob_scan)

lemma glob_row_0: "glob_row ci vs qs p ! 0 = (p = star \<and> qs ! 0)"
  by (simp add: glob_row_def Let_def)

lemma glob_row_Suc:
  "length qs = Suc (length vs) \<Longrightarrow> j < length vs \<Longrightarrow>
   glob_row ci vs qs p ! Suc j =
     (if p = star then qs ! Suc j \<or> glob_row ci vs qs p ! j
      else qs ! j \<and> (p = question_mark \<or> characters_equal p (vs ! j) ci))"
  by (simp add: glob_row_def Let_def glob_scan_nth)

text \<open>Entry \<open>j\<close> of the row says whether the pattern read so far matches the first \<open>j\<close> characters.\<close>

definition row_correct :: "bool \<Rightarrow> nat list \<Rightarrow> nat list \<Rightarrow> bool list \<Rightarrow> bool" where
  "row_correct ci ps vs qs \<longleftrightarrow>
     length qs = Suc (length vs) \<and> (\<forall>j \<le> length vs. qs ! j = glob_spec ci ps (take j vs))"

lemma row_correct_init: "row_correct ci [] vs (True # replicate (length vs) False)"
  by (auto simp: row_correct_def nth_Cons split: nat.splits)

lemma row_correct_star:
  assumes "row_correct ci ps vs qs" and "j \<le> length vs"
  shows "glob_row ci vs qs star ! j = glob_spec ci (ps @ [star]) (take j vs)"
  using assms(2)
proof (induction j)
  case 0
  then show ?case using assms(1) by (simp add: glob_row_0 glob_spec_star row_correct_def)
next
  case (Suc j)
  then have "glob_row ci vs qs star ! Suc j =
      (glob_spec ci ps (take (Suc j) vs) \<or> glob_spec ci (ps @ [star]) (take j vs))"
    using assms(1) by (simp add: glob_row_Suc row_correct_def)
  also have "\<dots> = glob_spec ci (ps @ [star]) (take (Suc j) vs)"
    using Suc.prems by (simp add: glob_spec_star_take) (metis le_Suc_eq)
  finally show ?case .
qed

lemma row_correct_char:
  assumes "row_correct ci ps vs qs" and "p \<noteq> star" and "j \<le> length vs"
  shows "glob_row ci vs qs p ! j = glob_spec ci (ps @ [p]) (take j vs)"
proof (cases j)
  case 0
  with assms(2) show ?thesis by (simp add: glob_row_0 glob_spec_char_Nil)
next
  case (Suc i)
  then have "take j vs = take i vs @ [vs ! i]" using assms(3) by (simp add: take_Suc_conv_app_nth)
  then show ?thesis
    using assms Suc by (simp add: glob_row_Suc glob_spec_char row_correct_def)
qed

lemma row_correct_step: "row_correct ci ps vs qs \<Longrightarrow> row_correct ci (ps @ [p]) vs (glob_row ci vs qs p)"
  using row_correct_star [of ci ps vs qs] row_correct_char [of ci ps vs qs p]
  by (cases "p = star") (auto simp: row_correct_def length_glob_row)

lemma row_correct_foldl:
  "row_correct ci ps vs qs \<Longrightarrow> row_correct ci (ps @ rs) vs (foldl (glob_row ci vs) qs rs)"
proof (induction rs arbitrary: ps qs)
  case (Cons r rs)
  then show ?case using row_correct_step [of ci ps vs qs r] Cons.IH [of "ps @ [r]"] by simp
qed simp

lemma glob_matches_spec: "glob_matches pattern text ci \<longleftrightarrow> glob_spec ci (chars pattern) (chars text)"
  using row_correct_foldl [OF row_correct_init [of ci "chars text"], of "chars pattern"]
  by (simp add: glob_matches_def Let_def row_correct_def)

section \<open>Patterns without wildcards\<close>

lemma glob_spec_literal:
  "star \<notin> set ps \<Longrightarrow> question_mark \<notin> set ps \<Longrightarrow> glob_spec False ps vs \<longleftrightarrow> vs = ps"
proof (induction ps arbitrary: vs rule: rev_induct)
  case (snoc p ps)
  then show ?case by (auto simp: glob_spec_snoc segment_ok_def characters_equal_def)
qed simp

lemma glob_spec_refl: "glob_spec ci ps ps"
  unfolding glob_spec_def
  by (intro exI [of _ "map (\<lambda>c. [c]) ps"])
     (simp add: concat_map_singleton list_all2_map2 segment_ok_def characters_equal_def list.rel_refl)

lemma glob_spec_prefix: "glob_spec ci (ps @ [star]) (ps @ vs)"
  unfolding glob_spec_star by (intro exI [of _ "length ps"]) (simp add: glob_spec_refl)

section \<open>Properties\<close>

text \<open>C30: the dynamic program decides wildcard matching. A pattern matches a text exactly when the
  characters of the text split into one segment per pattern character, where a star takes any
  segment, a question mark any one character and every other character itself (up to ASCII case
  where asked).\<close>

theorem glob_matches_correct:
  "glob_matches pattern text ci \<longleftrightarrow>
     (\<exists>segs. chars text = concat segs \<and>
        list_all2 (\<lambda>p seg. p = star \<or> (\<exists>c. seg = [c] \<and> (p = question_mark \<or> characters_equal p c ci)))
          (chars pattern) segs)"
  unfolding glob_matches_spec glob_spec_def segment_ok_def [abs_def] by (rule refl)

end
