(* ===== verification/Policy_Eval.thy ===== *)
theory Policy_Eval
  imports Policy_Model Policy_Glob "HOL-Library.Multiset"
begin

text \<open>
  Evaluation of S3 bucket and identity policies (\<^verbatim>\<open>crates/mediahub-core/src/s3_policy.rs\<close>): address
  networks, principal, action, resource and condition matching, the well-formedness of requests,
  and the decision loop \<open>evaluate_statements\<close>, whose laws are proved once in the locale
  \<open>statement_evaluation\<close> and used for both kinds of policy.
\<close>

unbundle bit_operations_syntax

section \<open>Address networks\<close>

definition mask_v4 :: "u32 \<Rightarrow> u8 \<Rightarrow> u32" where
  "mask_v4 address prefx =
     (let mask = (if prefx = 0 then 0 else push_bit (32 - unat prefx) (- 1)) in address AND mask)"

definition mask_v6 :: "128 word \<Rightarrow> u8 \<Rightarrow> 128 word" where
  "mask_v6 address prefx =
     (let mask = (if prefx = 0 then 0 else push_bit (128 - unat prefx) (- 1)) in address AND mask)"

fun mask_ip :: "ip_addr \<Rightarrow> u8 \<Rightarrow> ip_addr" where
  "mask_ip (V4 a) prefx = V4 (mask_v4 a prefx)"
| "mask_ip (V6 a) prefx = V6 (mask_v6 a prefx)"

definition max_prefix :: "ip_addr \<Rightarrow> u8" where
  "max_prefix a = (if is_ipv4 a then 32 else 128)"

definition network_parse :: "str \<Rightarrow> ip_network option" where
  "network_parse s =
     (case split_once CHR ''/'' s of
        Some (address, prefx) \<Rightarrow>
          Option.bind (parse_ip address) (\<lambda>address.
          Option.bind (parse_uint 255 prefx) (\<lambda>p.
            let prefx = of_nat p in
            if prefx > max_prefix address then None
            else
              let network = mask_ip address prefx
              in if network \<noteq> address then None
                 else Some \<lparr>net_address = network, net_prefix = prefx\<rparr>))
      | None \<Rightarrow>
          map_option (\<lambda>address. \<lparr>net_address = address, net_prefix = max_prefix address\<rparr>) (parse_ip s))"

fun network_contains :: "ip_network \<Rightarrow> ip_addr \<Rightarrow> bool" where
  "network_contains n address =
     (case (net_address n, address) of
        (V4 network, V4 address) \<Rightarrow> mask_v4 address (net_prefix n) = network
      | (V6 network, V6 address) \<Rightarrow> mask_v6 address (net_prefix n) = network
      | _ \<Rightarrow> False)"

section \<open>Names and principals\<close>

definition valid_account_id :: "str \<Rightarrow> bool" where
  "valid_account_id v \<longleftrightarrow> length v = 12 \<and> list_all is_ascii_digit v"

text \<open>A class of ASCII characters gives the same answer on the bytes of a UTF-8 text as on its
  characters, since every byte of a longer character is at least 128.\<close>

definition is_path_byte :: "char \<Rightarrow> bool" where
  "is_path_byte c \<longleftrightarrow> is_ascii_alphanumeric c
     \<or> c \<in> {CHR ''/'', CHR ''+'', CHR ''='', CHR '','', CHR ''.'', CHR ''@'', CHR ''_'', CHR ''-''}"

definition valid_principal_path :: "str \<Rightarrow> str \<Rightarrow> bool" where
  "valid_principal_path v pre \<longleftrightarrow>
     is_some_and (strip_prefix v pre) (\<lambda>rest.
       rest \<noteq> [] \<and> \<not> starts_with rest ''/'' \<and> \<not> ends_with rest ''/'' \<and> list_all is_path_byte rest)"

definition parse_aws_principal :: "str \<Rightarrow> s3_policy_error + s3_aws_principal" where
  "parse_aws_principal v =
     (if v = ''*'' then Ok AnyAws
      else if valid_account_id v then Ok (AccountP v)
      else
        let parts = splitn 6 CHR '':'' v;
            valid = (length parts = 6 \<and> parts ! 0 = ''arn'' \<and> parts ! 1 = ''aws''
              \<and> (parts ! 2 = ''iam'' \<or> parts ! 2 = ''sts'') \<and> parts ! 3 = []
              \<and> valid_account_id (parts ! 4)
              \<and> (if parts ! 2 = ''iam''
                 then parts ! 5 = ''root''
                      \<or> list_ex (valid_principal_path (parts ! 5)) [''user/'', ''role/'']
                 else if parts ! 2 = ''sts'' then valid_principal_path (parts ! 5) ''assumed-role/''
                 else False))
        in if \<not> valid \<or> length v > MAX_S3_POLICY_STRING_BYTES then Err (validation InvalidPrincipal)
           else Ok (ArnP v))"

definition valid_runtime_principal_arn :: "str \<Rightarrow> bool" where
  "valid_runtime_principal_arn v =
     (case parse_aws_principal v of Inr (ArnP _) \<Rightarrow> True | _ \<Rightarrow> False)"

definition root_arn_account :: "str \<Rightarrow> str option" where
  "root_arn_account arn =
     Option.bind (strip_prefix arn ''arn:aws:iam::'') (\<lambda>rest. strip_suffix rest '':root'')"

definition valid_bucket_name :: "str \<Rightarrow> bool" where
  "valid_bucket_name v \<longleftrightarrow>
     3 \<le> length v \<and> length v \<le> 63
     \<and> list_all (\<lambda>c. is_ascii_lowercase c \<or> is_ascii_digit c \<or> c \<in> {CHR ''.'', CHR ''-''}) v
     \<and> v \<noteq> [] \<and> is_ascii_alphanumeric (hd v) \<and> is_ascii_alphanumeric (last v)
     \<and> \<not> contains_str v ''..'' \<and> \<not> contains_str v ''.-'' \<and> \<not> contains_str v ''-.''
     \<and> parse_ipv4 v = None"

section \<open>Requests\<close>

definition request_context_is_well_formed :: "'a request_context_scheme \<Rightarrow> bool" where
  "request_context_is_well_formed r \<longleftrightarrow>
     is_none_or (rc_principal_arn r) valid_runtime_principal_arn
     \<and> is_none_or (rc_principal_account r) valid_account_id
     \<and> is_none_or (rc_userid r) (\<lambda>v. v \<noteq> [] \<and> length v \<le> MAX_S3_POLICY_STRING_BYTES
          \<and> \<not> list_ex char_is_control (chars v))
     \<and> is_none_or (rc_version_id r) (\<lambda>v. length v \<le> MAX_S3_POLICY_STRING_BYTES)
     \<and> is_none_or (q_prefix (rc_query r)) (\<lambda>v. length v \<le> MAX_S3_POLICY_RUNTIME_KEY_BYTES)
     \<and> is_none_or (q_delimiter (rc_query r)) (\<lambda>v. length v \<le> MAX_S3_POLICY_STRING_BYTES)"

definition evaluation_request_new ::
  "'a request_context_scheme \<Rightarrow> s3_policy_action \<Rightarrow> str \<Rightarrow> s3_policy_evaluation_request" where
  "evaluation_request_new r action resource =
     \<lparr>rc_version_id = rc_version_id r, rc_principal_arn = rc_principal_arn r,
      rc_principal_account = rc_principal_account r, rc_userid = rc_userid r,
      rc_secure_transport = rc_secure_transport r, rc_source_ip = rc_source_ip r,
      rc_query = rc_query r, er_action = action, er_resource = resource\<rparr>"

definition request_is_well_formed :: "s3_policy_request \<Rightarrow> bool" where
  "request_is_well_formed r =
     (if \<not> valid_bucket_name (pr_bucket r) then False
      else (case (scope (pr_action r), pr_key r) of
              (BucketScope, None) \<Rightarrow> request_context_is_well_formed r
            | (ObjectScope, Some key) \<Rightarrow>
                key \<noteq> [] \<and> length key \<le> MAX_S3_POLICY_RUNTIME_KEY_BYTES
                \<and> request_context_is_well_formed r
            | _ \<Rightarrow> False))"

definition bucket_evaluation_request :: "s3_policy_request \<Rightarrow> s3_policy_evaluation_request option" where
  "bucket_evaluation_request r =
     (if \<not> request_is_well_formed r then None
      else
        let resource = (case pr_key r of
               Some key \<Rightarrow> ''arn:aws:s3:::'' @ pr_bucket r @ ''/'' @ key
             | None \<Rightarrow> ''arn:aws:s3:::'' @ pr_bucket r)
        in Some (evaluation_request_new r (pr_action r) resource))"

definition identity_evaluation_request ::
  "s3_identity_policy_request \<Rightarrow> s3_policy_evaluation_request option" where
  "identity_evaluation_request r =
     (if scope (ir_action r) \<noteq> resource_scope (ir_resource r) \<or> \<not> request_context_is_well_formed r
      then None
      else
        map_option (evaluation_request_new r (ir_action r))
          (case ir_resource r of
             AccountResource \<Rightarrow> Some ''*''
           | BucketResource bucket \<Rightarrow>
               if valid_bucket_name bucket then Some (''arn:aws:s3:::'' @ bucket) else None
           | ObjectResource bucket key \<Rightarrow>
               if valid_bucket_name bucket \<and> key \<noteq> [] \<and> length key \<le> MAX_S3_POLICY_RUNTIME_KEY_BYTES
               then Some (''arn:aws:s3:::'' @ bucket @ ''/'' @ key) else None))"

section \<open>Matching\<close>

fun aws_principal_matches :: "'a request_context_scheme \<Rightarrow> s3_aws_principal \<Rightarrow> bool" where
  "aws_principal_matches r AnyAws = True"
| "aws_principal_matches r (AccountP account) = (rc_principal_account r = Some account)"
| "aws_principal_matches r (ArnP arn) =
     (rc_principal_arn r = Some arn
      \<or> is_some_and (root_arn_account arn) (\<lambda>account. rc_principal_account r = Some account))"

fun principal_matches_value :: "s3_policy_principal \<Rightarrow> 'a request_context_scheme \<Rightarrow> bool" where
  "principal_matches_value AnyPrincipal r = True"
| "principal_matches_value (Aws ps) r = list_ex (aws_principal_matches r) ps"

fun principal_matches :: "s3_principal_clause \<Rightarrow> 'a request_context_scheme \<Rightarrow> bool" where
  "principal_matches (Principal p) r = principal_matches_value p r"
| "principal_matches (NotPrincipal p) r = (\<not> principal_matches_value p r)"

fun action_clause_matches :: "s3_action_clause \<Rightarrow> s3_policy_action \<Rightarrow> bool" where
  "action_clause_matches (Action ps) a = list_ex (\<lambda>p. glob_matches p (action_as_str a) True) ps"
| "action_clause_matches (NotAction ps) a = (\<not> list_ex (\<lambda>p. glob_matches p (action_as_str a) True) ps)"

fun resource_clause_matches :: "s3_resource_clause \<Rightarrow> s3_policy_evaluation_request \<Rightarrow> bool" where
  "resource_clause_matches (Resource ps) r = list_ex (\<lambda>p. glob_matches p (er_resource r) False) ps"
| "resource_clause_matches (NotResource ps) r = (\<not> list_ex (\<lambda>p. glob_matches p (er_resource r) False) ps)"

fun condition_string_value :: "s3_condition_key \<Rightarrow> 'a request_context_scheme \<Rightarrow> str option" where
  "condition_string_value PrincipalArn r = rc_principal_arn r"
| "condition_string_value UserId r = rc_userid r"
| "condition_string_value PrefixKey r = q_prefix (rc_query r)"
| "condition_string_value Delimiter r = q_delimiter (rc_query r)"
| "condition_string_value VersionId r = rc_version_id r"
| "condition_string_value _ r = None"

definition condition_bool_value :: "s3_condition_key \<Rightarrow> 'a request_context_scheme \<Rightarrow> bool option" where
  "condition_bool_value key r = (if key = SecureTransport then Some (rc_secure_transport r) else None)"

fun condition_key_is_present :: "s3_condition_key \<Rightarrow> 'a request_context_scheme \<Rightarrow> bool" where
  "condition_key_is_present SecureTransport r = True"
| "condition_key_is_present SourceIp r = (rc_source_ip r \<noteq> None)"
| "condition_key_is_present PrincipalArn r = (rc_principal_arn r \<noteq> None)"
| "condition_key_is_present UserId r = (rc_userid r \<noteq> None)"
| "condition_key_is_present PrefixKey r = (q_prefix (rc_query r) \<noteq> None)"
| "condition_key_is_present Delimiter r = (q_delimiter (rc_query r) \<noteq> None)"
| "condition_key_is_present MaxKeys r = (q_max_keys (rc_query r) \<noteq> None)"
| "condition_key_is_present VersionId r = (rc_version_id r \<noteq> None)"

definition string_values_any :: "s3_policy_condition \<Rightarrow> (str \<Rightarrow> bool) \<Rightarrow> bool" where
  "string_values_any c p = list_ex (\<lambda>v. case v of CvString s \<Rightarrow> p s | _ \<Rightarrow> False) (c_values c)"

definition string_values_all :: "s3_policy_condition \<Rightarrow> (str \<Rightarrow> bool) \<Rightarrow> bool" where
  "string_values_all c p = list_all (\<lambda>v. case v of CvString s \<Rightarrow> p s | _ \<Rightarrow> False) (c_values c)"

definition condition_matches :: "s3_policy_condition \<Rightarrow> 'a request_context_scheme \<Rightarrow> bool" where
  "condition_matches c r =
     (case c_operator c of
        NullOp \<Rightarrow>
          (let expected_absent = list_ex (\<lambda>v. v = CvBool True) (c_values c)
           in (\<not> condition_key_is_present (c_key c) r) = expected_absent)
      | StringEquals \<Rightarrow>
          is_some_and (condition_string_value (c_key c) r) (\<lambda>actual.
            string_values_any c (\<lambda>expected. actual = expected))
      | StringNotEquals \<Rightarrow>
          is_none_or (condition_string_value (c_key c) r) (\<lambda>actual.
            string_values_all c (\<lambda>expected. actual \<noteq> expected))
      | StringLike \<Rightarrow>
          is_some_and (condition_string_value (c_key c) r) (\<lambda>actual.
            string_values_any c (\<lambda>pattern. glob_matches pattern actual False))
      | StringNotLike \<Rightarrow>
          is_none_or (condition_string_value (c_key c) r) (\<lambda>actual.
            string_values_all c (\<lambda>pattern. \<not> glob_matches pattern actual False))
      | BoolOp \<Rightarrow>
          is_some_and (condition_bool_value (c_key c) r) (\<lambda>actual.
            list_ex (\<lambda>v. case v of CvBool b \<Rightarrow> b = actual | _ \<Rightarrow> False) (c_values c))
      | IpAddress \<Rightarrow>
          is_some_and (rc_source_ip r) (\<lambda>actual.
            list_ex (\<lambda>v. case v of CvIp n \<Rightarrow> network_contains n actual | _ \<Rightarrow> False) (c_values c))
      | NotIpAddress \<Rightarrow>
          is_none_or (rc_source_ip r) (\<lambda>actual.
            list_all (\<lambda>v. case v of CvIp n \<Rightarrow> \<not> network_contains n actual | _ \<Rightarrow> False) (c_values c))
      | NumericLessThanEquals \<Rightarrow>
          is_some_and (q_max_keys (rc_query r)) (\<lambda>actual.
            list_ex (\<lambda>v. case v of CvUnsigned l \<Rightarrow> actual \<le> l | _ \<Rightarrow> False) (c_values c)))"

definition statement_matches :: "s3_policy_evaluation_request \<Rightarrow> s3_policy_statement \<Rightarrow> bool" where
  "statement_matches r s \<longleftrightarrow>
     principal_matches (st_principal s) r \<and> action_clause_matches (st_actions s) (er_action r)
     \<and> resource_clause_matches (st_resources s) r
     \<and> list_all (\<lambda>c. condition_matches c r) (st_conditions s)"

definition identity_statement_matches ::
  "s3_policy_evaluation_request \<Rightarrow> s3_identity_policy_statement \<Rightarrow> bool" where
  "identity_statement_matches r s \<longleftrightarrow>
     action_clause_matches (is_actions s) (er_action r) \<and> resource_clause_matches (is_resources s) r
     \<and> list_all (\<lambda>c. condition_matches c r) (is_conditions s)"

section \<open>Decisions\<close>

text \<open>The loop of \<open>evaluate_statements\<close>, with its flag \<open>allowed\<close>.\<close>

fun evaluate_loop ::
  "('s \<Rightarrow> bool) \<Rightarrow> ('s \<Rightarrow> s3_policy_effect) \<Rightarrow> bool \<Rightarrow> 's list \<Rightarrow> s3_policy_decision" where
  "evaluate_loop matches effect allowed [] = (if allowed then AllowDecision else ImplicitDeny)"
| "evaluate_loop matches effect allowed (s # ss) =
     (if \<not> matches s then evaluate_loop matches effect allowed ss
      else case effect s of
             Deny \<Rightarrow> ExplicitDeny
           | Allow \<Rightarrow> evaluate_loop matches effect True ss)"

definition evaluate_statements ::
  "'s list \<Rightarrow> ('s \<Rightarrow> bool) \<Rightarrow> ('s \<Rightarrow> s3_policy_effect) \<Rightarrow> s3_policy_decision" where
  "evaluate_statements ss matches effect = evaluate_loop matches effect False ss"

definition bucket_policy_evaluate :: "s3_bucket_policy \<Rightarrow> s3_policy_request \<Rightarrow> s3_policy_decision" where
  "bucket_policy_evaluate p request =
     (if pr_bucket request \<noteq> bp_target_bucket p then ImplicitDeny
      else case bucket_evaluation_request request of
             None \<Rightarrow> ImplicitDeny
           | Some r \<Rightarrow> evaluate_statements (bp_statements p) (statement_matches r) st_effect)"

definition identity_policy_evaluate ::
  "s3_identity_policy \<Rightarrow> s3_identity_policy_request \<Rightarrow> s3_policy_decision" where
  "identity_policy_evaluate p request =
     (case identity_evaluation_request request of
        None \<Rightarrow> ImplicitDeny
      | Some r \<Rightarrow> evaluate_statements (ip_statements p) (identity_statement_matches r) is_effect)"

section \<open>Laws of the decision loop\<close>

lemma evaluate_loop_eq:
  "evaluate_loop matches effect allowed ss =
     (if \<exists>s \<in> set ss. matches s \<and> effect s = Deny then ExplicitDeny
      else if allowed \<or> (\<exists>s \<in> set ss. matches s \<and> effect s = Allow) then AllowDecision
      else ImplicitDeny)"
  by (induction ss arbitrary: allowed) (auto split: s3_policy_effect.splits)

lemma evaluate_statements_eq:
  "evaluate_statements ss matches effect =
     (if \<exists>s \<in> set ss. matches s \<and> effect s = Deny then ExplicitDeny
      else if \<exists>s \<in> set ss. matches s \<and> effect s = Allow then AllowDecision
      else ImplicitDeny)"
  by (simp add: evaluate_statements_def evaluate_loop_eq)

locale statement_evaluation =
  fixes evaluate :: "'p \<Rightarrow> 'r \<Rightarrow> s3_policy_decision"
    and statements :: "'p \<Rightarrow> 's list"
    and prepare :: "'p \<Rightarrow> 'r \<Rightarrow> 'e option"
    and matches :: "'e \<Rightarrow> 's \<Rightarrow> bool"
    and effect :: "'s \<Rightarrow> s3_policy_effect"
  assumes evaluate_eq: "evaluate p r =
    (case prepare p r of
       None \<Rightarrow> ImplicitDeny
     | Some e \<Rightarrow> evaluate_statements (statements p) (matches e) effect)"
begin

lemma denied_iff:
  "evaluate p r = ExplicitDeny \<longleftrightarrow>
     (\<exists>e. prepare p r = Some e \<and> (\<exists>s \<in> set (statements p). matches e s \<and> effect s = Deny))"
  by (auto simp: evaluate_eq evaluate_statements_eq split: option.splits)

lemma allowed_iff:
  "evaluate p r = AllowDecision \<longleftrightarrow>
     (\<exists>e. prepare p r = Some e
        \<and> (\<exists>s \<in> set (statements p). matches e s \<and> effect s = Allow)
        \<and> \<not> (\<exists>s \<in> set (statements p). matches e s \<and> effect s = Deny))"
  by (auto simp: evaluate_eq evaluate_statements_eq split: option.splits)

lemma set_determines:
  assumes "set (statements p) = set (statements q)" and "prepare p r = prepare q r"
  shows "evaluate p r = evaluate q r"
  using assms by (cases "prepare q r") (simp_all add: evaluate_eq evaluate_statements_eq)

lemma more_denials_never_allow:
  assumes "set (statements p) \<subseteq> set (statements q)"
    and "\<forall>s \<in> set (statements q) - set (statements p). effect s = Deny"
    and "prepare p r = prepare q r" and "evaluate q r = AllowDecision"
  shows "evaluate p r = AllowDecision"
proof -
  from assms(4) obtain e s where e: "prepare q r = Some e" "s \<in> set (statements q)" "matches e s"
      "effect s = Allow" "\<not> (\<exists>s \<in> set (statements q). matches e s \<and> effect s = Deny)"
    by (auto simp: allowed_iff)
  have "s \<in> set (statements p)" using e(2,4) assms(2) by (metis DiffI s3_policy_effect.distinct(1))
  with e assms(1,3) show ?thesis by (auto simp: allowed_iff)
qed

end

text \<open>What a bucket policy is evaluated on: requests for its own bucket that are well formed.\<close>

definition bucket_prepare :: "s3_bucket_policy \<Rightarrow> s3_policy_request \<Rightarrow> s3_policy_evaluation_request option" where
  "bucket_prepare p r =
     (if pr_bucket r \<noteq> bp_target_bucket p then None else bucket_evaluation_request r)"

interpretation bucket_eval: statement_evaluation
    bucket_policy_evaluate bp_statements bucket_prepare statement_matches st_effect
  by unfold_locales (simp add: bucket_policy_evaluate_def bucket_prepare_def)

interpretation identity_eval: statement_evaluation
    identity_policy_evaluate ip_statements "\<lambda>_ r. identity_evaluation_request r"
    identity_statement_matches is_effect
  by unfold_locales (simp add: identity_policy_evaluate_def)

lemma bucket_prepare_Some:
  assumes "bucket_prepare p r = Some e"
  shows "pr_bucket r = bp_target_bucket p" "request_is_well_formed r"
    "e = evaluation_request_new r (pr_action r) (er_resource e)"
    "er_resource e = ''arn:aws:s3:::'' @ pr_bucket r @ (case pr_key r of Some k \<Rightarrow> ''/'' @ k | None \<Rightarrow> [])"
  using assms
  by (auto simp: bucket_prepare_def bucket_evaluation_request_def Let_def evaluation_request_new_def
      split: if_splits option.splits)

lemma request_well_formed_context: "request_is_well_formed r \<Longrightarrow> request_context_is_well_formed r"
  by (auto simp: request_is_well_formed_def split: if_splits option.splits s3_policy_resource_scope.splits)

section \<open>Networks\<close>

lemma mask_v4_eq:
  assumes "unat p \<le> 32"
  shows "mask_v4 a p = push_bit (32 - unat p) (drop_bit (32 - unat p) a)"
proof (cases "p = 0")
  case True
  have "drop_bit 32 a = 0" by (rule bit_eqI) (auto simp: bit_simps dest: bit_imp_le_length)
  with True show ?thesis by (simp add: mask_v4_def)
next
  case False
  show ?thesis
    by (rule bit_word_eqI) (use False in \<open>auto simp: mask_v4_def bit_simps\<close>)
qed

lemma mask_v6_eq:
  assumes "unat p \<le> 128"
  shows "mask_v6 a p = push_bit (128 - unat p) (drop_bit (128 - unat p) a)"
proof (cases "p = 0")
  case True
  have "drop_bit 128 a = 0" by (rule bit_eqI) (auto simp: bit_simps dest: bit_imp_le_length)
  with True show ?thesis by (simp add: mask_v6_def)
next
  case False
  show ?thesis
    by (rule bit_word_eqI) (use False in \<open>auto simp: mask_v6_def bit_simps\<close>)
qed

lemma drop_bit_push_bit_drop_bit:
  "drop_bit n (push_bit n (drop_bit n (a :: 'a::len word))) = drop_bit n a"
  by (rule bit_word_eqI) (auto simp: bit_simps dest: bit_imp_le_length)

lemma mask_v4_contains:
  assumes "unat p \<le> 32" and "mask_v4 n p = n"
  shows "mask_v4 a p = n \<longleftrightarrow> drop_bit (32 - unat p) a = drop_bit (32 - unat p) n"
  using assms by (metis mask_v4_eq drop_bit_push_bit_drop_bit)

lemma mask_v6_contains:
  assumes "unat p \<le> 128" and "mask_v6 n p = n"
  shows "mask_v6 a p = n \<longleftrightarrow> drop_bit (128 - unat p) a = drop_bit (128 - unat p) n"
  using assms by (metis mask_v6_eq drop_bit_push_bit_drop_bit)

lemma mask_ip_full: "mask_ip a (max_prefix a) = a"
  by (cases a) (simp_all add: max_prefix_def mask_v4_def mask_v6_def)

lemma network_parse_valid:
  assumes "network_parse s = Some n"
  shows "mask_ip (net_address n) (net_prefix n) = net_address n"
    and "net_prefix n \<le> max_prefix (net_address n)"
proof -
  have "mask_ip (net_address n) (net_prefix n) = net_address n \<and> net_prefix n \<le> max_prefix (net_address n)"
    using assms
    by (auto simp: network_parse_def Let_def mask_ip_full not_less bind_eq_Some_conv
        split: option.splits if_splits)
  then show "mask_ip (net_address n) (net_prefix n) = net_address n"
    and "net_prefix n \<le> max_prefix (net_address n)" by auto
qed

section \<open>Properties\<close>

definition plain_query :: s3_policy_query where
  "plain_query = \<lparr>q_prefix = None, q_delimiter = None, q_max_keys = None\<rparr>"

definition request_example :: s3_policy_request where
  "request_example =
     \<lparr>rc_version_id = None, rc_principal_arn = None, rc_principal_account = Some ''123456789012'',
      rc_userid = None, rc_secure_transport = True, rc_source_ip = None, rc_query = plain_query,
      pr_action = GetObject, pr_bucket = ''photos'', pr_key = Some ''a''\<rparr>"

definition allow_example :: s3_policy_statement where
  "allow_example =
     \<lparr>st_sid = None, st_effect = Allow, st_principal = Principal (Aws [AccountP ''123456789012'']),
      st_actions = Action [''s3:Get*''], st_resources = Resource [''arn:aws:s3:::photos/*''],
      st_conditions = []\<rparr>"

definition deny_example :: s3_policy_statement where
  "deny_example =
     \<lparr>st_sid = None, st_effect = Deny, st_principal = Principal AnyPrincipal,
      st_actions = Action [''s3:*''], st_resources = Resource [''arn:aws:s3:::photos/*''],
      st_conditions = [\<lparr>c_operator = BoolOp, c_key = SecureTransport, c_values = [CvBool False]\<rparr>]\<rparr>"

definition policy_example :: s3_bucket_policy where
  "policy_example =
     \<lparr>bp_version = S3_POLICY_VERSION, bp_id = None, bp_target_bucket = ''photos'',
      bp_statements = [allow_example, deny_example]\<rparr>"

text \<open>C29: deny overrides. A bucket policy decides a request by the set of its matching statements: it
  denies explicitly exactly when some matching statement denies, allows exactly when some
  matching statement allows and none denies, and otherwise denies implicitly; in particular only
  a well-formed request for the policy's own bucket gets anything but an implicit denial.\<close>

theorem bucket_policy_deny_overrides:
  "bucket_policy_evaluate p r =
     (case bucket_prepare p r of
        None \<Rightarrow> ImplicitDeny
      | Some e \<Rightarrow>
          if \<exists>s \<in> set (bp_statements p). statement_matches e s \<and> st_effect s = Deny then ExplicitDeny
          else if \<exists>s \<in> set (bp_statements p). statement_matches e s \<and> st_effect s = Allow
          then AllowDecision else ImplicitDeny)"
  by (simp only: bucket_eval.evaluate_eq evaluate_statements_eq)

text \<open>The order of statements is irrelevant. Two bucket policies for the same bucket with the
  same statements in any order, and likewise two identity policies, decide every request alike.\<close>

theorem policy_order_irrelevant:
  assumes "mset (bp_statements p) = mset (bp_statements q)"
    and "bp_target_bucket p = bp_target_bucket q"
    and "mset (ip_statements i) = mset (ip_statements j)"
  shows "bucket_policy_evaluate p r = bucket_policy_evaluate q r
       \<and> identity_policy_evaluate i k = identity_policy_evaluate j k"
proof
  show "bucket_policy_evaluate p r = bucket_policy_evaluate q r"
    using mset_eq_setD [OF assms(1)] assms(2)
    by (intro bucket_eval.set_determines) (simp_all add: bucket_prepare_def)
  show "identity_policy_evaluate i k = identity_policy_evaluate j k"
    using mset_eq_setD [OF assms(3)] by (intro identity_eval.set_determines) simp_all
qed

text \<open>Bucket policies fail closed. Whatever a bucket policy says, it allows only requests for its
  own bucket, with a valid bucket name, an action of bucket or object scope, an object key exactly
  for object actions, and a well-formed condition context; account-level actions are never
  allowed by a bucket policy.\<close>

theorem bucket_policy_fails_closed:
  assumes "is_allowed (bucket_policy_evaluate p r)"
  shows "pr_bucket r = bp_target_bucket p \<and> valid_bucket_name (pr_bucket r)
       \<and> scope (pr_action r) \<noteq> AccountScope
       \<and> (pr_key r \<noteq> None \<longleftrightarrow> scope (pr_action r) = ObjectScope)
       \<and> request_context_is_well_formed r"
proof -
  from assms obtain e where e: "bucket_prepare p r = Some e"
    by (auto simp: is_allowed_def bucket_eval.allowed_iff)
  show ?thesis
    using bucket_prepare_Some(1,2) [OF e] request_well_formed_context [of r]
    by (auto simp: request_is_well_formed_def split: if_splits option.splits s3_policy_resource_scope.splits)
qed

lemma request_example_well_formed: "request_is_well_formed request_example"
  by (simp add: request_is_well_formed_def request_example_def valid_bucket_name_def
      is_ascii_lowercase_def is_ascii_digit_def is_ascii_alphanumeric_def starts_with_def
      parse_ipv4_def read_addr_simps MAX_S3_POLICY_RUNTIME_KEY_BYTES_def
      request_context_is_well_formed_def valid_account_id_def plain_query_def)

lemma request_example_allowed: "bucket_policy_evaluate policy_example request_example = AllowDecision"
proof -
  have r: "bucket_prepare policy_example request_example
      = Some (evaluation_request_new request_example GetObject ''arn:aws:s3:::photos/a'')"
    using request_example_well_formed
    by (simp add: bucket_prepare_def bucket_evaluation_request_def policy_example_def)
       (simp add: request_example_def)
  have "glob_matches ''s3:Get*'' ''s3:GetObject'' True"
    and "glob_matches ''arn:aws:s3:::photos/*'' ''arn:aws:s3:::photos/a'' False"
    unfolding glob_matches_spec
    using glob_spec_prefix [of True "chars ''s3:Get''" "chars ''Object''"]
      glob_spec_prefix [of False "chars ''arn:aws:s3:::photos/''" "chars ''a''"]
    by simp_all
  then have "statement_matches (evaluation_request_new request_example GetObject ''arn:aws:s3:::photos/a'') allow_example"
    and "\<not> statement_matches (evaluation_request_new request_example GetObject ''arn:aws:s3:::photos/a'') deny_example"
    by (simp_all add: statement_matches_def allow_example_def deny_example_def
        evaluation_request_new_def request_example_def condition_matches_def condition_bool_value_def)
  with r show ?thesis
    by (auto simp: bucket_eval.allowed_iff policy_example_def allow_example_def deny_example_def)
qed

text \<open>Denials only ever narrow an identity. Extending an identity policy by statements that all
  deny never turns a refused request into an allowed one.\<close>

theorem identity_denials_never_grant:
  assumes "list_all (\<lambda>s. is_effect s = Deny) extra"
    and "identity_policy_evaluate (p\<lparr>ip_statements := xs @ extra @ ys\<rparr>) r = AllowDecision"
  shows "identity_policy_evaluate (p\<lparr>ip_statements := xs @ ys\<rparr>) r = AllowDecision"
  using identity_eval.more_denials_never_allow [of "p\<lparr>ip_statements := xs @ ys\<rparr>"
      "p\<lparr>ip_statements := xs @ extra @ ys\<rparr>" r] assms
  by (auto simp: list_all_iff)

text \<open>Address networks. A network accepted by \<open>IpNetwork::parse\<close> contains an address exactly when
  both are of the same family and agree on the leading \<open>prefix\<close> bits.\<close>

theorem network_contains_prefix:
  assumes "network_parse s = Some n"
  shows "network_contains n a \<longleftrightarrow>
     (case (net_address n, a) of
        (V4 x, V4 y) \<Rightarrow> drop_bit (32 - unat (net_prefix n)) y = drop_bit (32 - unat (net_prefix n)) x
      | (V6 x, V6 y) \<Rightarrow> drop_bit (128 - unat (net_prefix n)) y = drop_bit (128 - unat (net_prefix n)) x
      | _ \<Rightarrow> False)"
proof -
  note valid = network_parse_valid [OF assms]
  have le: "unat (net_prefix n) \<le> unat (max_prefix (net_address n))"
    using valid(2) by (simp add: word_le_nat_alt)
  show ?thesis
  proof (cases "net_address n"; cases a)
    fix x y assume "net_address n = V4 x" "a = V4 y"
    then show ?thesis
      using valid(1) le mask_v4_contains [of "net_prefix n" x y] by (simp add: max_prefix_def)
  next
    fix x y assume "net_address n = V6 x" "a = V6 y"
    then show ?thesis
      using valid(1) le mask_v6_contains [of "net_prefix n" x y] by (simp add: max_prefix_def)
  qed auto
qed

end
