(* ===== verification/Policy_Status.thy ===== *)
theory Policy_Status
  imports Policy_Eval
begin

text \<open>
  The public-access analysis of bucket policies (\<open>policy_status\<close> in
  \<^verbatim>\<open>crates/mediahub-core/src/s3_policy.rs\<close>) and its soundness with respect to evaluation: a policy
  reported as not public lets in only the owning account and exactly listed source addresses.
\<close>

section \<open>The analysis\<close>

definition principal_arn_account :: "str \<Rightarrow> str option" where
  "principal_arn_account arn =
     (case splitn 6 CHR '':'' arn of
        a # b # service # region # account # _ \<Rightarrow>
          if a = ''arn'' \<and> b = ''aws'' \<and> (service = ''iam'' \<or> service = ''sts'') \<and> region = []
             \<and> valid_account_id account
          then Some account else None
      | _ \<Rightarrow> None)"

fun principal_is_trusted :: "str \<Rightarrow> s3_aws_principal \<Rightarrow> bool" where
  "principal_is_trusted owner AnyAws = False"
| "principal_is_trusted owner (AccountP account) = (account = owner)"
| "principal_is_trusted owner (ArnP arn) = (principal_arn_account arn = Some owner)"

fun principal_clause_is_trusted :: "s3_principal_clause \<Rightarrow> str \<Rightarrow> bool" where
  "principal_clause_is_trusted (Principal AnyPrincipal) owner = False"
| "principal_clause_is_trusted (Principal (Aws ps)) owner = list_all (principal_is_trusted owner) ps"
| "principal_clause_is_trusted (NotPrincipal _) owner = False"

fun principal_matches_everybody :: "s3_policy_principal \<Rightarrow> bool" where
  "principal_matches_everybody AnyPrincipal = True"
| "principal_matches_everybody (Aws ps) = list_ex (\<lambda>p. p = AnyAws) ps"

fun principal_clause_matches_nobody :: "s3_principal_clause \<Rightarrow> bool" where
  "principal_clause_matches_nobody (NotPrincipal p) = principal_matches_everybody p"
| "principal_clause_matches_nobody (Principal _) = False"

definition condition_restricts_to_trusted_principals :: "s3_policy_condition \<Rightarrow> str \<Rightarrow> bool" where
  "condition_restricts_to_trusted_principals c owner =
     (if c_key c \<noteq> PrincipalArn \<or> \<not> (c_operator c = StringEquals \<or> c_operator c = StringLike) then False
      else list_all (\<lambda>v. case v of
             CvString arn \<Rightarrow> CHR ''*'' \<notin> set arn \<and> CHR ''?'' \<notin> set arn
               \<and> valid_runtime_principal_arn arn \<and> principal_arn_account arn = Some owner
           | _ \<Rightarrow> False) (c_values c))"

definition exact_ip :: "s3_condition_value \<Rightarrow> bool" where
  "exact_ip v =
     (case v of
        CvIp n \<Rightarrow> (case net_address n of V4 _ \<Rightarrow> net_prefix n = 32 | V6 _ \<Rightarrow> net_prefix n = 128)
      | _ \<Rightarrow> False)"

definition condition_restricts_to_exact_source_ips :: "s3_policy_condition \<Rightarrow> bool" where
  "condition_restricts_to_exact_source_ips c \<longleftrightarrow>
     c_key c = SourceIp \<and> c_operator c = IpAddress \<and> list_all exact_ip (c_values c)"

definition statement_may_grant_public_access :: "s3_policy_statement \<Rightarrow> str \<Rightarrow> bool" where
  "statement_may_grant_public_access s owner =
     (if principal_clause_matches_nobody (st_principal s) then False
      else if principal_clause_is_trusted (st_principal s) owner then False
      else if list_ex (\<lambda>c. condition_restricts_to_trusted_principals c owner) (st_conditions s) then False
      else if list_ex condition_restricts_to_exact_source_ips (st_conditions s) then False
      else True)"

definition policy_status :: "s3_bucket_policy \<Rightarrow> str \<Rightarrow> bool" where
  "policy_status p owner =
     (let allow_statements = filter (\<lambda>s. st_effect s = Allow) (bp_statements p)
      in if allow_statements = [] then False
         else if \<not> valid_account_id owner then True
         else list_ex (\<lambda>s. statement_may_grant_public_access s owner) allow_statements)"

section \<open>Account identifiers and ARNs\<close>

lemma digits_no_colon: "list_all is_ascii_digit s \<Longrightarrow> CHR '':'' \<notin> set s"
  by (auto simp: list_all_iff is_ascii_digit_def)

lemma account_no_colon: "valid_account_id a \<Longrightarrow> CHR '':'' \<notin> set a"
  by (simp add: valid_account_id_def digits_no_colon)

lemma split_once_append: "d \<notin> set a \<Longrightarrow> split_once d (a @ d # b) = Some (a, b)"
  by (simp add: split_once_Some_iff)

lemma splitn_arn:
  "CHR '':'' \<notin> set a \<Longrightarrow>
   splitn 6 CHR '':'' (''arn:aws:iam::'' @ a @ CHR '':'' # rest) = [''arn'', ''aws'', ''iam'', [], a, rest]"
  by (simp add: eval_nat_numeral split_once_append)

text \<open>A root ARN names one account, the one the analysis attributes to it.\<close>

lemma root_arn_of_owner:
  assumes "root_arn_account arn = Some account" and "valid_account_id account"
    and "principal_arn_account arn = Some owner"
  shows "account = owner"
proof -
  from assms(1) have arn: "arn = ''arn:aws:iam::'' @ account @ '':root''"
    by (auto simp: root_arn_account_def bind_eq_Some_conv strip_prefix_Some_iff strip_suffix_Some_iff)
  have "splitn 6 CHR '':'' arn = [''arn'', ''aws'', ''iam'', [], account, ''root'']"
    using splitn_arn [OF account_no_colon [OF assms(2)], of "''root''"] by (simp add: arn)
  with assms(2,3) show ?thesis by (simp add: principal_arn_account_def)
qed

section \<open>ASCII texts\<close>

definition ascii_text :: "str \<Rightarrow> bool" where
  "ascii_text s \<longleftrightarrow> list_all is_ascii s"

lemma chars_ascii: "ascii_text s \<Longrightarrow> chars s = map byte s"
  by (induction s) (auto simp: ascii_text_def is_ascii_def)

lemma split_once_join: "split_once d s = Some (a, b) \<Longrightarrow> s = a @ [d] @ b"
  by (simp add: split_once_Some_iff)

lemma splitn_concat_set: "0 < n \<Longrightarrow> set s \<subseteq> insert d (\<Union> (set ` set (splitn n d s)))"
proof (induction n d s rule: splitn.induct)
  case (3 n d s)
  show ?case
  proof (cases "split_once d s")
    case (Some ab)
    then obtain a b where ab: "split_once d s = Some (a, b)" by (cases ab) auto
    then have "set s = insert d (set a \<union> set b)" by (auto dest: split_once_join)
    with 3(1) [OF ab refl] ab show ?thesis by auto
  qed auto
qed auto

lemma path_byte_ascii: "is_path_byte c \<Longrightarrow> is_ascii c"
  by (auto simp: is_path_byte_def is_ascii_def is_ascii_alphanumeric_def is_ascii_digit_def
      is_ascii_lowercase_def is_ascii_uppercase_def)

lemma principal_path_ascii:
  assumes "valid_principal_path v p" and "ascii_text p"
  shows "ascii_text v"
proof -
  from assms(1) obtain rest where "v = p @ rest" "list_all is_path_byte rest"
    by (auto simp: valid_principal_path_def is_some_and_iff strip_prefix_Some_iff)
  with assms(2) show ?thesis by (auto simp: ascii_text_def list_all_iff path_byte_ascii)
qed

lemma account_ascii: "valid_account_id a \<Longrightarrow> ascii_text a"
  by (auto simp: valid_account_id_def ascii_text_def list_all_iff is_ascii_digit_def is_ascii_def)

lemma runtime_arn_ascii: "valid_runtime_principal_arn v \<Longrightarrow> ascii_text v"
proof -
  assume "valid_runtime_principal_arn v"
  then obtain ps where ps: "splitn 6 CHR '':'' v = ps" and l: "length ps = 6"
    and p: "ps ! 0 = ''arn''" "ps ! 1 = ''aws''" "ps ! 2 = ''iam'' \<or> ps ! 2 = ''sts''" "ps ! 3 = []"
      "valid_account_id (ps ! 4)"
    and p5: "ps ! 5 = ''root'' \<or> valid_principal_path (ps ! 5) ''user/''
      \<or> valid_principal_path (ps ! 5) ''role/'' \<or> valid_principal_path (ps ! 5) ''assumed-role/''"
    by (auto simp: valid_runtime_principal_arn_def parse_aws_principal_def Let_def split: if_splits)
  have "ascii_text (ps ! 5)"
    using p5 principal_path_ascii [of "ps ! 5" "''user/''"] principal_path_ascii [of "ps ! 5" "''role/''"]
      principal_path_ascii [of "ps ! 5" "''assumed-role/''"]
    by (auto simp: ascii_text_def is_ascii_def)
  moreover have "ascii_text (ps ! i)" if "i < 5" for i
    using that p account_ascii [OF p(5)]
    by (auto simp: less_Suc_eq eval_nat_numeral ascii_text_def is_ascii_def)
  moreover have "i < 5 \<or> i = 5" if "i < 6" for i :: nat using that by linarith
  ultimately have "ascii_text x" if "x \<in> set ps" for x
    using that l unfolding in_set_conv_nth by metis
  moreover have "set v \<subseteq> insert CHR '':'' (\<Union> (set ` set ps))"
    using splitn_concat_set [of 6 v "CHR '':''"] by (simp add: ps)
  ultimately show ?thesis by (fastforce simp: ascii_text_def list_all_iff is_ascii_def)
qed

lemma literal_glob_eq:
  assumes "ascii_text p" and "ascii_text t" and "CHR ''*'' \<notin> set p" and "CHR ''?'' \<notin> set p"
  shows "glob_matches p t False \<longleftrightarrow> t = p"
proof -
  have star: "byte c = 42 \<longleftrightarrow> c = CHR ''*''" and question: "byte c = 63 \<longleftrightarrow> c = CHR ''?''" for c
    using of_char_eq_iff [of c "CHR ''*''", where ?'a = nat] of_char_eq_iff [of c "CHR ''?''", where ?'a = nat]
    by simp_all
  have "star \<notin> set (map byte p)" and "question_mark \<notin> set (map byte p)"
    unfolding set_map image_iff using assms(3,4) star question by metis+
  then have "star \<notin> set (chars p)" and "question_mark \<notin> set (chars p)"
    using assms(1) by (simp_all only: chars_ascii not_False_eq_True)
  then have "glob_matches p t False \<longleftrightarrow> chars t = chars p"
    by (simp add: glob_matches_spec glob_spec_literal)
  also have "\<dots> \<longleftrightarrow> t = p"
    using assms(1,2) by (simp add: chars_ascii inj_map_eq_map inj_of_char)
  finally show ?thesis .
qed

section \<open>Soundness\<close>

text \<open>The request was made by the owning account, by its account number or by an ARN of it.\<close>

definition from_owner :: "'a request_context_scheme \<Rightarrow> str \<Rightarrow> bool" where
  "from_owner r owner \<longleftrightarrow>
     rc_principal_account r = Some owner
     \<or> is_some_and (rc_principal_arn r) (\<lambda>arn. principal_arn_account arn = Some owner)"

definition listed_ips :: "s3_policy_condition \<Rightarrow> ip_addr list" where
  "listed_ips c = List.map_filter (\<lambda>v. case v of CvIp n \<Rightarrow> Some (net_address n) | _ \<Rightarrow> None) (c_values c)"

text \<open>The addresses named one by one in the source-address conditions of allowing statements.\<close>

definition exact_source_ips :: "s3_bucket_policy \<Rightarrow> ip_addr list" where
  "exact_source_ips p =
     concat (map (\<lambda>s. concat (map listed_ips
         (filter condition_restricts_to_exact_source_ips (st_conditions s))))
       (filter (\<lambda>s. st_effect s = Allow) (bp_statements p)))"

lemma condition_value_case:
  "(case v of CvString s \<Rightarrow> f s | _ \<Rightarrow> False) \<longleftrightarrow> (\<exists>s. v = CvString s \<and> f s)"
  "(case v of CvIp n \<Rightarrow> g n | _ \<Rightarrow> False) \<longleftrightarrow> (\<exists>n. v = CvIp n \<and> g n)"
  by (cases v; simp)+

lemma trusted_clause_owner:
  assumes "principal_clause_is_trusted c owner" and "principal_matches c r"
    and "request_context_is_well_formed r"
  shows "from_owner r owner"
proof -
  from assms(1) obtain ps where c: "c = Principal (Aws ps)" and ps: "list_all (principal_is_trusted owner) ps"
    by (auto elim: principal_clause_is_trusted.elims)
  from assms(2) obtain x where x: "x \<in> set ps" "aws_principal_matches r x"
    by (auto simp: c list_ex_iff)
  have t: "principal_is_trusted owner x" using ps x(1) by (simp add: list_all_iff)
  show ?thesis
  proof (cases x)
    case (ArnP arn)
    with t have arn: "principal_arn_account arn = Some owner" by simp
    show ?thesis
    proof (cases "rc_principal_arn r = Some arn")
      case True
      with arn show ?thesis by (simp add: from_owner_def)
    next
      case False
      then obtain account where a: "root_arn_account arn = Some account" "rc_principal_account r = Some account"
        using x(2) ArnP by (auto simp: is_some_and_iff)
      then have "valid_account_id account"
        using assms(3) by (simp add: request_context_is_well_formed_def)
      with a arn show ?thesis by (auto simp: from_owner_def dest: root_arn_of_owner)
    qed
  qed (use t x in \<open>auto simp: from_owner_def\<close>)
qed

lemma trusted_condition_owner:
  assumes "condition_restricts_to_trusted_principals c owner" and "condition_matches c r"
    and "request_context_is_well_formed r"
  shows "from_owner r owner"
proof -
  from assms(1) have key: "c_key c = PrincipalArn" and op: "c_operator c = StringEquals \<or> c_operator c = StringLike"
    by (auto simp: condition_restricts_to_trusted_principals_def split: if_splits)
  from op assms(2) key obtain actual where arn: "rc_principal_arn r = Some actual"
    and m: "string_values_any c (\<lambda>v. actual = v) \<or> string_values_any c (\<lambda>v. glob_matches v actual False)"
    by (auto simp: condition_matches_def is_some_and_iff)
  from m obtain v where v: "CvString v \<in> set (c_values c)" "actual = v \<or> glob_matches v actual False"
    by (auto simp: string_values_any_def list_ex_iff condition_value_case)
  with assms(1) have t: "CHR ''*'' \<notin> set v" "CHR ''?'' \<notin> set v" "valid_runtime_principal_arn v"
      "principal_arn_account v = Some owner"
    by (auto simp: condition_restricts_to_trusted_principals_def list_all_iff split: if_splits)
  have "valid_runtime_principal_arn actual"
    using assms(3) arn by (simp add: request_context_is_well_formed_def)
  with v(2) t have "actual = v" by (auto simp: literal_glob_eq runtime_arn_ascii)
  with arn t(4) show ?thesis by (simp add: from_owner_def)
qed

lemma exact_network:
  "exact_ip (CvIp n) \<Longrightarrow> network_contains n a \<Longrightarrow> a = net_address n"
  by (auto simp: exact_ip_def mask_v4_def mask_v6_def split: ip_addr.splits)

lemma exact_condition_listed:
  assumes "condition_restricts_to_exact_source_ips c" and "condition_matches c r"
  shows "\<exists>a. rc_source_ip r = Some a \<and> a \<in> set (listed_ips c)"
proof -
  from assms obtain a n where a: "rc_source_ip r = Some a" and n: "CvIp n \<in> set (c_values c)" "network_contains n a"
    by (auto simp: condition_restricts_to_exact_source_ips_def condition_matches_def is_some_and_iff
        list_ex_iff condition_value_case simp del: network_contains.simps)
  have "exact_ip (CvIp n)"
    using assms(1) n(1) by (auto simp: condition_restricts_to_exact_source_ips_def list_all_iff)
  with n have "a = net_address n" by (blast dest: exact_network)
  then have "a \<in> set (listed_ips c)" using n(1) by (force simp: listed_ips_def List.map_filter_def image_iff)
  with a show ?thesis by blast
qed

lemma nobody_matches: "principal_clause_matches_nobody c \<Longrightarrow> \<not> principal_matches c r"
proof (cases c)
  case (NotPrincipal p)
  assume "principal_clause_matches_nobody c"
  with NotPrincipal show ?thesis by (cases p) (auto simp: list_ex_iff intro: bexI [of _ AnyAws])
qed simp

lemma nonpublic_statement:
  assumes "\<not> statement_may_grant_public_access s owner" and "statement_matches e s"
    and "request_context_is_well_formed e"
  shows "from_owner e owner
       \<or> (\<exists>c \<in> set (st_conditions s). condition_restricts_to_exact_source_ips c
            \<and> (\<exists>a. rc_source_ip e = Some a \<and> a \<in> set (listed_ips c)))"
proof -
  have m: "principal_matches (st_principal s) e" "\<forall>c \<in> set (st_conditions s). condition_matches c e"
    using assms(2) by (auto simp: statement_matches_def list_all_iff)
  consider "principal_clause_matches_nobody (st_principal s)"
    | "principal_clause_is_trusted (st_principal s) owner"
    | c where "c \<in> set (st_conditions s)" "condition_restricts_to_trusted_principals c owner"
    | c where "c \<in> set (st_conditions s)" "condition_restricts_to_exact_source_ips c"
    using assms(1) by (auto simp: statement_may_grant_public_access_def list_ex_iff split: if_splits)
  then show ?thesis
  proof cases
    case 1
    with m show ?thesis by (simp add: nobody_matches)
  next
    case 2
    with m(1) assms(3) show ?thesis by (blast intro: trusted_clause_owner)
  next
    case 3
    with m(2) assms(3) show ?thesis by (blast intro: trusted_condition_owner)
  next
    case 4
    with m(2) show ?thesis by (blast dest: exact_condition_listed)
  qed
qed

lemma evaluation_request_context:
  "request_context_is_well_formed (evaluation_request_new r a x) = request_context_is_well_formed r"
  "from_owner (evaluation_request_new r a x) owner = from_owner r owner"
  "rc_source_ip (evaluation_request_new r a x) = rc_source_ip r"
  by (simp_all add: evaluation_request_new_def request_context_is_well_formed_def from_owner_def)

lemma nonpublic_policy_admits:
  assumes "\<not> policy_status p owner" and "bucket_policy_evaluate p r = AllowDecision"
  shows "from_owner r owner
       \<or> (\<exists>a. rc_source_ip r = Some a \<and> a \<in> set (exact_source_ips p))"
proof -
  from assms(2) obtain e s where e: "bucket_prepare p r = Some e"
    and s: "s \<in> set (bp_statements p)" "statement_matches e s" "st_effect s = Allow"
    by (auto simp: bucket_eval.allowed_iff)
  have wf: "request_context_is_well_formed r"
    using bucket_prepare_Some(2) [OF e] by (rule request_well_formed_context)
  obtain a x where ex: "e = evaluation_request_new r a x" using bucket_prepare_Some(3) [OF e] by blast
  have "s \<in> set (filter (\<lambda>s. st_effect s = Allow) (bp_statements p))" using s by simp
  then have "\<not> statement_may_grant_public_access s owner"
    using assms(1) by (auto simp: policy_status_def Let_def list_ex_iff filter_empty_conv split: if_splits)
  from nonpublic_statement [OF this s(2)] wf show ?thesis
    using s(1,3) by (auto simp: ex evaluation_request_context exact_source_ips_def)
qed

section \<open>Properties\<close>

text \<open>C28: soundness of the public-access status. When \<open>policy_status\<close> reports a policy as not public
  for an owning account, every request the policy allows comes from that account (by account
  number or by a principal ARN of the account) or from a source address that the policy lists
  as a single address; so the analysis has no false negatives.\<close>

theorem policy_status_sound:
  assumes "\<not> policy_status p owner" and "bucket_policy_evaluate p r = AllowDecision"
  shows "from_owner r owner
       \<or> (\<exists>a. rc_source_ip r = Some a \<and> a \<in> set (exact_source_ips p))"
  by (rule nonpublic_policy_admits [OF assms])

theorem policy_status_sound_witness:
  "\<not> policy_status policy_example ''123456789012''
   \<and> (from_owner request_example ''123456789012''
      \<or> (\<exists>a. rc_source_ip request_example = Some a \<and> a \<in> set (exact_source_ips policy_example)))"
proof -
  have "\<not> policy_status policy_example ''123456789012''"
    by (simp add: policy_status_def policy_example_def allow_example_def deny_example_def
        valid_account_id_def is_ascii_digit_def statement_may_grant_public_access_def)
  with policy_status_sound [OF this request_example_allowed] show ?thesis by simp
qed

end
