(* ===== verification/MH_Ordered_Map.thy ===== *)
theory MH_Ordered_Map
  imports MH_Text "HOL-Library.List_Lexorder" "HOL-Library.Char_ord"
begin

text \<open>
  \<open>BTreeMap\<close> with text keys: association lists in byte order of their keys. \<open>insert\<close>,
  \<open>entry().or_insert()\<close> and lookup, the contract their clients rely on, and the order of the
  entries.
\<close>

section \<open>Ordered maps\<close>

fun bytes_less :: "str \<Rightarrow> str \<Rightarrow> bool" where
  "bytes_less [] [] = False"
| "bytes_less [] (_ # _) = True"
| "bytes_less (_ # _) [] = False"
| "bytes_less (a # s) (b # t) = (byte a < byte b \<or> a = b \<and> bytes_less s t)"

fun map_insert :: "str \<Rightarrow> 'v \<Rightarrow> (str \<times> 'v) list \<Rightarrow> (str \<times> 'v) list" where
  "map_insert k v [] = [(k, v)]"
| "map_insert k v ((k', v') # es) =
     (if k = k' then (k, v) # es
      else if bytes_less k k' then (k, v) # (k', v') # es
      else (k', v') # map_insert k v es)"

text \<open>What clients of the map rely on: a lookup after an insertion, and a set of keys.\<close>

locale key_value_map =
  fixes lookup :: "'m \<Rightarrow> 'k \<Rightarrow> 'v option"
    and insert_entry :: "'k \<Rightarrow> 'v \<Rightarrow> 'm \<Rightarrow> 'm"
    and empty_map :: 'm
    and keys :: "'m \<Rightarrow> 'k set"
  assumes lookup_insert: "lookup (insert_entry k v m) j = (if j = k then Some v else lookup m j)"
    and lookup_empty: "lookup empty_map j = None"
    and keys_lookup: "k \<in> keys m \<longleftrightarrow> lookup m k \<noteq> None"
begin

lemma keys_insert: "keys (insert_entry k v m) = insert k (keys m)"
  by (auto simp: keys_lookup lookup_insert split: if_splits)

lemma keys_empty: "keys empty_map = {}"
  by (auto simp: keys_lookup lookup_empty)

lemma lookup_fold:
  "distinct (map fst es) \<Longrightarrow>
   lookup (foldl (\<lambda>m (k, v). insert_entry k v m) m es) j =
     (case map_of es j of Some v \<Rightarrow> Some v | None \<Rightarrow> lookup m j)"
proof (induction es arbitrary: m)
  case (Cons e es)
  then have "map_of es (fst e) = None" by (simp add: map_of_eq_None_iff)
  with Cons show ?case
    by (cases e) (auto simp: lookup_insert split: option.splits)
qed simp

end

interpretation btree: key_value_map map_of map_insert "[]" "\<lambda>m. fst ` set m"
proof (unfold_locales, goal_cases)
  case (1 k v m j)
  show ?case by (induction k v m rule: map_insert.induct) auto
next
  case (3 k m)
  show ?case by (simp add: map_of_eq_None_iff)
qed simp

section \<open>The order of keys\<close>

lemma bytes_less_iff: "bytes_less s t \<longleftrightarrow> s < t"
  by (induction s t rule: bytes_less.induct) (auto simp: less_char_def)

text \<open>\<open>entry(k).or_insert(v)\<close>\<close>

definition map_or_insert :: "str \<Rightarrow> 'v \<Rightarrow> (str \<times> 'v) list \<Rightarrow> (str \<times> 'v) list" where
  "map_or_insert k v m = (if map_of m k = None then map_insert k v m else m)"

abbreviation ordered :: "(str \<times> 'v) list \<Rightarrow> bool" where
  "ordered m \<equiv> sorted_wrt bytes_less (map fst m)"

lemma map_insert_ordered: "ordered m \<Longrightarrow> ordered (map_insert k v m)"
proof (induction k v m rule: map_insert.induct)
  case (2 k v k' v' es)
  then show ?case
    using btree.keys_insert [of k v es]
    by (auto simp: bytes_less_iff sorted_wrt_append not_less)
qed simp

lemma map_or_insert_ordered: "ordered m \<Longrightarrow> ordered (map_or_insert k v m)"
  by (simp add: map_or_insert_def map_insert_ordered)

lemma map_or_insert_keys: "fst ` set (map_or_insert k v m) = insert k (fst ` set m)"
proof (cases "map_of m k = None")
  case False
  then have "k \<in> fst ` set m" by (auto simp: map_of_eq_None_iff)
  with False show ?thesis by (auto simp: map_or_insert_def)
qed (simp add: map_or_insert_def btree.keys_insert)

lemma ordered_distinct: "ordered m \<Longrightarrow> distinct (map fst m)"
  by (induction m) (auto simp: bytes_less_iff)

end
