(* ===== verification/Policy_Document.thy ===== *)
theory Policy_Document
  imports Policy_Model MH_Ordered_Map
begin

text \<open>
  Reading a policy document (\<^verbatim>\<open>crates/mediahub-core/src/s3_policy.rs\<close>): the visitor \<open>UniqueValue\<close> that
  rejects duplicate object keys, and the depth and string limits. The tokenizer of \<open>serde_json\<close> is
  a parameter: a function from the bytes of a document to the tree it denotes, with the entries
  of an object in document order and duplicates kept, or nothing when the text is not JSON or
  is followed by more. \<open>serde_json::Map\<close> is a \<open>BTreeMap\<close>, so a built object iterates in byte order
  of its keys.
\<close>

type_synonym json_reader = "str \<Rightarrow> json option"

section \<open>Unique values\<close>

fun unique_value :: "json \<Rightarrow> json option"
and unique_values :: "json list \<Rightarrow> json list option"
and unique_entries :: "(str \<times> json) list \<Rightarrow> (str \<times> json) list \<Rightarrow> (str \<times> json) list option" where
  "unique_value v =
     (case v of
        JArray vs \<Rightarrow> map_option JArray (unique_values vs)
      | JObject es \<Rightarrow> map_option JObject (unique_entries [] es)
      | _ \<Rightarrow> Some v)"
| "unique_values [] = Some []"
| "unique_values (v # vs) =
     Option.bind (unique_value v) (\<lambda>w. map_option (\<lambda>ws. w # ws) (unique_values vs))"
| "unique_entries acc [] = Some acc"
| "unique_entries acc ((k, v) # es) =
     Option.bind (unique_value v) (\<lambda>w.
       if k \<in> fst ` set acc then None else unique_entries (map_insert k w acc) es)"

declare unique_value.simps [simp del]

definition parse_unique_json :: "json_reader \<Rightarrow> str \<Rightarrow> s3_policy_error + json" where
  "parse_unique_json read document =
     ok_or (syntax_error MalformedJson) (Option.bind (read document) unique_value)"

section \<open>Limits\<close>

fun value_depth :: "json \<Rightarrow> nat \<Rightarrow> nat" where
  "value_depth (JArray vs) depth =
     (if vs = [] then depth else Max (set (map (\<lambda>v. value_depth v (depth + 1)) vs)))"
| "value_depth (JObject es) depth =
     (if es = [] then depth else Max (set (map (\<lambda>(k, v). value_depth v (depth + 1)) es)))"
| "value_depth _ depth = depth"

fun validate_json_string_limits :: "json \<Rightarrow> s3_policy_error + unit"
and validate_limits_values :: "json list \<Rightarrow> s3_policy_error + unit"
and validate_limits_entries :: "(str \<times> json) list \<Rightarrow> s3_policy_error + unit" where
  "validate_json_string_limits v =
     (case v of
        JString s \<Rightarrow> if length s > MAX_S3_POLICY_STRING_BYTES then Err (limit LimitExceeded) else Ok ()
      | JArray vs \<Rightarrow> validate_limits_values vs
      | JObject es \<Rightarrow>
          if list_ex (\<lambda>(k, _). length k > MAX_S3_POLICY_STRING_BYTES) es then Err (limit LimitExceeded)
          else validate_limits_entries es
      | _ \<Rightarrow> Ok ())"
| "validate_limits_values [] = Ok ()"
| "validate_limits_values (v # vs) =
     and_then (validate_json_string_limits v) (\<lambda>_. validate_limits_values vs)"
| "validate_limits_entries [] = Ok ()"
| "validate_limits_entries ((k, v) # es) =
     and_then (validate_json_string_limits v) (\<lambda>_. validate_limits_entries es)"

declare validate_json_string_limits.simps [simp del]

section \<open>Duplicate keys\<close>

text \<open>No object of the value, at any depth, has the same key twice.\<close>

fun json_unique :: "json \<Rightarrow> bool" where
  "json_unique (JArray vs) = list_all json_unique vs"
| "json_unique (JObject es) = (distinct (map fst es) \<and> list_all (\<lambda>(k, v). json_unique v) es)"
| "json_unique _ = True"

lemma unique_walk:
  "unique_value v \<noteq> None \<longleftrightarrow> json_unique v"
  "unique_values vs \<noteq> None \<longleftrightarrow> list_all json_unique vs"
  "unique_entries acc es \<noteq> None \<longleftrightarrow>
     distinct (map fst es) \<and> fst ` set es \<inter> fst ` set acc = {} \<and> list_all (\<lambda>(k, v). json_unique v) es"
proof (induction v and vs and acc es rule: unique_value_unique_values_unique_entries.induct)
  case (1 v)
  then show ?case by (cases v) (auto simp: unique_value.simps)
next
  case (3 v vs)
  then show ?case by (cases "unique_value v") auto
next
  case (5 acc k v es)
  then show ?case
    by (cases "unique_value v") (auto simp: btree.keys_insert)
qed auto

lemma unique_entries_result:
  "unique_entries acc es = Some out \<Longrightarrow>
   \<exists>ws. list_all2 (\<lambda>(k, v) (k', w). k' = k \<and> unique_value v = Some w) es ws
      \<and> out = foldl (\<lambda>m (k, v). map_insert k v m) acc ws"
proof (induction es arbitrary: acc)
  case (Cons e es)
  obtain k v where e: "e = (k, v)" by (cases e)
  with Cons.prems obtain w where w: "unique_value v = Some w"
    and rest: "unique_entries (map_insert k w acc) es = Some out"
    by (auto simp: bind_eq_Some_conv split: if_splits)
  from Cons.IH [OF rest] obtain ws where "list_all2 (\<lambda>(k, v) (k', w). k' = k \<and> unique_value v = Some w) es ws"
    "out = foldl (\<lambda>m (k, v). map_insert k v m) (map_insert k w acc) ws" by blast
  with e w show ?case by (intro exI [of _ "(k, w) # ws"]) simp
qed simp

lemma list_all2_keys:
  "list_all2 (\<lambda>(k, v) (k', w). k' = k \<and> f v = Some w) es ws \<Longrightarrow> map fst ws = map fst es"
  by (induction rule: list_all2_induct) auto

lemma list_all2_lookup:
  "list_all2 (\<lambda>(k, v) (k', w). k' = k \<and> f v = Some w) es ws \<Longrightarrow>
   map_of ws j = Option.bind (map_of es j) f"
  by (induction rule: list_all2_induct) auto

section \<open>Properties\<close>

text \<open>Duplicate keys are rejected at every depth, and only they are: a document read by the
  tokenizer is accepted by \<open>parse_unique_json\<close> exactly when no object in it repeats a key.\<close>

theorem parse_unique_json_accepts_iff:
  "is_ok (parse_unique_json read document) \<longleftrightarrow> is_some_and (read document) json_unique"
  using unique_walk(1)
  by (cases "read document") (auto simp: parse_unique_json_def is_ok_iff)

text \<open>The map that the visitor builds agrees with the document: looking a key up in the object
  built from entries gives the converted value of that key's entry, and nothing for other keys.\<close>

lemma unique_value_lookup:
  assumes "unique_value (JObject es) = Some (JObject out)"
  shows "map_of out k = Option.bind (map_of es k) unique_value"
proof -
  from assms have u: "unique_entries [] es = Some out" by (simp add: unique_value.simps)
  from unique_entries_result [OF u] obtain ws
    where ws: "list_all2 (\<lambda>(k, v) (k', w). k' = k \<and> unique_value v = Some w) es ws"
      and out: "out = foldl (\<lambda>m (k, v). map_insert k v m) [] ws" by blast
  have "distinct (map fst es)" using unique_walk(3) [of "[]" es] u by simp
  then have "map_of out k = map_of ws k"
    using list_all2_keys [OF ws] by (auto simp: out btree.lookup_fold split: option.splits)
  then show ?thesis using list_all2_lookup [OF ws] by simp
qed

end
