(* ===== verification/Policy_Parse.thy ===== *)
theory Policy_Parse
  imports Policy_Document Policy_Eval
begin

text \<open>
  Installation of S3 policies (\<^verbatim>\<open>crates/mediahub-core/src/s3_policy.rs\<close>): from the JSON tree of a
  document to a bucket or identity policy, with every check and error code of the parser in
  its order. A JSON object is the list of its entries; \<open>get\<close> is \<open>map_of\<close>.
\<close>

type_synonym json_object = "(str \<times> json) list"

section \<open>Fields\<close>

definition object_of :: "json \<Rightarrow> s3_policy_error_code \<Rightarrow> s3_policy_error + json_object" where
  "object_of v code = ok_or (validation code) (as_object v)"

definition required_string :: "json_object \<Rightarrow> str \<Rightarrow> s3_policy_error_code \<Rightarrow> s3_policy_error + str" where
  "required_string m name code =
     ok_or (validation code)
       (case Option.bind (map_of m name) as_str of
          Some s \<Rightarrow> if length s \<le> MAX_S3_POLICY_STRING_BYTES then Some s else None
        | None \<Rightarrow> None)"

definition reject_unknown_fields :: "json_object \<Rightarrow> str list \<Rightarrow> s3_policy_error + unit" where
  "reject_unknown_fields m allowed =
     (if list_ex (\<lambda>(k, _). k \<notin> set allowed) m then Err (validation UnsupportedField) else Ok ())"

datatype 'a clause = Positive 'a | Negative 'a

definition exclusive_clause ::
  "json_object \<Rightarrow> str \<Rightarrow> str \<Rightarrow> (json \<Rightarrow> s3_policy_error + 'a) \<Rightarrow> s3_policy_error + 'a clause" where
  "exclusive_clause m positive negative parse =
     (case (map_of m positive, map_of m negative) of
        (Some v, None) \<Rightarrow> and_then (parse v) (\<lambda>x. Ok (Positive x))
      | (None, Some v) \<Rightarrow> and_then (parse v) (\<lambda>x. Ok (Negative x))
      | _ \<Rightarrow> Err (validation InvalidStatement))"

definition parse_string_values :: "json \<Rightarrow> nat \<Rightarrow> s3_policy_error_code \<Rightarrow> s3_policy_error + str list" where
  "parse_string_values v lim code =
     and_then
       (case v of
          JString s \<Rightarrow> Ok [s]
        | JArray vs \<Rightarrow>
            if vs = [] then Err (validation code)
            else try_map (\<lambda>v. ok_or (validation code) (as_str v)) vs
        | _ \<Rightarrow> Err (validation code))
       (\<lambda>xs.
          if length xs > lim \<or> list_ex (\<lambda>s. s = [] \<or> length s > MAX_S3_POLICY_STRING_BYTES) xs
          then Err (limit LimitExceeded)
          else if \<not> distinct xs then Err (validation code)
          else Ok xs)"

definition pattern_ok :: "str \<Rightarrow> bool" where
  "pattern_ok p \<longleftrightarrow> \<not> (length p > MAX_S3_POLICY_STRING_BYTES \<or> list_ex char_is_control (chars p)
     \<or> contains_str p ''${'' \<or> CHR 0x5C \<in> set p)"

definition parse_patterns :: "json \<Rightarrow> nat \<Rightarrow> s3_policy_error_code \<Rightarrow> s3_policy_error + str list" where
  "parse_patterns v lim code =
     and_then (parse_string_values v lim code) (\<lambda>xs.
       if list_all pattern_ok xs then Ok xs else Err (validation code))"

section \<open>Principals\<close>

text \<open>
  After the two checks the single entry is named \<open>AWS\<close>, so the \<open>expect\<close> of the source is met; the
  branch without that entry cannot be reached (lemma \<open>aws_field_present\<close>).
\<close>

definition parse_principal :: "json \<Rightarrow> s3_policy_error + s3_policy_principal" where
  "parse_principal v =
     (if as_str v = Some ''*'' then Ok AnyPrincipal
      else
        and_then (object_of v InvalidPrincipal) (\<lambda>m.
        and_then (reject_unknown_fields m [''AWS'']) (\<lambda>_.
          if length m \<noteq> 1 then Err (validation InvalidPrincipal)
          else (case map_of m ''AWS'' of
                  None \<Rightarrow> Err (validation InvalidPrincipal)
                | Some aws \<Rightarrow>
                    and_then (parse_string_values aws MAX_S3_POLICY_PRINCIPALS InvalidPrincipal) (\<lambda>xs.
                    and_then (try_map parse_aws_principal xs) (\<lambda>ps. Ok (Aws ps)))))))"

lemma aws_field_present:
  "reject_unknown_fields m [''AWS''] = Ok () \<Longrightarrow> length m = 1 \<Longrightarrow> map_of m ''AWS'' \<noteq> None"
  by (cases m) (auto simp: reject_unknown_fields_def split: if_splits)

section \<open>Actions and resources\<close>

datatype s3_policy_kind = BucketKind str | IdentityKind

fun supported_actions :: "s3_policy_kind \<Rightarrow> s3_policy_action list" where
  "supported_actions (BucketKind _) = S3_BUCKET_POLICY_ACTIONS"
| "supported_actions IdentityKind = ALL_ACTIONS"

definition action_pattern_ok :: "s3_policy_action list \<Rightarrow> str \<Rightarrow> bool" where
  "action_pattern_ok supported p \<longleftrightarrow>
     eq_ignore_ascii_case (take 3 p) ''s3:'' \<and> length p > 3
     \<and> list_all (\<lambda>c. is_ascii_alphanumeric c \<or> c = CHR ''*'' \<or> c = CHR ''?'') (drop 3 p)
     \<and> list_ex (\<lambda>a. glob_matches p (action_as_str a) True) supported"

definition validate_action_patterns ::
  "str list \<Rightarrow> bool \<Rightarrow> s3_policy_action list \<Rightarrow> s3_policy_error + unit" where
  "validate_action_patterns ps negative supported =
     (if \<not> list_all (action_pattern_ok supported) ps then Err (validation UnsupportedAction)
      else if negative
              \<and> list_all (\<lambda>a. list_ex (\<lambda>p. glob_matches p (action_as_str a) True) ps) supported
      then Err (validation UnsupportedAction)
      else Ok ())"

definition valid_bucket_pattern :: "str \<Rightarrow> bool" where
  "valid_bucket_pattern p =
     (if CHR ''*'' \<notin> set p \<and> CHR ''?'' \<notin> set p then valid_bucket_name p
      else 1 \<le> length p \<and> length p \<le> 63
        \<and> list_all (\<lambda>c. is_ascii_lowercase c \<or> is_ascii_digit c
             \<or> c \<in> {CHR ''.'', CHR ''-'', CHR ''*'', CHR ''?''}) p
        \<and> (is_ascii_alphanumeric (hd p) \<or> hd p \<in> {CHR ''*'', CHR ''?''})
        \<and> (is_ascii_alphanumeric (last p) \<or> last p \<in> {CHR ''*'', CHR ''?''})
        \<and> \<not> contains_str p ''..'' \<and> \<not> contains_str p ''.-'' \<and> \<not> contains_str p ''-.'')"

definition valid_identity_resource :: "str \<Rightarrow> bool" where
  "valid_identity_resource p =
     (if p = ''*'' then True
      else case strip_prefix p ''arn:aws:s3:::'' of
             None \<Rightarrow> False
           | Some resource \<Rightarrow>
               (let (bucket, object) = (case split_once CHR ''/'' resource of
                      Some (b, k) \<Rightarrow> (b, Some k) | None \<Rightarrow> (resource, None))
                in if \<not> valid_bucket_pattern bucket then False
                   else is_none_or object (\<lambda>k. k \<noteq> [] \<and> length k \<le> MAX_S3_POLICY_RUNTIME_KEY_BYTES
                          \<and> \<not> list_ex char_is_control (chars k))))"

definition bucket_resource_ok :: "str \<Rightarrow> str \<Rightarrow> bool" where
  "bucket_resource_ok target p \<longleftrightarrow>
     (let bucket_arn = ''arn:aws:s3:::'' @ target
      in p = bucket_arn
         \<or> is_some_and (strip_prefix p bucket_arn) (\<lambda>rest.
             starts_with rest ''/'' \<and> length rest > 1 \<and> \<not> list_ex char_is_control (chars rest)))"

fun resource_ok :: "s3_policy_kind \<Rightarrow> str \<Rightarrow> bool" where
  "resource_ok (BucketKind target) p = bucket_resource_ok target p"
| "resource_ok IdentityKind p = valid_identity_resource p"

definition validate_resources :: "str list \<Rightarrow> s3_policy_kind \<Rightarrow> s3_policy_error + unit" where
  "validate_resources ps kind =
     (if list_all (resource_ok kind) ps then Ok () else Err (validation InvalidResource))"

definition pattern_scopes :: "str \<Rightarrow> s3_policy_resource_scope set" where
  "pattern_scopes p =
     (if p = ''*'' then {AccountScope, BucketScope, ObjectScope}
      else if CHR ''/'' \<in> set (drop (length ''arn:aws:s3:::'') p) then {ObjectScope}
      else {BucketScope})"

fun resource_clause_scopes :: "s3_resource_clause \<Rightarrow> s3_policy_kind \<Rightarrow> s3_policy_resource_scope set" where
  "resource_clause_scopes (Resource ps) kind = \<Union> (set (map pattern_scopes ps))"
| "resource_clause_scopes (NotResource ps) IdentityKind =
     (if ''*'' \<in> set ps then {} else {AccountScope, BucketScope, ObjectScope})"
| "resource_clause_scopes (NotResource ps) (BucketKind _) = \<Union> (set (map pattern_scopes ps))"

definition validate_action_resource_compatibility ::
  "s3_action_clause \<Rightarrow> s3_resource_clause \<Rightarrow> s3_policy_kind \<Rightarrow> s3_policy_error + unit" where
  "validate_action_resource_compatibility actions resources kind =
     (let scopes = resource_clause_scopes resources kind;
          applicable = filter (\<lambda>a. action_clause_matches actions a \<and> scope a \<in> scopes) (supported_actions kind)
      in if length applicable = 0 then Err (validation InvalidResource) else Ok ())"

section \<open>Conditions\<close>

definition parse_condition_operator :: "str \<Rightarrow> s3_policy_error + s3_condition_operator" where
  "parse_condition_operator v =
     ok_or (validation UnsupportedCondition)
       (map_of [(''StringEquals'', StringEquals), (''StringNotEquals'', StringNotEquals),
                (''StringLike'', StringLike), (''StringNotLike'', StringNotLike), (''Bool'', BoolOp),
                (''IpAddress'', IpAddress), (''NotIpAddress'', NotIpAddress),
                (''NumericLessThanEquals'', NumericLessThanEquals), (''Null'', NullOp)] v)"

definition parse_condition_key :: "str \<Rightarrow> s3_policy_error + s3_condition_key" where
  "parse_condition_key v =
     (if eq_ignore_ascii_case v ''aws:SecureTransport'' then Ok SecureTransport
      else if eq_ignore_ascii_case v ''aws:SourceIp'' then Ok SourceIp
      else if eq_ignore_ascii_case v ''aws:PrincipalArn'' then Ok PrincipalArn
      else if eq_ignore_ascii_case v ''aws:userid'' then Ok UserId
      else if eq_ignore_ascii_case v ''s3:prefix'' then Ok PrefixKey
      else if eq_ignore_ascii_case v ''s3:delimiter'' then Ok Delimiter
      else if eq_ignore_ascii_case v ''s3:max-keys'' then Ok MaxKeys
      else if eq_ignore_ascii_case v ''s3:VersionId'' then Ok VersionId
      else Err (validation UnsupportedCondition))"

definition is_string_operator :: "s3_condition_operator \<Rightarrow> bool" where
  "is_string_operator op \<longleftrightarrow> op \<in> {StringEquals, StringNotEquals, StringLike, StringNotLike}"

definition valid_pair :: "s3_condition_operator \<Rightarrow> s3_condition_key \<Rightarrow> bool" where
  "valid_pair op key =
     (case op of
        BoolOp \<Rightarrow> key = SecureTransport
      | IpAddress \<Rightarrow> key = SourceIp
      | NotIpAddress \<Rightarrow> key = SourceIp
      | NumericLessThanEquals \<Rightarrow> key = MaxKeys
      | NullOp \<Rightarrow> True
      | _ \<Rightarrow> key \<in> {PrincipalArn, UserId, PrefixKey, Delimiter, VersionId})"

definition scalar_or_array :: "json \<Rightarrow> s3_policy_error + json list" where
  "scalar_or_array v =
     (case v of
        JArray vs \<Rightarrow> if vs \<noteq> [] then Ok vs else Err (validation UnsupportedCondition)
      | JString _ \<Rightarrow> Ok [v]
      | JBool _ \<Rightarrow> Ok [v]
      | JNumber _ \<Rightarrow> Ok [v]
      | _ \<Rightarrow> Err (validation UnsupportedCondition))"

definition condition_string :: "json \<Rightarrow> s3_policy_error + str" where
  "condition_string v =
     and_then (ok_or (validation UnsupportedCondition) (as_str v)) (\<lambda>s.
       if s = [] \<or> length s > MAX_S3_POLICY_STRING_BYTES \<or> list_ex char_is_control (chars s)
       then Err (validation UnsupportedCondition) else Ok s)"

definition parse_bool_value :: "json \<Rightarrow> bool option" where
  "parse_bool_value v =
     (case v of
        JBool b \<Rightarrow> Some b
      | JString s \<Rightarrow> if eq_ignore_ascii_case s ''true'' then Some True
                     else if eq_ignore_ascii_case s ''false'' then Some False else None
      | _ \<Rightarrow> None)"

definition parse_unsigned_value :: "json \<Rightarrow> u64 option" where
  "parse_unsigned_value v =
     (case v of
        JNumber n \<Rightarrow> number_as_u64 n
      | JString s \<Rightarrow> map_option of_nat (parse_uint (2 ^ 64 - 1) s)
      | _ \<Rightarrow> None)"

definition parse_condition_value ::
  "s3_condition_operator \<Rightarrow> json \<Rightarrow> s3_policy_error + s3_condition_value" where
  "parse_condition_value op v =
     (if is_string_operator op then
        and_then (condition_string v) (\<lambda>s.
          if (op = StringLike \<or> op = StringNotLike) \<and> (contains_str s ''${'' \<or> CHR 0x5C \<in> set s)
          then Err (validation UnsupportedCondition) else Ok (CvString s))
      else if op = BoolOp \<or> op = NullOp then
        and_then (ok_or (validation UnsupportedCondition) (parse_bool_value v)) (\<lambda>b. Ok (CvBool b))
      else if op = IpAddress \<or> op = NotIpAddress then
        and_then (condition_string v) (\<lambda>s.
        and_then (ok_or (validation UnsupportedCondition) (network_parse s)) (\<lambda>n. Ok (CvIp n)))
      else
        and_then (ok_or (validation UnsupportedCondition) (parse_unsigned_value v)) (\<lambda>n. Ok (CvUnsigned n)))"

definition parse_condition ::
  "s3_condition_operator \<Rightarrow> s3_condition_key \<Rightarrow> json \<Rightarrow> s3_policy_error + s3_policy_condition" where
  "parse_condition op key v =
     (if \<not> valid_pair op key then Err (validation UnsupportedCondition)
      else
        and_then (scalar_or_array v) (\<lambda>raw.
          if raw = [] \<or> length raw > MAX_S3_POLICY_CONDITION_VALUES then Err (limit LimitExceeded)
          else if (op = BoolOp \<or> op = NullOp) \<and> length raw \<noteq> 1 then Err (validation UnsupportedCondition)
          else
            and_then (try_map (parse_condition_value op) raw) (\<lambda>vs.
              Ok \<lparr>c_operator = op, c_key = key, c_values = vs\<rparr>)))"

definition parse_condition_entry ::
  "s3_condition_operator \<Rightarrow> str \<times> json \<Rightarrow> s3_policy_error + s3_policy_condition" where
  "parse_condition_entry op e =
     and_then (parse_condition_key (fst e)) (\<lambda>key. parse_condition op key (snd e))"

text \<open>The loop over the operators, with the running count of condition keys.\<close>

fun parse_condition_operators :: "nat \<Rightarrow> json_object \<Rightarrow> s3_policy_error + s3_policy_condition list" where
  "parse_condition_operators seen [] = Ok []"
| "parse_condition_operators seen ((name, entries) # rest) =
     and_then (parse_condition_operator name) (\<lambda>op.
     and_then (object_of entries UnsupportedCondition) (\<lambda>es.
       if es = [] then Err (validation UnsupportedCondition)
       else if seen + length es > MAX_S3_POLICY_CONDITION_KEYS then Err (limit LimitExceeded)
       else
         and_then (try_map (parse_condition_entry op) es) (\<lambda>cs.
         and_then (parse_condition_operators (seen + length es) rest) (\<lambda>ds. Ok (cs @ ds)))))"

definition parse_conditions :: "json \<Rightarrow> s3_policy_error + s3_policy_condition list" where
  "parse_conditions v =
     and_then (object_of v UnsupportedCondition) (\<lambda>ops.
       if ops = [] then Err (validation UnsupportedCondition)
       else if length ops > MAX_S3_POLICY_CONDITION_OPERATORS then Err (limit LimitExceeded)
       else parse_condition_operators 0 ops)"

section \<open>Statements\<close>

record parsed_policy_statement =
  ps_sid :: "str option"
  ps_effect :: s3_policy_effect
  ps_principal :: "s3_principal_clause option"
  ps_actions :: s3_action_clause
  ps_resources :: s3_resource_clause
  ps_conditions :: "s3_policy_condition list"

fun allowed_fields :: "s3_policy_kind \<Rightarrow> str list" where
  "allowed_fields (BucketKind _) =
     [''Sid'', ''Effect'', ''Principal'', ''NotPrincipal'', ''Action'', ''NotAction'', ''Resource'',
      ''NotResource'', ''Condition'']"
| "allowed_fields IdentityKind =
     [''Sid'', ''Effect'', ''Action'', ''NotAction'', ''Resource'', ''NotResource'', ''Condition'']"

definition parse_sid :: "json_object \<Rightarrow> s3_policy_error + str option" where
  "parse_sid m =
     (case map_of m ''Sid'' of
        None \<Rightarrow> Ok None
      | Some v \<Rightarrow>
          and_then (ok_or (validation InvalidStatement) (as_str v)) (\<lambda>sid.
            if length sid > MAX_S3_POLICY_SID_BYTES \<or> \<not> list_all is_ascii_alphanumeric sid
            then Err (validation InvalidStatement) else Ok (Some sid)))"

definition parse_effect :: "json_object \<Rightarrow> s3_policy_error + s3_policy_effect" where
  "parse_effect m =
     and_then (required_string m ''Effect'' InvalidStatement) (\<lambda>e.
       if e = ''Allow'' then Ok Allow else if e = ''Deny'' then Ok Deny
       else Err (validation InvalidStatement))"

fun parse_principal_clause :: "s3_policy_kind \<Rightarrow> json_object \<Rightarrow> s3_policy_error + s3_principal_clause option" where
  "parse_principal_clause (BucketKind _) m =
     and_then (exclusive_clause m ''Principal'' ''NotPrincipal'' parse_principal) (\<lambda>c.
       Ok (Some (case c of Positive p \<Rightarrow> Principal p | Negative p \<Rightarrow> NotPrincipal p)))"
| "parse_principal_clause IdentityKind m = Ok None"

definition parse_actions :: "s3_policy_kind \<Rightarrow> json_object \<Rightarrow> s3_policy_error + s3_action_clause" where
  "parse_actions kind m =
     and_then (exclusive_clause m ''Action'' ''NotAction''
         (\<lambda>v. parse_patterns v MAX_S3_POLICY_ACTIONS UnsupportedAction)) (\<lambda>c.
       case c of
         Positive ps \<Rightarrow>
           and_then (validate_action_patterns ps False (supported_actions kind)) (\<lambda>_. Ok (Action ps))
       | Negative ps \<Rightarrow>
           and_then (validate_action_patterns ps True (supported_actions kind)) (\<lambda>_. Ok (NotAction ps)))"

definition parse_resources :: "s3_policy_kind \<Rightarrow> json_object \<Rightarrow> s3_policy_error + s3_resource_clause" where
  "parse_resources kind m =
     and_then (exclusive_clause m ''Resource'' ''NotResource''
         (\<lambda>v. parse_patterns v MAX_S3_POLICY_RESOURCES InvalidResource)) (\<lambda>c.
       case c of
         Positive ps \<Rightarrow> and_then (validate_resources ps kind) (\<lambda>_. Ok (Resource ps))
       | Negative ps \<Rightarrow> and_then (validate_resources ps kind) (\<lambda>_. Ok (NotResource ps)))"

definition parse_statement :: "s3_policy_kind \<Rightarrow> json \<Rightarrow> s3_policy_error + parsed_policy_statement" where
  "parse_statement kind v =
     and_then (object_of v InvalidStatement) (\<lambda>m.
     and_then (reject_unknown_fields m (allowed_fields kind)) (\<lambda>_.
     and_then (parse_sid m) (\<lambda>sid.
     and_then (parse_effect m) (\<lambda>effect.
     and_then (parse_principal_clause kind m) (\<lambda>principal.
     and_then (parse_actions kind m) (\<lambda>actions.
     and_then (parse_resources kind m) (\<lambda>resources.
     and_then (validate_action_resource_compatibility actions resources kind) (\<lambda>_.
     and_then (case map_of m ''Condition'' of None \<Rightarrow> Ok [] | Some c \<Rightarrow> parse_conditions c) (\<lambda>conditions.
       Ok \<lparr>ps_sid = sid, ps_effect = effect, ps_principal = principal, ps_actions = actions,
           ps_resources = resources, ps_conditions = conditions\<rparr>)))))))))"

section \<open>Documents\<close>

record parsed_policy_document =
  pd_version :: str
  pd_id :: "str option"
  pd_statements :: "parsed_policy_statement list"

definition parse_document_id :: "json_object \<Rightarrow> s3_policy_error + str option" where
  "parse_document_id m =
     (case map_of m ''Id'' of
        None \<Rightarrow> Ok None
      | Some v \<Rightarrow>
          ok_or (validation InvalidDocument)
            (case as_str v of
               None \<Rightarrow> None
             | Some s \<Rightarrow> if s \<noteq> [] \<and> length s \<le> MAX_S3_POLICY_SID_BYTES \<and> \<not> list_ex char_is_control (chars s)
                          then Some (Some s) else None))"

definition statement_values :: "json \<Rightarrow> s3_policy_error + json list" where
  "statement_values v =
     (case v of
        JObject _ \<Rightarrow> Ok [v]
      | JArray vs \<Rightarrow> if vs \<noteq> [] then Ok vs else Err (validation InvalidStatement)
      | _ \<Rightarrow> Err (validation InvalidStatement))"

definition parse_policy_document ::
  "json_reader \<Rightarrow> s3_policy_kind \<Rightarrow> str \<Rightarrow> s3_policy_error + parsed_policy_document" where
  "parse_policy_document read kind document =
     (if length document > MAX_S3_POLICY_BYTES then Err (limit PolicyTooLarge)
      else if document = [] then Err (syntax_error MalformedJson)
      else
        and_then (parse_unique_json read document) (\<lambda>root.
        if value_depth root 1 > MAX_S3_POLICY_DEPTH then Err (limit PolicyTooDeep)
        else
        and_then (validate_json_string_limits root) (\<lambda>_.
        and_then (object_of root InvalidDocument) (\<lambda>m.
        and_then (reject_unknown_fields m [''Version'', ''Id'', ''Statement'']) (\<lambda>_.
        and_then (required_string m ''Version'' UnsupportedVersion) (\<lambda>version.
        if version \<noteq> S3_POLICY_VERSION \<and> version \<noteq> S3_POLICY_LEGACY_VERSION
        then Err (validation UnsupportedVersion)
        else
        and_then (parse_document_id m) (\<lambda>i.
        and_then (ok_or (validation InvalidDocument) (map_of m ''Statement'')) (\<lambda>sv.
        and_then (statement_values sv) (\<lambda>svs.
        if length svs > MAX_S3_POLICY_STATEMENTS then Err (limit LimitExceeded)
        else
        and_then (try_map (parse_statement kind) svs) (\<lambda>statements.
          Ok \<lparr>pd_version = version, pd_id = i, pd_statements = statements\<rparr>))))))))))"

text \<open>
  \<open>S3BucketPolicy::parse\<close> and \<open>S3IdentityPolicy::parse\<close>. The former expects every parsed statement
  to carry a principal; the value \<open>None\<close> is the panic of that \<open>expect\<close>.
\<close>

definition bucket_statement :: "parsed_policy_statement \<Rightarrow> s3_policy_statement option" where
  "bucket_statement s =
     map_option (\<lambda>principal.
       \<lparr>st_sid = ps_sid s, st_effect = ps_effect s, st_principal = principal, st_actions = ps_actions s,
        st_resources = ps_resources s, st_conditions = ps_conditions s\<rparr>) (ps_principal s)"

definition bucket_policy_parse ::
  "json_reader \<Rightarrow> str \<Rightarrow> str \<Rightarrow> (s3_policy_error + s3_bucket_policy) option" where
  "bucket_policy_parse read document target =
     (if \<not> valid_bucket_name target then Some (Err (validation InvalidResource))
      else case parse_policy_document read (BucketKind target) document of
             Inl e \<Rightarrow> Some (Err e)
           | Inr parsed \<Rightarrow>
               map_option (\<lambda>statements. Ok
                   \<lparr>bp_version = pd_version parsed, bp_id = pd_id parsed, bp_target_bucket = target,
                    bp_statements = statements\<rparr>)
                 (those (map bucket_statement (pd_statements parsed))))"

definition identity_policy_parse :: "json_reader \<Rightarrow> str \<Rightarrow> s3_policy_error + s3_identity_policy" where
  "identity_policy_parse read document =
     and_then (parse_policy_document read IdentityKind document) (\<lambda>parsed.
       Ok \<lparr>ip_version = pd_version parsed, ip_id = pd_id parsed,
           ip_statements = map (\<lambda>s. \<lparr>is_sid = ps_sid s, is_effect = ps_effect s,
             is_actions = ps_actions s, is_resources = ps_resources s,
             is_conditions = ps_conditions s\<rparr>) (pd_statements parsed)\<rparr>)"

section \<open>What an installed policy looks like\<close>

fun value_typed :: "s3_condition_operator \<Rightarrow> s3_condition_value \<Rightarrow> bool" where
  "value_typed op (CvString s) = (is_string_operator op \<and> s \<noteq> [] \<and> length s \<le> 2048)"
| "value_typed op (CvBool b) = (op = BoolOp \<or> op = NullOp)"
| "value_typed op (CvIp n) =
     ((op = IpAddress \<or> op = NotIpAddress) \<and> mask_ip (net_address n) (net_prefix n) = net_address n
      \<and> net_prefix n \<le> max_prefix (net_address n))"
| "value_typed op (CvUnsigned n) = (op = NumericLessThanEquals)"

definition condition_ok :: "s3_policy_condition \<Rightarrow> bool" where
  "condition_ok c \<longleftrightarrow>
     valid_pair (c_operator c) (c_key c) \<and> c_values c \<noteq> [] \<and> length (c_values c) \<le> 64
     \<and> list_all (value_typed (c_operator c)) (c_values c)"

fun aws_principal_ok :: "s3_aws_principal \<Rightarrow> bool" where
  "aws_principal_ok AnyAws = True"
| "aws_principal_ok (AccountP a) = valid_account_id a"
| "aws_principal_ok (ArnP a) = valid_runtime_principal_arn a"

fun principal_ok :: "s3_policy_principal \<Rightarrow> bool" where
  "principal_ok AnyPrincipal = True"
| "principal_ok (Aws ps) = (ps \<noteq> [] \<and> length ps \<le> 64 \<and> list_all aws_principal_ok ps)"

fun principal_clause_ok :: "s3_principal_clause \<Rightarrow> bool" where
  "principal_clause_ok (Principal p) = principal_ok p"
| "principal_clause_ok (NotPrincipal p) = principal_ok p"

fun action_patterns :: "s3_action_clause \<Rightarrow> str list" where
  "action_patterns (Action ps) = ps"
| "action_patterns (NotAction ps) = ps"

fun resource_patterns :: "s3_resource_clause \<Rightarrow> str list" where
  "resource_patterns (Resource ps) = ps"
| "resource_patterns (NotResource ps) = ps"

definition patterns_ok :: "(str \<Rightarrow> bool) \<Rightarrow> str list \<Rightarrow> bool" where
  "patterns_ok ok ps \<longleftrightarrow> ps \<noteq> [] \<and> length ps \<le> 64 \<and> distinct ps \<and> list_all ok ps"

definition parsed_statement_ok :: "s3_policy_kind \<Rightarrow> parsed_policy_statement \<Rightarrow> bool" where
  "parsed_statement_ok kind s \<longleftrightarrow>
     is_none_or (ps_principal s) principal_clause_ok
     \<and> (ps_principal s = None \<longleftrightarrow> kind = IdentityKind)
     \<and> patterns_ok (action_pattern_ok (supported_actions kind)) (action_patterns (ps_actions s))
     \<and> patterns_ok (resource_ok kind) (resource_patterns (ps_resources s))
     \<and> list_ex (\<lambda>a. action_clause_matches (ps_actions s) a
          \<and> scope a \<in> resource_clause_scopes (ps_resources s) kind) (supported_actions kind)
     \<and> length (ps_conditions s) \<le> 32 \<and> list_all condition_ok (ps_conditions s)"

definition bucket_policy_ok :: "s3_bucket_policy \<Rightarrow> bool" where
  "bucket_policy_ok p \<longleftrightarrow>
     valid_bucket_name (bp_target_bucket p)
     \<and> (bp_version p = S3_POLICY_VERSION \<or> bp_version p = S3_POLICY_LEGACY_VERSION)
     \<and> bp_statements p \<noteq> [] \<and> length (bp_statements p) \<le> 100
     \<and> list_all (\<lambda>s. parsed_statement_ok (BucketKind (bp_target_bucket p))
          \<lparr>ps_sid = st_sid s, ps_effect = st_effect s, ps_principal = Some (st_principal s),
           ps_actions = st_actions s, ps_resources = st_resources s, ps_conditions = st_conditions s\<rparr>)
        (bp_statements p)"

section \<open>The parsers establish it\<close>

lemma parse_string_values_Ok:
  "parse_string_values v lim code = Ok xs \<Longrightarrow>
   xs \<noteq> [] \<and> length xs \<le> lim \<and> distinct xs \<and> list_all (\<lambda>s. s \<noteq> [] \<and> length s \<le> 2048) xs"
  by (cases v)
     (auto simp: parse_string_values_def result_simps MAX_S3_POLICY_STRING_BYTES_def list_ex_iff
       list_all_iff not_less try_map_Ok_iff split: if_splits)

lemma parse_patterns_Ok:
  "parse_patterns v lim code = Ok xs \<Longrightarrow> xs \<noteq> [] \<and> length xs \<le> lim \<and> distinct xs"
  by (auto simp: parse_patterns_def result_simps dest: parse_string_values_Ok split: if_splits)

lemma exclusive_clause_Ok:
  assumes "exclusive_clause m p n parse = Ok c"
  obtains v x where "parse v = Ok x" "c = Positive x \<or> c = Negative x"
  using assms by (auto simp: exclusive_clause_def result_simps split: option.splits)

lemma parse_aws_principal_ok: "parse_aws_principal s = Ok p \<Longrightarrow> aws_principal_ok p"
proof (cases "s = ''*'' \<or> valid_account_id s")
  case False
  assume p: "parse_aws_principal s = Ok p"
  with False have "p = ArnP s" by (auto simp: parse_aws_principal_def Let_def split: if_splits)
  with p show ?thesis by (simp add: valid_runtime_principal_arn_def)
qed (auto simp: parse_aws_principal_def split: if_splits)

lemma parse_principal_ok: "parse_principal v = Ok p \<Longrightarrow> principal_ok p"
proof (cases "as_str v = Some ''*''")
  case False
  assume "parse_principal v = Ok p"
  with False obtain aws xs ps where xs: "parse_string_values aws MAX_S3_POLICY_PRINCIPALS InvalidPrincipal = Ok xs"
    and ps: "try_map parse_aws_principal xs = Ok ps" and p: "p = Aws ps"
    by (auto simp: parse_principal_def result_simps split: if_splits option.splits)
  have "length ps = length xs" using ps by (auto simp: try_map_Ok_iff dest: list_all2_lengthD)
  moreover have "aws_principal_ok q" if "q \<in> set ps" for q
    using try_map_Ok_set [OF ps that] parse_aws_principal_ok by blast
  ultimately show ?thesis
    using parse_string_values_Ok [OF xs] by (auto simp: p list_all_iff MAX_S3_POLICY_PRINCIPALS_def)
qed (simp add: parse_principal_def)

lemma parse_condition_value_typed: "parse_condition_value op v = Ok w \<Longrightarrow> value_typed op w"
proof -
  assume a: "parse_condition_value op v = Ok w"
  consider "is_string_operator op" | "op = BoolOp \<or> op = NullOp" | "op = IpAddress \<or> op = NotIpAddress"
    | "op = NumericLessThanEquals"
    by (cases op) (auto simp: is_string_operator_def)
  then show ?thesis
  proof cases
    case 3
    with a obtain s n where "network_parse s = Some n" "w = CvIp n"
      by (auto simp: parse_condition_value_def is_string_operator_def result_simps)
    with 3 network_parse_valid show ?thesis by auto
  qed (use a in \<open>auto simp: parse_condition_value_def is_string_operator_def condition_string_def
      MAX_S3_POLICY_STRING_BYTES_def result_simps split: if_splits\<close>)
qed

lemma parse_condition_ok: "parse_condition op key v = Ok c \<Longrightarrow> condition_ok c"
proof -
  assume "parse_condition op key v = Ok c"
  then obtain raw vs where pair: "valid_pair op key" and raw: "raw \<noteq> []" "length raw \<le> 64"
    and vs: "try_map (parse_condition_value op) raw = Ok vs"
    and c: "c = \<lparr>c_operator = op, c_key = key, c_values = vs\<rparr>"
    by (auto simp: parse_condition_def result_simps MAX_S3_POLICY_CONDITION_VALUES_def split: if_splits)
  have "length vs = length raw" using vs by (auto simp: try_map_Ok_iff dest: list_all2_lengthD)
  moreover have "value_typed op w" if "w \<in> set vs" for w
    using try_map_Ok_set [OF vs that] parse_condition_value_typed by blast
  ultimately show ?thesis using pair raw by (auto simp: condition_ok_def c list_all_iff)
qed

lemma parse_condition_operators_ok:
  "parse_condition_operators seen ops = Ok cs \<Longrightarrow> seen \<le> 32 \<Longrightarrow>
   seen + length cs \<le> 32 \<and> list_all condition_ok cs"
proof (induction seen ops arbitrary: cs rule: parse_condition_operators.induct)
  case (2 seen name entries rest)
  from "2.prems"(1) obtain op es ds fs where es: "seen + length es \<le> 32"
    and op: "parse_condition_operator name = Ok op" "object_of entries UnsupportedCondition = Ok es"
    and ds: "try_map (parse_condition_entry op) es = Ok ds"
    and fs: "parse_condition_operators (seen + length es) rest = Ok fs" and cs: "cs = ds @ fs"
    and ne: "es \<noteq> []" "\<not> MAX_S3_POLICY_CONDITION_KEYS < seen + length es"
    by (auto simp: result_simps MAX_S3_POLICY_CONDITION_KEYS_def not_less split: if_splits)
  have "length ds = length es" using ds by (auto simp: try_map_Ok_iff dest: list_all2_lengthD)
  moreover have "condition_ok d" if "d \<in> set ds" for d
    using try_map_Ok_set [OF ds that] parse_condition_ok
    by (metis parse_condition_entry_def and_then_Ok_iff)
  moreover have "seen + length es + length fs \<le> 32 \<and> list_all condition_ok fs"
    using "2.IH" [OF op ne ds fs es] by simp
  ultimately show ?case by (auto simp: cs list_all_iff)
qed simp

lemma parse_conditions_ok:
  "parse_conditions v = Ok cs \<Longrightarrow> length cs \<le> 32 \<and> list_all condition_ok cs"
  using parse_condition_operators_ok [of 0]
  by (fastforce simp: parse_conditions_def result_simps split: if_splits)

lemma exclusive_patterns:
  assumes "exclusive_clause m p n (\<lambda>v. parse_patterns v lim code) = Ok c"
  obtains ps where "c = Positive ps \<or> c = Negative ps" "ps \<noteq> []" "length ps \<le> lim" "distinct ps"
proof -
  from assms obtain v x where "parse_patterns v lim code = Ok x" "c = Positive x \<or> c = Negative x"
    by (rule exclusive_clause_Ok)
  with that [of x] parse_patterns_Ok show thesis by blast
qed

lemma parse_actions_ok:
  assumes "parse_actions kind m = Ok c"
  shows "patterns_ok (action_pattern_ok (supported_actions kind)) (action_patterns c)"
proof -
  from assms obtain cl where e: "exclusive_clause m ''Action'' ''NotAction''
         (\<lambda>v. parse_patterns v MAX_S3_POLICY_ACTIONS UnsupportedAction) = Ok cl"
    and r: "(case cl of
         Positive ps \<Rightarrow>
           and_then (validate_action_patterns ps False (supported_actions kind)) (\<lambda>_. Ok (Action ps))
       | Negative ps \<Rightarrow>
           and_then (validate_action_patterns ps True (supported_actions kind)) (\<lambda>_. Ok (NotAction ps))) = Ok c"
    unfolding parse_actions_def and_then_Ok_iff by blast
  from e obtain ps where "cl = Positive ps \<or> cl = Negative ps" "ps \<noteq> []" "length ps \<le> 64" "distinct ps"
    unfolding MAX_S3_POLICY_ACTIONS_def by (rule exclusive_patterns)
  with r show ?thesis
    by (auto simp: and_then_Ok_iff validate_action_patterns_def patterns_ok_def split: if_splits)
qed

lemma parse_resources_ok:
  assumes "parse_resources kind m = Ok c"
  shows "patterns_ok (resource_ok kind) (resource_patterns c)"
proof -
  from assms obtain cl where e: "exclusive_clause m ''Resource'' ''NotResource''
         (\<lambda>v. parse_patterns v MAX_S3_POLICY_RESOURCES InvalidResource) = Ok cl"
    and r: "(case cl of
         Positive ps \<Rightarrow> and_then (validate_resources ps kind) (\<lambda>_. Ok (Resource ps))
       | Negative ps \<Rightarrow> and_then (validate_resources ps kind) (\<lambda>_. Ok (NotResource ps))) = Ok c"
    unfolding parse_resources_def and_then_Ok_iff by blast
  from e obtain ps where "cl = Positive ps \<or> cl = Negative ps" "ps \<noteq> []" "length ps \<le> 64" "distinct ps"
    unfolding MAX_S3_POLICY_RESOURCES_def by (rule exclusive_patterns)
  with r show ?thesis
    by (auto simp: and_then_Ok_iff validate_resources_def patterns_ok_def split: if_splits)
qed

lemma parse_principal_clause_ok:
  assumes "parse_principal_clause kind m = Ok p"
  shows "is_none_or p principal_clause_ok \<and> (p = None \<longleftrightarrow> kind = IdentityKind)"
proof (cases kind)
  case (BucketKind b)
  with assms obtain cl where e: "exclusive_clause m ''Principal'' ''NotPrincipal'' parse_principal = Ok cl"
    and p: "p = Some (case cl of Positive p \<Rightarrow> Principal p | Negative p \<Rightarrow> NotPrincipal p)"
    by (auto simp: and_then_Ok_iff)
  from e obtain x where "principal_ok x" "cl = Positive x \<or> cl = Negative x"
    by (rule exclusive_clause_Ok) (auto dest: parse_principal_ok)
  with p BucketKind show ?thesis by auto
qed (use assms in simp)

lemma compatibility_ok:
  "validate_action_resource_compatibility actions resources kind = Ok () \<Longrightarrow>
   list_ex (\<lambda>a. action_clause_matches actions a \<and> scope a \<in> resource_clause_scopes resources kind)
     (supported_actions kind)"
  by (auto simp: validate_action_resource_compatibility_def Let_def filter_empty_conv list_ex_iff
      split: if_splits)

lemma parse_statement_ok:
  assumes "parse_statement kind v = Ok s"
  shows "parsed_statement_ok kind s"
proof -
  from assms obtain m where p: "parse_principal_clause kind m = Ok (ps_principal s)"
    and a: "parse_actions kind m = Ok (ps_actions s)" and r: "parse_resources kind m = Ok (ps_resources s)"
    and c: "validate_action_resource_compatibility (ps_actions s) (ps_resources s) kind = Ok ()"
    and cs: "(case map_of m ''Condition'' of None \<Rightarrow> Ok [] | Some c \<Rightarrow> parse_conditions c) = Ok (ps_conditions s)"
    unfolding parse_statement_def and_then_Ok_iff by auto
  have "length (ps_conditions s) \<le> 32 \<and> list_all condition_ok (ps_conditions s)"
    using cs by (auto dest: parse_conditions_ok split: option.splits)
  then show ?thesis
    using parse_principal_clause_ok [OF p] parse_actions_ok [OF a] parse_resources_ok [OF r]
      compatibility_ok [OF c]
    by (simp add: parsed_statement_ok_def)
qed

lemma statement_values_nonempty: "statement_values v = Ok svs \<Longrightarrow> svs \<noteq> []"
  by (cases v) (auto simp: statement_values_def split: if_splits)

lemma parse_policy_document_ok:
  assumes "parse_policy_document read kind document = Ok d"
  shows "length document \<le> 20480"
    and "pd_version d = S3_POLICY_VERSION \<or> pd_version d = S3_POLICY_LEGACY_VERSION"
    and "pd_statements d \<noteq> []" and "length (pd_statements d) \<le> 100"
    and "list_all (parsed_statement_ok kind) (pd_statements d)"
proof -
  from assms obtain svs where svs: "svs \<noteq> []" "length svs \<le> 100"
    and ss: "try_map (parse_statement kind) svs = Ok (pd_statements d)"
    and v: "pd_version d = S3_POLICY_VERSION \<or> pd_version d = S3_POLICY_LEGACY_VERSION"
    and l: "length document \<le> 20480"
    by (auto simp: parse_policy_document_def result_simps MAX_S3_POLICY_BYTES_def
        MAX_S3_POLICY_STATEMENTS_def not_less split: if_splits dest: statement_values_nonempty)
  from l v show "length document \<le> 20480"
    and "pd_version d = S3_POLICY_VERSION \<or> pd_version d = S3_POLICY_LEGACY_VERSION" by auto
  have "length (pd_statements d) = length svs"
    using ss by (auto simp: try_map_Ok_iff dest: list_all2_lengthD)
  with svs show "pd_statements d \<noteq> []" and "length (pd_statements d) \<le> 100" by auto
  have "parsed_statement_ok kind s" if "s \<in> set (pd_statements d)" for s
    using try_map_Ok_set [OF ss that] parse_statement_ok by blast
  then show "list_all (parsed_statement_ok kind) (pd_statements d)" by (simp add: list_all_iff)
qed

lemma bucket_statement_Some:
  "parsed_statement_ok (BucketKind b) s \<Longrightarrow> \<exists>t. bucket_statement s = Some t
     \<and> \<lparr>ps_sid = st_sid t, ps_effect = st_effect t, ps_principal = Some (st_principal t),
        ps_actions = st_actions t, ps_resources = st_resources t, ps_conditions = st_conditions t\<rparr> = s"
  by (cases s) (auto simp: parsed_statement_ok_def bucket_statement_def)

lemma those_bucket_statements:
  "list_all (parsed_statement_ok (BucketKind b)) ss \<Longrightarrow>
   \<exists>ts. those (map bucket_statement ss) = Some ts \<and> length ts = length ss
      \<and> map (\<lambda>t. \<lparr>ps_sid = st_sid t, ps_effect = st_effect t, ps_principal = Some (st_principal t),
           ps_actions = st_actions t, ps_resources = st_resources t, ps_conditions = st_conditions t\<rparr>) ts = ss"
proof (induction ss)
  case (Cons s ss)
  then obtain t where "bucket_statement s = Some t"
    "\<lparr>ps_sid = st_sid t, ps_effect = st_effect t, ps_principal = Some (st_principal t),
      ps_actions = st_actions t, ps_resources = st_resources t, ps_conditions = st_conditions t\<rparr> = s"
    using bucket_statement_Some by fastforce
  with Cons show ?case by auto
qed simp

section \<open>Properties\<close>

text \<open>Installing a bucket policy never panics: the \<open>expect\<close> on the principal of a parsed statement
  is always met, so \<open>S3BucketPolicy::parse\<close> returns a policy or an error for every document.\<close>

lemma bucket_policy_parse_total: "bucket_policy_parse read document target \<noteq> None"
proof (cases "parse_policy_document read (BucketKind target) document")
  case (Inr d)
  with those_bucket_statements [OF parse_policy_document_ok(5) [OF Inr]] show ?thesis
    by (auto simp: bucket_policy_parse_def)
qed (simp add: bucket_policy_parse_def)

lemma bucket_policy_parse_target:
  "bucket_policy_parse read document target = Some (Ok p) \<Longrightarrow> bp_target_bucket p = target"
  by (auto simp: bucket_policy_parse_def split: if_splits sum.splits)

text \<open>C31: an installed bucket policy is well formed. Whatever bytes are parsed, an accepted policy has
  a supported version, a valid target bucket, one to 100 statements, and in each of them valid
  principals, one to 64 distinct action patterns that each match a supported action, one to 64
  distinct resources of the target bucket, an action the statement can apply to, and at most 32
  conditions whose values have the type their operator compares.\<close>

theorem bucket_policy_parse_well_formed:
  assumes "bucket_policy_parse read document target = Some (Ok p)"
  shows "bucket_policy_ok p \<and> bp_target_bucket p = target \<and> length document \<le> 20480"
proof -
  from assms obtain d ts where t: "valid_bucket_name target"
    and d: "parse_policy_document read (BucketKind target) document = Ok d"
    and ts: "those (map bucket_statement (pd_statements d)) = Some ts"
    and p: "p = \<lparr>bp_version = pd_version d, bp_id = pd_id d, bp_target_bucket = target, bp_statements = ts\<rparr>"
    by (auto simp: bucket_policy_parse_def split: if_splits sum.splits)
  note ok = parse_policy_document_ok [OF d]
  let ?parsed = "\<lambda>t. \<lparr>ps_sid = st_sid t, ps_effect = st_effect t, ps_principal = Some (st_principal t),
        ps_actions = st_actions t, ps_resources = st_resources t, ps_conditions = st_conditions t\<rparr>"
  from those_bucket_statements [OF ok(5)] ts
  have len: "length ts = length (pd_statements d)" and undo: "map ?parsed ts = pd_statements d" by auto
  have "list_all (\<lambda>t. parsed_statement_ok (BucketKind target) (?parsed t)) ts"
    using ok(5) unfolding undo [symmetric] by (simp add: list.pred_map comp_def)
  moreover have "ts \<noteq> []" "length ts \<le> 100" using ok(3,4) len by auto
  ultimately show ?thesis
    using t ok(1,2) by (simp add: bucket_policy_ok_def p)
qed

text \<open>A tokenizer that knows one document.\<close>

definition reader_example :: json_reader where
  "reader_example document =
     (if document = ''{}'' then Some (JObject
        [(''Version'', JString ''2012-10-17''),
         (''Statement'', JObject
            [(''Effect'', JString ''Allow''), (''Principal'', JString ''*''),
             (''Action'', JString ''s3:Get*''), (''Resource'', JString ''arn:aws:s3:::photos/*'')])])
      else None)"

definition parsed_example :: s3_bucket_policy where
  "parsed_example =
     \<lparr>bp_version = ''2012-10-17'', bp_id = None, bp_target_bucket = ''photos'',
      bp_statements =
        [\<lparr>st_sid = None, st_effect = Allow, st_principal = Principal AnyPrincipal,
          st_actions = Action [''s3:Get*''], st_resources = Resource [''arn:aws:s3:::photos/*''],
          st_conditions = []\<rparr>]\<rparr>"

lemma photos_name: "valid_bucket_name ''photos''"
  using request_example_well_formed
  by (auto simp: request_is_well_formed_def request_example_def split: if_splits)

lemma reader_example_unique:
  "parse_unique_json reader_example ''{}'' = Ok (JObject
     [(''Statement'', JObject
        [(''Action'', JString ''s3:Get*''), (''Effect'', JString ''Allow''),
         (''Principal'', JString ''*''), (''Resource'', JString ''arn:aws:s3:::photos/*'')]),
      (''Version'', JString ''2012-10-17'')])"
  by (simp add: parse_unique_json_def reader_example_def unique_value.simps)

lemma get_matches: "glob_matches ''s3:Get*'' ''s3:GetObject'' True"
  unfolding glob_matches_spec
  using glob_spec_prefix [of True "chars ''s3:Get''" "chars ''Object''"] by simp

lemma parse_statement_example:
  "parse_statement (BucketKind ''photos'') (JObject
        [(''Action'', JString ''s3:Get*''), (''Effect'', JString ''Allow''),
         (''Principal'', JString ''*''), (''Resource'', JString ''arn:aws:s3:::photos/*'')])
   = Ok \<lparr>ps_sid = None, ps_effect = Allow, ps_principal = Some (Principal AnyPrincipal),
         ps_actions = Action [''s3:Get*''], ps_resources = Resource [''arn:aws:s3:::photos/*''],
         ps_conditions = []\<rparr>" (is "parse_statement _ (JObject ?m) = _")
proof -
  have get: "GetObject \<in> set S3_BUCKET_POLICY_ACTIONS" by (simp add: bucket_policy_actions)
  have a: "action_pattern_ok S3_BUCKET_POLICY_ACTIONS ''s3:Get*''"
    using get_matches get
    by (auto simp: action_pattern_ok_def eq_ignore_ascii_case_def is_ascii_alphanumeric_def
        is_ascii_digit_def is_ascii_lowercase_def is_ascii_uppercase_def to_ascii_lowercase_def
        byte_lower_def list_ex_iff intro: bexI [of _ GetObject])
  have actions: "parse_actions (BucketKind ''photos'') ?m = Ok (Action [''s3:Get*''])"
    using a by (simp add: parse_actions_def exclusive_clause_def parse_patterns_def
        parse_string_values_def pattern_ok_def MAX_S3_POLICY_ACTIONS_def MAX_S3_POLICY_STRING_BYTES_def
        char_is_control_def starts_with_def validate_action_patterns_def)
  have "bucket_resource_ok ''photos'' ''arn:aws:s3:::photos/*''"
    by (simp add: bucket_resource_ok_def strip_prefix_def starts_with_def char_is_control_def)
  then have resources: "parse_resources (BucketKind ''photos'') ?m = Ok (Resource [''arn:aws:s3:::photos/*''])"
    by (simp add: parse_resources_def exclusive_clause_def parse_patterns_def
        parse_string_values_def pattern_ok_def MAX_S3_POLICY_RESOURCES_def MAX_S3_POLICY_STRING_BYTES_def
        char_is_control_def starts_with_def validate_resources_def)
  have "filter (\<lambda>a. action_clause_matches (Action [''s3:Get*'']) a
      \<and> scope a \<in> resource_clause_scopes (Resource [''arn:aws:s3:::photos/*'']) (BucketKind ''photos''))
      S3_BUCKET_POLICY_ACTIONS \<noteq> []"
    unfolding filter_empty_conv
    using get_matches get by (intro notI) (drule bspec [of _ _ GetObject], simp_all add: pattern_scopes_def)
  then have compat: "validate_action_resource_compatibility (Action [''s3:Get*''])
      (Resource [''arn:aws:s3:::photos/*'']) (BucketKind ''photos'') = Ok ()"
    by (simp only: validate_action_resource_compatibility_def Let_def supported_actions.simps
        length_0_conv if_False)
  have "parse_effect ?m = Ok Allow" "parse_sid ?m = Ok None"
      "parse_principal_clause (BucketKind ''photos'') ?m = Ok (Some (Principal AnyPrincipal))"
      "reject_unknown_fields ?m (allowed_fields (BucketKind ''photos'')) = Ok ()"
    by (simp_all add: parse_effect_def required_string_def MAX_S3_POLICY_STRING_BYTES_def parse_sid_def
        exclusive_clause_def parse_principal_def reject_unknown_fields_def)
  with actions resources compat show ?thesis
    by (simp add: parse_statement_def object_of_def del: parse_principal_clause.simps allowed_fields.simps)
qed

lemma reader_example_parsed: "bucket_policy_parse reader_example ''{}'' ''photos'' = Some (Ok parsed_example)"
proof -
  have "parse_policy_document reader_example (BucketKind ''photos'') ''{}''
      = Ok \<lparr>pd_version = ''2012-10-17'', pd_id = None,
          pd_statements = [\<lparr>ps_sid = None, ps_effect = Allow, ps_principal = Some (Principal AnyPrincipal),
            ps_actions = Action [''s3:Get*''], ps_resources = Resource [''arn:aws:s3:::photos/*''],
            ps_conditions = []\<rparr>]\<rparr>"
    by (simp add: parse_policy_document_def reader_example_unique MAX_S3_POLICY_BYTES_def
        MAX_S3_POLICY_DEPTH_def validate_json_string_limits.simps MAX_S3_POLICY_STRING_BYTES_def
        object_of_def reject_unknown_fields_def required_string_def S3_POLICY_VERSION_def
        parse_document_id_def statement_values_def MAX_S3_POLICY_STATEMENTS_def parse_statement_example)
  then show ?thesis
    by (simp add: bucket_policy_parse_def photos_name bucket_statement_def parsed_example_def)
qed

theorem bucket_policy_parse_well_formed_witness:
  "bucket_policy_parse reader_example ''{}'' ''photos'' = Some (Ok parsed_example)
   \<and> bucket_policy_ok parsed_example"
  using bucket_policy_parse_well_formed [OF reader_example_parsed] reader_example_parsed by blast

end
