(* ===== verification/S3_Repository.thy ===== *)
theory S3_Repository
  imports Object_Version "HOL-Library.AList"
begin

text \<open>
  The commands, outcomes and request validation of the S3 persistence ports:
  \<^verbatim>\<open>crates/mediahub-app/src/s3_repository.rs\<close>, the upload records of \<^verbatim>\<open>s3_multipart.rs\<close>,
  the lifecycle commands of \<^verbatim>\<open>s3_lifecycle.rs\<close>, \<open>RepositoryError\<close> of \<^verbatim>\<open>ports.rs\<close> and
  \<open>QuotaSnapshot\<close> of \<^verbatim>\<open>memory_object_store.rs\<close>.

  An \<open>Invariant\<close> error carries a message; a message produced by \<open>error.to_string()\<close> is
  represented by the error it displays.

  A \<open>HashMap\<close> whose values are enumerated is an association list in some iteration order;
  nothing below depends on which one.
\<close>

section \<open>Hash maps\<close>

type_synonym ('k, 'v) hash_map = "('k \<times> 'v) list"

abbreviation hm_get :: "('k, 'v) hash_map \<Rightarrow> 'k \<Rightarrow> 'v option" where
  "hm_get \<equiv> map_of"

abbreviation hm_insert :: "'k \<Rightarrow> 'v \<Rightarrow> ('k, 'v) hash_map \<Rightarrow> ('k, 'v) hash_map" where
  "hm_insert \<equiv> AList.update"

abbreviation hm_values :: "('k, 'v) hash_map \<Rightarrow> 'v list" where
  "hm_values m \<equiv> map snd m"

abbreviation hm_ok :: "('k, 'v) hash_map \<Rightarrow> bool" where
  "hm_ok m \<equiv> distinct (map fst m)"

section \<open>Errors and quotas\<close>

datatype invariant_detail =
    Message str
  | ModelError s3_model_error
  | TaggingError s3_tagging_error

datatype repository_error =
    RepoNotFound
  | RepoConflict
  | RepoQuotaExceeded
  | RepoInvariant invariant_detail
  | RepoUnavailable str

text \<open>\<open>map_err(|error| RepositoryError::Invariant(error.to_string()))\<close>\<close>

definition model_invariant :: "s3_model_error + 'a \<Rightarrow> repository_error + 'a" where
  "model_invariant r = (case r of Inl e \<Rightarrow> Err (RepoInvariant (ModelError e)) | Inr a \<Rightarrow> Ok a)"

definition checked_sub :: "'a::len word \<Rightarrow> 'a word \<Rightarrow> 'a word option" where
  "checked_sub a b = (if unat b \<le> unat a then Some (a - b) else None)"

definition saturating_sub :: "'a::len word \<Rightarrow> 'a word \<Rightarrow> 'a word" where
  "saturating_sub a b = (if unat b \<le> unat a then a - b else 0)"

record quota_snapshot =
  quota_bytes :: u64
  used_bytes :: u64
  reserved_bytes :: u64

definition available_bytes :: "quota_snapshot \<Rightarrow> u64" where
  "available_bytes q = saturating_sub (saturating_sub (quota_bytes q) (used_bytes q)) (reserved_bytes q)"

section \<open>Multipart uploads\<close>

datatype s3_multipart_upload_state = MpPending | MpCompleting | MpCompleted | MpAborted

record s3_multipart_upload =
  mu_upload_id :: str
  mu_application_id :: application_id
  mu_bucket_id :: bucket_id
  mu_object_key :: str
  mu_content_type :: str
  mu_user_metadata :: json
  mu_object_tags :: s3_object_tag_set
  mu_storage_backend :: str
  mu_state :: s3_multipart_upload_state
  mu_expires_at :: timestamp
  mu_completion_lease_until :: "timestamp option"
  mu_upload_intent_id :: "upload_intent_id option"
  mu_object_id :: "object_id option"
  mu_object_version_id :: "object_version_id option"
  mu_final_etag :: "entity_tag option"
  mu_final_checksum :: "checksum option"
  mu_completed_at :: "timestamp option"
  mu_aborted_at :: "timestamp option"
  mu_created_at :: timestamp
  mu_updated_at :: timestamp

section \<open>Listing queries\<close>

definition MAX_S3_OBJECT_LIST_LIMIT :: nat where
  "MAX_S3_OBJECT_LIST_LIMIT = 1000"

record s3_object_list_query =
  lq_bucket_id :: bucket_id
  lq_prefix :: str
  lq_start_after :: "str option"
  lq_delimiter :: bool
  lq_limit :: nat

definition list_query_validate :: "s3_object_list_query \<Rightarrow> repository_error + unit" where
  "list_query_validate q =
     (if lq_limit q > MAX_S3_OBJECT_LIST_LIMIT
      then Err (RepoInvariant (Message ''S3 object page limit must not exceed 1000'')) else Ok ())"

record s3_object_list_item =
  li_key :: str
  li_version :: object_version

record s3_object_page =
  pg_items :: "s3_object_list_item list"
  pg_common_prefixes :: "str list"
  pg_next_cursor :: "str option"

section \<open>Deleting, locking and tagging objects\<close>

datatype s3_delete_lock_reason = LockLegalHold | LockComplianceRetention | LockGovernanceRetention

record delete_s3_object_command =
  dc_application_id :: application_id
  dc_bucket_id :: bucket_id
  dc_object_key :: str
  dc_version_id :: "s3_version_id option"
  dc_bypass_governance :: bool
  dc_deleted_by :: str
  dc_deleted_at :: timestamp
  dc_delete_marker_id :: object_version_id
  dc_delete_marker_version_id :: s3_version_id
  dc_gc_task_id :: storage_gc_task_id
  dc_gc_not_before :: timestamp
  dc_gc_max_attempts :: u32

record deleted_s3_object_version =
  dv_version_id :: "s3_version_id option"
  dv_delete_marker :: bool

datatype delete_s3_object_outcome =
    Deleted deleted_s3_object_version
  | DeleteNoOp
  | DeleteVersionNotFound
  | DeleteLocked s3_delete_lock_reason

datatype s3_object_lock_mutation =
    RetentionMutation object_retention bool
  | LegalHoldMutation bool

record put_s3_object_lock_command =
  lc_application_id :: application_id
  lc_bucket_id :: bucket_id
  lc_object_key :: str
  lc_version_id :: "s3_version_id option"
  lc_mutation :: s3_object_lock_mutation
  lc_updated_at :: timestamp

datatype put_s3_object_lock_outcome =
    LockUpdated object_version
  | LockObjectNotFound
  | LockVersionNotFound
  | LockDeleteMarker s3_version_id bool
  | LockNotEnabled
  | LockRetentionLocked s3_delete_lock_reason
  | LockInvalidRetention

record s3_object_tagging_command =
  tc_application_id :: application_id
  tc_bucket_id :: bucket_id
  tc_object_key :: str
  tc_version_id :: "s3_version_id option"

datatype s3_object_tagging_outcome =
    TagsFound s3_object object_version s3_object_tag_set
  | TagsObjectNotFound
  | TagsVersionNotFound
  | TagsDeleteMarker s3_version_id bool

record s3_object_version_read =
  vr_object_key :: str
  vr_version :: object_version

section \<open>Committing versions\<close>

definition MAX_UPLOAD_INTENT_EXPIRY_LIMIT :: nat where
  "MAX_UPLOAD_INTENT_EXPIRY_LIMIT = 1000"

datatype s3_object_commit_target =
    CommitCreate s3_object
  | CommitAppend object_id u64

record s3_object_version_commit =
  vc_target :: s3_object_commit_target
  vc_version :: object_version
  vc_committed_at :: timestamp
  vc_replaced_null_version_id :: "object_version_id option"
  vc_gc_tasks :: "new_storage_gc_task list"
  vc_requested_retention :: "object_retention option"
  vc_requested_legal_hold :: "bool option"

fun commit_target_consistent :: "s3_object_version_commit \<Rightarrow> s3_object_commit_target \<Rightarrow> repository_error + unit" where
  "commit_target_consistent c (CommitCreate obj) =
     (if so_generation obj \<noteq> 0 \<or> so_current_version_id obj \<noteq> None
         \<or> ov_object_id (vc_version c) \<noteq> so_id obj
         \<or> ov_application_id (vc_version c) \<noteq> so_application_id obj
         \<or> ov_bucket_id (vc_version c) \<noteq> so_bucket_id obj
         \<or> ov_generation (vc_version c) \<noteq> 1
         \<or> vc_replaced_null_version_id c \<noteq> None
      then Err (RepoInvariant (Message ''new-object version commit identity is inconsistent''))
      else Ok ())"
| "commit_target_consistent c (CommitAppend object_id expected_generation) =
     and_then (ok_or (RepoInvariant (Message ''object generation overflow''))
                 (checked_add expected_generation 1)) (\<lambda>next_generation.
       if ov_object_id (vc_version c) \<noteq> object_id \<or> ov_generation (vc_version c) \<noteq> next_generation
       then Err (RepoInvariant (Message ''append version commit generation is inconsistent''))
       else Ok ())"

fun validate_gc_tasks :: "new_storage_gc_task list \<Rightarrow> repository_error + unit" where
  "validate_gc_tasks [] = Ok ()"
| "validate_gc_tasks (t # ts) =
     and_then (model_invariant (new_gc_task_validate t)) (\<lambda>_. validate_gc_tasks ts)"

definition commit_validate :: "s3_object_version_commit \<Rightarrow> repository_error + unit" where
  "commit_validate c =
     (if ov_state (vc_version c) \<noteq> VersionCommitted
      then Err (RepoInvariant (Message ''only committed versions may enter object history''))
      else if vc_replaced_null_version_id c \<noteq> None
              \<and> (\<not> ov_is_null_version (vc_version c)
                 \<or> vc_replaced_null_version_id c = Some (ov_id (vc_version c)))
      then Err (RepoInvariant (Message
             ''only a new null version may identify the active null version it replaces''))
      else and_then (commit_target_consistent c (vc_target c)) (\<lambda>_.
             validate_gc_tasks (vc_gc_tasks c)))"

section \<open>Lifecycle commands\<close>

datatype s3_lifecycle_target =
    ExpireCurrent object_id str object_version_id timestamp
  | ExpireNoncurrent object_id str object_version_id timestamp
  | RemoveExpiredDeleteMarker object_id str object_version_id
  | AbortMultipart str str timestamp

datatype s3_lifecycle_target_identity =
    CurrentTarget object_id object_version_id
  | NoncurrentTarget object_version_id
  | DeleteMarkerTarget object_version_id
  | MultipartTarget str

fun target_identity :: "s3_lifecycle_target \<Rightarrow> s3_lifecycle_target_identity" where
  "target_identity (ExpireCurrent object_id _ version_id _) = CurrentTarget object_id version_id"
| "target_identity (ExpireNoncurrent _ _ version_id _) = NoncurrentTarget version_id"
| "target_identity (RemoveExpiredDeleteMarker _ _ version_id) = DeleteMarkerTarget version_id"
| "target_identity (AbortMultipart upload_id _ _) = MultipartTarget upload_id"

fun target_object_key :: "s3_lifecycle_target \<Rightarrow> str" where
  "target_object_key (ExpireCurrent _ key _ _) = key"
| "target_object_key (ExpireNoncurrent _ key _ _) = key"
| "target_object_key (RemoveExpiredDeleteMarker _ key _) = key"
| "target_object_key (AbortMultipart _ key _) = key"

record execute_s3_lifecycle_command =
  xc_application_id :: application_id
  xc_bucket_id :: bucket_id
  xc_expected_configuration_revision :: u64
  xc_rule :: s3_lifecycle_rule
  xc_target :: s3_lifecycle_target
  xc_evaluated_at :: timestamp
  xc_delete_marker_id :: object_version_id
  xc_delete_marker_version_id :: s3_version_id
  xc_gc_task_id :: storage_gc_task_id
  xc_gc_not_before :: timestamp
  xc_gc_max_attempts :: u32

datatype s3_lifecycle_execution_outcome =
    LcApplied | LcAlreadyApplied | LcConfigurationChanged | LcTargetChanged | LcNotEligible
  | LcLocked | LcBusy

section \<open>Lemmas\<close>

lemma model_invariant_Ok_iff [simp, result_simps]: "model_invariant r = Inr a \<longleftrightarrow> r = Inr a"
  by (cases r) (auto simp: model_invariant_def)

lemma checked_sub_code [code]: "checked_sub a b = (if b \<le> a then Some (a - b) else None)"
  by (simp add: checked_sub_def word_le_nat_alt)

lemma saturating_sub_code [code]: "saturating_sub a b = (if b \<le> a then a - b else 0)"
  by (simp add: saturating_sub_def word_le_nat_alt)

lemma checked_sub_Some_iff: "checked_sub a b = Some c \<longleftrightarrow> unat b \<le> unat a \<and> c = a - b"
  by (auto simp: checked_sub_def)

lemma unat_checked_sub: "checked_sub a b = Some c \<Longrightarrow> unat c = unat a - unat b"
  by (auto simp: checked_sub_Some_iff unat_sub word_le_nat_alt)

lemma unat_checked_add: "checked_add a b = Some c \<Longrightarrow> unat c = unat a + unat b"
  by (auto simp: checked_add_def unat_word_ariths split: if_splits)

lemma unat_saturating_sub: "unat (saturating_sub a b) = unat a - unat b"
  by (auto simp: saturating_sub_def unat_sub word_le_nat_alt)

lemma unat_available_bytes:
  "unat (available_bytes q) = unat (quota_bytes q) - unat (used_bytes q) - unat (reserved_bytes q)"
  by (simp add: available_bytes_def unat_saturating_sub)

lemma validate_gc_tasks_Ok_iff:
  "validate_gc_tasks ts = Inr u \<longleftrightarrow> list_all (\<lambda>t. new_gc_task_validate t = Inr ()) ts"
  by (induction ts) (auto simp: result_simps)

lemma hm_get_insert [simp]: "hm_get (hm_insert k v m) k' = (if k' = k then Some v else hm_get m k')"
  by (simp add: AList.update_conv')

lemma hm_ok_insert [simp]: "hm_ok m \<Longrightarrow> hm_ok (hm_insert k v m)"
  by (rule AList.distinct_update)

lemma hm_get_values: "hm_get m k = Some v \<Longrightarrow> v \<in> set (hm_values m)"
  by (force dest: map_of_SomeD)

lemma hm_values_get: "hm_ok m \<Longrightarrow> v \<in> set (hm_values m) \<longleftrightarrow> (\<exists>k. hm_get m k = Some v)"
  by (force simp: map_of_eq_Some_iff)

end
