(* ===== verification/S3_Lifecycle_Rules.thy ===== *)
theory S3_Lifecycle_Rules
  imports S3_Repository
begin

text \<open>
  The pure part of \<^verbatim>\<open>crates/mediahub-app/src/s3_lifecycle.rs\<close>: when a rule is due for a
  version, a delete marker or a multipart upload, and which scan a batch performs on a bucket.

  Timestamps are UTC instants in nanoseconds, as the service's clock supplies them, so
  \<open>now.date().midnight().assume_utc()\<close> rounds down to a whole day. \<open>checked_sub\<close> on an
  \<open>OffsetDateTime\<close> fails before the year -9999, the first instant the \<open>time\<close> crate represents.
\<close>

section \<open>Days\<close>

definition nanos_per_day :: int where
  "nanos_per_day = 86400 * nanos_per_second"

definition MIN_TIMESTAMP :: timestamp where
  "MIN_TIMESTAMP = - 377705116800 * nanos_per_second"

definition midnight :: "timestamp \<Rightarrow> timestamp" where
  "midnight now = (now div nanos_per_day) * nanos_per_day"

definition checked_sub_days :: "timestamp \<Rightarrow> u32 \<Rightarrow> timestamp option" where
  "checked_sub_days t days =
     (let r = t - int (unat days) * nanos_per_day in if r < MIN_TIMESTAMP then None else Some r)"

definition lifecycle_days_cutoff :: "timestamp \<Rightarrow> u32 \<Rightarrow> repository_error + timestamp" where
  "lifecycle_days_cutoff now days =
     (if days = 0 then Err (RepoInvariant (Message ''S3 lifecycle days must be positive''))
      else ok_or (RepoInvariant (Message ''S3 lifecycle cutoff overflow''))
             (checked_sub_days (midnight now) days))"

definition lifecycle_action_time :: "timestamp \<Rightarrow> timestamp" where
  "lifecycle_action_time now = midnight now"

section \<open>Due rules\<close>

fun lifecycle_prefix :: "s3_lifecycle_filter \<Rightarrow> str" where
  "lifecycle_prefix FilterEmpty = ''''"
| "lifecycle_prefix (FilterPrefix p) = p"

definition is_ok_and :: "'e + 'a \<Rightarrow> ('a \<Rightarrow> bool) \<Rightarrow> bool" where
  "is_ok_and r p = (case r of Inl _ \<Rightarrow> False | Inr a \<Rightarrow> p a)"

definition lifecycle_rule_is_current_due ::
  "s3_lifecycle_rule \<Rightarrow> str \<Rightarrow> timestamp \<Rightarrow> timestamp \<Rightarrow> bool" where
  "lifecycle_rule_is_current_due rule object_key created_at now =
     (if lr_status rule \<noteq> RuleEnabled \<or> \<not> starts_with object_key (lifecycle_prefix (lr_filter rule))
      then False
      else case lr_expiration rule of
             Some (ExpirationDays days) \<Rightarrow>
               is_ok_and (lifecycle_days_cutoff now days) (\<lambda>cutoff. created_at < cutoff)
           | Some (ExpirationDate date) \<Rightarrow> date \<le> now
           | _ \<Rightarrow> False)"

definition lifecycle_rule_is_noncurrent_due ::
  "s3_lifecycle_rule \<Rightarrow> str \<Rightarrow> timestamp \<Rightarrow> timestamp \<Rightarrow> bool" where
  "lifecycle_rule_is_noncurrent_due rule object_key became_noncurrent_at now \<longleftrightarrow>
     lr_status rule = RuleEnabled
     \<and> starts_with object_key (lifecycle_prefix (lr_filter rule))
     \<and> is_some_and (lr_noncurrent_version_expiration rule) (\<lambda>action.
         is_ok_and (lifecycle_days_cutoff now (noncurrent_days action))
           (\<lambda>cutoff. became_noncurrent_at < cutoff))"

definition lifecycle_rule_removes_expired_marker :: "s3_lifecycle_rule \<Rightarrow> str \<Rightarrow> bool" where
  "lifecycle_rule_removes_expired_marker rule object_key \<longleftrightarrow>
     lr_status rule = RuleEnabled
     \<and> starts_with object_key (lifecycle_prefix (lr_filter rule))
     \<and> lr_expiration rule = Some ExpiredObjectDeleteMarker"

definition lifecycle_rule_removes_expired_marker_at ::
  "s3_lifecycle_rule \<Rightarrow> str \<Rightarrow> timestamp \<Rightarrow> timestamp \<Rightarrow> bool" where
  "lifecycle_rule_removes_expired_marker_at rule object_key marker_created_at now \<longleftrightarrow>
     lifecycle_rule_removes_expired_marker rule object_key
     \<or> lifecycle_rule_is_current_due rule object_key marker_created_at now"

definition lifecycle_rule_aborts_multipart ::
  "s3_lifecycle_rule \<Rightarrow> str \<Rightarrow> timestamp \<Rightarrow> timestamp \<Rightarrow> bool" where
  "lifecycle_rule_aborts_multipart rule object_key initiated_at now \<longleftrightarrow>
     lr_status rule = RuleEnabled
     \<and> starts_with object_key (lifecycle_prefix (lr_filter rule))
     \<and> is_some_and (lr_abort_incomplete_multipart_upload rule) (\<lambda>action.
         is_ok_and (lifecycle_days_cutoff now (days_after_initiation action))
           (\<lambda>cutoff. initiated_at < cutoff))"

section \<open>Choosing the next scan\<close>

datatype s3_lifecycle_scan_action =
  ScanCurrentExpiration | ScanExpiredDeleteMarker | ScanNoncurrentExpiration | ScanMultipartAbort

definition rule_scan_actions :: "s3_lifecycle_rule \<Rightarrow> s3_lifecycle_scan_action option list" where
  "rule_scan_actions rule =
     (let (current, marker) =
        (case lr_expiration rule of
           Some (ExpirationDays _) \<Rightarrow> (Some ScanCurrentExpiration, Some ScanExpiredDeleteMarker)
         | Some (ExpirationDate _) \<Rightarrow> (Some ScanCurrentExpiration, Some ScanExpiredDeleteMarker)
         | Some ExpiredObjectDeleteMarker \<Rightarrow> (None, Some ScanExpiredDeleteMarker)
         | None \<Rightarrow> (None, None))
      in [current, marker,
          map_option (\<lambda>_. ScanNoncurrentExpiration) (lr_noncurrent_version_expiration rule),
          map_option (\<lambda>_. ScanMultipartAbort) (lr_abort_incomplete_multipart_upload rule)])"

text \<open>\<open>into_iter().flatten()\<close> over options\<close>

definition flatten_options :: "'a option list \<Rightarrow> 'a list" where
  "flatten_options xs = List.map_filter id xs"

definition rule_scan_action_count :: "s3_lifecycle_rule \<Rightarrow> nat" where
  "rule_scan_action_count rule = length (flatten_options (rule_scan_actions rule))"

fun select_in_rule ::
  "s3_lifecycle_rule \<Rightarrow> s3_lifecycle_scan_action list \<Rightarrow> nat
   \<Rightarrow> nat + s3_lifecycle_rule \<times> s3_lifecycle_scan_action" where
  "select_in_rule rule [] selected = Inl selected"
| "select_in_rule rule (action # actions) selected =
     (if selected = 0 then Inr (rule, action) else select_in_rule rule actions (selected - 1))"

fun select_in_rules ::
  "s3_lifecycle_rule list \<Rightarrow> nat \<Rightarrow> (s3_lifecycle_rule \<times> s3_lifecycle_scan_action) option" where
  "select_in_rules [] selected = None"
| "select_in_rules (rule # rules) selected =
     (case select_in_rule rule (flatten_options (rule_scan_actions rule)) selected of
        Inr hit \<Rightarrow> Some hit
      | Inl selected' \<Rightarrow> select_in_rules rules selected')"

definition select_scan_action ::
  "s3_lifecycle_rule list \<Rightarrow> nat \<Rightarrow> (s3_lifecycle_rule \<times> s3_lifecycle_scan_action) option" where
  "select_scan_action rules action_round =
     (let enabled = filter (\<lambda>rule. lr_status rule = RuleEnabled) rules;
          action_count = sum_list (map rule_scan_action_count enabled)
      in if action_count = 0 then None
         else select_in_rules enabled (action_round mod action_count))"

section \<open>Lemmas on days\<close>

lemma nanos_per_day_pos [simp]: "0 < nanos_per_day"
  by (simp add: nanos_per_day_def nanos_per_second_def)

lemma midnight_le: "midnight now \<le> now"
  by (simp add: midnight_def pos_imp_zdiv_neg_iff zdiv_mono1 minus_mod_eq_div_mult [symmetric])

lemma less_midnight_Suc: "now < midnight now + nanos_per_day"
proof -
  have "now - midnight now = now mod nanos_per_day"
    by (simp add: midnight_def minus_div_mult_eq_mod)
  moreover have "now mod nanos_per_day < nanos_per_day" by simp
  ultimately show ?thesis by linarith
qed

lemma midnight_mono: "a \<le> b \<Longrightarrow> midnight a \<le> midnight b"
  by (simp add: midnight_def zdiv_mono1 mult_right_mono)

lemma is_ok_and_iff: "is_ok_and r p \<longleftrightarrow> (\<exists>a. r = Inr a \<and> p a)"
  by (cases r) (auto simp: is_ok_and_def)

lemma lifecycle_days_cutoff_Ok_iff:
  "lifecycle_days_cutoff now days = Inr c \<longleftrightarrow>
     days \<noteq> 0 \<and> c = midnight now - int (unat days) * nanos_per_day \<and> MIN_TIMESTAMP \<le> c"
  by (auto simp: lifecycle_days_cutoff_def checked_sub_days_def Let_def)

text \<open>A version is due for a rule in days exactly when the rule's whole days have passed at midnight.\<close>

lemma current_due_days_iff:
  assumes "lr_expiration rule = Some (ExpirationDays days)"
  shows "lifecycle_rule_is_current_due rule key created now \<longleftrightarrow>
    lr_status rule = RuleEnabled \<and> starts_with key (lifecycle_prefix (lr_filter rule)) \<and> days \<noteq> 0
    \<and> MIN_TIMESTAMP \<le> midnight now - int (unat days) * nanos_per_day
    \<and> created < midnight now - int (unat days) * nanos_per_day"
  using assms
  by (auto simp: lifecycle_rule_is_current_due_def is_ok_and_iff lifecycle_days_cutoff_Ok_iff)

section \<open>Lemmas on the scan order\<close>

lemma select_in_rule_eq:
  "select_in_rule rule actions n =
     (if n < length actions then Inr (rule, actions ! n) else Inl (n - length actions))"
  by (induction rule actions n rule: select_in_rule.induct) (auto simp: nth_Cons')

definition scan_plan :: "s3_lifecycle_rule list \<Rightarrow> (s3_lifecycle_rule \<times> s3_lifecycle_scan_action) list" where
  "scan_plan rules =
     concat (map (\<lambda>rule. map (Pair rule) (flatten_options (rule_scan_actions rule)))
       (filter (\<lambda>rule. lr_status rule = RuleEnabled) rules))"

lemma select_in_rules_eq:
  "select_in_rules rules n =
     (let plan = concat (map (\<lambda>rule. map (Pair rule) (flatten_options (rule_scan_actions rule))) rules)
      in if n < length plan then Some (plan ! n) else None)"
  by (induction rules arbitrary: n) (auto simp: select_in_rule_eq Let_def nth_append)

lemma length_scan_plan:
  "length (scan_plan rules)
     = sum_list (map rule_scan_action_count (filter (\<lambda>rule. lr_status rule = RuleEnabled) rules))"
  by (simp add: scan_plan_def length_concat comp_def rule_scan_action_count_def [abs_def])

lemma select_scan_action_eq:
  "select_scan_action rules n =
     (if scan_plan rules = [] then None else Some (scan_plan rules ! (n mod length (scan_plan rules))))"
proof -
  have count: "sum_list (map rule_scan_action_count (filter (\<lambda>rule. lr_status rule = RuleEnabled) rules))
      = length (scan_plan rules)"
    by (simp add: length_scan_plan)
  show ?thesis
    unfolding select_scan_action_def Let_def count select_in_rules_eq scan_plan_def [symmetric]
    by auto
qed

lemma image_mod_window:
  assumes "0 < (m::nat)"
  shows "(\<lambda>n. n mod m) ` {r ..< r + m} = {0 ..< m}"
proof -
  have "inj_on (\<lambda>n. n mod m) {r ..< r + m}"
  proof (rule inj_onI)
    fix x y assume xy: "x \<in> {r ..< r + m}" "y \<in> {r ..< r + m}" "x mod m = y mod m"
    have "x = y" if "x \<le> y" "x \<in> {r ..< r + m}" "y \<in> {r ..< r + m}" "x mod m = y mod m" for x y
    proof -
      have "m dvd y - x" using that by (metis mod_eq_dvd_iff_nat)
      moreover have "y - x < m" using that by auto
      ultimately show ?thesis using that(1) by (auto dest: dvd_imp_le)
    qed
    with xy show "x = y" by (metis nle_le)
  qed
  then have "card ((\<lambda>n. n mod m) ` {r ..< r + m}) = m"
    by (simp add: card_image)
  moreover have "(\<lambda>n. n mod m) ` {r ..< r + m} \<subseteq> {0 ..< m}" using assms by auto
  ultimately show ?thesis by (intro card_subset_eq) auto
qed

section \<open>Properties\<close>



text \<open>The scans of a bucket are fair. In any window of as many consecutive rounds as the enabled
  rules have actions, every action of every enabled rule is scanned once; with no action nothing
  is scanned.\<close>

theorem select_scan_action_fair:
  "(\<lambda>n. select_scan_action rules n) ` {r ..< r + length (scan_plan rules)}
     = Some ` set (scan_plan rules)"
proof (cases "scan_plan rules = []")
  case True
  then show ?thesis by simp
next
  case False
  let ?m = "length (scan_plan rules)"
  have "(\<lambda>n. scan_plan rules ! (n mod ?m)) ` {r ..< r + ?m}
      = (!) (scan_plan rules) ` ((\<lambda>n. n mod ?m) ` {r ..< r + ?m})"
    by (simp add: image_image)
  also have "\<dots> = set (scan_plan rules)"
    using False by (simp add: image_mod_window) (auto simp: set_conv_nth)
  finally have "Some ` (\<lambda>n. scan_plan rules ! (n mod ?m)) ` {r ..< r + ?m} = Some ` set (scan_plan rules)"
    by (rule arg_cong)
  then show ?thesis
    using False by (simp add: select_scan_action_eq image_image)
qed

end
