(* ===== verification/Memory_S3.thy ===== *)
theory Memory_S3
  imports S3_Lifecycle_Rules
begin

text \<open>
  The in-memory S3 repository of \<^verbatim>\<open>crates/mediahub-app/src/memory_s3.rs\<close>, the executable
  reference of the persistence ports: buckets, logical objects with their version histories,
  object tags, Object Lock updates and deletion. Uploads and lifecycle execution are in the
  theories that follow.

  The state is the code's \<open>State\<close>. An operation that locks the state for writing takes it and
  returns the new one with its result, so that an error that comes after an assignment leaves the
  assignment in place, as in the code.
\<close>

section \<open>State\<close>

record repo_state =
  rs_buckets :: "s3_bucket list"
  rs_quotas :: "application_id \<rightharpoonup> quota_snapshot"
  rs_intents :: "(upload_intent_id, upload_intent) hash_map"
  rs_objects :: "(object_id, s3_object) hash_map"
  rs_versions :: "(object_id, object_version list) hash_map"
  rs_tags :: "object_version_id \<rightharpoonup> s3_object_tag_set"
  rs_superseded_versions :: "object_version_id set"
  rs_deleted_versions :: "object_version_id set"
  rs_multipart_uploads :: "(str, s3_multipart_upload) hash_map"
  rs_multipart_storage_keys :: "str \<rightharpoonup> str list"
  rs_gc_tasks :: "new_storage_gc_task list"
  rs_fail_commit :: bool

definition default_quota :: quota_snapshot where
  "default_quota = \<lparr>quota_bytes = push_bit 40 1, used_bytes = 0, reserved_bytes = 0\<rparr>"

definition repo_new :: "s3_bucket \<Rightarrow> repo_state" where
  "repo_new bucket =
     \<lparr>rs_buckets = [bucket], rs_quotas = [sb_application_id bucket \<mapsto> default_quota],
      rs_intents = [], rs_objects = [], rs_versions = [], rs_tags = Map.empty,
      rs_superseded_versions = {}, rs_deleted_versions = {}, rs_multipart_uploads = [],
      rs_multipart_storage_keys = Map.empty, rs_gc_tasks = [], rs_fail_commit = False\<rparr>"

definition set_quota_bytes :: "repo_state \<Rightarrow> application_id \<Rightarrow> u64 \<Rightarrow> repo_state \<times> (repository_error + unit)" where
  "set_quota_bytes s application_id bytes =
     (case rs_quotas s application_id of
        None \<Rightarrow> (s, Err RepoNotFound)
      | Some q \<Rightarrow>
          if saturating_add (used_bytes q) (reserved_bytes q) > bytes then (s, Err RepoQuotaExceeded)
          else (s\<lparr>rs_quotas := (rs_quotas s)(application_id \<mapsto> q\<lparr>quota_bytes := bytes\<rparr>)\<rparr>, Ok ()))"

text \<open>\<open>iter_mut().find(p)\<close> followed by an assignment through the reference.\<close>

fun assign_first :: "('a \<Rightarrow> bool) \<Rightarrow> 'a \<Rightarrow> 'a list \<Rightarrow> 'a list" where
  "assign_first p y [] = []"
| "assign_first p y (x # xs) = (if p x then y # xs else x # assign_first p y xs)"

section \<open>Buckets\<close>

definition list_s3_buckets :: "repo_state \<Rightarrow> application_id \<Rightarrow> s3_bucket list" where
  "list_s3_buckets s application_id =
     filter (\<lambda>b. sb_application_id b = application_id) (rs_buckets s)"

definition find_s3_bucket :: "repo_state \<Rightarrow> application_id \<Rightarrow> str \<Rightarrow> s3_bucket option" where
  "find_s3_bucket s application_id name =
     List.find (\<lambda>b. sb_application_id b = application_id \<and> sb_name b = name) (rs_buckets s)"

definition create_s3_bucket :: "repo_state \<Rightarrow> s3_bucket \<Rightarrow> repo_state" where
  "create_s3_bucket s bucket =
     s\<lparr>rs_quotas := (case rs_quotas s (sb_application_id bucket) of
          None \<Rightarrow> (rs_quotas s)(sb_application_id bucket \<mapsto> default_quota)
        | Some _ \<Rightarrow> rs_quotas s),
       rs_buckets := rs_buckets s @ [bucket]\<rparr>"

definition delete_s3_bucket :: "repo_state \<Rightarrow> application_id \<Rightarrow> str \<Rightarrow> repo_state \<times> bool" where
  "delete_s3_bucket s application_id name =
     (let kept = filter (\<lambda>b. sb_application_id b \<noteq> application_id \<or> sb_name b \<noteq> name) (rs_buckets s)
      in (s\<lparr>rs_buckets := kept\<rparr>, length (rs_buckets s) \<noteq> length kept))"

definition get_s3_bucket_location :: "repo_state \<Rightarrow> application_id \<Rightarrow> str \<Rightarrow> str option" where
  "get_s3_bucket_location s application_id name =
     map_option (\<lambda>b. bc_region (sb_configuration b)) (find_s3_bucket s application_id name)"

definition get_s3_bucket_configuration ::
  "repo_state \<Rightarrow> application_id \<Rightarrow> str \<Rightarrow> bucket_s3_configuration option" where
  "get_s3_bucket_configuration s application_id name =
     map_option sb_configuration (find_s3_bucket s application_id name)"

definition get_s3_bucket_versioning :: "repo_state \<Rightarrow> application_id \<Rightarrow> str \<Rightarrow> versioning_status option" where
  "get_s3_bucket_versioning s application_id name =
     map_option (\<lambda>b. bc_versioning_status (sb_configuration b)) (find_s3_bucket s application_id name)"

definition rebuild_memory_bucket ::
  "s3_bucket \<Rightarrow> bucket_s3_configuration \<Rightarrow> repository_error + s3_bucket" where
  "rebuild_memory_bucket bucket configuration =
     model_invariant (s3_bucket_from_persistence (bucket\<lparr>sb_configuration := configuration\<rparr>))"

text \<open>The common body of the three configuration mutators.\<close>

definition update_configuration ::
  "repo_state \<Rightarrow> application_id \<Rightarrow> str
   \<Rightarrow> (bucket_s3_configuration \<Rightarrow> bucket_s3_configuration \<times> (s3_model_error + bool))
   \<Rightarrow> repo_state \<times> (repository_error + bucket_s3_configuration)" where
  "update_configuration s application_id name mutate =
     (case find_s3_bucket s application_id name of
        None \<Rightarrow> (s, Err RepoNotFound)
      | Some bucket \<Rightarrow>
          (case mutate (sb_configuration bucket) of
             (configuration, result) \<Rightarrow>
               (case and_then (model_invariant result) (\<lambda>_. rebuild_memory_bucket bucket configuration) of
                  Inl e \<Rightarrow> (s, Err e)
                | Inr bucket' \<Rightarrow>
                    (s\<lparr>rs_buckets := assign_first
                         (\<lambda>b. sb_application_id b = application_id \<and> sb_name b = name)
                         bucket' (rs_buckets s)\<rparr>,
                     Ok configuration))))"

definition set_s3_bucket_versioning ::
  "repo_state \<Rightarrow> application_id \<Rightarrow> str \<Rightarrow> versioning_status \<Rightarrow> timestamp
   \<Rightarrow> repo_state \<times> (repository_error + bucket_s3_configuration)" where
  "set_s3_bucket_versioning s application_id name status updated_at =
     update_configuration s application_id name (\<lambda>c. transition_versioning c status updated_at)"

definition replace_s3_bucket_object_lock ::
  "repo_state \<Rightarrow> application_id \<Rightarrow> str \<Rightarrow> default_retention option \<Rightarrow> timestamp
   \<Rightarrow> repo_state \<times> (repository_error + bucket_s3_configuration)" where
  "replace_s3_bucket_object_lock s application_id name default_retention updated_at =
     update_configuration s application_id name
       (\<lambda>c. replace_object_lock_configuration c default_retention updated_at)"

definition replace_s3_bucket_lifecycle ::
  "repo_state \<Rightarrow> application_id \<Rightarrow> str \<Rightarrow> s3_lifecycle_configuration option \<Rightarrow> timestamp
   \<Rightarrow> repo_state \<times> (repository_error + bucket_s3_configuration)" where
  "replace_s3_bucket_lifecycle s application_id name lifecycle_configuration updated_at =
     update_configuration s application_id name
       (\<lambda>c. replace_lifecycle_configuration c lifecycle_configuration updated_at)"

definition bucket_by_id :: "repo_state \<Rightarrow> application_id \<Rightarrow> bucket_id \<Rightarrow> s3_bucket option" where
  "bucket_by_id s application_id bucket_id =
     List.find (\<lambda>b. sb_application_id b = application_id \<and> sb_id b = bucket_id) (rs_buckets s)"

section \<open>Reading objects and versions\<close>

definition versions_of :: "repo_state \<Rightarrow> object_id \<Rightarrow> object_version list" where
  "versions_of s object_id = (case hm_get (rs_versions s) object_id of None \<Rightarrow> [] | Some vs \<Rightarrow> vs)"

definition all_versions :: "repo_state \<Rightarrow> object_version list" where
  "all_versions s = concat (hm_values (rs_versions s))"

definition hidden :: "repo_state \<Rightarrow> object_version_id \<Rightarrow> bool" where
  "hidden s i \<longleftrightarrow> i \<in> rs_superseded_versions s \<or> i \<in> rs_deleted_versions s"

definition active :: "repo_state \<Rightarrow> object_version \<Rightarrow> bool" where
  "active s v \<longleftrightarrow> ov_state v = VersionCommitted \<and> \<not> hidden s (ov_id v)"

definition memory_active_versions :: "repo_state \<Rightarrow> object_id \<Rightarrow> object_version list" where
  "memory_active_versions s object_id = filter (active s) (versions_of s object_id)"

definition find_s3_object :: "repo_state \<Rightarrow> application_id \<Rightarrow> bucket_id \<Rightarrow> str \<Rightarrow> s3_object option" where
  "find_s3_object s application_id bucket_id key =
     List.find (\<lambda>obj. so_application_id obj = application_id \<and> so_bucket_id obj = bucket_id \<and> so_key obj = key)
       (hm_values (rs_objects s))"

definition find_s3_object_version :: "repo_state \<Rightarrow> object_id \<Rightarrow> s3_version_id \<Rightarrow> object_version option" where
  "find_s3_object_version s object_id version_id =
     List.find (\<lambda>v. ov_external_version_id v = version_id \<and> active s v) (versions_of s object_id)"

definition find_s3_object_version_by_id :: "repo_state \<Rightarrow> object_version_id \<Rightarrow> object_version option" where
  "find_s3_object_version_by_id s version_id =
     List.find (\<lambda>v. ov_id v = version_id) (all_versions s)"

definition find_committed_s3_object_version_for_application ::
  "repo_state \<Rightarrow> application_id \<Rightarrow> object_version_id \<Rightarrow> repository_error + s3_object_version_read option" where
  "find_committed_s3_object_version_for_application s application_id version_id =
     (case List.find (\<lambda>v. ov_id v = version_id \<and> ov_application_id v = application_id
               \<and> ov_state v = VersionCommitted \<and> \<not> is_delete_marker v) (all_versions s) of
        None \<Rightarrow> Ok None
      | Some version \<Rightarrow>
          (case hm_get (rs_objects s) (ov_object_id version) of
             None \<Rightarrow> Err (RepoInvariant (Message ''object version has no logical object''))
           | Some obj \<Rightarrow> Ok (Some \<lparr>vr_object_key = so_key obj, vr_version = version\<rparr>)))"

definition find_current_s3_object_version :: "repo_state \<Rightarrow> object_id \<Rightarrow> object_version option" where
  "find_current_s3_object_version s object_id =
     (case Option.bind (hm_get (rs_objects s) object_id) so_current_version_id of
        None \<Rightarrow> None
      | Some current_id \<Rightarrow>
          if hidden s current_id then None
          else List.find (\<lambda>v. ov_id v = current_id) (versions_of s object_id))"

definition list_s3_object_versions :: "repo_state \<Rightarrow> object_id \<Rightarrow> object_version list" where
  "list_s3_object_versions s object_id = filter (active s) (versions_of s object_id)"

section \<open>Tags\<close>

definition tags_of :: "repo_state \<Rightarrow> object_version_id \<Rightarrow> s3_object_tag_set" where
  "tags_of s version_id = (case rs_tags s version_id of None \<Rightarrow> ObjectTagSet [] | Some tags \<Rightarrow> tags)"

definition find_s3_object_version_tags ::
  "repo_state \<Rightarrow> application_id \<Rightarrow> object_version_id \<Rightarrow> s3_object_tag_set option" where
  "find_s3_object_version_tags s application_id version_id =
     (if list_ex (\<lambda>v. ov_id v = version_id \<and> ov_application_id v = application_id
             \<and> active s v \<and> \<not> is_delete_marker v) (all_versions s)
      then Some (tags_of s version_id) else None)"

definition resolve_memory_object_tagging ::
  "repo_state \<Rightarrow> s3_object_tagging_command \<Rightarrow> repository_error + s3_object_tagging_outcome" where
  "resolve_memory_object_tagging s command =
     (if bucket_by_id s (tc_application_id command) (tc_bucket_id command) = None then Err RepoNotFound
      else
        let missing = (if tc_version_id command \<noteq> None then TagsVersionNotFound else TagsObjectNotFound)
        in case find_s3_object s (tc_application_id command) (tc_bucket_id command) (tc_object_key command) of
             None \<Rightarrow> Ok missing
           | Some obj \<Rightarrow>
               (case (case tc_version_id command of
                        Some version_id \<Rightarrow>
                          List.find (\<lambda>v. ov_external_version_id v = version_id \<and> active s v)
                            (versions_of s (so_id obj))
                      | None \<Rightarrow>
                          Option.bind (so_current_version_id obj) (\<lambda>current_id.
                            List.find (\<lambda>v. ov_id v = current_id \<and> active s v)
                              (versions_of s (so_id obj)))) of
                  None \<Rightarrow> Ok missing
                | Some version \<Rightarrow>
                    if is_delete_marker version
                    then Ok (TagsDeleteMarker (ov_external_version_id version)
                               (so_current_version_id obj = Some (ov_id version)))
                    else Ok (TagsFound obj version (tags_of s (ov_id version)))))"

definition get_s3_object_tagging ::
  "repo_state \<Rightarrow> s3_object_tagging_command \<Rightarrow> repository_error + s3_object_tagging_outcome" where
  "get_s3_object_tagging s command = resolve_memory_object_tagging s command"

definition replace_s3_object_tagging ::
  "unicode_tables \<Rightarrow> repo_state \<Rightarrow> s3_object_tagging_command \<Rightarrow> s3_object_tag_set
   \<Rightarrow> repo_state \<times> (repository_error + s3_object_tagging_outcome)" where
  "replace_s3_object_tagging uc s command tags =
     (case object_tag_set_validate uc tags of
        Inl e \<Rightarrow> (s, Err (RepoInvariant (TaggingError e)))
      | Inr _ \<Rightarrow>
          (case resolve_memory_object_tagging s command of
             Inl e \<Rightarrow> (s, Err e)
           | Inr (TagsFound obj version _) \<Rightarrow>
               (s\<lparr>rs_tags := (rs_tags s)(ov_id version \<mapsto> tags)\<rparr>, Ok (TagsFound obj version tags))
           | Inr outcome \<Rightarrow> (s, Ok outcome)))"

section \<open>Building blocks of the write operations\<close>

definition delete_lock_reason_at :: "object_version \<Rightarrow> timestamp \<Rightarrow> bool \<Rightarrow> s3_delete_lock_reason option" where
  "delete_lock_reason_at version deleted_at bypass_governance =
     (if ov_legal_hold version then Some LockLegalHold
      else case ov_retention version of
             None \<Rightarrow> None
           | Some retention \<Rightarrow>
               if or_retain_until retention \<le> deleted_at then None
               else (case or_mode retention of
                       Compliance \<Rightarrow> Some LockComplianceRetention
                     | Governance \<Rightarrow> if \<not> bypass_governance then Some LockGovernanceRetention else None))"

definition delete_lock_reason :: "object_version \<Rightarrow> delete_s3_object_command \<Rightarrow> s3_delete_lock_reason option" where
  "delete_lock_reason version command =
     delete_lock_reason_at version (dc_deleted_at command) (dc_bypass_governance command)"

definition memory_object_version_size :: "object_version \<Rightarrow> u64" where
  "memory_object_version_size version =
     (case ov_payload version of PayloadObject payload \<Rightarrow> sv_size_bytes payload | DeleteMarker \<Rightarrow> 0)"

definition memory_s3_quota_after_used_release ::
  "repo_state \<Rightarrow> application_id \<Rightarrow> u64 \<Rightarrow> repository_error + quota_snapshot" where
  "memory_s3_quota_after_used_release s application_id bytes =
     and_then (ok_or RepoNotFound (rs_quotas s application_id)) (\<lambda>q.
     and_then (ok_or (RepoInvariant (Message ''memory S3 committed object quota release would underflow''))
                 (checked_sub (used_bytes q) bytes)) (\<lambda>used.
       Ok \<lparr>quota_bytes = quota_bytes q, used_bytes = used, reserved_bytes = reserved_bytes q\<rparr>))"

definition explicit_delete_gc_task ::
  "object_version \<Rightarrow> delete_s3_object_command \<Rightarrow> new_storage_gc_task option" where
  "explicit_delete_gc_task version command =
     (case ov_payload version of
        DeleteMarker \<Rightarrow> None
      | PayloadObject payload \<Rightarrow>
          Some \<lparr>gc_id = dc_gc_task_id command, gc_application_id = ov_application_id version,
                gc_bucket_id = ov_bucket_id version, gc_object_version_id = Some (ov_id version),
                gc_upload_intent_id = None, gc_multipart_upload_id = None,
                gc_storage_backend = sv_storage_backend payload,
                gc_storage_key = sv_storage_key payload, gc_reason = ExplicitDelete,
                gc_not_before = dc_gc_not_before command,
                gc_max_attempts = dc_gc_max_attempts command,
                gc_created_at = dc_deleted_at command\<rparr>)"

definition same_gc_target :: "new_storage_gc_task \<Rightarrow> new_storage_gc_task \<Rightarrow> bool" where
  "same_gc_target existing task \<longleftrightarrow>
     gc_application_id existing = gc_application_id task
     \<and> gc_bucket_id existing = gc_bucket_id task
     \<and> gc_object_version_id existing = gc_object_version_id task
     \<and> gc_upload_intent_id existing = gc_upload_intent_id task
     \<and> gc_multipart_upload_id existing = gc_multipart_upload_id task
     \<and> gc_storage_backend existing = gc_storage_backend task
     \<and> gc_storage_key existing = gc_storage_key task
     \<and> gc_reason existing = gc_reason task"

definition enqueue_memory_gc_task :: "repo_state \<Rightarrow> new_storage_gc_task \<Rightarrow> repository_error + repo_state" where
  "enqueue_memory_gc_task s task =
     and_then (model_invariant (new_gc_task_validate task)) (\<lambda>_.
       case List.find (\<lambda>existing. gc_storage_key existing = gc_storage_key task) (rs_gc_tasks s) of
         Some existing \<Rightarrow> if same_gc_target existing task then Ok s else Err RepoConflict
       | None \<Rightarrow> Ok (s\<lparr>rs_gc_tasks := rs_gc_tasks s @ [task]\<rparr>))"

text \<open>\<open>if let Some(task) = task { enqueue_memory_gc_task(state, task)?; }\<close>\<close>

definition enqueue_optional ::
  "repo_state \<Rightarrow> new_storage_gc_task option \<Rightarrow> repository_error + repo_state" where
  "enqueue_optional s task =
     (case task of None \<Rightarrow> Ok s | Some t \<Rightarrow> enqueue_memory_gc_task s t)"

definition rebuild_object_head ::
  "s3_object \<Rightarrow> object_version_id option \<Rightarrow> timestamp \<Rightarrow> repository_error + s3_object" where
  "rebuild_object_head obj current_version_id updated_at =
     model_invariant (s3_object_from_persistence
       (obj\<lparr>so_current_version_id := current_version_id, so_updated_at := updated_at\<rparr>))"

text \<open>\<open>max_by_key\<close> returns the last of the maximal elements.\<close>

fun max_by_key :: "('a \<Rightarrow> 'b::linorder) \<Rightarrow> 'a list \<Rightarrow> 'a option" where
  "max_by_key f [] = None"
| "max_by_key f (x # xs) =
     (case max_by_key f xs of
        None \<Rightarrow> Some x
      | Some y \<Rightarrow> if f y < f x then Some x else Some y)"

definition hide_version :: "repo_state \<Rightarrow> object_version \<Rightarrow> repo_state" where
  "hide_version s v =
     (if ov_is_null_version v
      then s\<lparr>rs_superseded_versions := insert (ov_id v) (rs_superseded_versions s)\<rparr>
      else s\<lparr>rs_deleted_versions := insert (ov_id v) (rs_deleted_versions s)\<rparr>)"

definition supersede_version :: "repo_state \<Rightarrow> object_version \<Rightarrow> repo_state" where
  "supersede_version s v =
     s\<lparr>rs_superseded_versions := insert (ov_id v) (rs_superseded_versions s)\<rparr>"

definition push_version :: "repo_state \<Rightarrow> object_id \<Rightarrow> object_version \<Rightarrow> repo_state" where
  "push_version s object_id v =
     s\<lparr>rs_versions := hm_insert object_id (versions_of s object_id @ [v]) (rs_versions s)\<rparr>"

definition insert_object :: "repo_state \<Rightarrow> object_id \<Rightarrow> s3_object \<Rightarrow> repo_state" where
  "insert_object s object_id obj = s\<lparr>rs_objects := hm_insert object_id obj (rs_objects s)\<rparr>"

definition insert_quota :: "repo_state \<Rightarrow> application_id \<Rightarrow> quota_snapshot \<Rightarrow> repo_state" where
  "insert_quota s application_id q = s\<lparr>rs_quotas := (rs_quotas s)(application_id \<mapsto> q)\<rparr>"

end
