(* ===== verification/Memory_S3_Delete.thy ===== *)
theory Memory_S3_Delete
  imports Memory_S3
begin

text \<open>
  \<open>delete_s3_object\<close> and \<open>put_s3_object_lock\<close> of \<^verbatim>\<open>crates/mediahub-app/src/memory_s3.rs\<close>:
  S3 delete semantics in its four cases (an exact version, and the three versioning states of the
  bucket), and retention and legal-hold updates.
\<close>

section \<open>Deletion\<close>

definition delete_exact_version ::
  "repo_state \<Rightarrow> s3_object \<Rightarrow> object_version list \<Rightarrow> delete_s3_object_command \<Rightarrow> s3_version_id
   \<Rightarrow> repo_state \<times> (repository_error + delete_s3_object_outcome)" where
  "delete_exact_version s obj active_versions command requested_version_id =
     (case List.find (\<lambda>v. ov_external_version_id v = requested_version_id) active_versions of
        None \<Rightarrow> (s, Ok DeleteVersionNotFound)
      | Some target \<Rightarrow>
          (case delete_lock_reason target command of
             Some reason \<Rightarrow> (s, Ok (DeleteLocked reason))
           | None \<Rightarrow>
               (case memory_s3_quota_after_used_release s (ov_application_id target)
                       (memory_object_version_size target) of
                  Inl e \<Rightarrow> (s, Err e)
                | Inr released_quota \<Rightarrow>
                    (case enqueue_optional s (explicit_delete_gc_task target command) of
                       Inl e \<Rightarrow> (s, Err e)
                     | Inr s1 \<Rightarrow>
                         let s2 = hide_version s1 target;
                             deleted = Deleted \<lparr>dv_version_id = Some (ov_external_version_id target),
                                               dv_delete_marker = is_delete_marker target\<rparr>
                         in if so_current_version_id obj = Some (ov_id target) then
                              (let next_current = map_option ov_id
                                     (max_by_key ov_generation
                                        (filter (\<lambda>v. ov_id v \<noteq> ov_id target) active_versions))
                               in case rebuild_object_head obj next_current (dc_deleted_at command) of
                                    Inl e \<Rightarrow> (s2, Err e)
                                  | Inr head \<Rightarrow>
                                      (insert_quota (insert_object s2 (so_id obj) head)
                                         (ov_application_id target) released_quota, Ok deleted))
                            else (insert_quota s2 (ov_application_id target) released_quota, Ok deleted)))))"

definition delete_when_enabled ::
  "repo_state \<Rightarrow> s3_object \<Rightarrow> delete_s3_object_command
   \<Rightarrow> repo_state \<times> (repository_error + delete_s3_object_outcome)" where
  "delete_when_enabled s obj command =
     (case and_then (ok_or (RepoInvariant (Message ''object generation overflow''))
                       (checked_add (so_generation obj) 1)) (\<lambda>generation.
           and_then (model_invariant (new_delete_marker (dc_delete_marker_id command) (so_id obj)
                       (dc_application_id command) (dc_bucket_id command)
                       (dc_delete_marker_version_id command) generation False
                       (dc_deleted_by command) ProtocolS3 (dc_deleted_at command))) (\<lambda>marker.
           and_then (model_invariant (advanced_to obj marker (dc_deleted_at command))) (\<lambda>advanced.
             Ok (marker, advanced)))) of
        Inl e \<Rightarrow> (s, Err e)
      | Inr (marker, advanced) \<Rightarrow>
          (insert_object (push_version s (so_id obj) marker) (so_id obj) advanced,
           Ok (Deleted \<lparr>dv_version_id = Some (dc_delete_marker_version_id command),
                        dv_delete_marker = True\<rparr>)))"

definition delete_when_suspended ::
  "repo_state \<Rightarrow> s3_object \<Rightarrow> object_version list \<Rightarrow> delete_s3_object_command
   \<Rightarrow> repo_state \<times> (repository_error + delete_s3_object_outcome)" where
  "delete_when_suspended s obj active_versions command =
     (let active_null = List.find ov_is_null_version active_versions
      in case Option.bind active_null (\<lambda>v. delete_lock_reason v command) of
           Some reason \<Rightarrow> (s, Ok (DeleteLocked reason))
         | None \<Rightarrow>
             (case and_then (case active_null of
                        None \<Rightarrow> Ok None
                      | Some v \<Rightarrow> and_then (memory_s3_quota_after_used_release s (ov_application_id v)
                                              (memory_object_version_size v)) (\<lambda>q. Ok (Some q))) (\<lambda>released_quota.
                    and_then (ok_or (RepoInvariant (Message ''object generation overflow''))
                                (checked_add (so_generation obj) 1)) (\<lambda>generation.
                    and_then (model_invariant (s3_version_id_new ''null'')) (\<lambda>null_version_id.
                    and_then (model_invariant (new_delete_marker (dc_delete_marker_id command) (so_id obj)
                                (dc_application_id command) (dc_bucket_id command)
                                null_version_id generation True
                                (dc_deleted_by command) ProtocolS3 (dc_deleted_at command))) (\<lambda>marker.
                    and_then (model_invariant (advanced_to obj marker (dc_deleted_at command))) (\<lambda>advanced.
                    and_then (enqueue_optional s
                                (Option.bind active_null (\<lambda>v. explicit_delete_gc_task v command))) (\<lambda>s1.
                      Ok (s1, released_quota, null_version_id, marker, advanced))))))) of
                Inl e \<Rightarrow> (s, Err e)
              | Inr (s1, released_quota, null_version_id, marker, advanced) \<Rightarrow>
                  let s2 = (case active_null of None \<Rightarrow> s1 | Some v \<Rightarrow> supersede_version s1 v);
                      s3 = insert_object (push_version s2 (so_id obj) marker) (so_id obj) advanced;
                      s4 = (case released_quota of
                              None \<Rightarrow> s3 | Some q \<Rightarrow> insert_quota s3 (dc_application_id command) q)
                  in (s4, Ok (Deleted \<lparr>dv_version_id = Some null_version_id, dv_delete_marker = True\<rparr>))))"

definition delete_when_unversioned ::
  "repo_state \<Rightarrow> s3_object \<Rightarrow> object_version list \<Rightarrow> delete_s3_object_command
   \<Rightarrow> repo_state \<times> (repository_error + delete_s3_object_outcome)" where
  "delete_when_unversioned s obj active_versions command =
     (case List.find ov_is_null_version active_versions of
        None \<Rightarrow> (s, Ok DeleteNoOp)
      | Some active_null \<Rightarrow>
          (case delete_lock_reason active_null command of
             Some reason \<Rightarrow> (s, Ok (DeleteLocked reason))
           | None \<Rightarrow>
               (case memory_s3_quota_after_used_release s (ov_application_id active_null)
                       (memory_object_version_size active_null) of
                  Inl e \<Rightarrow> (s, Err e)
                | Inr released_quota \<Rightarrow>
                    (case enqueue_optional s (explicit_delete_gc_task active_null command) of
                       Inl e \<Rightarrow> (s, Err e)
                     | Inr s1 \<Rightarrow>
                         let s2 = supersede_version s1 active_null
                         in case rebuild_object_head obj None (dc_deleted_at command) of
                              Inl e \<Rightarrow> (s2, Err e)
                            | Inr head \<Rightarrow>
                                (insert_quota (insert_object s2 (so_id obj) head)
                                   (ov_application_id active_null) released_quota,
                                 Ok (Deleted \<lparr>dv_version_id = None, dv_delete_marker = False\<rparr>))))))"

definition delete_s3_object ::
  "repo_state \<Rightarrow> delete_s3_object_command \<Rightarrow> repo_state \<times> (repository_error + delete_s3_object_outcome)" where
  "delete_s3_object s command =
     (if dc_deleted_by command = [] \<or> dc_gc_max_attempts command = 0
      then (s, Err (RepoInvariant (Message ''S3 delete command contains invalid audit or GC facts'')))
      else case bucket_by_id s (dc_application_id command) (dc_bucket_id command) of
             None \<Rightarrow> (s, Err RepoNotFound)
           | Some bucket \<Rightarrow>
               (case find_s3_object s (dc_application_id command) (dc_bucket_id command)
                       (dc_object_key command) of
                  None \<Rightarrow>
                    (s, Ok (if dc_version_id command \<noteq> None then DeleteVersionNotFound else DeleteNoOp))
                | Some obj \<Rightarrow>
                    let active_versions = memory_active_versions s (so_id obj)
                    in (case dc_version_id command of
                          Some requested_version_id \<Rightarrow>
                            delete_exact_version s obj active_versions command requested_version_id
                        | None \<Rightarrow>
                            (case bc_versioning_status (sb_configuration bucket) of
                               VersioningEnabled \<Rightarrow> delete_when_enabled s obj command
                             | VersioningSuspended \<Rightarrow> delete_when_suspended s obj active_versions command
                             | Unversioned \<Rightarrow> delete_when_unversioned s obj active_versions command))))"

section \<open>Object Lock updates\<close>

definition lock_mutation_result ::
  "object_version \<Rightarrow> put_s3_object_lock_command
   \<Rightarrow> (repository_error + put_s3_object_lock_outcome) + object_version" where
  "lock_mutation_result target command =
     (case lc_mutation command of
        RetentionMutation retention bypass_governance \<Rightarrow>
          (case with_retention_update target retention (lc_updated_at command) bypass_governance of
             Inr updated \<Rightarrow> Inr updated
           | Inl RetainUntilMustBeFuture \<Rightarrow> Inl (Ok LockInvalidRetention)
           | Inl ComplianceRetentionLocked \<Rightarrow> Inl (Ok (LockRetentionLocked LockComplianceRetention))
           | Inl GovernanceRetentionLocked \<Rightarrow> Inl (Ok (LockRetentionLocked LockGovernanceRetention))
           | Inl InvalidVersion \<Rightarrow> Inl (Ok LockVersionNotFound))
      | LegalHoldMutation legal_hold \<Rightarrow>
          (case with_legal_hold_update target legal_hold of
             Inr updated \<Rightarrow> Inr updated
           | Inl e \<Rightarrow> Inl (Err (RepoInvariant (ModelError e)))))"

definition lock_target_id :: "repo_state \<Rightarrow> s3_object \<Rightarrow> put_s3_object_lock_command \<Rightarrow> object_version_id option" where
  "lock_target_id s obj command =
     (case lc_version_id command of
        Some version_id \<Rightarrow>
          map_option ov_id (List.find
            (\<lambda>v. ov_external_version_id v = version_id \<and> \<not> hidden s (ov_id v))
            (versions_of s (so_id obj)))
      | None \<Rightarrow> so_current_version_id obj)"

definition put_s3_object_lock ::
  "repo_state \<Rightarrow> put_s3_object_lock_command \<Rightarrow> repo_state \<times> (repository_error + put_s3_object_lock_outcome)" where
  "put_s3_object_lock s command =
     (case bucket_by_id s (lc_application_id command) (lc_bucket_id command) of
        None \<Rightarrow> (s, Err RepoNotFound)
      | Some bucket \<Rightarrow>
          if \<not> bc_object_lock_enabled (sb_configuration bucket) then (s, Ok LockNotEnabled)
          else
            let missing = (if lc_version_id command \<noteq> None then LockVersionNotFound else LockObjectNotFound)
            in case find_s3_object s (lc_application_id command) (lc_bucket_id command)
                      (lc_object_key command) of
                 None \<Rightarrow> (s, Ok missing)
               | Some obj \<Rightarrow>
                   (case lock_target_id s obj command of
                      None \<Rightarrow> (s, Ok missing)
                    | Some target_id \<Rightarrow>
                        (case hm_get (rs_versions s) (so_id obj) of
                           None \<Rightarrow> (s, Err (RepoInvariant (Message ''logical object has no version history'')))
                         | Some versions \<Rightarrow>
                             (case List.find (\<lambda>v. ov_id v = target_id) versions of
                                None \<Rightarrow> (s, Err (RepoInvariant (Message ''object head version is missing'')))
                              | Some target \<Rightarrow>
                                  if is_delete_marker target
                                  then (s, Ok (LockDeleteMarker (ov_external_version_id target)
                                                 (so_current_version_id obj = Some (ov_id target))))
                                  else (case lock_mutation_result target command of
                                          Inl outcome \<Rightarrow> (s, outcome)
                                        | Inr updated \<Rightarrow>
                                            (s\<lparr>rs_versions := hm_insert (so_id obj)
                                                 (assign_first (\<lambda>v. ov_id v = target_id) updated versions)
                                                 (rs_versions s)\<rparr>,
                                             Ok (LockUpdated updated)))))))"

end
