(* ===== verification/Memory_S3_Upload.thy ===== *)
theory Memory_S3_Upload
  imports Memory_S3
begin

text \<open>
  Upload intents of \<^verbatim>\<open>crates/mediahub-app/src/memory_s3.rs\<close>: reservation, staging, the fenced
  lease, the atomic commit of a version, abort, expiry, and the commit of a multipart upload.

  \<open>rebuild_intent\<close> panics when the rebuilt intent is not valid; the operations that call it
  return \<open>None\<close> in that case. The ids that the code draws for new garbage-collection tasks
  are a parameter, indexed by the storage key of the task.
\<close>

section \<open>Rebuilding intents\<close>

definition rebuild_intent ::
  "unicode_tables \<Rightarrow> upload_intent \<Rightarrow> upload_intent_state \<Rightarrow> (entity_tag \<times> checksum \<times> u64) option
   \<Rightarrow> (str \<times> timestamp) option \<Rightarrow> (object_id \<times> object_version_id) option \<Rightarrow> timestamp
   \<Rightarrow> upload_intent option" where
  "rebuild_intent uc intent state facts lease committed now =
     (case intent_from_persistence uc
        (intent\<lparr>ui_state := state,
                ui_entity_tag := map_option fst facts,
                ui_checksum := map_option (fst \<circ> snd) facts,
                ui_size_bytes := map_option (snd \<circ> snd) facts,
                ui_lease_token := map_option fst lease,
                ui_lease_until := map_option snd lease,
                ui_committed_object_id := map_option fst committed,
                ui_committed_version_id := map_option snd committed,
                ui_updated_at := now\<rparr>) of
        Inl _ \<Rightarrow> None
      | Inr rebuilt \<Rightarrow> Some rebuilt)"

definition facts :: "upload_intent \<Rightarrow> (entity_tag \<times> checksum \<times> u64) option" where
  "facts intent =
     (case (ui_entity_tag intent, ui_checksum intent, ui_size_bytes intent) of
        (Some etag, Some checksum, Some size_bytes) \<Rightarrow> Some (etag, checksum, size_bytes)
      | _ \<Rightarrow> None)"

definition insert_intent :: "repo_state \<Rightarrow> upload_intent_id \<Rightarrow> upload_intent \<Rightarrow> repo_state" where
  "insert_intent s intent_id intent = s\<lparr>rs_intents := hm_insert intent_id intent (rs_intents s)\<rparr>"

section \<open>Quota transfers\<close>

definition memory_s3_quota_after_reservation_release ::
  "repo_state \<Rightarrow> upload_intent \<Rightarrow> repository_error + quota_snapshot" where
  "memory_s3_quota_after_reservation_release s intent =
     and_then (ok_or RepoNotFound (rs_quotas s (ui_application_id intent))) (\<lambda>q.
     and_then (ok_or (RepoInvariant (Message ''memory S3 upload intent reservation would underflow''))
                 (checked_sub (reserved_bytes q) (ui_expected_size_bytes intent))) (\<lambda>reserved.
       Ok \<lparr>quota_bytes = quota_bytes q, used_bytes = used_bytes q, reserved_bytes = reserved\<rparr>))"

definition memory_s3_commit_quota ::
  "repo_state \<Rightarrow> upload_intent \<Rightarrow> u64 \<Rightarrow> repository_error + quota_snapshot" where
  "memory_s3_commit_quota s intent released_used_bytes =
     and_then (ok_or RepoNotFound (rs_quotas s (ui_application_id intent))) (\<lambda>q.
     and_then (ok_or (RepoInvariant (Message ''memory S3 upload intent reservation would underflow''))
                 (checked_sub (reserved_bytes q) (ui_expected_size_bytes intent))) (\<lambda>reserved.
     and_then (ok_or (RepoInvariant (Message ''memory S3 used quota transfer would underflow''))
                 (Option.bind (checked_add (used_bytes q) (ui_expected_size_bytes intent))
                    (\<lambda>bytes. checked_sub bytes released_used_bytes))) (\<lambda>used.
       if saturating_add used reserved > quota_bytes q
       then Err (RepoInvariant (Message ''memory S3 quota transfer exceeds configured quota''))
       else Ok \<lparr>quota_bytes = quota_bytes q, used_bytes = used, reserved_bytes = reserved\<rparr>)))"

section \<open>Intent operations\<close>

definition create_upload_intent :: "repo_state \<Rightarrow> upload_intent \<Rightarrow> repo_state \<times> (repository_error + unit)" where
  "create_upload_intent s intent =
     (if hm_get (rs_intents s) (ui_id intent) \<noteq> None then (s, Err RepoConflict)
      else case rs_quotas s (ui_application_id intent) of
             None \<Rightarrow> (s, Err RepoNotFound)
           | Some q \<Rightarrow>
               if available_bytes q < ui_expected_size_bytes intent then (s, Err RepoQuotaExceeded)
               else (case checked_add (reserved_bytes q) (ui_expected_size_bytes intent) of
                       None \<Rightarrow> (s, Err (RepoInvariant (Message ''reserved quota overflow'')))
                     | Some reserved \<Rightarrow>
                         (insert_intent
                            (insert_quota s (ui_application_id intent) (q\<lparr>reserved_bytes := reserved\<rparr>))
                            (ui_id intent) intent, Ok ())))"

definition find_upload_intent :: "repo_state \<Rightarrow> upload_intent_id \<Rightarrow> upload_intent option" where
  "find_upload_intent s intent_id = hm_get (rs_intents s) intent_id"

definition complete_upload_intent_staging ::
  "unicode_tables \<Rightarrow> repo_state \<Rightarrow> upload_intent_id \<Rightarrow> entity_tag \<Rightarrow> checksum \<Rightarrow> u64 \<Rightarrow> timestamp
   \<Rightarrow> (repo_state \<times> (repository_error + upload_intent)) option" where
  "complete_upload_intent_staging uc s intent_id entity_tag checksum size_bytes now =
     (case hm_get (rs_intents s) intent_id of
        None \<Rightarrow> Some (s, Err RepoNotFound)
      | Some intent \<Rightarrow>
          if ui_state intent \<noteq> IntentStaging \<or> ui_expected_size_bytes intent \<noteq> size_bytes
          then Some (s, Err RepoConflict)
          else map_option (\<lambda>ready. (insert_intent s intent_id ready, Ok ready))
                 (rebuild_intent uc intent IntentReady (Some (entity_tag, checksum, size_bytes)) None None now))"

definition claim_upload_intent ::
  "unicode_tables \<Rightarrow> repo_state \<Rightarrow> upload_intent_id \<Rightarrow> str \<Rightarrow> timestamp \<Rightarrow> timestamp
   \<Rightarrow> (repo_state \<times> (repository_error + upload_intent)) option" where
  "claim_upload_intent uc s intent_id lease_token lease_until now =
     (case hm_get (rs_intents s) intent_id of
        None \<Rightarrow> Some (s, Err RepoNotFound)
      | Some intent \<Rightarrow>
          let claimable = (ui_state intent = IntentReady
                \<or> (ui_state intent = IntentCommitting
                    \<and> is_some_and (ui_lease_until intent) (\<lambda>until. until \<le> now)))
          in if \<not> claimable \<or> ui_expires_at intent \<le> now \<or> lease_until \<le> now
             then Some (s, Err RepoConflict)
             else map_option (\<lambda>committing. (insert_intent s intent_id committing, Ok committing))
                    (rebuild_intent uc intent IntentCommitting (facts intent)
                       (Some (lease_token, lease_until)) None now))"

definition release_upload_intent ::
  "unicode_tables \<Rightarrow> repo_state \<Rightarrow> upload_intent_id \<Rightarrow> str \<Rightarrow> timestamp
   \<Rightarrow> (repo_state \<times> (repository_error + upload_intent)) option" where
  "release_upload_intent uc s intent_id lease_token now =
     (case hm_get (rs_intents s) intent_id of
        None \<Rightarrow> Some (s, Err RepoNotFound)
      | Some intent \<Rightarrow>
          if ui_state intent \<noteq> IntentCommitting \<or> ui_lease_token intent \<noteq> Some lease_token
          then Some (s, Err RepoConflict)
          else map_option (\<lambda>ready. (insert_intent s intent_id ready, Ok ready))
                 (rebuild_intent uc intent IntentReady (facts intent) None None now))"

definition abort_upload_intent_and_enqueue_gc ::
  "unicode_tables \<Rightarrow> repo_state \<Rightarrow> upload_intent_id \<Rightarrow> new_storage_gc_task \<Rightarrow> timestamp
   \<Rightarrow> (repo_state \<times> (repository_error + upload_intent)) option" where
  "abort_upload_intent_and_enqueue_gc uc s intent_id gc_task now =
     (case hm_get (rs_intents s) intent_id of
        None \<Rightarrow> Some (s, Err RepoNotFound)
      | Some intent \<Rightarrow>
          if ui_state intent = IntentAborted \<or> ui_state intent = IntentExpired then Some (s, Ok intent)
          else if \<not> (ui_state intent = IntentStaging \<or> ui_state intent = IntentReady)
                  \<or> gc_upload_intent_id gc_task \<noteq> Some (ui_id intent)
                  \<or> gc_storage_key gc_task \<noteq> ui_temporary_storage_key intent
          then Some (s, Err RepoConflict)
          else (case memory_s3_quota_after_reservation_release s intent of
                  Inl e \<Rightarrow> Some (s, Err e)
                | Inr released_quota \<Rightarrow>
                    map_option (\<lambda>aborted.
                        (insert_quota
                           (insert_intent (s\<lparr>rs_gc_tasks := rs_gc_tasks s @ [gc_task]\<rparr>) intent_id aborted)
                           (ui_application_id intent) released_quota, Ok aborted))
                      (rebuild_intent uc intent IntentAborted (facts intent) None None now)))"

section \<open>Expiry\<close>

text \<open>\<open>Uuid\<close> values sort by their textual form, which is the order of their 128-bit values.\<close>

definition expirable :: "timestamp \<Rightarrow> upload_intent \<Rightarrow> bool" where
  "expirable now intent \<longleftrightarrow>
     ui_expires_at intent \<le> now
     \<and> (ui_state intent = IntentStaging \<or> ui_state intent = IntentReady
        \<or> (ui_state intent = IntentCommitting
           \<and> is_some_and (ui_lease_until intent) (\<lambda>until. until \<le> now)))"

definition aborted_intent_gc_task ::
  "(str \<Rightarrow> storage_gc_task_id) \<Rightarrow> upload_intent \<Rightarrow> str \<Rightarrow> timestamp \<Rightarrow> u32 \<Rightarrow> new_storage_gc_task" where
  "aborted_intent_gc_task new_id intent storage_key now max_attempts =
     \<lparr>gc_id = new_id storage_key, gc_application_id = ui_application_id intent,
      gc_bucket_id = ui_bucket_id intent, gc_object_version_id = None,
      gc_upload_intent_id = Some (ui_id intent), gc_multipart_upload_id = None,
      gc_storage_backend = ui_storage_backend intent, gc_storage_key = storage_key,
      gc_reason = AbortedUploadIntent, gc_not_before = now, gc_max_attempts = max_attempts,
      gc_created_at = now\<rparr>"

text \<open>\<open>for task in tasks { enqueue_memory_gc_task(state, task)?; }\<close>\<close>

fun enqueue_gc_tasks :: "repo_state \<Rightarrow> new_storage_gc_task list \<Rightarrow> repository_error + repo_state" where
  "enqueue_gc_tasks s [] = Ok s"
| "enqueue_gc_tasks s (t # ts) = and_then (enqueue_memory_gc_task s t) (\<lambda>s'. enqueue_gc_tasks s' ts)"

definition expire_one_intent ::
  "unicode_tables \<Rightarrow> (str \<Rightarrow> storage_gc_task_id) \<Rightarrow> timestamp \<Rightarrow> u32 \<Rightarrow> repo_state \<Rightarrow> upload_intent_id
   \<Rightarrow> (repository_error + repo_state) option" where
  "expire_one_intent uc new_id now max_attempts staged intent_id =
     (case hm_get (rs_intents staged) intent_id of
        None \<Rightarrow> Some (Err RepoConflict)
      | Some intent \<Rightarrow>
          (case and_then (memory_s3_quota_after_reservation_release staged intent) (\<lambda>released_quota.
                and_then (enqueue_gc_tasks staged
                   (map (\<lambda>key. aborted_intent_gc_task new_id intent key now max_attempts)
                      [ui_temporary_storage_key intent, ui_final_storage_key intent])) (\<lambda>s1.
                  Ok (released_quota, s1))) of
             Inl e \<Rightarrow> Some (Err e)
           | Inr (released_quota, s1) \<Rightarrow>
               map_option (\<lambda>expired.
                   Ok (insert_quota (insert_intent s1 intent_id expired)
                         (ui_application_id intent) released_quota))
                 (rebuild_intent uc intent IntentExpired (facts intent) None None now)))"

fun expire_intents_loop ::
  "unicode_tables \<Rightarrow> (str \<Rightarrow> storage_gc_task_id) \<Rightarrow> timestamp \<Rightarrow> u32 \<Rightarrow> repo_state \<Rightarrow> upload_intent_id list
   \<Rightarrow> (repository_error + repo_state) option" where
  "expire_intents_loop uc new_id now max_attempts staged [] = Some (Ok staged)"
| "expire_intents_loop uc new_id now max_attempts staged (i # is) =
     (case expire_one_intent uc new_id now max_attempts staged i of
        None \<Rightarrow> None
      | Some (Inl e) \<Rightarrow> Some (Err e)
      | Some (Inr staged') \<Rightarrow> expire_intents_loop uc new_id now max_attempts staged' is)"

definition expire_upload_intents ::
  "unicode_tables \<Rightarrow> (str \<Rightarrow> storage_gc_task_id) \<Rightarrow> repo_state \<Rightarrow> timestamp \<Rightarrow> nat \<Rightarrow> u32
   \<Rightarrow> (repo_state \<times> (repository_error + nat)) option" where
  "expire_upload_intents uc new_id s now limit max_attempts =
     (if limit = 0 \<or> limit > MAX_UPLOAD_INTENT_EXPIRY_LIMIT \<or> max_attempts = 0
      then Some (s, Err (RepoInvariant (Message ''upload intent expiry limit and GC max attempts are invalid'')))
      else
        let intent_ids = take limit (sort (map ui_id (filter (expirable now) (hm_values (rs_intents s)))))
        in case expire_intents_loop uc new_id now max_attempts s intent_ids of
             None \<Rightarrow> None
           | Some (Inl e) \<Rightarrow> Some (s, Err e)
           | Some (Inr staged) \<Rightarrow> Some (staged, Ok (length intent_ids)))"

section \<open>Committing a version\<close>

definition freeze_memory_object_lock ::
  "'d calendar \<Rightarrow> s3_bucket list \<Rightarrow> s3_object_version_commit
   \<Rightarrow> repository_error + s3_object_version_commit" where
  "freeze_memory_object_lock cal buckets commit =
     and_then (ok_or RepoNotFound
        (List.find (\<lambda>b. sb_application_id b = ov_application_id (vc_version commit)
                      \<and> sb_id b = ov_bucket_id (vc_version commit)) buckets)) (\<lambda>bucket.
       let configuration = sb_configuration bucket;
           requested = (vc_requested_retention commit \<noteq> None \<or> vc_requested_legal_hold commit \<noteq> None)
       in if requested \<and> \<not> bc_object_lock_enabled configuration then Err RepoConflict
          else
            let retention =
                  (if bc_object_lock_enabled configuration then
                     (case vc_requested_retention commit of
                        Some r \<Rightarrow> Some r
                      | None \<Rightarrow>
                          Option.bind (bc_default_retention configuration) (\<lambda>value.
                            (case for_object_at cal value (vc_committed_at commit) of
                               Inl _ \<Rightarrow> None | Inr r \<Rightarrow> Some r)))
                   else None)
            in if bc_default_retention configuration \<noteq> None \<and> bc_object_lock_enabled configuration
                  \<and> retention = None
               then Err (RepoInvariant (Message ''bucket default retention could not be resolved''))
               else and_then (model_invariant (with_initial_object_lock (vc_version commit) retention
                       (case vc_requested_legal_hold commit of None \<Rightarrow> False | Some h \<Rightarrow> h))) (\<lambda>version.
                      Ok (commit\<lparr>vc_version := version\<rparr>)))"

definition commit_fenced :: "upload_intent \<Rightarrow> str \<Rightarrow> s3_object_version_commit \<Rightarrow> bool" where
  "commit_fenced intent lease_token commit \<longleftrightarrow>
     ui_state intent = IntentCommitting
     \<and> ui_lease_token intent = Some lease_token
     \<and> ui_proposed_version_id intent = ov_id (vc_version commit)
     \<and> ui_application_id intent = ov_application_id (vc_version commit)
     \<and> ui_bucket_id intent = ov_bucket_id (vc_version commit)
     \<and> \<not> is_none_or (ui_lease_until intent) (\<lambda>lease_until. lease_until \<le> vc_committed_at commit)"

definition commit_facts_match :: "upload_intent \<Rightarrow> stored_object_version \<Rightarrow> bool" where
  "commit_facts_match intent payload \<longleftrightarrow>
     sv_storage_backend payload = ui_storage_backend intent
     \<and> sv_storage_key payload = ui_final_storage_key intent
     \<and> Some (sv_etag payload) = ui_entity_tag intent
     \<and> sv_checksum payload = ui_checksum intent
     \<and> Some (sv_size_bytes payload) = ui_size_bytes intent
     \<and> sv_size_bytes payload = ui_expected_size_bytes intent
     \<and> sv_content_type payload = ui_content_type intent
     \<and> sv_user_metadata payload = ui_user_metadata intent"

definition replacement_tasks_match ::
  "object_version option \<Rightarrow> new_storage_gc_task list \<Rightarrow> bool" where
  "replacement_tasks_match active_null gc_tasks =
     (let replacement_tasks = filter (\<lambda>t. gc_reason t = ReplacedNullVersion) gc_tasks
      in case map_option ov_payload active_null of
           None \<Rightarrow> replacement_tasks = []
         | Some DeleteMarker \<Rightarrow> replacement_tasks = []
         | Some (PayloadObject payload) \<Rightarrow>
             (case replacement_tasks of
                [t] \<Rightarrow> gc_object_version_id t = map_option ov_id active_null
                      \<and> gc_storage_backend t = sv_storage_backend payload
                      \<and> gc_storage_key t = sv_storage_key payload
              | _ \<Rightarrow> False))"

definition commit_target_object ::
  "repo_state \<Rightarrow> s3_object_version_commit \<Rightarrow> repository_error + s3_object" where
  "commit_target_object s commit =
     (case vc_target commit of
        CommitCreate obj \<Rightarrow> model_invariant (advanced_to obj (vc_version commit) (vc_committed_at commit))
      | CommitAppend object_id expected_generation \<Rightarrow>
          and_then (ok_or RepoNotFound (hm_get (rs_objects s) object_id)) (\<lambda>current.
            if so_generation current \<noteq> expected_generation then Err RepoConflict
            else model_invariant (advanced_to current (vc_version commit) (vc_committed_at commit))))"

text \<open>The checks of a commit that come before its first assignment.\<close>

definition prepare_commit ::
  "'d calendar \<Rightarrow> repo_state \<Rightarrow> upload_intent \<Rightarrow> s3_object_version_commit
   \<Rightarrow> repository_error
      + s3_object_version_commit \<times> object_version option \<times> quota_snapshot \<times> s3_object" where
  "prepare_commit cal s intent commit0 =
     and_then (freeze_memory_object_lock cal (rs_buckets s) commit0) (\<lambda>commit.
       let active_null =
             (if ov_is_null_version (vc_version commit)
              then List.find (\<lambda>v. ov_is_null_version v \<and> active s v)
                     (versions_of s (ov_object_id (vc_version commit)))
              else None)
       in if map_option ov_id active_null \<noteq> vc_replaced_null_version_id commit then Err RepoConflict
          else if \<not> replacement_tasks_match active_null (vc_gc_tasks commit) then Err RepoConflict
          else and_then (memory_s3_commit_quota s intent
                 (case active_null of None \<Rightarrow> 0 | Some v \<Rightarrow> memory_object_version_size v)) (\<lambda>committed_quota.
               and_then (commit_target_object s commit) (\<lambda>obj.
                 Ok (commit, active_null, committed_quota, obj))))"

definition apply_commit ::
  "unicode_tables \<Rightarrow> repo_state \<Rightarrow> upload_intent_id \<Rightarrow> upload_intent \<Rightarrow> s3_object_version_commit
   \<Rightarrow> object_version option \<Rightarrow> quota_snapshot \<Rightarrow> s3_object
   \<Rightarrow> (repo_state \<times> (repository_error + s3_object)) option" where
  "apply_commit uc s intent_id intent commit active_null committed_quota obj =
     (let version = vc_version commit;
          s1 = (case active_null of None \<Rightarrow> s | Some previous \<Rightarrow> supersede_version s previous);
          s2 = push_version s1 (so_id obj) version;
          s3 = s2\<lparr>rs_tags := (rs_tags s2)(ov_id version \<mapsto> ui_object_tags intent)\<rparr>;
          s4 = insert_object s3 (so_id obj) obj;
          s5 = s4\<lparr>rs_gc_tasks := rs_gc_tasks s4 @ vc_gc_tasks commit\<rparr>
      in map_option (\<lambda>committed.
             (insert_quota (insert_intent s5 intent_id committed) (ui_application_id intent) committed_quota,
              Ok obj))
           (rebuild_intent uc intent IntentCommitted (facts intent) None
              (Some (so_id obj, ov_id version)) (vc_committed_at commit)))"

definition commit_memory_upload_intent ::
  "unicode_tables \<Rightarrow> 'd calendar \<Rightarrow> repo_state \<Rightarrow> upload_intent_id \<Rightarrow> str \<Rightarrow> s3_object_version_commit
   \<Rightarrow> (repo_state \<times> (repository_error + s3_object)) option" where
  "commit_memory_upload_intent uc cal s intent_id lease_token commit =
     (case commit_validate commit of
        Inl e \<Rightarrow> Some (s, Err e)
      | Inr _ \<Rightarrow>
          (case hm_get (rs_intents s) intent_id of
             None \<Rightarrow> Some (s, Err RepoNotFound)
           | Some intent \<Rightarrow>
               if \<not> commit_fenced intent lease_token commit then Some (s, Err RepoConflict)
               else (case ov_payload (vc_version commit) of
                       DeleteMarker \<Rightarrow>
                         Some (s, Err (RepoInvariant (Message ''an upload cannot commit a delete marker'')))
                     | PayloadObject payload \<Rightarrow>
                         if \<not> commit_facts_match intent payload then Some (s, Err RepoConflict)
                         else if rs_fail_commit s
                         then Some (s\<lparr>rs_fail_commit := False\<rparr>,
                                    Err (RepoUnavailable ''injected DB commit failure''))
                         else (case prepare_commit cal s intent commit of
                                 Inl e \<Rightarrow> Some (s, Err e)
                               | Inr (frozen, active_null, committed_quota, obj) \<Rightarrow>
                                   apply_commit uc s intent_id intent frozen active_null committed_quota obj))))"

definition commit_upload_intent ::
  "unicode_tables \<Rightarrow> 'd calendar \<Rightarrow> repo_state \<Rightarrow> upload_intent_id \<Rightarrow> str \<Rightarrow> s3_object_version_commit
   \<Rightarrow> (repo_state \<times> (repository_error + s3_object)) option" where
  "commit_upload_intent uc cal s intent_id lease_token commit =
     commit_memory_upload_intent uc cal s intent_id lease_token commit"

definition complete_multipart_row ::
  "s3_multipart_upload \<Rightarrow> s3_object \<Rightarrow> s3_object_version_commit \<Rightarrow> entity_tag \<Rightarrow> checksum
   \<Rightarrow> s3_multipart_upload" where
  "complete_multipart_row upload obj commit final_entity_tag final_checksum =
     upload\<lparr>mu_state := MpCompleted, mu_completion_lease_until := None,
            mu_object_id := Some (so_id obj),
            mu_object_version_id := Some (ov_id (vc_version commit)),
            mu_final_etag := Some final_entity_tag, mu_final_checksum := Some final_checksum,
            mu_completed_at := Some (vc_committed_at commit),
            mu_updated_at := vc_committed_at commit\<rparr>"

definition commit_multipart_object_version ::
  "unicode_tables \<Rightarrow> 'd calendar \<Rightarrow> repo_state \<Rightarrow> str \<Rightarrow> str \<Rightarrow> s3_object_version_commit
   \<Rightarrow> entity_tag \<Rightarrow> checksum \<Rightarrow> (repo_state \<times> (repository_error + s3_object)) option" where
  "commit_multipart_object_version uc cal s upload_id completion_token commit final_entity_tag
     final_checksum =
     (case commit_validate commit of
        Inl e \<Rightarrow> Some (s, Err e)
      | Inr _ \<Rightarrow>
          (case ov_payload (vc_version commit) of
             DeleteMarker \<Rightarrow>
               Some (s, Err (RepoInvariant (Message ''multipart completion cannot commit a delete marker'')))
           | PayloadObject payload \<Rightarrow>
               if sv_etag payload \<noteq> final_entity_tag \<or> sv_checksum payload \<noteq> Some final_checksum
               then Some (s, Err RepoConflict)
               else (case hm_get (rs_multipart_uploads s) upload_id of
                       None \<Rightarrow> Some (s, Err RepoNotFound)
                     | Some upload \<Rightarrow>
                         if mu_state upload = MpCompleted then
                           (if mu_object_version_id upload \<noteq> Some (ov_id (vc_version commit))
                               \<or> mu_final_etag upload \<noteq> Some final_entity_tag
                               \<or> mu_final_checksum upload \<noteq> Some final_checksum
                            then Some (s, Err RepoConflict)
                            else Some (s, ok_or RepoNotFound
                                   (hm_get (rs_objects s) (ov_object_id (vc_version commit)))))
                         else (case mu_upload_intent_id upload of
                                 None \<Rightarrow> Some (s, Err RepoConflict)
                               | Some intent_id \<Rightarrow>
                                   if mu_state upload \<noteq> MpCompleting
                                      \<or> mu_application_id upload \<noteq> ov_application_id (vc_version commit)
                                      \<or> mu_bucket_id upload \<noteq> ov_bucket_id (vc_version commit)
                                   then Some (s, Err RepoConflict)
                                   else (case hm_get (rs_intents s) intent_id of
                                           None \<Rightarrow> Some (s, Err RepoNotFound)
                                         | Some intent \<Rightarrow>
                                             if mu_object_key upload \<noteq> ui_object_key intent
                                             then Some (s, Err RepoConflict)
                                             else (case commit_memory_upload_intent uc cal s intent_id
                                                          completion_token commit of
                                                     None \<Rightarrow> None
                                                   | Some (staged, Inl e) \<Rightarrow> Some (s, Err e)
                                                   | Some (staged, Inr obj) \<Rightarrow>
                                                       Some (staged\<lparr>rs_multipart_uploads :=
                                                               hm_insert upload_id
                                                                 (complete_multipart_row upload obj commit
                                                                    final_entity_tag final_checksum)
                                                                 (rs_multipart_uploads staged)\<rparr>,
                                                             Ok obj)))))))"

end
