(* ===== verification/Memory_S3_Lifecycle.thy ===== *)
theory Memory_S3_Lifecycle
  imports Memory_S3_Upload "HOL-Library.Product_Lexorder" "HOL-Library.List_Lexorder"
    "HOL-Library.Char_ord"
begin

text \<open>
  The lifecycle half of \<^verbatim>\<open>crates/mediahub-app/src/memory_s3.rs\<close>: the candidate queries and the
  fenced execution of one lifecycle command. Execution works on a copy of the state that replaces
  the state only on success, so the operations below return the new state inside the result.
\<close>

section \<open>Candidates\<close>

record s3_current_expiration_candidate =
  cc_object_id :: object_id
  cc_object_key :: str
  cc_current_version_id :: object_version_id
  cc_version_created_at :: timestamp

record s3_noncurrent_expiration_candidate =
  nc_object_id :: object_id
  nc_object_key :: str
  nc_version_id :: object_version_id
  nc_became_noncurrent_at :: timestamp

record s3_expired_delete_marker_candidate =
  mc_object_id :: object_id
  mc_object_key :: str
  mc_marker_version_id :: object_version_id

record s3_multipart_lifecycle_candidate =
  pc_upload_id :: str
  pc_object_key :: str
  pc_initiated_at :: timestamp

definition list_s3_lifecycle_buckets :: "repo_state \<Rightarrow> bucket_id option \<Rightarrow> nat \<Rightarrow> s3_bucket list" where
  "list_s3_lifecycle_buckets s after_bucket_id limit =
     take limit (sort_key sb_id
       (filter (\<lambda>b. bc_lifecycle_configuration (sb_configuration b) \<noteq> None
                   \<and> is_none_or after_bucket_id (\<lambda>after. sb_id b > after)) (rs_buckets s)))"

definition objects_in ::
  "repo_state \<Rightarrow> application_id \<Rightarrow> bucket_id \<Rightarrow> s3_object list" where
  "objects_in s application_id bucket_id =
     filter (\<lambda>obj. so_application_id obj = application_id \<and> so_bucket_id obj = bucket_id)
       (hm_values (rs_objects s))"

definition current_candidate ::
  "repo_state \<Rightarrow> timestamp option \<Rightarrow> s3_object \<Rightarrow> s3_current_expiration_candidate option" where
  "current_candidate s created_before obj =
     Option.bind (so_current_version_id obj) (\<lambda>current_id.
     Option.bind (List.find (\<lambda>v. ov_id v = current_id) (memory_active_versions s (so_id obj))) (\<lambda>version.
       if is_delete_marker version \<or> is_some_and created_before (\<lambda>cutoff. ov_created_at version \<ge> cutoff)
       then None
       else Some \<lparr>cc_object_id = so_id obj, cc_object_key = so_key obj,
                  cc_current_version_id = current_id, cc_version_created_at = ov_created_at version\<rparr>))"

definition list_s3_current_expiration_candidates ::
  "repo_state \<Rightarrow> application_id \<Rightarrow> bucket_id \<Rightarrow> str \<Rightarrow> timestamp option \<Rightarrow> timestamp \<Rightarrow> nat
   \<Rightarrow> s3_current_expiration_candidate list" where
  "list_s3_current_expiration_candidates s application_id bucket_id prefix0 created_before
     evaluated_at limit =
     take limit (sort_key (\<lambda>c. (cc_version_created_at c, cc_object_id c))
       (List.map_filter (current_candidate s created_before)
          (filter (\<lambda>obj. starts_with (so_key obj) prefix0) (objects_in s application_id bucket_id))))"

definition noncurrent_candidate ::
  "timestamp \<Rightarrow> timestamp \<Rightarrow> s3_object \<Rightarrow> object_version \<Rightarrow> s3_noncurrent_expiration_candidate option" where
  "noncurrent_candidate became_noncurrent_before evaluated_at obj version =
     Option.bind (ov_became_noncurrent_at version) (\<lambda>became_noncurrent_at.
       if so_current_version_id obj = Some (ov_id version) \<or> is_delete_marker version
          \<or> became_noncurrent_at \<ge> became_noncurrent_before
          \<or> delete_lock_reason_at version evaluated_at False \<noteq> None
       then None
       else Some \<lparr>nc_object_id = so_id obj, nc_object_key = so_key obj,
                  nc_version_id = ov_id version, nc_became_noncurrent_at = became_noncurrent_at\<rparr>)"

definition list_s3_noncurrent_expiration_candidates ::
  "repo_state \<Rightarrow> application_id \<Rightarrow> bucket_id \<Rightarrow> str \<Rightarrow> timestamp \<Rightarrow> timestamp \<Rightarrow> nat
   \<Rightarrow> s3_noncurrent_expiration_candidate list" where
  "list_s3_noncurrent_expiration_candidates s application_id bucket_id prefix0
     became_noncurrent_before evaluated_at limit =
     take limit (sort_key (\<lambda>c. (nc_became_noncurrent_at c, nc_version_id c))
       (concat (map (\<lambda>obj. List.map_filter (noncurrent_candidate became_noncurrent_before evaluated_at obj)
                           (memory_active_versions s (so_id obj)))
          (filter (\<lambda>obj. starts_with (so_key obj) prefix0) (objects_in s application_id bucket_id)))))"

definition sole_marker :: "repo_state \<Rightarrow> s3_object \<Rightarrow> object_version option" where
  "sole_marker s obj =
     Option.bind (so_current_version_id obj) (\<lambda>current_id.
       let active_versions = memory_active_versions s (so_id obj)
       in Option.bind (List.find (\<lambda>v. ov_id v = current_id \<and> is_delete_marker v) active_versions) (\<lambda>marker.
            if length active_versions = 1 then Some marker else None))"

definition marker_candidate ::
  "s3_object \<Rightarrow> object_version \<Rightarrow> s3_expired_delete_marker_candidate" where
  "marker_candidate obj marker =
     \<lparr>mc_object_id = so_id obj, mc_object_key = so_key obj, mc_marker_version_id = ov_id marker\<rparr>"

definition list_s3_expired_delete_marker_candidates ::
  "repo_state \<Rightarrow> application_id \<Rightarrow> bucket_id \<Rightarrow> str \<Rightarrow> nat \<Rightarrow> s3_expired_delete_marker_candidate list" where
  "list_s3_expired_delete_marker_candidates s application_id bucket_id prefix0 limit =
     take limit (sort_key (\<lambda>c. (mc_object_key c, mc_object_id c))
       (List.map_filter (\<lambda>obj. map_option (marker_candidate obj) (sole_marker s obj))
          (filter (\<lambda>obj. starts_with (so_key obj) prefix0) (objects_in s application_id bucket_id))))"

definition list_s3_expiration_delete_marker_candidates ::
  "repo_state \<Rightarrow> application_id \<Rightarrow> bucket_id \<Rightarrow> s3_lifecycle_rule \<Rightarrow> timestamp \<Rightarrow> nat
   \<Rightarrow> s3_expired_delete_marker_candidate list" where
  "list_s3_expiration_delete_marker_candidates s application_id bucket_id rule evaluated_at limit =
     take limit (sort_key (\<lambda>c. (mc_object_key c, mc_object_id c))
       (List.map_filter (\<lambda>obj.
            Option.bind (sole_marker s obj) (\<lambda>marker.
              if lifecycle_rule_removes_expired_marker_at rule (so_key obj) (ov_created_at marker) evaluated_at
              then Some (marker_candidate obj marker) else None))
          (objects_in s application_id bucket_id)))"

definition list_s3_multipart_lifecycle_candidates ::
  "repo_state \<Rightarrow> application_id \<Rightarrow> bucket_id \<Rightarrow> str \<Rightarrow> timestamp \<Rightarrow> timestamp \<Rightarrow> nat
   \<Rightarrow> s3_multipart_lifecycle_candidate list" where
  "list_s3_multipart_lifecycle_candidates s application_id bucket_id prefix0 initiated_before
     evaluated_at limit =
     take limit (sort_key (\<lambda>c. (pc_initiated_at c, pc_upload_id c))
       (map (\<lambda>u. \<lparr>pc_upload_id = mu_upload_id u, pc_object_key = mu_object_key u,
                  pc_initiated_at = mu_created_at u\<rparr>)
          (filter (\<lambda>u. mu_application_id u = application_id \<and> mu_bucket_id u = bucket_id
                      \<and> starts_with (mu_object_key u) prefix0 \<and> mu_created_at u < initiated_before
                      \<and> (mu_state u = MpPending \<or> mu_state u = MpCompleting)
                      \<and> (mu_state u = MpPending
                         \<or> is_some_and (mu_completion_lease_until u) (\<lambda>lease_until. lease_until \<le> evaluated_at)))
             (hm_values (rs_multipart_uploads s)))))"

section \<open>Building blocks\<close>

definition mark_memory_version_noncurrent ::
  "repo_state \<Rightarrow> object_id \<Rightarrow> object_version_id \<Rightarrow> timestamp \<Rightarrow> repository_error + repo_state" where
  "mark_memory_version_noncurrent s object_id version_id changed_at =
     and_then (ok_or RepoConflict
        (List.find (\<lambda>v. ov_id v = version_id) (versions_of s object_id))) (\<lambda>version.
     and_then (model_invariant (with_became_noncurrent_at version (Some changed_at))) (\<lambda>version'.
       Ok (s\<lparr>rs_versions := hm_insert object_id
               (assign_first (\<lambda>v. ov_id v = version_id) version' (versions_of s object_id))
               (rs_versions s)\<rparr>)))"

definition lifecycle_delete_marker ::
  "s3_object \<Rightarrow> bool \<Rightarrow> execute_s3_lifecycle_command \<Rightarrow> repository_error + object_version" where
  "lifecycle_delete_marker obj null_version command =
     and_then (ok_or (RepoInvariant (Message ''object generation overflow''))
                 (checked_add (so_generation obj) 1)) (\<lambda>generation.
     and_then (model_invariant
        (if null_version then s3_version_id_new ''null''
         else Ok (xc_delete_marker_version_id command))) (\<lambda>version_id.
       model_invariant (new_delete_marker (xc_delete_marker_id command) (so_id obj)
         (xc_application_id command) (xc_bucket_id command) version_id generation null_version
         ''lifecycle'' ProtocolS3 (lifecycle_action_time (xc_evaluated_at command)))))"

definition lifecycle_object_gc_task ::
  "object_version \<Rightarrow> execute_s3_lifecycle_command \<Rightarrow> new_storage_gc_task option" where
  "lifecycle_object_gc_task version command =
     (case ov_payload version of
        DeleteMarker \<Rightarrow> None
      | PayloadObject payload \<Rightarrow>
          Some \<lparr>gc_id = xc_gc_task_id command, gc_application_id = ov_application_id version,
                gc_bucket_id = ov_bucket_id version, gc_object_version_id = Some (ov_id version),
                gc_upload_intent_id = None, gc_multipart_upload_id = None,
                gc_storage_backend = sv_storage_backend payload,
                gc_storage_key = sv_storage_key payload, gc_reason = LifecycleExpiration,
                gc_not_before = xc_gc_not_before command,
                gc_max_attempts = xc_gc_max_attempts command,
                gc_created_at = xc_evaluated_at command\<rparr>)"

type_synonym lifecycle_result = "repository_error + repo_state \<times> s3_lifecycle_execution_outcome"

section \<open>Expiring the current version\<close>

definition expire_current_enabled ::
  "repo_state \<Rightarrow> s3_object \<Rightarrow> object_version \<Rightarrow> execute_s3_lifecycle_command \<Rightarrow> lifecycle_result" where
  "expire_current_enabled s obj target command =
     (let action_at = lifecycle_action_time (xc_evaluated_at command)
      in and_then (mark_memory_version_noncurrent s (so_id obj) (ov_id target) action_at) (\<lambda>s1.
         and_then (lifecycle_delete_marker obj False command) (\<lambda>marker.
         and_then (model_invariant (advanced_to obj marker action_at)) (\<lambda>advanced.
           Ok (insert_object (push_version s1 (so_id obj) marker) (so_id obj) advanced, LcApplied)))))"

definition expire_current_suspended ::
  "repo_state \<Rightarrow> s3_object \<Rightarrow> object_version list \<Rightarrow> object_version \<Rightarrow> execute_s3_lifecycle_command
   \<Rightarrow> lifecycle_result" where
  "expire_current_suspended s obj active_versions target command =
     (let action_at = lifecycle_action_time (xc_evaluated_at command);
          active_null = List.find ov_is_null_version active_versions
      in if is_some_and active_null (\<lambda>v. delete_lock_reason_at v (xc_evaluated_at command) False \<noteq> None)
         then Ok (s, LcLocked)
         else and_then (case active_null of
                    None \<Rightarrow> Ok None
                  | Some v \<Rightarrow> and_then (memory_s3_quota_after_used_release s (ov_application_id v)
                                          (memory_object_version_size v)) (\<lambda>q. Ok (Some q))) (\<lambda>released_quota.
              and_then (mark_memory_version_noncurrent s (so_id obj) (ov_id target) action_at) (\<lambda>s1.
              and_then (case active_null of
                    None \<Rightarrow> Ok s1
                  | Some v \<Rightarrow> and_then (enqueue_optional s1 (lifecycle_object_gc_task v command))
                                 (\<lambda>s2. Ok (supersede_version s2 v))) (\<lambda>s3.
              and_then (lifecycle_delete_marker obj True command) (\<lambda>marker.
              and_then (model_invariant (advanced_to obj marker action_at)) (\<lambda>advanced.
                let s4 = insert_object (push_version s3 (so_id obj) marker) (so_id obj) advanced
                in Ok (case released_quota of
                         None \<Rightarrow> s4 | Some q \<Rightarrow> insert_quota s4 (xc_application_id command) q,
                       LcApplied)))))))"

definition expire_current_unversioned ::
  "repo_state \<Rightarrow> s3_object \<Rightarrow> object_version \<Rightarrow> execute_s3_lifecycle_command \<Rightarrow> lifecycle_result" where
  "expire_current_unversioned s obj target command =
     (let action_at = lifecycle_action_time (xc_evaluated_at command)
      in if \<not> ov_is_null_version target then Ok (s, LcTargetChanged)
         else if delete_lock_reason_at target (xc_evaluated_at command) False \<noteq> None then Ok (s, LcLocked)
         else and_then (memory_s3_quota_after_used_release s (ov_application_id target)
                          (memory_object_version_size target)) (\<lambda>released_quota.
              and_then (mark_memory_version_noncurrent s (so_id obj) (ov_id target) action_at) (\<lambda>s1.
              and_then (enqueue_optional s1 (lifecycle_object_gc_task target command)) (\<lambda>s2.
              and_then (rebuild_object_head obj None action_at) (\<lambda>head.
                Ok (insert_quota (insert_object (supersede_version s2 target) (so_id obj) head)
                      (ov_application_id target) released_quota, LcApplied))))))"

definition execute_memory_current_expiration ::
  "repo_state \<Rightarrow> s3_bucket \<Rightarrow> object_id \<Rightarrow> str \<Rightarrow> object_version_id \<Rightarrow> timestamp
   \<Rightarrow> execute_s3_lifecycle_command \<Rightarrow> lifecycle_result" where
  "execute_memory_current_expiration s bucket object_id object_key expected_current_version_id
     expected_created_at command =
     (case hm_get (rs_objects s) object_id of
        None \<Rightarrow> Ok (s, LcAlreadyApplied)
      | Some obj \<Rightarrow>
          if so_application_id obj \<noteq> xc_application_id command
             \<or> so_bucket_id obj \<noteq> xc_bucket_id command \<or> so_key obj \<noteq> object_key
             \<or> so_current_version_id obj \<noteq> Some expected_current_version_id
          then Ok (s, LcTargetChanged)
          else
            let active_versions = memory_active_versions s object_id
            in case List.find (\<lambda>v. ov_id v = expected_current_version_id) active_versions of
                 None \<Rightarrow> Ok (s, LcTargetChanged)
               | Some target \<Rightarrow>
                   if ov_created_at target \<noteq> expected_created_at \<or> is_delete_marker target
                      \<or> \<not> lifecycle_rule_is_current_due (xc_rule command) object_key
                            (ov_created_at target) (xc_evaluated_at command)
                   then Ok (s, LcNotEligible)
                   else (case bc_versioning_status (sb_configuration bucket) of
                           VersioningEnabled \<Rightarrow> expire_current_enabled s obj target command
                         | VersioningSuspended \<Rightarrow>
                             expire_current_suspended s obj active_versions target command
                         | Unversioned \<Rightarrow> expire_current_unversioned s obj target command))"

section \<open>The other targets\<close>

definition execute_memory_noncurrent_expiration ::
  "repo_state \<Rightarrow> object_id \<Rightarrow> str \<Rightarrow> object_version_id \<Rightarrow> timestamp
   \<Rightarrow> execute_s3_lifecycle_command \<Rightarrow> lifecycle_result" where
  "execute_memory_noncurrent_expiration s object_id object_key version_id
     expected_became_noncurrent_at command =
     (case hm_get (rs_objects s) object_id of
        None \<Rightarrow> Ok (s, LcAlreadyApplied)
      | Some obj \<Rightarrow>
          if so_application_id obj \<noteq> xc_application_id command
             \<or> so_bucket_id obj \<noteq> xc_bucket_id command \<or> so_key obj \<noteq> object_key
             \<or> so_current_version_id obj = Some version_id
          then Ok (s, LcTargetChanged)
          else (case List.find (\<lambda>v. ov_id v = version_id) (memory_active_versions s object_id) of
                  None \<Rightarrow> Ok (s, LcAlreadyApplied)
                | Some version \<Rightarrow>
                    if is_delete_marker version
                       \<or> ov_became_noncurrent_at version \<noteq> Some expected_became_noncurrent_at
                       \<or> \<not> lifecycle_rule_is_noncurrent_due (xc_rule command) object_key
                             expected_became_noncurrent_at (xc_evaluated_at command)
                    then Ok (s, LcNotEligible)
                    else if delete_lock_reason_at version (xc_evaluated_at command) False \<noteq> None
                    then Ok (s, LcLocked)
                    else and_then (memory_s3_quota_after_used_release s (ov_application_id version)
                                     (memory_object_version_size version)) (\<lambda>released_quota.
                         and_then (enqueue_optional s (lifecycle_object_gc_task version command)) (\<lambda>s1.
                           Ok (insert_quota (hide_version s1 version)
                                 (ov_application_id version) released_quota, LcApplied)))))"

definition execute_memory_expired_marker ::
  "repo_state \<Rightarrow> object_id \<Rightarrow> str \<Rightarrow> object_version_id \<Rightarrow> execute_s3_lifecycle_command
   \<Rightarrow> lifecycle_result" where
  "execute_memory_expired_marker s object_id object_key marker_version_id command =
     (case hm_get (rs_objects s) object_id of
        None \<Rightarrow> Ok (s, LcAlreadyApplied)
      | Some obj \<Rightarrow>
          if so_application_id obj \<noteq> xc_application_id command
             \<or> so_bucket_id obj \<noteq> xc_bucket_id command \<or> so_key obj \<noteq> object_key
             \<or> so_current_version_id obj \<noteq> Some marker_version_id
          then Ok (s, LcTargetChanged)
          else (case memory_active_versions s object_id of
                  [marker] \<Rightarrow>
                    if ov_id marker \<noteq> marker_version_id \<or> \<not> is_delete_marker marker
                    then Ok (s, LcNotEligible)
                    else if \<not> lifecycle_rule_removes_expired_marker_at (xc_rule command) object_key
                                 (ov_created_at marker) (xc_evaluated_at command)
                    then Ok (s, LcNotEligible)
                    else and_then (rebuild_object_head obj None (xc_evaluated_at command)) (\<lambda>head.
                           Ok (insert_object (hide_version s marker) object_id head, LcApplied))
                | _ \<Rightarrow> Ok (s, LcNotEligible)))"

definition multipart_gc_task ::
  "(str \<Rightarrow> storage_gc_task_id) \<Rightarrow> s3_multipart_upload \<Rightarrow> upload_intent_id option \<Rightarrow> str
   \<Rightarrow> execute_s3_lifecycle_command \<Rightarrow> new_storage_gc_task" where
  "multipart_gc_task new_id upload intent_id storage_key command =
     \<lparr>gc_id = new_id storage_key, gc_application_id = mu_application_id upload,
      gc_bucket_id = mu_bucket_id upload, gc_object_version_id = None,
      gc_upload_intent_id = intent_id, gc_multipart_upload_id = Some (mu_upload_id upload),
      gc_storage_backend = mu_storage_backend upload, gc_storage_key = storage_key,
      gc_reason = MultipartTemporary, gc_not_before = xc_gc_not_before command,
      gc_max_attempts = xc_gc_max_attempts command, gc_created_at = xc_evaluated_at command\<rparr>"

definition abort_intent :: "unicode_tables \<Rightarrow> upload_intent \<Rightarrow> timestamp \<Rightarrow> repository_error + upload_intent" where
  "abort_intent uc intent now =
     model_invariant (intent_from_persistence uc
       (intent\<lparr>ui_state := IntentAborted, ui_lease_token := None, ui_lease_until := None,
               ui_committed_object_id := None, ui_committed_version_id := None,
               ui_updated_at := now\<rparr>))"

text \<open>
  The upload's intent, when it has one: \<open>Ok (Inl outcome)\<close> is an early return, \<open>Ok (Inr r)\<close> the
  state to go on with and the quota to write back at the end.
\<close>

definition abort_multipart_intent ::
  "unicode_tables \<Rightarrow> (str \<Rightarrow> storage_gc_task_id) \<Rightarrow> repo_state \<Rightarrow> s3_multipart_upload
   \<Rightarrow> execute_s3_lifecycle_command
   \<Rightarrow> repository_error
      + (s3_lifecycle_execution_outcome + repo_state \<times> (application_id \<times> quota_snapshot) option)" where
  "abort_multipart_intent uc new_id s upload command =
     (case mu_upload_intent_id upload of
        None \<Rightarrow> Ok (Inr (s, None))
      | Some intent_id \<Rightarrow>
          and_then (ok_or RepoConflict (hm_get (rs_intents s) intent_id)) (\<lambda>intent.
            if ui_state intent = IntentCommitted then Ok (Inl LcTargetChanged)
            else if ui_application_id intent \<noteq> mu_application_id upload
                    \<or> ui_bucket_id intent \<noteq> mu_bucket_id upload
                    \<or> ui_object_key intent \<noteq> mu_object_key upload
                    \<or> ui_storage_backend intent \<noteq> mu_storage_backend upload
            then Err RepoConflict
            else
              let release_reservation = (ui_state intent \<noteq> IntentAborted \<and> ui_state intent \<noteq> IntentExpired)
              in and_then (if release_reservation
                           then and_then (memory_s3_quota_after_reservation_release s intent)
                                  (\<lambda>q. Ok (Some (ui_application_id intent, q)))
                           else Ok None) (\<lambda>released.
                 and_then (enqueue_gc_tasks s
                    (map (\<lambda>key. multipart_gc_task new_id upload (Some (ui_id intent)) key command)
                       [ui_temporary_storage_key intent, ui_final_storage_key intent])) (\<lambda>s1.
                   if release_reservation
                   then and_then (abort_intent uc intent (xc_evaluated_at command)) (\<lambda>aborted.
                          Ok (Inr (insert_intent s1 intent_id aborted, released)))
                   else Ok (Inr (s1, released))))))"

definition aborted_multipart_row :: "s3_multipart_upload \<Rightarrow> timestamp \<Rightarrow> s3_multipart_upload" where
  "aborted_multipart_row upload now =
     upload\<lparr>mu_state := MpAborted, mu_completion_lease_until := None,
            mu_aborted_at := Some now, mu_updated_at := now\<rparr>"

definition execute_memory_multipart_abort ::
  "unicode_tables \<Rightarrow> (str \<Rightarrow> storage_gc_task_id) \<Rightarrow> repo_state \<Rightarrow> str \<Rightarrow> str \<Rightarrow> timestamp
   \<Rightarrow> execute_s3_lifecycle_command \<Rightarrow> lifecycle_result" where
  "execute_memory_multipart_abort uc new_id s upload_id object_key expected_initiated_at command =
     (case hm_get (rs_multipart_uploads s) upload_id of
        None \<Rightarrow> Ok (s, LcAlreadyApplied)
      | Some upload \<Rightarrow>
          if mu_application_id upload \<noteq> xc_application_id command
             \<or> mu_bucket_id upload \<noteq> xc_bucket_id command
             \<or> mu_object_key upload \<noteq> object_key
             \<or> mu_created_at upload \<noteq> expected_initiated_at
             \<or> \<not> lifecycle_rule_aborts_multipart (xc_rule command) object_key
                   (mu_created_at upload) (xc_evaluated_at command)
          then Ok (s, LcNotEligible)
          else if mu_state upload = MpAborted then Ok (s, LcAlreadyApplied)
          else if mu_state upload = MpCompleted then Ok (s, LcTargetChanged)
          else if mu_state upload = MpCompleting
                  \<and> is_some_and (mu_completion_lease_until upload)
                      (\<lambda>lease_until. lease_until > xc_evaluated_at command)
          then Ok (s, LcBusy)
          else and_then (abort_multipart_intent uc new_id s upload command) (\<lambda>r.
                 case r of
                   Inl outcome \<Rightarrow> Ok (s, outcome)
                 | Inr (s1, released) \<Rightarrow>
                     and_then (enqueue_gc_tasks s1
                        (map (\<lambda>key. multipart_gc_task new_id upload None key command)
                           (case rs_multipart_storage_keys s1 upload_id of None \<Rightarrow> [] | Some ks \<Rightarrow> ks))) (\<lambda>s2.
                       let s3 = s2\<lparr>rs_multipart_uploads := hm_insert upload_id
                                     (aborted_multipart_row upload (xc_evaluated_at command))
                                     (rs_multipart_uploads s2)\<rparr>
                       in Ok (case released of
                                None \<Rightarrow> s3 | Some (application_id, q) \<Rightarrow> insert_quota s3 application_id q,
                              LcApplied))))"

section \<open>Execution\<close>

definition execute_lifecycle_target ::
  "unicode_tables \<Rightarrow> (str \<Rightarrow> storage_gc_task_id) \<Rightarrow> repo_state \<Rightarrow> s3_bucket
   \<Rightarrow> execute_s3_lifecycle_command \<Rightarrow> lifecycle_result" where
  "execute_lifecycle_target uc new_id staged bucket command =
     (case xc_target command of
        ExpireCurrent object_id object_key expected_current_version_id version_created_at \<Rightarrow>
          execute_memory_current_expiration staged bucket object_id object_key
            expected_current_version_id version_created_at command
      | ExpireNoncurrent object_id object_key version_id expected_became_noncurrent_at \<Rightarrow>
          execute_memory_noncurrent_expiration staged object_id object_key version_id
            expected_became_noncurrent_at command
      | RemoveExpiredDeleteMarker object_id object_key marker_version_id \<Rightarrow>
          execute_memory_expired_marker staged object_id object_key marker_version_id command
      | AbortMultipart upload_id object_key expected_initiated_at \<Rightarrow>
          execute_memory_multipart_abort uc new_id staged upload_id object_key
            expected_initiated_at command)"

definition execute_s3_lifecycle ::
  "unicode_tables \<Rightarrow> (str \<Rightarrow> storage_gc_task_id) \<Rightarrow> repo_state \<Rightarrow> execute_s3_lifecycle_command
   \<Rightarrow> repo_state \<times> (repository_error + s3_lifecycle_execution_outcome)" where
  "execute_s3_lifecycle uc new_id s command =
     (if xc_gc_max_attempts command = 0
      then (s, Err (RepoInvariant (Message ''S3 lifecycle GC attempts must be positive'')))
      else case bucket_by_id s (xc_application_id command) (xc_bucket_id command) of
             None \<Rightarrow> (s, Ok LcConfigurationChanged)
           | Some bucket \<Rightarrow>
               if bc_revision (sb_configuration bucket) \<noteq> xc_expected_configuration_revision command
                  \<or> is_none_or (bc_lifecycle_configuration (sb_configuration bucket))
                      (\<lambda>lifecycle. xc_rule command \<notin> set (lc_rules lifecycle))
               then (s, Ok LcConfigurationChanged)
               else (case execute_lifecycle_target uc new_id s bucket command of
                       Inl e \<Rightarrow> (s, Err e)
                     | Inr (s', outcome) \<Rightarrow> (s', Ok outcome)))"

end
