(* ===== verification/Memory_S3_Accounting.thy ===== *)
theory Memory_S3_Accounting
  imports Memory_S3_Delete Memory_S3_Lifecycle "HOL-Library.Multiset"
begin

text \<open>
  The invariant of the in-memory S3 repository. Structure: version ids are unique, every version
  belongs to the object it is filed under, and the current pointer of an object names its newest
  active version. Accounting: the used bytes of an application are the sizes of its active
  versions, its reserved bytes the expected sizes of its open upload intents, and both together
  stay within its quota.

  The lemmas below say what each elementary state update does to these sums and pointers; the
  operations are compositions of such updates.
\<close>

section \<open>Sums over hash maps and lists\<close>

lemma hm_insert_split:
  assumes "hm_ok m"
  obtains (absent) "hm_get m k = None" "hm_insert k v m = m @ [(k, v)]"
  | (present) xs w ys where "hm_get m k = Some w" "m = xs @ (k, w) # ys" "k \<notin> fst ` set xs" "k \<notin> fst ` set ys"
      "hm_insert k v m = xs @ (k, v) # ys"
proof -
  have *: "(hm_get m k = None \<and> hm_insert k v m = m @ [(k, v)]) \<or>
    (\<exists>xs w ys. hm_get m k = Some w \<and> m = xs @ (k, w) # ys \<and> k \<notin> fst ` set xs \<and> k \<notin> fst ` set ys
        \<and> hm_insert k v m = xs @ (k, v) # ys)"
    using assms
  proof (induction m)
    case Nil
    then show ?case by simp
  next
    case (Cons e m)
    obtain a b where e: "e = (a, b)" by (cases e)
    show ?case
    proof (cases "a = k")
      case True
      then show ?thesis using Cons.prems e by (intro disjI2 exI [of _ "[]"]) auto
    next
      case False
      from Cons consider "hm_get m k = None" "hm_insert k v m = m @ [(k, v)]"
        | xs w ys where "hm_get m k = Some w" "m = xs @ (k, w) # ys" "k \<notin> fst ` set xs" "k \<notin> fst ` set ys"
            "hm_insert k v m = xs @ (k, v) # ys"
        by (metis distinct.simps(2) list.simps(9))
      then show ?thesis
      proof cases
        case 1
        then show ?thesis using False e by auto
      next
        case 2
        then show ?thesis using False e by (intro disjI2 exI [of _ "(a, b) # xs"] exI [of _ w] exI [of _ ys]) auto
      qed
    qed
  qed
  from * show thesis by (elim disjE exE conjE) (rule that; assumption)+
qed

lemma sum_hm_insert:
  fixes f :: "'v \<Rightarrow> nat"
  assumes "hm_ok m"
  shows "sum_list (map f (hm_values (hm_insert k v m))) + (case hm_get m k of None \<Rightarrow> 0 | Some w \<Rightarrow> f w)
       = sum_list (map f (hm_values m)) + f v"
  by (rule hm_insert_split [OF assms, of k v]) auto

lemma sum_list_remove_key:
  fixes f :: "'a \<Rightarrow> nat"
  assumes "distinct (map g xs)" and "x \<in> set xs"
  shows "sum_list (map f xs) = f x + sum_list (map (\<lambda>y. if g y = g x then 0 else f y) xs)"
  using assms
proof (induction xs)
  case Nil
  then show ?case by simp
next
  case (Cons y ys)
  show ?case
  proof (cases "y = x")
    case True
    have same: "map (\<lambda>y. if g y = g x then 0 else f y) ys = map f ys"
      using Cons.prems True by (auto simp: rev_image_eqI)
    show ?thesis unfolding True list.map(2) same by simp
  next
    case False
    then have "g y \<noteq> g x" using Cons.prems by auto
    then show ?thesis using Cons False by simp
  qed
qed

lemma sum_list_assign_first:
  fixes f :: "'a \<Rightarrow> nat"
  assumes "List.find p xs = Some x" and "f y = f x"
  shows "sum_list (map f (assign_first p y xs)) = sum_list (map f xs)"
  using assms by (induction xs) (auto split: if_splits)

lemma map_assign_first:
  assumes "List.find p xs = Some x" and "g y = g x"
  shows "map g (assign_first p y xs) = map g xs"
  using assms by (induction xs) (auto split: if_splits)

lemma set_assign_first: "set (assign_first p y xs) \<subseteq> insert y (set xs)"
  by (induction xs) auto

lemma find_Some_D: "List.find p xs = Some x \<Longrightarrow> x \<in> set xs \<and> p x"
  by (auto simp: find_Some_iff)

section \<open>Accounting\<close>

definition charged :: "repo_state \<Rightarrow> application_id \<Rightarrow> object_version \<Rightarrow> nat" where
  "charged s a v = (if active s v \<and> ov_application_id v = a then unat (memory_object_version_size v) else 0)"

definition used_total :: "repo_state \<Rightarrow> application_id \<Rightarrow> nat" where
  "used_total s a = sum_list (map (charged s a) (all_versions s))"

definition open_intent :: "upload_intent \<Rightarrow> bool" where
  "open_intent i \<longleftrightarrow> ui_state i \<in> {IntentStaging, IntentReady, IntentCommitting}"

definition reserving :: "application_id \<Rightarrow> upload_intent \<Rightarrow> nat" where
  "reserving a i = (if open_intent i \<and> ui_application_id i = a then unat (ui_expected_size_bytes i) else 0)"

definition reserved_total :: "repo_state \<Rightarrow> application_id \<Rightarrow> nat" where
  "reserved_total s a = sum_list (map (reserving a) (hm_values (rs_intents s)))"

definition account_ok :: "quota_snapshot option \<Rightarrow> nat \<Rightarrow> nat \<Rightarrow> bool" where
  "account_ok account used reserved \<longleftrightarrow>
     (case account of
        None \<Rightarrow> used = 0 \<and> reserved = 0
      | Some q \<Rightarrow> unat (used_bytes q) = used \<and> unat (reserved_bytes q) = reserved
                 \<and> used + reserved \<le> unat (quota_bytes q))"

definition quota_ok :: "repo_state \<Rightarrow> bool" where
  "quota_ok s \<longleftrightarrow> (\<forall>a. account_ok (rs_quotas s a) (used_total s a) (reserved_total s a))"

section \<open>Structure\<close>

definition version_ids :: "repo_state \<Rightarrow> object_version_id set" where
  "version_ids s = ov_id ` set (all_versions s)"

definition filed :: "repo_state \<Rightarrow> object_id \<Rightarrow> object_version \<Rightarrow> bool" where
  "filed s i v \<longleftrightarrow> ov_object_id v = i \<and>
     (\<exists>obj. hm_get (rs_objects s) i = Some obj \<and> ov_application_id v = so_application_id obj
        \<and> ov_bucket_id v = so_bucket_id obj \<and> ov_generation v \<le> so_generation obj)"

definition maps_ok :: "repo_state \<Rightarrow> bool" where
  "maps_ok s \<longleftrightarrow> hm_ok (rs_intents s) \<and> hm_ok (rs_objects s) \<and> hm_ok (rs_versions s)
     \<and> (\<forall>i obj. hm_get (rs_objects s) i = Some obj
           \<longrightarrow> so_id obj = i \<and> object_key_check (so_key obj) = Inr ())
     \<and> (\<forall>i intent. hm_get (rs_intents s) i = Some intent \<longrightarrow> ui_id intent = i)"

definition versions_ok :: "repo_state \<Rightarrow> bool" where
  "versions_ok s \<longleftrightarrow> distinct (map ov_id (all_versions s))
     \<and> rs_superseded_versions s \<union> rs_deleted_versions s \<subseteq> version_ids s
     \<and> (\<forall>i. \<forall>v \<in> set (versions_of s i). filed s i v)
     \<and> (\<forall>i. distinct (map ov_generation (versions_of s i)))"

definition newest_active :: "repo_state \<Rightarrow> object_id \<Rightarrow> object_version_id \<Rightarrow> bool" where
  "newest_active s i c \<longleftrightarrow>
     (\<exists>v \<in> set (memory_active_versions s i). ov_id v = c
        \<and> (\<forall>w \<in> set (memory_active_versions s i). ov_generation w \<le> ov_generation v))"

definition head_ok :: "repo_state \<Rightarrow> object_id \<Rightarrow> bool" where
  "head_ok s i \<longleftrightarrow> (\<forall>obj c. hm_get (rs_objects s) i = Some obj \<longrightarrow> so_current_version_id obj = Some c
     \<longrightarrow> newest_active s i c)"

definition heads_ok :: "repo_state \<Rightarrow> bool" where
  "heads_ok s \<longleftrightarrow> (\<forall>i. head_ok s i)"

definition store_ok :: "repo_state \<Rightarrow> bool" where
  "store_ok s \<longleftrightarrow> maps_ok s \<and> versions_ok s \<and> heads_ok s"

section \<open>What the elementary updates change\<close>

definition same_versions :: "repo_state \<Rightarrow> repo_state \<Rightarrow> bool" where
  "same_versions s t \<longleftrightarrow> rs_versions t = rs_versions s
     \<and> rs_superseded_versions t = rs_superseded_versions s \<and> rs_deleted_versions t = rs_deleted_versions s"

definition same_store :: "repo_state \<Rightarrow> repo_state \<Rightarrow> bool" where
  "same_store s t \<longleftrightarrow> same_versions s t \<and> rs_objects t = rs_objects s"

lemma same_versions_eqs:
  assumes "same_versions s t"
  shows "all_versions t = all_versions s" "versions_of t = versions_of s" "hidden t = hidden s"
    "active t = active s" "memory_active_versions t = memory_active_versions s"
    "version_ids t = version_ids s" "charged t = charged s" "used_total t = used_total s"
    "newest_active t = newest_active s"
proof -
  have a: "all_versions t = all_versions s" "versions_of t = versions_of s" "hidden t = hidden s"
    using assms by (auto simp: same_versions_def all_versions_def versions_of_def hidden_def fun_eq_iff)
  then have b: "active t = active s" by (simp add: active_def fun_eq_iff)
  then have c: "charged t = charged s" by (simp add: charged_def fun_eq_iff)
  from a b have d: "memory_active_versions t = memory_active_versions s"
    by (auto simp: memory_active_versions_def)
  from a b c d show "all_versions t = all_versions s" "versions_of t = versions_of s" "hidden t = hidden s"
    "active t = active s" "memory_active_versions t = memory_active_versions s"
    "version_ids t = version_ids s" "charged t = charged s" "used_total t = used_total s"
    by (auto simp: version_ids_def used_total_def)
  from d show "newest_active t = newest_active s" by (simp add: newest_active_def fun_eq_iff)
qed

lemma same_store_eqs:
  assumes "same_store s t"
  shows "filed t = filed s" "versions_ok t = versions_ok s" "head_ok t = head_ok s" "heads_ok t = heads_ok s"
proof -
  from assms have v: "same_versions s t" and o: "rs_objects t = rs_objects s"
    by (auto simp: same_store_def)
  from o show f: "filed t = filed s" by (simp add: filed_def fun_eq_iff)
  from o show h: "head_ok t = head_ok s" by (simp add: head_ok_def fun_eq_iff same_versions_eqs [OF v])
  then show "heads_ok t = heads_ok s" by (simp add: heads_ok_def)
  show "versions_ok t = versions_ok s"
    using v by (simp add: versions_ok_def f same_versions_eqs [OF v] same_versions_def)
qed

lemma enqueue_optional_Ok:
  "enqueue_optional s t = Inr s1 \<Longrightarrow> \<exists>g. s1 = s\<lparr>rs_gc_tasks := g\<rparr>"
proof -
  assume "enqueue_optional s t = Inr s1"
  then have "s1 = s \<or> (\<exists>g. s1 = s\<lparr>rs_gc_tasks := g\<rparr>)"
    by (auto simp: enqueue_optional_def enqueue_memory_gc_task_def result_simps split: option.splits if_splits)
  moreover have "s = s\<lparr>rs_gc_tasks := rs_gc_tasks s\<rparr>" by simp
  ultimately show ?thesis by metis
qed

lemma enqueue_gc_tasks_Ok:
  "enqueue_gc_tasks s ts = Inr s1 \<Longrightarrow> \<exists>g. s1 = s\<lparr>rs_gc_tasks := g\<rparr>"
proof (induction ts arbitrary: s)
  case Nil
  then have "s1 = s\<lparr>rs_gc_tasks := rs_gc_tasks s\<rparr>" by simp
  then show ?case ..
next
  case (Cons t ts)
  then obtain s2 where "enqueue_memory_gc_task s t = Inr s2" and rest: "enqueue_gc_tasks s2 ts = Inr s1"
    by (auto simp: result_simps)
  then obtain g where "s2 = s\<lparr>rs_gc_tasks := g\<rparr>"
    using enqueue_optional_Ok [of s "Some t" s2] by (auto simp: enqueue_optional_def)
  with Cons.IH [OF rest] show ?case by auto
qed

section \<open>Updates of the version lists\<close>

abbreviation set_versions :: "repo_state \<Rightarrow> object_id \<Rightarrow> object_version list \<Rightarrow> repo_state" where
  "set_versions s i vs \<equiv> s\<lparr>rs_versions := hm_insert i vs (rs_versions s)\<rparr>"

lemma versions_of_set_versions [simp]:
  "versions_of (set_versions s i vs) j = (if j = i then vs else versions_of s j)"
  by (simp add: versions_of_def)

lemma mset_all_versions_set_versions:
  assumes "hm_ok (rs_versions s)"
  shows "mset (all_versions (set_versions s i vs)) + mset (versions_of s i) = mset (all_versions s) + mset vs"
  using assms
  by (rule hm_insert_split [of _ i vs]) (auto simp: all_versions_def versions_of_def)

lemma versions_of_subset: "set (versions_of s i) \<subseteq> set (all_versions s)"
proof (cases "hm_get (rs_versions s) i")
  case (Some vs)
  then have "vs \<in> set (hm_values (rs_versions s))" by (rule hm_get_values)
  with Some show ?thesis by (auto simp: versions_of_def all_versions_def)
qed (simp add: versions_of_def)

lemma all_versions_versions_of:
  assumes "hm_ok (rs_versions s)"
  shows "set (all_versions s) = (\<Union>i. set (versions_of s i))"
proof -
  have "\<exists>i. v \<in> set (versions_of s i)" if v: "v \<in> set (all_versions s)" for v
  proof -
    from v obtain vs where "vs \<in> set (hm_values (rs_versions s))" and "v \<in> set vs"
      by (auto simp: all_versions_def)
    then obtain i where "hm_get (rs_versions s) i = Some vs"
      using hm_values_get [OF assms] by blast
    then have "versions_of s i = vs" by (simp add: versions_of_def)
    with \<open>v \<in> set vs\<close> show ?thesis by blast
  qed
  then show ?thesis by (auto dest: versions_of_subset [THEN subsetD])
qed

lemma sum_all_set_versions:
  fixes f :: "object_version \<Rightarrow> nat"
  assumes "hm_ok (rs_versions s)"
  shows "sum_list (map f (all_versions (set_versions s i vs))) + sum_list (map f (versions_of s i))
       = sum_list (map f (all_versions s)) + sum_list (map f vs)"
  using arg_cong [OF mset_all_versions_set_versions [OF assms, of i vs], of "\<lambda>m. sum_mset (image_mset f m)"]
  by (simp flip: sum_mset_sum_list)

lemma active_unhidden:
  "active s v \<longleftrightarrow> ov_state v = VersionCommitted \<and> ov_id v \<notin> rs_superseded_versions s \<and> ov_id v \<notin> rs_deleted_versions s"
  by (auto simp: active_def hidden_def)

lemma active_set_versions [simp]:
  "active (set_versions s i vs) = active s" "charged (set_versions s i vs) = charged s"
  by (simp_all add: fun_eq_iff active_def hidden_def charged_def)

section \<open>Hiding a version\<close>

definition hides :: "repo_state \<Rightarrow> repo_state \<Rightarrow> object_version_id \<Rightarrow> bool" where
  "hides s t x \<longleftrightarrow> rs_versions t = rs_versions s
     \<and> rs_superseded_versions t \<union> rs_deleted_versions t
         = insert x (rs_superseded_versions s \<union> rs_deleted_versions s)"

lemma hides_hidden: "hides s t x \<Longrightarrow> hidden t y \<longleftrightarrow> y = x \<or> hidden s y"
  by (auto simp: hides_def hidden_def set_eq_iff)

lemma hides_active: "hides s t x \<Longrightarrow> active t v \<longleftrightarrow> active s v \<and> ov_id v \<noteq> x"
  by (auto simp: active_def hides_hidden)

lemma hides_versions:
  assumes "hides s t x"
  shows "all_versions t = all_versions s" "versions_of t = versions_of s"
    "memory_active_versions t i = filter (\<lambda>v. ov_id v \<noteq> x) (memory_active_versions s i)"
proof -
  from assms have v: "rs_versions t = rs_versions s" by (simp add: hides_def)
  then show "all_versions t = all_versions s" "versions_of t = versions_of s"
    by (simp_all add: all_versions_def versions_of_def fun_eq_iff)
  then show "memory_active_versions t i = filter (\<lambda>v. ov_id v \<noteq> x) (memory_active_versions s i)"
    using hides_active [OF assms] by (auto simp: memory_active_versions_def intro: filter_cong)
qed

lemma used_total_hides:
  assumes "hides s t (ov_id v)" and "v \<in> set (all_versions s)" and "distinct (map ov_id (all_versions s))"
  shows "used_total s a = charged s a v + used_total t a"
proof -
  have "charged t a w = (if ov_id w = ov_id v then 0 else charged s a w)" for w
    by (simp add: charged_def hides_active [OF assms(1)])
  then have "used_total t a = sum_list (map (\<lambda>w. if ov_id w = ov_id v then 0 else charged s a w) (all_versions s))"
    by (simp add: used_total_def hides_versions [OF assms(1)] cong: map_cong)
  then show ?thesis
    using sum_list_remove_key [OF assms(3,2), of "charged s a"] by (simp add: used_total_def)
qed

lemma hides_hide_version: "hides s (hide_version s v) (ov_id v)"
  by (auto simp: hides_def hide_version_def)

lemma hides_supersede_version: "hides s (supersede_version s v) (ov_id v)"
  by (auto simp: hides_def supersede_version_def)

section \<open>Ids determine versions\<close>

lemma version_eqI:
  assumes "distinct (map ov_id (all_versions s))" and "v \<in> set (all_versions s)" and "w \<in> set (all_versions s)"
    and "ov_id v = ov_id w"
  shows "v = w"
  using assms by (auto simp: distinct_map dest: inj_onD)

lemma version_home:
  assumes "versions_ok s" and "v \<in> set (versions_of s i)" and "w \<in> set (versions_of s j)" and "ov_id v = ov_id w"
  shows "i = j"
proof -
  have "v = w"
    by (rule version_eqI [of s]) (use assms versions_of_subset in \<open>auto simp: versions_ok_def\<close>)
  with assms show ?thesis unfolding versions_ok_def filed_def by metis
qed

lemma memory_active_versions_subset: "set (memory_active_versions s i) \<subseteq> set (versions_of s i)"
  by (auto simp: memory_active_versions_def)

lemma hides_other_object:
  assumes "hides s t (ov_id v)" and "versions_ok s" and "v \<in> set (versions_of s i)" and "j \<noteq> i"
  shows "memory_active_versions t j = memory_active_versions s j"
proof -
  have "ov_id w \<noteq> ov_id v" if "w \<in> set (memory_active_versions s j)" for w
    using that assms version_home [of s v i w j] memory_active_versions_subset by fastforce
  then show ?thesis by (auto simp: hides_versions [OF assms(1)] filter_id_conv)
qed

lemma head_ok_other:
  assumes "head_ok s j" and "hm_get (rs_objects t) j = hm_get (rs_objects s) j"
    and "memory_active_versions t j = memory_active_versions s j"
  shows "head_ok t j"
  using assms by (simp add: head_ok_def newest_active_def)

lemma versions_ok_hides:
  assumes "versions_ok s" and "hides s t (ov_id v)" and "v \<in> set (versions_of s i)"
    and "rs_objects t = rs_objects s"
  shows "versions_ok t"
proof -
  have "ov_id v \<in> version_ids s"
    using assms(3) versions_of_subset by (auto simp: version_ids_def)
  then show ?thesis
    using assms by (auto simp: versions_ok_def hides_versions version_ids_def filed_def hides_def)
qed

section \<open>Replacing the object record\<close>

lemma same_versions_insert_object: "same_versions s (insert_object s i obj)"
  by (simp add: same_versions_def insert_object_def)

lemmas insert_object_eqs [simp] = same_versions_eqs [OF same_versions_insert_object]

lemma rs_objects_insert_object [simp]: "rs_objects (insert_object s i obj) = hm_insert i obj (rs_objects s)"
  by (simp add: insert_object_def)

lemma versions_ok_insert_object:
  assumes "versions_ok s"
    and "\<And>old. hm_get (rs_objects s) i = Some old \<Longrightarrow> so_application_id obj = so_application_id old
           \<and> so_bucket_id obj = so_bucket_id old \<and> so_generation old \<le> so_generation obj"
  shows "versions_ok (insert_object s i obj)"
proof -
  have "filed (insert_object s i obj) j v" if "filed s j v" for j v
    using that assms(2) by (auto simp: filed_def)
  then show ?thesis using assms(1) by (auto simp: versions_ok_def) (auto simp: insert_object_def)
qed

section \<open>Appending a version\<close>

lemma push_version_eq: "push_version s i v = set_versions s i (versions_of s i @ [v])"
  by (simp add: push_version_def)

lemma used_total_push:
  assumes "hm_ok (rs_versions s)"
  shows "used_total (push_version s i v) a = used_total s a + charged s a v"
  using sum_all_set_versions [OF assms, of "charged s a" i "versions_of s i @ [v]"]
  by (simp add: used_total_def push_version_eq)

text \<open>The version that becomes current, pushed to the history of its object.\<close>

definition appendable :: "repo_state \<Rightarrow> object_version \<Rightarrow> s3_object \<Rightarrow> bool" where
  "appendable s v obj \<longleftrightarrow>
     ov_id v \<notin> version_ids s \<and> ov_state v = VersionCommitted
     \<and> ov_object_id v = so_id obj \<and> ov_application_id v = so_application_id obj
     \<and> ov_bucket_id v = so_bucket_id obj \<and> ov_generation v = so_generation obj
     \<and> so_current_version_id obj = Some (ov_id v)
     \<and> (\<forall>old. hm_get (rs_objects s) (so_id obj) = Some old \<longrightarrow>
          so_application_id obj = so_application_id old \<and> so_bucket_id obj = so_bucket_id old
          \<and> so_generation old < so_generation obj)"

abbreviation append_version :: "repo_state \<Rightarrow> object_version \<Rightarrow> s3_object \<Rightarrow> repo_state" where
  "append_version s v obj \<equiv> insert_object (push_version s (so_id obj) v) (so_id obj) obj"

lemma filed_append:
  assumes "appendable s v obj" and "filed s j w"
  shows "filed (append_version s v obj) j w"
  using assms by (auto simp: filed_def appendable_def push_version_def)

lemma older_generation:
  assumes "appendable s v obj" and "versions_ok s" and "w \<in> set (versions_of s (so_id obj))"
  shows "ov_generation w < ov_generation v"
  using assms unfolding versions_ok_def filed_def appendable_def by fastforce

lemma versions_ok_append:
  assumes "versions_ok s" and "hm_ok (rs_versions s)" and app: "appendable s v obj"
  shows "versions_ok (append_version s v obj)"
proof -
  let ?i = "so_id obj"
  have ms: "mset (all_versions (append_version s v obj)) = add_mset v (mset (all_versions s))"
    using mset_all_versions_set_versions [OF assms(2), of ?i "versions_of s ?i @ [v]"]
    by (simp add: push_version_eq)
  then have set: "set (all_versions (append_version s v obj)) = insert v (set (all_versions s))"
    by (metis set_mset_add_mset_insert set_mset_mset)
  have "mset (map ov_id (all_versions (append_version s v obj))) = mset (ov_id v # map ov_id (all_versions s))"
    using ms by simp
  then have "distinct (map ov_id (all_versions (append_version s v obj)))"
    using assms by (metis appendable_def distinct.simps(2) image_set mset_eq_imp_distinct_iff version_ids_def versions_ok_def)
  moreover have "filed (append_version s v obj) j w" if "w \<in> set (versions_of (append_version s v obj) j)" for j w
  proof (cases "w = v \<and> j = ?i")
    case True
    then show ?thesis using app by (auto simp: filed_def appendable_def)
  next
    case False
    with that have "w \<in> set (versions_of s j)" by (auto simp: push_version_eq split: if_splits)
    with assms(1) show ?thesis by (auto intro: filed_append [OF app] simp: versions_ok_def)
  qed
  moreover have "distinct (map ov_generation (versions_of (append_version s v obj) j))" for j
    using assms(1) older_generation [OF app assms(1)] by (force simp: push_version_eq versions_ok_def)
  moreover have "rs_superseded_versions s \<union> rs_deleted_versions s \<subseteq> version_ids (append_version s v obj)"
    using assms(1) set by (auto simp: versions_ok_def version_ids_def)
  ultimately show ?thesis
    by (auto simp: versions_ok_def insert_object_def push_version_def)
qed

lemma active_append: "active (append_version s v obj) = active s"
  by (simp add: push_version_eq)

lemma heads_ok_append:
  assumes "versions_ok s" and app: "appendable s v obj" and "\<And>j. j \<noteq> so_id obj \<Longrightarrow> head_ok s j"
  shows "heads_ok (append_version s v obj)"
  unfolding heads_ok_def
proof
  fix j
  show "head_ok (append_version s v obj) j"
  proof (cases "j = so_id obj")
    case False
    show ?thesis
      by (rule head_ok_other [of s]) (use False assms(3) in \<open>simp_all add: push_version_eq memory_active_versions_def\<close>)
  next
    case True
    have unhidden: "active s v"
      using app assms(1) by (auto simp: appendable_def versions_ok_def active_unhidden)
    have "ov_generation w \<le> ov_generation v" if "w \<in> set (versions_of s (so_id obj))" for w
      using older_generation [OF app assms(1) that] by simp
    then have "newest_active (append_version s v obj) (so_id obj) (ov_id v)"
      using unhidden by (auto simp: newest_active_def memory_active_versions_def push_version_eq)
    with True app show ?thesis by (auto simp: head_ok_def appendable_def)
  qed
qed

end
