(* ===== verification/Memory_S3_Invariant.thy ===== *)
theory Memory_S3_Invariant
  imports Memory_S3_Accounting
begin

text \<open>
  Every operation of the in-memory S3 repository keeps the invariant of
  \<open>Memory_S3_Accounting\<close>. The theory goes through the operations in the order of the code; the
  properties are stated over arbitrary histories of operations.
\<close>

definition repo_ok :: "repo_state \<Rightarrow> bool" where
  "repo_ok s \<longleftrightarrow> store_ok s \<and> quota_ok s"

section \<open>Updating a version in place\<close>

definition version_core ::
  "object_version \<Rightarrow> (object_version_id \<times> object_id \<times> application_id \<times> bucket_id)
     \<times> (s3_version_id \<times> u64 \<times> bool) \<times> object_version_state \<times> object_version_payload" where
  "version_core v =
     ((ov_id v, ov_object_id v, ov_application_id v, ov_bucket_id v),
      (ov_external_version_id v, ov_generation v, ov_is_null_version v), ov_state v, ov_payload v)"

lemma version_core_eq_iff:
  "version_core v = version_core w \<longleftrightarrow>
     ov_id v = ov_id w \<and> ov_object_id v = ov_object_id w \<and> ov_application_id v = ov_application_id w
     \<and> ov_bucket_id v = ov_bucket_id w \<and> ov_external_version_id v = ov_external_version_id w
     \<and> ov_generation v = ov_generation w \<and> ov_is_null_version v = ov_is_null_version w
     \<and> ov_state v = ov_state w \<and> ov_payload v = ov_payload w"
  by (auto simp: version_core_def)

text \<open>The states differ only in mutable facts of one version.\<close>

definition touches :: "repo_state \<Rightarrow> repo_state \<Rightarrow> bool" where
  "touches s t \<longleftrightarrow> (\<exists>i x v v'. List.find (\<lambda>w. ov_id w = x) (versions_of s i) = Some v
     \<and> version_core v' = version_core v
     \<and> t = set_versions s i (assign_first (\<lambda>w. ov_id w = x) v' (versions_of s i)))"

lemma touches_cores:
  assumes "touches s t"
  shows "map version_core (versions_of t j) = map version_core (versions_of s j)"
  using assms by (auto simp: touches_def map_assign_first)

lemma touches_frame:
  assumes "touches s t"
  shows "rs_objects t = rs_objects s" "rs_quotas t = rs_quotas s" "rs_intents t = rs_intents s"
    "hidden t = hidden s" "rs_superseded_versions t = rs_superseded_versions s"
    "rs_deleted_versions t = rs_deleted_versions s" "active t = active s" "charged t = charged s"
    "rs_buckets t = rs_buckets s" "rs_gc_tasks t = rs_gc_tasks s"
  using assms by (auto simp: touches_def hidden_def fun_eq_iff)

lemma mset_cores_touches:
  assumes "touches s t" and "hm_ok (rs_versions s)"
  shows "image_mset version_core (mset (all_versions t)) = image_mset version_core (mset (all_versions s))"
proof -
  from assms obtain i vs where t: "t = set_versions s i vs" and
    c: "map version_core vs = map version_core (versions_of s i)"
    by (auto simp: touches_def map_assign_first)
  have "image_mset version_core (mset (all_versions t)) + image_mset version_core (mset (versions_of s i))
      = image_mset version_core (mset (all_versions s)) + image_mset version_core (mset vs)"
    using arg_cong [OF mset_all_versions_set_versions [OF assms(2), of i vs], of "image_mset version_core"] t
    by simp
  moreover have "image_mset version_core (mset vs) = image_mset version_core (mset (versions_of s i))"
    using c by (metis mset_map)
  ultimately show ?thesis by simp
qed

lemma core_factor:
  assumes "\<And>v w. version_core v = version_core w \<Longrightarrow> f v = f w"
  obtains g where "f = g \<circ> version_core"
proof
  show "f = (\<lambda>c. f (SOME v. version_core v = c)) \<circ> version_core"
  proof
    fix v
    have "version_core (SOME w. version_core w = version_core v) = version_core v"
      by (rule someI [of _ v]) simp
    from assms [OF this] show "f v = ((\<lambda>c. f (SOME v. version_core v = c)) \<circ> version_core) v" by simp
  qed
qed

lemma map_core_cong:
  assumes "map version_core xs = map version_core ys" and "\<And>v w. version_core v = version_core w \<Longrightarrow> f v = f w"
  shows "map f xs = map f ys"
proof -
  obtain g where "f = g \<circ> version_core" using assms(2) by (rule core_factor)
  with arg_cong [OF assms(1), of "map g"] show ?thesis by simp
qed

lemma mset_core_cong:
  assumes "image_mset version_core M = image_mset version_core N"
    and "\<And>v w. version_core v = version_core w \<Longrightarrow> f v = f w"
  shows "image_mset f M = image_mset f N"
proof -
  obtain g where "f = g \<circ> version_core" using assms(2) by (rule core_factor)
  with arg_cong [OF assms(1), of "image_mset g"] show ?thesis
    by (simp add: image_mset.compositionality)
qed

lemma core_facts:
  assumes "version_core v = version_core w"
  shows "active s v = active s w" "charged s a v = charged s a w" "filed s i v = filed s i w"
    "is_delete_marker v = is_delete_marker w" "memory_object_version_size v = memory_object_version_size w"
  using assms
  by (auto simp: version_core_eq_iff active_def charged_def filed_def is_delete_marker_def memory_object_version_size_def)

lemma touches_active_cores:
  assumes "touches s t"
  shows "map version_core (memory_active_versions t j) = map version_core (memory_active_versions s j)"
proof -
  have "map version_core (filter (active s) xs) = map version_core (filter (active s) ys)"
    if "map version_core xs = map version_core ys" for xs ys
    using that
  proof (induction xs arbitrary: ys)
    case (Cons x xs)
    then obtain y ys' where "ys = y # ys'" "version_core x = version_core y"
      "map version_core xs = map version_core ys'" by (cases ys) auto
    with Cons.IH [of ys'] core_facts(1) [of x y s] show ?case by simp
  qed simp
  from this [OF touches_cores [OF assms]] show ?thesis
    by (simp add: memory_active_versions_def touches_frame [OF assms])
qed

lemma newest_active_core:
  "newest_active s i c \<longleftrightarrow>
     (\<exists>x \<in> set (map (\<lambda>v. (ov_id v, ov_generation v)) (memory_active_versions s i)).
        fst x = c \<and> (\<forall>y \<in> set (map (\<lambda>v. (ov_id v, ov_generation v)) (memory_active_versions s i)). snd y \<le> snd x))"
  by (force simp: newest_active_def)

lemma touches_keeps:
  assumes t: "touches s t" and "maps_ok s" and "versions_ok s"
  shows "maps_ok t" "versions_ok t" "used_total t = used_total s" "version_ids t = version_ids s"
    "head_ok t = head_ok s" "newest_active t = newest_active s"
proof -
  have hm: "hm_ok (rs_versions s)" using assms by (simp add: maps_ok_def)
  note ms = mset_cores_touches [OF t hm]
  show "maps_ok t" using assms by (auto simp: maps_ok_def touches_def)
  have ids: "image_mset ov_id (mset (all_versions t)) = image_mset ov_id (mset (all_versions s))"
    by (rule mset_core_cong [OF ms]) (simp add: version_core_eq_iff)
  then have "mset (map ov_id (all_versions t)) = mset (map ov_id (all_versions s))" by simp
  then have dist: "distinct (map ov_id (all_versions t))"
    using assms(3) unfolding versions_ok_def by (metis mset_eq_imp_distinct_iff)
  show vi: "version_ids t = version_ids s"
    using arg_cong [OF ids, of set_mset] by (simp add: version_ids_def)
  have "image_mset (charged s a) (mset (all_versions t)) = image_mset (charged s a) (mset (all_versions s))" for a
    by (rule mset_core_cong [OF ms]) (rule core_facts)
  then show "used_total t = used_total s"
    by (auto simp: used_total_def touches_frame [OF t] simp flip: sum_mset_sum_list)
  have filed: "filed t j = filed s j" for j
    by (simp add: filed_def fun_eq_iff touches_frame [OF t])
  have "\<forall>v \<in> set (versions_of t j). filed t j v" for j
  proof
    fix v assume "v \<in> set (versions_of t j)"
    then have "version_core v \<in> set (map version_core (versions_of s j))"
      by (simp add: touches_cores [OF t, symmetric])
    then obtain w where "w \<in> set (versions_of s j)" and "version_core v = version_core w" by auto
    then show "filed t j v"
      using assms(3) core_facts(3) [of v w s j] by (auto simp: versions_ok_def filed)
  qed
  moreover have "map ov_generation (versions_of t j) = map ov_generation (versions_of s j)" for j
    by (rule map_core_cong [OF touches_cores [OF t]]) (simp add: version_core_eq_iff)
  ultimately show "versions_ok t"
    using assms(3) dist vi by (simp add: versions_ok_def touches_frame [OF t])
  have "map (\<lambda>v. (ov_id v, ov_generation v)) (memory_active_versions t j)
      = map (\<lambda>v. (ov_id v, ov_generation v)) (memory_active_versions s j)" for j
    by (rule map_core_cong [OF touches_active_cores [OF t]]) (simp add: version_core_eq_iff)
  then show n: "newest_active t = newest_active s"
    by (simp add: newest_active_core fun_eq_iff del: set_map)
  then show "head_ok t = head_ok s"
    by (simp add: head_ok_def touches_frame [OF t] fun_eq_iff)
qed

lemma touches_repo_ok:
  assumes "touches s t" and "repo_ok s"
  shows "repo_ok t"
proof -
  have "reserved_total t = reserved_total s"
    by (simp add: reserved_total_def touches_frame [OF assms(1)] fun_eq_iff)
  with assms touches_keeps [of s t] touches_frame [of s t] show ?thesis
    by (simp add: repo_ok_def store_ok_def quota_ok_def heads_ok_def)
qed

section \<open>Looking up objects and versions\<close>

lemma find_s3_object_stored:
  assumes "maps_ok s" and "find_s3_object s a b k = Some obj"
  shows "hm_get (rs_objects s) (so_id obj) = Some obj" "so_application_id obj = a" "so_bucket_id obj = b"
    "so_key obj = k" "object_key_check (so_key obj) = Inr ()"
proof -
  from assms(2) have "obj \<in> set (hm_values (rs_objects s))" and
    p: "so_application_id obj = a \<and> so_bucket_id obj = b \<and> so_key obj = k"
    by (auto simp: find_s3_object_def dest!: find_Some_D)
  then obtain i where i: "hm_get (rs_objects s) i = Some obj"
    using assms(1) by (auto simp: maps_ok_def hm_values_get simp del: set_map)
  with assms(1) have "so_id obj = i" "object_key_check (so_key obj) = Inr ()" by (auto simp: maps_ok_def)
  with i p show "hm_get (rs_objects s) (so_id obj) = Some obj" "so_application_id obj = a"
    "so_bucket_id obj = b" "so_key obj = k" "object_key_check (so_key obj) = Inr ()" by auto
qed

lemma max_by_key_Some:
  "max_by_key f xs = Some x \<Longrightarrow> x \<in> set xs \<and> (\<forall>y \<in> set xs. f y \<le> f x)"
proof (induction xs arbitrary: x)
  case (Cons a xs)
  show ?case
  proof (cases "max_by_key f xs")
    case None
    then have "xs = []" by (cases xs) (auto split: option.splits if_splits)
    with Cons.prems show ?thesis by simp
  next
    case (Some y)
    with Cons.IH [of y] Cons.prems show ?thesis
      by (auto split: if_splits)
  qed
qed simp

lemma rebuild_object_head_eq:
  assumes "object_key_check (so_key obj) = Inr ()"
  shows "rebuild_object_head obj c now = Inr (obj\<lparr>so_current_version_id := c, so_updated_at := now\<rparr>)"
  using assms by (simp add: rebuild_object_head_def s3_object_from_persistence_def model_invariant_def)

lemma active_member:
  assumes "v \<in> set (memory_active_versions s i)"
  shows "v \<in> set (versions_of s i)" "active s v" "v \<in> set (all_versions s)"
  using assms versions_of_subset by (auto simp: memory_active_versions_def)

section \<open>Accounts\<close>

lemma release_used_Ok_iff:
  "memory_s3_quota_after_used_release s a n = Inr q' \<longleftrightarrow>
     (\<exists>q. rs_quotas s a = Some q \<and> unat n \<le> unat (used_bytes q) \<and> q' = q\<lparr>used_bytes := used_bytes q - n\<rparr>)"
  by (auto simp: memory_s3_quota_after_used_release_def result_simps checked_sub_def split: if_splits)

lemma account_release_used:
  assumes "account_ok (Some q) (unat n + u) r" and "unat n \<le> unat (used_bytes q)"
  shows "account_ok (Some (q\<lparr>used_bytes := used_bytes q - n\<rparr>)) u r"
  using assms by (auto simp: account_ok_def unat_sub word_le_nat_alt)

definition accounts_ok :: "(application_id \<rightharpoonup> quota_snapshot) \<Rightarrow> repo_state \<Rightarrow> bool" where
  "accounts_ok qs s \<longleftrightarrow> (\<forall>a. account_ok (qs a) (used_total s a) (reserved_total s a))"

lemma quota_ok_accounts: "quota_ok s \<longleftrightarrow> accounts_ok (rs_quotas s) s"
  by (simp add: quota_ok_def accounts_ok_def)

lemma accounts_hide:
  assumes "quota_ok s" and "versions_ok s" and v: "v \<in> set (memory_active_versions s i)"
    and rel: "memory_s3_quota_after_used_release s (ov_application_id v) (memory_object_version_size v) = Inr q"
    and t: "hides s t (ov_id v)" "rs_intents t = rs_intents s"
  shows "accounts_ok ((rs_quotas s)(ov_application_id v \<mapsto> q)) t"
  unfolding accounts_ok_def
proof
  fix a
  have r: "reserved_total t a = reserved_total s a" by (simp add: reserved_total_def t)
  have u: "used_total s a = charged s a v + used_total t a"
    by (rule used_total_hides [OF t(1)]) (use assms(2) active_member [OF v] in \<open>auto simp: versions_ok_def\<close>)
  have acc: "account_ok (rs_quotas s a) (used_total s a) (reserved_total s a)"
    using assms(1) by (simp add: quota_ok_def)
  show "account_ok (((rs_quotas s)(ov_application_id v \<mapsto> q)) a) (used_total t a) (reserved_total t a)"
  proof (cases "a = ov_application_id v")
    case True
    then have "charged s a v = unat (memory_object_version_size v)"
      using active_member [OF v] by (simp add: charged_def)
    with rel acc u True r show ?thesis
      by (auto simp: release_used_Ok_iff account_release_used)
  next
    case False
    then have "charged s a v = 0" by (simp add: charged_def)
    with acc u False r show ?thesis by simp
  qed
qed

lemma accounts_hide_free:
  assumes "quota_ok s" and "versions_ok s" and v: "v \<in> set (memory_active_versions s i)"
    and "memory_object_version_size v = 0" and t: "hides s t (ov_id v)" "rs_intents t = rs_intents s"
  shows "accounts_ok (rs_quotas s) t"
proof -
  have "used_total s a = charged s a v + used_total t a" for a
    by (rule used_total_hides [OF t(1)]) (use assms(2) active_member [OF v] in \<open>auto simp: versions_ok_def\<close>)
  moreover have "charged s a v = 0" for a using assms(4) by (simp add: charged_def)
  moreover have "reserved_total t = reserved_total s" by (simp add: reserved_total_def t fun_eq_iff)
  ultimately show ?thesis using assms(1) by (simp add: accounts_ok_def quota_ok_def)
qed

section \<open>Hiding a version\<close>

lemma store_ok_hide:
  assumes "store_ok s" and v: "v \<in> set (memory_active_versions s i)"
    and t: "hides s t (ov_id v)" "rs_intents t = rs_intents s"
    and objs: "rs_objects t = rs_objects s \<or> (\<exists>obj. hm_get (rs_objects s) i = Some obj
        \<and> rs_objects t = hm_insert i (obj\<lparr>so_current_version_id := c, so_updated_at := now\<rparr>) (rs_objects s))"
    and head: "head_ok t i"
  shows "store_ok t"
proof -
  note vs = active_member [OF v]
  have ok: "maps_ok s" "versions_ok s" "heads_ok s" using assms(1) by (auto simp: store_ok_def)
  have "versions_ok (t\<lparr>rs_objects := rs_objects s\<rparr>)"
    by (rule versions_ok_hides [OF ok(2) _ vs(1)]) (use t in \<open>auto simp: hides_def\<close>)
  moreover have "filed t = filed (t\<lparr>rs_objects := rs_objects s\<rparr>)"
    using objs by (auto simp: filed_def fun_eq_iff split: if_splits)
  moreover have "versions_of t = versions_of (t\<lparr>rs_objects := rs_objects s\<rparr>)"
    "all_versions t = all_versions (t\<lparr>rs_objects := rs_objects s\<rparr>)"
    by (simp_all add: versions_of_def all_versions_def fun_eq_iff)
  ultimately have "versions_ok t" by (simp add: versions_ok_def version_ids_def)
  moreover have "maps_ok t"
    using ok(1) objs t by (auto simp: maps_ok_def hides_def split: if_splits)
  moreover have "head_ok t j" for j
  proof (cases "j = i")
    case False
    show ?thesis
      by (rule head_ok_other [of s])
        (use ok(3) False objs hides_other_object [OF t(1) ok(2) vs(1) False] in \<open>auto simp: heads_ok_def\<close>)
  qed (use head in simp)
  ultimately show ?thesis by (simp add: store_ok_def heads_ok_def)
qed

lemma newest_active_remaining:
  assumes "hides s t (ov_id v)"
    and "max_by_key ov_generation (filter (\<lambda>w. ov_id w \<noteq> ov_id v) (memory_active_versions s i)) = Some w"
  shows "newest_active t i (ov_id w)"
  using max_by_key_Some [OF assms(2)] by (auto simp: newest_active_def hides_versions [OF assms(1)])

lemma newest_active_unaffected:
  assumes "hides s t (ov_id v)" and "newest_active s i c" and "c \<noteq> ov_id v"
  shows "newest_active t i c"
  using assms by (auto simp: newest_active_def hides_versions [OF assms(1)])

section \<open>What an operation on versions leaves behind\<close>

text \<open>The invariant, the upload intents, and no version id but possibly the one it was given.\<close>

definition evolved :: "repo_state \<Rightarrow> repo_state \<Rightarrow> object_version_id \<Rightarrow> bool" where
  "evolved s t x \<longleftrightarrow> repo_ok t \<and> rs_intents t = rs_intents s \<and> version_ids t \<subseteq> insert x (version_ids s)"

lemma evolved_refl [simp]: "repo_ok s \<Longrightarrow> evolved s s x"
  by (auto simp: evolved_def)

lemma evolved_trans:
  "evolved s t x \<Longrightarrow> evolved t u x \<Longrightarrow> evolved s u x"
  by (auto simp: evolved_def)

lemma evolved_touch: "touches s t \<Longrightarrow> repo_ok s \<Longrightarrow> evolved s t x"
  using touches_repo_ok [of s t] touches_keeps(4) [of s t] touches_frame(3) [of s t]
  by (auto simp: evolved_def repo_ok_def store_ok_def)

lemma hides_version_ids: "hides s t x \<Longrightarrow> version_ids t = version_ids s"
  by (simp add: version_ids_def hides_versions)

lemma evolved_hide:
  assumes "repo_ok s" and v: "v \<in> set (memory_active_versions s (so_id obj))"
    and obj: "hm_get (rs_objects s) (so_id obj) = Some obj"
    and t: "hides s t (ov_id v)" "rs_intents t = rs_intents s" and acc: "accounts_ok (rs_quotas t) t"
    and objs: "rs_objects t = rs_objects s \<and> so_current_version_id obj \<noteq> Some (ov_id v)
      \<or> (\<exists>c now. rs_objects t = hm_insert (so_id obj) (obj\<lparr>so_current_version_id := c, so_updated_at := now\<rparr>) (rs_objects s)
            \<and> (\<forall>y. c = Some y \<longrightarrow> newest_active t (so_id obj) y))"
  shows "evolved s t x"
proof -
  let ?i = "so_id obj"
  have ok: "store_ok s" using assms(1) by (simp add: repo_ok_def)
  from objs have "head_ok t ?i"
  proof
    assume a: "rs_objects t = rs_objects s \<and> so_current_version_id obj \<noteq> Some (ov_id v)"
    have "head_ok s ?i" using ok by (simp add: store_ok_def heads_ok_def)
    with a obj show ?thesis by (auto simp: head_ok_def intro: newest_active_unaffected [OF t(1)])
  qed (auto simp: head_ok_def)
  moreover from objs obtain c now where "rs_objects t = rs_objects s \<or> (\<exists>obj. hm_get (rs_objects s) ?i = Some obj
        \<and> rs_objects t = hm_insert ?i (obj\<lparr>so_current_version_id := c, so_updated_at := now\<rparr>) (rs_objects s))"
    using obj by blast
  ultimately have "store_ok t" using store_ok_hide [OF ok v t] by blast
  with acc t hides_version_ids [OF t(1)] show ?thesis
    by (auto simp: evolved_def repo_ok_def quota_ok_accounts)
qed

section \<open>Appending a version\<close>

text \<open>The invariant but for the current pointer of one object.\<close>

definition store_ok_except :: "repo_state \<Rightarrow> object_id \<Rightarrow> bool" where
  "store_ok_except s i \<longleftrightarrow> maps_ok s \<and> versions_ok s \<and> (\<forall>j. j \<noteq> i \<longrightarrow> head_ok s j)"

lemma store_ok_exceptI: "store_ok s \<Longrightarrow> store_ok_except s i"
  by (simp add: store_ok_def store_ok_except_def heads_ok_def)

lemma store_ok_except_hide:
  assumes "store_ok_except s i" and v: "v \<in> set (memory_active_versions s i)"
    and t: "hides s t (ov_id v)" "rs_intents t = rs_intents s" "rs_objects t = rs_objects s"
  shows "store_ok_except t i"
proof -
  have ok: "maps_ok s" "versions_ok s" "\<And>j. j \<noteq> i \<Longrightarrow> head_ok s j"
    using assms(1) by (auto simp: store_ok_except_def)
  note vs = active_member [OF v]
  have "head_ok t j" if "j \<noteq> i" for j
    by (rule head_ok_other [of s]) (use ok(3) that t hides_other_object [OF t(1) ok(2) vs(1) that] in auto)
  moreover have "versions_ok t" by (rule versions_ok_hides [OF ok(2) t(1) vs(1) t(3)])
  moreover have "maps_ok t" using ok(1) t by (auto simp: maps_ok_def hides_def)
  ultimately show ?thesis by (simp add: store_ok_except_def)
qed

lemma store_ok_same:
  assumes "same_store s t" and "rs_intents t = rs_intents s"
  shows "store_ok t = store_ok s" "store_ok_except t i = store_ok_except s i"
  using assms same_store_eqs [OF assms(1)]
  by (auto simp: store_ok_def store_ok_except_def maps_ok_def same_store_def same_versions_def)

lemma store_ok_append:
  assumes "store_ok_except s (so_id obj)" and app: "appendable s v obj"
    and key: "object_key_check (so_key obj) = Inr ()"
  shows "store_ok (append_version s v obj)"
proof -
  have ok: "maps_ok s" "versions_ok s" "\<And>j. j \<noteq> so_id obj \<Longrightarrow> head_ok s j"
    using assms(1) by (auto simp: store_ok_except_def)
  then have "hm_ok (rs_versions s)" by (simp add: maps_ok_def)
  then have "versions_ok (append_version s v obj)" by (rule versions_ok_append [OF ok(2) _ app])
  moreover have "heads_ok (append_version s v obj)" by (rule heads_ok_append [OF ok(2) app ok(3)])
  moreover have "maps_ok (append_version s v obj)"
    using ok(1) key by (auto simp: maps_ok_def insert_object_def push_version_def split: if_splits)
  ultimately show ?thesis by (simp add: store_ok_def)
qed

lemma version_ids_append:
  assumes "hm_ok (rs_versions s)"
  shows "version_ids (append_version s v obj) = insert (ov_id v) (version_ids s)"
proof -
  have "mset (all_versions (append_version s v obj)) = add_mset v (mset (all_versions s))"
    using mset_all_versions_set_versions [OF assms, of "so_id obj" "versions_of s (so_id obj) @ [v]"]
    by (simp add: push_version_eq)
  then have "set (all_versions (append_version s v obj)) = insert v (set (all_versions s))"
    by (metis set_mset_add_mset_insert set_mset_mset)
  then show ?thesis by (simp add: version_ids_def del: insert_object_eqs)
qed

lemma appendable_advanced:
  assumes "advanced_to obj v now = Inr obj'" and "ov_id v \<notin> version_ids s"
    and "hm_get (rs_objects s) (so_id obj) \<in> {None, Some obj}"
  shows "appendable s v obj'" "so_id obj' = so_id obj" "so_key obj' = so_key obj"
  using assms by (auto simp: appendable_def advanced_to_Ok_iff word_less_nat_alt)

lemma evolved_append:
  assumes ok: "store_ok_except s (so_id obj)" and obj: "hm_get (rs_objects s) (so_id obj) = Some obj"
    and adv: "advanced_to obj v now = Inr obj'" and new: "ov_id v \<notin> version_ids s"
    and size: "memory_object_version_size v = 0"
    and t: "same_store (append_version s v obj') t" "rs_intents t = rs_intents s"
    and acc: "accounts_ok (rs_quotas t) s"
  shows "evolved s t (ov_id v)"
proof -
  have maps: "maps_ok s" using ok by (simp add: store_ok_except_def)
  have "hm_get (rs_objects s) (so_id obj) \<in> {None, Some obj}" using obj by simp
  note app' = appendable_advanced [OF adv new this]
  have key: "object_key_check (so_key obj') = Inr ()" 
    using maps obj unfolding maps_ok_def app'(3) by blast
  have "rs_intents t = rs_intents (append_version s v obj')" using t by (simp add: insert_object_def push_version_def)
  then have st: "store_ok t"
    using store_ok_append [OF _ app'(1) key] ok app' store_ok_same [OF t(1)] by simp
  have hm: "hm_ok (rs_versions s)" using maps by (simp add: maps_ok_def)
  have sv: "same_versions (append_version s v obj') t" using t by (simp add: same_store_def)
  have "used_total t a = used_total s a" for a
    using used_total_push [OF hm, of "so_id obj'" v a] size
    by (simp add: same_versions_eqs [OF sv] charged_def)
  then have "accounts_ok (rs_quotas t) t"
    using acc t by (simp add: accounts_ok_def reserved_total_def)
  with st t version_ids_append [OF hm, of obj' v] show ?thesis
    by (auto simp: evolved_def repo_ok_def quota_ok_accounts same_versions_eqs [OF sv] simp del: insert_object_eqs)
qed

end
