(* ===== verification/Memory_S3_Versions.thy ===== *)
theory Memory_S3_Versions
  imports Memory_S3_Invariant
begin

text \<open>
  Deletion, Object Lock updates and the lifecycle actions on versions keep the invariant of the
  in-memory repository, and an operation that reports an error leaves the repository as it was.
\<close>

section \<open>Frames\<close>

lemma hides_frame [simp]:
  "hides s (insert_quota t a q) x \<longleftrightarrow> hides s t x"
  "hides s (insert_object t i obj) x \<longleftrightarrow> hides s t x"
  "hides (s\<lparr>rs_gc_tasks := g\<rparr>) t x \<longleftrightarrow> hides s t x"
  by (simp_all add: hides_def insert_quota_def insert_object_def)

lemma hide_frame [simp]:
  "rs_intents (hide_version s v) = rs_intents s" "rs_objects (hide_version s v) = rs_objects s"
  "rs_quotas (hide_version s v) = rs_quotas s" "rs_versions (hide_version s v) = rs_versions s"
  "rs_intents (supersede_version s v) = rs_intents s" "rs_objects (supersede_version s v) = rs_objects s"
  "rs_quotas (supersede_version s v) = rs_quotas s" "rs_versions (supersede_version s v) = rs_versions s"
  by (simp_all add: hide_version_def supersede_version_def)

lemma insert_frame [simp]:
  "rs_intents (insert_quota s a q) = rs_intents s" "rs_objects (insert_quota s a q) = rs_objects s"
  "rs_quotas (insert_quota s a q) = (rs_quotas s)(a \<mapsto> q)" "rs_versions (insert_quota s a q) = rs_versions s"
  "rs_intents (insert_object s i obj) = rs_intents s" "rs_quotas (insert_object s i obj) = rs_quotas s"
  "rs_versions (insert_object s i obj) = rs_versions s"
  "rs_intents (push_version s i v) = rs_intents s" "rs_quotas (push_version s i v) = rs_quotas s"
  "rs_objects (push_version s i v) = rs_objects s"
  by (simp_all add: insert_quota_def insert_object_def push_version_def)

lemma hides_via_gc:
  assumes "enqueue_optional s task = Inr s1"
  shows "hides s (hide_version s1 v) (ov_id v)" "hides s (supersede_version s1 v) (ov_id v)"
  using enqueue_optional_Ok [OF assms] hides_hide_version [of s1 v] hides_supersede_version [of s1 v] by auto

lemma enqueue_optional_frame:
  assumes "enqueue_optional s task = Inr s1"
  shows "rs_intents s1 = rs_intents s" "rs_objects s1 = rs_objects s" "rs_quotas s1 = rs_quotas s"
    "same_store s s1"
  using enqueue_optional_Ok [OF assms] by (auto simp: same_store_def same_versions_def)

section \<open>Releasing a version\<close>

text \<open>A version hidden with its bytes released, as deletion and expiration do it.\<close>

lemma evolved_release:
  assumes ok: "repo_ok s" and v: "v \<in> set (memory_active_versions s (so_id obj))"
    and obj: "hm_get (rs_objects s) (so_id obj) = Some obj"
    and rel: "memory_s3_quota_after_used_release s (ov_application_id v) (memory_object_version_size v) = Inr q"
    and gc: "enqueue_optional s task = Inr s1" and hf: "hf = hide_version \<or> hf = supersede_version"
  shows "so_current_version_id obj \<noteq> Some (ov_id v)
           \<Longrightarrow> evolved s (insert_quota (hf s1 v) (ov_application_id v) q) x"
    and "c = None \<or> c = map_option ov_id (max_by_key ov_generation
             (filter (\<lambda>w. ov_id w \<noteq> ov_id v) (memory_active_versions s (so_id obj))))
           \<Longrightarrow> evolved s (insert_quota (insert_object (hf s1 v) (so_id obj)
                 (obj\<lparr>so_current_version_id := c, so_updated_at := now\<rparr>)) (ov_application_id v) q) x"
proof -
  have parts: "quota_ok s" "versions_ok s" using ok by (auto simp: repo_ok_def store_ok_def)
  have h: "hides s (hf s1 v) (ov_id v)" and i: "rs_intents (hf s1 v) = rs_intents s"
    and o: "rs_objects (hf s1 v) = rs_objects s" and qs: "rs_quotas (hf s1 v) = rs_quotas s"
    using hf hides_via_gc [OF gc] enqueue_optional_frame [OF gc] by auto
  note acc = accounts_hide [OF parts v rel]
  let ?t = "insert_quota (hf s1 v) (ov_application_id v) q"
  have t: "hides s ?t (ov_id v)" "rs_intents ?t = rs_intents s" using h i by simp_all
  show "evolved s ?t x" if "so_current_version_id obj \<noteq> Some (ov_id v)"
    by (rule evolved_hide [OF ok v obj t]) (use acc [OF t] that o qs in auto)
  let ?u = "insert_quota (insert_object (hf s1 v) (so_id obj)
                 (obj\<lparr>so_current_version_id := c, so_updated_at := now\<rparr>)) (ov_application_id v) q"
  have u: "hides s ?u (ov_id v)" "rs_intents ?u = rs_intents s" using h i by simp_all
  show "evolved s ?u x" if "c = None \<or> c = map_option ov_id (max_by_key ov_generation
             (filter (\<lambda>w. ov_id w \<noteq> ov_id v) (memory_active_versions s (so_id obj))))"
  proof (rule evolved_hide [OF ok v obj u])
    show "accounts_ok (rs_quotas ?u) ?u" using acc [OF u] qs by simp
    have "newest_active ?u (so_id obj) y" if "c = Some y" for y
    proof (cases "max_by_key ov_generation
          (filter (\<lambda>w. ov_id w \<noteq> ov_id v) (memory_active_versions s (so_id obj)))")
      case None
      with that \<open>c = None \<or> _\<close> show ?thesis by simp
    next
      case (Some w)
      with that \<open>c = None \<or> _\<close> have "y = ov_id w" by simp
      then show ?thesis using newest_active_remaining [OF u(1) Some] by simp
    qed
    then show "rs_objects ?u = rs_objects s \<and> so_current_version_id obj \<noteq> Some (ov_id v) \<or>
      (\<exists>c now. rs_objects ?u = hm_insert (so_id obj) (obj\<lparr>so_current_version_id := c, so_updated_at := now\<rparr>) (rs_objects s)
         \<and> (\<forall>y. c = Some y \<longrightarrow> newest_active ?u (so_id obj) y))"
      using o by auto
  qed
qed

section \<open>Deletion\<close>

definition atomic :: "repo_state \<Rightarrow> repo_state \<times> (repository_error + 'a) \<Rightarrow> object_version_id \<Rightarrow> bool" where
  "atomic s r x \<longleftrightarrow> evolved s (fst r) x \<and> (\<forall>e. snd r = Inl e \<longrightarrow> fst r = s)"

lemma atomic_simps [simp]:
  "repo_ok s \<Longrightarrow> atomic s (s, r) x" "atomic s (t, Inr y) x \<longleftrightarrow> evolved s t x"
  by (simp_all add: atomic_def)

lemma delete_exact_atomic:
  assumes ok: "repo_ok s" and obj: "hm_get (rs_objects s) (so_id obj) = Some obj"
  shows "atomic s (delete_exact_version s obj (memory_active_versions s (so_id obj)) command requested) x"
proof (cases "List.find (\<lambda>v. ov_external_version_id v = requested) (memory_active_versions s (so_id obj))")
  case None
  then show ?thesis using ok by (simp add: delete_exact_version_def)
next
  case (Some v)
  then have v: "v \<in> set (memory_active_versions s (so_id obj))" by (auto dest: find_Some_D)
  have key: "object_key_check (so_key obj) = Inr ()"
    using ok obj unfolding repo_ok_def store_ok_def maps_ok_def by blast
  have step: "atomic s (delete_exact_version s obj (memory_active_versions s (so_id obj)) command requested) x"
    if "delete_lock_reason v command = None"
      and rel: "memory_s3_quota_after_used_release s (ov_application_id v) (memory_object_version_size v) = Inr q"
      and gc: "enqueue_optional s (explicit_delete_gc_task v command) = Inr s1" for q s1
    using that Some evolved_release [OF ok v obj rel gc]
    by (simp add: delete_exact_version_def Let_def rebuild_object_head_eq [OF key])
  show ?thesis
  proof (cases "delete_lock_reason v command")
    case None
    show ?thesis
      using step [OF None] Some None ok
      by (cases "memory_s3_quota_after_used_release s (ov_application_id v) (memory_object_version_size v)";
          cases "enqueue_optional s (explicit_delete_gc_task v command)") (auto simp: delete_exact_version_def)
  qed (use Some ok in \<open>simp add: delete_exact_version_def\<close>)
qed

lemma delete_unversioned_atomic:
  assumes ok: "repo_ok s" and obj: "hm_get (rs_objects s) (so_id obj) = Some obj"
  shows "atomic s (delete_when_unversioned s obj (memory_active_versions s (so_id obj)) command) x"
proof (cases "List.find ov_is_null_version (memory_active_versions s (so_id obj))")
  case None
  then show ?thesis using ok by (simp add: delete_when_unversioned_def)
next
  case (Some v)
  then have v: "v \<in> set (memory_active_versions s (so_id obj))" by (auto dest: find_Some_D)
  have key: "object_key_check (so_key obj) = Inr ()"
    using ok obj unfolding repo_ok_def store_ok_def maps_ok_def by blast
  have step: "atomic s (delete_when_unversioned s obj (memory_active_versions s (so_id obj)) command) x"
    if "delete_lock_reason v command = None"
      and rel: "memory_s3_quota_after_used_release s (ov_application_id v) (memory_object_version_size v) = Inr q"
      and gc: "enqueue_optional s (explicit_delete_gc_task v command) = Inr s1" for q s1
    using that Some evolved_release(2) [OF ok v obj rel gc, of _ None]
    by (simp add: delete_when_unversioned_def Let_def rebuild_object_head_eq [OF key])
  show ?thesis
  proof (cases "delete_lock_reason v command")
    case None
    show ?thesis
      using step [OF None] Some None ok
      by (cases "memory_s3_quota_after_used_release s (ov_application_id v) (memory_object_version_size v)";
          cases "enqueue_optional s (explicit_delete_gc_task v command)") (auto simp: delete_when_unversioned_def)
  qed (use Some ok in \<open>simp add: delete_when_unversioned_def\<close>)
qed

lemma new_delete_marker_Ok:
  assumes "new_delete_marker i ob a b ext g nul creator p at = Inr m"
  shows "ov_id m = i" "memory_object_version_size m = 0" "ov_payload m = DeleteMarker"
  using assms
  by (auto simp: new_delete_marker_def version_from_persistence_def memory_object_version_size_def split: if_splits)

lemma evolved_marker:
  assumes ok: "repo_ok s" and obj: "hm_get (rs_objects s) (so_id obj) = Some obj"
    and adv: "advanced_to obj m now = Inr obj'" and new: "ov_id m \<notin> version_ids s"
    and size: "memory_object_version_size m = 0"
  shows "evolved s (insert_object (push_version s (so_id obj) m) (so_id obj) obj') (ov_id m)"
proof (rule evolved_append [OF store_ok_exceptI obj adv new size])
  have "so_id obj' = so_id obj" using adv by (auto simp: advanced_to_Ok_iff)
  then show "same_store (append_version s m obj') (insert_object (push_version s (so_id obj) m) (so_id obj) obj')"
    by (simp add: same_store_def same_versions_def)
qed (use ok in \<open>simp_all add: repo_ok_def quota_ok_accounts\<close>)

lemma evolved_marker_replacing:
  assumes ok: "repo_ok s" and obj: "hm_get (rs_objects s) (so_id obj) = Some obj"
    and adv: "advanced_to obj m now = Inr obj'" and new: "ov_id m \<notin> version_ids s"
    and size: "memory_object_version_size m = 0"
    and v: "v \<in> set (memory_active_versions s (so_id obj))"
    and rel: "memory_s3_quota_after_used_release s (ov_application_id v) (memory_object_version_size v) = Inr q"
    and gc: "enqueue_optional s task = Inr s1"
  shows "evolved s (insert_quota (insert_object (push_version (supersede_version s1 v) (so_id obj) m)
           (so_id obj) obj') (ov_application_id v) q) (ov_id m)"
proof -
  let ?s2 = "supersede_version s1 v"
  have h: "hides s ?s2 (ov_id v)" by (rule hides_via_gc [OF gc])
  have fr: "rs_intents ?s2 = rs_intents s" "rs_objects ?s2 = rs_objects s" "rs_quotas ?s2 = rs_quotas s"
    using enqueue_optional_frame [OF gc] by simp_all
  have parts: "store_ok s" "quota_ok s" "versions_ok s" using ok by (auto simp: repo_ok_def store_ok_def)
  have ex: "store_ok_except ?s2 (so_id obj)"
    by (rule store_ok_except_hide [OF store_ok_exceptI [OF parts(1)] v h fr(1,2)])
  have id: "so_id obj' = so_id obj" using adv by (auto simp: advanced_to_Ok_iff)
  let ?t = "insert_quota (insert_object (push_version ?s2 (so_id obj) m) (so_id obj) obj') (ov_application_id v) q"
  have "evolved ?s2 ?t (ov_id m)"
  proof (rule evolved_append [OF ex _ adv _ size])
    show "same_store (append_version ?s2 m obj') ?t"
      by (simp add: same_store_def same_versions_def id insert_quota_def)
    show "accounts_ok (rs_quotas ?t) ?s2" using accounts_hide [OF parts(2,3) v rel h fr(1)] fr by simp
  qed (use obj fr new hides_version_ids [OF h] in simp_all)
  then show ?thesis using fr hides_version_ids [OF h] by (simp add: evolved_def)
qed

lemma delete_enabled_atomic:
  assumes ok: "repo_ok s" and obj: "hm_get (rs_objects s) (so_id obj) = Some obj"
    and new: "dc_delete_marker_id command \<notin> version_ids s"
  shows "atomic s (delete_when_enabled s obj command) (dc_delete_marker_id command)"
  using ok evolved_marker [OF ok obj] new new_delete_marker_Ok
  by (fastforce simp: delete_when_enabled_def result_simps split: sum.split)

lemma active_application:
  assumes "repo_ok s" and "v \<in> set (memory_active_versions s (so_id obj))"
    and "hm_get (rs_objects s) (so_id obj) = Some obj"
  shows "ov_application_id v = so_application_id obj"
  using assms active_member(1) [OF assms(2)]
  by (fastforce simp: repo_ok_def store_ok_def versions_ok_def filed_def)

lemma delete_suspended_atomic:
  assumes ok: "repo_ok s" and obj: "hm_get (rs_objects s) (so_id obj) = Some obj"
    and app: "so_application_id obj = dc_application_id command"
    and new: "dc_delete_marker_id command \<notin> version_ids s"
  shows "atomic s (delete_when_suspended s obj (memory_active_versions s (so_id obj)) command)
           (dc_delete_marker_id command)"
proof (cases "List.find ov_is_null_version (memory_active_versions s (so_id obj))")
  case None
  then show ?thesis
    using ok evolved_marker [OF ok obj] new new_delete_marker_Ok
    by (fastforce simp: delete_when_suspended_def Let_def result_simps enqueue_optional_def split: sum.split)
next
  case (Some v)
  then have v: "v \<in> set (memory_active_versions s (so_id obj))" by (auto dest: find_Some_D)
  have a: "ov_application_id v = dc_application_id command"
    using active_application [OF ok v obj] app by simp
  show ?thesis
  proof (cases "delete_lock_reason v command")
    case None
    then show ?thesis
      using ok evolved_marker_replacing [OF ok obj _ _ _ v] new new_delete_marker_Ok Some
      by (fastforce simp: delete_when_suspended_def Let_def result_simps a split: sum.split)
  qed (use Some ok in \<open>simp add: delete_when_suspended_def\<close>)
qed

lemma delete_s3_object_atomic:
  assumes ok: "repo_ok s" and new: "dc_delete_marker_id command \<notin> version_ids s"
  shows "atomic s (delete_s3_object s command) (dc_delete_marker_id command)"
proof -
  have maps: "maps_ok s" using ok by (simp add: repo_ok_def store_ok_def)
  show ?thesis
  proof (cases "find_s3_object s (dc_application_id command) (dc_bucket_id command) (dc_object_key command)")
    case None
    then show ?thesis using ok by (simp add: delete_s3_object_def split: option.split)
  next
    case (Some obj)
    note found = find_s3_object_stored [OF maps Some]
    show ?thesis
      using ok Some delete_exact_atomic [OF ok found(1)] delete_enabled_atomic [OF ok found(1) new]
        delete_suspended_atomic [OF ok found(1,2) new] delete_unversioned_atomic [OF ok found(1)]
      by (simp add: delete_s3_object_def Let_def split: option.split versioning_status.split)
  qed
qed

section \<open>Object Lock updates\<close>

lemma touchesI:
  "List.find (\<lambda>w. ov_id w = x) (versions_of s i) = Some v \<Longrightarrow> version_core v' = version_core v
   \<Longrightarrow> touches s (set_versions s i (assign_first (\<lambda>w. ov_id w = x) v' (versions_of s i)))"
  unfolding touches_def by blast

lemma lock_mutation_core:
  assumes "lock_mutation_result v command = Inr v'"
  shows "version_core v' = version_core v"
  using assms
  by (auto simp: lock_mutation_result_def with_legal_hold_update_def with_retention_update_Ok_iff
      version_core_eq_iff split: s3_object_lock_mutation.splits sum.splits object_retention_update_error.splits if_splits)

lemma put_s3_object_lock_cases:
  "fst (put_s3_object_lock s command) = s
   \<or> touches s (fst (put_s3_object_lock s command)) \<and> (\<exists>v. snd (put_s3_object_lock s command) = Inr (LockUpdated v))"
proof -
  have "touches s (s\<lparr>rs_versions := hm_insert i (assign_first (\<lambda>v. ov_id v = x) v' vs) (rs_versions s)\<rparr>)"
    if "hm_get (rs_versions s) i = Some vs" and "List.find (\<lambda>v. ov_id v = x) vs = Some v"
      and "lock_mutation_result v command = Inr v'" for i x v v' vs
    using touchesI [of x s i v v'] that lock_mutation_core [OF that(3)] by (simp add: versions_of_def)
  then show ?thesis
    by (simp add: put_s3_object_lock_def split: option.split sum.split)
qed

lemma put_s3_object_lock_atomic:
  assumes "repo_ok s"
  shows "atomic s (put_s3_object_lock s command) x"
  using put_s3_object_lock_cases [of s command] assms by (auto simp: atomic_def intro: evolved_touch)

section \<open>Lifecycle actions on versions\<close>

lemma mark_noncurrent_touches:
  "mark_memory_version_noncurrent s i x at = Inr t \<Longrightarrow> touches s t"
  using touchesI [of x s i]
  by (auto simp: mark_memory_version_noncurrent_def result_simps with_became_noncurrent_at_def
      version_core_eq_iff split: if_splits)

lemma lifecycle_delete_marker_Ok:
  assumes "lifecycle_delete_marker obj b command = Inr m"
  shows "ov_id m = xc_delete_marker_id command" "memory_object_version_size m = 0"
  using assms new_delete_marker_Ok(1,2) by (force simp: lifecycle_delete_marker_def result_simps)+

lemma touches_active_version:
  assumes "touches s t" and "v \<in> set (memory_active_versions s i)"
  obtains w where "w \<in> set (memory_active_versions t i)" and "version_core w = version_core v"
proof -
  from assms(2) have "version_core v \<in> set (map version_core (memory_active_versions t i))"
    by (simp add: touches_active_cores [OF assms(1)])
  then show thesis using that by auto
qed

lemma core_hide:
  assumes "version_core w = version_core v"
  shows "supersede_version s w = supersede_version s v" "hide_version s w = hide_version s v"
    "ov_application_id w = ov_application_id v" "memory_object_version_size w = memory_object_version_size v"
    "ov_id w = ov_id v"
  using assms core_facts(5) [OF assms]
  by (simp_all add: version_core_eq_iff supersede_version_def hide_version_def)

lemma release_after_touch:
  "touches s t \<Longrightarrow> memory_s3_quota_after_used_release t a n = memory_s3_quota_after_used_release s a n"
  by (simp add: memory_s3_quota_after_used_release_def touches_frame)

lemma expire_enabled_evolved:
  assumes ok: "repo_ok s" and obj: "hm_get (rs_objects s) (so_id obj) = Some obj"
    and new: "xc_delete_marker_id command \<notin> version_ids s"
    and run: "expire_current_enabled s obj target command = Inr (t, out)"
  shows "evolved s t (xc_delete_marker_id command)"
proof -
  from run obtain s1 m obj' where
    s1: "mark_memory_version_noncurrent s (so_id obj) (ov_id target) (lifecycle_action_time (xc_evaluated_at command)) = Inr s1"
    and m: "lifecycle_delete_marker obj False command = Inr m"
    and adv: "advanced_to obj m (lifecycle_action_time (xc_evaluated_at command)) = Inr obj'"
    and t: "t = insert_object (push_version s1 (so_id obj) m) (so_id obj) obj'"
    by (auto simp: expire_current_enabled_def Let_def result_simps)
  from s1 have tch: "touches s s1" by (rule mark_noncurrent_touches)
  then have ev: "evolved s s1 (xc_delete_marker_id command)" using ok by (rule evolved_touch)
  have "evolved s1 t (ov_id m)" unfolding t
    using ev obj new touches_keeps(4) [OF tch] ok
    by (intro evolved_marker [OF _ _ adv])
      (auto simp: lifecycle_delete_marker_Ok [OF m] evolved_def touches_frame [OF tch] repo_ok_def store_ok_def)
  with ev show ?thesis using evolved_trans by (simp add: lifecycle_delete_marker_Ok [OF m])
qed

lemma expire_suspended_evolved:
  assumes ok: "repo_ok s" and obj: "hm_get (rs_objects s) (so_id obj) = Some obj"
    and app: "so_application_id obj = xc_application_id command"
    and new: "xc_delete_marker_id command \<notin> version_ids s"
    and run: "expire_current_suspended s obj (memory_active_versions s (so_id obj)) target command = Inr (t, out)"
  shows "evolved s t (xc_delete_marker_id command)"
proof (cases "out = LcLocked \<and> t = s")
  case False
  let ?at = "lifecycle_action_time (xc_evaluated_at command)"
  let ?null = "List.find ov_is_null_version (memory_active_versions s (so_id obj))"
  from run False obtain s1 s3 m obj' where
    s1: "mark_memory_version_noncurrent s (so_id obj) (ov_id target) ?at = Inr s1"
    and m: "lifecycle_delete_marker obj True command = Inr m"
    and adv: "advanced_to obj m ?at = Inr obj'"
    and cases: "?null = None \<and> t = insert_object (push_version s1 (so_id obj) m) (so_id obj) obj'
      \<or> (\<exists>v q s2. ?null = Some v
           \<and> memory_s3_quota_after_used_release s (ov_application_id v) (memory_object_version_size v) = Inr q
           \<and> enqueue_optional s1 (lifecycle_object_gc_task v command) = Inr s2
           \<and> t = insert_quota (insert_object (push_version (supersede_version s2 v) (so_id obj) m) (so_id obj) obj')
                   (xc_application_id command) q)"
    by (auto simp: expire_current_suspended_def Let_def result_simps split: if_splits option.splits)
  from s1 have tch: "touches s s1" by (rule mark_noncurrent_touches)
  then have ev: "evolved s s1 (xc_delete_marker_id command)" using ok by (rule evolved_touch)
  have keep: "repo_ok s1" "hm_get (rs_objects s1) (so_id obj) = Some obj" "ov_id m \<notin> version_ids s1"
    using ev obj new touches_keeps(4) [OF tch] ok
    by (auto simp: lifecycle_delete_marker_Ok [OF m] evolved_def touches_frame [OF tch] repo_ok_def store_ok_def)
  from cases have "evolved s1 t (ov_id m)"
  proof (elim disjE exE conjE)
    fix v q s2
    assume null: "?null = Some v"
      and rel: "memory_s3_quota_after_used_release s (ov_application_id v) (memory_object_version_size v) = Inr q"
      and gc: "enqueue_optional s1 (lifecycle_object_gc_task v command) = Inr s2"
      and t: "t = insert_quota (insert_object (push_version (supersede_version s2 v) (so_id obj) m) (so_id obj) obj')
                   (xc_application_id command) q"
    from null have v: "v \<in> set (memory_active_versions s (so_id obj))" by (auto dest: find_Some_D)
    then obtain w where w: "w \<in> set (memory_active_versions s1 (so_id obj))" "version_core w = version_core v"
      by (rule touches_active_version [OF tch])
    have "ov_application_id v = xc_application_id command"
      using active_application [OF ok v obj] app by simp
    then show ?thesis
      using evolved_marker_replacing [OF keep(1,2) adv keep(3) lifecycle_delete_marker_Ok(2) [OF m] w(1) _ gc, of q] rel
      by (simp add: t core_hide [OF w(2)] release_after_touch [OF tch])
  qed (simp add: evolved_marker [OF keep(1,2) adv keep(3) lifecycle_delete_marker_Ok(2) [OF m]])
  with ev show ?thesis using evolved_trans by (simp add: lifecycle_delete_marker_Ok [OF m])
qed (use ok in simp)

lemma stored_key:
  assumes "repo_ok s" and "hm_get (rs_objects s) (so_id obj) = Some obj"
  shows "object_key_check (so_key obj) = Inr ()"
  using assms unfolding repo_ok_def store_ok_def maps_ok_def by blast

lemma expire_unversioned_evolved:
  assumes ok: "repo_ok s" and obj: "hm_get (rs_objects s) (so_id obj) = Some obj"
    and v: "v \<in> set (memory_active_versions s (so_id obj))"
    and run: "expire_current_unversioned s obj v command = Inr (t, out)"
  shows "evolved s t x"
proof (cases "t = s")
  case False
  let ?at = "lifecycle_action_time (xc_evaluated_at command)"
  from run False obtain q s1 s2 where
    rel: "memory_s3_quota_after_used_release s (ov_application_id v) (memory_object_version_size v) = Inr q"
    and s1: "mark_memory_version_noncurrent s (so_id obj) (ov_id v) ?at = Inr s1"
    and gc: "enqueue_optional s1 (lifecycle_object_gc_task v command) = Inr s2"
    and t: "t = insert_quota (insert_object (supersede_version s2 v) (so_id obj)
                  (obj\<lparr>so_current_version_id := None, so_updated_at := ?at\<rparr>)) (ov_application_id v) q"
    by (auto simp: expire_current_unversioned_def Let_def result_simps
        rebuild_object_head_eq [OF stored_key [OF ok obj]] split: if_splits)
  from s1 have tch: "touches s s1" by (rule mark_noncurrent_touches)
  then have ev: "evolved s s1 x" using ok by (rule evolved_touch)
  have keep: "repo_ok s1" "hm_get (rs_objects s1) (so_id obj) = Some obj"
    using ev obj by (auto simp: evolved_def touches_frame [OF tch])
  from v obtain w where w: "w \<in> set (memory_active_versions s1 (so_id obj))" "version_core w = version_core v"
    by (rule touches_active_version [OF tch])
  have "evolved s1 t x"
    using evolved_release(2) [OF keep(1) w(1) keep(2) _ gc, of q supersede_version None] rel
    by (simp add: t core_hide [OF w(2)] release_after_touch [OF tch])
  with ev show ?thesis by (rule evolved_trans)
qed (use ok in simp)

lemma stored_object_id:
  "repo_ok s \<Longrightarrow> hm_get (rs_objects s) i = Some obj \<Longrightarrow> so_id obj = i"
  unfolding repo_ok_def store_ok_def maps_ok_def by blast

lemma current_expiration_evolved:
  assumes ok: "repo_ok s" and new: "xc_delete_marker_id command \<notin> version_ids s"
    and run: "execute_memory_current_expiration s bucket i key cur created command = Inr (t, out)"
  shows "evolved s t (xc_delete_marker_id command)"
proof (cases "hm_get (rs_objects s) i")
  case None
  then show ?thesis using run ok by (simp add: execute_memory_current_expiration_def)
next
  case (Some obj)
  then have obj: "hm_get (rs_objects s) (so_id obj) = Some obj" and i: "so_id obj = i"
    using stored_object_id [OF ok] by auto
  show ?thesis
  proof (cases "t = s")
    case False
    from run Some False obtain v where "so_application_id obj = xc_application_id command"
      and "v \<in> set (memory_active_versions s (so_id obj))"
      and "expire_current_enabled s obj v command = Inr (t, out)
        \<or> expire_current_suspended s obj (memory_active_versions s (so_id obj)) v command = Inr (t, out)
        \<or> expire_current_unversioned s obj v command = Inr (t, out)"
      by (auto simp: execute_memory_current_expiration_def Let_def i dest: find_Some_D
          split: if_splits option.splits versioning_status.splits)
    then show ?thesis
      using expire_enabled_evolved [OF ok obj new] expire_suspended_evolved [OF ok obj _ new]
        expire_unversioned_evolved [OF ok obj] by metis
  qed (use ok in simp)
qed

lemma noncurrent_expiration_evolved:
  assumes ok: "repo_ok s"
    and run: "execute_memory_noncurrent_expiration s i key vid became command = Inr (t, out)"
  shows "evolved s t x"
proof (cases "hm_get (rs_objects s) i")
  case None
  then show ?thesis using run ok by (simp add: execute_memory_noncurrent_expiration_def)
next
  case (Some obj)
  then have obj: "hm_get (rs_objects s) (so_id obj) = Some obj" and i: "so_id obj = i"
    using stored_object_id [OF ok] by auto
  show ?thesis
  proof (cases "t = s")
    case False
    from run Some False obtain v q s1 where "so_current_version_id obj \<noteq> Some (ov_id v)"
      and "v \<in> set (memory_active_versions s (so_id obj))"
      and "memory_s3_quota_after_used_release s (ov_application_id v) (memory_object_version_size v) = Inr q"
      and "enqueue_optional s (lifecycle_object_gc_task v command) = Inr s1"
      and "t = insert_quota (hide_version s1 v) (ov_application_id v) q"
      by (auto simp: execute_memory_noncurrent_expiration_def Let_def i result_simps dest!: find_Some_D
          split: if_splits option.splits)
    then show ?thesis using evolved_release(1) [OF ok _ obj] by blast
  qed (use ok in simp)
qed

lemma expired_marker_evolved:
  assumes ok: "repo_ok s"
    and run: "execute_memory_expired_marker s i key vid command = Inr (t, out)"
  shows "evolved s t x"
proof (cases "hm_get (rs_objects s) i")
  case None
  then show ?thesis using run ok by (simp add: execute_memory_expired_marker_def)
next
  case (Some obj)
  then have obj: "hm_get (rs_objects s) (so_id obj) = Some obj" and i: "so_id obj = i"
    using stored_object_id [OF ok] by auto
  show ?thesis
  proof (cases "t = s")
    case False
    from run Some False obtain v where act: "memory_active_versions s (so_id obj) = [v]"
      and marker: "is_delete_marker v"
      and t: "t = insert_object (hide_version s v) (so_id obj)
                (obj\<lparr>so_current_version_id := None, so_updated_at := xc_evaluated_at command\<rparr>)"
      by (auto simp: execute_memory_expired_marker_def Let_def i result_simps
          rebuild_object_head_eq [OF stored_key [OF ok obj]] split: if_splits list.splits)
    have v: "v \<in> set (memory_active_versions s (so_id obj))" by (simp add: act)
    have h: "hides s t (ov_id v)" "rs_intents t = rs_intents s" "rs_quotas t = rs_quotas s"
      using hides_hide_version by (simp_all add: t)
    have "memory_object_version_size v = 0"
      using marker by (simp add: is_delete_marker_def memory_object_version_size_def)
    then have "accounts_ok (rs_quotas t) t"
      using accounts_hide_free [OF _ _ v _ h(1,2)] ok h(3) by (simp add: repo_ok_def store_ok_def)
    then show ?thesis by (rule evolved_hide [OF ok v obj h(1,2)]) (auto simp: t)
  qed (use ok in simp)
qed

end
