(* ===== verification/Memory_S3_Intents.thy ===== *)
theory Memory_S3_Intents
  imports Memory_S3_Versions
begin

text \<open>
  Upload intents keep the invariant of the in-memory repository: every stored intent is valid, so
  that \<open>rebuild_intent\<close> never panics, the version ids proposed by different intents are distinct
  and those of open intents not yet taken, and the reserved bytes of an application are always
  the expected sizes of its open intents.
\<close>

section \<open>Rebuilding a valid intent\<close>

definition intent_static :: "unicode_tables \<Rightarrow> upload_intent \<Rightarrow> bool" where
  "intent_static uc i \<longleftrightarrow>
     validate_object_key (ui_object_key i) = Inr ()
     \<and> validate_storage_locator (ui_storage_backend i) (ui_temporary_storage_key i) = Inr ()
     \<and> validate_storage_locator (ui_storage_backend i) (ui_final_storage_key i) = Inr ()
     \<and> ui_temporary_storage_key i \<noteq> ui_final_storage_key i \<and> is_object (ui_user_metadata i)
     \<and> is_ok (object_tag_set_validate uc (ui_object_tags i)) \<and> ui_created_at i < ui_expires_at i"

definition intent_dynamic :: "upload_intent \<Rightarrow> bool" where
  "intent_dynamic i \<longleftrightarrow>
     (intent_fact_count i = 0 \<or> intent_fact_count i = 3)
     \<and> \<not> is_some_and (ui_size_bytes i) (\<lambda>n. n \<noteq> ui_expected_size_bytes i)
     \<and> intent_state_is_valid (ui_state i) (intent_fact_count i = 3)
         (ui_lease_token i \<noteq> None \<and> ui_lease_until i \<noteq> None)
         (ui_committed_object_id i \<noteq> None \<and> ui_committed_version_id i \<noteq> None)
     \<and> (ui_lease_token i \<noteq> None) = (ui_lease_until i \<noteq> None)
     \<and> (ui_committed_object_id i \<noteq> None) = (ui_committed_version_id i \<noteq> None)
     \<and> \<not> is_some_and (ui_lease_token i) (\<lambda>token. \<not> valid_token token)"

abbreviation intent_valid :: "unicode_tables \<Rightarrow> upload_intent \<Rightarrow> bool" where
  "intent_valid uc i \<equiv> intent_static uc i \<and> intent_dynamic i"

lemma intent_from_persistence_iff:
  "intent_from_persistence uc p = Inr i \<longleftrightarrow> i = p \<and> intent_valid uc p"
  by (auto simp: intent_from_persistence_def intent_static_def intent_dynamic_def result_simps Let_def
      split: if_splits)

lemma intent_from_persistence_Some:
  "(case intent_from_persistence uc p of Inl _ \<Rightarrow> None | Inr i \<Rightarrow> Some i)
     = (if intent_valid uc p then Some p else None)"
  using intent_from_persistence_iff [of uc p p] intent_from_persistence_iff [of uc p]
  by (cases "intent_from_persistence uc p") auto

lemma facts_of_valid:
  assumes "intent_dynamic i"
  shows "facts i = None \<or> (\<exists>e c. facts i = Some (e, c, ui_expected_size_bytes i))"
    and "ui_state i \<in> {IntentReady, IntentCommitting} \<Longrightarrow> facts i \<noteq> None"
  using assms unfolding intent_dynamic_def intent_fact_count_3_iff intent_fact_count_0_iff
  by (auto simp: facts_def intent_state_is_valid_def)

text \<open>The facts about an intent that no operation changes.\<close>

definition intent_core :: "upload_intent \<Rightarrow> upload_intent_id \<times> application_id \<times> u64 \<times> object_version_id" where
  "intent_core i = (ui_id i, ui_application_id i, ui_expected_size_bytes i, ui_proposed_version_id i)"

lemma intent_static_frame [simp]:
  "intent_static uc (i\<lparr>ui_state := st\<rparr>) = intent_static uc i"
  "intent_static uc (i\<lparr>ui_entity_tag := a\<rparr>) = intent_static uc i"
  "intent_static uc (i\<lparr>ui_checksum := b\<rparr>) = intent_static uc i"
  "intent_static uc (i\<lparr>ui_size_bytes := c\<rparr>) = intent_static uc i"
  "intent_static uc (i\<lparr>ui_lease_token := d\<rparr>) = intent_static uc i"
  "intent_static uc (i\<lparr>ui_lease_until := e\<rparr>) = intent_static uc i"
  "intent_static uc (i\<lparr>ui_committed_object_id := f\<rparr>) = intent_static uc i"
  "intent_static uc (i\<lparr>ui_committed_version_id := g\<rparr>) = intent_static uc i"
  "intent_static uc (i\<lparr>ui_updated_at := t\<rparr>) = intent_static uc i"
  by (simp_all add: intent_static_def)

lemma rebuild_intent_cases:
  "rebuild_intent uc i st fs lease com now =
     (let j = i\<lparr>ui_state := st, ui_entity_tag := map_option fst fs, ui_checksum := map_option (fst \<circ> snd) fs,
                ui_size_bytes := map_option (snd \<circ> snd) fs, ui_lease_token := map_option fst lease,
                ui_lease_until := map_option snd lease, ui_committed_object_id := map_option fst com,
                ui_committed_version_id := map_option snd com, ui_updated_at := now\<rparr>
      in if intent_static uc i \<and> intent_dynamic j then Some j else None)"
  by (simp add: rebuild_intent_def Let_def intent_from_persistence_Some intent_static_frame)

lemma rebuild_intent_keeps:
  assumes "rebuild_intent uc i st fs lease com now = Some j"
  shows "intent_valid uc j" "intent_core j = intent_core i" "ui_state j = st"
  using assms
  by (auto simp: rebuild_intent_cases Let_def intent_core_def intent_static_def split: if_splits)

lemma rebuild_with_facts:
  assumes "intent_static uc i" and "intent_state_is_valid st True (lease \<noteq> None) (com \<noteq> None)"
    and "\<And>token until. lease = Some (token, until) \<Longrightarrow> valid_token token"
  shows "rebuild_intent uc i st (Some (e, c, ui_expected_size_bytes i)) lease com now \<noteq> None"
  using assms by (cases lease; cases com) (auto simp: rebuild_intent_cases Let_def intent_dynamic_def intent_fact_count_3_iff)

lemma rebuild_without_facts:
  assumes "intent_static uc i" and "intent_state_is_valid st False False False"
  shows "rebuild_intent uc i st None None None now \<noteq> None"
  using assms by (simp add: rebuild_intent_cases Let_def intent_dynamic_def intent_fact_count_def)

lemma rebuild_same_facts:
  assumes "intent_valid uc i" and "ui_state i \<in> {IntentReady, IntentCommitting}"
    and "intent_state_is_valid st True (lease \<noteq> None) (com \<noteq> None)"
    and "\<And>token until. lease = Some (token, until) \<Longrightarrow> valid_token token"
  shows "rebuild_intent uc i st (facts i) lease com now \<noteq> None"
  using assms facts_of_valid [of i] rebuild_with_facts [of uc i st lease com] by auto

lemma rebuild_closed:
  assumes "intent_valid uc i" and "st = IntentAborted \<or> st = IntentExpired"
  shows "rebuild_intent uc i st (facts i) None None now \<noteq> None"
proof -
  have "intent_state_is_valid st f False False" for f
    using assms(2) by (auto simp: intent_state_is_valid_def)
  then show ?thesis
    using assms(1) facts_of_valid(1) [of i] rebuild_with_facts [of uc i st None None]
      rebuild_without_facts [of uc i st] by auto
qed

section \<open>The invariant of the intents\<close>

definition intents_ok :: "unicode_tables \<Rightarrow> repo_state \<Rightarrow> bool" where
  "intents_ok uc s \<longleftrightarrow>
     (\<forall>i \<in> set (hm_values (rs_intents s)).
        intent_valid uc i \<and> (open_intent i \<longrightarrow> ui_proposed_version_id i \<notin> version_ids s))
     \<and> distinct (map ui_proposed_version_id (hm_values (rs_intents s)))"

definition state_ok :: "unicode_tables \<Rightarrow> repo_state \<Rightarrow> bool" where
  "state_ok uc s \<longleftrightarrow> repo_ok s \<and> intents_ok uc s"

lemma state_ok_evolved:
  assumes "state_ok uc s" and "evolved s t x"
    and "\<And>i. i \<in> set (hm_values (rs_intents s)) \<Longrightarrow> open_intent i \<Longrightarrow> ui_proposed_version_id i \<noteq> x"
  shows "state_ok uc t"
  using assms by (auto simp: state_ok_def intents_ok_def evolved_def)

lemma stored_intent:
  assumes "state_ok uc s" and "hm_get (rs_intents s) k = Some i"
  shows "intent_valid uc i" "ui_id i = k" "i \<in> set (hm_values (rs_intents s))"
    "open_intent i \<Longrightarrow> ui_proposed_version_id i \<notin> version_ids s"
proof -
  show v: "i \<in> set (hm_values (rs_intents s))" using assms(2) by (rule hm_get_values)
  then show "intent_valid uc i" "open_intent i \<Longrightarrow> ui_proposed_version_id i \<notin> version_ids s"
    using assms(1) unfolding state_ok_def intents_ok_def by blast+
  show "ui_id i = k" using assms unfolding state_ok_def repo_ok_def store_ok_def maps_ok_def by blast
qed

lemma map_hm_replace:
  assumes "hm_ok m" and "hm_get m k = Some i" and "f j = f i"
  shows "map f (hm_values (hm_insert k j m)) = map f (hm_values m)"
  by (rule hm_insert_split [OF assms(1), of k j]) (use assms(2,3) in auto)

lemma hm_values_insert_subset: "set (hm_values (hm_insert k j m)) \<subseteq> insert j (set (hm_values m))"
proof (induction m)
  case (Cons e m)
  then show ?case by (cases e) auto
qed simp

lemma reserved_replace:
  assumes "hm_ok (rs_intents s)" and "hm_get (rs_intents s) k = Some i"
    and "rs_intents t = hm_insert k j (rs_intents s)"
  shows "reserved_total t a + reserving a i = reserved_total s a + reserving a j"
  using sum_hm_insert [OF assms(1), of "reserving a" k j] assms(2,3) by (simp add: reserved_total_def)

lemma intents_ok_replace:
  assumes "intents_ok uc s" and "hm_ok (rs_intents s)" and "hm_get (rs_intents s) k = Some i"
    and t: "rs_intents t = hm_insert k j (rs_intents s)"
    and j: "intent_valid uc j" "intent_core j = intent_core i" "open_intent j \<Longrightarrow> open_intent i"
    and ids: "version_ids t \<subseteq> version_ids s
      \<or> version_ids t \<subseteq> insert (ui_proposed_version_id i) (version_ids s) \<and> \<not> open_intent j"
  shows "intents_ok uc t"
proof -
  have proposed: "ui_proposed_version_id j = ui_proposed_version_id i" using j(2) by (simp add: intent_core_def)
  have same: "map ui_proposed_version_id (hm_values (rs_intents t)) = map ui_proposed_version_id (hm_values (rs_intents s))"
    unfolding t by (rule map_hm_replace [where f = ui_proposed_version_id, OF assms(2,3) proposed])
  have dist: "distinct (map ui_proposed_version_id (hm_values (rs_intents t)))"
    unfolding same using assms(1) unfolding intents_ok_def by blast
  have jt: "j \<in> set (hm_values (rs_intents t))" by (rule hm_get_values [of _ k]) (simp add: t)
  have i: "i \<in> set (hm_values (rs_intents s))" using assms(3) by (rule hm_get_values)
  have "intent_valid uc x \<and> (open_intent x \<longrightarrow> ui_proposed_version_id x \<notin> version_ids t)"
    if x: "x \<in> set (hm_values (rs_intents t))" for x
  proof (cases "x = j")
    case True
    have "ui_proposed_version_id i \<notin> version_ids t" if "open_intent j"
    proof -
      have "ui_proposed_version_id i \<notin> version_ids s"
        using j(3) [OF that] i assms(1) unfolding intents_ok_def by blast
      with ids that show ?thesis by blast
    qed
    with True j(1) proposed show ?thesis by simp
  next
    case False
    then have xs: "x \<in> set (hm_values (rs_intents s))"
      using subsetD [OF hm_values_insert_subset x [unfolded t]] by blast
    have "ui_proposed_version_id x \<noteq> ui_proposed_version_id i"
      using dist x jt False proposed by (metis distinct_map inj_onD)
    with xs ids assms(1) show ?thesis unfolding intents_ok_def by blast
  qed
  with dist show ?thesis unfolding intents_ok_def by blast
qed

text \<open>Replacing an intent and the account of its application.\<close>

lemma repo_ok_intent_update:
  assumes "repo_ok s" and t: "same_store s t" and k: "hm_get (rs_intents s) k = Some i"
    and j: "rs_intents t = hm_insert k j (rs_intents s)" "ui_id j = k"
    and acc: "accounts_ok (rs_quotas t) t"
  shows "repo_ok t"
proof -
  have "maps_ok t" using assms
    by (auto simp: repo_ok_def store_ok_def maps_ok_def same_store_def same_versions_def split: if_splits)
  with assms same_store_eqs [OF t] show ?thesis
    by (auto simp: repo_ok_def store_ok_def quota_ok_accounts)
qed

end
