(* ===== verification/Memory_S3_Commit.thy ===== *)
theory Memory_S3_Commit
  imports Memory_S3_Intents
begin

text \<open>
  The operations on upload intents keep the invariant of the in-memory repository and never panic:
  reservation, staging, claim, release, abort, expiry, and the commit of a version.
\<close>

section \<open>Accounts of open intents\<close>

lemma state_okD:
  assumes "state_ok uc s"
  shows "repo_ok s" "store_ok s" "quota_ok s" "maps_ok s" "versions_ok s" "intents_ok uc s"
    "hm_ok (rs_intents s)" "hm_ok (rs_versions s)"
  using assms by (auto simp: state_ok_def repo_ok_def store_ok_def maps_ok_def)

lemma state_ok_frame:
  assumes "same_store s t" and "rs_intents t = rs_intents s" and "rs_quotas t = rs_quotas s"
  shows "state_ok uc t = state_ok uc s"
proof -
  have sv: "same_versions s t" using assms(1) by (simp add: same_store_def)
  have "intents_ok uc t = intents_ok uc s"
    unfolding intents_ok_def assms(2) same_versions_eqs [OF sv] ..
  moreover have "quota_ok t = quota_ok s"
    unfolding quota_ok_def assms(3) same_versions_eqs [OF sv] reserved_total_def assms(2) ..
  ultimately show ?thesis
    by (simp only: state_ok_def repo_ok_def store_ok_same(1) [OF assms(1,2)])
qed

lemma reservation_release_Ok_iff:
  "memory_s3_quota_after_reservation_release s i = Inr q' \<longleftrightarrow>
     (\<exists>q. rs_quotas s (ui_application_id i) = Some q
        \<and> unat (ui_expected_size_bytes i) \<le> unat (reserved_bytes q)
        \<and> q' = q\<lparr>reserved_bytes := reserved_bytes q - ui_expected_size_bytes i\<rparr>)"
  by (auto simp: memory_s3_quota_after_reservation_release_def result_simps checked_sub_def split: if_splits)

lemma intent_open_update:
  assumes ok: "state_ok uc s" and k: "hm_get (rs_intents s) k = Some i" and "open_intent i"
    and j: "rebuild_intent uc i st fs lease com now = Some j" "st \<in> {IntentReady, IntentCommitting}"
  shows "state_ok uc (insert_intent s k j)"
proof -
  let ?t = "insert_intent s k j"
  note keeps = rebuild_intent_keeps [OF j(1)]
  have oj: "open_intent j" using keeps(3) j(2) by (simp add: open_intent_def)
  have t: "rs_intents ?t = hm_insert k j (rs_intents s)" "same_store s ?t" "rs_quotas ?t = rs_quotas s"
    by (simp_all add: insert_intent_def same_store_def same_versions_def)
  have sv: "same_versions s ?t" using t by (simp add: same_store_def)
  have "reserving a j = reserving a i" for a
    using keeps(2) oj assms(3) by (simp add: reserving_def intent_core_def)
  then have "reserved_total ?t = reserved_total s"
    using reserved_replace [OF state_okD(7) [OF ok] k t(1)] by (simp add: fun_eq_iff)
  then have "accounts_ok (rs_quotas ?t) ?t"
    using state_okD(3) [OF ok] by (simp add: accounts_ok_def quota_ok_def t same_versions_eqs [OF sv])
  moreover have "ui_id j = k" using keeps(2) stored_intent(2) [OF ok k] by (simp add: intent_core_def)
  ultimately have "repo_ok ?t" using repo_ok_intent_update [OF state_okD(1) [OF ok] t(2) k t(1)] by blast
  moreover have "intents_ok uc ?t"
    by (rule intents_ok_replace [OF state_okD(6,7) [OF ok] k t(1) keeps(1,2)])
      (use assms(3) in \<open>simp_all add: same_versions_eqs [OF sv]\<close>)
  ultimately show ?thesis by (simp add: state_ok_def)
qed

lemma intent_close_update:
  assumes ok: "state_ok uc s" and k: "hm_get (rs_intents s) k = Some i" and "open_intent i"
    and j: "intent_valid uc j" "intent_core j = intent_core i" "\<not> open_intent j"
    and rel: "memory_s3_quota_after_reservation_release s i = Inr q"
    and t: "same_store s t" "rs_intents t = hm_insert k j (rs_intents s)"
      "rs_quotas t = (rs_quotas s)(ui_application_id i \<mapsto> q)"
  shows "state_ok uc t"
proof -
  have sv: "same_versions s t" using t by (simp add: same_store_def)
  have res: "reserved_total s a = reserving a i + reserved_total t a" for a
    using reserved_replace [OF state_okD(7) [OF ok] k t(2), of a] j(3) by (simp add: reserving_def [of a j])
  have "account_ok (rs_quotas t a) (used_total t a) (reserved_total t a)" for a
  proof -
    have acc: "account_ok (rs_quotas s a) (used_total s a) (reserved_total s a)"
      using state_okD(3) [OF ok] by (simp add: quota_ok_def)
    show ?thesis
    proof (cases "a = ui_application_id i")
      case True
      with acc rel res [of a] \<open>open_intent i\<close> show ?thesis
        by (auto simp: reservation_release_Ok_iff t same_versions_eqs [OF sv] account_ok_def reserving_def
            unat_sub word_le_nat_alt)
    next
      case False
      then show ?thesis
        using acc res [of a] by (simp add: t same_versions_eqs [OF sv] reserving_def)
    qed
  qed
  then have "accounts_ok (rs_quotas t) t" by (simp add: accounts_ok_def)
  moreover have "ui_id j = k" using j(2) stored_intent(2) [OF ok k] by (simp add: intent_core_def)
  ultimately have "repo_ok t" using repo_ok_intent_update [OF state_okD(1) [OF ok] t(1) k t(2)] by blast
  moreover have "intents_ok uc t"
    by (rule intents_ok_replace [OF state_okD(6,7) [OF ok] k t(2) j(1,2)])
      (use j(3) in \<open>simp_all add: same_versions_eqs [OF sv]\<close>)
  ultimately show ?thesis by (simp add: state_ok_def)
qed

section \<open>Reservation\<close>

lemma create_upload_intent_ok:
  assumes ok: "state_ok uc s" and i: "intent_valid uc i" "open_intent i"
    and new: "ui_proposed_version_id i \<notin> version_ids s"
      "ui_proposed_version_id i \<notin> ui_proposed_version_id ` set (hm_values (rs_intents s))"
  shows "state_ok uc (fst (create_upload_intent s i))"
proof (cases "fst (create_upload_intent s i) = s")
  case False
  then obtain q r where none: "hm_get (rs_intents s) (ui_id i) = None"
    and q: "rs_quotas s (ui_application_id i) = Some q"
    and room: "ui_expected_size_bytes i \<le> available_bytes q"
    and r: "checked_add (reserved_bytes q) (ui_expected_size_bytes i) = Some r"
    and t: "fst (create_upload_intent s i)
      = insert_intent (insert_quota s (ui_application_id i) (q\<lparr>reserved_bytes := r\<rparr>)) (ui_id i) i"
    by (auto simp: create_upload_intent_def not_less split: option.splits if_splits)
  define t where "t = fst (create_upload_intent s i)"
  have ti: "rs_intents t = hm_insert (ui_id i) i (rs_intents s)" and st: "same_store s t"
    and tq: "rs_quotas t = (rs_quotas s)(ui_application_id i \<mapsto> q\<lparr>reserved_bytes := r\<rparr>)"
    by (simp_all add: t_def t insert_intent_def insert_quota_def same_store_def same_versions_def)
  have sv: "same_versions s t" using st by (simp add: same_store_def)
  have res: "reserved_total t a = reserved_total s a + reserving a i" for a
    using sum_hm_insert [OF state_okD(7) [OF ok], of "reserving a" "ui_id i" i] none
    by (simp add: reserved_total_def ti)
  have ur: "unat r = unat (reserved_bytes q) + unat (ui_expected_size_bytes i)"
    by (rule unat_checked_add [OF r])
  have "account_ok (rs_quotas t a) (used_total t a) (reserved_total t a)" for a
  proof -
    have acc: "account_ok (rs_quotas s a) (used_total s a) (reserved_total s a)"
      using state_okD(3) [OF ok] by (simp add: quota_ok_def)
    then show ?thesis
      using res [of a] q room ur i(2)
      by (cases "a = ui_application_id i")
        (auto simp: tq same_versions_eqs [OF sv] account_ok_def reserving_def word_le_nat_alt unat_available_bytes)
  qed
  moreover have "maps_ok t" using state_okD(4) [OF ok] st
    by (auto simp: maps_ok_def ti same_store_def same_versions_def split: if_splits)
  ultimately have "repo_ok t" using state_okD(2) [OF ok] same_store_eqs [OF st]
    by (simp add: repo_ok_def store_ok_def quota_ok_def)
  moreover have vals: "hm_values (rs_intents t) = hm_values (rs_intents s) @ [i]"
    by (rule hm_insert_split [OF state_okD(7) [OF ok], of "ui_id i" i]) (use none in \<open>simp_all add: ti\<close>)
  have "intents_ok uc t"
    using state_okD(6) [OF ok] i new
    unfolding intents_ok_def vals same_versions_eqs [OF sv] by auto
  ultimately show ?thesis by (simp add: state_ok_def t_def)
qed (use ok in simp)

section \<open>Staging, claiming and releasing\<close>

text \<open>The operation returns and the state it returns satisfies the invariant.\<close>

definition safe :: "unicode_tables \<Rightarrow> (repo_state \<times> 'r) option \<Rightarrow> bool" where
  "safe uc r \<longleftrightarrow> (\<exists>t x. r = Some (t, x) \<and> state_ok uc t)"

lemma safe_simps [simp]: "safe uc (Some (t, x)) \<longleftrightarrow> state_ok uc t" "\<not> safe uc None"
  by (simp_all add: safe_def)

lemma safe_map_option:
  "r \<noteq> None \<Longrightarrow> (\<And>j. r = Some j \<Longrightarrow> state_ok uc (f j)) \<Longrightarrow> safe uc (map_option (\<lambda>j. (f j, g j)) r)"
  by (cases r) auto

lemma complete_upload_intent_staging_safe:
  assumes ok: "state_ok uc s"
  shows "safe uc (complete_upload_intent_staging uc s k tag ck n now)"
proof (cases "hm_get (rs_intents s) k")
  case (Some i)
  note i = stored_intent [OF ok Some]
  have "rebuild_intent uc i IntentReady (Some (tag, ck, n)) None None now \<noteq> None"
    if "ui_expected_size_bytes i = n"
    using rebuild_with_facts [of uc i IntentReady None None] i(1) that by (simp add: intent_state_is_valid_def)
  then show ?thesis
    using ok Some intent_open_update [OF ok Some]
    by (auto simp: complete_upload_intent_staging_def open_intent_def simp del: not_None_eq
        intro!: safe_map_option)
qed (use ok in \<open>simp add: complete_upload_intent_staging_def\<close>)

lemma claim_upload_intent_safe:
  assumes ok: "state_ok uc s" and "valid_token token"
  shows "safe uc (claim_upload_intent uc s k token until now)"
proof (cases "hm_get (rs_intents s) k")
  case (Some i)
  note i = stored_intent [OF ok Some]
  have "rebuild_intent uc i IntentCommitting (facts i) (Some (token, until)) None now \<noteq> None"
    if "ui_state i \<in> {IntentReady, IntentCommitting}"
    using rebuild_same_facts [OF i(1) that, of IntentCommitting "Some (token, until)" None] assms(2)
    by (simp add: intent_state_is_valid_def)
  then show ?thesis
    using ok Some intent_open_update [OF ok Some]
    by (auto simp: claim_upload_intent_def Let_def open_intent_def simp del: not_None_eq
        intro!: safe_map_option)
qed (use ok in \<open>simp add: claim_upload_intent_def\<close>)

lemma release_upload_intent_safe:
  assumes ok: "state_ok uc s"
  shows "safe uc (release_upload_intent uc s k token now)"
proof (cases "hm_get (rs_intents s) k")
  case (Some i)
  note i = stored_intent [OF ok Some]
  have "rebuild_intent uc i IntentReady (facts i) None None now \<noteq> None"
    if "ui_state i \<in> {IntentReady, IntentCommitting}"
    using rebuild_same_facts [OF i(1) that, of IntentReady None None] by (simp add: intent_state_is_valid_def)
  then show ?thesis
    using ok Some intent_open_update [OF ok Some]
    by (auto simp: release_upload_intent_def open_intent_def simp del: not_None_eq
        intro!: safe_map_option)
qed (use ok in \<open>simp add: release_upload_intent_def\<close>)

section \<open>Abort and expiry\<close>

lemma closing_rebuild:
  assumes ok: "state_ok uc s" and k: "hm_get (rs_intents s) k = Some i" and "open_intent i"
    and rel: "memory_s3_quota_after_reservation_release s i = Inr q"
    and st: "st = IntentAborted \<or> st = IntentExpired"
    and s1: "same_store s s1" "rs_intents s1 = rs_intents s" "rs_quotas s1 = rs_quotas s"
    and j: "rebuild_intent uc i st (facts i) None None now = Some j"
  shows "state_ok uc (insert_quota (insert_intent s1 k j) (ui_application_id i) q)"
proof (rule intent_close_update [OF ok k assms(3) rebuild_intent_keeps(1,2) [OF j] _ rel])
  show "\<not> open_intent j" using rebuild_intent_keeps(3) [OF j] st by (auto simp: open_intent_def)
qed (use s1 in \<open>simp_all add: insert_intent_def insert_quota_def same_store_def same_versions_def\<close>)

lemma abort_upload_intent_safe:
  assumes ok: "state_ok uc s"
  shows "safe uc (abort_upload_intent_and_enqueue_gc uc s k task now)"
proof (cases "hm_get (rs_intents s) k")
  case (Some i)
  note i = stored_intent [OF ok Some]
  have "state_ok uc (insert_quota (insert_intent (s\<lparr>rs_gc_tasks := rs_gc_tasks s @ [task]\<rparr>) k j) (ui_application_id i) q)"
    if "memory_s3_quota_after_reservation_release s i = Inr q" and "open_intent i"
      and "rebuild_intent uc i IntentAborted (facts i) None None now = Some j" for q j
    by (rule closing_rebuild [OF ok Some that(2,1) _ _ _ _ that(3)]) (simp_all add: same_store_def same_versions_def)
  then show ?thesis
    using ok Some rebuild_closed [OF i(1), of IntentAborted]
    by (auto simp: abort_upload_intent_and_enqueue_gc_def open_intent_def simp del: not_None_eq
        split: sum.split intro!: safe_map_option)
qed (use ok in \<open>simp add: abort_upload_intent_and_enqueue_gc_def\<close>)

lemma gc_frame:
  assumes "enqueue_gc_tasks s tasks = Inr s1"
  shows "rs_intents s1 = rs_intents s" "rs_quotas s1 = rs_quotas s" "rs_objects s1 = rs_objects s"
    "same_store s s1" "rs_multipart_uploads s1 = rs_multipart_uploads s" "rs_buckets s1 = rs_buckets s"
  using enqueue_gc_tasks_Ok [OF assms] by (auto simp: same_store_def same_versions_def)

lemma expire_one_intent_ok:
  assumes ok: "state_ok uc s" and k: "\<And>i. hm_get (rs_intents s) k = Some i \<Longrightarrow> open_intent i"
  shows "expire_one_intent uc new_id now n s k \<noteq> None"
    and "expire_one_intent uc new_id now n s k = Some (Inr t) \<Longrightarrow>
      state_ok uc t \<and> (\<exists>j. rs_intents t = hm_insert k j (rs_intents s) \<and> \<not> open_intent j)"
proof -
  have step: "state_ok uc (insert_quota (insert_intent s1 k j) (ui_application_id i) q)"
    if "hm_get (rs_intents s) k = Some i" and "memory_s3_quota_after_reservation_release s i = Inr q"
      and "enqueue_gc_tasks s tasks = Inr s1"
      and "rebuild_intent uc i IntentExpired (facts i) None None now = Some j" for i q s1 j tasks
    by (rule closing_rebuild [OF ok that(1) k [OF that(1)] that(2) _ _ _ _ that(4)]) (use gc_frame [OF that(3)] in simp_all)
  show "expire_one_intent uc new_id now n s k \<noteq> None"
    using rebuild_closed [OF stored_intent(1) [OF ok], of k _ IntentExpired]
    by (auto simp: expire_one_intent_def split: option.split sum.split)
  assume run: "expire_one_intent uc new_id now n s k = Some (Inr t)"
  then obtain i q s1 j tasks where "hm_get (rs_intents s) k = Some i"
    and "memory_s3_quota_after_reservation_release s i = Inr q"
    and gc: "enqueue_gc_tasks s tasks = Inr s1"
    and j: "rebuild_intent uc i IntentExpired (facts i) None None now = Some j"
    and t: "t = insert_quota (insert_intent s1 k j) (ui_application_id i) q"
    by (auto simp: expire_one_intent_def result_simps simp del: enqueue_gc_tasks.simps list.map
        split: option.splits sum.splits)
  then have "state_ok uc t" using step by blast
  moreover have "\<not> open_intent j" using rebuild_intent_keeps(3) [OF j] by (simp add: open_intent_def)
  moreover have "rs_intents t = hm_insert k j (rs_intents s)"
    by (simp add: t insert_intent_def gc_frame [OF gc])
  ultimately show "state_ok uc t \<and> (\<exists>j. rs_intents t = hm_insert k j (rs_intents s) \<and> \<not> open_intent j)" by blast
qed

lemma expire_intents_loop_ok:
  assumes "state_ok uc s" and "distinct ks"
    and "\<And>k i. k \<in> set ks \<Longrightarrow> hm_get (rs_intents s) k = Some i \<Longrightarrow> open_intent i"
  shows "\<exists>r. expire_intents_loop uc new_id now n s ks = Some r \<and> (\<forall>t. r = Inr t \<longrightarrow> state_ok uc t)"
  using assms
proof (induction ks arbitrary: s)
  case (Cons k ks)
  have first: "\<And>i. hm_get (rs_intents s) k = Some i \<Longrightarrow> open_intent i" by (rule Cons.prems(3) [OF list.set_intros(1)])
  note one = expire_one_intent_ok [OF Cons.prems(1) first, where new_id = new_id and now = now and n = n]
  show ?case
  proof (cases "expire_one_intent uc new_id now n s k")
    case (Some r)
    show ?thesis
    proof (cases r)
      case (Inr t)
      with Some one(2) [where t = t] obtain j where t: "state_ok uc t" "rs_intents t = hm_insert k j (rs_intents s)"
        by auto
      have "\<exists>r. expire_intents_loop uc new_id now n t ks = Some r \<and> (\<forall>t. r = Inr t \<longrightarrow> state_ok uc t)"
        using Cons.prems(2,3) t by (intro Cons.IH) (auto split: if_splits)
      then show ?thesis using Some Inr by simp
    qed (use Some in simp)
  qed (use one(1) in simp)
qed simp

lemma expirable_ids:
  fixes now :: timestamp and limit :: nat
  assumes ok: "state_ok uc s"
  defines "ids \<equiv> take limit (sort (map ui_id (filter (expirable now) (hm_values (rs_intents s)))))"
  shows "distinct ids"
    and "k \<in> set ids \<Longrightarrow> hm_get (rs_intents s) k = Some i \<Longrightarrow> open_intent i"
proof -
  have keys: "map ui_id (hm_values (rs_intents s)) = map fst (rs_intents s)"
  proof (rule nth_equalityI)
    fix x assume "x < length (map ui_id (hm_values (rs_intents s)))"
    then have "rs_intents s ! x \<in> set (rs_intents s)" by simp
    then have "hm_get (rs_intents s) (fst (rs_intents s ! x)) = Some (snd (rs_intents s ! x))"
      using state_okD(7) [OF ok] by (metis map_of_is_SomeI prod.collapse)
    then have "ui_id (snd (rs_intents s ! x)) = fst (rs_intents s ! x)" by (rule stored_intent(2) [OF ok])
    then show "map ui_id (hm_values (rs_intents s)) ! x = map fst (rs_intents s) ! x"
      using \<open>x < _\<close> by simp
  qed simp
  then have "distinct (map ui_id (hm_values (rs_intents s)))" using state_okD(7) [OF ok] by metis
  then show "distinct ids" unfolding ids_def by (simp add: distinct_map_filter del: map_map)
  assume "k \<in> set ids" and k: "hm_get (rs_intents s) k = Some i"
  then obtain j where j: "j \<in> set (hm_values (rs_intents s))" "expirable now j" "ui_id j = k"
    by (force simp: ids_def dest!: in_set_takeD)
  then obtain k' where k': "hm_get (rs_intents s) k' = Some j"
    using hm_values_get [OF state_okD(7) [OF ok]] by blast
  then have "k' = k" using stored_intent(2) [OF ok k'] j(3) by simp
  with k k' j(2) show "open_intent i" by (auto simp: expirable_def open_intent_def)
qed

lemma expire_upload_intents_safe:
  assumes ok: "state_ok uc s"
  shows "safe uc (expire_upload_intents uc new_id s now limit n)"
proof -
  let ?ids = "take limit (sort (map ui_id (filter (expirable now) (hm_values (rs_intents s)))))"
  have "\<exists>r. expire_intents_loop uc new_id now n s ?ids = Some r \<and> (\<forall>t. r = Inr t \<longrightarrow> state_ok uc t)"
    by (rule expire_intents_loop_ok [OF ok expirable_ids [OF ok]])
  then obtain r where "expire_intents_loop uc new_id now n s ?ids = Some r" and "\<And>t. r = Inr t \<Longrightarrow> state_ok uc t"
    by blast
  then show ?thesis using ok by (cases r) (auto simp: expire_upload_intents_def Let_def)
qed

section \<open>Commit\<close>

lemma commit_quota_Ok:
  assumes "memory_s3_commit_quota s i n = Inr q'"
  obtains q where "rs_quotas s (ui_application_id i) = Some q"
    and "unat (ui_expected_size_bytes i) \<le> unat (reserved_bytes q)"
    and "unat n \<le> unat (used_bytes q) + unat (ui_expected_size_bytes i)"
    and "unat (used_bytes q') = unat (used_bytes q) + unat (ui_expected_size_bytes i) - unat n"
    and "unat (reserved_bytes q') = unat (reserved_bytes q) - unat (ui_expected_size_bytes i)"
    and "quota_bytes q' = quota_bytes q"
proof -
  from assms obtain q r m u where q: "rs_quotas s (ui_application_id i) = Some q"
    and r: "checked_sub (reserved_bytes q) (ui_expected_size_bytes i) = Some r"
    and m: "checked_add (used_bytes q) (ui_expected_size_bytes i) = Some m"
    and u: "checked_sub m n = Some u"
    and q': "q' = \<lparr>quota_bytes = quota_bytes q, used_bytes = u, reserved_bytes = r\<rparr>"
    by (auto simp: memory_s3_commit_quota_def result_simps split: if_splits bind_splits)
  then show thesis
    using that [of q] unat_checked_add [OF m] unat_checked_sub [OF u] unat_checked_sub [OF r]
    by (simp add: checked_sub_Some_iff)
qed

lemma freeze_Ok:
  assumes "freeze_memory_object_lock cal bs commit = Inr frozen"
  shows "version_core (vc_version frozen) = version_core (vc_version commit)"
    and "\<exists>v. frozen = commit\<lparr>vc_version := v\<rparr>"
  using assms
  by (auto simp: freeze_memory_object_lock_def result_simps Let_def with_initial_object_lock_def
      version_core_eq_iff split: if_splits)

lemma store_ok_intent_update:
  assumes "store_ok s" and t: "same_store s t"
    and j: "rs_intents t = hm_insert k j (rs_intents s)" "ui_id j = k"
  shows "store_ok t"
proof -
  have "maps_ok t" using assms
    by (auto simp: store_ok_def maps_ok_def same_store_def same_versions_def split: if_splits)
  with assms same_store_eqs [OF t] show ?thesis by (simp add: store_ok_def)
qed

text \<open>
  The object a commit advances: a new one for \<open>CommitCreate\<close>, the stored one for \<open>CommitAppend\<close>.
\<close>

lemma commit_target_base:
  assumes ok: "state_ok uc s" and obj: "commit_target_object s commit = Inr obj"
    and create: "\<And>ob. vc_target commit = CommitCreate ob \<Longrightarrow>
      hm_get (rs_objects s) (so_id ob) = None \<and> object_key_check (so_key ob) = Inr ()"
  obtains base where "advanced_to base (vc_version commit) (vc_committed_at commit) = Inr obj"
    and "hm_get (rs_objects s) (so_id base) \<in> {None, Some base}"
    and "object_key_check (so_key base) = Inr ()"
proof (cases "vc_target commit")
  case (CommitCreate ob)
  then show thesis using that [of ob] obj create [of ob] by (simp add: commit_target_object_def)
next
  case (CommitAppend i g)
  then obtain base where base: "hm_get (rs_objects s) i = Some base"
    and "advanced_to base (vc_version commit) (vc_committed_at commit) = Inr obj"
    using obj by (auto simp: commit_target_object_def result_simps split: if_splits)
  moreover have "so_id base = i" using stored_object_id [OF state_okD(1) [OF ok] base] .
  ultimately show thesis
    using that [of base] stored_key [OF state_okD(1) [OF ok], of base] by simp
qed

lemma versions_of_absent:
  assumes "versions_ok s" and "hm_get (rs_objects s) i = None"
  shows "versions_of s i = []"
proof (rule ccontr)
  assume "versions_of s i \<noteq> []"
  then have "hd (versions_of s i) \<in> set (versions_of s i)" by simp
  then have "filed s i (hd (versions_of s i))" using assms(1) unfolding versions_ok_def by blast
  then show False using assms(2) by (simp add: filed_def)
qed

lemma fresh_active:
  "versions_ok s \<Longrightarrow> ov_id v \<notin> version_ids s \<Longrightarrow> ov_state v = VersionCommitted \<Longrightarrow> active s v"
  by (auto simp: versions_ok_def active_unhidden)

lemma accounts_commit:
  assumes ok: "state_ok uc s" and k: "hm_get (rs_intents s) k = Some i" "open_intent i"
    and j: "rs_intents t = hm_insert k j (rs_intents s)" "\<not> open_intent j"
    and q: "memory_s3_commit_quota s i n = Inr q"
    and used: "\<And>a. used_total t a + (if a = ui_application_id i then unat n else 0)
                 = used_total s a + (if a = ui_application_id i then unat (ui_expected_size_bytes i) else 0)"
    and quotas: "rs_quotas t = (rs_quotas s)(ui_application_id i \<mapsto> q)"
  shows "quota_ok t"
  unfolding quota_ok_def
proof
  fix a
  have res: "reserved_total s a = reserving a i + reserved_total t a"
    using reserved_replace [OF state_okD(7) [OF ok] k(1) j(1), of a] j(2) by (simp add: reserving_def [of a j])
  have acc: "account_ok (rs_quotas s a) (used_total s a) (reserved_total s a)"
    using state_okD(3) [OF ok] by (simp add: quota_ok_def)
  show "account_ok (rs_quotas t a) (used_total t a) (reserved_total t a)"
  proof (cases "a = ui_application_id i")
    case True
    from q obtain q0 where q0: "rs_quotas s (ui_application_id i) = Some q0"
      "unat (ui_expected_size_bytes i) \<le> unat (reserved_bytes q0)"
      "unat n \<le> unat (used_bytes q0) + unat (ui_expected_size_bytes i)"
      "unat (used_bytes q) = unat (used_bytes q0) + unat (ui_expected_size_bytes i) - unat n"
      "unat (reserved_bytes q) = unat (reserved_bytes q0) - unat (ui_expected_size_bytes i)"
      "quota_bytes q = quota_bytes q0" by (rule commit_quota_Ok)
    have "unat (used_bytes q0) = used_total s a" "unat (reserved_bytes q0) = reserved_total s a"
      "used_total s a + reserved_total s a \<le> unat (quota_bytes q0)"
      using acc True q0(1) by (auto simp: account_ok_def)
    then show ?thesis
      using True q0 used [of a] res k(2) by (simp add: account_ok_def quotas reserving_def)
  next
    case False
    then show ?thesis using acc used [of a] res by (simp add: quotas reserving_def)
  qed
qed

text \<open>The state after the replaced null version, if there is one, is superseded.\<close>

definition superseded :: "repo_state \<Rightarrow> object_version option \<Rightarrow> repo_state" where
  "superseded s old = (case old of None \<Rightarrow> s | Some w \<Rightarrow> supersede_version s w)"

definition replaced_bytes :: "object_version option \<Rightarrow> u64" where
  "replaced_bytes old = (case old of None \<Rightarrow> 0 | Some w \<Rightarrow> memory_object_version_size w)"

lemma superseded_frame [simp]:
  "rs_objects (superseded s old) = rs_objects s" "rs_intents (superseded s old) = rs_intents s"
  "rs_quotas (superseded s old) = rs_quotas s" "version_ids (superseded s old) = version_ids s"
  using hides_version_ids [OF hides_supersede_version]
  by (auto simp: superseded_def split: option.split)

lemma superseded_store:
  assumes "store_ok s" and "\<And>w. old = Some w \<Longrightarrow> w \<in> set (memory_active_versions s i)"
  shows "store_ok_except (superseded s old) i"
  using assms store_ok_exceptI [OF assms(1), of i] store_ok_except_hide [OF _ _ hides_supersede_version, of s i]
  by (auto simp: superseded_def split: option.split)

lemma superseded_used:
  assumes ok: "state_ok uc s" and old: "\<And>w. old = Some w \<Longrightarrow> w \<in> set (memory_active_versions s (so_id base))"
    and base: "hm_get (rs_objects s) (so_id base) \<in> {None, Some base}"
  shows "used_total s a = used_total (superseded s old) a
    + (if a = so_application_id base then unat (replaced_bytes old) else 0)"
proof (cases old)
  case (Some w)
  note w = old [OF Some]
  have "versions_of s (so_id base) \<noteq> []" using active_member(1) [OF w] by auto
  then have "hm_get (rs_objects s) (so_id base) = Some base"
    using versions_of_absent [OF state_okD(5) [OF ok]] base by blast
  then have app: "ov_application_id w = so_application_id base"
    by (rule active_application [OF state_okD(1) [OF ok] w])
  have "used_total s a = charged s a w + used_total (supersede_version s w) a"
    by (rule used_total_hides [OF hides_supersede_version active_member(3) [OF w]])
      (use state_okD(5) [OF ok] in \<open>simp add: versions_ok_def\<close>)
  then show ?thesis
    using Some app active_member(2) [OF w] by (simp add: superseded_def replaced_bytes_def charged_def)
qed (simp add: superseded_def replaced_bytes_def)

lemma apply_commit_safe:
  assumes ok: "state_ok uc s" and k: "hm_get (rs_intents s) k = Some i"
    and st: "ui_state i = IntentCommitting" and id: "ui_proposed_version_id i = ov_id v"
    and app: "ui_application_id i = ov_application_id v" and size: "memory_object_version_size v = ui_expected_size_bytes i"
    and v: "v = vc_version commit"
    and adv: "advanced_to base v now = Inr obj" and base: "hm_get (rs_objects s) (so_id base) \<in> {None, Some base}"
    and key: "object_key_check (so_key base) = Inr ()"
    and old: "\<And>w. old = Some w \<Longrightarrow> w \<in> set (memory_active_versions s (ov_object_id v))"
    and q: "memory_s3_commit_quota s i (replaced_bytes old) = Inr q"
  shows "safe uc (apply_commit uc s k i commit old q obj)"
proof -
  note i = stored_intent [OF ok k]
  have op: "open_intent i" using st by (simp add: open_intent_def)
  have new: "ov_id v \<notin> version_ids s" using i(4) [OF op] id by simp
  obtain j where j: "rebuild_intent uc i IntentCommitted (facts i) None (Some (so_id obj, ov_id v)) (vc_committed_at commit) = Some j"
    using rebuild_same_facts [OF i(1), of IntentCommitted None "Some (so_id obj, ov_id v)"] st
    by (auto simp: intent_state_is_valid_def)
  note keeps = rebuild_intent_keeps [OF j]
  have cj: "\<not> open_intent j" using keeps(3) by (simp add: open_intent_def)
  let ?s1 = "superseded s old"
  let ?u = "append_version ?s1 v obj"
  obtain t where run: "apply_commit uc s k i commit old q obj = Some (t, Ok obj)"
    and st': "same_store ?u t" and ti: "rs_intents t = hm_insert k j (rs_intents s)"
    and tq: "rs_quotas t = (rs_quotas s)(ui_application_id i \<mapsto> q)"
  proof -
    have "rs_intents ?s1 = rs_intents s" "rs_quotas ?s1 = rs_quotas s" by simp_all
    then show thesis
      using that j
      by (auto simp: apply_commit_def Let_def v same_store_def same_versions_def insert_quota_def
          insert_intent_def insert_object_def push_version_def simp flip: superseded_def)
  qed
  have objid: "ov_object_id v = so_id base" "so_id obj = so_id base" "so_key obj = so_key base"
    "ov_state v = VersionCommitted" "so_application_id base = ov_application_id v"
    using adv by (auto simp: advanced_to_Ok_iff)
  have old': "\<And>w. old = Some w \<Longrightarrow> w \<in> set (memory_active_versions s (so_id base))" using old objid(1) by simp
  have s1: "store_ok_except ?s1 (so_id base)" by (rule superseded_store [OF state_okD(2) [OF ok] old'])
  then have vs1: "versions_ok ?s1" "hm_ok (rs_versions ?s1)" by (auto simp: store_ok_except_def maps_ok_def)
  have appd: "appendable ?s1 v obj" by (rule appendable_advanced(1) [OF adv]) (use new base in simp_all)
  have su: "store_ok ?u" by (rule store_ok_append [OF _ appd]) (use s1 objid key in simp_all)
  have sv: "same_versions ?u t" using st' by (simp add: same_store_def)
  have "ui_id j = k" using keeps(2) i(2) by (simp add: intent_core_def)
  then have "store_ok t" using store_ok_intent_update [OF su st'] ti by simp
  moreover have "quota_ok t"
  proof (rule accounts_commit [OF ok k op ti cj q _ tq])
    fix a
    have "used_total t a = used_total ?s1 a + charged ?s1 a v"
      using used_total_push [OF vs1(2), of "so_id obj" v a] by (simp add: same_versions_eqs [OF sv])
    moreover have "charged ?s1 a v = (if a = ui_application_id i then unat (ui_expected_size_bytes i) else 0)"
      using fresh_active [OF vs1(1), of v] new objid(4) app size by (simp add: charged_def)
    ultimately show "used_total t a + (if a = ui_application_id i then unat (replaced_bytes old) else 0)
      = used_total s a + (if a = ui_application_id i then unat (ui_expected_size_bytes i) else 0)"
      using superseded_used [where old = old and a = a, OF ok old' base] objid(5) app by simp
  qed
  moreover have "version_ids t = insert (ov_id v) (version_ids s)"
    using version_ids_append [OF vs1(2), of obj v] same_versions_eqs(6) [OF sv] by simp
  then have "intents_ok uc t"
    by (intro intents_ok_replace [OF state_okD(6,7) [OF ok] k ti keeps(1,2)]) (use cj id in auto)
  ultimately show ?thesis by (simp add: run state_ok_def repo_ok_def)
qed

definition commit_enabled :: "repo_state \<Rightarrow> s3_object_version_commit \<Rightarrow> bool" where
  "commit_enabled s commit \<longleftrightarrow>
     (case vc_target commit of
        CommitCreate obj \<Rightarrow> hm_get (rs_objects s) (so_id obj) = None \<and> object_key_check (so_key obj) = Inr ()
      | CommitAppend _ _ \<Rightarrow> True)"

lemma commit_memory_upload_intent_safe:
  assumes ok: "state_ok uc s" and en: "commit_enabled s commit"
  shows "safe uc (commit_memory_upload_intent uc cal s k token commit)"
proof (cases "hm_get (rs_intents s) k")
  case (Some i)
  have step: "safe uc (apply_commit uc s k i frozen old q obj)"
    if fence: "commit_fenced i token commit" and pay: "ov_payload (vc_version commit) = PayloadObject p"
      and "commit_facts_match i p" and prep: "prepare_commit cal s i commit = Inr (frozen, old, q, obj)" for p frozen old q obj
  proof -
    let ?v = "vc_version frozen"
    from prep have fr: "freeze_memory_object_lock cal (rs_buckets s) commit = Inr frozen"
      and old: "old = (if ov_is_null_version ?v
              then List.find (\<lambda>v. ov_is_null_version v \<and> active s v) (versions_of s (ov_object_id ?v)) else None)"
      and q: "memory_s3_commit_quota s i (replaced_bytes old) = Inr q"
      and obj: "commit_target_object s frozen = Inr obj"
      by (auto simp: prepare_commit_def result_simps Let_def replaced_bytes_def split: if_splits)
    note core = freeze_Ok(1) [OF fr, unfolded version_core_eq_iff]
    obtain base where "advanced_to base ?v (vc_committed_at frozen) = Inr obj"
      and "hm_get (rs_objects s) (so_id base) \<in> {None, Some base}" and "object_key_check (so_key base) = Inr ()"
      by (rule commit_target_base [OF ok obj])
        (use en freeze_Ok(2) [OF fr] in \<open>auto simp: commit_enabled_def split: s3_object_commit_target.splits\<close>)
    moreover have "w \<in> set (memory_active_versions s (ov_object_id ?v))" if "old = Some w" for w
      using that old by (auto simp: memory_active_versions_def dest!: find_Some_D split: if_splits)
    moreover have "memory_object_version_size ?v = ui_expected_size_bytes i"
      using pay core \<open>commit_facts_match i p\<close> by (simp add: memory_object_version_size_def commit_facts_match_def)
    ultimately show ?thesis
      using fence core q
      by (intro apply_commit_safe [OF ok Some _ _ _ _ refl]) (auto simp: commit_fenced_def)
  qed
  have fail: "state_ok uc (s\<lparr>rs_fail_commit := False\<rparr>)"
    using ok state_ok_frame [of s "s\<lparr>rs_fail_commit := False\<rparr>"] by (simp add: same_store_def same_versions_def)
  show ?thesis
    using Some ok step fail
    by (auto simp: commit_memory_upload_intent_def split: sum.split object_version_payload.split prod.split)
qed (use ok in \<open>simp add: commit_memory_upload_intent_def split: sum.split\<close>)

lemma multipart_rows_frame:
  "state_ok uc (s\<lparr>rs_multipart_uploads := m\<rparr>) = state_ok uc s"
  by (rule state_ok_frame) (simp_all add: same_store_def same_versions_def)

lemma commit_multipart_object_version_safe:
  assumes ok: "state_ok uc s" and en: "commit_enabled s commit"
  shows "safe uc (commit_multipart_object_version uc cal s upload_id token commit tag ck)"
proof -
  have inner: "commit_memory_upload_intent uc cal s k token commit \<noteq> None"
    "commit_memory_upload_intent uc cal s k token commit = Some (a, x) \<Longrightarrow> state_ok uc a" for k a x
    using commit_memory_upload_intent_safe [OF ok en, of cal k token] by (auto simp: safe_def)
  show ?thesis
    using ok
    by (auto simp: commit_multipart_object_version_def multipart_rows_frame inner(1) dest: inner(2)
        split: sum.split object_version_payload.split option.split)
qed

section \<open>Lifecycle execution\<close>

lemma abort_intent_keeps:
  assumes "abort_intent uc i now = Inr j"
  shows "intent_valid uc j" "intent_core j = intent_core i" "\<not> open_intent j"
proof -
  from assms have v: "intent_valid uc j" and j: "j = i\<lparr>ui_state := IntentAborted, ui_lease_token := None,
      ui_lease_until := None, ui_committed_object_id := None, ui_committed_version_id := None, ui_updated_at := now\<rparr>"
    by (auto simp: abort_intent_def intent_from_persistence_iff)
  show "intent_valid uc j" by (rule v)
  show "intent_core j = intent_core i" "\<not> open_intent j" by (simp_all add: j intent_core_def open_intent_def)
qed

lemma open_intent_iff:
  "open_intent i \<longleftrightarrow> ui_state i \<noteq> IntentCommitted \<and> ui_state i \<noteq> IntentAborted \<and> ui_state i \<noteq> IntentExpired"
  by (cases "ui_state i") (auto simp: open_intent_def)

text \<open>The quota released by the abort is written back only after the remaining tasks are queued.\<close>

lemma abort_multipart_intent_ok:
  assumes ok: "state_ok uc s" and run: "abort_multipart_intent uc new_id s upload command = Inr (Inr (s1, released))"
    and t: "same_store s1 t" "rs_intents t = rs_intents s1"
      "rs_quotas t = (case released of None \<Rightarrow> rs_quotas s1 | Some (a, q) \<Rightarrow> (rs_quotas s1)(a \<mapsto> q))"
  shows "state_ok uc t"
proof (cases "mu_upload_intent_id upload")
  case None
  with run have "s1 = s" "released = None" by (auto simp: abort_multipart_intent_def)
  then show ?thesis using state_ok_frame [of s t uc] ok t by simp
next
  case (Some k)
  from run Some obtain i where k: "hm_get (rs_intents s) k = Some i" and nc: "ui_state i \<noteq> IntentCommitted"
    by (auto simp: abort_multipart_intent_def result_simps split: if_splits)
  show ?thesis
  proof (cases "open_intent i")
    case True
    from run Some k True obtain q tasks s0 j where
      rel: "memory_s3_quota_after_reservation_release s i = Inr q"
      and gc: "enqueue_gc_tasks s tasks = Inr s0"
      and j: "abort_intent uc i (xc_evaluated_at command) = Inr j"
      and s1: "s1 = insert_intent s0 k j" and released: "released = Some (ui_application_id i, q)"
      by (auto simp: abort_multipart_intent_def result_simps Let_def open_intent_iff
          simp del: enqueue_gc_tasks.simps list.map split: if_splits)
    have fr: "same_store s s1" "rs_intents s1 = hm_insert k j (rs_intents s)" "rs_quotas s1 = rs_quotas s"
      using gc_frame [OF gc] by (simp_all add: s1 insert_intent_def same_store_def same_versions_def)
    show ?thesis
      by (rule intent_close_update [OF ok k True abort_intent_keeps [OF j] rel])
        (use fr t released in \<open>simp_all add: same_store_def same_versions_def\<close>)
  next
    case False
    with run Some k nc obtain tasks where gc: "enqueue_gc_tasks s tasks = Inr s1" and "released = None"
      by (auto simp: abort_multipart_intent_def result_simps Let_def open_intent_iff
          simp del: enqueue_gc_tasks.simps list.map split: if_splits)
    then show ?thesis
      using state_ok_frame [of s t uc] ok t gc_frame [OF gc] by (simp add: same_store_def same_versions_def)
  qed
qed

lemma multipart_abort_cases:
  assumes run: "execute_memory_multipart_abort uc new_id s upload_id key initiated command = Inr (t, out)"
    and "t \<noteq> s"
  obtains upload s1 released tasks s2 where
    "abort_multipart_intent uc new_id s upload command = Inr (Inr (s1, released))"
    and "enqueue_gc_tasks s1 tasks = Inr s2"
    and "t = (let s3 = s2\<lparr>rs_multipart_uploads := hm_insert upload_id
                     (aborted_multipart_row upload (xc_evaluated_at command)) (rs_multipart_uploads s2)\<rparr>
                 in case released of None \<Rightarrow> s3 | Some (a, q) \<Rightarrow> insert_quota s3 a q)"
proof -
  from run \<open>t \<noteq> s\<close> obtain upload where "hm_get (rs_multipart_uploads s) upload_id = Some upload"
    by (cases "hm_get (rs_multipart_uploads s) upload_id") (auto simp: execute_memory_multipart_abort_def)
  with run \<open>t \<noteq> s\<close> obtain r where r: "abort_multipart_intent uc new_id s upload command = Inr r"
    and rest: "(case r of Inl outcome \<Rightarrow> Ok (s, outcome)
      | Inr (s1, released) \<Rightarrow>
          and_then (enqueue_gc_tasks s1 (map (\<lambda>key. multipart_gc_task new_id upload None key command)
             (case rs_multipart_storage_keys s1 upload_id of None \<Rightarrow> [] | Some ks \<Rightarrow> ks))) (\<lambda>s2.
            let s3 = s2\<lparr>rs_multipart_uploads := hm_insert upload_id
                   (aborted_multipart_row upload (xc_evaluated_at command)) (rs_multipart_uploads s2)\<rparr>
            in Ok (case released of None \<Rightarrow> s3 | Some (a, q) \<Rightarrow> insert_quota s3 a q, LcApplied))) = Inr (t, out)"
    by (auto simp: execute_memory_multipart_abort_def and_then_Ok_iff split: if_splits)
  from rest \<open>t \<noteq> s\<close> obtain s1 released where "r = Inr (s1, released)" by (auto split: sum.splits)
  with r rest show thesis using that by (auto simp: and_then_Ok_iff Let_def)
qed

lemma multipart_abort_ok:
  assumes ok: "state_ok uc s"
    and run: "execute_memory_multipart_abort uc new_id s upload_id key initiated command = Inr (t, out)"
  shows "state_ok uc t"
proof (cases "t = s")
  case False
  from run False show ?thesis
  proof (rule multipart_abort_cases)
    fix upload s1 released tasks s2
    assume ab: "abort_multipart_intent uc new_id s upload command = Inr (Inr (s1, released))"
      and gc: "enqueue_gc_tasks s1 tasks = Inr s2"
      and t: "t = (let s3 = s2\<lparr>rs_multipart_uploads := hm_insert upload_id
                     (aborted_multipart_row upload (xc_evaluated_at command)) (rs_multipart_uploads s2)\<rparr>
                 in case released of None \<Rightarrow> s3 | Some (a, q) \<Rightarrow> insert_quota s3 a q)"
    show ?thesis
      by (rule abort_multipart_intent_ok [OF ok ab])
        (use gc_frame [OF gc] in \<open>auto simp: t Let_def insert_quota_def same_store_def same_versions_def split: option.split\<close>)
  qed
qed (use ok in simp)

lemma execute_s3_lifecycle_ok:
  assumes ok: "state_ok uc s" and new: "xc_delete_marker_id command \<notin> version_ids s"
      "\<And>i. i \<in> set (hm_values (rs_intents s)) \<Longrightarrow> ui_proposed_version_id i \<noteq> xc_delete_marker_id command"
  shows "state_ok uc (fst (execute_s3_lifecycle uc new_id s command))"
proof -
  have "state_ok uc t" if run: "execute_lifecycle_target uc new_id s bucket command = Inr (t, out)" for bucket t out
  proof (cases "xc_target command")
    case (AbortMultipart upload_id key initiated)
    then show ?thesis using run multipart_abort_ok [OF ok] by (simp add: execute_lifecycle_target_def)
  next
    case (ExpireCurrent i key cur created)
    then have "evolved s t (xc_delete_marker_id command)"
      using run current_expiration_evolved [OF state_okD(1) [OF ok] new(1)] by (simp add: execute_lifecycle_target_def)
    then show ?thesis using state_ok_evolved [OF ok] new(2) by blast
  next
    case (ExpireNoncurrent i key vid became)
    then have "evolved s t (xc_delete_marker_id command)"
      using run noncurrent_expiration_evolved [OF state_okD(1) [OF ok]] by (simp add: execute_lifecycle_target_def)
    then show ?thesis using state_ok_evolved [OF ok] new(2) by blast
  next
    case (RemoveExpiredDeleteMarker i key vid)
    then have "evolved s t (xc_delete_marker_id command)"
      using run expired_marker_evolved [OF state_okD(1) [OF ok]] by (simp add: execute_lifecycle_target_def)
    then show ?thesis using state_ok_evolved [OF ok] new(2) by blast
  qed
  then show ?thesis
    using ok by (simp add: execute_s3_lifecycle_def split: option.split sum.split prod.split)
qed

end
