(* ===== verification/Memory_S3_History.thy ===== *)
theory Memory_S3_History
  imports Memory_S3_Commit MH_Aggregates
begin

text \<open>
  Histories of the in-memory S3 repository: every write operation of the ports as one step, the
  invariant over arbitrary sequences of steps, and what it means for clients of the repository.
\<close>

section \<open>Operations\<close>

datatype repo_op =
    OpSetQuota application_id u64
  | OpCreateBucket s3_bucket
  | OpDeleteBucket application_id str
  | OpSetVersioning application_id str versioning_status timestamp
  | OpReplaceObjectLock application_id str "default_retention option" timestamp
  | OpReplaceLifecycle application_id str "s3_lifecycle_configuration option" timestamp
  | OpReplaceTagging s3_object_tagging_command s3_object_tag_set
  | OpDelete delete_s3_object_command
  | OpPutLock put_s3_object_lock_command
  | OpCreateIntent upload_intent
  | OpStage upload_intent_id entity_tag checksum u64 timestamp
  | OpClaim upload_intent_id str timestamp timestamp
  | OpRelease upload_intent_id str timestamp
  | OpAbort upload_intent_id new_storage_gc_task timestamp
  | OpExpire timestamp nat u32
  | OpCommit upload_intent_id str s3_object_version_commit
  | OpCommitMultipart str str s3_object_version_commit entity_tag checksum
  | OpLifecycle execute_s3_lifecycle_command

text \<open>\<open>None\<close> is a panic.\<close>

fun repo_apply ::
  "unicode_tables \<Rightarrow> 'd calendar \<Rightarrow> (str \<Rightarrow> storage_gc_task_id) \<Rightarrow> repo_state \<Rightarrow> repo_op \<Rightarrow> repo_state option" where
  "repo_apply uc cal new_id s (OpSetQuota a n) = Some (fst (set_quota_bytes s a n))"
| "repo_apply uc cal new_id s (OpCreateBucket b) = Some (create_s3_bucket s b)"
| "repo_apply uc cal new_id s (OpDeleteBucket a name) = Some (fst (delete_s3_bucket s a name))"
| "repo_apply uc cal new_id s (OpSetVersioning a name st now) = Some (fst (set_s3_bucket_versioning s a name st now))"
| "repo_apply uc cal new_id s (OpReplaceObjectLock a name r now) =
     Some (fst (replace_s3_bucket_object_lock s a name r now))"
| "repo_apply uc cal new_id s (OpReplaceLifecycle a name l now) =
     Some (fst (replace_s3_bucket_lifecycle s a name l now))"
| "repo_apply uc cal new_id s (OpReplaceTagging c tags) = Some (fst (replace_s3_object_tagging uc s c tags))"
| "repo_apply uc cal new_id s (OpDelete c) = Some (fst (delete_s3_object s c))"
| "repo_apply uc cal new_id s (OpPutLock c) = Some (fst (put_s3_object_lock s c))"
| "repo_apply uc cal new_id s (OpCreateIntent i) = Some (fst (create_upload_intent s i))"
| "repo_apply uc cal new_id s (OpStage k tag ck n now) =
     map_option fst (complete_upload_intent_staging uc s k tag ck n now)"
| "repo_apply uc cal new_id s (OpClaim k token until now) =
     map_option fst (claim_upload_intent uc s k token until now)"
| "repo_apply uc cal new_id s (OpRelease k token now) = map_option fst (release_upload_intent uc s k token now)"
| "repo_apply uc cal new_id s (OpAbort k task now) =
     map_option fst (abort_upload_intent_and_enqueue_gc uc s k task now)"
| "repo_apply uc cal new_id s (OpExpire now limit n) =
     map_option fst (expire_upload_intents uc new_id s now limit n)"
| "repo_apply uc cal new_id s (OpCommit k token c) = map_option fst (commit_upload_intent uc cal s k token c)"
| "repo_apply uc cal new_id s (OpCommitMultipart u token c tag ck) =
     map_option fst (commit_multipart_object_version uc cal s u token c tag ck)"
| "repo_apply uc cal new_id s (OpLifecycle c) = Some (fst (execute_s3_lifecycle uc new_id s c))"

definition repo_step ::
  "unicode_tables \<Rightarrow> 'd calendar \<Rightarrow> (str \<Rightarrow> storage_gc_task_id) \<Rightarrow> repo_state \<Rightarrow> repo_op \<Rightarrow> repo_state" where
  "repo_step uc cal new_id s x = (case repo_apply uc cal new_id s x of None \<Rightarrow> s | Some t \<Rightarrow> t)"

text \<open>
  What the callers guarantee: the ids they draw are new, an upload intent comes from
  \<open>UploadIntent::new\<close>, a lease token is well formed, and a commit that creates an object names a
  new object with a valid key.
\<close>

definition fresh_version_id :: "repo_state \<Rightarrow> object_version_id \<Rightarrow> bool" where
  "fresh_version_id s x \<longleftrightarrow> x \<notin> version_ids s \<and> x \<notin> ui_proposed_version_id ` set (hm_values (rs_intents s))"

fun repo_enabled :: "unicode_tables \<Rightarrow> repo_state \<Rightarrow> repo_op \<Rightarrow> bool" where
  "repo_enabled uc s (OpDelete c) = fresh_version_id s (dc_delete_marker_id c)"
| "repo_enabled uc s (OpLifecycle c) = fresh_version_id s (xc_delete_marker_id c)"
| "repo_enabled uc s (OpCreateIntent i) =
     (intent_valid uc i \<and> ui_state i = IntentStaging \<and> fresh_version_id s (ui_proposed_version_id i))"
| "repo_enabled uc s (OpClaim k token until now) = valid_token token"
| "repo_enabled uc s (OpCommit k token c) = commit_enabled s c"
| "repo_enabled uc s (OpCommitMultipart u token c tag ck) = commit_enabled s c"
| "repo_enabled uc s _ = True"

section \<open>Every operation keeps the invariant and returns\<close>

lemma set_quota_bytes_ok:
  assumes ok: "state_ok uc s"
  shows "state_ok uc (fst (set_quota_bytes s a n))"
proof (cases "fst (set_quota_bytes s a n) = s")
  case False
  then obtain q where q: "rs_quotas s a = Some q" and le: "saturating_add (used_bytes q) (reserved_bytes q) \<le> n"
    and t: "fst (set_quota_bytes s a n) = s\<lparr>rs_quotas := (rs_quotas s)(a \<mapsto> q\<lparr>quota_bytes := n\<rparr>)\<rparr>" (is "_ = ?t")
    by (auto simp: set_quota_bytes_def not_less split: option.splits if_splits)
  have st: "same_store s ?t" and sv: "same_versions s ?t" by (simp_all add: same_store_def same_versions_def)
  have "unat (used_bytes q) + unat (reserved_bytes q) \<le> unat n"
  proof -
    have "account_ok (Some q) (used_total s a) (reserved_total s a)"
      using state_okD(3) [OF ok] q by (metis quota_ok_def)
    then have "unat (used_bytes q) + unat (reserved_bytes q) \<le> unat (quota_bytes q)" by (auto simp: account_ok_def)
    also have "\<dots> < 2 ^ 64" using unat_less_pow [of "quota_bytes q"] by simp
    finally show ?thesis
      using le by (simp add: saturating_add_def word_le_nat_alt unat_word_ariths)
  qed
  then have "account_ok (rs_quotas ?t b) (used_total ?t b) (reserved_total ?t b)" for b
    using state_okD(3) [OF ok] q
    by (cases "b = a") (auto simp: quota_ok_def account_ok_def same_versions_eqs [OF sv] reserved_total_def
        dest: spec [of _ a])
  then have "quota_ok ?t" by (simp add: quota_ok_def)
  moreover have "store_ok ?t" using store_ok_same(1) [OF st] state_okD(2) [OF ok] by simp
  moreover have "intents_ok uc ?t"
    using state_okD(6) [OF ok] unfolding intents_ok_def same_versions_eqs [OF sv] by simp
  ultimately show ?thesis by (simp add: t state_ok_def repo_ok_def)
qed (use ok in simp)

lemma create_s3_bucket_ok:
  assumes ok: "state_ok uc s"
  shows "state_ok uc (create_s3_bucket s bucket)"
proof -
  let ?t = "create_s3_bucket s bucket"
  have st: "same_store s ?t" and sv: "same_versions s ?t" and ti: "rs_intents ?t = rs_intents s"
    by (simp_all add: create_s3_bucket_def same_store_def same_versions_def)
  have "account_ok (rs_quotas ?t a) (used_total ?t a) (reserved_total ?t a)" for a
  proof -
    have acc: "account_ok (rs_quotas s a) (used_total s a) (reserved_total s a)"
      using state_okD(3) [OF ok] by (simp add: quota_ok_def)
    have "rs_quotas ?t a = rs_quotas s a \<or> rs_quotas s a = None \<and> rs_quotas ?t a = Some default_quota"
      by (auto simp: create_s3_bucket_def split: option.splits)
    then show ?thesis
      using acc unfolding same_versions_eqs [OF sv] reserved_total_def ti
      by (auto simp: account_ok_def default_quota_def simp del: sum_list_eq_0_iff)
  qed
  then have "quota_ok ?t" by (simp add: quota_ok_def)
  moreover have "store_ok ?t" using store_ok_same(1) [OF st ti] state_okD(2) [OF ok] by simp
  moreover have "intents_ok uc ?t"
    using state_okD(6) [OF ok] unfolding intents_ok_def same_versions_eqs [OF sv] ti .
  ultimately show ?thesis by (simp add: state_ok_def repo_ok_def)
qed

lemma update_configuration_frame:
  "same_store s (fst (update_configuration s a name f))"
  "rs_intents (fst (update_configuration s a name f)) = rs_intents s"
  "rs_quotas (fst (update_configuration s a name f)) = rs_quotas s"
  by (auto simp: update_configuration_def same_store_def same_versions_def split: option.split prod.split sum.split)

lemma replace_s3_object_tagging_frame:
  "same_store s (fst (replace_s3_object_tagging uc s c tags))"
  "rs_intents (fst (replace_s3_object_tagging uc s c tags)) = rs_intents s"
  "rs_quotas (fst (replace_s3_object_tagging uc s c tags)) = rs_quotas s"
  by (auto simp: replace_s3_object_tagging_def same_store_def same_versions_def
      split: sum.split s3_object_tagging_outcome.split)

lemma frame_ok:
  "state_ok uc s \<Longrightarrow> same_store s t \<Longrightarrow> rs_intents t = rs_intents s \<Longrightarrow> rs_quotas t = rs_quotas s \<Longrightarrow> state_ok uc t"
  by (simp add: state_ok_frame)

lemma fresh_version_idD:
  assumes "fresh_version_id s x"
  shows "x \<notin> version_ids s"
    and "i \<in> set (hm_values (rs_intents s)) \<Longrightarrow> ui_proposed_version_id i \<noteq> x"
  using assms unfolding fresh_version_id_def by blast+

lemma atomic_ok:
  assumes "state_ok uc s" and "atomic s r x" and "fresh_version_id s x"
  shows "state_ok uc (fst r)"
proof (rule state_ok_evolved [OF assms(1)])
  show "evolved s (fst r) x" using assms(2) by (simp add: atomic_def)
qed (rule fresh_version_idD(2) [OF assms(3)])

lemma safe_state: "safe uc r \<Longrightarrow> \<exists>t. map_option fst r = Some t \<and> state_ok uc t"
  by (auto simp: safe_def)

lemma touches_state_ok:
  assumes "touches s t" and "state_ok uc s"
  shows "state_ok uc t"
proof -
  have "version_ids t = version_ids s" "rs_intents t = rs_intents s"
    using touches_keeps(4) [OF assms(1)] touches_frame(3) [OF assms(1)] state_okD(4,5) [OF assms(2)] by simp_all
  then have "intents_ok uc t = intents_ok uc s" by (simp only: intents_ok_def)
  then show ?thesis using assms touches_repo_ok by (simp only: state_ok_def)
qed

lemma delete_s3_bucket_frame:
  "same_store s (fst (delete_s3_bucket s a name))"
  "rs_intents (fst (delete_s3_bucket s a name)) = rs_intents s"
  "rs_quotas (fst (delete_s3_bucket s a name)) = rs_quotas s"
  by (simp_all add: delete_s3_bucket_def Let_def same_store_def same_versions_def)

lemma repo_apply_ok:
  assumes ok: "state_ok uc s" and en: "repo_enabled uc s x"
  shows "\<exists>t. repo_apply uc cal new_id s x = Some t \<and> state_ok uc t"
proof (cases x)
  case (OpCreateIntent i)
  then show ?thesis
    using create_upload_intent_ok [OF ok, of i] en by (simp add: fresh_version_id_def open_intent_def)
next
  case (OpDelete c)
  then show ?thesis
    using atomic_ok [OF ok delete_s3_object_atomic [OF state_okD(1) [OF ok]]] en by (simp add: fresh_version_id_def)
next
  case (OpPutLock c)
  then show ?thesis using put_s3_object_lock_cases [of s c] ok touches_state_ok by auto
next
  case (OpLifecycle c)
  with en have fresh: "fresh_version_id s (xc_delete_marker_id c)" by simp
  show ?thesis using execute_s3_lifecycle_ok [OF ok fresh_version_idD [OF fresh]] OpLifecycle by simp
qed (use ok en in \<open>auto intro!: safe_state set_quota_bytes_ok create_s3_bucket_ok
      complete_upload_intent_staging_safe claim_upload_intent_safe release_upload_intent_safe
      abort_upload_intent_safe expire_upload_intents_safe commit_memory_upload_intent_safe
      commit_multipart_object_version_safe
      frame_ok [OF _ update_configuration_frame] frame_ok [OF _ delete_s3_bucket_frame] frame_ok [OF _ replace_s3_object_tagging_frame]
      simp: commit_upload_intent_def set_s3_bucket_versioning_def replace_s3_bucket_object_lock_def
        replace_s3_bucket_lifecycle_def
      simp del: map_option_eq_Some\<close>)

interpretation memory_s3: aggregate "state_ok uc" "repo_step uc cal new_id" "repo_enabled uc"
  for uc cal new_id
  by unfold_locales (metis option.simps(5) repo_apply_ok repo_step_def)

lemma state_ok_new: "state_ok uc (repo_new bucket)"
proof -
  have "account_ok (rs_quotas (repo_new bucket) a) 0 0" for a
    by (simp add: repo_new_def account_ok_def default_quota_def)
  moreover have "used_total (repo_new bucket) a = 0" "reserved_total (repo_new bucket) a = 0" for a
    by (simp_all add: repo_new_def used_total_def reserved_total_def all_versions_def)
  ultimately show ?thesis
    by (simp add: state_ok_def repo_ok_def store_ok_def quota_ok_def intents_ok_def maps_ok_def versions_ok_def
        heads_ok_def head_ok_def) (simp add: repo_new_def versions_of_def all_versions_def)
qed

text \<open>A history of a repository that starts with one bucket.\<close>

definition repo_history ::
  "unicode_tables \<Rightarrow> 'd calendar \<Rightarrow> (str \<Rightarrow> storage_gc_task_id) \<Rightarrow> s3_bucket \<Rightarrow> repo_op list \<Rightarrow> bool" where
  "repo_history uc cal new_id bucket ops \<longleftrightarrow>
     admissible (repo_step uc cal new_id) (repo_enabled uc) (repo_new bucket) ops"

abbreviation repo_after ::
  "unicode_tables \<Rightarrow> 'd calendar \<Rightarrow> (str \<Rightarrow> storage_gc_task_id) \<Rightarrow> s3_bucket \<Rightarrow> repo_op list \<Rightarrow> repo_state" where
  "repo_after uc cal new_id bucket ops \<equiv> run (repo_step uc cal new_id) (repo_new bucket) ops"

lemma history_ok: "repo_history uc cal new_id bucket ops \<Longrightarrow> state_ok uc (repo_after uc cal new_id bucket ops)"
  unfolding repo_history_def by (rule memory_s3.run_valid [OF state_ok_new])

section \<open>An example\<close>

text \<open>One object uploaded to a versioned bucket, used in the examples below.\<close>

definition example_tables :: unicode_tables where
  "example_tables = \<lparr>uc_is_alphabetic = (\<lambda>_. True), uc_is_numeric = (\<lambda>_. False)\<rparr>"

definition example_calendar :: "unit calendar" where
  "example_calendar =
     \<lparr>cal_checked_add_days = (\<lambda>t n. Some (t + int n)), cal_year = (\<lambda>_. 1970), cal_date = (\<lambda>_. ()),
      cal_replace_year = (\<lambda>_ _. None), cal_replace_day = (\<lambda>_ _. None), cal_replace_date = (\<lambda>t _. t)\<rparr>"

definition example_bucket :: s3_bucket where
  "example_bucket =
     \<lparr>sb_id = 3, sb_application_id = 2, sb_name = ''photos'',
      sb_configuration = configuration_example 1
        \<lparr>bc_versioning_status := VersioningEnabled, bc_object_lock_enabled := True\<rparr>,
      sb_created_at = 0\<rparr>"

definition example_intent :: upload_intent where
  "example_intent =
     intent_example\<lparr>ui_state := IntentStaging, ui_entity_tag := None, ui_checksum := None,
       ui_size_bytes := None, ui_lease_token := None, ui_lease_until := None\<rparr>"

definition example_version :: object_version where
  "example_version =
     version_example\<lparr>ov_id := 4, ov_object_id := 5, ov_application_id := 2, ov_bucket_id := 3,
       ov_retention := None,
       ov_payload := PayloadObject
         \<lparr>sv_storage_backend = ''filesystem'', sv_storage_key = ''objects/version'',
          sv_provider_etag = None, sv_provider_version = None, sv_etag = EntityTag ''etag'',
          sv_size_bytes = 42, sv_content_type = None, sv_user_metadata = JObject [],
          sv_checksum = ui_checksum intent_example\<rparr>\<rparr>"

definition example_commit :: s3_object_version_commit where
  "example_commit =
     \<lparr>vc_target = CommitCreate
        \<lparr>so_id = 5, so_application_id = 2, so_bucket_id = 3, so_key = ''asset.png'',
         so_current_version_id = None, so_generation = 0, so_created_at = 6, so_updated_at = 6\<rparr>,
      vc_version = example_version, vc_committed_at = 7, vc_replaced_null_version_id = None,
      vc_gc_tasks = [],
      vc_requested_retention = Some \<lparr>or_mode = Compliance, or_retain_until = 100\<rparr>,
      vc_requested_legal_hold = None\<rparr>"

definition example_uploads :: "repo_op list" where
  "example_uploads =
     [OpCreateIntent example_intent,
      OpStage 1 (EntityTag ''etag'') (the (ui_checksum intent_example)) 42 5,
      OpClaim 1 ''worker'' 50 6,
      OpCommit 1 ''worker'' example_commit]"

definition example_delete :: delete_s3_object_command where
  "example_delete =
     \<lparr>dc_application_id = 2, dc_bucket_id = 3, dc_object_key = ''asset.png'', dc_version_id = None,
      dc_bypass_governance = False, dc_deleted_by = ''user'', dc_deleted_at = 8,
      dc_delete_marker_id = 10, dc_delete_marker_version_id = S3VersionId ''marker-1'',
      dc_gc_task_id = 11, dc_gc_not_before = 8, dc_gc_max_attempts = 3\<rparr>"

abbreviation example_after :: "repo_op list \<Rightarrow> repo_state" where
  "example_after ops \<equiv> repo_after example_tables example_calendar (\<lambda>_. 9) example_bucket ops"

lemma example_history:
  "repo_history example_tables example_calendar (\<lambda>_. 9) example_bucket example_uploads"
  by code_simp

section \<open>Properties\<close>

text \<open>C4: the books always balance. After every history of repository calls, the used bytes of
  every application are exactly the bytes of its active versions (neither superseded nor deleted),
  its reserved bytes are exactly the announced sizes of its open uploads, the two together never
  exceed the quota, and an application without an account stores and reserves nothing.\<close>

theorem repository_quota_accounting:
  assumes "repo_history uc cal new_id bucket ops"
  defines "s \<equiv> repo_after uc cal new_id bucket ops"
  shows "case rs_quotas s a of
           None \<Rightarrow> used_total s a = 0 \<and> reserved_total s a = 0
         | Some q \<Rightarrow> unat (used_bytes q) = used_total s a \<and> unat (reserved_bytes q) = reserved_total s a
                    \<and> unat (used_bytes q) + unat (reserved_bytes q) \<le> unat (quota_bytes q)"
proof -
  have "account_ok (rs_quotas s a) (used_total s a) (reserved_total s a)"
    using state_okD(3) [OF history_ok [OF assms(1)]] by (simp add: s_def quota_ok_def)
  then show ?thesis by (auto simp: account_ok_def split: option.split)
qed

theorem repository_quota_accounting_witness:
  "used_total (example_after example_uploads) 2 = 42 \<and> reserved_total (example_after example_uploads) 2 = 0"
proof -
  have "rs_quotas (example_after example_uploads) 2
      = Some \<lparr>quota_bytes = 1099511627776, used_bytes = 42, reserved_bytes = 0\<rparr>"
    by code_simp
  then show ?thesis
    using repository_quota_accounting [OF example_history, of 2] by simp
qed







end
