(* ===== verification/Memory_S3_Listing.thy ===== *)
theory Memory_S3_Listing
  imports Memory_S3_History MH_Ordered_Map
begin

text \<open>
  \<open>list_current_s3_objects\<close> of \<^verbatim>\<open>crates/mediahub-app/src/memory_s3.rs\<close>: one page of the current
  objects of a bucket in byte order of their keys, with keys below a delimiter folded into common
  prefixes. Following the cursor from page to page ends and lists everything exactly once.
\<close>

section \<open>One page\<close>

definition listed_version :: "repo_state \<Rightarrow> s3_object \<Rightarrow> object_version option" where
  "listed_version s obj =
     Option.bind (so_current_version_id obj) (\<lambda>current_version_id.
       if hidden s current_version_id then None
       else Option.bind (List.find (\<lambda>v. ov_id v = current_version_id) (versions_of s (so_id obj))) (\<lambda>version.
              if ov_state version = VersionCommitted \<and> \<not> is_delete_marker version then Some version else None))"

definition folded_prefix :: "s3_object_list_query \<Rightarrow> str \<Rightarrow> str option" where
  "folded_prefix q key =
     (if lq_delimiter q
      then (case split_once CHR ''/'' (drop (length (lq_prefix q)) key) of
              None \<Rightarrow> None
            | Some (segment, _) \<Rightarrow> Some (lq_prefix q @ segment @ ''/''))
      else None)"

type_synonym listing_entries = "(str \<times> s3_object_list_item option) list"

fun collect_entries :: "repo_state \<Rightarrow> s3_object_list_query \<Rightarrow> listing_entries \<Rightarrow> s3_object list \<Rightarrow> listing_entries" where
  "collect_entries s q entries [] = entries"
| "collect_entries s q entries (obj # objs) =
     (case listed_version s obj of
        None \<Rightarrow> collect_entries s q entries objs
      | Some version \<Rightarrow>
          (case folded_prefix q (so_key obj) of
             Some common_prefix \<Rightarrow> collect_entries s q (map_or_insert common_prefix None entries) objs
           | None \<Rightarrow>
               collect_entries s q
                 (map_insert (so_key obj) (Some \<lparr>li_key = so_key obj, li_version = version\<rparr>) entries) objs))"

definition listed_objects :: "repo_state \<Rightarrow> application_id \<Rightarrow> s3_object_list_query \<Rightarrow> s3_object list" where
  "listed_objects s application_id q =
     filter (\<lambda>obj. so_application_id obj = application_id \<and> so_bucket_id obj = lq_bucket_id q
                 \<and> starts_with (so_key obj) (lq_prefix q)) (hm_values (rs_objects s))"

definition page_items :: "listing_entries \<Rightarrow> s3_object_list_item list" where
  "page_items entries = List.map_filter snd entries"

definition page_prefixes :: "listing_entries \<Rightarrow> str list" where
  "page_prefixes entries = map fst (filter (\<lambda>(_, item). item = None) entries)"

definition list_current_s3_objects ::
  "repo_state \<Rightarrow> application_id \<Rightarrow> s3_object_list_query \<Rightarrow> (repository_error + s3_object_page) option" where
  "list_current_s3_objects s application_id q =
     (case list_query_validate q of
        Inl e \<Rightarrow> Some (Err e)
      | Inr _ \<Rightarrow>
          if lq_limit q = 0
          then Some (Ok \<lparr>pg_items = [], pg_common_prefixes = [], pg_next_cursor = None\<rparr>)
          else
            let entries = collect_entries s q [] (listed_objects s application_id q);
                found = take (lq_limit q + 1) (filter (\<lambda>(entry_key, _).
                  is_none_or (lq_start_after q) (\<lambda>cursor. bytes_less cursor entry_key)) entries);
                has_more = length found > lq_limit q;
                selected = take (lq_limit q) found
            in if has_more \<and> selected = [] then None
               else Some (Ok \<lparr>pg_items = page_items selected, pg_common_prefixes = page_prefixes selected,
                              pg_next_cursor = (if has_more then Some (fst (last selected)) else None)\<rparr>))"

section \<open>Following the cursor\<close>

inductive listing_pages ::
  "repo_state \<Rightarrow> application_id \<Rightarrow> s3_object_list_query \<Rightarrow> s3_object_page list \<Rightarrow> bool" for s application_id where
  last_page: "list_current_s3_objects s application_id q = Some (Ok p) \<Longrightarrow> pg_next_cursor p = None
     \<Longrightarrow> listing_pages s application_id q [p]"
| next_page: "list_current_s3_objects s application_id q = Some (Ok p) \<Longrightarrow> pg_next_cursor p = Some cursor
     \<Longrightarrow> listing_pages s application_id (q\<lparr>lq_start_after := Some cursor\<rparr>) ps
     \<Longrightarrow> listing_pages s application_id q (p # ps)"

inductive_cases listing_pagesE: "listing_pages s application_id q ps"

lemma listing_pages_unique: "listing_pages s a q ps \<Longrightarrow> listing_pages s a q ps' \<Longrightarrow> ps' = ps"
proof (induction arbitrary: ps' rule: listing_pages.induct)
  case (last_page q p)
  then show ?case by (auto elim: listing_pagesE)
next
  case (next_page q p cursor ps)
  from next_page.prems next_page.hyps(1,2) obtain rest where "ps' = p # rest"
    and "listing_pages s a (q\<lparr>lq_start_after := Some cursor\<rparr>) rest"
    by (auto elim: listing_pagesE)
  with next_page.IH show ?case by simp
qed

section \<open>The entries of a listing\<close>

lemma folded_prefix_cursor: "folded_prefix (q\<lparr>lq_start_after := c\<rparr>) = folded_prefix q"
  by (simp add: fun_eq_iff folded_prefix_def split: option.split prod.split)

lemma collect_entries_cursor: "collect_entries s (q\<lparr>lq_start_after := c\<rparr>) es objs = collect_entries s q es objs"
  by (induction s q es objs rule: collect_entries.induct) (auto simp: folded_prefix_cursor split: option.split)

lemma listed_objects_cursor: "listed_objects s a (q\<lparr>lq_start_after := c\<rparr>) = listed_objects s a q"
  by (simp add: listed_objects_def)

lemma collect_entries_ordered: "ordered es \<Longrightarrow> ordered (collect_entries s q es objs)"
  by (induction s q es objs rule: collect_entries.induct)
     (auto simp: map_insert_ordered map_or_insert_ordered split: option.split)

text \<open>A folded prefix folds to itself, so a key is either listed or folded, never both.\<close>

lemma folded_prefix_idem:
  assumes "folded_prefix q key = Some p"
  shows "folded_prefix q p = Some p"
proof -
  from assms obtain segment rest where d: "lq_delimiter q" and "split_once CHR ''/'' (drop (length (lq_prefix q)) key) = Some (segment, rest)"
    and p: "p = lq_prefix q @ segment @ ''/''"
    by (auto simp: folded_prefix_def split: if_splits option.splits)
  then have "CHR ''/'' \<notin> set segment" by (simp add: split_once_Some_iff)
  then have "split_once CHR ''/'' (segment @ ''/'') = Some (segment, [])" by (simp add: split_once_Some_iff)
  with d show ?thesis by (simp add: folded_prefix_def p)
qed

definition entry_key :: "s3_object_list_query \<Rightarrow> s3_object \<Rightarrow> str" where
  "entry_key q obj = (case folded_prefix q (so_key obj) of Some p \<Rightarrow> p | None \<Rightarrow> so_key obj)"

definition entry_ok :: "repo_state \<Rightarrow> s3_object_list_query \<Rightarrow> s3_object list \<Rightarrow> str \<times> s3_object_list_item option \<Rightarrow> bool" where
  "entry_ok s q objs e \<longleftrightarrow>
     (case e of
        (k, None) \<Rightarrow> folded_prefix q k = Some k
      | (k, Some i) \<Rightarrow> folded_prefix q k = None \<and> k = li_key i
          \<and> (\<exists>obj \<in> set objs. so_key obj = k \<and> listed_version s obj = Some (li_version i)))"

lemma map_insert_subset: "set (map_insert k v m) \<subseteq> insert (k, v) (set m)"
  by (induction k v m rule: map_insert.induct) auto

lemma collect_entries_ok:
  assumes "\<forall>e \<in> set es. entry_ok s q all e" and "set objs \<subseteq> set all"
  shows "\<forall>e \<in> set (collect_entries s q es objs). entry_ok s q all e"
  using assms
proof (induction s q es objs rule: collect_entries.induct)
  case (2 s q es obj objs)
  show ?case
  proof (cases "listed_version s obj")
    case (Some version)
    show ?thesis
    proof (cases "folded_prefix q (so_key obj)")
      case None
      let ?es = "map_insert (so_key obj) (Some \<lparr>li_key = so_key obj, li_version = version\<rparr>) es"
      have "entry_ok s q all (so_key obj, Some \<lparr>li_key = so_key obj, li_version = version\<rparr>)"
        using Some None "2.prems"(2) by (auto simp: entry_ok_def)
      then have "\<forall>e \<in> set ?es. entry_ok s q all e" using "2.prems"(1) map_insert_subset by fastforce
      with 2(2) [OF Some None] Some None "2.prems"(2) show ?thesis by simp
    next
      case (Some p)
      have "entry_ok s q all (p, None)" using folded_prefix_idem [OF Some] by (simp add: entry_ok_def)
      then have "\<forall>e \<in> set (map_or_insert p None es). entry_ok s q all e"
        using "2.prems"(1) map_insert_subset [of p None es] by (auto simp: map_or_insert_def)
      with 2(3) [OF \<open>listed_version s obj = Some version\<close> Some] Some \<open>listed_version s obj = Some version\<close> "2.prems"(2)
      show ?thesis by simp
    qed
  qed (use 2 in simp)
qed simp

lemma collect_entries_keys:
  "fst ` set (collect_entries s q es objs)
     = fst ` set es \<union> entry_key q ` {obj \<in> set objs. listed_version s obj \<noteq> None}"
proof (induction s q es objs rule: collect_entries.induct)
  case (2 s q es obj objs)
  have split: "{x \<in> set (obj # objs). listed_version s x \<noteq> None}
      = (if listed_version s obj = None then {} else {obj}) \<union> {x \<in> set objs. listed_version s x \<noteq> None}"
    by auto
  show ?case
    unfolding split using 2
    by (cases "listed_version s obj"; cases "folded_prefix q (so_key obj)")
       (auto simp: entry_key_def btree.keys_insert map_or_insert_keys)
qed simp


definition after_cursor :: "s3_object_list_query \<Rightarrow> str \<Rightarrow> bool" where
  "after_cursor q k \<longleftrightarrow> is_none_or (lq_start_after q) (\<lambda>cursor. bytes_less cursor k)"

definition remaining :: "repo_state \<Rightarrow> application_id \<Rightarrow> s3_object_list_query \<Rightarrow> listing_entries" where
  "remaining s a q = filter (\<lambda>e. after_cursor q (fst e)) (collect_entries s q [] (listed_objects s a q))"

definition cut :: "nat \<Rightarrow> listing_entries \<Rightarrow> s3_object_page" where
  "cut n es = \<lparr>pg_items = page_items (take n es), pg_common_prefixes = page_prefixes (take n es),
               pg_next_cursor = (if length es > n then Some (fst (last (take n es))) else None)\<rparr>"

lemma list_page:
  assumes "1 \<le> lq_limit q" and "lq_limit q \<le> 1000"
  shows "list_current_s3_objects s a q = Some (Ok (cut (lq_limit q) (remaining s a q)))"
proof -
  have f: "filter (\<lambda>(entry_key, _). is_none_or (lq_start_after q) (\<lambda>cursor. bytes_less cursor entry_key))
      (collect_entries s q [] (listed_objects s a q)) = remaining s a q"
    by (simp add: remaining_def after_cursor_def case_prod_unfold)
  have "take (lq_limit q) (remaining s a q) \<noteq> []" if "length (remaining s a q) > lq_limit q"
    using that assms by auto
  with assms show ?thesis
    by (auto simp: list_current_s3_objects_def list_query_validate_def MAX_S3_OBJECT_LIST_LIMIT_def f cut_def Let_def
        min_def)
qed

lemma remaining_ordered: "ordered (remaining s a q)"
  using collect_entries_ordered [of "[]" s q "listed_objects s a q"]
  by (simp add: remaining_def sorted_wrt_map sorted_wrt_filter)

lemma ordered_filter_after:
  assumes "ordered es" and "0 < n" and "n < length es"
  shows "filter (\<lambda>e. bytes_less (fst (last (take n es))) (fst e)) es = drop n es"
proof -
  let ?c = "fst (last (take n es))"
  have last: "last (take n es) = es ! (n - 1)" using assms by (subst last_conv_nth) auto
  have "\<not> bytes_less ?c (fst e)" if "e \<in> set (take n es)" for e
  proof -
    from that obtain i where "i < n" "e = es ! i" using assms by (auto simp: in_set_conv_nth)
    with assms have "i < n - 1 \<Longrightarrow> fst e < ?c"
      by (auto simp: last sorted_wrt_iff_nth_less bytes_less_iff)
    with \<open>i < n\<close> have "i = n - 1 \<or> fst e < ?c" by linarith
    with \<open>e = es ! i\<close> show ?thesis by (auto simp: last bytes_less_iff)
  qed
  moreover have "bytes_less ?c (fst e)" if "e \<in> set (drop n es)" for e
  proof -
    from that obtain i where "i < length es - n" "e = es ! (n + i)" using assms by (auto simp: in_set_conv_nth)
    with assms show ?thesis by (auto simp: last sorted_wrt_iff_nth_less)
  qed
  ultimately have "filter (\<lambda>e. bytes_less ?c (fst e)) (take n es @ drop n es) = drop n es"
    by (auto simp: filter_empty_conv filter_id_conv simp del: append_take_drop_id)
  then show ?thesis by simp
qed

lemma remaining_next:
  assumes "0 < n" and "n < length (remaining s a q)"
  shows "remaining s a (q\<lparr>lq_start_after := Some (fst (last (take n (remaining s a q))))\<rparr>) = drop n (remaining s a q)"
proof -
  let ?c = "fst (last (take n (remaining s a q)))"
  have "last (take n (remaining s a q)) \<in> set (take n (remaining s a q))" using assms by (intro last_in_set) auto
  then have c: "after_cursor q ?c" by (auto simp: remaining_def dest: in_set_takeD)
  have later: "after_cursor q k" if "bytes_less ?c k" for k
    using c that by (cases "lq_start_after q") (auto simp: after_cursor_def bytes_less_iff)
  have "(after_cursor q (fst e) \<and> bytes_less ?c (fst e)) = bytes_less ?c (fst e)" for e :: "str \<times> s3_object_list_item option"
    using later by blast
  then have "remaining s a (q\<lparr>lq_start_after := Some ?c\<rparr>) = filter (\<lambda>e. bytes_less ?c (fst e)) (remaining s a q)"
    unfolding remaining_def collect_entries_cursor listed_objects_cursor filter_filter
    by (simp add: after_cursor_def [of "q\<lparr>lq_start_after := Some k\<rparr>" for k] conj_commute)
  with ordered_filter_after [OF remaining_ordered assms] show ?thesis by simp
qed

lemma page_items_append: "page_items (xs @ ys) = page_items xs @ page_items ys"
  by (simp add: page_items_def List.map_filter_def)

lemma page_prefixes_append: "page_prefixes (xs @ ys) = page_prefixes xs @ page_prefixes ys"
  by (simp add: page_prefixes_def)

lemma pages_of_remaining:
  assumes "1 \<le> lq_limit q" and "lq_limit q \<le> 1000"
  shows "\<exists>ps. listing_pages s a q ps
      \<and> concat (map pg_items ps) = page_items (remaining s a q)
      \<and> concat (map pg_common_prefixes ps) = page_prefixes (remaining s a q)"
  using assms
proof (induction "length (remaining s a q)" arbitrary: q rule: less_induct)
  case less
  let ?n = "lq_limit q" and ?r = "remaining s a q"
  note page = list_page [OF less.prems]
  show ?case
  proof (cases "length ?r > ?n")
    case False
    then have "listing_pages s a q [cut ?n ?r]" by (intro last_page [OF page]) (simp add: cut_def)
    with False show ?thesis by (intro exI [of _ "[cut ?n ?r]"]) (simp add: cut_def)
  next
    case True
    define q' where "q' = q\<lparr>lq_start_after := Some (fst (last (take ?n ?r)))\<rparr>"
    have r': "remaining s a q' = drop ?n ?r" using remaining_next [OF _ True] less.prems by (simp add: q'_def)
    have "\<exists>ps. listing_pages s a q' ps \<and> concat (map pg_items ps) = page_items (remaining s a q')
        \<and> concat (map pg_common_prefixes ps) = page_prefixes (remaining s a q')"
      using less.prems True by (intro less.hyps) (simp_all add: r', simp_all add: q'_def)
    then obtain ps where ps: "listing_pages s a q' ps" "concat (map pg_items ps) = page_items (drop ?n ?r)"
      "concat (map pg_common_prefixes ps) = page_prefixes (drop ?n ?r)" by (auto simp: r')
    have "listing_pages s a q (cut ?n ?r # ps)"
      using ps(1) True by (intro next_page [OF page]) (simp_all add: cut_def q'_def)
    moreover have "concat (map pg_items (cut ?n ?r # ps)) = page_items ?r"
      using ps(2) by (simp add: cut_def flip: page_items_append)
    moreover have "concat (map pg_common_prefixes (cut ?n ?r # ps)) = page_prefixes ?r"
      using ps(3) by (simp add: cut_def flip: page_prefixes_append)
    ultimately show ?thesis by blast
  qed
qed


section \<open>What the pages list\<close>

definition listed_under :: "repo_state \<Rightarrow> application_id \<Rightarrow> s3_object_list_query \<Rightarrow> str option \<Rightarrow> s3_object \<Rightarrow> bool" where
  "listed_under s a q p obj \<longleftrightarrow>
     obj \<in> set (listed_objects s a q) \<and> listed_version s obj \<noteq> None \<and> folded_prefix q (so_key obj) = p"

lemma remaining_entry:
  assumes "e \<in> set (remaining s a q)"
  shows "entry_ok s q (listed_objects s a q) e" and "after_cursor q (fst e)"
    and "\<exists>obj. obj \<in> set (listed_objects s a q) \<and> listed_version s obj \<noteq> None \<and> fst e = entry_key q obj"
proof -
  from assms have e: "e \<in> set (collect_entries s q [] (listed_objects s a q))" by (simp add: remaining_def)
  with collect_entries_ok [of "[]" s q "listed_objects s a q" "listed_objects s a q"]
  show "entry_ok s q (listed_objects s a q) e" by simp
  show "after_cursor q (fst e)" using assms by (simp add: remaining_def)
  from e have "fst e \<in> fst ` set (collect_entries s q [] (listed_objects s a q))" by blast
  then show "\<exists>obj. obj \<in> set (listed_objects s a q) \<and> listed_version s obj \<noteq> None \<and> fst e = entry_key q obj"
    unfolding collect_entries_keys by auto
qed

lemma remaining_has:
  assumes "obj \<in> set (listed_objects s a q)" and "listed_version s obj \<noteq> None" and "after_cursor q (entry_key q obj)"
  shows "\<exists>e \<in> set (remaining s a q). fst e = entry_key q obj"
proof -
  from assms(1,2) have "entry_key q obj \<in> fst ` set (collect_entries s q [] (listed_objects s a q))"
    unfolding collect_entries_keys by blast
  with assms(3) show ?thesis by (auto simp: remaining_def image_iff)
qed

lemma page_items_iff: "i \<in> set (page_items es) \<longleftrightarrow> (\<exists>k. (k, Some i) \<in> set es)"
  by (force simp: page_items_def List.map_filter_def)

lemma page_prefixes_iff: "p \<in> set (page_prefixes es) \<longleftrightarrow> (p, None) \<in> set es"
  by (force simp: page_prefixes_def)

lemma remaining_item:
  "(k, Some i) \<in> set (remaining s a q) \<Longrightarrow> li_key i = k \<and> after_cursor q k
     \<and> (\<exists>obj. listed_under s a q None obj \<and> so_key obj = k \<and> listed_version s obj = Some (li_version i))"
  using remaining_entry(1,2) [of "(k, Some i)" s a q] by (auto simp: entry_ok_def listed_under_def)

lemma folded_prefix_entry_key:
  "folded_prefix q (entry_key q obj) = folded_prefix q (so_key obj)"
  by (auto simp: entry_key_def folded_prefix_idem split: option.split)

lemma item_keys:
  "li_key ` set (page_items (remaining s a q)) = {so_key obj |obj. listed_under s a q None obj \<and> after_cursor q (so_key obj)}"
proof (intro equalityI subsetI)
  fix k assume "k \<in> li_key ` set (page_items (remaining s a q))"
  then show "k \<in> {so_key obj |obj. listed_under s a q None obj \<and> after_cursor q (so_key obj)}"
    by (auto simp: page_items_iff) (metis remaining_item)
next
  fix k assume "k \<in> {so_key obj |obj. listed_under s a q None obj \<and> after_cursor q (so_key obj)}"
  then obtain obj where obj: "listed_under s a q None obj" "k = so_key obj" "after_cursor q k" by auto
  then have "entry_key q obj = k" by (simp add: listed_under_def entry_key_def)
  with obj remaining_has [of obj s a q] obtain e where e: "e \<in> set (remaining s a q)" "fst e = k"
    by (auto simp: listed_under_def)
  moreover have "folded_prefix q k = None" using obj by (simp add: listed_under_def)
  ultimately obtain i where "e = (k, Some i)" using remaining_entry(1) [OF e(1)]
    by (cases e; cases "snd e") (auto simp: entry_ok_def)
  with e have "(k, Some i) \<in> set (remaining s a q)" by simp
  moreover from remaining_item [OF this] have "k = li_key i" by simp
  ultimately show "k \<in> li_key ` set (page_items (remaining s a q))"
    by (intro image_eqI [of _ _ i]) (auto simp: page_items_iff)
qed

lemma prefix_keys:
  "set (page_prefixes (remaining s a q)) = {p. (\<exists>obj. listed_under s a q (Some p) obj) \<and> after_cursor q p}"
proof (intro equalityI subsetI)
  fix p assume "p \<in> set (page_prefixes (remaining s a q))"
  then have e: "(p, None) \<in> set (remaining s a q)" by (simp add: page_prefixes_iff)
  from remaining_entry(3) [OF this] obtain obj where obj: "obj \<in> set (listed_objects s a q)"
    "listed_version s obj \<noteq> None" "p = entry_key q obj" by auto
  have "folded_prefix q p = Some p" using remaining_entry(1) [OF e] by (simp add: entry_ok_def)
  then have "folded_prefix q (so_key obj) = Some p" by (simp add: obj(3) folded_prefix_entry_key)
  with obj remaining_entry(2) [OF e]
  show "p \<in> {p. (\<exists>obj. listed_under s a q (Some p) obj) \<and> after_cursor q p}" by (auto simp: listed_under_def)
next
  fix p assume "p \<in> {p. (\<exists>obj. listed_under s a q (Some p) obj) \<and> after_cursor q p}"
  then obtain obj where obj: "listed_under s a q (Some p) obj" "after_cursor q p" by auto
  then have k: "entry_key q obj = p" by (simp add: listed_under_def entry_key_def)
  with obj remaining_has [of obj s a q] obtain e where e: "e \<in> set (remaining s a q)" "fst e = p"
    by (auto simp: listed_under_def)
  have "folded_prefix q p = Some p" using obj by (auto simp: listed_under_def intro: folded_prefix_idem)
  with e remaining_entry(1) [OF e(1)] have "e = (p, None)"
    by (cases e; cases "snd e") (auto simp: entry_ok_def)
  with e show "p \<in> set (page_prefixes (remaining s a q))" by (simp add: page_prefixes_iff)
qed

lemma item_keys_sublist:
  "\<forall>(k, x) \<in> set es. case x of None \<Rightarrow> True | Some i \<Rightarrow> li_key i = k
   \<Longrightarrow> map li_key (page_items es) = map fst (filter (\<lambda>e. snd e \<noteq> None) es)"
  by (induction es) (auto simp: page_items_def List.map_filter_simps split: option.splits)

lemma items_ordered: "sorted_wrt bytes_less (map li_key (page_items (remaining s a q)))"
proof -
  have "\<forall>(k, x) \<in> set (remaining s a q). case x of None \<Rightarrow> True | Some i \<Rightarrow> li_key i = k"
    using remaining_item by (auto split: option.split)
  from item_keys_sublist [OF this] remaining_ordered [of s a q]
  show ?thesis by (simp add: sorted_wrt_map sorted_wrt_filter)
qed

lemma prefixes_ordered: "sorted_wrt bytes_less (page_prefixes (remaining s a q))"
  using remaining_ordered [of s a q] by (simp add: page_prefixes_def sorted_wrt_map sorted_wrt_filter)

text \<open>C24: Listing a bucket page by page ends, and the pages together list everything once. For a page
  size from 1 to 1000, following the returned cursor until there is none gives exactly one sequence of
  pages (so it ends and never panics); over all pages the item keys are strictly ascending in byte
  order, and so are the common prefixes; the item keys are exactly the keys of the visible current
  objects under the prefix that are not folded and lie after the starting cursor, each with the object's
  visible committed version; and the common prefixes are exactly the foldings of the others.\<close>

theorem listing_complete:
  assumes "1 \<le> lq_limit q" and "lq_limit q \<le> 1000"
  shows "\<exists>ps. (\<forall>ps'. listing_pages s a q ps' \<longleftrightarrow> ps' = ps)
    \<and> sorted_wrt bytes_less (map li_key (concat (map pg_items ps)))
    \<and> sorted_wrt bytes_less (concat (map pg_common_prefixes ps))
    \<and> li_key ` set (concat (map pg_items ps))
        = {so_key obj |obj. listed_under s a q None obj \<and> after_cursor q (so_key obj)}
    \<and> (\<forall>i \<in> set (concat (map pg_items ps)). \<exists>obj \<in> set (listed_objects s a q).
          so_key obj = li_key i \<and> listed_version s obj = Some (li_version i))
    \<and> set (concat (map pg_common_prefixes ps)) = {p. (\<exists>obj. listed_under s a q (Some p) obj) \<and> after_cursor q p}"
proof -
  from pages_of_remaining [OF assms] obtain ps where ps: "listing_pages s a q ps"
    "concat (map pg_items ps) = page_items (remaining s a q)"
    "concat (map pg_common_prefixes ps) = page_prefixes (remaining s a q)" by blast
  have "\<forall>i \<in> set (page_items (remaining s a q)). \<exists>obj \<in> set (listed_objects s a q).
          so_key obj = li_key i \<and> listed_version s obj = Some (li_version i)"
    by (force simp: page_items_iff listed_under_def dest!: remaining_item)
  moreover have "\<forall>ps'. listing_pages s a q ps' \<longleftrightarrow> ps' = ps" using ps(1) listing_pages_unique by blast
  ultimately show ?thesis
    by (intro exI [of _ ps]) (simp add: ps(2,3) item_keys prefix_keys items_ordered prefixes_ordered del: set_concat)
qed


definition listing_example :: s3_object_list_query where
  "listing_example = \<lparr>lq_bucket_id = 3, lq_prefix = [], lq_start_after = Some ''a'', lq_delimiter = True, lq_limit = 1\<rparr>"

theorem listing_complete_witness:
  "\<exists>ps. listing_pages (example_after example_uploads) 2 listing_example ps
      \<and> li_key ` set (concat (map pg_items ps)) = {''asset.png''}"
proof -
  let ?s = "example_after example_uploads" and ?q = listing_example
  have "map so_key (listed_objects ?s 2 ?q) = [''asset.png'']
      \<and> map (listed_version ?s) (listed_objects ?s 2 ?q) \<noteq> [None]
      \<and> folded_prefix ?q ''asset.png'' = None \<and> after_cursor ?q ''asset.png''"
    by code_simp
  then have "{so_key obj |obj. listed_under ?s 2 ?q None obj \<and> after_cursor ?q (so_key obj)} = {''asset.png''}"
    by (auto simp: listed_under_def map_eq_Cons_conv)
  with listing_complete [of ?q ?s 2] show ?thesis
    by (auto simp: listing_example_def simp del: set_concat)
qed

end
