(* ===== verification/Lifecycle_Service.thy ===== *)
theory Lifecycle_Service
  imports Memory_S3_History
begin

text \<open>
  \<open>S3LifecycleService\<close> of \<^verbatim>\<open>crates/mediahub-app/src/s3_lifecycle.rs\<close>: a batch walks the buckets with a
  lifecycle configuration in pages, scans one action of one rule per bucket and executes at most one
  command per scan, until it has examined as many buckets as its limit allows.

  The service is written over the operations of \<open>S3LifecycleRepository\<close>, collected in a record; \<open>'s\<close> is
  the state of the repository. The identifiers drawn for the \<open>n\<close>-th work unit of a batch are \<open>draw n\<close>.
\<close>

section \<open>The repository the service calls\<close>

record 's lifecycle_port =
  lp_buckets :: "'s \<Rightarrow> bucket_id option \<Rightarrow> nat \<Rightarrow> repository_error + s3_bucket list"
  lp_current :: "'s \<Rightarrow> application_id \<Rightarrow> bucket_id \<Rightarrow> str \<Rightarrow> timestamp option \<Rightarrow> timestamp \<Rightarrow> nat
    \<Rightarrow> repository_error + s3_current_expiration_candidate list"
  lp_noncurrent :: "'s \<Rightarrow> application_id \<Rightarrow> bucket_id \<Rightarrow> str \<Rightarrow> timestamp \<Rightarrow> timestamp \<Rightarrow> nat
    \<Rightarrow> repository_error + s3_noncurrent_expiration_candidate list"
  lp_marker :: "'s \<Rightarrow> application_id \<Rightarrow> bucket_id \<Rightarrow> s3_lifecycle_rule \<Rightarrow> timestamp \<Rightarrow> nat
    \<Rightarrow> repository_error + s3_expired_delete_marker_candidate list"
  lp_multipart :: "'s \<Rightarrow> application_id \<Rightarrow> bucket_id \<Rightarrow> str \<Rightarrow> timestamp \<Rightarrow> timestamp \<Rightarrow> nat
    \<Rightarrow> repository_error + s3_multipart_lifecycle_candidate list"
  lp_execute :: "'s \<Rightarrow> execute_s3_lifecycle_command
    \<Rightarrow> 's \<times> (repository_error + s3_lifecycle_execution_outcome)"

definition memory_port ::
  "unicode_tables \<Rightarrow> (str \<Rightarrow> storage_gc_task_id) \<Rightarrow> repo_state lifecycle_port" where
  "memory_port uc new_id =
     \<lparr>lp_buckets = (\<lambda>s after limit. Ok (list_s3_lifecycle_buckets s after limit)),
      lp_current = (\<lambda>s a b p before now limit. Ok (list_s3_current_expiration_candidates s a b p before now limit)),
      lp_noncurrent = (\<lambda>s a b p before now limit. Ok (list_s3_noncurrent_expiration_candidates s a b p before now limit)),
      lp_marker = (\<lambda>s a b rule now limit. Ok (list_s3_expiration_delete_marker_candidates s a b rule now limit)),
      lp_multipart = (\<lambda>s a b p before now limit. Ok (list_s3_multipart_lifecycle_candidates s a b p before now limit)),
      lp_execute = execute_s3_lifecycle uc new_id\<rparr>"

section \<open>One scan\<close>

definition MAX_S3_LIFECYCLE_BATCH_SIZE :: nat where
  "MAX_S3_LIFECYCLE_BATCH_SIZE = 1000"

definition MAX_S3_LIFECYCLE_BUCKET_PAGE_SIZE :: nat where
  "MAX_S3_LIFECYCLE_BUCKET_PAGE_SIZE = 100"

definition DEFAULT_S3_LIFECYCLE_GC_MAX_ATTEMPTS :: u32 where
  "DEFAULT_S3_LIFECYCLE_GC_MAX_ATTEMPTS = 10"

definition current_target :: "s3_current_expiration_candidate \<Rightarrow> s3_lifecycle_target" where
  "current_target c =
     ExpireCurrent (cc_object_id c) (cc_object_key c) (cc_current_version_id c) (cc_version_created_at c)"

definition first_of :: "('a \<Rightarrow> 'b) \<Rightarrow> 'a list \<Rightarrow> 'b option" where
  "first_of f xs = (case xs of [] \<Rightarrow> None | x # _ \<Rightarrow> Some (f x))"

definition scan_action ::
  "'s lifecycle_port \<Rightarrow> 's \<Rightarrow> s3_bucket \<Rightarrow> s3_lifecycle_rule \<Rightarrow> s3_lifecycle_scan_action \<Rightarrow> timestamp
   \<Rightarrow> repository_error + s3_lifecycle_target option" where
  "scan_action port s bucket rule action now =
     (let application_id = sb_application_id bucket;
          bucket_id = sb_id bucket;
          prefix0 = lifecycle_prefix (lr_filter rule)
      in case action of
           ScanCurrentExpiration \<Rightarrow>
             (case lr_expiration rule of
                Some (ExpirationDays days) \<Rightarrow>
                  and_then (lifecycle_days_cutoff now days) (\<lambda>cutoff.
                  and_then (lp_current port s application_id bucket_id prefix0 (Some cutoff) now 1) (\<lambda>found.
                    Ok (first_of current_target found)))
              | Some (ExpirationDate date) \<Rightarrow>
                  if date \<le> now
                  then and_then (lp_current port s application_id bucket_id prefix0 None now 1) (\<lambda>found.
                         Ok (first_of current_target found))
                  else Ok None
              | Some ExpiredObjectDeleteMarker \<Rightarrow> Ok None
              | None \<Rightarrow> Ok None)
         | ScanExpiredDeleteMarker \<Rightarrow>
             and_then (lp_marker port s application_id bucket_id rule now 1) (\<lambda>found.
               Ok (first_of (\<lambda>c. RemoveExpiredDeleteMarker (mc_object_id c) (mc_object_key c)
                                  (mc_marker_version_id c)) found))
         | ScanNoncurrentExpiration \<Rightarrow>
             and_then (ok_or (RepoInvariant (Message ''selected S3 lifecycle noncurrent action is missing''))
                        (lr_noncurrent_version_expiration rule)) (\<lambda>act.
             and_then (lifecycle_days_cutoff now (noncurrent_days act)) (\<lambda>cutoff.
             and_then (lp_noncurrent port s application_id bucket_id prefix0 cutoff now 1) (\<lambda>found.
               Ok (first_of (\<lambda>c. ExpireNoncurrent (nc_object_id c) (nc_object_key c) (nc_version_id c)
                                  (nc_became_noncurrent_at c)) found))))
         | ScanMultipartAbort \<Rightarrow>
             and_then (ok_or (RepoInvariant (Message ''selected S3 lifecycle multipart action is missing''))
                        (lr_abort_incomplete_multipart_upload rule)) (\<lambda>act.
             and_then (lifecycle_days_cutoff now (days_after_initiation act)) (\<lambda>cutoff.
             and_then (lp_multipart port s application_id bucket_id prefix0 cutoff now 1) (\<lambda>found.
               Ok (first_of (\<lambda>c. AbortMultipart (pc_upload_id c) (pc_object_key c) (pc_initiated_at c)) found)))))"

section \<open>One work unit\<close>

record s3_lifecycle_batch_cursor =
  cu_after_bucket_id :: "bucket_id option"
  cu_action_round :: u64

record s3_lifecycle_batch_receipt =
  re_examined :: nat
  re_applied :: nat
  re_skipped :: nat
  re_locked :: nat
  re_retries :: nat
  re_next_cursor :: s3_lifecycle_batch_cursor

definition cursor_default :: s3_lifecycle_batch_cursor where
  "cursor_default = \<lparr>cu_after_bucket_id = None, cu_action_round = 0\<rparr>"

definition receipt_default :: s3_lifecycle_batch_receipt where
  "receipt_default = \<lparr>re_examined = 0, re_applied = 0, re_skipped = 0, re_locked = 0, re_retries = 0,
                      re_next_cursor = cursor_default\<rparr>"

record 's batch =
  ba_repository :: 's
  ba_receipt :: s3_lifecycle_batch_receipt
  ba_seen :: "s3_lifecycle_target_identity set"
  ba_cursor :: s3_lifecycle_batch_cursor

text \<open>What the service does not read from the repository: the clock, fresh identifiers and their text.\<close>

record batch_env =
  be_now :: timestamp
  be_draw :: "nat \<Rightarrow> object_version_id \<times> storage_gc_task_id"
  be_uuid_text :: "object_version_id \<Rightarrow> str"

definition lifecycle_command ::
  "batch_env \<Rightarrow> nat \<Rightarrow> s3_bucket \<Rightarrow> s3_lifecycle_rule \<Rightarrow> s3_lifecycle_target
   \<Rightarrow> repository_error + execute_s3_lifecycle_command" where
  "lifecycle_command env n bucket rule target =
     (let (version_id, gc_task_id) = be_draw env n
      in and_then (model_invariant (s3_version_id_new (be_uuid_text env version_id))) (\<lambda>marker_version_id.
           Ok \<lparr>xc_application_id = sb_application_id bucket, xc_bucket_id = sb_id bucket,
               xc_expected_configuration_revision = bc_revision (sb_configuration bucket),
               xc_rule = rule, xc_target = target, xc_evaluated_at = be_now env,
               xc_delete_marker_id = version_id, xc_delete_marker_version_id = marker_version_id,
               xc_gc_task_id = gc_task_id, xc_gc_not_before = be_now env,
               xc_gc_max_attempts = DEFAULT_S3_LIFECYCLE_GC_MAX_ATTEMPTS\<rparr>))"

fun count_outcome ::
  "repository_error + s3_lifecycle_execution_outcome \<Rightarrow> s3_lifecycle_batch_receipt
   \<Rightarrow> repository_error + s3_lifecycle_batch_receipt" where
  "count_outcome (Inr LcApplied) r = Ok (r\<lparr>re_applied := re_applied r + 1\<rparr>)"
| "count_outcome (Inr LcLocked) r = Ok (r\<lparr>re_locked := re_locked r + 1\<rparr>)"
| "count_outcome (Inr _) r = Ok (r\<lparr>re_skipped := re_skipped r + 1\<rparr>)"
| "count_outcome (Inl RepoConflict) r = Ok (r\<lparr>re_retries := re_retries r + 1\<rparr>)"
| "count_outcome (Inl e) r = Err e"

text \<open>The body of the loop over the buckets of a page, up to the check of the limit.\<close>

definition batch_unit ::
  "batch_env \<Rightarrow> 's lifecycle_port \<Rightarrow> s3_bucket \<Rightarrow> 's batch \<Rightarrow> 's batch \<times> (repository_error + unit)" where
  "batch_unit env port bucket st =
     (let n = re_examined (ba_receipt st);
          selected = Option.bind (bc_lifecycle_configuration (sb_configuration bucket))
            (\<lambda>lifecycle. select_scan_action (lc_rules lifecycle) (unat (cu_action_round (ba_cursor st))));
          receipt = (ba_receipt st)\<lparr>re_examined := n + 1\<rparr>;
          st = st\<lparr>ba_receipt := receipt,
                  ba_cursor := (ba_cursor st)\<lparr>cu_after_bucket_id := Some (sb_id bucket)\<rparr>\<rparr>;
          skipped = st\<lparr>ba_receipt := receipt\<lparr>re_skipped := re_skipped receipt + 1\<rparr>\<rparr>
      in case selected of
           None \<Rightarrow> (skipped, Ok ())
         | Some (rule, action) \<Rightarrow>
             (case scan_action port (ba_repository st) bucket rule action (be_now env) of
                Inl e \<Rightarrow> (st, Err e)
              | Inr None \<Rightarrow> (st, Ok ())
              | Inr (Some target) \<Rightarrow>
                  if target_identity target \<in> ba_seen st then (skipped, Ok ())
                  else
                    let st = st\<lparr>ba_seen := insert (target_identity target) (ba_seen st)\<rparr>
                    in case lifecycle_command env n bucket rule target of
                         Inl e \<Rightarrow> (st, Err e)
                       | Inr command \<Rightarrow>
                           let (s', outcome) = lp_execute port (ba_repository st) command;
                               st = st\<lparr>ba_repository := s'\<rparr>
                           in case count_outcome outcome receipt of
                                Inl e \<Rightarrow> (st, Err e)
                              | Inr counted \<Rightarrow> (st\<lparr>ba_receipt := counted\<rparr>, Ok ())))"

section \<open>A batch\<close>

text \<open>How the loop over a page ends: an error, the limit reached, or the page exhausted.\<close>

datatype page_end = PageFailed repository_error | LimitReached | PageExhausted

fun batch_page ::
  "batch_env \<Rightarrow> 's lifecycle_port \<Rightarrow> nat \<Rightarrow> s3_bucket list \<Rightarrow> 's batch \<Rightarrow> 's batch \<times> page_end" where
  "batch_page env port limit [] st = (st, PageExhausted)"
| "batch_page env port limit (bucket # buckets) st =
     (case batch_unit env port bucket st of
        (st, Inl e) \<Rightarrow> (st, PageFailed e)
      | (st, Inr _) \<Rightarrow>
          if re_examined (ba_receipt st) = limit
          then (st\<lparr>ba_receipt := (ba_receipt st)\<lparr>re_next_cursor := ba_cursor st\<rparr>\<rparr>, LimitReached)
          else batch_page env port limit buckets st)"

definition next_round :: "s3_lifecycle_batch_cursor \<Rightarrow> s3_lifecycle_batch_cursor" where
  "next_round c = \<lparr>cu_after_bucket_id = None, cu_action_round = cu_action_round c + 1\<rparr>"

lemma count_outcome_examined:
  "count_outcome outcome r = Inr r' \<Longrightarrow> re_examined r' = re_examined r"
  by (induction outcome r rule: count_outcome.induct) auto

lemma batch_unit_examined:
  "batch_unit env port bucket st = (st', r) \<Longrightarrow> re_examined (ba_receipt st') = re_examined (ba_receipt st) + 1"
  by (auto simp: batch_unit_def Let_def split: option.splits sum.splits prod.splits if_splits
      dest!: count_outcome_examined)

lemma batch_page_examined:
  "batch_page env port limit buckets st = (st', PageExhausted) \<Longrightarrow>
   re_examined (ba_receipt st') = re_examined (ba_receipt st) + length buckets"
  by (induction env port limit buckets st rule: batch_page.induct)
     (auto split: prod.splits sum.splits if_splits dest!: batch_unit_examined)

function batch_loop ::
  "batch_env \<Rightarrow> 's lifecycle_port \<Rightarrow> nat \<Rightarrow> 's batch \<Rightarrow> 's batch \<times> (repository_error + unit)" where
  "batch_loop env port limit st =
     (let examined = re_examined (ba_receipt st)
      in if examined < limit then
           let page_limit = min (limit - examined) MAX_S3_LIFECYCLE_BUCKET_PAGE_SIZE
           in case lp_buckets port (ba_repository st) (cu_after_bucket_id (ba_cursor st)) page_limit of
                Inl e \<Rightarrow> (st, Err e)
              | Inr [] \<Rightarrow>
                  if cu_after_bucket_id (ba_cursor st) = None
                  then (st\<lparr>ba_receipt := (ba_receipt st)\<lparr>re_next_cursor := ba_cursor st\<rparr>\<rparr>, Ok ())
                  else batch_loop env port limit (st\<lparr>ba_cursor := next_round (ba_cursor st)\<rparr>)
              | Inr (b # bs) \<Rightarrow>
                  (case batch_page env port limit (b # bs) st of
                     (st', PageFailed e) \<Rightarrow> (st', Err e)
                   | (st', LimitReached) \<Rightarrow> (st', Ok ())
                   | (st', PageExhausted) \<Rightarrow>
                       batch_loop env port limit
                         (if length (b # bs) < page_limit
                          then st'\<lparr>ba_cursor := next_round (ba_cursor st')\<rparr> else st'))
         else (st\<lparr>ba_receipt := (ba_receipt st)\<lparr>re_next_cursor := ba_cursor st\<rparr>\<rparr>, Ok ()))"
  by pat_completeness auto
termination
  by (relation "measures [\<lambda>(env, port, limit, st). limit - re_examined (ba_receipt st),
        \<lambda>(env, port, limit, st). if cu_after_bucket_id (ba_cursor st) = None then 0 else 1]")
     (auto simp: next_round_def simp del: batch_page.simps dest!: batch_page_examined [OF sym] split: if_splits)

definition batch_start :: "'s \<Rightarrow> s3_lifecycle_batch_cursor \<Rightarrow> 's batch" where
  "batch_start s cursor =
     \<lparr>ba_repository = s, ba_receipt = receipt_default, ba_seen = {}, ba_cursor = cursor\<rparr>"

definition batch_result ::
  "'s batch \<times> (repository_error + unit) \<Rightarrow> 's \<times> (repository_error + s3_lifecycle_batch_receipt)" where
  "batch_result r = (case r of (st, Inl e) \<Rightarrow> (ba_repository st, Err e)
                            | (st, Inr _) \<Rightarrow> (ba_repository st, Ok (ba_receipt st)))"

definition run_batch ::
  "batch_env \<Rightarrow> 's lifecycle_port \<Rightarrow> 's \<Rightarrow> s3_lifecycle_batch_cursor \<Rightarrow> nat
   \<Rightarrow> 's \<times> (repository_error + s3_lifecycle_batch_receipt)" where
  "run_batch env port s cursor limit =
     (if \<not> (1 \<le> limit \<and> limit \<le> MAX_S3_LIFECYCLE_BATCH_SIZE)
      then (s, Err (RepoInvariant (Message ''S3 lifecycle batch limit must be between 1 and 1000'')))
      else batch_result (batch_loop env port limit (batch_start s cursor)))"

declare batch_loop.simps [simp del]

section \<open>The unpaged schedule\<close>

text \<open>The work units of a batch, without pages: the buckets in turn, the round one higher each time
  the last bucket has been examined.\<close>

definition schedule :: "s3_bucket list \<Rightarrow> nat \<Rightarrow> u64 \<Rightarrow> nat \<Rightarrow> (s3_bucket \<times> u64) list" where
  "schedule bs p round n =
     map (\<lambda>i. (bs ! (i mod length bs), round + of_nat (i div length bs))) [p..<p + n]"

fun run_units ::
  "batch_env \<Rightarrow> 's lifecycle_port \<Rightarrow> (s3_bucket \<times> u64) list \<Rightarrow> 's batch \<Rightarrow> 's batch \<times> (repository_error + unit)" where
  "run_units env port [] st = (st\<lparr>ba_receipt := (ba_receipt st)\<lparr>re_next_cursor := ba_cursor st\<rparr>\<rparr>, Ok ())"
| "run_units env port ((b, round) # us) st =
     (case batch_unit env port b (st\<lparr>ba_cursor := (ba_cursor st)\<lparr>cu_action_round := round\<rparr>\<rparr>) of
        (st', Inl e) \<Rightarrow> (st', Err e)
      | (st', Inr _) \<Rightarrow> run_units env port us st')"

definition position :: "s3_bucket list \<Rightarrow> bucket_id option \<Rightarrow> nat" where
  "position bs after = (case after of None \<Rightarrow> 0 | Some a \<Rightarrow> length (filter (\<lambda>b. sb_id b \<le> a) bs))"

abbreviation by_id :: "s3_bucket list \<Rightarrow> bool" where
  "by_id bs \<equiv> sorted_wrt (\<lambda>x y. sb_id x < sb_id y) bs"

lemma schedule_page:
  assumes "p + m \<le> length bs" and "m \<le> k" and "0 < length bs"
  shows "schedule bs p r k = map (\<lambda>b. (b, r)) (take m (drop p bs)) @ schedule bs (p + m) r (k - m)"
proof -
  have "[p..<p + k] = [p..<p + m] @ [p + m..<p + k]" using assms(2) by (metis le_add1 le_add_diff_inverse add.assoc upt_add_eq_append)
  moreover have "map (\<lambda>i. (bs ! (i mod length bs), r + of_nat (i div length bs))) [p..<p + m]
      = map (\<lambda>b. (b, r)) (take m (drop p bs))"
    by (rule nth_equalityI) (use assms(1) in auto)
  ultimately show ?thesis using assms(2) by (simp add: schedule_def)
qed

lemma schedule_wrap:
  assumes "0 < length bs"
  shows "schedule bs (length bs) r k = schedule bs 0 (r + 1) k"
proof (rule nth_equalityI)
  fix i assume "i < length (schedule bs (length bs) r k)"
  with assms show "schedule bs (length bs) r k ! i = schedule bs 0 (r + 1) k ! i"
    by (simp add: schedule_def div_add_self1)
qed (simp add: schedule_def)

lemma drop_position:
  "by_id bs \<Longrightarrow> filter (\<lambda>b. is_none_or after (\<lambda>a. sb_id b > a)) bs = drop (position bs after) bs"
proof (cases after)
  case (Some a)
  assume "by_id bs"
  then show ?thesis unfolding Some
  proof (induction bs)
    case (Cons b bs)
    then have "filter (\<lambda>b. sb_id b \<le> a) bs = []" if "a < sb_id b"
      using that by (auto simp: filter_empty_conv dest!: bspec)
    moreover have "filter (\<lambda>b. sb_id b > a) bs = bs" if "a < sb_id b"
      using that Cons.prems by (auto simp: filter_id_conv dest!: bspec)
    ultimately show ?case using Cons by (auto simp: position_def not_le not_less)
  qed (simp add: position_def)
qed (simp add: position_def)

lemma position_None [simp]: "position bs None = 0"
  by (simp add: position_def)

lemma position_le: "position bs after \<le> length bs"
  by (simp add: position_def split: option.split)

lemma position_nth:
  assumes "by_id bs" and "j < length bs"
  shows "position bs (Some (sb_id (bs ! j))) = Suc j"
proof -
  have "take (Suc j) bs @ drop (Suc j) bs = bs" by simp
  moreover have "filter (\<lambda>b. sb_id b \<le> sb_id (bs ! j)) (take (Suc j) bs) = take (Suc j) bs"
    using assms by (auto simp: filter_id_conv in_set_conv_nth sorted_wrt_iff_nth_less)
      (metis less_SucE less_imp_le order_refl)
  moreover have "filter (\<lambda>b. sb_id b \<le> sb_id (bs ! j)) (drop (Suc j) bs) = []"
    using assms by (auto simp: filter_empty_conv in_set_conv_nth sorted_wrt_iff_nth_less not_le)
  ultimately have "filter (\<lambda>b. sb_id b \<le> sb_id (bs ! j)) bs = take (Suc j) bs"
    by (metis append_Nil2 filter_append)
  with assms show ?thesis by (simp add: position_def)
qed

lemma batch_unit_cursor:
  "cu_action_round c = cu_action_round (ba_cursor st) \<Longrightarrow>
   batch_unit env port b (st\<lparr>ba_cursor := c\<rparr>) = batch_unit env port b st"
  by (cases st; cases "ba_cursor st"; cases c) (simp add: batch_unit_def)

lemma batch_unit_after:
  "batch_unit env port b st = (st', r) \<Longrightarrow>
   ba_cursor st' = (ba_cursor st)\<lparr>cu_after_bucket_id := Some (sb_id b)\<rparr>"
  by (auto simp: batch_unit_def Let_def split: option.splits sum.splits prod.splits if_splits)


lemma run_units_cursor:
  "us \<noteq> [] \<Longrightarrow>
   run_units env port us (st\<lparr>ba_cursor := c\<rparr>) = run_units env port us st"
proof (induction us)
  case (Cons u us)
  obtain b round where u: "u = (b, round)" by (cases u)
  have "batch_unit env port b (st\<lparr>ba_cursor := c\<lparr>cu_action_round := round\<rparr>\<rparr>)
      = batch_unit env port b (st\<lparr>ba_cursor := ba_cursor st\<lparr>cu_action_round := round\<rparr>\<rparr>)"
    using batch_unit_cursor [of "c\<lparr>cu_action_round := round\<rparr>" "st\<lparr>ba_cursor := ba_cursor st\<lparr>cu_action_round := round\<rparr>\<rparr>"]
    by simp
  then show ?case by (simp add: u)
qed simp

text \<open>A page is a run of work units of one round.\<close>

lemma page_units:
  assumes "length bs \<le> limit - re_examined (ba_receipt st)" and "re_examined (ba_receipt st) < limit"
    and "cu_action_round (ba_cursor st) = r" and "batch_page env port limit bs st = (st', e)"
  shows "case e of
      PageFailed err \<Rightarrow> run_units env port (map (\<lambda>b. (b, r)) bs @ us) st = (st', Err err)
    | LimitReached \<Rightarrow> run_units env port (map (\<lambda>b. (b, r)) bs) st = (st', Ok ())
        \<and> length bs = limit - re_examined (ba_receipt st)
    | PageExhausted \<Rightarrow> run_units env port (map (\<lambda>b. (b, r)) bs @ us) st = run_units env port us st'
        \<and> re_examined (ba_receipt st') < limit
        \<and> ba_cursor st' = (if bs = [] then ba_cursor st
            else (ba_cursor st)\<lparr>cu_after_bucket_id := Some (sb_id (last bs))\<rparr>)"
  using assms
proof (induction bs arbitrary: st)
  case (Cons b bs)
  have st: "st\<lparr>ba_cursor := ba_cursor st\<lparr>cu_action_round := r\<rparr>\<rparr> = st"
    using Cons.prems(3) by (cases st; cases "ba_cursor st") simp
  obtain st1 r1 where unit: "batch_unit env port b st = (st1, r1)" by (cases "batch_unit env port b st")
  note ex = batch_unit_examined [OF unit] and cur = batch_unit_after [OF unit]
  show ?case
  proof (cases r1)
    case (Inl err)
    with unit Cons.prems(4) show ?thesis by (auto simp: st)
  next
    case (Inr u)
    show ?thesis
    proof (cases "re_examined (ba_receipt st1) = limit")
      case True
      with Cons.prems(1) ex have "bs = []" by simp
      with True Inr unit Cons.prems ex show ?thesis by (auto simp: st)
    next
      case False
      with Cons.prems Inr unit ex cur have "batch_page env port limit bs st1 = (st', e)"
        "length bs \<le> limit - re_examined (ba_receipt st1)" "re_examined (ba_receipt st1) < limit"
        "cu_action_round (ba_cursor st1) = r" by auto
      from Cons.IH [OF this(2,3,4,1)] unit Inr ex cur Cons.prems(2) show ?thesis
        by (auto simp: st split: page_end.splits)
    qed
  qed
qed simp


section \<open>What the service relies on\<close>

text \<open>The buckets of the schedule: the repository pages through them in the order of their ids, and no
  execution changes them.\<close>

locale lifecycle_repository =
  fixes port :: "'s lifecycle_port"
    and scheduled :: "'s \<Rightarrow> s3_bucket list"
  assumes pages: "lp_buckets port s after n
      = Ok (take n (filter (\<lambda>b. is_none_or after (\<lambda>a. sb_id b > a)) (scheduled s)))"
    and execute_scheduled: "scheduled (fst (lp_execute port s c)) = scheduled s"
begin

lemma unit_scheduled:
  "batch_unit env port b st = (st', r) \<Longrightarrow> scheduled (ba_repository st') = scheduled (ba_repository st)"
  using execute_scheduled
  by (auto simp: batch_unit_def Let_def split: option.splits sum.splits prod.splits if_splits) (metis fst_conv)+

lemma page_scheduled:
  "batch_page env port limit bs st = (st', e) \<Longrightarrow> scheduled (ba_repository st') = scheduled (ba_repository st)"
  by (induction bs arbitrary: st) (auto split: prod.splits sum.splits if_splits dest!: unit_scheduled)

lemma loop_at_end:
  assumes "by_id (scheduled (ba_repository st))" and "re_examined (ba_receipt st) < limit"
    and "position (scheduled (ba_repository st)) (cu_after_bucket_id (ba_cursor st)) = length (scheduled (ba_repository st))"
    and "scheduled (ba_repository st) \<noteq> []"
  shows "batch_loop env port limit st = batch_loop env port limit (st\<lparr>ba_cursor := next_round (ba_cursor st)\<rparr>)"
proof -
  have "cu_after_bucket_id (ba_cursor st) \<noteq> None" using assms(3,4) by (cases "cu_after_bucket_id (ba_cursor st)") (auto simp: position_def)
  then show ?thesis
    using assms by (subst batch_loop.simps) (auto simp: pages drop_position Let_def)
qed

abbreviation pos :: "'s batch \<Rightarrow> nat" where
  "pos st \<equiv> position (scheduled (ba_repository st)) (cu_after_bucket_id (ba_cursor st))"

abbreviation units_from :: "nat \<Rightarrow> 's batch \<Rightarrow> (s3_bucket \<times> u64) list" where
  "units_from limit st \<equiv> schedule (scheduled (ba_repository st)) (pos st) (cu_action_round (ba_cursor st))
     (limit - re_examined (ba_receipt st))"

lemma loop_page:
  assumes ord: "by_id (scheduled (ba_repository st))" and room: "re_examined (ba_receipt st) < limit"
    and p: "pos st < length (scheduled (ba_repository st))"
    and IH: "\<And>st'. scheduled (ba_repository st') = scheduled (ba_repository st) \<Longrightarrow>
      re_examined (ba_receipt st) < re_examined (ba_receipt st') \<Longrightarrow> re_examined (ba_receipt st') < limit \<Longrightarrow>
      batch_loop env port limit st' = run_units env port (units_from limit st') st'"
  shows "batch_loop env port limit st = run_units env port (units_from limit st) st"
proof -
  let ?bs = "scheduled (ba_repository st)" and ?r = "cu_action_round (ba_cursor st)"
    and ?k = "limit - re_examined (ba_receipt st)" and ?p = "pos st"
  let ?l = "min ?k MAX_S3_LIFECYCLE_BUCKET_PAGE_SIZE"
  define page where "page = take ?l (drop ?p ?bs)"
  define m where "m = length page"
  have m: "?p + m \<le> length ?bs" "m \<le> ?k" "m = min ?l (length ?bs - ?p)" "0 < m"
    using p room by (auto simp: m_def page_def MAX_S3_LIFECYCLE_BUCKET_PAGE_SIZE_def)
  have page: "page = take m (drop ?p ?bs)" "page \<noteq> []"
    using m(4) by (auto simp: m_def) (metis append_eq_conv_conj append_take_drop_id page_def)
  have units: "units_from limit st = map (\<lambda>b. (b, ?r)) page @ schedule ?bs (?p + m) ?r (?k - m)"
    using schedule_page [OF m(1,2), of ?r] p unfolding page(1) by linarith
  have fetched: "lp_buckets port (ba_repository st) (cu_after_bucket_id (ba_cursor st)) ?l = Ok page"
    by (simp add: pages drop_position [OF ord] page_def)
  obtain st' e where run: "batch_page env port limit page st = (st', e)"
    by (cases "batch_page env port limit page st")
  have loop: "batch_loop env port limit st = (case e of
      PageFailed err \<Rightarrow> (st', Err err) | LimitReached \<Rightarrow> (st', Ok ())
    | PageExhausted \<Rightarrow> batch_loop env port limit
        (if m < ?l then st'\<lparr>ba_cursor := next_round (ba_cursor st')\<rparr> else st'))"
    using room fetched run page(2)
    by (subst batch_loop.simps) (auto simp: Let_def m_def split: list.split page_end.split simp del: batch_page.simps)
  note res = page_units [OF _ room refl run, of "schedule ?bs (?p + m) ?r (?k - m)"]
  show ?thesis
  proof (cases e)
    case (PageFailed err)
    with res m(2) loop units show ?thesis by (simp add: m_def)
  next
    case LimitReached
    with res m(2) have "m = ?k" "run_units env port (map (\<lambda>b. (b, ?r)) page) st = (st', Ok ())" by (auto simp: m_def)
    with LimitReached loop units show ?thesis by (simp add: schedule_def)
  next
    case PageExhausted
    with res m(2) have go: "run_units env port (units_from limit st) st = run_units env port (schedule ?bs (?p + m) ?r (?k - m)) st'"
      and room': "re_examined (ba_receipt st') < limit"
      and cur: "ba_cursor st' = (ba_cursor st)\<lparr>cu_after_bucket_id := Some (sb_id (last page))\<rparr>"
      using page(2) by (auto simp: m_def units)
    have same: "scheduled (ba_repository st') = ?bs" by (rule page_scheduled [OF run])
    have ex: "re_examined (ba_receipt st') = re_examined (ba_receipt st) + m"
      using batch_page_examined [of env port limit page st st'] run PageExhausted by (simp add: m_def)
    have "last page = page ! (m - 1)" using page(2) by (simp add: last_conv_nth m_def)
    also have "\<dots> = ?bs ! (?p + m - 1)" using m(1,4) by (subst page(1)) simp
    finally have "last page = ?bs ! (?p + m - 1)" .
    with position_nth [OF ord, of "?p + m - 1"] m(1,4) have pos': "pos st' = ?p + m"
      by (simp add: cur same)
    have rest: "schedule ?bs (?p + m) ?r (?k - m) \<noteq> []" using ex room' by (simp add: schedule_def)
    show ?thesis
    proof (cases "m < ?l")
      case False
      have "units_from limit st' = schedule ?bs (?p + m) ?r (?k - m)" using pos' by (simp add: same ex cur)
      with IH [OF same _ room'] ex m(4) go
      have "batch_loop env port limit st' = run_units env port (units_from limit st) st" by simp
      with False PageExhausted loop show ?thesis by (simp only: page_end.case if_False)
    next
      case True
      have "a = q" if "a = min l q" "a < l" for a l q :: nat using that by (auto simp: min_def split: if_splits)
      from this [OF m(3) True] have last_page: "?p + m = length ?bs" using p by linarith
      let ?st = "st'\<lparr>ba_cursor := next_round (ba_cursor st')\<rparr>"
      have "batch_loop env port limit ?st = run_units env port (units_from limit ?st) ?st"
        using IH [of ?st] same ex m(4) room' by simp
      also have "units_from limit ?st = schedule ?bs (length ?bs) ?r (?k - m)"
        using p by (subst schedule_wrap) (auto simp: next_round_def same ex cur)
      also have "\<dots> = schedule ?bs (?p + m) ?r (?k - m)" by (simp only: last_page)
      also have "run_units env port \<dots> ?st = run_units env port \<dots> st'"
        by (rule run_units_cursor [OF rest])
      finally show ?thesis
        using True PageExhausted loop go by (simp only: page_end.case if_True)
    qed
  qed
qed

text \<open>The paged loop runs the unpaged schedule.\<close>

lemma loop_schedule:
  assumes "by_id (scheduled (ba_repository st))" and "scheduled (ba_repository st) \<noteq> []"
    and "re_examined (ba_receipt st) < limit"
  shows "batch_loop env port limit st = run_units env port (units_from limit st) st"
  using assms
proof (induction "limit - re_examined (ba_receipt st)" arbitrary: st rule: less_induct)
  case less
  have IH: "batch_loop env port limit st' = run_units env port (units_from limit st') st'"
    if "scheduled (ba_repository st') = scheduled (ba_repository st)"
      "re_examined (ba_receipt st) < re_examined (ba_receipt st')" "re_examined (ba_receipt st') < limit" for st'
    using that less by simp
  show ?case
  proof (cases "pos st = length (scheduled (ba_repository st))")
    case False
    then have "pos st < length (scheduled (ba_repository st))" using position_le by (simp add: order.not_eq_order_implies_strict)
    then show ?thesis using loop_page [OF less.prems(1,3) _ IH] by blast
  next
    case True
    let ?st = "st\<lparr>ba_cursor := next_round (ba_cursor st)\<rparr>"
    have "batch_loop env port limit st = batch_loop env port limit ?st"
      by (rule loop_at_end [OF less.prems(1,3) True less.prems(2)])
    also have "\<dots> = run_units env port (units_from limit ?st) ?st"
    proof (rule loop_page)
      show "pos ?st < length (scheduled (ba_repository ?st))"
        using less.prems(2) by (simp add: next_round_def)
    next
      fix st' :: "'s batch" assume "scheduled (ba_repository st') = scheduled (ba_repository ?st)"
        "re_examined (ba_receipt ?st) < re_examined (ba_receipt st')" "re_examined (ba_receipt st') < limit"
      then show "batch_loop env port limit st' = run_units env port (units_from limit st') st'"
        by (intro IH) simp_all
    qed (simp_all add: less.prems)
    also have "units_from limit ?st = units_from limit st"
      using less.prems(2) by (simp add: True schedule_wrap next_round_def)
    finally show ?thesis
      using run_units_cursor [of "units_from limit st" env port "next_round (ba_cursor st)" st] less.prems(3) by (simp add: schedule_def)
  qed
qed

end


section \<open>The in-memory repository\<close>

definition lifecycle_buckets :: "repo_state \<Rightarrow> s3_bucket list" where
  "lifecycle_buckets s =
     sort_key sb_id (filter (\<lambda>b. bc_lifecycle_configuration (sb_configuration b) \<noteq> None) (rs_buckets s))"

lemma buckets_frame [simp]:
  "rs_buckets (hide_version s v) = rs_buckets s" "rs_buckets (supersede_version s v) = rs_buckets s"
  "rs_buckets (insert_quota s a q) = rs_buckets s" "rs_buckets (insert_object s i obj) = rs_buckets s"
  "rs_buckets (push_version s i v) = rs_buckets s" "rs_buckets (insert_intent s k j) = rs_buckets s"
  by (simp_all add: hide_version_def supersede_version_def insert_quota_def insert_object_def push_version_def
      insert_intent_def)

lemma enqueue_optional_buckets: "enqueue_optional s task = Inr t \<Longrightarrow> rs_buckets t = rs_buckets s"
  using enqueue_optional_Ok by fastforce

lemma mark_noncurrent_buckets:
  "mark_memory_version_noncurrent s i x now = Inr t \<Longrightarrow> rs_buckets t = rs_buckets s"
  by (auto simp: mark_memory_version_noncurrent_def result_simps)

lemma current_expiration_buckets:
  "execute_memory_current_expiration s bucket i key cur created c = Inr (t, out) \<Longrightarrow> rs_buckets t = rs_buckets s"
  by (auto simp: execute_memory_current_expiration_def expire_current_enabled_def expire_current_suspended_def
      expire_current_unversioned_def Let_def result_simps split: option.splits if_splits versioning_status.splits
      dest!: mark_noncurrent_buckets enqueue_optional_buckets)

lemma noncurrent_expiration_buckets:
  "execute_memory_noncurrent_expiration s i key x became c = Inr (t, out) \<Longrightarrow> rs_buckets t = rs_buckets s"
  by (auto simp: execute_memory_noncurrent_expiration_def Let_def result_simps split: option.splits if_splits
      dest!: enqueue_optional_buckets)

lemma expired_marker_buckets:
  "execute_memory_expired_marker s i key x c = Inr (t, out) \<Longrightarrow> rs_buckets t = rs_buckets s"
  by (auto simp: execute_memory_expired_marker_def Let_def result_simps split: option.splits if_splits list.splits)

lemma multipart_abort_buckets:
  assumes "execute_memory_multipart_abort uc new_id s u key initiated c = Inr (t, out)"
  shows "rs_buckets t = rs_buckets s"
proof (cases "t = s")
  case False
  from assms False show ?thesis
  proof (rule multipart_abort_cases)
    fix upload s1 released tasks s2
    assume ab: "abort_multipart_intent uc new_id s upload c = Inr (Inr (s1, released))"
      and gc: "enqueue_gc_tasks s1 tasks = Inr s2"
      and t: "t = (let s3 = s2\<lparr>rs_multipart_uploads := hm_insert u
                     (aborted_multipart_row upload (xc_evaluated_at c)) (rs_multipart_uploads s2)\<rparr>
                 in case released of None \<Rightarrow> s3 | Some (a, q) \<Rightarrow> insert_quota s3 a q)"
    have "rs_buckets s1 = rs_buckets s"
      using ab by (auto simp: abort_multipart_intent_def result_simps Let_def dest!: gc_frame(6)
          simp del: enqueue_gc_tasks.simps split: option.splits if_splits)
    with gc_frame(6) [OF gc] show ?thesis by (auto simp: t Let_def split: option.split)
  qed
qed simp

lemma execute_s3_lifecycle_buckets: "rs_buckets (fst (execute_s3_lifecycle uc new_id s c)) = rs_buckets s"
proof -
  have "rs_buckets t = rs_buckets s" if "execute_lifecycle_target uc new_id s bucket c = Inr (t, out)" for bucket t out
    using that unfolding execute_lifecycle_target_def
    by (auto split: s3_lifecycle_target.splits dest: current_expiration_buckets noncurrent_expiration_buckets
        expired_marker_buckets multipart_abort_buckets)
  then show ?thesis by (simp add: execute_s3_lifecycle_def split: option.split sum.split prod.split)
qed

interpretation memory_lifecycle: lifecycle_repository "memory_port uc new_id" lifecycle_buckets
  for uc :: unicode_tables and new_id :: "str \<Rightarrow> storage_gc_task_id"
proof (unfold_locales, goal_cases)
  case (1 s after n)
  have "filter (\<lambda>b. is_none_or after (\<lambda>a. sb_id b > a)) (lifecycle_buckets s)
      = sort_key sb_id (filter (\<lambda>b. bc_lifecycle_configuration (sb_configuration b) \<noteq> None
          \<and> is_none_or after (\<lambda>a. sb_id b > a)) (rs_buckets s))"
    by (simp add: lifecycle_buckets_def filter_sort conj_commute)
  then show ?case by (simp add: memory_port_def list_s3_lifecycle_buckets_def)
next
  case (2 s c)
  then show ?case by (simp add: memory_port_def lifecycle_buckets_def execute_s3_lifecycle_buckets)
qed

end
