(* ===== verification/Memory_S3_Semantics.thy ===== *)
theory Memory_S3_Semantics
  imports Memory_S3_History
begin

text \<open>
  S3 delete semantics as an abstract specification: an object is a list of visible versions and a
  current pointer, and a delete removes a version or appends a delete marker. The in-memory
  repository, with its tombstone sets, quota accounts and garbage-collection queue, refines it.
\<close>

section \<open>The abstract version store\<close>

type_synonym object_view = "object_version list \<times> object_version_id option"

fun remove_first :: "('a \<Rightarrow> bool) \<Rightarrow> 'a list \<Rightarrow> 'a list" where
  "remove_first p [] = []"
| "remove_first p (x # xs) = (if p x then xs else x # remove_first p xs)"

definition newest :: "object_version list \<Rightarrow> object_version_id option" where
  "newest vs = map_option ov_id (max_by_key ov_generation vs)"

text \<open>
  Deleting one version: it disappears, and if it was current the newest remaining one takes its
  place.
\<close>

definition abstract_delete_version :: "s3_version_id \<Rightarrow> object_view \<Rightarrow> object_view" where
  "abstract_delete_version e w =
     (let p = (\<lambda>v. ov_external_version_id v = e); vs = remove_first p (fst w)
      in (vs, if map_option ov_id (List.find p (fst w)) = snd w then newest vs else snd w))"

text \<open>
  Deleting the object: a versioned bucket gets a delete marker; a bucket with suspended versioning
  loses its null version and gets a null marker; an unversioned bucket loses its null version.
\<close>

fun abstract_delete_object :: "versioning_status \<Rightarrow> object_version \<Rightarrow> object_view \<Rightarrow> object_view" where
  "abstract_delete_object VersioningEnabled m w = (fst w @ [m], Some (ov_id m))"
| "abstract_delete_object VersioningSuspended m w =
     (remove_first ov_is_null_version (fst w) @ [m], Some (ov_id m))"
| "abstract_delete_object Unversioned m w = (remove_first ov_is_null_version (fst w), None)"

definition object_view :: "repo_state \<Rightarrow> object_id \<Rightarrow> object_view" where
  "object_view s i =
     (list_s3_object_versions s i, Option.bind (hm_get (rs_objects s) i) so_current_version_id)"

section \<open>How the updates change the view\<close>

lemma list_versions_active: "list_s3_object_versions s i = memory_active_versions s i"
  by (simp add: list_s3_object_versions_def memory_active_versions_def)

lemma remove_first_filter:
  assumes "distinct (map f xs)" and "List.find p xs = Some x"
  shows "remove_first p xs = filter (\<lambda>y. f y \<noteq> f x) xs"
  using assms
proof (induction xs)
  case (Cons y ys)
  show ?case
  proof (cases "p y")
    case True
    with Cons.prems have "f z \<noteq> f x" if "z \<in> set ys" for z using that by (auto simp: rev_image_eqI)
    then have "filter (\<lambda>z. f z \<noteq> f x) ys = ys" by simp
    with True Cons.prems show ?thesis by simp
  next
    case False
    with Cons.prems have "x \<in> set ys" by (auto dest: find_Some_D)
    with Cons.prems have "f y \<noteq> f x" by (auto simp: rev_image_eqI)
    with False Cons show ?thesis by simp
  qed
qed simp

lemma distinct_active_ids:
  assumes "state_ok uc s"
  shows "distinct (map ov_id (memory_active_versions s i))"
proof -
  have "distinct (map ov_generation (versions_of s i))"
    using state_okD(5) [OF assms] by (simp add: versions_ok_def)
  then have "distinct (versions_of s i)" by (simp add: distinct_map)
  moreover have "inj_on ov_id (set (versions_of s i))"
    using state_okD(5) [OF assms] versions_of_subset [of s i]
    unfolding versions_ok_def by (meson distinct_map inj_on_subset)
  ultimately have "distinct (map ov_id (versions_of s i))" by (simp add: distinct_map)
  then show ?thesis by (simp add: memory_active_versions_def distinct_map_filter)
qed

lemma active_versions_gc [simp]:
  "memory_active_versions (s\<lparr>rs_gc_tasks := g\<rparr>) = memory_active_versions s"
  "memory_active_versions (insert_quota s a q) = memory_active_versions s"
  by (rule same_versions_eqs, simp add: same_versions_def insert_quota_def)+

lemma active_versions_push:
  assumes "active s m"
  shows "memory_active_versions (push_version s i m) j = memory_active_versions s j @ (if j = i then [m] else [])"
  using assms by (simp add: memory_active_versions_def push_version_eq)

lemma view_gc: "enqueue_optional s task = Inr s1 \<Longrightarrow> memory_active_versions s1 = memory_active_versions s"
  by (rule same_versions_eqs) (use enqueue_optional_frame(4) in \<open>auto simp: same_store_def\<close>)

lemma new_delete_marker_is_marker:
  assumes "new_delete_marker i ob a b ext g nul creator p at = Inr m"
  shows "is_delete_marker m" "ov_state m = VersionCommitted" "ov_external_version_id m = ext"
    "ov_is_null_version m = nul" "ov_retention m = None" "\<not> ov_legal_hold m" "ov_application_id m = a"
  using assms
  by (auto simp: new_delete_marker_def version_from_persistence_def is_delete_marker_def split: if_splits)

section \<open>The branches\<close>

lemma delete_exact_view:
  assumes ok: "state_ok uc s" and obj: "hm_get (rs_objects s) (so_id obj) = Some obj"
    and run: "delete_exact_version s obj (memory_active_versions s (so_id obj)) c e = (t, Ok (Deleted d))"
  shows "object_view t (so_id obj) = abstract_delete_version e (object_view s (so_id obj))"
    "j \<noteq> so_id obj \<Longrightarrow> object_view t j = object_view s j"
proof -
  let ?i = "so_id obj"
  note key = stored_key [OF state_okD(1) [OF ok] obj]
  from run obtain v q s1 where f: "List.find (\<lambda>v. ov_external_version_id v = e) (memory_active_versions s ?i) = Some v"
    and gc: "enqueue_optional s (explicit_delete_gc_task v c) = Inr s1"
    and t: "t = (if so_current_version_id obj = Some (ov_id v)
        then insert_quota (insert_object (hide_version s1 v) ?i (obj\<lparr>so_current_version_id :=
               newest (filter (\<lambda>w. ov_id w \<noteq> ov_id v) (memory_active_versions s ?i)), so_updated_at := dc_deleted_at c\<rparr>))
               (ov_application_id v) q
        else insert_quota (hide_version s1 v) (ov_application_id v) q)"
    by (auto simp: delete_exact_version_def Let_def rebuild_object_head_eq [OF key] newest_def
        split: option.splits sum.splits if_splits)
  have h: "hides s t (ov_id v)" using hides_via_gc(1) [OF gc] by (simp add: t)
  have act: "memory_active_versions t j = filter (\<lambda>w. ov_id w \<noteq> ov_id v) (memory_active_versions s j)" for j
    by (rule hides_versions(3) [OF h])
  have rm: "remove_first (\<lambda>v. ov_external_version_id v = e) (memory_active_versions s ?i)
      = filter (\<lambda>w. ov_id w \<noteq> ov_id v) (memory_active_versions s ?i)"
    by (rule remove_first_filter [OF distinct_active_ids [OF ok] f])
  have "Option.bind (hm_get (rs_objects t) ?i) so_current_version_id
      = (if so_current_version_id obj = Some (ov_id v)
         then newest (filter (\<lambda>w. ov_id w \<noteq> ov_id v) (memory_active_versions s ?i)) else so_current_version_id obj)"
    using enqueue_optional_frame(2) [OF gc] obj by (simp add: t)
  then show "object_view t ?i = abstract_delete_version e (object_view s ?i)"
    using obj f by (auto simp: object_view_def abstract_delete_version_def list_versions_active act rm Let_def)
  have v: "v \<in> set (versions_of s ?i)" using f by (auto dest!: find_Some_D intro: active_member)
  show "object_view t j = object_view s j" if "j \<noteq> ?i"
    using hides_other_object [OF h state_okD(5) [OF ok] v that] that enqueue_optional_frame(2) [OF gc]
    by (simp add: object_view_def list_versions_active t)
qed

lemma find_null_D:
  "List.find ov_is_null_version (memory_active_versions s i) = None \<Longrightarrow>
   remove_first ov_is_null_version (memory_active_versions s i) = memory_active_versions s i"
proof -
  have "List.find p xs = None \<Longrightarrow> remove_first p xs = xs" for p :: "object_version \<Rightarrow> bool" and xs
    by (induction xs) (auto split: if_splits)
  then show "List.find ov_is_null_version (memory_active_versions s i) = None \<Longrightarrow>
    remove_first ov_is_null_version (memory_active_versions s i) = memory_active_versions s i" .
qed

lemma delete_enabled_view:
  assumes ok: "state_ok uc s" and obj: "hm_get (rs_objects s) (so_id obj) = Some obj"
    and new: "dc_delete_marker_id c \<notin> version_ids s"
    and run: "delete_when_enabled s obj c = (t, Ok (Deleted d))"
  obtains m where "is_delete_marker m" "ov_id m = dc_delete_marker_id c"
    and "object_view t (so_id obj) = abstract_delete_object VersioningEnabled m (object_view s (so_id obj))"
    and "\<And>j. j \<noteq> so_id obj \<Longrightarrow> object_view t j = object_view s j"
proof -
  from run obtain m g obj' where m: "new_delete_marker (dc_delete_marker_id c) (so_id obj)
                       (dc_application_id c) (dc_bucket_id c)
                       (dc_delete_marker_version_id c) g False
                       (dc_deleted_by c) ProtocolS3 (dc_deleted_at c) = Inr m"
    and adv: "advanced_to obj m (dc_deleted_at c) = Inr obj'"
    and t: "t = insert_object (push_version s (so_id obj) m) (so_id obj) obj'"
    by (auto simp: delete_when_enabled_def result_simps split: sum.splits)
  have id: "ov_id m = dc_delete_marker_id c" by (rule new_delete_marker_Ok(1) [OF m])
  have "active s m" using fresh_active [OF state_okD(5) [OF ok]] new id new_delete_marker_is_marker(2) [OF m] by simp
  note act = active_versions_push [OF this, of "so_id obj"]
  have cur: "so_current_version_id obj' = Some (ov_id m)" using adv by (auto simp: advanced_to_Ok_iff)
  show thesis
    by (rule that [of m])
      (use new_delete_marker_is_marker(1) [OF m] id cur in \<open>simp_all add: t object_view_def list_versions_active act\<close>)
qed

lemma delete_suspended_view:
  assumes ok: "state_ok uc s" and obj: "hm_get (rs_objects s) (so_id obj) = Some obj"
    and new: "dc_delete_marker_id c \<notin> version_ids s"
    and run: "delete_when_suspended s obj (memory_active_versions s (so_id obj)) c = (t, Ok (Deleted d))"
  obtains m where "is_delete_marker m" "ov_id m = dc_delete_marker_id c"
    and "object_view t (so_id obj) = abstract_delete_object VersioningSuspended m (object_view s (so_id obj))"
    and "\<And>j. j \<noteq> so_id obj \<Longrightarrow> object_view t j = object_view s j"
proof -
  let ?null = "List.find ov_is_null_version (memory_active_versions s (so_id obj))"
  from run obtain m g e obj' s1 s4 where m: "new_delete_marker (dc_delete_marker_id c) (so_id obj)
                       (dc_application_id c) (dc_bucket_id c) e g True
                       (dc_deleted_by c) ProtocolS3 (dc_deleted_at c) = Inr m"
    and adv: "advanced_to obj m (dc_deleted_at c) = Inr obj'"
    and gc: "enqueue_optional s (Option.bind ?null (\<lambda>v. explicit_delete_gc_task v c)) = Inr s1"
    and s4: "s4 = insert_object (push_version (superseded s1 ?null) (so_id obj) m) (so_id obj) obj'"
    and t: "same_store s4 t"
    by (auto simp: delete_when_suspended_def Let_def result_simps superseded_def insert_quota_def
        same_store_def same_versions_def split: sum.splits option.splits)
  have id: "ov_id m = dc_delete_marker_id c" by (rule new_delete_marker_Ok(1) [OF m])
  have vw: "object_view t = object_view s4"
    using t same_versions_eqs(5) [of s4 t] by (simp add: object_view_def fun_eq_iff list_versions_active same_store_def)
  have vok: "versions_ok (superseded s1 ?null)"
  proof -
    have "store_ok s1" using store_ok_same(1) [OF enqueue_optional_frame(4,1) [OF gc]] state_okD(2) [OF ok] by simp
    moreover have "w \<in> set (memory_active_versions s1 (so_id obj))" if "?null = Some w" for w
      using that view_gc [OF gc] by (auto dest!: find_Some_D)
    ultimately show ?thesis using superseded_store by (auto simp: store_ok_except_def)
  qed
  have "version_ids s1 = version_ids s"
    by (rule same_versions_eqs) (use enqueue_optional_frame(4) [OF gc] in \<open>simp add: same_store_def\<close>)
  then have "active (superseded s1 ?null) m"
    using fresh_active [OF vok] new id new_delete_marker_is_marker(2) [OF m] by simp
  note act = active_versions_push [OF this, of "so_id obj"]
  have cur: "so_current_version_id obj' = Some (ov_id m)" using adv by (auto simp: advanced_to_Ok_iff)
  have own: "memory_active_versions (superseded s1 ?null) (so_id obj)
      = remove_first ov_is_null_version (memory_active_versions s (so_id obj))"
  proof (cases ?null)
    case (Some v)
    then show ?thesis
      using remove_first_filter [OF distinct_active_ids [OF ok] Some] hides_versions(3) [OF hides_via_gc(2) [OF gc]]
      by (simp add: superseded_def)
  qed (simp add: superseded_def view_gc [OF gc] find_null_D)
  have other: "memory_active_versions (superseded s1 ?null) j = memory_active_versions s j" if "j \<noteq> so_id obj" for j
  proof (cases ?null)
    case (Some v)
    then have "v \<in> set (versions_of s (so_id obj))" by (auto dest!: find_Some_D intro: active_member)
    from hides_other_object [OF hides_via_gc(2) [OF gc] state_okD(5) [OF ok] this that] Some show ?thesis
      by (simp add: superseded_def)
  qed (simp add: superseded_def view_gc [OF gc])
  show thesis
    by (rule that [of m])
      (use new_delete_marker_is_marker(1) [OF m] id cur own other enqueue_optional_frame(2) [OF gc]
        in \<open>simp_all add: vw s4 object_view_def list_versions_active act\<close>)
qed

lemma delete_unversioned_view:
  assumes ok: "state_ok uc s" and obj: "hm_get (rs_objects s) (so_id obj) = Some obj"
    and run: "delete_when_unversioned s obj (memory_active_versions s (so_id obj)) c = (t, Ok (Deleted d))"
  shows "object_view t (so_id obj) = abstract_delete_object Unversioned m (object_view s (so_id obj))"
    "j \<noteq> so_id obj \<Longrightarrow> object_view t j = object_view s j"
proof -
  let ?i = "so_id obj"
  note key = stored_key [OF state_okD(1) [OF ok] obj]
  from run obtain v q s1 where f: "List.find ov_is_null_version (memory_active_versions s ?i) = Some v"
    and gc: "enqueue_optional s (explicit_delete_gc_task v c) = Inr s1"
    and t: "t = insert_quota (insert_object (supersede_version s1 v) ?i
             (obj\<lparr>so_current_version_id := None, so_updated_at := dc_deleted_at c\<rparr>)) (ov_application_id v) q"
    by (auto simp: delete_when_unversioned_def Let_def rebuild_object_head_eq [OF key]
        split: option.splits sum.splits if_splits)
  have h: "hides s t (ov_id v)" using hides_via_gc(2) [OF gc] by (simp add: t)
  have "memory_active_versions t ?i = remove_first ov_is_null_version (memory_active_versions s ?i)"
    using hides_versions(3) [OF h] remove_first_filter [OF distinct_active_ids [OF ok] f] by simp
  moreover have "Option.bind (hm_get (rs_objects t) ?i) so_current_version_id = None" by (simp add: t)
  ultimately show "object_view t ?i = abstract_delete_object Unversioned m (object_view s ?i)"
    by (simp add: object_view_def list_versions_active)
  have v: "v \<in> set (versions_of s ?i)" using f by (auto dest!: find_Some_D intro: active_member)
  show "object_view t j = object_view s j" if "j \<noteq> ?i"
    using hides_other_object [OF h state_okD(5) [OF ok] v that] that enqueue_optional_frame(2) [OF gc]
    by (simp add: object_view_def list_versions_active t)
qed

section \<open>Outcomes without effect\<close>

lemma delete_no_effect:
  "delete_exact_version s obj vs c e = (t, Ok out) \<Longrightarrow> \<not> (\<exists>d. out = Deleted d) \<Longrightarrow> t = s"
  "delete_when_enabled s obj c = (t, Ok out) \<Longrightarrow> \<not> (\<exists>d. out = Deleted d) \<Longrightarrow> t = s"
  "delete_when_suspended s obj vs c = (t, Ok out) \<Longrightarrow> \<not> (\<exists>d. out = Deleted d) \<Longrightarrow> t = s"
  "delete_when_unversioned s obj vs c = (t, Ok out) \<Longrightarrow> \<not> (\<exists>d. out = Deleted d) \<Longrightarrow> t = s"
  by (auto simp: delete_exact_version_def delete_when_enabled_def delete_when_suspended_def
      delete_when_unversioned_def Let_def split: option.splits sum.splits if_splits)

lemma some_marker:
  obtains m where "is_delete_marker m" and "ov_id m = x"
  by (rule that [of "version_example\<lparr>ov_payload := DeleteMarker, ov_id := x\<rparr>"]) (simp_all add: is_delete_marker_def)

section \<open>Deleting the marker of a delete\<close>

lemma newest_current:
  assumes ok: "state_ok uc s" and "hm_get (rs_objects s) i = Some obj" and "so_current_version_id obj = Some x"
  shows "newest (memory_active_versions s i) = Some x"
proof -
  have "newest_active s i x"
    using state_okD(2) [OF ok] assms(2,3) by (simp add: store_ok_def heads_ok_def head_ok_def)
  then obtain v where v: "v \<in> set (memory_active_versions s i)" "ov_id v = x"
    and max: "\<forall>w \<in> set (memory_active_versions s i). ov_generation w \<le> ov_generation v"
    by (auto simp: newest_active_def)
  show ?thesis
  proof (cases "max_by_key ov_generation (memory_active_versions s i)")
    case None
    with v show ?thesis by (cases "memory_active_versions s i") (auto split: option.splits if_splits)
  next
    case (Some w)
    note w = max_by_key_Some [OF Some]
    then have "ov_generation w = ov_generation v" using max v by (meson order.antisym)
    moreover have "inj_on ov_generation (set (versions_of s i))"
      using state_okD(5) [OF ok] by (simp add: versions_ok_def distinct_map)
    ultimately have "w = v" using w v active_member(1) by (meson inj_onD)
    with Some v show ?thesis by (simp add: newest_def)
  qed
qed

lemma find_replace:
  assumes "hm_ok m" and "\<And>k v. hm_get m k = Some v \<Longrightarrow> key v = k"
    and "List.find p (hm_values m) = Some w" and "p v"
  shows "List.find p (hm_values (hm_insert (key w) v m)) = Some v"
  using assms
proof (induction m)
  case (Cons e m)
  obtain k x where e: "e = (k, x)" by (cases e)
  have x: "key x = k" using Cons.prems(2) [of k x] e by simp
  show ?case
  proof (cases "p x")
    case True
    with Cons.prems(3) e have "w = x" by simp
    with x e Cons.prems(4) show ?thesis by simp
  next
    case False
    with Cons.prems(3) e have f: "List.find p (hm_values m) = Some w" by simp
    then have "w \<in> set (hm_values m)" by (auto dest: find_Some_D)
    then obtain k' where "hm_get m k' = Some w" using Cons.prems(1) hm_values_get [of m w] by auto
    moreover from this have "k' \<noteq> k" using Cons.prems(1) e by (force dest: map_of_SomeD)
    ultimately have "key w \<noteq> k" using Cons.prems(2) [of k' w] e by simp
    moreover have "List.find p (hm_values (hm_insert (key w) v m)) = Some v"
    proof (rule Cons.IH [OF _ _ f Cons.prems(4)])
      show "hm_ok m" using Cons.prems(1) by simp
      show "key y = k''" if y: "hm_get m k'' = Some y" for k'' y
      proof -
        have "k'' \<noteq> k" using y Cons.prems(1) e by (force dest: map_of_SomeD)
        then show ?thesis using Cons.prems(2) [of k'' y] y e by simp
      qed
    qed
    ultimately show ?thesis using False e by simp
  qed
qed simp

lemma delete_marker_version:
  assumes "state_ok uc s" and obj: "hm_get (rs_objects s) (so_id obj) = Some obj"
    and vs: "memory_active_versions s (so_id obj) = vs @ [m]"
    and e: "ov_external_version_id m = e" "e \<notin> ov_external_version_id ` set vs"
    and m: "is_delete_marker m" "ov_retention m = None" "\<not> ov_legal_hold m"
    and q: "rs_quotas s (ov_application_id m) \<noteq> None" and cur: "so_current_version_id obj = Some (ov_id m)"
  shows "\<exists>t d. delete_exact_version s obj (memory_active_versions s (so_id obj)) c e = (t, Ok (Deleted d))
    \<and> dv_delete_marker d"
proof -
  have "List.find (\<lambda>v. ov_external_version_id v = e) vs = None" using e(2) by (auto simp: find_None_iff)
  then have "List.find (\<lambda>v. ov_external_version_id v = e) (vs @ [m]) = Some m"
    using e(1) by (induction vs) (auto split: if_splits)
  moreover have "delete_lock_reason m c = None"
    using m by (simp add: delete_lock_reason_def delete_lock_reason_at_def)
  moreover have "explicit_delete_gc_task m c = None" "memory_object_version_size m = 0"
    using m(1) by (auto simp: is_delete_marker_def explicit_delete_gc_task_def memory_object_version_size_def)
  moreover from q obtain r where "memory_s3_quota_after_used_release s (ov_application_id m) 0 = Inr r"
    by (auto simp: release_used_Ok_iff)
  ultimately show ?thesis
    using m(1) cur rebuild_object_head_eq [OF stored_key [OF state_okD(1) [OF assms(1)] obj]]
    by (simp add: delete_exact_version_def vs enqueue_optional_def Let_def)
qed

lemma remove_first_append:
  "\<not> list_ex p xs \<Longrightarrow> p x \<Longrightarrow> remove_first p (xs @ [x]) = xs"
  "\<not> list_ex p xs \<Longrightarrow> p x \<Longrightarrow> List.find p (xs @ [x]) = Some x"
  by (induction xs) auto

section \<open>The example\<close>

definition example_object :: s3_object where
  "example_object =
     \<lparr>so_id = 5, so_application_id = 2, so_bucket_id = 3, so_key = ''asset.png'',
      so_current_version_id = Some 4, so_generation = 1, so_created_at = 6, so_updated_at = 7\<rparr>"

lemma example_uploaded:
  defines "s \<equiv> example_after example_uploads" and "c \<equiv> example_delete"
  shows "repo_enabled example_tables s (OpDelete c)"
    "bucket_by_id s (dc_application_id c) (dc_bucket_id c) = Some example_bucket"
    "find_s3_object s (dc_application_id c) (dc_bucket_id c) (dc_object_key c) = Some example_object"
    "snd (delete_s3_object s c)
       = Ok (Deleted \<lparr>dv_version_id = Some (S3VersionId ''marker-1''), dv_delete_marker = True\<rparr>)"
    "dc_delete_marker_version_id c \<notin> ov_external_version_id ` set (list_s3_object_versions s (so_id example_object))"
    "rs_quotas s (dc_application_id c) \<noteq> None"
proof -
  have "let s = example_after example_uploads; c = example_delete in
      repo_enabled example_tables s (OpDelete c)
    \<and> bucket_by_id s (dc_application_id c) (dc_bucket_id c) = Some example_bucket
    \<and> find_s3_object s (dc_application_id c) (dc_bucket_id c) (dc_object_key c) = Some example_object
    \<and> snd (delete_s3_object s c)
       = Ok (Deleted \<lparr>dv_version_id = Some (S3VersionId ''marker-1''), dv_delete_marker = True\<rparr>)
    \<and> dc_delete_marker_version_id c \<notin> ov_external_version_id ` set (list_s3_object_versions s (so_id example_object))
    \<and> rs_quotas s (dc_application_id c) \<noteq> None"
    by code_simp
  then show "repo_enabled example_tables s (OpDelete c)"
    "bucket_by_id s (dc_application_id c) (dc_bucket_id c) = Some example_bucket"
    "find_s3_object s (dc_application_id c) (dc_bucket_id c) (dc_object_key c) = Some example_object"
    "snd (delete_s3_object s c)
       = Ok (Deleted \<lparr>dv_version_id = Some (S3VersionId ''marker-1''), dv_delete_marker = True\<rparr>)"
    "dc_delete_marker_version_id c \<notin> ov_external_version_id ` set (list_s3_object_versions s (so_id example_object))"
    "rs_quotas s (dc_application_id c) \<noteq> None"
    unfolding Let_def s_def c_def by blast+
qed

section \<open>Properties\<close>

text \<open>C5: deletion refines the abstract version store. A delete call that reports a deletion changes
  the view of the addressed object (its visible versions and its current pointer) exactly as the
  abstract operation does: the named version disappears and the newest remaining version becomes
  current, or, without a version id, the versioning state of the bucket decides between a delete
  marker, a null marker that replaces the null version, and plain removal. No other object
  changes, and any other successful outcome leaves the whole repository as it was.\<close>

theorem delete_refines_version_store:
  assumes "repo_history uc cal new_id bucket ops"
  defines "s \<equiv> repo_after uc cal new_id bucket ops"
  assumes en: "repo_enabled uc s (OpDelete c)"
    and run: "delete_s3_object s c = (t, Ok out)"
    and b: "bucket_by_id s (dc_application_id c) (dc_bucket_id c) = Some b"
    and f: "find_s3_object s (dc_application_id c) (dc_bucket_id c) (dc_object_key c) = Some obj"
  shows "if \<exists>d. out = Deleted d
    then \<exists>m. is_delete_marker m \<and> ov_id m = dc_delete_marker_id c
      \<and> object_view t = (object_view s)(so_id obj :=
          (case dc_version_id c of
             Some e \<Rightarrow> abstract_delete_version e (object_view s (so_id obj))
           | None \<Rightarrow> abstract_delete_object (bc_versioning_status (sb_configuration b)) m
                       (object_view s (so_id obj))))
    else t = s"
proof -
  have ok: "state_ok uc s" unfolding s_def by (rule history_ok [OF assms(1)])
  note obj = find_s3_object_stored(1) [OF state_okD(4) [OF ok] f]
  have new: "dc_delete_marker_id c \<notin> version_ids s" using en by (simp add: fresh_version_id_def)
  let ?st = "bc_versioning_status (sb_configuration b)"
  let ?vs = "memory_active_versions s (so_id obj)"
  from run b f have branch: "(case dc_version_id c of
        Some e \<Rightarrow> delete_exact_version s obj ?vs c e
      | None \<Rightarrow> (case ?st of VersioningEnabled \<Rightarrow> delete_when_enabled s obj c
          | VersioningSuspended \<Rightarrow> delete_when_suspended s obj ?vs c
          | Unversioned \<Rightarrow> delete_when_unversioned s obj ?vs c)) = (t, Ok out)"
    by (auto simp: delete_s3_object_def Let_def split: if_splits)
  show ?thesis
  proof (cases "\<exists>d. out = Deleted d")
    case False
    then show ?thesis
      using branch by (auto split: option.splits versioning_status.splits dest!: delete_no_effect)
  next
    case True
    then obtain d where d: "out = Deleted d" by blast
    have "\<exists>m. is_delete_marker m \<and> ov_id m = dc_delete_marker_id c
      \<and> object_view t (so_id obj) = (case dc_version_id c of
             Some e \<Rightarrow> abstract_delete_version e (object_view s (so_id obj))
           | None \<Rightarrow> abstract_delete_object ?st m (object_view s (so_id obj)))
      \<and> (\<forall>j. j \<noteq> so_id obj \<longrightarrow> object_view t j = object_view s j)"
    proof (cases "dc_version_id c")
      case (Some e)
      obtain m where "is_delete_marker m" "ov_id m = dc_delete_marker_id c" by (rule some_marker)
      with Some branch d delete_exact_view [OF ok obj, of c e t d] show ?thesis by auto
    next
      case None
      show ?thesis
      proof (cases ?st)
        case Unversioned
        obtain m where "is_delete_marker m" "ov_id m = dc_delete_marker_id c" by (rule some_marker)
        with None Unversioned branch d delete_unversioned_view [OF ok obj, of c t d] show ?thesis by auto
      next
        case VersioningEnabled
        with None branch d have "delete_when_enabled s obj c = (t, Ok (Deleted d))" by simp
        then show ?thesis by (rule delete_enabled_view [OF ok obj new]) (use None VersioningEnabled in auto)
      next
        case VersioningSuspended
        with None branch d have "delete_when_suspended s obj ?vs c = (t, Ok (Deleted d))" by simp
        then show ?thesis by (rule delete_suspended_view [OF ok obj new]) (use None VersioningSuspended in auto)
      qed
    qed
    then show ?thesis using True by (auto simp: fun_eq_iff)
  qed
qed

theorem delete_refines_version_store_witness:
  "snd (object_view (fst (delete_s3_object (example_after example_uploads) example_delete)) 5) = Some 10"
proof -
  let ?s = "example_after example_uploads"
  obtain t where t: "delete_s3_object ?s example_delete
      = (t, Ok (Deleted \<lparr>dv_version_id = Some (S3VersionId ''marker-1''), dv_delete_marker = True\<rparr>))"
    using example_uploaded(4) by (metis prod.collapse)
  show ?thesis
    using delete_refines_version_store [OF example_history example_uploaded(1) t example_uploaded(2,3)] t
    by (auto simp: example_bucket_def example_delete_def example_object_def)
qed

text \<open>C12: deleting a delete marker restores the object. In a versioned bucket, a delete followed by
  the deletion of the marker it created brings back the visible versions and the current version
  the object had before, whatever they were, provided the marker's version id is not used by another
  version of the object.\<close>

theorem undelete_restores_object:
  assumes hist: "repo_history uc cal new_id bucket ops"
  defines "s \<equiv> repo_after uc cal new_id bucket ops"
  assumes en: "repo_enabled uc s (OpDelete c)"
    and run: "delete_s3_object s c = (s1, Ok (Deleted d))" and "dc_version_id c = None"
    and b: "bucket_by_id s (dc_application_id c) (dc_bucket_id c) = Some b"
      "bc_versioning_status (sb_configuration b) = VersioningEnabled"
    and f: "find_s3_object s (dc_application_id c) (dc_bucket_id c) (dc_object_key c) = Some obj"
    and cur: "so_current_version_id obj \<noteq> None"
    and unused: "dc_delete_marker_version_id c
      \<notin> ov_external_version_id ` set (list_s3_object_versions s (so_id obj))"
    and quota: "rs_quotas s (dc_application_id c) \<noteq> None"
    and c': "c' = c\<lparr>dc_version_id := Some (dc_delete_marker_version_id c)\<rparr>"
  shows "\<exists>s2 d'. delete_s3_object s1 c' = (s2, Ok (Deleted d')) \<and> dv_delete_marker d'
    \<and> object_view s2 = object_view s"
proof -
  let ?i = "so_id obj" and ?e = "dc_delete_marker_version_id c"
  have ok: "state_ok uc s" unfolding s_def by (rule history_ok [OF hist])
  note found = find_s3_object_stored [OF state_okD(4) [OF ok] f]
  have new: "dc_delete_marker_id c \<notin> version_ids s" using en by (simp add: fresh_version_id_def)
  from run b f \<open>dc_version_id c = None\<close> have facts: "\<not> (dc_deleted_by c = [] \<or> dc_gc_max_attempts c = 0)"
    and del: "delete_when_enabled s obj c = (s1, Ok (Deleted d))"
    by (auto simp: delete_s3_object_def Let_def split: if_splits)
  from del obtain m g obj' where m: "new_delete_marker (dc_delete_marker_id c) ?i
      (dc_application_id c) (dc_bucket_id c) ?e g False (dc_deleted_by c) ProtocolS3 (dc_deleted_at c) = Inr m"
    and adv: "advanced_to obj m (dc_deleted_at c) = Inr obj'"
    and s1: "s1 = insert_object (push_version s ?i m) ?i obj'"
    by (auto simp: delete_when_enabled_def result_simps split: sum.splits)
  note mk = new_delete_marker_is_marker [OF m] new_delete_marker_Ok [OF m]
  have obj': "so_id obj' = ?i" "so_key obj' = so_key obj" "so_application_id obj' = so_application_id obj"
    "so_bucket_id obj' = so_bucket_id obj" "so_current_version_id obj' = Some (ov_id m)"
    using adv by (auto simp: advanced_to_Ok_iff)
  have ok1: "state_ok uc s1"
    using repo_apply_ok [OF ok en] run by auto
  have "active s m" using fresh_active [OF state_okD(5) [OF ok]] new mk by simp
  note act = active_versions_push [OF this, of ?i]
  have vs1: "memory_active_versions s1 ?i = memory_active_versions s ?i @ [m]" by (simp add: s1 act)
  have f1: "find_s3_object s1 (dc_application_id c) (dc_bucket_id c) (dc_object_key c) = Some obj'"
    unfolding find_s3_object_def s1 rs_objects_insert_object insert_frame
  proof (rule find_replace)
    show "hm_ok (rs_objects s)" "\<And>k v. hm_get (rs_objects s) k = Some v \<Longrightarrow> so_id v = k"
      using state_okD(4) [OF ok] unfolding maps_ok_def by blast+
    show "List.find (\<lambda>obj. so_application_id obj = dc_application_id c \<and> so_bucket_id obj = dc_bucket_id c
        \<and> so_key obj = dc_object_key c) (hm_values (rs_objects s)) = Some obj"
      using f by (simp only: find_s3_object_def)
  qed (simp add: obj' found)
  have st1: "hm_get (rs_objects s1) (so_id obj') = Some obj'" by (simp add: s1 obj')
  have "\<exists>t d. delete_exact_version s1 obj' (memory_active_versions s1 (so_id obj')) c' ?e = (t, Ok (Deleted d))
      \<and> dv_delete_marker d"
    using vs1 mk unused quota obj' unfolding list_versions_active
    by (intro delete_marker_version [OF ok1 st1]) (auto simp: s1)
  then obtain s2 d' where del2: "delete_exact_version s1 obj' (memory_active_versions s1 (so_id obj')) c' ?e = (s2, Ok (Deleted d'))"
    and marker: "dv_delete_marker d'" by blast
  have "bucket_by_id s1 (dc_application_id c) (dc_bucket_id c) = Some b"
    using b by (simp add: bucket_by_id_def s1 insert_object_def push_version_def)
  then have run2: "delete_s3_object s1 c' = (s2, Ok (Deleted d'))"
    using facts f1 del2 by (simp add: delete_s3_object_def c')
  have no: "\<not> list_ex (\<lambda>v. ov_external_version_id v = ?e) (memory_active_versions s ?i)"
    using unused by (force simp: list_versions_active list_ex_iff)
  obtain x where x: "so_current_version_id obj = Some x" using cur by blast
  have "object_view s2 ?i = object_view s ?i"
    using delete_exact_view(1) [OF ok1 st1 del2] obj' remove_first_append [OF no] mk(3)
      newest_current [OF ok found(1) x] x found(1)
    by (simp add: abstract_delete_version_def object_view_def list_versions_active vs1 s1 act)
  moreover have "object_view s2 j = object_view s j" if "j \<noteq> ?i" for j
    using delete_exact_view(2) [OF ok1 st1 del2, of j] delete_enabled_view [OF ok found(1) new del] obj' that
    by (simp add: object_view_def list_versions_active s1 act)
  ultimately have "object_view s2 j = object_view s j" for j by (cases "j = ?i") simp_all
  then have "object_view s2 = object_view s" by (simp add: fun_eq_iff)
  with run2 marker show ?thesis by blast
qed

theorem undelete_restores_object_witness:
  "\<exists>s1 s2 d d'. delete_s3_object (example_after example_uploads) example_delete = (s1, Ok (Deleted d))
     \<and> delete_s3_object s1 (example_delete\<lparr>dc_version_id := Some (S3VersionId ''marker-1'')\<rparr>) = (s2, Ok (Deleted d'))
     \<and> object_view s2 = object_view (example_after example_uploads)"
proof -
  let ?s = "example_after example_uploads" and ?c = example_delete
  obtain s1 where s1: "delete_s3_object ?s ?c
      = (s1, Ok (Deleted \<lparr>dv_version_id = Some (S3VersionId ''marker-1''), dv_delete_marker = True\<rparr>))"
    using example_uploaded(4) by (metis prod.collapse)
  have v: "dc_version_id ?c = None" "bc_versioning_status (sb_configuration example_bucket) = VersioningEnabled"
    "so_current_version_id example_object \<noteq> None"
    "?c\<lparr>dc_version_id := Some (S3VersionId ''marker-1'')\<rparr> = ?c\<lparr>dc_version_id := Some (dc_delete_marker_version_id ?c)\<rparr>"
    by (simp_all add: example_delete_def example_bucket_def example_object_def)
  from undelete_restores_object [OF example_history example_uploaded(1) s1 v(1) example_uploaded(2) v(2)
      example_uploaded(3) v(3) example_uploaded(5,6) v(4)] s1
  show ?thesis by blast
qed

end
