(* ===== verification/Memory_S3_Fencing.thy ===== *)
theory Memory_S3_Fencing
  imports Memory_S3_History
begin

text \<open>
  Upload intents as fences: a closed intent (committed, aborted or expired) never changes again, so
  a version is committed at most once per intent, and a worker that lost its lease cannot commit.
\<close>

section \<open>Closed intents are final\<close>

definition closed_final :: "repo_state \<Rightarrow> repo_state \<Rightarrow> bool" where
  "closed_final s t \<longleftrightarrow>
     (\<forall>k i. hm_get (rs_intents s) k = Some i \<longrightarrow> \<not> open_intent i \<longrightarrow> hm_get (rs_intents t) k = Some i)"

lemma closed_final_same: "rs_intents t = rs_intents s \<Longrightarrow> closed_final s t"
  by (simp add: closed_final_def)

lemma closed_final_insert:
  "rs_intents t = hm_insert k j (rs_intents s) \<Longrightarrow>
   (\<And>i. hm_get (rs_intents s) k = Some i \<Longrightarrow> open_intent i) \<Longrightarrow> closed_final s t"
  by (auto simp: closed_final_def)

lemma closed_final_trans: "closed_final s t \<Longrightarrow> closed_final t u \<Longrightarrow> closed_final s u"
  by (auto simp: closed_final_def)

lemmas intent_ops =
  insert_intent_def insert_quota_def insert_object_def push_version_def

lemma create_closed_final: "closed_final s (fst (create_upload_intent s i))"
  by (auto simp: create_upload_intent_def closed_final_def intent_ops split: option.split)

lemma staging_closed_final:
  "complete_upload_intent_staging uc s k tag ck n now = Some (t, r) \<Longrightarrow> closed_final s t"
  by (auto simp: complete_upload_intent_staging_def closed_final_def open_intent_def intent_ops
      split: option.splits if_splits)

lemma claim_closed_final:
  "claim_upload_intent uc s k token until now = Some (t, r) \<Longrightarrow> closed_final s t"
  by (auto simp: claim_upload_intent_def closed_final_def open_intent_def intent_ops Let_def
      split: option.splits if_splits)

lemma release_closed_final:
  "release_upload_intent uc s k token now = Some (t, r) \<Longrightarrow> closed_final s t"
  by (auto simp: release_upload_intent_def closed_final_def open_intent_def intent_ops
      split: option.splits if_splits)

lemma abort_closed_final:
  "abort_upload_intent_and_enqueue_gc uc s k task now = Some (t, r) \<Longrightarrow> closed_final s t"
  by (auto simp: abort_upload_intent_and_enqueue_gc_def closed_final_def open_intent_def intent_ops
      split: option.splits if_splits sum.splits)

lemma commit_closed_final:
  assumes "commit_memory_upload_intent uc cal s k token c = Some (t, r)"
  shows "closed_final s t"
proof (cases "rs_intents t = rs_intents s")
  case False
  with assms obtain i frozen old q obj where "hm_get (rs_intents s) k = Some i" and "commit_fenced i token c"
    and "apply_commit uc s k i frozen old q obj = Some (t, r)"
    by (auto simp: commit_memory_upload_intent_def split: sum.splits option.splits if_splits object_version_payload.splits)
  then show ?thesis
    by (auto simp: closed_final_def apply_commit_def Let_def intent_ops commit_fenced_def open_intent_def
        supersede_version_def split: option.splits)
qed (simp add: closed_final_same)

lemma commit_multipart_closed_final:
  assumes "commit_multipart_object_version uc cal s u token c tag ck = Some (t, r)"
  shows "closed_final s t"
proof (cases "rs_intents t = rs_intents s")
  case False
  with assms obtain k staged obj where "commit_memory_upload_intent uc cal s k token c = Some (staged, Inr obj)"
    and "rs_intents t = rs_intents staged"
    by (auto simp: commit_multipart_object_version_def
        split: sum.splits option.splits if_splits object_version_payload.splits prod.splits)
  then show ?thesis using commit_closed_final [of uc cal s k token c staged] by (auto simp: closed_final_def)
qed (simp add: closed_final_same)

lemma expire_loop_closed_final:
  assumes "state_ok uc s" and "distinct ks"
    and "\<And>k i. k \<in> set ks \<Longrightarrow> hm_get (rs_intents s) k = Some i \<Longrightarrow> open_intent i"
    and "expire_intents_loop uc new_id now n s ks = Some (Inr t)"
  shows "closed_final s t"
  using assms
proof (induction ks arbitrary: s)
  case (Cons k ks)
  have first: "\<And>i. hm_get (rs_intents s) k = Some i \<Longrightarrow> open_intent i"
    by (rule Cons.prems(3) [OF list.set_intros(1)])
  from Cons.prems(4) obtain u where u: "expire_one_intent uc new_id now n s k = Some (Inr u)"
    and rest: "expire_intents_loop uc new_id now n u ks = Some (Inr t)"
    by (auto split: option.splits sum.splits)
  from expire_one_intent_ok(2) [OF Cons.prems(1) first u] obtain j
    where ok: "state_ok uc u" and ui: "rs_intents u = hm_insert k j (rs_intents s)" by blast
  have "closed_final s u" by (rule closed_final_insert [OF ui first])
  moreover have "closed_final u t"
    by (rule Cons.IH [OF ok _ _ rest]) (use Cons.prems(2,3) ui in \<open>auto split: if_splits\<close>)
  ultimately show ?case by (rule closed_final_trans)
qed (simp add: closed_final_same)

lemma expire_closed_final:
  assumes "state_ok uc s" and "expire_upload_intents uc new_id s now limit n = Some (t, r)"
  shows "closed_final s t"
proof (cases "t = s")
  case False
  let ?ids = "take limit (sort (map ui_id (filter (expirable now) (hm_values (rs_intents s)))))"
  from assms(2) False have run: "expire_intents_loop uc new_id now n s ?ids = Some (Inr t)"
    by (auto simp: expire_upload_intents_def Let_def split: option.splits sum.splits if_splits)
  show ?thesis
    by (rule expire_loop_closed_final [OF assms(1) expirable_ids [OF assms(1)] run])
qed (simp add: closed_final_same)

lemma abort_multipart_intent_closed_final:
  assumes "abort_multipart_intent uc new_id s upload c = Inr (Inr (s1, released))"
  shows "closed_final s s1"
proof (cases "mu_upload_intent_id upload")
  case (Some k)
  with assms obtain i tasks s0 where k: "hm_get (rs_intents s) k = Some i" and "ui_state i \<noteq> IntentCommitted"
    and gc: "enqueue_gc_tasks s tasks = Inr s0" and "s1 = s0 \<or> open_intent i \<and> (\<exists>j. s1 = insert_intent s0 k j)"
    by (auto simp: abort_multipart_intent_def result_simps Let_def open_intent_iff
        simp del: enqueue_gc_tasks.simps list.map split: if_splits)
  then show ?thesis using gc_frame(1) [OF gc] by (auto simp: closed_final_def insert_intent_def)
qed (use assms in \<open>simp add: abort_multipart_intent_def closed_final_same\<close>)

lemma multipart_abort_closed_final:
  assumes "execute_memory_multipart_abort uc new_id s u key initiated c = Inr (t, out)"
  shows "closed_final s t"
proof (cases "t = s")
  case False
  with assms obtain upload s1 released where "abort_multipart_intent uc new_id s upload c = Inr (Inr (s1, released))"
    and "rs_intents t = rs_intents s1"
  proof (rule multipart_abort_cases)
    fix upload s1 released tasks s2
    assume "abort_multipart_intent uc new_id s upload c = Inr (Inr (s1, released))"
      and gc: "enqueue_gc_tasks s1 tasks = Inr s2"
      and "t = (let s3 = s2\<lparr>rs_multipart_uploads := hm_insert u
                     (aborted_multipart_row upload (xc_evaluated_at c)) (rs_multipart_uploads s2)\<rparr>
                 in case released of None \<Rightarrow> s3 | Some (a, q) \<Rightarrow> insert_quota s3 a q)"
    then show thesis using that [of upload s1 released] gc_frame(1) [OF gc]
      by (simp add: Let_def insert_quota_def split: option.splits prod.splits)
  qed
  then show ?thesis using abort_multipart_intent_closed_final [of uc new_id s upload c s1]
    by (auto simp: closed_final_def)
qed (simp add: closed_final_same)

lemma lifecycle_closed_final:
  assumes ok: "state_ok uc s" and new: "xc_delete_marker_id c \<notin> version_ids s"
  shows "closed_final s (fst (execute_s3_lifecycle uc new_id s c))"
proof -
  have "closed_final s t" if run: "execute_lifecycle_target uc new_id s bucket c = Inr (t, out)" for bucket t out
  proof (cases "xc_target c")
    case (AbortMultipart u key initiated)
    then show ?thesis using run multipart_abort_closed_final by (simp add: execute_lifecycle_target_def)
  next
    case (ExpireCurrent i key cur created)
    then show ?thesis
      using run current_expiration_evolved [OF state_okD(1) [OF ok] new]
      by (auto simp: execute_lifecycle_target_def evolved_def intro: closed_final_same)
  next
    case (ExpireNoncurrent i key vid became)
    then show ?thesis
      using run noncurrent_expiration_evolved [OF state_okD(1) [OF ok]]
      by (auto simp: execute_lifecycle_target_def evolved_def intro: closed_final_same)
  next
    case (RemoveExpiredDeleteMarker i key vid)
    then show ?thesis
      using run expired_marker_evolved [OF state_okD(1) [OF ok]]
      by (auto simp: execute_lifecycle_target_def evolved_def intro: closed_final_same)
  qed
  then show ?thesis
    by (simp add: execute_s3_lifecycle_def closed_final_same split: option.split sum.split prod.split)
qed

lemma repo_step_closed_final:
  assumes ok: "state_ok uc s" and en: "repo_enabled uc s x"
  shows "closed_final s (repo_step uc cal new_id s x)"
proof (cases x)
  case (OpDelete c)
  then have "evolved s (fst (delete_s3_object s c)) (dc_delete_marker_id c)"
    using delete_s3_object_atomic [OF state_okD(1) [OF ok]] en by (simp add: fresh_version_id_def atomic_def)
  then show ?thesis using OpDelete by (simp add: repo_step_def evolved_def closed_final_same)
next
  case (OpPutLock c)
  then show ?thesis using put_s3_object_lock_cases [of s c] touches_frame(3) [of s "fst (put_s3_object_lock s c)"]
    by (auto simp: repo_step_def closed_final_same)
next
  case (OpLifecycle c)
  with en have "xc_delete_marker_id c \<notin> version_ids s" by (simp add: fresh_version_id_def)
  then show ?thesis using OpLifecycle lifecycle_closed_final [OF ok] by (simp add: repo_step_def)
qed (auto simp: repo_step_def closed_final_same update_configuration_frame replace_s3_object_tagging_frame
      delete_s3_bucket_frame set_s3_bucket_versioning_def replace_s3_bucket_object_lock_def
      replace_s3_bucket_lifecycle_def create_s3_bucket_def set_quota_bytes_def commit_upload_intent_def
      create_closed_final
      split: option.split
      intro: staging_closed_final claim_closed_final release_closed_final abort_closed_final
        expire_closed_final [OF ok] commit_closed_final commit_multipart_closed_final)

lemma history_closed_final:
  assumes "state_ok uc s" and "admissible (repo_step uc cal new_id) (repo_enabled uc) s ops"
  shows "closed_final s (run (repo_step uc cal new_id) s ops)"
  using assms
proof (induction ops arbitrary: s)
  case (Cons x ops)
  then have "closed_final s (repo_step uc cal new_id s x)"
    and "closed_final (repo_step uc cal new_id s x) (run (repo_step uc cal new_id) s (x # ops))"
    using repo_step_closed_final [of uc s x cal new_id] memory_s3.step_valid [of uc s x cal new_id] by auto
  then show ?case by (rule closed_final_trans)
qed (simp add: closed_final_same)

section \<open>Properties\<close>



text \<open>C11: a takeover fences the former holder. As soon as a claim with a new token succeeds (because
  the former lease ran out), every commit and every release that carries another token is
  rejected without any effect.\<close>

theorem takeover_fences_former_holder:
  assumes "claim_upload_intent uc s k token until now = Some (t, Ok i)" and "former \<noteq> token"
  shows "release_upload_intent uc t k former later = Some (t, Err RepoConflict)
    \<and> (commit_validate c = Ok () \<longrightarrow> commit_upload_intent uc cal t k former c = Some (t, Err RepoConflict))"
proof -
  from assms(1) obtain i0 where "rebuild_intent uc i0 IntentCommitting (facts i0) (Some (token, until)) None now = Some i"
    and t: "t = insert_intent s k i"
    by (auto simp: claim_upload_intent_def Let_def split: option.splits if_splits)
  then have "ui_lease_token i = Some token"
    by (auto simp: rebuild_intent_cases Let_def split: if_splits)
  moreover have "hm_get (rs_intents t) k = Some i" by (simp add: t insert_intent_def)
  ultimately show ?thesis
    using assms(2)
    by (simp add: release_upload_intent_def commit_upload_intent_def commit_memory_upload_intent_def commit_fenced_def)
qed

definition example_staged :: "repo_op list" where
  "example_staged = take 3 example_uploads"

theorem takeover_fences_former_holder_witness:
  "\<exists>t i. claim_upload_intent example_tables (example_after example_staged) 1 ''second'' 90 60 = Some (t, Ok i)
     \<and> commit_upload_intent example_tables example_calendar t 1 ''worker'' example_commit = Some (t, Err RepoConflict)"
proof -
  obtain t i where c: "claim_upload_intent example_tables (example_after example_staged) 1 ''second'' 90 60 = Some (t, Ok i)"
  proof -
    have "case claim_upload_intent example_tables (example_after example_staged) 1 ''second'' 90 60 of
        Some (t, Inr i) \<Rightarrow> True | _ \<Rightarrow> False" by code_simp
    then show thesis using that by (auto split: option.splits prod.splits sum.splits)
  qed
  have "commit_validate example_commit = Ok ()" by code_simp
  with takeover_fences_former_holder [OF c, of "''worker''"] c show ?thesis by blast
qed

end
