(* ===== verification/Memory_S3_Retention.thy ===== *)
theory Memory_S3_Retention
  imports Memory_S3_Semantics Memory_S3_Fencing
begin

text \<open>
  Compliance retention over whole histories of the repository: a version under compliance
  retention stays stored, visible and retained, whatever deletes, lock updates, uploads and
  lifecycle actions are executed before its retention ends.
\<close>

section \<open>Retained versions\<close>

definition worm :: "timestamp \<Rightarrow> object_id \<times> stored_object_version \<Rightarrow> object_version \<Rightarrow> bool" where
  "worm until p v \<longleftrightarrow> \<not> ov_is_null_version v \<and> ov_object_id v = fst p \<and> ov_payload v = PayloadObject (snd p)
     \<and> retained_until {Compliance} until v"

definition retained ::
  "repo_state \<Rightarrow> timestamp \<Rightarrow> object_id \<times> stored_object_version \<Rightarrow> object_version_id \<Rightarrow> bool" where
  "retained s until p x \<longleftrightarrow> (\<exists>i. \<exists>v \<in> set (memory_active_versions s i). ov_id v = x \<and> worm until p v)"

lemma retainedI:
  assumes "retained s until p x"
    and "\<And>i v. v \<in> set (memory_active_versions s i) \<Longrightarrow> ov_id v = x \<Longrightarrow> worm until p v
      \<Longrightarrow> \<exists>j. \<exists>w \<in> set (memory_active_versions t j). ov_id w = x \<and> worm until p w"
  shows "retained t until p x"
  using assms unfolding retained_def by blast

lemma retained_same: "same_versions s t \<Longrightarrow> retained s until p x \<Longrightarrow> retained t until p x"
  by (simp add: retained_def same_versions_eqs)

lemma same_store_versions: "same_store s t \<Longrightarrow> same_versions s t"
  by (simp add: same_store_def)

lemma retained_hide:
  assumes "retained s until p x" and "hides s t y" and "y \<noteq> x"
  shows "retained t until p x"
  by (rule retainedI [OF assms(1)]) (use assms(2,3) in \<open>auto simp: hides_versions(3)\<close>)

lemma retained_push:
  assumes "retained s until p x"
  shows "retained (insert_object (push_version s i m) i' obj) until p x"
proof -
  have "set (memory_active_versions s j) \<subseteq> set (memory_active_versions (insert_object (push_version s i m) i' obj) j)" for j
    by (auto simp: memory_active_versions_def push_version_eq)
  then show ?thesis using assms unfolding retained_def by blast
qed

lemma assign_first_members:
  assumes "List.find p xs = Some v"
  shows "w' \<in> set (assign_first p w' xs)" and "w \<in> set xs \<Longrightarrow> w = v \<or> w \<in> set (assign_first p w' xs)"
  using assms by (induction xs) (auto split: if_splits)

lemma retained_touch:
  assumes "retained s until p x" and f: "List.find (\<lambda>w. ov_id w = y) (versions_of s i) = Some v"
    and core: "version_core v' = version_core v"
    and keep: "retained_until {Compliance} until v \<Longrightarrow> retained_until {Compliance} until v'"
    and t: "t = set_versions s i (assign_first (\<lambda>w. ov_id w = y) v' (versions_of s i))"
  shows "retained t until p x"
proof (rule retainedI [OF assms(1)])
  fix j w
  assume w: "w \<in> set (memory_active_versions s j)" "ov_id w = x" "worm until p w"
  have act: "active t = active s" by (simp add: t)
  show "\<exists>j. \<exists>w \<in> set (memory_active_versions t j). ov_id w = x \<and> worm until p w"
  proof (cases "j = i \<and> w = v")
    case True
    have "v' \<in> set (memory_active_versions t i)"
      using True w(1) assign_first_members(1) [OF f, of v'] core_facts(1) [OF core, of s]
      by (simp add: memory_active_versions_def act) (simp add: t)
    then show ?thesis
      using True w core core_facts(4) [OF core] keep by (auto simp: version_core_eq_iff worm_def)
  next
    case False
    then have "w \<in> set (memory_active_versions t j)"
      using w(1) assign_first_members(2) [OF f, of w v'] by (auto simp: memory_active_versions_def act) (auto simp: t)
    then show ?thesis using w by blast
  qed
qed

text \<open>Ids are unique, so the active version with the retained id is the retained version.\<close>

lemma retained_version:
  assumes ok: "state_ok uc s" and ret: "retained s until p x"
    and v: "v \<in> set (memory_active_versions s i)" "ov_id v = x"
  shows "worm until p v"
proof -
  from ret obtain j w where w: "w \<in> set (memory_active_versions s j)" "ov_id w = x" "worm until p w"
    by (auto simp: retained_def)
  have "distinct (map ov_id (all_versions s))" using state_okD(5) [OF ok] by (simp add: versions_ok_def)
  then have "v = w" by (rule version_eqI) (use v w in \<open>auto intro: active_member\<close>)
  with w show ?thesis by simp
qed

lemma unlocked_other:
  assumes "state_ok uc s" and "retained s until p x"
    and "v \<in> set (memory_active_versions s i)" and "delete_lock_reason_at v now bypass = None" and "now < until"
  shows "ov_id v \<noteq> x"
  using retained_version [OF assms(1-3)] assms(4,5)
  by (auto simp: worm_def retained_until_def is_some_and_iff delete_lock_reason_at_def split: if_splits)

lemma null_other:
  assumes "state_ok uc s" and "retained s until p x"
    and "v \<in> set (memory_active_versions s i)" and "ov_is_null_version v \<or> is_delete_marker v"
  shows "ov_id v \<noteq> x"
  using retained_version [OF assms(1-3)] assms(4) by (auto simp: worm_def is_delete_marker_def)

lemma retained_superseded:
  assumes "retained s until p x" and "\<And>w. old = Some w \<Longrightarrow> ov_id w \<noteq> x"
  shows "retained (superseded s old) until p x"
  using assms retained_hide [OF assms(1) hides_supersede_version] by (auto simp: superseded_def split: option.split)

lemma retained_gc:
  assumes "enqueue_optional s task = Inr s1" and "retained s until p x"
  shows "retained s1 until p x"
  using retained_same [of s s1] enqueue_optional_frame(4) [OF assms(1)] assms(2) by (simp add: same_store_def)

section \<open>Deletion\<close>

lemma delete_exact_hides:
  assumes "delete_exact_version s obj (memory_active_versions s i) c e = (t, r)"
  shows "t = s \<or> (\<exists>v \<in> set (memory_active_versions s i). delete_lock_reason v c = None \<and> hides s t (ov_id v))"
proof (cases "t = s")
  case False
  with assms obtain v s1 where "List.find (\<lambda>v. ov_external_version_id v = e) (memory_active_versions s i) = Some v"
    and "delete_lock_reason v c = None" and gc: "enqueue_optional s (explicit_delete_gc_task v c) = Inr s1"
    and "hides s t (ov_id v) \<longleftrightarrow> hides s (hide_version s1 v) (ov_id v)"
    by (auto simp: delete_exact_version_def Let_def split: option.splits sum.splits if_splits)
  then show ?thesis using hides_via_gc(1) [OF gc] by (auto dest!: find_Some_D)
qed simp

lemma delete_unversioned_hides:
  assumes "delete_when_unversioned s obj (memory_active_versions s i) c = (t, r)"
  shows "t = s \<or> (\<exists>v \<in> set (memory_active_versions s i). delete_lock_reason v c = None \<and> hides s t (ov_id v))"
proof (cases "t = s")
  case False
  with assms obtain v s1 where "List.find ov_is_null_version (memory_active_versions s i) = Some v"
    and "delete_lock_reason v c = None" and gc: "enqueue_optional s (explicit_delete_gc_task v c) = Inr s1"
    and "hides s t (ov_id v) \<longleftrightarrow> hides s (supersede_version s1 v) (ov_id v)"
    by (auto simp: delete_when_unversioned_def Let_def split: option.splits sum.splits if_splits)
  then show ?thesis using hides_via_gc(2) [OF gc] by (auto dest!: find_Some_D)
qed simp

lemma delete_suspended_retained:
  assumes ok: "state_ok uc s" and ret: "retained s until p x"
    and run: "delete_when_suspended s obj (memory_active_versions s i) c = (t, r)"
  shows "retained t until p x"
proof (cases "t = s")
  case False
  let ?null = "List.find ov_is_null_version (memory_active_versions s i)"
  from run False obtain s1 m obj' where gc: "enqueue_optional s (Option.bind ?null (\<lambda>v. explicit_delete_gc_task v c)) = Inr s1"
    and t: "same_versions (insert_object (push_version (superseded s1 ?null) (so_id obj) m) (so_id obj) obj') t"
    by (auto simp: delete_when_suspended_def Let_def result_simps superseded_def insert_quota_def
        same_versions_def split: sum.splits option.splits)
  have "ov_id w \<noteq> x" if "?null = Some w" for w
    using that null_other [OF ok ret] by (auto dest!: find_Some_D)
  then show ?thesis
    by (intro retained_same [OF t] retained_push retained_superseded retained_gc [OF gc ret])
qed (use ret in simp)

lemma delete_enabled_retained:
  "delete_when_enabled s obj c = (t, r) \<Longrightarrow> retained s until p x \<Longrightarrow> retained t until p x"
  by (auto simp: delete_when_enabled_def intro: retained_push split: sum.splits)

lemma delete_retained:
  assumes ok: "state_ok uc s" and ret: "retained s until p x" and "dc_deleted_at c < until"
  shows "retained (fst (delete_s3_object s c)) until p x"
proof -
  have hidden: "retained t until p x"
    if "t = s \<or> (\<exists>v \<in> set (memory_active_versions s i). delete_lock_reason v c = None \<and> hides s t (ov_id v))" for t i
  proof -
    have "ov_id v \<noteq> x" if "v \<in> set (memory_active_versions s i)" and "delete_lock_reason v c = None" for v
      by (rule unlocked_other [OF ok ret that(1) that(2) [unfolded delete_lock_reason_def] assms(3)])
    then show ?thesis using that ret retained_hide [OF ret] by blast
  qed
  have branches: "retained (fst (delete_exact_version s obj (memory_active_versions s i) c e)) until p x"
    "retained (fst (delete_when_unversioned s obj (memory_active_versions s i) c)) until p x"
    "retained (fst (delete_when_suspended s obj (memory_active_versions s i) c)) until p x"
    "retained (fst (delete_when_enabled s obj c)) until p x" for obj i e
    using hidden [OF delete_exact_hides] hidden [OF delete_unversioned_hides]
      delete_suspended_retained [OF ok ret] delete_enabled_retained [OF _ ret] by (metis prod.collapse)+
  show ?thesis
    using ret branches by (simp add: delete_s3_object_def Let_def split: option.split versioning_status.split)
qed

section \<open>Lock updates\<close>

lemma lock_mutation_retained:
  assumes "lock_mutation_result v c = Inr v'" and "retained_until {Compliance} until v" and "lc_updated_at c < until"
  shows "retained_until {Compliance} until v'"
proof (cases "lc_mutation c")
  case (RetentionMutation r bypass)
  then have "with_retention_update v r (lc_updated_at c) bypass = Inr v'"
    using assms(1)
    by (auto simp: lock_mutation_result_def split: sum.splits object_retention_update_error.splits)
  then have "v' = version_step v (UpdateRetention r (lc_updated_at c) bypass)" by simp
  then show ?thesis using compliance_step [OF assms(2), of "UpdateRetention r (lc_updated_at c) bypass"] assms(3) by simp
next
  case (LegalHoldMutation hold)
  then show ?thesis
    using assms(1,2)
    by (auto simp: lock_mutation_result_def with_legal_hold_update_def retained_until_def
        split: sum.splits if_splits)
qed

lemma put_lock_retained:
  assumes ret: "retained s until p x" and "lc_updated_at c < until"
  shows "retained (fst (put_s3_object_lock s c)) until p x"
proof -
  have "retained (s\<lparr>rs_versions := hm_insert i (assign_first (\<lambda>v. ov_id v = y) v' vs) (rs_versions s)\<rparr>) until p x"
    if "hm_get (rs_versions s) i = Some vs" and "List.find (\<lambda>v. ov_id v = y) vs = Some v"
      and "lock_mutation_result v c = Inr v'" for i y v v' vs
    by (rule retained_touch [OF ret, of y i v v'])
      (use that lock_mutation_core [OF that(3)] lock_mutation_retained [OF that(3) _ assms(2)]
        in \<open>simp_all add: versions_of_def\<close>)
  then show ?thesis
    using ret by (simp add: put_s3_object_lock_def split: option.split sum.split)
qed

section \<open>Lifecycle actions\<close>

lemma mark_noncurrent_retained:
  assumes run: "mark_memory_version_noncurrent s i y at = Inr t" and ret: "retained s until p x"
  shows "retained t until p x"
proof -
  from run obtain v where v: "List.find (\<lambda>w. ov_id w = y) (versions_of s i) = Some v"
    and t: "t = set_versions s i (assign_first (\<lambda>w. ov_id w = y) (v\<lparr>ov_became_noncurrent_at := Some at\<rparr>) (versions_of s i))"
    by (auto simp: mark_memory_version_noncurrent_def result_simps with_became_noncurrent_at_def split: if_splits)
  show ?thesis
    by (rule retained_touch [OF ret v _ _ t]) (simp_all add: version_core_eq_iff retained_until_def)
qed

lemma expire_enabled_retained:
  "expire_current_enabled s obj v c = Inr (t, out) \<Longrightarrow> retained s until p x \<Longrightarrow> retained t until p x"
  by (auto simp: expire_current_enabled_def Let_def result_simps intro: retained_push mark_noncurrent_retained)

lemma enqueue_nothing [simp]: "enqueue_optional s None = Inr s"
  by (simp add: enqueue_optional_def)

lemma expire_suspended_retained:
  assumes ok: "state_ok uc s" and ret: "retained s until p x"
    and run: "expire_current_suspended s obj (memory_active_versions s i) v c = Inr (t, out)"
  shows "retained t until p x"
proof (cases "t = s")
  case False
  let ?null = "List.find ov_is_null_version (memory_active_versions s i)"
  from run False obtain s1 s2 m obj' where
    mark: "mark_memory_version_noncurrent s (so_id obj) (ov_id v) (lifecycle_action_time (xc_evaluated_at c)) = Inr s1"
    and gc: "enqueue_optional s1 (Option.bind ?null (\<lambda>w. lifecycle_object_gc_task w c)) = Inr s2"
    and t: "same_versions (insert_object (push_version (superseded s2 ?null) (so_id obj) m) (so_id obj) obj') t"
    by (auto simp: expire_current_suspended_def Let_def result_simps superseded_def insert_quota_def
        same_versions_def split: if_splits option.splits)
  have "ov_id w \<noteq> x" if "?null = Some w" for w
    using that null_other [OF ok ret] by (auto dest!: find_Some_D)
  then show ?thesis
    by (intro retained_same [OF t] retained_push retained_superseded
        retained_gc [OF gc] mark_noncurrent_retained [OF mark ret])
qed (use ret in simp)

lemma expire_unversioned_retained:
  assumes ok: "state_ok uc s" and ret: "retained s until p x" and "xc_evaluated_at c < until"
    and v: "v \<in> set (memory_active_versions s i)"
    and run: "expire_current_unversioned s obj v c = Inr (t, out)"
  shows "retained t until p x"
proof (cases "t = s")
  case False
  from run False obtain s1 s2 head q where un: "delete_lock_reason_at v (xc_evaluated_at c) False = None"
    and mark: "mark_memory_version_noncurrent s (so_id obj) (ov_id v) (lifecycle_action_time (xc_evaluated_at c)) = Inr s1"
    and gc: "enqueue_optional s1 (lifecycle_object_gc_task v c) = Inr s2"
    and t: "t = insert_quota (insert_object (supersede_version s2 v) (so_id obj) head) (ov_application_id v) q"
    by (auto simp: expire_current_unversioned_def Let_def result_simps split: if_splits)
  have "hides s1 t (ov_id v)" using hides_via_gc(2) [OF gc] by (simp add: t)
  then show ?thesis
    by (rule retained_hide [OF mark_noncurrent_retained [OF mark ret] _ unlocked_other [OF ok ret v un assms(3)]])
qed (use ret in simp)

lemma abort_multipart_intent_versions:
  assumes "abort_multipart_intent uc new_id s upload c = Inr (Inr (s1, released))"
  shows "same_versions s s1"
proof (cases "mu_upload_intent_id upload")
  case (Some k)
  with assms obtain tasks s0 where gc: "enqueue_gc_tasks s tasks = Inr s0" and "s1 = s0 \<or> (\<exists>j. s1 = insert_intent s0 k j)"
    by (auto simp: abort_multipart_intent_def result_simps Let_def
        simp del: enqueue_gc_tasks.simps list.map split: if_splits)
  then show ?thesis
    using gc_frame(4) [OF gc] by (auto simp: same_store_def same_versions_def insert_intent_def)
qed (use assms in \<open>simp add: abort_multipart_intent_def same_versions_def\<close>)

lemma multipart_abort_versions:
  assumes "execute_memory_multipart_abort uc new_id s u key initiated c = Inr (t, out)"
  shows "same_versions s t"
proof (cases "t = s")
  case False
  with assms show ?thesis
  proof (rule multipart_abort_cases)
    fix upload s1 released tasks s2
    assume ab: "abort_multipart_intent uc new_id s upload c = Inr (Inr (s1, released))"
      and gc: "enqueue_gc_tasks s1 tasks = Inr s2"
      and t: "t = (let s3 = s2\<lparr>rs_multipart_uploads := hm_insert u
                     (aborted_multipart_row upload (xc_evaluated_at c)) (rs_multipart_uploads s2)\<rparr>
                 in case released of None \<Rightarrow> s3 | Some (a, q) \<Rightarrow> insert_quota s3 a q)"
    have "same_versions s s1" by (rule abort_multipart_intent_versions [OF ab])
    then show ?thesis using gc_frame(4) [OF gc]
      by (simp add: t Let_def insert_quota_def same_store_def same_versions_def split: option.split)
  qed
qed (simp add: same_versions_def)

lemma lifecycle_target_retained:
  assumes ok: "state_ok uc s" and ret: "retained s until p x" and early: "xc_evaluated_at c < until"
    and run: "execute_lifecycle_target uc new_id s bucket c = Inr (t, out)"
  shows "retained t until p x"
proof (cases "t = s")
  case False
  show ?thesis
  proof (cases "xc_target c")
    case (ExpireCurrent i key cur created)
    from run ExpireCurrent False obtain obj v where "v \<in> set (memory_active_versions s i)"
      and "expire_current_enabled s obj v c = Inr (t, out)
        \<or> expire_current_suspended s obj (memory_active_versions s i) v c = Inr (t, out)
        \<or> expire_current_unversioned s obj v c = Inr (t, out)"
      by (auto simp: execute_lifecycle_target_def execute_memory_current_expiration_def Let_def dest!: find_Some_D
          split: if_splits option.splits versioning_status.splits)
    then show ?thesis
      using expire_enabled_retained [OF _ ret] expire_suspended_retained [OF ok ret]
        expire_unversioned_retained [OF ok ret early] by metis
  next
    case (ExpireNoncurrent i key vid became)
    from run ExpireNoncurrent False obtain v q s1 where v: "v \<in> set (memory_active_versions s i)"
      and un: "delete_lock_reason_at v (xc_evaluated_at c) False = None"
      and gc: "enqueue_optional s (lifecycle_object_gc_task v c) = Inr s1"
      and t: "t = insert_quota (hide_version s1 v) (ov_application_id v) q"
      by (auto simp: execute_lifecycle_target_def execute_memory_noncurrent_expiration_def Let_def result_simps
          dest!: find_Some_D split: if_splits option.splits)
    have "hides s t (ov_id v)" using hides_via_gc(1) [OF gc] by (simp add: t)
    then show ?thesis by (rule retained_hide [OF ret _ unlocked_other [OF ok ret v un early]])
  next
    case (RemoveExpiredDeleteMarker i key vid)
    from run RemoveExpiredDeleteMarker False obtain v head where act: "memory_active_versions s i = [v]"
      and mk: "is_delete_marker v" and t: "t = insert_object (hide_version s v) i head"
      by (auto simp: execute_lifecycle_target_def execute_memory_expired_marker_def Let_def result_simps
          split: if_splits option.splits list.splits)
    have h: "hides s t (ov_id v)" using hides_hide_version by (simp add: t)
    have "ov_id v \<noteq> x" by (rule null_other [OF ok ret, of v i]) (simp_all add: act mk)
    with h show ?thesis by (rule retained_hide [OF ret])
  next
    case (AbortMultipart u key initiated)
    then have "execute_memory_multipart_abort uc new_id s u key initiated c = Inr (t, out)"
      using run by (simp add: execute_lifecycle_target_def)
    then have "same_versions s t" by (rule multipart_abort_versions)
    then show ?thesis using ret by (rule retained_same)
  qed
qed (use ret in simp)

lemma lifecycle_retained:
  assumes "state_ok uc s" and "retained s until p x" and "xc_evaluated_at c < until"
  shows "retained (fst (execute_s3_lifecycle uc new_id s c)) until p x"
  using assms lifecycle_target_retained [OF assms]
  by (simp add: execute_s3_lifecycle_def split: option.split sum.split prod.split)

section \<open>Uploads\<close>

lemma commit_retained:
  assumes ok: "state_ok uc s" and ret: "retained s until p x"
    and run: "commit_memory_upload_intent uc cal s k token c = Some (t, r)"
  shows "retained t until p x"
proof (cases "t = s \<or> t = s\<lparr>rs_fail_commit := False\<rparr>")
  case True
  then have "same_versions s t" by (auto simp: same_versions_def)
  then show ?thesis using ret by (rule retained_same)
next
  case False
  with run obtain i frozen old q obj where prep: "prepare_commit cal s i c = Inr (frozen, old, q, obj)"
    and app: "apply_commit uc s k i frozen old q obj = Some (t, r)"
    by (auto simp: commit_memory_upload_intent_def split: sum.splits option.splits if_splits object_version_payload.splits)
  have "ov_id w \<noteq> x" if "old = Some w" for w
  proof (rule null_other [OF ok ret])
    show "w \<in> set (memory_active_versions s (ov_object_id (vc_version frozen)))" "ov_is_null_version w \<or> is_delete_marker w"
      using prep that
      by (auto simp: prepare_commit_def result_simps Let_def memory_active_versions_def dest!: find_Some_D split: if_splits)
  qed
  then have "retained (superseded s old) until p x" by (rule retained_superseded [OF ret])
  then have "retained (insert_object (push_version (superseded s old) (so_id obj) (vc_version frozen)) (so_id obj) obj) until p x"
    by (rule retained_push)
  moreover have "same_versions (insert_object (push_version (superseded s old) (so_id obj) (vc_version frozen)) (so_id obj) obj) t"
    using app by (auto simp: apply_commit_def Let_def intent_ops same_versions_def simp flip: superseded_def)
  ultimately show ?thesis by (rule retained_same [rotated])
qed

lemma commit_multipart_retained:
  assumes ok: "state_ok uc s" and ret: "retained s until p x"
    and run: "commit_multipart_object_version uc cal s u token c tag ck = Some (t, r)"
  shows "retained t until p x"
proof (cases "t = s")
  case False
  with run obtain k staged obj where "commit_memory_upload_intent uc cal s k token c = Some (staged, Inr obj)"
    and t: "same_versions staged t"
    by (auto simp: commit_multipart_object_version_def same_versions_def
        split: sum.splits option.splits if_splits object_version_payload.splits prod.splits)
  then show ?thesis using commit_retained [OF ok ret] retained_same [OF t] by blast
qed (use ret in simp)

lemma expire_loop_versions:
  "expire_intents_loop uc new_id now n s ks = Some (Inr t) \<Longrightarrow> same_versions s t"
proof (induction ks arbitrary: s)
  case (Cons k ks)
  then obtain u where u: "expire_one_intent uc new_id now n s k = Some (Inr u)"
    and rest: "expire_intents_loop uc new_id now n u ks = Some (Inr t)"
    by (auto split: option.splits sum.splits)
  from u obtain tasks s1 where gc: "enqueue_gc_tasks s tasks = Inr s1" and "same_versions s1 u"
    by (auto simp: expire_one_intent_def result_simps intent_ops same_versions_def
        simp del: enqueue_gc_tasks.simps list.map split: option.splits sum.splits)
  then show ?case using gc_frame(4) [OF gc] Cons.IH [OF rest] by (simp add: same_store_def same_versions_def)
qed (simp add: same_versions_def)

lemma intent_ops_versions:
  "same_versions s (fst (create_upload_intent s i))"
  "complete_upload_intent_staging uc s k tag ck n now = Some (t, r1) \<Longrightarrow> same_versions s t"
  "claim_upload_intent uc s k token until now = Some (t, r2) \<Longrightarrow> same_versions s t"
  "release_upload_intent uc s k token now = Some (t, r3) \<Longrightarrow> same_versions s t"
  "abort_upload_intent_and_enqueue_gc uc s k task now = Some (t, r4) \<Longrightarrow> same_versions s t"
  "expire_upload_intents uc new_id s now limit m = Some (t, r5) \<Longrightarrow> same_versions s t"
proof -
  show "same_versions s (fst (create_upload_intent s i))"
    by (auto simp: create_upload_intent_def same_versions_def intent_ops split: option.split)
  show "complete_upload_intent_staging uc s k tag ck n now = Some (t, r1) \<Longrightarrow> same_versions s t"
    by (auto simp: complete_upload_intent_staging_def same_versions_def intent_ops split: option.splits if_splits)
  show "claim_upload_intent uc s k token until now = Some (t, r2) \<Longrightarrow> same_versions s t"
    by (auto simp: claim_upload_intent_def Let_def same_versions_def intent_ops split: option.splits if_splits)
  show "release_upload_intent uc s k token now = Some (t, r3) \<Longrightarrow> same_versions s t"
    by (auto simp: release_upload_intent_def same_versions_def intent_ops split: option.splits if_splits)
  show "abort_upload_intent_and_enqueue_gc uc s k task now = Some (t, r4) \<Longrightarrow> same_versions s t"
    by (auto simp: abort_upload_intent_and_enqueue_gc_def same_versions_def intent_ops
        split: option.splits if_splits sum.splits)
  show "expire_upload_intents uc new_id s now limit m = Some (t, r5) \<Longrightarrow> same_versions s t"
    using expire_loop_versions
    by (auto simp: expire_upload_intents_def Let_def same_versions_def split: option.splits if_splits sum.splits)
qed

section \<open>Histories\<close>

fun executed_before :: "timestamp \<Rightarrow> repo_op \<Rightarrow> bool" where
  "executed_before until (OpDelete c) \<longleftrightarrow> dc_deleted_at c < until"
| "executed_before until (OpPutLock c) \<longleftrightarrow> lc_updated_at c < until"
| "executed_before until (OpLifecycle c) \<longleftrightarrow> xc_evaluated_at c < until"
| "executed_before until _ \<longleftrightarrow> True"

lemma account_ops_versions:
  "same_versions s (fst (set_quota_bytes s a n))" "same_versions s (create_s3_bucket s b)"
  by (auto simp: set_quota_bytes_def create_s3_bucket_def same_versions_def split: option.split)

lemma step_retained:
  assumes ok: "state_ok uc s" and ret: "retained s until p x" and "executed_before until y"
  shows "retained (repo_step uc cal new_id s y) until p x"
proof (cases y)
  case (OpDelete c)
  then show ?thesis using delete_retained [OF ok ret] assms(3) by (simp add: repo_step_def)
next
  case (OpPutLock c)
  then show ?thesis using put_lock_retained [OF ret] assms(3) by (simp add: repo_step_def)
next
  case (OpLifecycle c)
  then show ?thesis using lifecycle_retained [OF ok ret] assms(3) by (simp add: repo_step_def)
next
  case (OpCommit k token c)
  then show ?thesis using commit_retained [OF ok ret] ret
    by (auto simp: repo_step_def commit_upload_intent_def split: option.split)
next
  case (OpCommitMultipart u token c tag ck)
  then show ?thesis using commit_multipart_retained [OF ok ret] ret by (auto simp: repo_step_def split: option.split)
qed (use ret in \<open>auto simp: repo_step_def set_s3_bucket_versioning_def replace_s3_bucket_object_lock_def
      replace_s3_bucket_lifecycle_def intro!: retained_same [OF _ ret] intent_ops_versions(1) account_ops_versions
      update_configuration_frame(1) [THEN same_store_versions] replace_s3_object_tagging_frame(1) [THEN same_store_versions]
      delete_s3_bucket_frame(1) [THEN same_store_versions]
      dest: intent_ops_versions(2-6) split: option.split\<close>)

interpretation worm: aggregate "\<lambda>s. state_ok uc s \<and> retained s until p x" "repo_step uc cal new_id"
    "\<lambda>s y. repo_enabled uc s y \<and> executed_before until y"
  for uc cal new_id until p x
  by unfold_locales (use memory_s3.step_valid step_retained in blast)

lemma admissible_before:
  assumes "admissible step enabled s ops" and "\<And>y. y \<in> set ops \<Longrightarrow> q y"
  shows "admissible step (\<lambda>s y. enabled s y \<and> q y) s ops"
  using assms by (induction ops arbitrary: s) auto

section \<open>Properties\<close>



end
