(* ===== verification/Lifecycle_Batch.thy ===== *)
theory Lifecycle_Batch
  imports Lifecycle_Service Memory_S3_Retention
begin

text \<open>
  Lifecycle batches against the in-memory repository: the schedule a batch follows, that every action
  of every rule comes up, and that a batch is a history of repository calls, so that all properties of
  histories hold across batches.
\<close>

section \<open>The commands of a batch\<close>

text \<open>Between two states of a batch the repository has executed the commands, each with an identifier
  drawn for its own work unit and a target of its own.\<close>

definition issued ::
  "batch_env \<Rightarrow> 's lifecycle_port \<Rightarrow> 's batch \<Rightarrow> 's batch \<Rightarrow> execute_s3_lifecycle_command list \<Rightarrow> bool" where
  "issued env port st st' cs \<longleftrightarrow>
     ba_repository st' = foldl (\<lambda>s c. fst (lp_execute port s c)) (ba_repository st) cs
     \<and> (\<exists>ns. map xc_delete_marker_id cs = map (fst \<circ> be_draw env) ns \<and> distinct ns
           \<and> set ns \<subseteq> {re_examined (ba_receipt st) ..< re_examined (ba_receipt st')})
     \<and> distinct (map (target_identity \<circ> xc_target) cs)
     \<and> (target_identity \<circ> xc_target) ` set cs \<inter> ba_seen st = {}
     \<and> ba_seen st \<union> (target_identity \<circ> xc_target) ` set cs \<subseteq> ba_seen st'
     \<and> (\<forall>c \<in> set cs. xc_evaluated_at c = be_now env)
     \<and> re_examined (ba_receipt st) \<le> re_examined (ba_receipt st')"

lemma issued_Nil:
  "ba_repository st' = ba_repository st \<Longrightarrow> ba_seen st \<subseteq> ba_seen st' \<Longrightarrow>
   re_examined (ba_receipt st) \<le> re_examined (ba_receipt st') \<Longrightarrow> issued env port st st' []"
  by (simp add: issued_def)

lemma issued_trans:
  assumes "issued env port st st1 cs" and "issued env port st1 st' ds"
  shows "issued env port st st' (cs @ ds)"
proof -
  from assms(1) obtain ns where ns: "map xc_delete_marker_id cs = map (fst \<circ> be_draw env) ns" "distinct ns"
      "set ns \<subseteq> {re_examined (ba_receipt st) ..< re_examined (ba_receipt st1)}"
    unfolding issued_def by (elim conjE exE)
  from assms(2) obtain ms where ms: "map xc_delete_marker_id ds = map (fst \<circ> be_draw env) ms" "distinct ms"
      "set ms \<subseteq> {re_examined (ba_receipt st1) ..< re_examined (ba_receipt st')}"
    unfolding issued_def by (elim conjE exE)
  note ids = ns ms
  have le: "re_examined (ba_receipt st) \<le> re_examined (ba_receipt st1)"
    "re_examined (ba_receipt st1) \<le> re_examined (ba_receipt st')" using assms by (simp_all add: issued_def)
  have "set ns \<inter> set ms = {}" using ids(3,6) by fastforce
  moreover have "set ns \<union> set ms \<subseteq> {re_examined (ba_receipt st) ..< re_examined (ba_receipt st')}"
    using ids(3,6) le by fastforce
  ultimately have "map xc_delete_marker_id (cs @ ds) = map (fst \<circ> be_draw env) (ns @ ms) \<and> distinct (ns @ ms)
      \<and> set (ns @ ms) \<subseteq> {re_examined (ba_receipt st) ..< re_examined (ba_receipt st')}"
    using ids by simp
  then have "\<exists>ks. map xc_delete_marker_id (cs @ ds) = map (fst \<circ> be_draw env) ks \<and> distinct ks
      \<and> set ks \<subseteq> {re_examined (ba_receipt st) ..< re_examined (ba_receipt st')}" ..
  moreover
  let ?T = "target_identity \<circ> xc_target"
  have a: "distinct (map ?T cs)" "?T ` set cs \<inter> ba_seen st = {}" "ba_seen st \<union> ?T ` set cs \<subseteq> ba_seen st1"
    using assms(1) unfolding issued_def by iprover+
  have b: "distinct (map ?T ds)" "?T ` set ds \<inter> ba_seen st1 = {}" "ba_seen st1 \<union> ?T ` set ds \<subseteq> ba_seen st'"
    using assms(2) unfolding issued_def by iprover+
  have "distinct (map ?T (cs @ ds))" "?T ` set (cs @ ds) \<inter> ba_seen st = {}"
    "ba_seen st \<union> ?T ` set (cs @ ds) \<subseteq> ba_seen st'"
    using a b unfolding set_append image_Un map_append distinct_append set_map by blast+
  moreover have "ba_repository st' = foldl (\<lambda>s c. fst (lp_execute port s c)) (ba_repository st) (cs @ ds)"
    "\<forall>c \<in> set (cs @ ds). xc_evaluated_at c = be_now env"
    using assms by (auto simp: issued_def)
  ultimately show ?thesis using le unfolding issued_def by (meson order_trans)
qed

lemma lifecycle_command_Ok:
  "lifecycle_command env n b rule target = Inr c \<Longrightarrow>
   xc_delete_marker_id c = fst (be_draw env n) \<and> xc_target c = target \<and> xc_evaluated_at c = be_now env"
  by (auto simp: lifecycle_command_def result_simps split: prod.splits)

lemma batch_unit_cases:
  assumes "batch_unit env port b st = (st', r)"
  obtains "ba_repository st' = ba_repository st" "ba_seen st \<subseteq> ba_seen st'"
  | rule target c where "target_identity target \<notin> ba_seen st"
      "lifecycle_command env (re_examined (ba_receipt st)) b rule target = Inr c"
      "ba_repository st' = fst (lp_execute port (ba_repository st) c)"
      "ba_seen st' = insert (target_identity target) (ba_seen st)"
  using assms
  by (auto simp: batch_unit_def Let_def split: option.split_asm sum.split_asm prod.split_asm if_split_asm)
     (use subset_insertI in blast)

lemma unit_issues:
  assumes "batch_unit env port b st = (st', r)"
  shows "\<exists>cs. issued env port st st' cs"
  using assms
proof (cases rule: batch_unit_cases)
  case 1
  then show ?thesis using batch_unit_examined [OF assms] by (intro exI [of _ "[]"] issued_Nil) auto
next
  case (2 rule target c)
  then have "issued env port st st' [c]"
    using batch_unit_examined [OF assms] lifecycle_command_Ok [OF 2(2)]
    by (auto simp: issued_def intro!: exI [of _ "[re_examined (ba_receipt st)]"])
  then show ?thesis ..
qed

lemma page_issues:
  "batch_page env port limit bs st = (st', e) \<Longrightarrow> \<exists>cs. issued env port st st' cs"
proof (induction bs arbitrary: st)
  case Nil
  then show ?case by (auto intro!: exI [of _ "[]"] issued_Nil)
next
  case (Cons b bs)
  obtain st1 r where unit: "batch_unit env port b st = (st1, r)" by (cases "batch_unit env port b st")
  from unit_issues [OF unit] obtain cs where cs: "issued env port st st1 cs" by blast
  consider "st' = st1" | "st' = st1\<lparr>ba_receipt := (ba_receipt st1)\<lparr>re_next_cursor := ba_cursor st1\<rparr>\<rparr>"
    | "batch_page env port limit bs st1 = (st', e)"
    using Cons.prems unit by (auto split: sum.splits if_splits)
  then show ?case
  proof cases
    case 3
    with Cons.IH cs issued_trans show ?thesis by blast
  qed (use cs in \<open>auto simp: issued_def\<close>)
qed

lemma page_within_limit:
  "batch_page env port limit bs st = (st', e) \<Longrightarrow> re_examined (ba_receipt st) < limit \<Longrightarrow>
   re_examined (ba_receipt st') \<le> limit"
proof (induction bs arbitrary: st)
  case (Cons b bs)
  obtain st1 r where unit: "batch_unit env port b st = (st1, r)" by (cases "batch_unit env port b st")
  with Cons batch_unit_examined [OF unit] show ?case by (auto split: sum.splits if_splits)
qed simp

lemma loop_issues:
  "batch_loop env port limit st = (st', r) \<Longrightarrow>
   \<exists>cs. issued env port st st' cs \<and> (re_examined (ba_receipt st) \<le> limit \<longrightarrow> re_examined (ba_receipt st') \<le> limit)"
proof (induction env port limit st rule: batch_loop.induct)
  case (1 env port limit st)
  let ?ex = "re_examined (ba_receipt st)" and ?after = "cu_after_bucket_id (ba_cursor st)"
  let ?l = "min (limit - ?ex) MAX_S3_LIFECYCLE_BUCKET_PAGE_SIZE"
  note unfolded = "1.prems" [unfolded batch_loop.simps [of env port limit st] Let_def]
  consider "\<not> ?ex < limit" | e where "?ex < limit" "lp_buckets port (ba_repository st) ?after ?l = Inl e"
    | "?ex < limit" "lp_buckets port (ba_repository st) ?after ?l = Inr []"
    | b bs where "?ex < limit" "lp_buckets port (ba_repository st) ?after ?l = Inr (b # bs)"
    by (cases "lp_buckets port (ba_repository st) ?after ?l"; cases "projr (lp_buckets port (ba_repository st) ?after ?l)") auto
  then show ?case
  proof cases
    case 3
    show ?thesis
    proof (cases "?after = None")
      case False
      with 1(1) [OF refl 3(1) refl 3(2) refl False] unfolded 3 obtain cs where
        "issued env port (st\<lparr>ba_cursor := next_round (ba_cursor st)\<rparr>) st' cs"
        "?ex \<le> limit \<longrightarrow> re_examined (ba_receipt st') \<le> limit" by auto
      then show ?thesis by (intro exI [of _ cs]) (simp add: issued_def)
    qed (use unfolded 3 in \<open>auto intro!: exI [of _ "[]"] issued_Nil\<close>)
  next
    case (4 b bs)
    obtain st1 e where page: "batch_page env port limit (b # bs) st = (st1, e)"
      by (cases "batch_page env port limit (b # bs) st")
    from page_issues [OF page] obtain cs where cs: "issued env port st st1 cs" by blast
    have le: "re_examined (ba_receipt st1) \<le> limit" by (rule page_within_limit [OF page 4(1)])
    show ?thesis
    proof (cases e)
      case PageExhausted
      let ?st = "if length (b # bs) < ?l then st1\<lparr>ba_cursor := next_round (ba_cursor st1)\<rparr> else st1"
      from unfolded 4 page PageExhausted have "batch_loop env port limit ?st = (st', r)"
        by (simp del: batch_page.simps)
      with 1(2) [OF refl 4(1) refl 4(2) refl page [symmetric] PageExhausted] obtain ds where
        "issued env port ?st st' ds"
        "re_examined (ba_receipt ?st) \<le> limit \<longrightarrow> re_examined (ba_receipt st') \<le> limit" by blast
      then have "issued env port st1 st' ds" "re_examined (ba_receipt st') \<le> limit"
        using le by (simp_all add: issued_def split: if_splits)
      with issued_trans [OF cs] show ?thesis by blast
    qed (use unfolded 4 page cs le in \<open>auto simp del: batch_page.simps\<close>)
  qed (use unfolded in \<open>auto intro!: exI [of _ "[]"] issued_Nil\<close>)
qed


section \<open>Fresh identifiers stay fresh\<close>

abbreviation proposed_ids :: "repo_state \<Rightarrow> object_version_id set" where
  "proposed_ids s \<equiv> ui_proposed_version_id ` set (hm_values (rs_intents s))"

lemma abort_multipart_intent_proposed:
  assumes "abort_multipart_intent uc new_id s upload c = Inr (Inr (s1, released))"
  shows "proposed_ids s1 \<subseteq> proposed_ids s"
proof (cases "mu_upload_intent_id upload")
  case (Some k)
  with assms obtain tasks s0 i where gc: "enqueue_gc_tasks s tasks = Inr s0" and i: "hm_get (rs_intents s) k = Some i"
    and "s1 = s0 \<or> (\<exists>j. s1 = insert_intent s0 k j \<and> abort_intent uc i (xc_evaluated_at c) = Inr j)"
    by (auto simp: abort_multipart_intent_def result_simps Let_def
        simp del: enqueue_gc_tasks.simps list.map split: if_splits)
  then consider "rs_intents s1 = rs_intents s"
    | j where "rs_intents s1 = hm_insert k j (rs_intents s)" "abort_intent uc i (xc_evaluated_at c) = Inr j"
    using gc_frame(1) [OF gc] by (auto simp: insert_intent_def)
  then show ?thesis
  proof cases
    case (2 j)
    have "ui_proposed_version_id j = ui_proposed_version_id i"
      using 2(2) by (auto simp: abort_intent_def intent_from_persistence_iff)
    moreover have "i \<in> set (hm_values (rs_intents s))" by (rule hm_get_values [OF i])
    ultimately have "ui_proposed_version_id ` insert j (set (hm_values (rs_intents s))) \<subseteq> proposed_ids s" by auto
    then show ?thesis using hm_values_insert_subset [of k j "rs_intents s"] unfolding 2(1) by blast
  qed simp
qed (use assms in \<open>simp add: abort_multipart_intent_def\<close>)

lemma multipart_abort_proposed:
  assumes "execute_memory_multipart_abort uc new_id s u key initiated c = Inr (t, out)"
  shows "proposed_ids t \<subseteq> proposed_ids s"
proof (cases "t = s")
  case False
  with assms show ?thesis
  proof (rule multipart_abort_cases)
    fix upload s1 released tasks s2
    assume ab: "abort_multipart_intent uc new_id s upload c = Inr (Inr (s1, released))"
      and gc: "enqueue_gc_tasks s1 tasks = Inr s2"
      and t: "t = (let s3 = s2\<lparr>rs_multipart_uploads := hm_insert u
                     (aborted_multipart_row upload (xc_evaluated_at c)) (rs_multipart_uploads s2)\<rparr>
                 in case released of None \<Rightarrow> s3 | Some (a, q) \<Rightarrow> insert_quota s3 a q)"
    have "rs_intents t = rs_intents s1"
      using gc_frame(1) [OF gc] by (auto simp: t Let_def split: option.split)
    then show ?thesis using abort_multipart_intent_proposed [OF ab] by simp
  qed
qed simp

lemma execute_s3_lifecycle_fresh:
  assumes ok: "state_ok uc s" and marker: "fresh_version_id s (xc_delete_marker_id c)"
    and x: "fresh_version_id s x" "x \<noteq> xc_delete_marker_id c"
  shows "fresh_version_id (fst (execute_s3_lifecycle uc new_id s c)) x"
proof -
  have new: "xc_delete_marker_id c \<notin> version_ids s" using marker by (simp add: fresh_version_id_def)
  have ev: "fresh_version_id t x" if "evolved s t (xc_delete_marker_id c)" for t
    using that x by (auto simp: evolved_def fresh_version_id_def)
  have "fresh_version_id t x" if run: "execute_lifecycle_target uc new_id s bucket c = Inr (t, out)" for bucket t out
  proof (cases "xc_target c")
    case (AbortMultipart u key initiated)
    with run have ab: "execute_memory_multipart_abort uc new_id s u key initiated c = Inr (t, out)"
      by (simp add: execute_lifecycle_target_def)
    have "version_ids t = version_ids s"
      using same_versions_eqs [OF multipart_abort_versions [OF ab]] by (simp add: version_ids_def)
    with multipart_abort_proposed [OF ab] x(1) show ?thesis by (auto simp: fresh_version_id_def)
  next
    case (ExpireCurrent i key cur created)
    with run current_expiration_evolved [OF state_okD(1) [OF ok] new] show ?thesis
      by (intro ev) (simp add: execute_lifecycle_target_def)
  next
    case (ExpireNoncurrent i key vid became)
    with run noncurrent_expiration_evolved [OF state_okD(1) [OF ok]] show ?thesis
      by (intro ev) (simp add: execute_lifecycle_target_def)
  next
    case (RemoveExpiredDeleteMarker i key vid)
    with run expired_marker_evolved [OF state_okD(1) [OF ok]] show ?thesis
      by (intro ev) (simp add: execute_lifecycle_target_def)
  qed
  then show ?thesis using x(1) by (simp add: execute_s3_lifecycle_def split: option.split sum.split prod.split)
qed

lemma lifecycle_commands_admissible:
  assumes "state_ok uc s" and "map xc_delete_marker_id cs = map f ns" and "distinct ns" and "inj_on f (set ns)"
    and "\<forall>n \<in> set ns. fresh_version_id s (f n)"
  shows "admissible (repo_step uc cal new_id) (repo_enabled uc) s (map OpLifecycle cs)
    \<and> run (repo_step uc cal new_id) s (map OpLifecycle cs)
        = foldl (\<lambda>s c. fst (lp_execute (memory_port uc new_id) s c)) s cs"
  using assms
proof (induction cs arbitrary: s ns)
  case (Cons c cs)
  then obtain n ms where ns: "ns = n # ms" and c: "xc_delete_marker_id c = f n"
    and ids: "map xc_delete_marker_id cs = map f ms" by (cases ns) auto
  let ?t = "fst (execute_s3_lifecycle uc new_id s c)"
  have fresh: "fresh_version_id s (xc_delete_marker_id c)" using Cons.prems(5) by (simp add: ns c)
  have step: "repo_step uc cal new_id s (OpLifecycle c) = ?t" by (simp add: repo_step_def)
  have ok: "state_ok uc ?t" by (rule execute_s3_lifecycle_ok [OF Cons.prems(1) fresh_version_idD [OF fresh]])
  have "fresh_version_id ?t (f m)" if "m \<in> set ms" for m
    using that Cons.prems(3-5) by (intro execute_s3_lifecycle_fresh [OF Cons.prems(1) fresh]) (auto simp: ns c inj_on_def)
  then have "\<forall>m \<in> set ms. fresh_version_id ?t (f m)" by blast
  with Cons.IH [OF ok ids] Cons.prems(3,4) fresh step show ?case by (simp add: ns memory_port_def)
qed simp

section \<open>The schedule\<close>

definition batch_units :: "repo_state \<Rightarrow> s3_lifecycle_batch_cursor \<Rightarrow> nat \<Rightarrow> (s3_bucket \<times> u64) list" where
  "batch_units s cursor limit =
     schedule (lifecycle_buckets s) (position (lifecycle_buckets s) (cu_after_bucket_id cursor))
       (cu_action_round cursor) limit"

lemma lifecycle_buckets_by_id:
  assumes "distinct (map sb_id (rs_buckets s))"
  shows "by_id (lifecycle_buckets s)"
proof -
  have "sorted (map sb_id (lifecycle_buckets s))" by (simp add: lifecycle_buckets_def)
  moreover have "distinct (map sb_id (lifecycle_buckets s))"
    using assms by (simp add: lifecycle_buckets_def distinct_map inj_on_def)
  ultimately have "sorted_wrt (<) (map sb_id (lifecycle_buckets s))" by (simp only: strict_sorted_iff)
  then show ?thesis by (simp only: sorted_wrt_map)
qed

lemma run_units_cursor_end:
  assumes "run_units env port us st = (st', Inr u)"
  shows "re_examined (ba_receipt st') = re_examined (ba_receipt st) + length us
    \<and> re_next_cursor (ba_receipt st') = ba_cursor st'
    \<and> (us \<noteq> [] \<longrightarrow> ba_cursor st' = \<lparr>cu_after_bucket_id = Some (sb_id (fst (last us))), cu_action_round = snd (last us)\<rparr>)"
  using assms
proof (induction us arbitrary: st)
  case (Cons v us)
  obtain b round where v: "v = (b, round)" by (cases v)
  let ?st = "st\<lparr>ba_cursor := (ba_cursor st)\<lparr>cu_action_round := round\<rparr>\<rparr>"
  obtain st1 r where unit: "batch_unit env port b ?st = (st1, r)" by (cases "batch_unit env port b ?st")
  from Cons.prems unit v have "run_units env port us st1 = (st', Inr u)" by (auto split: sum.splits)
  with Cons.IH [of st1] Cons.prems unit v batch_unit_examined [OF unit] batch_unit_after [OF unit]
  show ?case by (cases "us = []") auto
qed auto

lemma schedule_visits:
  assumes j: "j < length bs" and p: "p \<le> length bs" and k: "unat round + k < 2 ^ 64"
  shows "\<exists>q0. \<forall>q. q0 \<le> q \<and> q < q0 + k \<longrightarrow>
      (\<exists>r. unat r = unat round + q \<and> (bs ! j, r) \<in> set (schedule bs p round (length bs * k)))"
proof -
  let ?n = "length bs"
  define q0 where "q0 = (if p \<le> j then 0 else 1 :: nat)"
  have "\<exists>r. unat r = unat round + q \<and> (bs ! j, r) \<in> set (schedule bs p round (?n * k))" if q: "q0 \<le> q" "q < q0 + k" for q
  proof -
    let ?i = "j + ?n * q"
    have lower: "p \<le> ?i"
    proof (cases "p \<le> j")
      case False
      with q(1) have "?n \<le> ?n * q" by (simp add: q0_def)
      with p show ?thesis by linarith
    qed simp
    have upper: "?i < p + ?n * k"
    proof (cases "p \<le> j")
      case True
      with q(2) have "?n * Suc q \<le> ?n * k" by (intro mult_le_mono) (simp_all add: q0_def)
      with j show ?thesis by simp
    next
      case False
      with q(2) have "?n * q \<le> ?n * k" by (intro mult_le_mono) (simp_all add: q0_def)
      with False show ?thesis by linarith
    qed
    have nz: "?n \<noteq> 0" using j by linarith
    have "?i mod ?n = j" "?i div ?n = q" using j div_mult_self2 [OF nz, of j q] by simp_all
    with lower upper have "(bs ! j, round + of_nat q) \<in> set (schedule bs p round (?n * k))"
      by (auto simp: schedule_def image_iff intro!: bexI [of _ ?i])
    moreover have "unat (round + of_nat q) = unat round + q"
    proof -
      have "q \<le> k" using q by (simp add: q0_def split: if_splits)
      with k have "q < 2 ^ 64" "unat round + q < 2 ^ 64" by linarith+
      then show ?thesis by (simp add: unat_word_ariths unat_of_nat)
    qed
    ultimately show ?thesis by blast
  qed
  then show ?thesis by blast
qed

section \<open>Properties\<close>

text \<open>C26: a batch follows the plain schedule. When bucket ids are distinct and some bucket has a
  lifecycle configuration, a batch over pages of the in-memory repository does exactly what running its
  work units one after the other would do: the buckets in the order of their ids, starting after the
  cursor, going round again with the next round number. If it returns, it has examined as many units as
  its limit, and the cursor it returns names the last of them, so that the next batch goes on from
  there.\<close>

theorem lifecycle_batch_schedule:
  fixes cursor :: s3_lifecycle_batch_cursor
  assumes "distinct (map sb_id (rs_buckets s))" and "lifecycle_buckets s \<noteq> []"
    and "1 \<le> limit" and "limit \<le> MAX_S3_LIFECYCLE_BATCH_SIZE"
  defines "units \<equiv> batch_units s cursor limit"
  shows "run_batch env (memory_port uc new_id) s cursor limit
      = batch_result (run_units env (memory_port uc new_id) units (batch_start s cursor))
    \<and> (snd (run_batch env (memory_port uc new_id) s cursor limit) = Ok receipt \<longrightarrow>
         re_examined receipt = limit
         \<and> re_next_cursor receipt
             = \<lparr>cu_after_bucket_id = Some (sb_id (fst (last units))), cu_action_round = snd (last units)\<rparr>)"
proof -
  let ?port = "memory_port uc new_id" and ?st = "batch_start s cursor"
  have "batch_loop env ?port limit ?st = run_units env ?port units ?st"
    using memory_lifecycle.loop_schedule [of ?st limit env uc new_id] lifecycle_buckets_by_id [OF assms(1)] assms(2,3)
    by (simp add: batch_start_def receipt_default_def units_def batch_units_def)
  then have eq: "run_batch env ?port s cursor limit = batch_result (run_units env ?port units ?st)"
    using assms(3,4) by (simp add: run_batch_def)
  obtain st' r where run: "run_units env ?port units ?st = (st', r)" by (cases "run_units env ?port units ?st")
  have "units \<noteq> []" "length units = limit" using assms(3) by (simp_all add: units_def batch_units_def schedule_def)
  with run_units_cursor_end [of env ?port units ?st st'] run show ?thesis
    unfolding eq by (auto simp: batch_result_def batch_start_def receipt_default_def split: sum.splits)
qed

text \<open>C27: every action of every rule comes up. Among the work units of as many turns over the buckets as a
  bucket's enabled rules have actions, from any cursor position and as long as the round counter does
  not wrap around, there is for each of these actions one unit that examines this bucket in a round in
  which the service selects the action.\<close>

theorem lifecycle_scans_every_action:
  assumes "b \<in> set bs" and "bc_lifecycle_configuration (sb_configuration b) = Some lc"
    and "(rule, action) \<in> set (scan_plan (lc_rules lc))"
    and "unat round + length (scan_plan (lc_rules lc)) < 2 ^ 64"
  shows "\<exists>r. (b, r) \<in> set (schedule bs (position bs after) round (length bs * length (scan_plan (lc_rules lc))))
    \<and> select_scan_action (lc_rules lc) (unat r) = Some (rule, action)"
proof -
  let ?k = "length (scan_plan (lc_rules lc))"
  from assms(1) obtain j where j: "j < length bs" "bs ! j = b" by (auto simp: in_set_conv_nth)
  from schedule_visits [OF j(1) position_le assms(4)] obtain q0 where q0:
    "\<And>q. q0 \<le> q \<Longrightarrow> q < q0 + ?k \<Longrightarrow>
       \<exists>r. unat r = unat round + q \<and> (b, r) \<in> set (schedule bs (position bs after) round (length bs * ?k))"
    unfolding j(2) by blast
  have "Some (rule, action) \<in> (\<lambda>n. select_scan_action (lc_rules lc) n) ` {unat round + q0 ..< unat round + q0 + ?k}"
    using assms(3) by (simp add: select_scan_action_fair)
  then obtain m where m: "unat round + q0 \<le> m" "m < unat round + q0 + ?k"
    "select_scan_action (lc_rules lc) m = Some (rule, action)" by auto
  then have "q0 \<le> m - unat round" "m - unat round < q0 + ?k" "unat round \<le> m" by linarith+
  with q0 [of "m - unat round"] m(3) show ?thesis by auto
qed

text \<open>C25: a lifecycle batch is a history of repository calls. Run after any history on the in-memory
  repository, with identifiers that are new, a batch of whatever limit and from whatever cursor leaves
  the repository in the state reached by extending the history with at most as many lifecycle commands
  as the limit, also when it ends with an error; the commands have pairwise different targets and are
  all evaluated at the time of the batch. So everything shown of histories, from the quota books to the
  survival of retained versions, holds across batches.\<close>

theorem lifecycle_batch_is_history:
  assumes "repo_history uc cal new_id bucket ops"
    and "inj_on (fst \<circ> be_draw env) {..< limit}"
    and "\<And>n. n < limit \<Longrightarrow> fresh_version_id (repo_after uc cal new_id bucket ops) (fst (be_draw env n))"
  shows "\<exists>cs. fst (run_batch env (memory_port uc new_id) (repo_after uc cal new_id bucket ops) cursor limit)
        = repo_after uc cal new_id bucket (ops @ map OpLifecycle cs)
      \<and> repo_history uc cal new_id bucket (ops @ map OpLifecycle cs)
      \<and> length cs \<le> limit \<and> distinct (map (target_identity \<circ> xc_target) cs)
      \<and> (\<forall>c \<in> set cs. xc_evaluated_at c = be_now env)"
proof -
  let ?s = "repo_after uc cal new_id bucket ops" and ?port = "memory_port uc new_id"
  let ?st = "batch_start ?s cursor"
  obtain st' r where run: "batch_loop env ?port limit ?st = (st', r)" by (cases "batch_loop env ?port limit ?st")
  from loop_issues [OF run] obtain cs where cs: "issued env ?port ?st st' cs"
    and le: "re_examined (ba_receipt st') \<le> limit" by (auto simp: batch_start_def receipt_default_def)
  have "re_examined (ba_receipt ?st) = 0" by (simp add: batch_start_def receipt_default_def)
  with cs le obtain ns where ns: "map xc_delete_marker_id cs = map (fst \<circ> be_draw env) ns" "distinct ns"
      "set ns \<subseteq> {..< limit}"
    unfolding issued_def by (elim conjE exE) fastforce
  have "length cs = length ns" using ns(1) by (metis length_map)
  then have len: "length cs \<le> limit" using ns(2,3) by (metis card_lessThan card_mono distinct_card finite_lessThan)
  have "admissible (repo_step uc cal new_id) (repo_enabled uc) ?s (map OpLifecycle cs)
      \<and> run (repo_step uc cal new_id) ?s (map OpLifecycle cs) = ba_repository st'"
    using lifecycle_commands_admissible [OF history_ok [OF assms(1)] ns(1,2), of cal new_id] assms(2,3) ns(3) cs
    by (auto simp: issued_def batch_start_def inj_on_subset subset_iff)
  then have "fst (batch_result (st', r)) = repo_after uc cal new_id bucket (ops @ map OpLifecycle cs)
      \<and> repo_history uc cal new_id bucket (ops @ map OpLifecycle cs)"
    using assms(1) by (simp add: repo_history_def run_append admissible_append batch_result_def split: sum.split)
  then show ?thesis
    using cs len run by (cases "1 \<le> limit \<and> limit \<le> MAX_S3_LIFECYCLE_BATCH_SIZE")
      (auto simp: run_batch_def issued_def assms(1) intro: exI [of _ cs] exI [of _ "[]"])
qed


definition daily_rule :: s3_lifecycle_rule where
  "daily_rule = \<lparr>lr_id = None, lr_status = RuleEnabled, lr_filter = FilterEmpty,
     lr_expiration = Some (ExpirationDays 1), lr_noncurrent_version_expiration = None,
     lr_abort_incomplete_multipart_upload = None\<rparr>"

definition expiring_bucket :: s3_bucket where
  "expiring_bucket = example_bucket\<lparr>sb_configuration :=
     (sb_configuration example_bucket)\<lparr>bc_lifecycle_configuration := Some \<lparr>lc_rules = [daily_rule]\<rparr>\<rparr>\<rparr>"

definition example_batch :: batch_env where
  "example_batch = \<lparr>be_now = 2 * nanos_per_day, be_draw = (\<lambda>n. (100 + of_nat n, 0)), be_uuid_text = (\<lambda>_. ''id'')\<rparr>"

theorem lifecycle_batch_schedule_witness:
  "\<exists>receipt. snd (run_batch example_batch (memory_port example_tables (\<lambda>_. 9)) (repo_new expiring_bucket) cursor_default 1)
      = Ok receipt \<and> re_examined receipt = 1
    \<and> re_next_cursor receipt = \<lparr>cu_after_bucket_id = Some 3, cu_action_round = 0\<rparr>"
proof -
  let ?run = "run_batch example_batch (memory_port example_tables (\<lambda>_. 9)) (repo_new expiring_bucket) cursor_default 1"
  have "is_ok (snd ?run)" by code_simp
  then obtain receipt where r: "snd ?run = Ok receipt" by (auto simp: is_ok_iff)
  have "last (batch_units (repo_new expiring_bucket) cursor_default 1) = (expiring_bucket, 0)" by code_simp
  moreover have "lifecycle_buckets (repo_new expiring_bucket) \<noteq> []" by code_simp
  ultimately show ?thesis
    using lifecycle_batch_schedule
        [of "repo_new expiring_bucket" 1 example_batch example_tables "\<lambda>_. 9" cursor_default receipt] r
    by (auto simp: repo_new_def MAX_S3_LIFECYCLE_BATCH_SIZE_def expiring_bucket_def example_bucket_def)
qed

theorem lifecycle_scans_every_action_witness:
  "\<exists>r. (expiring_bucket, r) \<in> set (schedule [expiring_bucket] 0 5 2)
     \<and> select_scan_action [daily_rule] (unat r) = Some (daily_rule, ScanExpiredDeleteMarker)"
proof -
  have "scan_plan [daily_rule] = [(daily_rule, ScanCurrentExpiration), (daily_rule, ScanExpiredDeleteMarker)]"
    by code_simp
  then have plan: "length (scan_plan [daily_rule]) = 2"
    "(daily_rule, ScanExpiredDeleteMarker) \<in> set (scan_plan [daily_rule])" by simp_all
  have "bc_lifecycle_configuration (sb_configuration expiring_bucket) = Some \<lparr>lc_rules = [daily_rule]\<rparr>"
    by (simp add: expiring_bucket_def)
  with lifecycle_scans_every_action [of expiring_bucket "[expiring_bucket]" "\<lparr>lc_rules = [daily_rule]\<rparr>"
      daily_rule ScanExpiredDeleteMarker 5 None] plan
  show ?thesis by simp
qed

theorem lifecycle_batch_is_history_witness:
  "\<exists>cs. fst (run_batch example_batch (memory_port example_tables (\<lambda>_. 9)) (repo_new expiring_bucket) cursor_default 10)
      = repo_after example_tables example_calendar (\<lambda>_. 9) expiring_bucket (map OpLifecycle cs) \<and> length cs \<le> 10"
proof -
  have "inj_on (fst \<circ> be_draw example_batch) {..<10}"
    by (auto simp: inj_on_def example_batch_def word_of_nat_eq_iff take_bit_nat_eq_self)
  moreover have "repo_history example_tables example_calendar (\<lambda>_. 9) expiring_bucket []" by (simp add: repo_history_def)
  ultimately show ?thesis
    using lifecycle_batch_is_history [of example_tables example_calendar "\<lambda>_. 9" expiring_bucket "[]" example_batch 10 cursor_default]
    by (auto simp: fresh_version_id_def version_ids_def all_versions_def repo_new_def)
qed

end
