(* ===== verification/S3_Authorization.thy ===== *)
theory S3_Authorization
  imports S3_Repository Policy_Status Policy_Parse
begin

text \<open>
  The authorization service: \<^verbatim>\<open>crates/mediahub-app/src/s3_authorization.rs\<close> with the account,
  bucket and policy records of \<^verbatim>\<open>s3_bucket_policy.rs\<close> and \<^verbatim>\<open>s3_identity_policy.rs\<close>. It resolves
  a bucket, reads its installed policy and combines the decision of the caller's identity policy
  with that of the bucket policy.

  The repository is a parameter (\<open>get_s3_bucket_policy\<close>), as are the JSON writer of
  \<open>serde_json\<close> (\<open>to_vec\<close>, with the text of its error on the left), its reader and the SHA-256 digest.
  \<open>S3BucketPolicy::parse\<close> contains an \<open>expect\<close>, so what calls it returns \<open>None\<close> for a panic.
\<close>

section \<open>Accounts and buckets\<close>

type_synonym json_writer = "json \<Rightarrow> str + str"

definition S3_ACCOUNT_ID_DIGITS :: nat where
  "S3_ACCOUNT_ID_DIGITS = 12"

datatype s3_account_id = S3AccountId (account_as_str: str)

definition s3_account_id_new :: "str \<Rightarrow> repository_error + s3_account_id" where
  "s3_account_id_new v =
     (if length v \<noteq> S3_ACCOUNT_ID_DIGITS \<or> \<not> list_all is_ascii_digit v
      then Err (RepoInvariant (Message ''S3 account ID must contain exactly 12 decimal digits''))
      else Ok (S3AccountId v))"

record s3_bucket_identity =
  bi_bucket_id :: bucket_id
  bi_application_id :: application_id
  bi_bucket_name :: str
  bi_owner_account_id :: s3_account_id

record s3_bucket_policy_document =
  pdoc_document :: json
  pdoc_sha256 :: str

definition policy_document_new ::
  "json_writer \<Rightarrow> (str \<Rightarrow> str) \<Rightarrow> json \<Rightarrow> repository_error + s3_bucket_policy_document" where
  "policy_document_new to_vec digest_hex document =
     (if \<not> is_object document
      then Err (RepoInvariant (Message ''S3 bucket policy document must be a JSON object''))
      else case to_vec document of
             Inl e \<Rightarrow> Err (RepoInvariant (Message e))
           | Inr canonical \<Rightarrow>
               if length canonical > MAX_S3_POLICY_BYTES
               then Err (RepoInvariant (Message ''S3 bucket policy document exceeds the persistence limit''))
               else Ok \<lparr>pdoc_document = document, pdoc_sha256 = digest_hex canonical\<rparr>)"

record s3_bucket_policy_snapshot =
  snap_identity :: s3_bucket_identity
  snap_policy :: "s3_bucket_policy_document option"
  snap_revision :: u64
  snap_updated_at :: "timestamp option"

definition bucket_policy_snapshot_new ::
  "s3_bucket_identity \<Rightarrow> s3_bucket_policy_document option \<Rightarrow> u64 \<Rightarrow> timestamp option
   \<Rightarrow> repository_error + s3_bucket_policy_snapshot" where
  "bucket_policy_snapshot_new identity policy revision updated_at =
     (if (revision = 0) \<noteq> (updated_at = None) \<or> (revision = 0 \<and> policy \<noteq> None)
      then Err (RepoInvariant
             (Message ''S3 bucket policy document, revision, and update timestamp disagree''))
      else Ok \<lparr>snap_identity = identity, snap_policy = policy, snap_revision = revision,
               snap_updated_at = updated_at\<rparr>)"

section \<open>Signed principals\<close>

datatype s3_principal_validation_error =
  InvalidPrincipalArn | PrincipalAccountMismatch | InvalidUserId

record s3_signed_principal =
  sp_account_id :: s3_account_id
  sp_principal_arn :: str
  sp_userid :: str
  sp_identity_decision :: s3_policy_decision

definition principal_path_ok :: "str \<Rightarrow> str \<Rightarrow> bool" where
  "principal_path_ok v pre \<longleftrightarrow>
     is_some_and (strip_prefix v pre) (\<lambda>rest.
       rest \<noteq> [] \<and> \<not> starts_with rest ''/'' \<and> \<not> ends_with rest ''/''
       \<and> list_all (\<lambda>c. is_ascii_alphanumeric c
            \<or> c \<in> {CHR ''/'', CHR ''+'', CHR ''='', CHR '','', CHR ''.'', CHR ''@'', CHR ''_'', CHR ''-''}) rest)"

definition validate_principal_arn :: "str \<Rightarrow> str \<Rightarrow> s3_principal_validation_error + unit" where
  "validate_principal_arn principal_arn expected_account_id =
     (if length principal_arn > MAX_S3_POLICY_STRING_BYTES then Err InvalidPrincipalArn
      else
        let parts = splitn 6 CHR '':'' principal_arn
        in if length parts \<noteq> 6 \<or> parts ! 0 \<noteq> ''arn'' \<or> parts ! 1 \<noteq> ''aws''
              \<or> \<not> (parts ! 2 = ''iam'' \<or> parts ! 2 = ''sts'') \<or> parts ! 3 \<noteq> []
              \<or> length (parts ! 4) \<noteq> 12 \<or> \<not> list_all is_ascii_digit (parts ! 4)
           then Err InvalidPrincipalArn
           else if parts ! 4 \<noteq> expected_account_id then Err PrincipalAccountMismatch
           else if (if parts ! 2 = ''iam''
                    then parts ! 5 = ''root'' \<or> principal_path_ok (parts ! 5) ''user/''
                         \<or> principal_path_ok (parts ! 5) ''role/''
                    else if parts ! 2 = ''sts'' then principal_path_ok (parts ! 5) ''assumed-role/''
                    else False)
                then Ok () else Err InvalidPrincipalArn)"

definition signed_principal_new ::
  "s3_account_id \<Rightarrow> str \<Rightarrow> str \<Rightarrow> s3_policy_decision \<Rightarrow> s3_principal_validation_error + s3_signed_principal" where
  "signed_principal_new account_id principal_arn userid identity_decision =
     and_then (validate_principal_arn principal_arn (account_as_str account_id)) (\<lambda>_.
       if userid = [] \<or> length userid > MAX_S3_POLICY_STRING_BYTES
          \<or> list_ex char_is_control (chars userid)
       then Err InvalidUserId
       else Ok \<lparr>sp_account_id = account_id, sp_principal_arn = principal_arn, sp_userid = userid,
                sp_identity_decision = identity_decision\<rparr>)"

datatype s3_authorization_principal = Anonymous | Signed s3_signed_principal

record s3_authorization_request =
  ar_action :: s3_policy_action
  ar_bucket_name :: str
  ar_object_key :: "str option"
  ar_version_id :: "str option"
  ar_principal :: s3_authorization_principal
  ar_secure_transport :: bool
  ar_source_ip :: "ip_addr option"
  ar_prefix :: "str option"
  ar_delimiter :: "str option"
  ar_max_keys :: "u64 option"

datatype s3_authorization_outcome =
    AuthBucketNotFound
  | AuthAllowed s3_bucket_identity
  | AuthExplicitDeny s3_bucket_identity
  | AuthImplicitDeny s3_bucket_identity

fun outcome_is_allowed :: "s3_authorization_outcome \<Rightarrow> bool" where
  "outcome_is_allowed (AuthAllowed _) = True"
| "outcome_is_allowed _ = False"

fun outcome_bucket :: "s3_authorization_outcome \<Rightarrow> s3_bucket_identity option" where
  "outcome_bucket AuthBucketNotFound = None"
| "outcome_bucket (AuthAllowed bucket) = Some bucket"
| "outcome_bucket (AuthExplicitDeny bucket) = Some bucket"
| "outcome_bucket (AuthImplicitDeny bucket) = Some bucket"

section \<open>Requests\<close>

definition bounded :: "str option \<Rightarrow> nat \<Rightarrow> bool" where
  "bounded v max_len = is_none_or v (\<lambda>s. length s \<le> max_len)"

definition authorization_bucket_name_ok :: "str \<Rightarrow> bool" where
  "authorization_bucket_name_ok v \<longleftrightarrow>
     3 \<le> length v \<and> length v \<le> 63
     \<and> list_all (\<lambda>c. is_ascii_lowercase c \<or> is_ascii_digit c \<or> c \<in> {CHR ''.'', CHR ''-''}) v
     \<and> v \<noteq> [] \<and> is_ascii_alphanumeric (hd v) \<and> is_ascii_alphanumeric (last v)
     \<and> \<not> contains_str v ''..'' \<and> \<not> contains_str v ''.-'' \<and> \<not> contains_str v ''-.''
     \<and> parse_ipv4 v = None"

definition authorization_request_is_well_formed :: "s3_authorization_request \<Rightarrow> bool" where
  "authorization_request_is_well_formed r =
     (let valid_resource = (case (scope (ar_action r), ar_object_key r) of
            (BucketScope, None) \<Rightarrow> True
          | (ObjectScope, Some key) \<Rightarrow> key \<noteq> [] \<and> length key \<le> MAX_S3_POLICY_RUNTIME_KEY_BYTES
          | _ \<Rightarrow> False)
      in authorization_bucket_name_ok (ar_bucket_name r)
         \<and> valid_resource
         \<and> bounded (ar_version_id r) MAX_S3_POLICY_STRING_BYTES
         \<and> bounded (ar_prefix r) MAX_S3_POLICY_RUNTIME_KEY_BYTES
         \<and> bounded (ar_delimiter r) MAX_S3_POLICY_STRING_BYTES)"

definition core_policy_request :: "s3_authorization_request \<Rightarrow> s3_policy_request" where
  "core_policy_request r =
     (let (principal_arn, principal_account, userid) =
            (case ar_principal r of
               Anonymous \<Rightarrow> (None, None, None)
             | Signed p \<Rightarrow> (Some (sp_principal_arn p), Some (account_as_str (sp_account_id p)),
                            Some (sp_userid p)))
      in \<lparr>rc_version_id = ar_version_id r, rc_principal_arn = principal_arn,
          rc_principal_account = principal_account, rc_userid = userid,
          rc_secure_transport = ar_secure_transport r, rc_source_ip = ar_source_ip r,
          rc_query = \<lparr>q_prefix = ar_prefix r, q_delimiter = ar_delimiter r,
                      q_max_keys = ar_max_keys r\<rparr>,
          pr_action = ar_action r, pr_bucket = ar_bucket_name r, pr_key = ar_object_key r\<rparr>)"

section \<open>Authorization\<close>

datatype bucket_policy_evaluation = Decision s3_policy_decision | InvalidPersistedPolicy

definition evaluate_bucket_policy ::
  "json_writer \<Rightarrow> json_reader \<Rightarrow> s3_bucket_policy_snapshot \<Rightarrow> s3_policy_request
   \<Rightarrow> bucket_policy_evaluation option" where
  "evaluate_bucket_policy to_vec read snapshot request =
     (case snap_policy snapshot of
        None \<Rightarrow> Some (Decision ImplicitDeny)
      | Some document \<Rightarrow>
          (case to_vec (pdoc_document document) of
             Inl _ \<Rightarrow> Some InvalidPersistedPolicy
           | Inr bytes \<Rightarrow>
               (case bucket_policy_parse read bytes (bi_bucket_name (snap_identity snapshot)) of
                  None \<Rightarrow> None
                | Some (Inl _) \<Rightarrow> Some InvalidPersistedPolicy
                | Some (Inr policy) \<Rightarrow> Some (Decision (bucket_policy_evaluate policy request)))))"

definition principal_identity_decision :: "s3_authorization_principal \<Rightarrow> s3_policy_decision" where
  "principal_identity_decision p =
     (case p of Anonymous \<Rightarrow> ImplicitDeny | Signed caller \<Rightarrow> sp_identity_decision caller)"

definition principal_allowed ::
  "s3_authorization_principal \<Rightarrow> s3_account_id \<Rightarrow> s3_policy_decision \<Rightarrow> s3_policy_decision \<Rightarrow> bool" where
  "principal_allowed p owner identity_decision bucket_decision =
     (case p of
        Anonymous \<Rightarrow> bucket_decision = AllowDecision
      | Signed caller \<Rightarrow>
          if sp_account_id caller = owner
          then identity_decision = AllowDecision \<or> bucket_decision = AllowDecision
          else identity_decision = AllowDecision \<and> bucket_decision = AllowDecision)"

definition authorize ::
  "json_writer \<Rightarrow> json_reader \<Rightarrow> (str \<Rightarrow> repository_error + s3_bucket_policy_snapshot option)
   \<Rightarrow> s3_authorization_request \<Rightarrow> (repository_error + s3_authorization_outcome) option" where
  "authorize to_vec read get_s3_bucket_policy request =
     (case get_s3_bucket_policy (ar_bucket_name request) of
        Inl e \<Rightarrow> Some (Err e)
      | Inr None \<Rightarrow> Some (Ok AuthBucketNotFound)
      | Inr (Some snapshot) \<Rightarrow>
          if bi_bucket_name (snap_identity snapshot) \<noteq> ar_bucket_name request
          then Some (Err (RepoInvariant
                 (Message ''global S3 bucket lookup returned a different bucket'')))
          else
            let identity_decision = principal_identity_decision (ar_principal request)
            in if identity_decision = ExplicitDeny
               then Some (Ok (AuthExplicitDeny (snap_identity snapshot)))
               else if \<not> authorization_request_is_well_formed request
               then Some (Ok (AuthImplicitDeny (snap_identity snapshot)))
               else (case evaluate_bucket_policy to_vec read snapshot (core_policy_request request) of
                       None \<Rightarrow> None
                     | Some InvalidPersistedPolicy \<Rightarrow> Some (Ok (AuthImplicitDeny (snap_identity snapshot)))
                     | Some (Decision bucket_decision) \<Rightarrow>
                         if bucket_decision = ExplicitDeny
                         then Some (Ok (AuthExplicitDeny (snap_identity snapshot)))
                         else if principal_allowed (ar_principal request)
                                (bi_owner_account_id (snap_identity snapshot)) identity_decision bucket_decision
                         then Some (Ok (AuthAllowed (snap_identity snapshot)))
                         else Some (Ok (AuthImplicitDeny (snap_identity snapshot)))))"

section \<open>The service and the policy engine check requests alike\<close>

lemma principal_path_ok_eq: "principal_path_ok = valid_principal_path"
  unfolding fun_eq_iff principal_path_ok_def valid_principal_path_def is_path_byte_def [abs_def] by simp

lemma authorization_bucket_name_eq: "authorization_bucket_name_ok = valid_bucket_name"
  by (simp add: fun_eq_iff authorization_bucket_name_ok_def valid_bucket_name_def)

text \<open>A principal as the service accepts it: anonymous, or built by \<open>S3SignedPrincipal::new\<close>.\<close>

fun principal_valid :: "s3_authorization_principal \<Rightarrow> bool" where
  "principal_valid Anonymous = True"
| "principal_valid (Signed p) =
     (signed_principal_new (sp_account_id p) (sp_principal_arn p) (sp_userid p) (sp_identity_decision p) = Ok p)"

lemma validate_principal_arn_Ok:
  assumes "validate_principal_arn arn account = Ok ()"
  shows "valid_account_id account" and "valid_runtime_principal_arn arn"
    and "principal_arn_account arn = Some account"
proof -
  let ?parts = "splitn 6 CHR '':'' arn"
  from assms have len: "length arn \<le> MAX_S3_POLICY_STRING_BYTES" and six: "length ?parts = 6"
    and p: "?parts ! 0 = ''arn''" "?parts ! 1 = ''aws''" "?parts ! 2 = ''iam'' \<or> ?parts ! 2 = ''sts''"
      "?parts ! 3 = []" and acc: "?parts ! 4 = account" "valid_account_id account"
    and p5: "if ?parts ! 2 = ''iam'' then ?parts ! 5 = ''root'' \<or> valid_principal_path (?parts ! 5) ''user/''
          \<or> valid_principal_path (?parts ! 5) ''role/''
        else valid_principal_path (?parts ! 5) ''assumed-role/''"
    by (auto simp: validate_principal_arn_def Let_def principal_path_ok_eq valid_account_id_def
        split: if_splits)
  show "valid_account_id account" by (rule acc(2))
  have "CHR '':'' \<in> set arn"
  proof (rule ccontr)
    assume "CHR '':'' \<notin> set arn"
    then have "?parts = [arn]" by (simp add: eval_nat_numeral split_once_None_iff [THEN iffD2])
    with six show False by simp
  qed
  then have "arn \<noteq> ''*''" and "\<not> valid_account_id arn" by (auto dest: account_no_colon)
  then show "valid_runtime_principal_arn arn"
    using len six p acc p5
    by (auto simp: valid_runtime_principal_arn_def parse_aws_principal_def Let_def split: if_splits)
  from six obtain a b c d e f where "?parts = [a, b, c, d, e, f]"
    by (auto simp: eval_nat_numeral length_Suc_conv)
  with p acc show "principal_arn_account arn = Some account"
    by (simp add: principal_arn_account_def)
qed

lemma principal_valid_Signed:
  assumes "principal_valid (Signed p)"
  shows "valid_account_id (account_as_str (sp_account_id p))" and "valid_runtime_principal_arn (sp_principal_arn p)"
    and "principal_arn_account (sp_principal_arn p) = Some (account_as_str (sp_account_id p))"
    and "sp_userid p \<noteq> []" "length (sp_userid p) \<le> MAX_S3_POLICY_STRING_BYTES"
    and "\<not> list_ex char_is_control (chars (sp_userid p))"
proof -
  have "validate_principal_arn (sp_principal_arn p) (account_as_str (sp_account_id p)) = Ok ()"
    and u: "sp_userid p \<noteq> [] \<and> length (sp_userid p) \<le> MAX_S3_POLICY_STRING_BYTES
       \<and> \<not> list_ex char_is_control (chars (sp_userid p))"
    using assms by (auto simp: signed_principal_new_def and_then_Ok_iff split: if_splits)
  from validate_principal_arn_Ok [OF this(1)] u
  show "valid_account_id (account_as_str (sp_account_id p))" "valid_runtime_principal_arn (sp_principal_arn p)"
    "principal_arn_account (sp_principal_arn p) = Some (account_as_str (sp_account_id p))"
    "sp_userid p \<noteq> []" "length (sp_userid p) \<le> MAX_S3_POLICY_STRING_BYTES"
    "\<not> list_ex char_is_control (chars (sp_userid p))" by auto
qed

lemma core_policy_request_simps [simp]:
  "pr_bucket (core_policy_request r) = ar_bucket_name r" "pr_key (core_policy_request r) = ar_object_key r"
  "pr_action (core_policy_request r) = ar_action r" "rc_source_ip (core_policy_request r) = ar_source_ip r"
  "rc_version_id (core_policy_request r) = ar_version_id r"
  "q_prefix (rc_query (core_policy_request r)) = ar_prefix r"
  "q_delimiter (rc_query (core_policy_request r)) = ar_delimiter r"
  by (simp_all add: core_policy_request_def split: s3_authorization_principal.split)

lemma core_policy_request_principal:
  "rc_principal_arn (core_policy_request r) =
     (case ar_principal r of Anonymous \<Rightarrow> None | Signed p \<Rightarrow> Some (sp_principal_arn p))"
  "rc_principal_account (core_policy_request r) =
     (case ar_principal r of Anonymous \<Rightarrow> None | Signed p \<Rightarrow> Some (account_as_str (sp_account_id p)))"
  "rc_userid (core_policy_request r) =
     (case ar_principal r of Anonymous \<Rightarrow> None | Signed p \<Rightarrow> Some (sp_userid p))"
  by (simp_all add: core_policy_request_def split: s3_authorization_principal.split)

lemma well_formed_agree:
  assumes "principal_valid (ar_principal r)"
  shows "request_is_well_formed (core_policy_request r) = authorization_request_is_well_formed r"
proof -
  have ctx: "request_context_is_well_formed (core_policy_request r) \<longleftrightarrow>
      bounded (ar_version_id r) MAX_S3_POLICY_STRING_BYTES
      \<and> bounded (ar_prefix r) MAX_S3_POLICY_RUNTIME_KEY_BYTES
      \<and> bounded (ar_delimiter r) MAX_S3_POLICY_STRING_BYTES"
    using assms
    by (cases "ar_principal r")
       (auto simp: request_context_is_well_formed_def bounded_def core_policy_request_principal
         dest: principal_valid_Signed simp del: principal_valid.simps(2))
  show ?thesis
    by (auto simp: request_is_well_formed_def authorization_request_is_well_formed_def Let_def ctx
        authorization_bucket_name_eq split: option.splits s3_policy_resource_scope.splits)
qed

section \<open>Statement-level specification\<close>

text \<open>The statements a snapshot puts in force: none without a policy, and no answer when the stored
  document cannot be read back.\<close>

definition installed_statements ::
  "json_writer \<Rightarrow> json_reader \<Rightarrow> s3_bucket_policy_snapshot \<Rightarrow> s3_policy_statement list option" where
  "installed_statements to_vec read snapshot =
     (case snap_policy snapshot of
        None \<Rightarrow> Some []
      | Some document \<Rightarrow>
          (case to_vec (pdoc_document document) of
             Inl _ \<Rightarrow> None
           | Inr bytes \<Rightarrow>
               (case bucket_policy_parse read bytes (bi_bucket_name (snap_identity snapshot)) of
                  Some (Inr policy) \<Rightarrow> Some (bp_statements policy)
                | _ \<Rightarrow> None)))"

definition stated :: "s3_policy_effect \<Rightarrow> s3_policy_statement list \<Rightarrow> s3_policy_request \<Rightarrow> bool" where
  "stated eff statements r \<longleftrightarrow>
     (\<exists>e. bucket_evaluation_request r = Some e
        \<and> (\<exists>s \<in> set statements. statement_matches e s \<and> st_effect s = eff))"

lemma evaluate_bucket_policy_eq:
  assumes "pr_bucket r = bi_bucket_name (snap_identity snapshot)"
  shows "evaluate_bucket_policy to_vec read snapshot r = Some
    (case installed_statements to_vec read snapshot of
       None \<Rightarrow> InvalidPersistedPolicy
     | Some statements \<Rightarrow> Decision
         (if stated Deny statements r then ExplicitDeny
          else if stated Allow statements r then AllowDecision else ImplicitDeny))"
proof -
  have parse: "bucket_policy_parse read bytes target \<noteq> None" for bytes target
    by (rule bucket_policy_parse_total)
  have decide: "bucket_policy_evaluate p r =
      (if stated Deny (bp_statements p) r then ExplicitDeny
       else if stated Allow (bp_statements p) r then AllowDecision else ImplicitDeny)"
    if "bp_target_bucket p = bi_bucket_name (snap_identity snapshot)" for p
    unfolding bucket_eval.evaluate_eq evaluate_statements_eq stated_def
    using assms that by (auto simp: bucket_prepare_def split: option.splits)
  show ?thesis
    using decide
    by (auto simp: evaluate_bucket_policy_def installed_statements_def parse stated_def
        dest!: bucket_policy_parse_target split: option.splits sum.splits)
qed

text \<open>
  The rules of the service over statements. A request is denied by the caller's identity policy or
  by a matching statement of the bucket policy; it is granted by a matching statement (anonymous
  callers), by either policy (callers of the owning account) or by both (other accounts).
\<close>

definition request_denied :: "s3_policy_statement list option \<Rightarrow> s3_authorization_request \<Rightarrow> bool" where
  "request_denied statements r \<longleftrightarrow>
     principal_identity_decision (ar_principal r) = ExplicitDeny
     \<or> is_some_and statements (\<lambda>ss. stated Deny ss (core_policy_request r))"

definition request_granted ::
  "s3_policy_statement list option \<Rightarrow> s3_account_id \<Rightarrow> s3_authorization_request \<Rightarrow> bool" where
  "request_granted statements owner r \<longleftrightarrow>
     request_is_well_formed (core_policy_request r)
     \<and> is_some_and statements (\<lambda>ss.
         let by_bucket = stated Allow ss (core_policy_request r)
         in case ar_principal r of
              Anonymous \<Rightarrow> by_bucket
            | Signed p \<Rightarrow>
                if sp_account_id p = owner then sp_identity_decision p = AllowDecision \<or> by_bucket
                else sp_identity_decision p = AllowDecision \<and> by_bucket)"

lemma stated_well_formed: "stated eff ss r \<Longrightarrow> request_is_well_formed r"
  by (auto simp: stated_def bucket_evaluation_request_def split: if_splits)

lemma authorize_eq:
  fixes to_vec :: json_writer and read :: json_reader
  assumes "get_policy (ar_bucket_name r) = Ok (Some snapshot)"
    and "bi_bucket_name (snap_identity snapshot) = ar_bucket_name r"
    and "principal_valid (ar_principal r)"
  defines "statements \<equiv> installed_statements to_vec read snapshot"
  shows "authorize to_vec read get_policy r = Some (Ok
     ((if request_denied statements r then AuthExplicitDeny
       else if request_granted statements (bi_owner_account_id (snap_identity snapshot)) r then AuthAllowed
       else AuthImplicitDeny) (snap_identity snapshot)))"
proof -
  note wf = well_formed_agree [OF assms(3)]
  have ev: "evaluate_bucket_policy to_vec read snapshot (core_policy_request r) = Some
    (case statements of
       None \<Rightarrow> InvalidPersistedPolicy
     | Some ss \<Rightarrow> Decision
         (if stated Deny ss (core_policy_request r) then ExplicitDeny
          else if stated Allow ss (core_policy_request r) then AllowDecision else ImplicitDeny))"
    unfolding statements_def using assms(2) by (intro evaluate_bucket_policy_eq) simp
  show ?thesis
  proof (cases "authorization_request_is_well_formed r")
    case True
    then show ?thesis
      using assms(1,2)
      by (cases statements)
         (auto simp: authorize_def ev Let_def request_denied_def request_granted_def wf principal_allowed_def
           principal_identity_decision_def split: s3_authorization_principal.splits)
  next
    case False
    then have "\<not> stated eff ss (core_policy_request r)" for eff ss
      using wf stated_well_formed by blast
    with False show ?thesis
      using assms(1,2)
      by (cases statements)
         (auto simp: authorize_def Let_def request_denied_def request_granted_def wf)
  qed
qed

section \<open>Properties\<close>


text \<open>A bucket whose policy lets everybody read, as stored and looked up.\<close>

definition photos_snapshot :: s3_bucket_policy_snapshot where
  "photos_snapshot =
     \<lparr>snap_identity = \<lparr>bi_bucket_id = 3, bi_application_id = 2, bi_bucket_name = ''photos'',
        bi_owner_account_id = S3AccountId ''123456789012''\<rparr>,
      snap_policy = Some \<lparr>pdoc_document = JObject [], pdoc_sha256 = []\<rparr>,
      snap_revision = 1, snap_updated_at = Some 0\<rparr>"

definition photos_lookup :: "str \<Rightarrow> repository_error + s3_bucket_policy_snapshot option" where
  "photos_lookup name = (if name = ''photos'' then Ok (Some photos_snapshot) else Ok None)"

definition example_writer :: json_writer where
  "example_writer document = Ok ''{}''"

definition anonymous_get :: s3_authorization_request where
  "anonymous_get =
     \<lparr>ar_action = GetObject, ar_bucket_name = ''photos'', ar_object_key = Some ''a'', ar_version_id = None,
      ar_principal = Anonymous, ar_secure_transport = True, ar_source_ip = None, ar_prefix = None,
      ar_delimiter = None, ar_max_keys = None\<rparr>"

lemma photos_statements:
  "installed_statements example_writer reader_example photos_snapshot = Some (bp_statements parsed_example)"
  by (simp add: installed_statements_def photos_snapshot_def example_writer_def reader_example_parsed)

lemma anonymous_get_granted:
  "\<not> stated Deny (bp_statements parsed_example) (core_policy_request anonymous_get)"
  "request_granted (Some (bp_statements parsed_example)) owner anonymous_get"
proof -
  have core: "core_policy_request anonymous_get = request_example\<lparr>rc_principal_account := None\<rparr>"
    by (simp add: core_policy_request_def anonymous_get_def request_example_def plain_query_def)
  have wf: "request_is_well_formed (core_policy_request anonymous_get)"
    unfolding core
    by (simp add: request_is_well_formed_def request_context_is_well_formed_def request_example_def
        photos_name MAX_S3_POLICY_RUNTIME_KEY_BYTES_def plain_query_def)
  let ?e = "evaluation_request_new (core_policy_request anonymous_get) GetObject ''arn:aws:s3:::photos/a''"
  have e: "bucket_evaluation_request (core_policy_request anonymous_get) = Some ?e"
    using wf by (simp add: bucket_evaluation_request_def) (simp add: anonymous_get_def)
  have "glob_matches ''s3:Get*'' ''s3:GetObject'' True"
    and "glob_matches ''arn:aws:s3:::photos/*'' ''arn:aws:s3:::photos/a'' False"
    unfolding glob_matches_spec
    using glob_spec_prefix [of True "chars ''s3:Get''" "chars ''Object''"]
      glob_spec_prefix [of False "chars ''arn:aws:s3:::photos/''" "chars ''a''"]
    by simp_all
  then have "stated Allow (bp_statements parsed_example) (core_policy_request anonymous_get)"
    by (simp add: stated_def e parsed_example_def statement_matches_def evaluation_request_new_def)
  then show "request_granted (Some (bp_statements parsed_example)) owner anonymous_get"
    using wf by (simp add: request_granted_def) (simp add: anonymous_get_def)
  show "\<not> stated Deny (bp_statements parsed_example) (core_policy_request anonymous_get)"
    by (simp add: stated_def parsed_example_def)
qed

lemma photos_lookup_hit:
  "photos_lookup (ar_bucket_name anonymous_get) = Ok (Some photos_snapshot)"
  "bi_bucket_name (snap_identity photos_snapshot) = ar_bucket_name anonymous_get"
  "principal_valid (ar_principal anonymous_get)"
  by (simp_all add: photos_lookup_def photos_snapshot_def anonymous_get_def)


text \<open>C19: strangers need a public policy. When a request without credentials, or of an account other
  than the bucket's owner, is allowed, then the bucket has a policy that can be read, and either the
  public-access status reports that policy as public or the request comes from a source address the
  policy lists as a single address.\<close>

theorem strangers_need_public_policy:
  assumes "authorize to_vec read get_policy r = Some (Ok (AuthAllowed bucket))"
    and "get_policy (ar_bucket_name r) = Ok (Some snapshot)"
    and "principal_valid (ar_principal r)"
    and "\<And>p. ar_principal r = Signed p \<Longrightarrow> sp_account_id p \<noteq> bi_owner_account_id bucket"
  shows "\<exists>document bytes policy.
      snap_policy snapshot = Some document \<and> to_vec (pdoc_document document) = Ok bytes
      \<and> bucket_policy_parse read bytes (ar_bucket_name r) = Some (Ok policy)
      \<and> (policy_status policy (account_as_str (bi_owner_account_id bucket))
         \<or> (\<exists>a. ar_source_ip r = Some a \<and> a \<in> set (exact_source_ips policy)))"
proof -
  from assms(1,2) have b: "bucket = snap_identity snapshot" "bi_bucket_name bucket = ar_bucket_name r"
    by (auto simp: authorize_def Let_def split: if_splits option.splits bucket_policy_evaluation.splits)
  from assms(1,2) obtain d where ev: "evaluate_bucket_policy to_vec read snapshot (core_policy_request r) = Some (Decision d)"
    and allowed: "principal_allowed (ar_principal r) (bi_owner_account_id bucket) (principal_identity_decision (ar_principal r)) d"
    unfolding b(1)
    by (auto simp: authorize_def Let_def split: if_splits option.splits bucket_policy_evaluation.splits)
  from allowed assms(4) have "d = AllowDecision"
    by (auto simp: principal_allowed_def split: s3_authorization_principal.splits)
  with ev obtain document bytes policy where doc: "snap_policy snapshot = Some document"
      "to_vec (pdoc_document document) = Ok bytes"
      "bucket_policy_parse read bytes (ar_bucket_name r) = Some (Ok policy)"
    and eval: "bucket_policy_evaluate policy (core_policy_request r) = AllowDecision"
    using b by (auto simp: evaluate_bucket_policy_def split: option.splits sum.splits)
  have "\<not> from_owner (core_policy_request r) (account_as_str (bi_owner_account_id bucket))"
    using assms(3,4) principal_valid_Signed(3)
    by (cases "ar_principal r")
       (auto simp: from_owner_def core_policy_request_principal s3_account_id.expand simp del: principal_valid.simps(2))
  with nonpublic_policy_admits [OF _ eval, of "account_as_str (bi_owner_account_id bucket)"] doc
  show ?thesis by auto
qed

theorem strangers_need_public_policy_witness:
  "policy_status parsed_example ''123456789012''
   \<or> (\<exists>a. ar_source_ip anonymous_get = Some a \<and> a \<in> set (exact_source_ips parsed_example))"
proof -
  have "authorize example_writer reader_example photos_lookup anonymous_get
     = Some (Ok (AuthAllowed (snap_identity photos_snapshot)))"
    using authorize_eq [where get_policy = photos_lookup, OF photos_lookup_hit,
        of example_writer reader_example] anonymous_get_granted
    by (simp add: photos_statements request_denied_def principal_identity_decision_def)
       (simp add: anonymous_get_def)
  from strangers_need_public_policy [OF this photos_lookup_hit(1,3)] show ?thesis
    using reader_example_parsed
    by (auto simp: photos_snapshot_def example_writer_def anonymous_get_def)
qed

end
