(* ===== verification/S3_Gateway.thy ===== *)
theory S3_Gateway
  imports MH_Ordered_Map
begin

text \<open>
  AWS Signature Version 4: \<^verbatim>\<open>crates/mediahub-server/src/s3_gateway.rs\<close>. A request is parsed from
  its \<open>Authorization\<close> header or from its presigned query, checked against the clock, and verified by
  signing it again with the secret of the access key.

  Third-party code is in the record \<open>gateway_env\<close>: the reader of form-encoded queries (\<open>url\<close>),
  \<open>HeaderValue::to_str\<close> (\<open>http\<close>), the reading and printing of signing times (\<open>chrono\<close>), the signer
  of \<open>aws_sigv4\<close> (\<open>None\<close> when building the parameters, the signable request or the signature fails)
  and the hexadecimal SHA-256 digest. A header map is the list of its fields in order, with lower-case
  names.
\<close>

section \<open>Requests\<close>

text \<open>The parts of a parsed \<open>http::Uri\<close>; \<open>u_path_and_query\<close> is the path inside that component,
  \<open>path_and_query().map(|value| value.path())\<close>, and \<open>u_display\<close> the text of the whole.\<close>

record http_uri =
  u_display :: str
  u_scheme :: "str option"
  u_authority :: "str option"
  u_path :: str
  u_path_and_query :: "str option"
  u_query :: "str option"

type_synonym header_map = "(str \<times> str) list"

definition header_get :: "header_map \<Rightarrow> str \<Rightarrow> str option" where
  "header_get headers name = map_of headers name"

definition header_get_all :: "header_map \<Rightarrow> str \<Rightarrow> str list" where
  "header_get_all headers name = map snd (filter (\<lambda>(n, _). n = name) headers)"

definition header_contains :: "header_map \<Rightarrow> str \<Rightarrow> bool" where
  "header_contains headers name \<longleftrightarrow> header_get headers name \<noteq> None"

definition query_text :: "http_uri \<Rightarrow> str" where
  "query_text uri = (case u_query uri of None \<Rightarrow> [] | Some q \<Rightarrow> q)"

datatype sigv4_error =
    MissingAuthentication | UnsupportedAlgorithm | InvalidCredentialScope | InvalidDate
  | InvalidSignedHeaders | InvalidSignature | SignatureMismatch | SigExpired | InvalidExpiry
  | SessionCredentialsUnsupported | DuplicateQueryParameter | InvalidPayloadHash
  | PayloadHashMismatch | StreamingPayloadHashRequired | SigInvalidRequest

primrec s3_code :: "sigv4_error \<Rightarrow> str" where
  "s3_code MissingAuthentication = ''AccessDenied''"
| "s3_code UnsupportedAlgorithm = ''InvalidRequest''"
| "s3_code SessionCredentialsUnsupported = ''InvalidRequest''"
| "s3_code StreamingPayloadHashRequired = ''InvalidRequest''"
| "s3_code InvalidCredentialScope = ''AuthorizationHeaderMalformed''"
| "s3_code InvalidDate = ''RequestTimeTooSkewed''"
| "s3_code SigExpired = ''RequestTimeTooSkewed''"
| "s3_code InvalidExpiry = ''AuthorizationQueryParametersError''"
| "s3_code InvalidPayloadHash = ''XAmzContentSHA256Mismatch''"
| "s3_code PayloadHashMismatch = ''XAmzContentSHA256Mismatch''"
| "s3_code InvalidSignedHeaders = ''SignatureDoesNotMatch''"
| "s3_code InvalidSignature = ''SignatureDoesNotMatch''"
| "s3_code SignatureMismatch = ''SignatureDoesNotMatch''"
| "s3_code DuplicateQueryParameter = ''SignatureDoesNotMatch''"
| "s3_code SigInvalidRequest = ''SignatureDoesNotMatch''"

definition ALGORITHM :: str where
  "ALGORITHM = ''AWS4-HMAC-SHA256''"

definition TERMINATOR :: str where
  "TERMINATOR = ''aws4_request''"

definition SERVICE :: str where
  "SERVICE = ''s3''"

definition MAX_HEADER_SKEW :: int where
  "MAX_HEADER_SKEW = 5 * 60 * nanos_per_second"

definition MAX_PRESIGN_EXPIRY :: int where
  "MAX_PRESIGN_EXPIRY = 7 * 24 * 60 * 60 * nanos_per_second"

datatype auth_location = HeaderLocation | QueryLocation

datatype payload_mode = Calculate | Unsigned | Precomputed str

datatype signable_body = BodyBytes str | UnsignedPayload | BodyDigest str

record parsed_sigv4 =
  sg_access_key_id :: str
  sg_region :: str
  sg_signing_time :: timestamp
  sg_location :: auth_location
  sg_expires_in :: "int option"
  sg_method :: str
  sg_signing_uri :: str
  sg_signed_headers :: "(str \<times> str) list"
  sg_cloudflare_accept_encoding_rewrite :: bool
  sg_payload_mode :: payload_mode
  sg_supplied_signature :: str

text \<open>Everything that enters the signature.\<close>

record signing_input =
  si_access_key_id :: str
  si_secret :: str
  si_region :: str
  si_service :: str
  si_time :: timestamp
  si_location :: auth_location
  si_expires_in :: "int option"
  si_method :: str
  si_uri :: str
  si_headers :: "(str \<times> str) list"
  si_body :: signable_body

record gateway_env =
  ge_form_parse :: "str \<Rightarrow> (str \<times> str) list"
  ge_to_str :: "str \<Rightarrow> str option"
  ge_parse_time :: "str \<Rightarrow> timestamp option"
  ge_format_date :: "timestamp \<Rightarrow> str"
  ge_sign :: "signing_input \<Rightarrow> str option"
  ge_sha256_hex :: "str \<Rightarrow> str"

section \<open>Parts of the credentials\<close>

record credential_scope =
  cs_access_key_id :: str
  cs_date :: str
  cs_region :: str

definition credential_scope_parse :: "str \<Rightarrow> sigv4_error + credential_scope" where
  "credential_scope_parse v =
     (case split_on CHR ''/'' v of
        [access_key_id, date, region, service, terminator] \<Rightarrow>
          if access_key_id = [] \<or> length access_key_id > 256 \<or> length date \<noteq> 8
             \<or> \<not> list_all is_ascii_digit date \<or> region = [] \<or> length region > 128
             \<or> service \<noteq> SERVICE \<or> terminator \<noteq> TERMINATOR
          then Err InvalidCredentialScope
          else Ok \<lparr>cs_access_key_id = access_key_id, cs_date = date, cs_region = region\<rparr>
      | _ \<Rightarrow> Err InvalidCredentialScope)"

definition scope_validate_date ::
  "gateway_env \<Rightarrow> credential_scope \<Rightarrow> timestamp \<Rightarrow> sigv4_error + unit" where
  "scope_validate_date env scope_value signing_time =
     (if ge_format_date env signing_time = cs_date scope_value then Ok () else Err InvalidCredentialScope)"

definition parse_signing_time :: "gateway_env \<Rightarrow> str \<Rightarrow> sigv4_error + timestamp" where
  "parse_signing_time env v = ok_or InvalidDate (ge_parse_time env v)"

definition required_header :: "gateway_env \<Rightarrow> header_map \<Rightarrow> str \<Rightarrow> sigv4_error + str" where
  "required_header env headers name =
     and_then (ok_or MissingAuthentication (header_get headers name)) (\<lambda>v.
       ok_or SigInvalidRequest (ge_to_str env v))"

definition validate_signature :: "str \<Rightarrow> sigv4_error + unit" where
  "validate_signature signature =
     (if length signature = 64 \<and> list_all is_ascii_hexdigit signature then Ok () else Err InvalidSignature)"

definition signed_header_name_ok :: "str \<Rightarrow> bool" where
  "signed_header_name_ok name \<longleftrightarrow>
     name \<noteq> [] \<and> list_all (\<lambda>c. is_ascii_lowercase c \<or> is_ascii_digit c \<or> c = CHR ''-'') name"

fun strictly_ascending :: "str list \<Rightarrow> bool" where
  "strictly_ascending (a # b # rest) = (bytes_less a b \<and> strictly_ascending (b # rest))"
| "strictly_ascending _ = True"

definition header_fields :: "gateway_env \<Rightarrow> header_map \<Rightarrow> str \<Rightarrow> sigv4_error + (str \<times> str) list" where
  "header_fields env headers name =
     try_map (\<lambda>v. and_then (ok_or InvalidSignedHeaders (ge_to_str env v)) (\<lambda>t. Ok (name, t)))
       (header_get_all headers name)"

fun collect_header_fields ::
  "gateway_env \<Rightarrow> header_map \<Rightarrow> http_uri \<Rightarrow> str list \<Rightarrow> sigv4_error + (str \<times> str) list" where
  "collect_header_fields env headers uri [] = Ok []"
| "collect_header_fields env headers uri (name # names) =
     and_then (header_fields env headers name) (\<lambda>own.
       and_then
         (if own \<noteq> [] then Ok own
          else if name = ''host''
          then (case u_authority uri of
                  Some authority \<Rightarrow> Ok [(name, authority)] | None \<Rightarrow> Err InvalidSignedHeaders)
          else Err InvalidSignedHeaders) (\<lambda>found.
       and_then (collect_header_fields env headers uri names) (\<lambda>rest. Ok (found @ rest))))"

definition collect_signed_headers ::
  "gateway_env \<Rightarrow> header_map \<Rightarrow> http_uri \<Rightarrow> str \<Rightarrow> sigv4_error + (str \<times> str) list" where
  "collect_signed_headers env headers uri declared =
     (let names = split_on CHR '';'' declared
      in if names = [] \<or> ''host'' \<notin> set names \<or> \<not> strictly_ascending names
            \<or> list_ex (\<lambda>name. \<not> signed_header_name_ok name) names
         then Err InvalidSignedHeaders
         else collect_header_fields env headers uri names)"

definition payload_mode_of :: "gateway_env \<Rightarrow> header_map \<Rightarrow> bool \<Rightarrow> sigv4_error + payload_mode" where
  "payload_mode_of env headers presigned =
     (if presigned then Ok Unsigned
      else case header_get headers ''x-amz-content-sha256'' of
             None \<Rightarrow> Ok Calculate
           | Some raw \<Rightarrow>
               and_then (ok_or InvalidPayloadHash (ge_to_str env raw)) (\<lambda>v.
                 if v = ''UNSIGNED-PAYLOAD'' then Ok Unsigned
                 else if length v = 64 \<and> list_all is_ascii_hexdigit v
                 then Ok (Precomputed (to_ascii_lowercase v))
                 else Err InvalidPayloadHash))"

fun insert_query_values :: "(str \<times> str) list \<Rightarrow> (str \<times> str) list \<Rightarrow> sigv4_error + (str \<times> str) list" where
  "insert_query_values values [] = Ok values"
| "insert_query_values values ((name, v) # rest) =
     (if map_of values name \<noteq> None then Err DuplicateQueryParameter
      else insert_query_values ((name, v) # values) rest)"

definition query_values :: "gateway_env \<Rightarrow> http_uri \<Rightarrow> sigv4_error + (str \<times> str) list" where
  "query_values env uri = insert_query_values [] (ge_form_parse env (query_text uri))"

definition required_query :: "(str \<times> str) list \<Rightarrow> str \<Rightarrow> sigv4_error + str" where
  "required_query values name =
     (case map_of values name of
        Some v \<Rightarrow> if v \<noteq> [] then Ok v else Err MissingAuthentication
      | None \<Rightarrow> Err MissingAuthentication)"

definition AUTH_PARAMETERS :: "str list" where
  "AUTH_PARAMETERS =
     [''X-Amz-Algorithm'', ''X-Amz-Credential'', ''X-Amz-Date'', ''X-Amz-Expires'',
      ''X-Amz-SignedHeaders'', ''X-Amz-Signature'']"

definition decoded_name :: "gateway_env \<Rightarrow> str \<Rightarrow> str" where
  "decoded_name env pair =
     (let raw_name = (case split_once CHR ''='' pair of None \<Rightarrow> pair | Some (name, _) \<Rightarrow> name)
      in case ge_form_parse env (raw_name @ ''='') of [] \<Rightarrow> [] | (name, _) # _ \<Rightarrow> name)"

definition unsigned_query_uri :: "gateway_env \<Rightarrow> http_uri \<Rightarrow> sigv4_error + str" where
  "unsigned_query_uri env uri =
     (let retained = join_with CHR ''&''
            (filter (\<lambda>pair. decoded_name env pair \<notin> set AUTH_PARAMETERS)
              (filter (\<lambda>pair. pair \<noteq> []) (split_on CHR ''&'' (query_text uri))));
          path = (case u_path_and_query uri of None \<Rightarrow> u_path uri | Some p \<Rightarrow> p)
      in if retained = [] then Ok path else Ok (path @ ''?'' @ retained))"

section \<open>Parsing a request\<close>

definition authorization_fields :: "str \<Rightarrow> sigv4_error + (str \<times> str) list" where
  "authorization_fields authorization =
     and_then (ok_or UnsupportedAlgorithm (strip_prefix authorization ALGORITHM)) (\<lambda>rest.
       try_map (\<lambda>field. ok_or SigInvalidRequest (split_once CHR ''='' field))
         (map trim (split_on CHR '','' (trim rest))))"

text \<open>\<open>collect\<close> into a map keeps the last of several fields with one name.\<close>

definition field_of :: "(str \<times> str) list \<Rightarrow> str \<Rightarrow> sigv4_error + str" where
  "field_of entries name = ok_or SigInvalidRequest (map_of (rev entries) name)"

definition parse_header ::
  "gateway_env \<Rightarrow> str \<Rightarrow> http_uri \<Rightarrow> header_map \<Rightarrow> str \<Rightarrow> sigv4_error + parsed_sigv4" where
  "parse_header env method uri headers authorization =
     and_then (authorization_fields authorization) (\<lambda>entries.
     and_then (field_of entries ''Credential'') (\<lambda>credential.
     and_then (field_of entries ''SignedHeaders'') (\<lambda>declared_headers.
     and_then (field_of entries ''Signature'') (\<lambda>supplied_signature.
     and_then (validate_signature supplied_signature) (\<lambda>_.
     and_then (credential_scope_parse credential) (\<lambda>scope_value.
     and_then (required_header env headers ''x-amz-date'') (\<lambda>date.
     and_then (parse_signing_time env date) (\<lambda>signing_time.
     and_then (scope_validate_date env scope_value signing_time) (\<lambda>_.
     and_then (collect_signed_headers env headers uri declared_headers) (\<lambda>signed_headers.
     and_then (payload_mode_of env headers False) (\<lambda>mode.
       Ok \<lparr>sg_access_key_id = cs_access_key_id scope_value, sg_region = cs_region scope_value,
           sg_signing_time = signing_time, sg_location = HeaderLocation, sg_expires_in = None,
           sg_method = method, sg_signing_uri = u_display uri, sg_signed_headers = signed_headers,
           sg_cloudflare_accept_encoding_rewrite =
             (header_contains headers ''cf-ray''
              \<and> list_ex (\<lambda>(name, v). name = ''accept-encoding'' \<and> v \<noteq> ''identity'') signed_headers),
           sg_payload_mode = mode, sg_supplied_signature = supplied_signature\<rparr>)))))))))))"

definition presign_expiry :: "str \<Rightarrow> int option" where
  "presign_expiry v =
     Option.bind (parse_uint (2 ^ 64 - 1) v) (\<lambda>secs.
       let duration = int secs * nanos_per_second
       in if duration \<noteq> 0 \<and> duration \<le> MAX_PRESIGN_EXPIRY then Some duration else None)"

definition parse_query ::
  "gateway_env \<Rightarrow> str \<Rightarrow> http_uri \<Rightarrow> header_map \<Rightarrow> sigv4_error + parsed_sigv4" where
  "parse_query env method uri headers =
     and_then (query_values env uri) (\<lambda>values.
     and_then (required_query values ''X-Amz-Algorithm'') (\<lambda>algorithm.
     if algorithm \<noteq> ALGORITHM then Err UnsupportedAlgorithm
     else if map_of values ''X-Amz-Security-Token'' \<noteq> None then Err SessionCredentialsUnsupported
     else
     and_then (required_query values ''X-Amz-Credential'') (\<lambda>credential.
     and_then (credential_scope_parse credential) (\<lambda>scope_value.
     and_then (required_query values ''X-Amz-Date'') (\<lambda>date.
     and_then (parse_signing_time env date) (\<lambda>signing_time.
     and_then (scope_validate_date env scope_value signing_time) (\<lambda>_.
     and_then (required_query values ''X-Amz-Expires'') (\<lambda>expires.
     and_then (ok_or InvalidExpiry (presign_expiry expires)) (\<lambda>expires_in.
     and_then (required_query values ''X-Amz-SignedHeaders'') (\<lambda>declared_headers.
     and_then (required_query values ''X-Amz-Signature'') (\<lambda>supplied_signature.
     and_then (validate_signature supplied_signature) (\<lambda>_.
     and_then (collect_signed_headers env headers uri declared_headers) (\<lambda>signed_headers.
     and_then (unsigned_query_uri env uri) (\<lambda>signing_uri.
       Ok \<lparr>sg_access_key_id = cs_access_key_id scope_value, sg_region = cs_region scope_value,
           sg_signing_time = signing_time, sg_location = QueryLocation,
           sg_expires_in = Some expires_in, sg_method = method, sg_signing_uri = signing_uri,
           sg_signed_headers = signed_headers, sg_cloudflare_accept_encoding_rewrite = False,
           sg_payload_mode = Unsigned, sg_supplied_signature = supplied_signature\<rparr>))))))))))))))"

definition validate_time :: "parsed_sigv4 \<Rightarrow> timestamp \<Rightarrow> sigv4_error + unit" where
  "validate_time sg now =
     (if sg_signing_time sg > now then
        (if sg_signing_time sg - now > MAX_HEADER_SKEW then Err SigExpired else Ok ())
      else
        let age = now - sg_signing_time sg
        in case sg_location sg of
             HeaderLocation \<Rightarrow> if age > MAX_HEADER_SKEW then Err SigExpired else Ok ()
           | QueryLocation \<Rightarrow>
               and_then (ok_or InvalidExpiry (sg_expires_in sg)) (\<lambda>expires_in.
                 if age > expires_in then Err SigExpired else Ok ()))"

definition sigv4_parse ::
  "gateway_env \<Rightarrow> str \<Rightarrow> http_uri \<Rightarrow> header_map \<Rightarrow> timestamp \<Rightarrow> sigv4_error + parsed_sigv4" where
  "sigv4_parse env method uri headers now =
     and_then
       (case header_get headers ''authorization'' of
          Some raw \<Rightarrow> and_then (ok_or SigInvalidRequest (ge_to_str env raw))
                        (parse_header env method uri headers)
        | None \<Rightarrow> parse_query env method uri headers) (\<lambda>parsed.
     and_then (validate_time parsed now) (\<lambda>_. Ok parsed))"

section \<open>Verification\<close>

definition signing_input_of ::
  "parsed_sigv4 \<Rightarrow> str \<Rightarrow> signable_body \<Rightarrow> (str \<times> str) list \<Rightarrow> signing_input" where
  "signing_input_of sg secret body signed_headers =
     \<lparr>si_access_key_id = sg_access_key_id sg, si_secret = secret, si_region = sg_region sg,
      si_service = SERVICE, si_time = sg_signing_time sg, si_location = sg_location sg,
      si_expires_in = sg_expires_in sg, si_method = sg_method sg, si_uri = sg_signing_uri sg,
      si_headers = signed_headers, si_body = body\<rparr>"

definition verify_signature_with_headers ::
  "gateway_env \<Rightarrow> parsed_sigv4 \<Rightarrow> str \<Rightarrow> signable_body \<Rightarrow> (str \<times> str) list \<Rightarrow> sigv4_error + unit" where
  "verify_signature_with_headers env sg secret body signed_headers =
     and_then (ok_or SigInvalidRequest (ge_sign env (signing_input_of sg secret body signed_headers))) (\<lambda>expected.
       if expected = sg_supplied_signature sg then Ok () else Err SignatureMismatch)"

definition identity_encoding :: "(str \<times> str) list \<Rightarrow> (str \<times> str) list" where
  "identity_encoding =
     map (\<lambda>(name, v). if name = ''accept-encoding'' then (name, ''identity'') else (name, v))"

definition verify_signature ::
  "gateway_env \<Rightarrow> parsed_sigv4 \<Rightarrow> str \<Rightarrow> signable_body \<Rightarrow> sigv4_error + unit" where
  "verify_signature env sg secret body =
     (let result = verify_signature_with_headers env sg secret body (sg_signed_headers sg)
      in if result = Err SignatureMismatch \<and> sg_cloudflare_accept_encoding_rewrite sg
         then verify_signature_with_headers env sg secret body (identity_encoding (sg_signed_headers sg))
         else result)"

definition verify :: "gateway_env \<Rightarrow> parsed_sigv4 \<Rightarrow> str \<Rightarrow> str \<Rightarrow> sigv4_error + unit" where
  "verify env sg secret body =
     (case sg_payload_mode sg of
        Calculate \<Rightarrow> verify_signature env sg secret (BodyBytes body)
      | Unsigned \<Rightarrow> verify_signature env sg secret UnsignedPayload
      | Precomputed expected \<Rightarrow>
          if ge_sha256_hex env body \<noteq> expected then Err PayloadHashMismatch
          else verify_signature env sg secret (BodyDigest expected))"

definition verify_streaming_signature :: "gateway_env \<Rightarrow> parsed_sigv4 \<Rightarrow> str \<Rightarrow> sigv4_error + unit" where
  "verify_streaming_signature env sg secret =
     (case sg_payload_mode sg of
        Unsigned \<Rightarrow> verify_signature env sg secret UnsignedPayload
      | Precomputed expected \<Rightarrow> verify_signature env sg secret (BodyDigest expected)
      | Calculate \<Rightarrow> Err StreamingPayloadHashRequired)"

definition verify_payload_sha256 :: "parsed_sigv4 \<Rightarrow> str \<Rightarrow> sigv4_error + unit" where
  "verify_payload_sha256 sg actual =
     (case sg_payload_mode sg of
        Precomputed expected \<Rightarrow> if actual \<noteq> expected then Err PayloadHashMismatch else Ok ()
      | Calculate \<Rightarrow> Err StreamingPayloadHashRequired
      | Unsigned \<Rightarrow> Ok ())"

section \<open>What an accepted request satisfies\<close>

lemma parse_header_Ok:
  assumes "parse_header env method uri headers authorization = Ok sg"
  obtains declared where "collect_signed_headers env headers uri declared = Ok (sg_signed_headers sg)"
    and "payload_mode_of env headers False = Ok (sg_payload_mode sg)"
    and "sg_location sg = HeaderLocation" "sg_method sg = method" "sg_signing_uri sg = u_display uri"
    and "sg_cloudflare_accept_encoding_rewrite sg \<Longrightarrow> header_contains headers ''cf-ray''"
  using assms by (auto simp: parse_header_def and_then_Ok_iff)

lemma parse_query_Ok:
  assumes "parse_query env method uri headers = Ok sg"
  obtains declared e where "collect_signed_headers env headers uri declared = Ok (sg_signed_headers sg)"
    and "sg_payload_mode sg = Unsigned" "sg_location sg = QueryLocation" "sg_method sg = method"
    and "unsigned_query_uri env uri = Ok (sg_signing_uri sg)"
    and "\<not> sg_cloudflare_accept_encoding_rewrite sg"
    and "sg_expires_in sg = Some e" "0 < e" "e \<le> MAX_PRESIGN_EXPIRY"
proof -
  from assms obtain declared expires e where
    "collect_signed_headers env headers uri declared = Ok (sg_signed_headers sg)"
    "sg_payload_mode sg = Unsigned" "sg_location sg = QueryLocation" "sg_method sg = method"
    "unsigned_query_uri env uri = Ok (sg_signing_uri sg)" "\<not> sg_cloudflare_accept_encoding_rewrite sg"
    "sg_expires_in sg = Some e" and e: "presign_expiry expires = Some e"
    by (auto simp: parse_query_def and_then_Ok_iff split: if_splits)
  moreover from e have "0 < e" "e \<le> MAX_PRESIGN_EXPIRY"
    by (auto simp: presign_expiry_def Let_def bind_eq_Some_conv nanos_per_second_def split: if_splits)
  ultimately show ?thesis using that by blast
qed

lemma sigv4_parse_Ok:
  assumes "sigv4_parse env method uri headers now = Ok sg"
  shows "validate_time sg now = Ok ()"
    and "(\<exists>a. parse_header env method uri headers a = Ok sg) \<and> header_contains headers ''authorization''
       \<or> parse_query env method uri headers = Ok sg"
  using assms by (auto simp: sigv4_parse_def and_then_Ok_iff header_contains_def split: option.splits)

text \<open>The fields a request signs for one header name: its own, or the authority for a missing host.\<close>

definition signed_fields :: "gateway_env \<Rightarrow> header_map \<Rightarrow> http_uri \<Rightarrow> str \<Rightarrow> (str \<times> str) list" where
  "signed_fields env headers uri name =
     (if header_get_all headers name \<noteq> []
      then map (\<lambda>v. (name, the (ge_to_str env v))) (header_get_all headers name)
      else (case u_authority uri of Some authority \<Rightarrow> [(name, authority)] | None \<Rightarrow> []))"

lemma header_fields_Ok:
  "header_fields env headers name = Ok fs \<Longrightarrow>
     fs = map (\<lambda>v. (name, the (ge_to_str env v))) (header_get_all headers name)"
proof -
  have "try_map (\<lambda>v. and_then (ok_or InvalidSignedHeaders (ge_to_str env v)) (\<lambda>t. Ok (name, t))) vs = Ok fs
      \<Longrightarrow> fs = map (\<lambda>v. (name, the (ge_to_str env v))) vs" for vs
    by (induction vs arbitrary: fs) (auto simp: and_then_Ok_iff)
  then show "header_fields env headers name = Ok fs \<Longrightarrow> ?thesis" by (simp add: header_fields_def)
qed

lemma collect_header_fields_Ok:
  "collect_header_fields env headers uri names = Ok fs \<Longrightarrow>
     fs = concat (map (signed_fields env headers uri) names)
     \<and> (\<forall>name \<in> set names. header_get_all headers name = [] \<longrightarrow> name = ''host'' \<and> u_authority uri \<noteq> None)"
proof (induction names arbitrary: fs)
  case (Cons name names)
  then obtain own found rest where own: "header_fields env headers name = Ok own"
    and found: "(if own \<noteq> [] then Ok own else if name = ''host''
          then (case u_authority uri of Some authority \<Rightarrow> Ok [(name, authority)] | None \<Rightarrow> Err InvalidSignedHeaders)
          else Err InvalidSignedHeaders) = Ok found"
    and rest: "collect_header_fields env headers uri names = Ok rest" and fs: "fs = found @ rest"
    by (auto simp: and_then_Ok_iff)
  from found header_fields_Ok [OF own] have "found = signed_fields env headers uri name
      \<and> (header_get_all headers name = [] \<longrightarrow> name = ''host'' \<and> u_authority uri \<noteq> None)"
    by (auto simp: signed_fields_def split: if_splits option.splits)
  with Cons.IH [OF rest] fs show ?case by simp
qed simp

text \<open>The body a signature commits to.\<close>

fun commits_to :: "gateway_env \<Rightarrow> signable_body \<Rightarrow> str \<Rightarrow> bool" where
  "commits_to env (BodyBytes b) body = (b = body)"
| "commits_to env (BodyDigest d) body = (d = ge_sha256_hex env body)"
| "commits_to env UnsignedPayload body = True"

lemma verify_signature_Ok:
  assumes "verify_signature env sg secret body = Ok ()"
  obtains hs where "ge_sign env (signing_input_of sg secret body hs) = Some (sg_supplied_signature sg)"
    and "hs = sg_signed_headers sg
       \<or> sg_cloudflare_accept_encoding_rewrite sg \<and> hs = identity_encoding (sg_signed_headers sg)"
  using assms
  by (auto simp: verify_signature_def verify_signature_with_headers_def Let_def and_then_Ok_iff split: if_splits)

section \<open>Properties\<close>

text \<open>C18: accepted signatures are fresh. A parsed request was signed at most five minutes ahead of the
  clock; a header signature is at most five minutes old, and a presigned one carries an expiry of at
  most seven days that has not passed.\<close>

theorem signature_freshness:
  assumes "sigv4_parse env method uri headers now = Ok sg"
  shows "sg_signing_time sg \<le> now + MAX_HEADER_SKEW
    \<and> (case sg_location sg of
         HeaderLocation \<Rightarrow> now \<le> sg_signing_time sg + MAX_HEADER_SKEW
       | QueryLocation \<Rightarrow> (\<exists>e. sg_expires_in sg = Some e \<and> 0 < e \<and> e \<le> MAX_PRESIGN_EXPIRY
                              \<and> now \<le> sg_signing_time sg + e))"
proof -
  note time = sigv4_parse_Ok(1) [OF assms]
  have pos: "0 < MAX_HEADER_SKEW" by (simp add: MAX_HEADER_SKEW_def nanos_per_second_def)
  consider (header) a where "parse_header env method uri headers a = Ok sg"
    | (query) "parse_query env method uri headers = Ok sg"
    using sigv4_parse_Ok(2) [OF assms] by blast
  then show ?thesis
  proof cases
    case header
    then have "sg_location sg = HeaderLocation" by (blast elim: parse_header_Ok)
    with time pos show ?thesis by (auto simp: validate_time_def Let_def split: if_splits)
  next
    case query
    then obtain e where "sg_location sg = QueryLocation" "sg_expires_in sg = Some e" "0 < e" "e \<le> MAX_PRESIGN_EXPIRY"
      by (rule parse_query_Ok)
    with time pos show ?thesis by (auto simp: validate_time_def Let_def split: if_splits)
  qed
qed


text \<open>A signer that knows one signature, and a presigned request that carries it.\<close>

definition example_env :: gateway_env where
  "example_env =
     \<lparr>ge_form_parse = (\<lambda>_. [(''X-Amz-Algorithm'', ''AWS4-HMAC-SHA256''),
        (''X-Amz-Credential'', ''key/20260719/us-east-1/s3/aws4_request''),
        (''X-Amz-Date'', ''20260719T000000Z''), (''X-Amz-Expires'', ''60''),
        (''X-Amz-SignedHeaders'', ''host''), (''X-Amz-Signature'', replicate 64 CHR ''a'')]),
      ge_to_str = Some, ge_parse_time = (\<lambda>_. Some 0), ge_format_date = (\<lambda>_. ''20260719''),
      ge_sign = (\<lambda>_. Some (replicate 64 CHR ''a'')), ge_sha256_hex = (\<lambda>_. [])\<rparr>"

definition example_uri :: http_uri where
  "example_uri =
     \<lparr>u_display = ''/photos/a?X-Amz-Signature'', u_scheme = Some ''https'', u_authority = None,
      u_path = ''/photos/a'', u_path_and_query = Some ''/photos/a'', u_query = Some ''X-Amz-Signature''\<rparr>"

definition example_signature :: parsed_sigv4 where
  "example_signature =
     \<lparr>sg_access_key_id = ''key'', sg_region = ''us-east-1'', sg_signing_time = 0,
      sg_location = QueryLocation, sg_expires_in = Some (60 * nanos_per_second), sg_method = ''GET'',
      sg_signing_uri = ''/photos/a'', sg_signed_headers = [(''host'', ''media.example.com'')],
      sg_cloudflare_accept_encoding_rewrite = False, sg_payload_mode = Unsigned,
      sg_supplied_signature = replicate 64 CHR ''a''\<rparr>"

lemma example_parts:
  "presign_expiry ''60'' = Some (60 * nanos_per_second)"
  "credential_scope_parse ''key/20260719/us-east-1/s3/aws4_request''
     = Ok \<lparr>cs_access_key_id = ''key'', cs_date = ''20260719'', cs_region = ''us-east-1''\<rparr>"
  "validate_signature (replicate 64 CHR ''a'') = Ok ()"
  "unsigned_query_uri example_env example_uri = Ok ''/photos/a''"
  "collect_signed_headers example_env [(''host'', ''media.example.com'')] example_uri ''host''
     = Ok [(''host'', ''media.example.com'')]"
  by (simp add: presign_expiry_def parse_uint_def digits_value_def is_ascii_digit_def Let_def
        MAX_PRESIGN_EXPIRY_def nanos_per_second_def)
     code_simp+

lemma example_request_parsed:
  "sigv4_parse example_env ''GET'' example_uri [(''host'', ''media.example.com'')] 7 = Ok example_signature"
  "verify example_env example_signature ''secret'' ''body'' = Ok ()"
  using example_parts(4,5)
  by (simp_all add: sigv4_parse_def header_get_def parse_query_def query_values_def required_query_def
      example_parts(1-3) scope_validate_date_def parse_signing_time_def validate_time_def ALGORITHM_def
      MAX_HEADER_SKEW_def nanos_per_second_def verify_def verify_signature_def
      verify_signature_with_headers_def example_signature_def example_env_def)

theorem signature_freshness_witness:
  "sigv4_parse example_env ''GET'' example_uri [(''host'', ''media.example.com'')] 7 = Ok example_signature
   \<and> 7 \<le> sg_signing_time example_signature + 60 * nanos_per_second"
  using signature_freshness [OF example_request_parsed(1)] example_request_parsed(1)
  by (simp add: example_signature_def)


end
