(* ===== verification/S3_Data_Authorization.thy ===== *)
theory S3_Data_Authorization
  imports S3_Authorization S3_Gateway
begin

text \<open>
  The S3 data plane's authentication and authorization:
  \<^verbatim>\<open>crates/mediahub-server/src/s3_data_authorization.rs\<close>, the access-key lookup of
  \<^verbatim>\<open>s3_http_core.rs\<close>, the error values of \<^verbatim>\<open>s3_http_support.rs\<close>, and the classification of
  object reads in \<^verbatim>\<open>s3_http_tagging.rs\<close> and \<^verbatim>\<open>s3_http_object_version_lock.rs\<close>.

  The record \<open>app_state\<close> holds what the handlers take from \<open>AppState\<close> and from the clock: the
  repository lookups, the cipher of the access-key secrets and the third-party code of
  \<open>gateway_env\<close>. A result is \<open>None\<close> when the policy parser would panic.
\<close>

section \<open>Errors\<close>

record s3_api_error =
  ae_status :: nat
  ae_code :: str
  ae_message :: str
  ae_resource :: str
  ae_request_id :: str
  ae_response_headers :: header_map

definition api_error_new :: "nat \<Rightarrow> str \<Rightarrow> str \<Rightarrow> str \<Rightarrow> str \<Rightarrow> s3_api_error" where
  "api_error_new status code message resource request_id =
     \<lparr>ae_status = status, ae_code = code, ae_message = message, ae_resource = resource,
      ae_request_id = request_id, ae_response_headers = []\<rparr>"

primrec sigv4_message :: "sigv4_error \<Rightarrow> str" where
  "sigv4_message MissingAuthentication = ''AWS Signature Version 4 authentication is required''"
| "sigv4_message UnsupportedAlgorithm = ''the signing algorithm is not supported''"
| "sigv4_message InvalidCredentialScope = ''the credential scope is invalid''"
| "sigv4_message InvalidDate = ''the request date is invalid''"
| "sigv4_message InvalidSignedHeaders = ''the signed header list is invalid''"
| "sigv4_message InvalidSignature = ''the signature is invalid''"
| "sigv4_message SignatureMismatch = ''the request signature does not match''"
| "sigv4_message SigExpired = ''the request signature has expired''"
| "sigv4_message InvalidExpiry = ''the presigned expiry is invalid''"
| "sigv4_message SessionCredentialsUnsupported = ''temporary session credentials are not supported''"
| "sigv4_message DuplicateQueryParameter = ''a signing query parameter is duplicated''"
| "sigv4_message InvalidPayloadHash = ''the payload hash is invalid''"
| "sigv4_message PayloadHashMismatch = ''the payload does not match x-amz-content-sha256''"
| "sigv4_message StreamingPayloadHashRequired =
     ''streaming uploads require x-amz-content-sha256 or UNSIGNED-PAYLOAD''"
| "sigv4_message SigInvalidRequest = ''the signed request is invalid''"

definition from_sigv4 :: "sigv4_error \<Rightarrow> str \<Rightarrow> str \<Rightarrow> s3_api_error" where
  "from_sigv4 e resource request_id =
     api_error_new
       (if e \<in> {MissingAuthentication, SignatureMismatch, SigExpired, PayloadHashMismatch} then 403 else 400)
       (s3_code e) (sigv4_message e) resource request_id"

definition invalid_access_key :: "str \<Rightarrow> str \<Rightarrow> s3_api_error" where
  "invalid_access_key resource request_id =
     api_error_new 403 ''InvalidAccessKeyId''
       ''The AWS Access Key Id you provided does not exist in our records.'' resource request_id"

definition no_such_bucket :: "str \<Rightarrow> str \<Rightarrow> s3_api_error" where
  "no_such_bucket resource request_id =
     api_error_new 404 ''NoSuchBucket'' ''The specified bucket does not exist.'' resource request_id"

definition invalid_request :: "str \<Rightarrow> str \<Rightarrow> str \<Rightarrow> s3_api_error" where
  "invalid_request message resource request_id =
     api_error_new 400 ''InvalidRequest'' message resource request_id"

definition access_denied :: "str \<Rightarrow> str \<Rightarrow> str \<Rightarrow> s3_api_error" where
  "access_denied message resource request_id =
     api_error_new 403 ''AccessDenied'' message resource request_id"

definition method_not_allowed :: "str \<Rightarrow> str \<Rightarrow> str \<Rightarrow> s3_api_error" where
  "method_not_allowed message resource request_id =
     api_error_new 405 ''MethodNotAllowed'' message resource request_id"

definition invalid_argument :: "str \<Rightarrow> str \<Rightarrow> str \<Rightarrow> s3_api_error" where
  "invalid_argument message resource request_id =
     api_error_new 400 ''InvalidArgument'' message resource request_id"

definition service_unavailable :: "str \<Rightarrow> str \<Rightarrow> s3_api_error" where
  "service_unavailable resource request_id =
     api_error_new 503 ''ServiceUnavailable'' ''Please reduce your request rate.'' resource request_id"

section \<open>Identities and the application state\<close>

record s3_access_key_identity =
  ki_application_id :: application_id
  ki_account_id :: s3_account_id
  ki_access_key_id :: str

record s3_identity_policy_document =
  idoc_stable_json :: str
  idoc_sha256 :: str

record s3_identity_policy_snapshot =
  ids_identity :: s3_access_key_identity
  ids_policy :: "s3_identity_policy_document option"
  ids_revision :: u64
  ids_updated_at :: "timestamp option"

definition identity_policy_snapshot_new ::
  "s3_access_key_identity \<Rightarrow> s3_identity_policy_document option \<Rightarrow> u64 \<Rightarrow> timestamp option
   \<Rightarrow> repository_error + s3_identity_policy_snapshot" where
  "identity_policy_snapshot_new identity policy revision updated_at =
     (if (revision = 0) \<noteq> (updated_at = None) \<or> (revision = 0 \<and> policy \<noteq> None)
      then Err (RepoInvariant
             (Message ''S3 identity policy document, revision, and update timestamp disagree''))
      else Ok \<lparr>ids_identity = identity, ids_policy = policy, ids_revision = revision,
               ids_updated_at = updated_at\<rparr>)"

record application_summary =
  as_id :: application_id
  as_name :: str
  as_app_id :: str
  as_quota :: quota_snapshot

record access_key_record =
  akr_id :: str
  akr_application_id :: application_id
  akr_access_key_id :: str
  akr_secret_ciphertext :: str
  akr_secret_key_version :: u32
  akr_secret_last_four :: str
  akr_name :: str
  akr_permissions :: "str list"
  akr_expires_at :: "timestamp option"
  akr_revoked_at :: "timestamp option"
  akr_created_at :: timestamp

record hmac_identity =
  hi_application_id :: application_id
  hi_access_key_id :: str
  hi_permissions :: "str list"

record application_auth =
  au_application :: application_summary
  au_hmac_identity :: "hmac_identity option"
  au_actor_type :: str
  au_actor_id :: str

record app_state =
  app_env :: gateway_env
  app_to_vec :: json_writer
  app_read :: json_reader
  app_system_now :: timestamp
  app_utc_now :: timestamp
  app_find_active_access_key :: "str \<Rightarrow> timestamp \<Rightarrow> repository_error + access_key_record option"
  app_find_application_by_id :: "application_id \<Rightarrow> repository_error + application_summary option"
  app_decrypt :: "str \<Rightarrow> u32 \<Rightarrow> str + str"
  app_get_s3_bucket_policy :: "str \<Rightarrow> repository_error + s3_bucket_policy_snapshot option"
  app_resolve_s3_bucket_identity :: "str \<Rightarrow> repository_error + s3_bucket_identity option"
  app_get_s3_identity_policy :: "str \<Rightarrow> repository_error + s3_identity_policy_snapshot option"

section \<open>Authentication\<close>

text \<open>\<open>std::str::from_utf8\<close>: the byte sequences of the Unicode standard.\<close>

definition continuation :: "char \<Rightarrow> bool" where
  "continuation c \<longleftrightarrow> 128 \<le> byte c \<and> byte c \<le> 191"

fun valid_utf8 :: "str \<Rightarrow> bool" where
  "valid_utf8 [] = True"
| "valid_utf8 (a # s) =
     (if byte a < 128 then valid_utf8 s
      else case s of
        [] \<Rightarrow> False
      | b # s \<Rightarrow>
          if 194 \<le> byte a \<and> byte a \<le> 223 then continuation b \<and> valid_utf8 s
          else case s of
            [] \<Rightarrow> False
          | c # s \<Rightarrow>
              if 224 \<le> byte a \<and> byte a \<le> 239
              then continuation b \<and> (byte a = 224 \<longrightarrow> 160 \<le> byte b) \<and> (byte a = 237 \<longrightarrow> byte b \<le> 159)
                   \<and> continuation c \<and> valid_utf8 s
              else case s of
                [] \<Rightarrow> False
              | d # s \<Rightarrow>
                  240 \<le> byte a \<and> byte a \<le> 244 \<and> continuation b \<and> (byte a = 240 \<longrightarrow> 144 \<le> byte b)
                  \<and> (byte a = 244 \<longrightarrow> byte b \<le> 143) \<and> continuation c \<and> continuation d \<and> valid_utf8 s)"

definition load_s3_authentication ::
  "app_state \<Rightarrow> str \<Rightarrow> http_uri \<Rightarrow> header_map \<Rightarrow> str
   \<Rightarrow> s3_api_error + parsed_sigv4 \<times> str \<times> application_auth" where
  "load_s3_authentication app method uri headers request_id =
     (let resource = u_path uri;
          unavailable = service_unavailable resource request_id
      in case sigv4_parse (app_env app) method uri headers (app_system_now app) of
           Inl e \<Rightarrow> Err (from_sigv4 e resource request_id)
         | Inr signature \<Rightarrow>
             (case app_find_active_access_key app (sg_access_key_id signature) (app_utc_now app) of
                Inl _ \<Rightarrow> Err unavailable
              | Inr None \<Rightarrow> Err (invalid_access_key resource request_id)
              | Inr (Some access_key) \<Rightarrow>
                  (case app_decrypt app (akr_secret_ciphertext access_key) (akr_secret_key_version access_key) of
                     Inl _ \<Rightarrow> Err unavailable
                   | Inr secret \<Rightarrow>
                       if \<not> valid_utf8 secret then Err unavailable
                       else (case app_find_application_by_id app (akr_application_id access_key) of
                               Inl _ \<Rightarrow> Err unavailable
                             | Inr None \<Rightarrow> Err (invalid_access_key resource request_id)
                             | Inr (Some application) \<Rightarrow>
                                 Ok (signature, secret,
                                     \<lparr>au_application = application,
                                      au_hmac_identity = Some
                                        \<lparr>hi_application_id = akr_application_id access_key,
                                         hi_access_key_id = akr_access_key_id access_key,
                                         hi_permissions = akr_permissions access_key\<rparr>,
                                      au_actor_type = ''access_key'',
                                      au_actor_id = akr_access_key_id access_key\<rparr>)))))"

definition authenticate_s3_application ::
  "app_state \<Rightarrow> str \<Rightarrow> http_uri \<Rightarrow> header_map \<Rightarrow> str \<Rightarrow> str \<Rightarrow> s3_api_error + application_auth" where
  "authenticate_s3_application app method uri headers body request_id =
     and_then (load_s3_authentication app method uri headers request_id) (\<lambda>(signature, secret, auth).
       case verify (app_env app) signature secret body of
         Inl e \<Rightarrow> Err (from_sigv4 e (u_path uri) request_id)
       | Inr _ \<Rightarrow> Ok auth)"

definition authenticate_s3_streaming_application ::
  "app_state \<Rightarrow> str \<Rightarrow> http_uri \<Rightarrow> header_map \<Rightarrow> str
   \<Rightarrow> s3_api_error + application_auth \<times> parsed_sigv4" where
  "authenticate_s3_streaming_application app method uri headers request_id =
     and_then (load_s3_authentication app method uri headers request_id) (\<lambda>(signature, secret, auth).
       case verify_streaming_signature (app_env app) signature secret of
         Inl e \<Rightarrow> Err (from_sigv4 e (u_path uri) request_id)
       | Inr _ \<Rightarrow> Ok (auth, signature))"

definition S3_PRESIGN_AUTH_QUERY_PARAMETERS :: "str list" where
  "S3_PRESIGN_AUTH_QUERY_PARAMETERS =
     [''X-Amz-Algorithm'', ''X-Amz-Credential'', ''X-Amz-Date'', ''X-Amz-Expires'',
      ''X-Amz-SignedHeaders'', ''X-Amz-Signature'', ''X-Amz-Security-Token'']"

definition s3_has_authentication_material :: "gateway_env \<Rightarrow> header_map \<Rightarrow> http_uri \<Rightarrow> bool" where
  "s3_has_authentication_material env headers uri \<longleftrightarrow>
     header_contains headers ''authorization'' \<or> header_contains headers ''x-amz-date''
     \<or> header_contains headers ''x-amz-security-token''
     \<or> list_ex (\<lambda>(name, _). list_ex (eq_ignore_ascii_case name) S3_PRESIGN_AUTH_QUERY_PARAMETERS)
         (ge_form_parse env (query_text uri))"

definition s3_data_secure_transport :: "http_uri \<Rightarrow> bool" where
  "s3_data_secure_transport uri = is_some_and (u_scheme uri) (\<lambda>scheme. eq_ignore_ascii_case scheme ''https'')"

definition s3_data_source_ip :: "(ip_addr \<times> u16) option \<Rightarrow> ip_addr option" where
  "s3_data_source_ip connect_info = map_option fst connect_info"

section \<open>Authorization\<close>

record s3_data_authorization_input =
  di_action :: s3_policy_action
  di_bucket_name :: str
  di_object_key :: "str option"
  di_version_id :: "str option"
  di_prefix :: "str option"
  di_delimiter :: "str option"
  di_max_keys :: "u64 option"
  di_secure_transport :: bool
  di_source_ip :: "ip_addr option"

record s3_authorized_data_request =
  ad_bucket :: s3_bucket_identity

record s3_authorized_account_request =
  aa_application_id :: application_id
  aa_account_id :: str

datatype s3_signed_principal_resolution = ResolvedPrincipal s3_signed_principal | FailClosed

definition s3_identity_policy_request ::
  "s3_data_authorization_input \<Rightarrow> str \<Rightarrow> str \<Rightarrow> str \<Rightarrow> s3_identity_policy_request option" where
  "s3_identity_policy_request input principal_arn principal_account userid =
     map_option (\<lambda>request. request
         \<lparr>rc_version_id := di_version_id input, rc_principal_arn := Some principal_arn,
          rc_principal_account := Some principal_account, rc_userid := Some userid,
          rc_secure_transport := di_secure_transport input, rc_source_ip := di_source_ip input,
          rc_query := \<lparr>q_prefix = di_prefix input, q_delimiter = di_delimiter input,
                       q_max_keys = di_max_keys input\<rparr>\<rparr>)
       (case scope (di_action input) of
          AccountScope \<Rightarrow>
            if di_object_key input = None then Some (identity_request_account (di_action input)) else None
        | BucketScope \<Rightarrow>
            if di_object_key input = None
            then Some (identity_request_bucket (di_action input) (di_bucket_name input)) else None
        | ObjectScope \<Rightarrow>
            map_option (identity_request_object (di_action input) (di_bucket_name input))
              (di_object_key input))"

definition caller_arn :: "s3_account_id \<Rightarrow> str \<Rightarrow> str" where
  "caller_arn account access_key_id = ''arn:aws:iam::'' @ account_as_str account @ '':user/'' @ access_key_id"

definition caller_identity_decision ::
  "app_state \<Rightarrow> s3_identity_policy_snapshot \<Rightarrow> s3_data_authorization_input \<Rightarrow> str \<Rightarrow> s3_policy_decision" where
  "caller_identity_decision app snapshot input access_key_id =
     (let account = ki_account_id (ids_identity snapshot)
      in case ids_policy snapshot of
           None \<Rightarrow> ImplicitDeny
         | Some document \<Rightarrow>
             (case identity_policy_parse (app_read app) (idoc_stable_json document) of
                Inl _ \<Rightarrow> ImplicitDeny
              | Inr policy \<Rightarrow>
                  (case s3_identity_policy_request input (caller_arn account access_key_id)
                          (account_as_str account) access_key_id of
                     None \<Rightarrow> ImplicitDeny
                   | Some request \<Rightarrow> identity_policy_evaluate policy request)))"

definition load_s3_signed_policy_principal ::
  "app_state \<Rightarrow> application_auth \<Rightarrow> s3_data_authorization_input \<Rightarrow> str \<Rightarrow> str
   \<Rightarrow> s3_api_error + s3_signed_principal_resolution" where
  "load_s3_signed_policy_principal app auth input resource request_id =
     (case au_hmac_identity auth of
        None \<Rightarrow> Ok FailClosed
      | Some hmac \<Rightarrow>
          let access_key_id = hi_access_key_id hmac
          in case app_get_s3_identity_policy app access_key_id of
               Inr None \<Rightarrow> Ok FailClosed
             | Inl (RepoInvariant _) \<Rightarrow> Ok FailClosed
             | Inl _ \<Rightarrow> Err (service_unavailable resource request_id)
             | Inr (Some snapshot) \<Rightarrow>
                 let identity = ids_identity snapshot
                 in if ki_application_id identity \<noteq> as_id (au_application auth)
                       \<or> ki_application_id identity \<noteq> hi_application_id hmac
                       \<or> ki_access_key_id identity \<noteq> access_key_id
                    then Ok FailClosed
                    else case signed_principal_new (ki_account_id identity)
                                (caller_arn (ki_account_id identity) access_key_id) access_key_id
                                (caller_identity_decision app snapshot input access_key_id) of
                           Inl _ \<Rightarrow> Ok FailClosed
                         | Inr p \<Rightarrow> Ok (ResolvedPrincipal p))"

definition s3_fail_closed_for_existing_bucket ::
  "app_state \<Rightarrow> str \<Rightarrow> str \<Rightarrow> str \<Rightarrow> s3_api_error + s3_authorized_data_request" where
  "s3_fail_closed_for_existing_bucket app bucket_name resource request_id =
     (case app_resolve_s3_bucket_identity app bucket_name of
        Inl _ \<Rightarrow> Err (service_unavailable resource request_id)
      | Inr None \<Rightarrow> Err (no_such_bucket resource request_id)
      | Inr (Some _) \<Rightarrow> Err (access_denied ''Access Denied.'' resource request_id))"

definition authorization_request ::
  "s3_data_authorization_input \<Rightarrow> s3_authorization_principal \<Rightarrow> s3_authorization_request" where
  "authorization_request input p =
     \<lparr>ar_action = di_action input, ar_bucket_name = di_bucket_name input,
      ar_object_key = di_object_key input, ar_version_id = di_version_id input, ar_principal = p,
      ar_secure_transport = di_secure_transport input, ar_source_ip = di_source_ip input,
      ar_prefix = di_prefix input, ar_delimiter = di_delimiter input, ar_max_keys = di_max_keys input\<rparr>"

definition authorize_s3_policy_principal_request ::
  "app_state \<Rightarrow> s3_data_authorization_input \<Rightarrow> s3_authorization_principal \<Rightarrow> str \<Rightarrow> str
   \<Rightarrow> (s3_api_error + s3_authorized_data_request) option" where
  "authorize_s3_policy_principal_request app input p resource request_id =
     map_option (\<lambda>result. case result of
         Inl _ \<Rightarrow> Err (service_unavailable resource request_id)
       | Inr AuthBucketNotFound \<Rightarrow> Err (no_such_bucket resource request_id)
       | Inr (AuthAllowed bucket) \<Rightarrow> Ok \<lparr>ad_bucket = bucket\<rparr>
       | Inr (AuthExplicitDeny _) \<Rightarrow> Err (access_denied ''Access Denied.'' resource request_id)
       | Inr (AuthImplicitDeny _) \<Rightarrow> Err (access_denied ''Access Denied.'' resource request_id))
     (authorize (app_to_vec app) (app_read app) (app_get_s3_bucket_policy app) (authorization_request input p))"

definition authorize_s3_signed_data_request ::
  "app_state \<Rightarrow> application_auth \<Rightarrow> s3_data_authorization_input \<Rightarrow> str \<Rightarrow> str
   \<Rightarrow> (s3_api_error + s3_authorized_data_request) option" where
  "authorize_s3_signed_data_request app auth input resource request_id =
     (case load_s3_signed_policy_principal app auth input resource request_id of
        Inl e \<Rightarrow> Some (Err e)
      | Inr FailClosed \<Rightarrow>
          Some (s3_fail_closed_for_existing_bucket app (di_bucket_name input) resource request_id)
      | Inr (ResolvedPrincipal p) \<Rightarrow>
          authorize_s3_policy_principal_request app input (Signed p) resource request_id)"

definition authorize_s3_data_request ::
  "app_state \<Rightarrow> str \<Rightarrow> http_uri \<Rightarrow> header_map \<Rightarrow> s3_data_authorization_input \<Rightarrow> str
   \<Rightarrow> (s3_api_error + s3_authorized_data_request) option" where
  "authorize_s3_data_request app method uri headers input request_id =
     (if s3_has_authentication_material (app_env app) headers uri
      then (case authenticate_s3_application app method uri headers [] request_id of
              Inl e \<Rightarrow> Some (Err e)
            | Inr auth \<Rightarrow> authorize_s3_signed_data_request app auth input (u_path uri) request_id)
      else authorize_s3_policy_principal_request app input Anonymous (u_path uri) request_id)"

definition identity_only_input ::
  "s3_policy_action \<Rightarrow> str \<Rightarrow> http_uri \<Rightarrow> ip_addr option \<Rightarrow> s3_data_authorization_input" where
  "identity_only_input action bucket_name uri source_ip =
     \<lparr>di_action = action, di_bucket_name = bucket_name, di_object_key = None, di_version_id = None,
      di_prefix = None, di_delimiter = None, di_max_keys = None,
      di_secure_transport = s3_data_secure_transport uri, di_source_ip = source_ip\<rparr>"

text \<open>The common tail of the two identity-only checks.\<close>

definition authorize_identity_only ::
  "app_state \<Rightarrow> application_auth \<Rightarrow> s3_data_authorization_input \<Rightarrow> str \<Rightarrow> str
   \<Rightarrow> s3_api_error + s3_authorized_account_request" where
  "authorize_identity_only app auth input resource request_id =
     (case load_s3_signed_policy_principal app auth input resource request_id of
        Inl e \<Rightarrow> Err e
      | Inr FailClosed \<Rightarrow> Err (access_denied ''Access Denied.'' resource request_id)
      | Inr (ResolvedPrincipal p) \<Rightarrow>
          if sp_identity_decision p \<noteq> AllowDecision
          then Err (access_denied ''Access Denied.'' resource request_id)
          else Ok \<lparr>aa_application_id = as_id (au_application auth),
                   aa_account_id = account_as_str (sp_account_id p)\<rparr>)"

definition authorize_s3_signed_account_request ::
  "app_state \<Rightarrow> application_auth \<Rightarrow> s3_policy_action \<Rightarrow> http_uri \<Rightarrow> ip_addr option \<Rightarrow> str
   \<Rightarrow> s3_api_error + s3_authorized_account_request" where
  "authorize_s3_signed_account_request app auth action uri source_ip request_id =
     (if scope action \<noteq> AccountScope then Err (service_unavailable (u_path uri) request_id)
      else authorize_identity_only app auth (identity_only_input action [] uri source_ip) (u_path uri) request_id)"

definition authorize_s3_signed_identity_bucket_request ::
  "app_state \<Rightarrow> application_auth \<Rightarrow> s3_policy_action \<Rightarrow> str \<Rightarrow> http_uri \<Rightarrow> ip_addr option \<Rightarrow> str
   \<Rightarrow> s3_api_error + s3_authorized_account_request" where
  "authorize_s3_signed_identity_bucket_request app auth action bucket_name uri source_ip request_id =
     (if scope action \<noteq> BucketScope then Err (service_unavailable (u_path uri) request_id)
      else authorize_identity_only app auth (identity_only_input action bucket_name uri source_ip)
             (u_path uri) request_id)"

definition authorize_s3_signed_owner_bucket_request ::
  "app_state \<Rightarrow> application_auth \<Rightarrow> s3_policy_action \<Rightarrow> str \<Rightarrow> http_uri \<Rightarrow> ip_addr option \<Rightarrow> str
   \<Rightarrow> s3_api_error + s3_authorized_data_request" where
  "authorize_s3_signed_owner_bucket_request app auth action bucket_name uri source_ip request_id =
     and_then (authorize_s3_signed_identity_bucket_request app auth action bucket_name uri source_ip request_id)
       (\<lambda>authorization.
          case app_resolve_s3_bucket_identity app bucket_name of
            Inl _ \<Rightarrow> Err (service_unavailable (u_path uri) request_id)
          | Inr None \<Rightarrow> Err (no_such_bucket (u_path uri) request_id)
          | Inr (Some identity) \<Rightarrow>
              if bi_application_id identity \<noteq> aa_application_id authorization
                 \<or> account_as_str (bi_owner_account_id identity) \<noteq> aa_account_id authorization
              then Err (method_not_allowed ''The specified method is not allowed against this resource.''
                     (u_path uri) request_id)
              else Ok \<lparr>ad_bucket = identity\<rparr>)"

section \<open>Which operation an object read is\<close>

datatype s3_object_version_lock_operation = RetentionOperation | LegalHoldOperation

datatype s3_object_get_operation =
    PlainRead
  | TaggingRead
  | VersionLock s3_object_version_lock_operation
  | AclRead
  | ListParts str
  | UnsupportedSubresource str

definition form_pairs :: "gateway_env \<Rightarrow> http_uri \<Rightarrow> (str \<times> str) list" where
  "form_pairs env uri = ge_form_parse env (query_text uri)"

fun query_value_loop :: "s3_api_error \<Rightarrow> str \<Rightarrow> str option \<Rightarrow> (str \<times> str) list \<Rightarrow> s3_api_error + str option" where
  "query_value_loop dup name v [] = Ok v"
| "query_value_loop dup name v ((candidate, candidate_value) # rest) =
     (if candidate = name
      then (if v \<noteq> None then Err dup else query_value_loop dup name (Some candidate_value) rest)
      else query_value_loop dup name v rest)"

definition s3_query_value :: "gateway_env \<Rightarrow> http_uri \<Rightarrow> str \<Rightarrow> str \<Rightarrow> s3_api_error + str option" where
  "s3_query_value env uri name request_id =
     query_value_loop
       (invalid_argument (''Query parameter '' @ name @ '' must not occur more than once.'')
          (u_path uri) request_id)
       name None (form_pairs env uri)"

definition s3_query_flag :: "gateway_env \<Rightarrow> http_uri \<Rightarrow> str \<Rightarrow> str \<Rightarrow> s3_api_error + bool" where
  "s3_query_flag env uri name request_id =
     and_then (s3_query_value env uri name request_id) (\<lambda>v. Ok (v \<noteq> None))"

fun tagging_loop ::
  "(str \<Rightarrow> s3_api_error) \<Rightarrow> bool \<Rightarrow> bool \<Rightarrow> (str \<times> str) list \<Rightarrow> s3_api_error + bool" where
  "tagging_loop bad tagging_seen version_seen [] = Ok tagging_seen"
| "tagging_loop bad tagging_seen version_seen ((name, v) # rest) =
     (if name = ''tagging'' then
        (if \<not> tagging_seen \<and> v = [] then tagging_loop bad True version_seen rest
         else Err (bad ''The tagging subresource must occur once with an empty value.''))
      else if name = ''versionId'' then
        (if \<not> version_seen then tagging_loop bad tagging_seen True rest
         else Err (bad ''Query parameter versionId must not occur more than once.''))
      else if starts_with name ''X-Amz-'' \<or> name = ''x-id'' then tagging_loop bad tagging_seen version_seen rest
      else if \<not> tagging_seen then tagging_loop bad tagging_seen version_seen rest
      else Err (bad ''Object Tagging cannot be combined with another S3 subresource.''))"

definition tagging_companion :: "str \<Rightarrow> bool" where
  "tagging_companion name \<longleftrightarrow>
     name = ''tagging'' \<or> name = ''versionId'' \<or> starts_with name ''X-Amz-'' \<or> name = ''x-id''"

definition classify_s3_object_tagging :: "gateway_env \<Rightarrow> http_uri \<Rightarrow> str \<Rightarrow> s3_api_error + bool" where
  "classify_s3_object_tagging env uri request_id =
     (let bad = (\<lambda>message. invalid_argument message (u_path uri) request_id)
      in and_then (tagging_loop bad False False (form_pairs env uri)) (\<lambda>tagging_seen.
           if tagging_seen \<and> list_ex (\<lambda>(name, _). \<not> tagging_companion name) (form_pairs env uri)
           then Err (bad ''Object Tagging cannot be combined with another S3 subresource.'')
           else Ok tagging_seen))"

fun reject_present ::
  "gateway_env \<Rightarrow> http_uri \<Rightarrow> str \<Rightarrow> s3_api_error \<Rightarrow> str list \<Rightarrow> s3_api_error + unit" where
  "reject_present env uri request_id e [] = Ok ()"
| "reject_present env uri request_id e (name # names) =
     and_then (s3_query_value env uri name request_id) (\<lambda>v.
       if v \<noteq> None then Err e else reject_present env uri request_id e names)"

definition classify_s3_object_version_lock ::
  "gateway_env \<Rightarrow> http_uri \<Rightarrow> str \<Rightarrow> s3_api_error + s3_object_version_lock_operation option" where
  "classify_s3_object_version_lock env uri request_id =
     and_then (s3_query_value env uri ''retention'' request_id) (\<lambda>retention.
     and_then (s3_query_value env uri ''legal-hold'' request_id) (\<lambda>legal_hold.
       let must_be_empty = (\<lambda>name. invalid_argument
             (name @ '' must be an empty S3 subresource parameter.'') (u_path uri) request_id);
           operation = (if retention \<noteq> None then Some RetentionOperation
             else if legal_hold \<noteq> None then Some LegalHoldOperation else None)
       in if is_some_and retention (\<lambda>v. v \<noteq> []) then Err (must_be_empty ''retention'')
          else if is_some_and legal_hold (\<lambda>v. v \<noteq> []) then Err (must_be_empty ''legal-hold'')
          else if retention \<noteq> None \<and> legal_hold \<noteq> None
          then Err (invalid_request ''retention and legal-hold cannot be combined.'' (u_path uri) request_id)
          else if operation \<noteq> None
          then and_then (reject_present env uri request_id
                 (invalid_request ''Object Lock subresources cannot be combined with another object operation.''
                    (u_path uri) request_id)
                 [''acl'', ''uploadId'', ''partNumber'', ''uploads'']) (\<lambda>_. Ok operation)
          else Ok None))"

fun unsupported_loop ::
  "gateway_env \<Rightarrow> http_uri \<Rightarrow> str \<Rightarrow> str option \<Rightarrow> str list \<Rightarrow> s3_api_error + str option" where
  "unsupported_loop env uri request_id unsupported [] = Ok unsupported"
| "unsupported_loop env uri request_id unsupported (name # names) =
     and_then (s3_query_value env uri name request_id) (\<lambda>v.
       if v \<noteq> None then
         (if unsupported \<noteq> None
          then Err (invalid_request ''Object subresources cannot be combined.'' (u_path uri) request_id)
          else unsupported_loop env uri request_id (Some name) names)
       else unsupported_loop env uri request_id unsupported names)"

definition UNSUPPORTED_SUBRESOURCES :: "str list" where
  "UNSUPPORTED_SUBRESOURCES = [''torrent'', ''select'', ''select-type'', ''restore'', ''attributes'', ''uploads'']"

definition classify_s3_object_get ::
  "gateway_env \<Rightarrow> http_uri \<Rightarrow> str \<Rightarrow> s3_api_error + s3_object_get_operation" where
  "classify_s3_object_get env uri request_id =
     and_then (classify_s3_object_tagging env uri request_id) (\<lambda>tagging.
     and_then (classify_s3_object_version_lock env uri request_id) (\<lambda>version_lock.
     and_then (s3_query_flag env uri ''acl'' request_id) (\<lambda>acl.
     and_then (s3_query_value env uri ''uploadId'' request_id) (\<lambda>upload_id.
     and_then (unsupported_loop env uri request_id None UNSUPPORTED_SUBRESOURCES) (\<lambda>unsupported.
       let operation_count = of_bool tagging + of_bool (version_lock \<noteq> None) + of_bool acl
             + of_bool (upload_id \<noteq> None) + of_bool (unsupported \<noteq> None) :: nat
       in if operation_count > 1
          then Err (invalid_request ''Object subresources cannot be combined.'' (u_path uri) request_id)
          else Ok (if tagging then TaggingRead
                   else case version_lock of Some operation \<Rightarrow> VersionLock operation
                   | None \<Rightarrow> if acl then AclRead
                     else case upload_id of Some u \<Rightarrow> ListParts u
                     | None \<Rightarrow> case unsupported of Some name \<Rightarrow> UnsupportedSubresource name
                       | None \<Rightarrow> PlainRead))))))"

end
