(* ===== verification/S3_Admission.thy ===== *)
theory S3_Admission
  imports S3_Data_Authorization
begin

text \<open>
  What the data plane's authorization guarantees end to end: which requests are admitted, that the
  two kinds of policy judge the same request, who may manage a bucket's policy, and that a plain
  read is nothing else.
\<close>

section \<open>Loading the caller\<close>

lemma load_principal_Ok:
  assumes "load_s3_signed_policy_principal app auth input resource request_id = Ok (ResolvedPrincipal p)"
  obtains hmac ids where "au_hmac_identity auth = Some hmac"
    and "app_get_s3_identity_policy app (hi_access_key_id hmac) = Ok (Some ids)"
    and "ki_application_id (ids_identity ids) = as_id (au_application auth)"
    and "ki_application_id (ids_identity ids) = hi_application_id hmac"
    and "ki_access_key_id (ids_identity ids) = hi_access_key_id hmac"
    and "sp_account_id p = ki_account_id (ids_identity ids)"
    and "sp_identity_decision p = caller_identity_decision app ids input (hi_access_key_id hmac)"
    and "principal_valid (Signed p)"
proof -
  from assms obtain hmac ids where "au_hmac_identity auth = Some hmac"
    "app_get_s3_identity_policy app (hi_access_key_id hmac) = Ok (Some ids)"
    "ki_application_id (ids_identity ids) = as_id (au_application auth)"
    "ki_application_id (ids_identity ids) = hi_application_id hmac"
    "ki_access_key_id (ids_identity ids) = hi_access_key_id hmac"
    and new: "signed_principal_new (ki_account_id (ids_identity ids))
        (caller_arn (ki_account_id (ids_identity ids)) (hi_access_key_id hmac)) (hi_access_key_id hmac)
        (caller_identity_decision app ids input (hi_access_key_id hmac)) = Ok p"
    by (auto simp: load_s3_signed_policy_principal_def Let_def
        split: option.splits sum.splits repository_error.splits if_splits)
  moreover have "sp_account_id p = ki_account_id (ids_identity ids)"
    "sp_identity_decision p = caller_identity_decision app ids input (hi_access_key_id hmac)"
    "principal_valid (Signed p)"
    using new by (auto simp: signed_principal_new_def and_then_Ok_iff split: if_splits)
  ultimately show ?thesis using that by blast
qed

lemma authenticate_Ok:
  assumes "authenticate_s3_application app method uri headers body request_id = Ok auth"
  obtains sg key secret application where "sigv4_parse (app_env app) method uri headers (app_system_now app) = Ok sg"
    and "app_find_active_access_key app (sg_access_key_id sg) (app_utc_now app) = Ok (Some key)"
    and "app_decrypt app (akr_secret_ciphertext key) (akr_secret_key_version key) = Ok secret"
    and "verify (app_env app) sg secret body = Ok ()"
    and "app_find_application_by_id app (akr_application_id key) = Ok (Some application)"
    and "au_application auth = application"
    and "au_hmac_identity auth = Some \<lparr>hi_application_id = akr_application_id key,
           hi_access_key_id = akr_access_key_id key, hi_permissions = akr_permissions key\<rparr>"
proof -
  from assms obtain sg secret x where l: "load_s3_authentication app method uri headers request_id = Ok (sg, secret, x)"
    and c: "(case verify (app_env app) sg secret body of
        Inl e \<Rightarrow> Err (from_sigv4 e (u_path uri) request_id) | Inr _ \<Rightarrow> Ok x) = Ok auth"
    by (auto simp: authenticate_s3_application_def and_then_Ok_iff)
  from c have "verify (app_env app) sg secret body = Ok ()" "x = auth"
    by (cases "verify (app_env app) sg secret body"; simp)+
  with l show ?thesis
    using that by (auto simp: load_s3_authentication_def Let_def split: sum.splits option.splits if_splits)
qed

lemma admitted_by_policies:
  assumes "authorize_s3_policy_principal_request app input p resource request_id = Some (Ok granted)"
    and "principal_valid p"
  obtains snapshot ss where "app_get_s3_bucket_policy app (di_bucket_name input) = Ok (Some snapshot)"
    and "ad_bucket granted = snap_identity snapshot" "bi_bucket_name (snap_identity snapshot) = di_bucket_name input"
    and "installed_statements (app_to_vec app) (app_read app) snapshot = Some ss"
    and "\<not> request_denied (Some ss) (authorization_request input p)"
    and "request_granted (Some ss) (bi_owner_account_id (snap_identity snapshot)) (authorization_request input p)"
proof -
  let ?r = "authorization_request input p"
  let ?get = "app_get_s3_bucket_policy app"
  have bucket: "ar_bucket_name ?r = di_bucket_name input" and prin: "ar_principal ?r = p"
    by (simp_all add: authorization_request_def)
  have a: "authorize (app_to_vec app) (app_read app) ?get ?r = Some (Ok (AuthAllowed (ad_bucket granted)))"
  proof (cases "authorize (app_to_vec app) (app_read app) ?get ?r")
    case (Some z)
    with assms(1) show ?thesis
      by (cases z; cases "projr z") (auto simp: authorize_s3_policy_principal_request_def)
  qed (use assms(1) in \<open>simp add: authorize_s3_policy_principal_request_def\<close>)
  then obtain snapshot where snap: "?get (ar_bucket_name ?r) = Ok (Some snapshot)"
    and same: "bi_bucket_name (snap_identity snapshot) = ar_bucket_name ?r"
    by (auto simp: authorize_def split: sum.splits option.splits if_splits)
  note eq = authorize_eq [where get_policy = ?get and r = ?r and snapshot = snapshot
      and to_vec = "app_to_vec app" and read = "app_read app", OF snap same, unfolded prin, OF assms(2)]
  let ?ss = "installed_statements (app_to_vec app) (app_read app) snapshot"
  from a eq have res: "ad_bucket granted = snap_identity snapshot" "\<not> request_denied ?ss ?r"
      "request_granted ?ss (bi_owner_account_id (snap_identity snapshot)) ?r"
    by (auto split: if_splits)
  from res(3) obtain ss where "?ss = Some ss" by (auto simp: request_granted_def is_some_and_iff)
  with snap same res that show ?thesis by (auto simp: bucket)
qed

section \<open>Properties\<close>

text \<open>C15: every admitted data request is authenticated and granted. When the data plane admits a request,
  it hands out the identity of the bucket the request names, and either the request carried no
  authentication material at all and a statement of the bucket policy allows it without one denying
  it; or its signature verified under the secret of the active access key it names, the identity
  policy evaluated is the one stored for that very key in the key's own application, neither policy
  denies, and the grant comes from either policy inside the owning account and from both outside
  it. In particular a failed or partial signature is never served as an anonymous request.\<close>

theorem data_request_admitted:
  assumes "authorize_s3_data_request app method uri headers input request_id = Some (Ok granted)"
  shows "\<exists>snapshot ss.
      app_get_s3_bucket_policy app (di_bucket_name input) = Ok (Some snapshot)
      \<and> ad_bucket granted = snap_identity snapshot \<and> bi_bucket_name (snap_identity snapshot) = di_bucket_name input
      \<and> installed_statements (app_to_vec app) (app_read app) snapshot = Some ss
      \<and> (if \<not> s3_has_authentication_material (app_env app) headers uri
         then let r = core_policy_request (authorization_request input Anonymous)
              in stated Allow ss r \<and> \<not> stated Deny ss r
         else \<exists>sg key secret ids p.
              sigv4_parse (app_env app) method uri headers (app_system_now app) = Ok sg
              \<and> app_find_active_access_key app (sg_access_key_id sg) (app_utc_now app) = Ok (Some key)
              \<and> app_decrypt app (akr_secret_ciphertext key) (akr_secret_key_version key) = Ok secret
              \<and> verify (app_env app) sg secret [] = Ok ()
              \<and> app_get_s3_identity_policy app (akr_access_key_id key) = Ok (Some ids)
              \<and> ki_application_id (ids_identity ids) = akr_application_id key
              \<and> ki_access_key_id (ids_identity ids) = akr_access_key_id key
              \<and> sp_account_id p = ki_account_id (ids_identity ids)
              \<and> (let decision = caller_identity_decision app ids input (akr_access_key_id key);
                     r = core_policy_request (authorization_request input (Signed p))
                 in decision \<noteq> ExplicitDeny \<and> \<not> stated Deny ss r
                    \<and> (if sp_account_id p = bi_owner_account_id (snap_identity snapshot)
                       then decision = AllowDecision \<or> stated Allow ss r
                       else decision = AllowDecision \<and> stated Allow ss r)))"
proof (cases "s3_has_authentication_material (app_env app) headers uri")
  case False
  with assms have "authorize_s3_policy_principal_request app input Anonymous (u_path uri) request_id = Some (Ok granted)"
    by (simp add: authorize_s3_data_request_def)
  then obtain snapshot ss where "app_get_s3_bucket_policy app (di_bucket_name input) = Ok (Some snapshot)"
    "ad_bucket granted = snap_identity snapshot" "bi_bucket_name (snap_identity snapshot) = di_bucket_name input"
    "installed_statements (app_to_vec app) (app_read app) snapshot = Some ss"
    "\<not> request_denied (Some ss) (authorization_request input Anonymous)"
    "request_granted (Some ss) (bi_owner_account_id (snap_identity snapshot)) (authorization_request input Anonymous)"
    by (rule admitted_by_policies) simp
  with False show ?thesis
    by (intro exI [of _ snapshot] exI [of _ ss])
       (auto simp: request_denied_def request_granted_def Let_def authorization_request_def)
next
  case True
  with assms obtain auth where auth: "authenticate_s3_application app method uri headers [] request_id = Ok auth"
    and signed: "authorize_s3_signed_data_request app auth input (u_path uri) request_id = Some (Ok granted)"
    by (auto simp: authorize_s3_data_request_def split: sum.splits)
  from signed obtain p where p: "load_s3_signed_policy_principal app auth input (u_path uri) request_id = Ok (ResolvedPrincipal p)"
    and adm: "authorize_s3_policy_principal_request app input (Signed p) (u_path uri) request_id = Some (Ok granted)"
    by (auto simp: authorize_s3_signed_data_request_def s3_fail_closed_for_existing_bucket_def
        split: sum.splits s3_signed_principal_resolution.splits option.splits)
  from auth obtain sg key secret application where a: "sigv4_parse (app_env app) method uri headers (app_system_now app) = Ok sg"
    "app_find_active_access_key app (sg_access_key_id sg) (app_utc_now app) = Ok (Some key)"
    "app_decrypt app (akr_secret_ciphertext key) (akr_secret_key_version key) = Ok secret"
    "verify (app_env app) sg secret [] = Ok ()"
    "app_find_application_by_id app (akr_application_id key) = Ok (Some application)" "au_application auth = application"
    and hmac: "au_hmac_identity auth = Some \<lparr>hi_application_id = akr_application_id key,
           hi_access_key_id = akr_access_key_id key, hi_permissions = akr_permissions key\<rparr>"
    by (rule authenticate_Ok)
  from p obtain ids where i: "app_get_s3_identity_policy app (akr_access_key_id key) = Ok (Some ids)"
    "ki_application_id (ids_identity ids) = akr_application_id key"
    "ki_access_key_id (ids_identity ids) = akr_access_key_id key"
    "sp_account_id p = ki_account_id (ids_identity ids)"
    "sp_identity_decision p = caller_identity_decision app ids input (akr_access_key_id key)"
    and valid: "principal_valid (Signed p)"
    by (rule load_principal_Ok) (use hmac in auto)
  from adm valid obtain snapshot ss where g: "app_get_s3_bucket_policy app (di_bucket_name input) = Ok (Some snapshot)"
    "ad_bucket granted = snap_identity snapshot" "bi_bucket_name (snap_identity snapshot) = di_bucket_name input"
    "installed_statements (app_to_vec app) (app_read app) snapshot = Some ss"
    and r: "\<not> request_denied (Some ss) (authorization_request input (Signed p))"
    "request_granted (Some ss) (bi_owner_account_id (snap_identity snapshot)) (authorization_request input (Signed p))"
    by (rule admitted_by_policies)
  have prin: "ar_principal (authorization_request input (Signed p)) = Signed p" by (simp add: authorization_request_def)
  let ?r = "core_policy_request (authorization_request input (Signed p))"
  let ?d = "caller_identity_decision app ids input (akr_access_key_id key)"
  from r have "?d \<noteq> ExplicitDeny" "\<not> stated Deny ss ?r"
    "if sp_account_id p = bi_owner_account_id (snap_identity snapshot)
     then ?d = AllowDecision \<or> stated Allow ss ?r else ?d = AllowDecision \<and> stated Allow ss ?r"
    by (simp_all add: request_denied_def request_granted_def prin principal_identity_decision_def Let_def i(5)
        split: if_split_asm)
  with a(1-4) i g True show ?thesis
    unfolding Let_def
    by (intro exI [of _ snapshot] exI [of _ ss] conjI)
       (simp_all del: Product_Type.split_paired_Ex if_split, intro exI [of _ sg] exI [of _ key] exI [of _ secret] exI [of _ ids] exI [of _ p],
        simp)
qed

text \<open>An application that holds the bucket \<open>photos\<close> and one access key with full rights.\<close>

definition full_rights_reader :: json_reader where
  "full_rights_reader document =
     (if document = ''{}'' then reader_example document
      else Some (JObject
        [(''Version'', JString ''2012-10-17''),
         (''Statement'', JObject
            [(''Effect'', JString ''Allow''), (''Action'', JString ''s3:*''), (''Resource'', JString ''*'')])]))"

definition example_identity :: s3_identity_policy_snapshot where
  "example_identity =
     \<lparr>ids_identity = \<lparr>ki_application_id = 2, ki_account_id = S3AccountId ''123456789012'', ki_access_key_id = ''key''\<rparr>,
      ids_policy = Some \<lparr>idoc_stable_json = ''[]'', idoc_sha256 = []\<rparr>, ids_revision = 1, ids_updated_at = Some 0\<rparr>"

definition example_application :: application_summary where
  "example_application =
     \<lparr>as_id = 2, as_name = ''photos'', as_app_id = ''app'',
      as_quota = \<lparr>quota_bytes = 100, used_bytes = 0, reserved_bytes = 0\<rparr>\<rparr>"

definition example_app :: app_state where
  "example_app =
     \<lparr>app_env = example_env\<lparr>ge_form_parse := \<lambda>_. []\<rparr>, app_to_vec = example_writer,
      app_read = full_rights_reader, app_system_now = 7, app_utc_now = 7,
      app_find_active_access_key = (\<lambda>_ _. Ok None), app_find_application_by_id = (\<lambda>_. Ok (Some example_application)),
      app_decrypt = (\<lambda>_ _. Ok []), app_get_s3_bucket_policy = photos_lookup,
      app_resolve_s3_bucket_identity = (\<lambda>_. Ok (Some (snap_identity photos_snapshot))),
      app_get_s3_identity_policy = (\<lambda>_. Ok (Some example_identity))\<rparr>"

definition example_auth :: application_auth where
  "example_auth =
     \<lparr>au_application = example_application,
      au_hmac_identity = Some \<lparr>hi_application_id = 2, hi_access_key_id = ''key'', hi_permissions = []\<rparr>,
      au_actor_type = ''access_key'', au_actor_id = ''key''\<rparr>"

lemma full_rights_matches: "glob_matches ''s3:*'' ''s3:GetBucketPolicy'' True" "glob_matches ''*'' t False"
  unfolding glob_matches_spec
  using glob_spec_prefix [of True "chars ''s3:''" "chars ''GetBucketPolicy''"] glob_spec_prefix [of False "[]" "chars t"]
  by simp_all

lemma full_rights_statement:
  "parse_statement IdentityKind (JObject
        [(''Action'', JString ''s3:*''), (''Effect'', JString ''Allow''), (''Resource'', JString ''*'')])
   = Ok \<lparr>ps_sid = None, ps_effect = Allow, ps_principal = None, ps_actions = Action [''s3:*''],
         ps_resources = Resource [''*''], ps_conditions = []\<rparr>" (is "parse_statement _ (JObject ?m) = _")
proof -
  have "action_pattern_ok ALL_ACTIONS ''s3:*''"
    using full_rights_matches(1) all_actions_complete [of GetBucketPolicy]
    by (auto simp: action_pattern_ok_def eq_ignore_ascii_case_def is_ascii_alphanumeric_def
        is_ascii_digit_def is_ascii_lowercase_def is_ascii_uppercase_def to_ascii_lowercase_def
        byte_lower_def list_ex_iff intro: bexI [of _ GetBucketPolicy])
  then have actions: "parse_actions IdentityKind ?m = Ok (Action [''s3:*''])"
    by (simp add: parse_actions_def exclusive_clause_def parse_patterns_def
        parse_string_values_def pattern_ok_def MAX_S3_POLICY_ACTIONS_def MAX_S3_POLICY_STRING_BYTES_def
        char_is_control_def starts_with_def validate_action_patterns_def)
  have resources: "parse_resources IdentityKind ?m = Ok (Resource [''*''])"
    by (simp add: parse_resources_def exclusive_clause_def parse_patterns_def
        parse_string_values_def pattern_ok_def MAX_S3_POLICY_RESOURCES_def MAX_S3_POLICY_STRING_BYTES_def
        char_is_control_def starts_with_def validate_resources_def valid_identity_resource_def)
  have "filter (\<lambda>a. action_clause_matches (Action [''s3:*'']) a
      \<and> scope a \<in> resource_clause_scopes (Resource [''*'']) IdentityKind) ALL_ACTIONS \<noteq> []"
    unfolding filter_empty_conv
    using full_rights_matches(1) all_actions_complete [of GetBucketPolicy]
    by (intro notI) (drule bspec [of _ _ GetBucketPolicy], simp_all add: pattern_scopes_def)
  then have compat: "validate_action_resource_compatibility (Action [''s3:*'']) (Resource [''*'']) IdentityKind = Ok ()"
    by (simp only: validate_action_resource_compatibility_def Let_def supported_actions.simps length_0_conv if_False)
  have "parse_effect ?m = Ok Allow" "parse_sid ?m = Ok None" "parse_principal_clause IdentityKind ?m = Ok None"
      "reject_unknown_fields ?m (allowed_fields IdentityKind) = Ok ()"
    by (simp_all add: parse_effect_def required_string_def MAX_S3_POLICY_STRING_BYTES_def parse_sid_def
        exclusive_clause_def parse_principal_def reject_unknown_fields_def)
  with actions resources compat show ?thesis
    by (simp add: parse_statement_def object_of_def del: parse_principal_clause.simps allowed_fields.simps)
qed

lemma full_rights_parsed:
  "identity_policy_parse full_rights_reader ''[]'' = Ok
     \<lparr>ip_version = ''2012-10-17'', ip_id = None, ip_statements =
        [\<lparr>is_sid = None, is_effect = Allow, is_actions = Action [''s3:*''], is_resources = Resource [''*''],
          is_conditions = []\<rparr>]\<rparr>"
proof -
  have "parse_unique_json full_rights_reader ''[]'' = Ok (JObject
     [(''Statement'', JObject
        [(''Action'', JString ''s3:*''), (''Effect'', JString ''Allow''), (''Resource'', JString ''*'')]),
      (''Version'', JString ''2012-10-17'')])"
    by (simp add: parse_unique_json_def full_rights_reader_def unique_value.simps)
  then show ?thesis
    by (simp add: identity_policy_parse_def parse_policy_document_def MAX_S3_POLICY_BYTES_def
        MAX_S3_POLICY_DEPTH_def validate_json_string_limits.simps MAX_S3_POLICY_STRING_BYTES_def
        object_of_def reject_unknown_fields_def required_string_def S3_POLICY_VERSION_def
        parse_document_id_def statement_values_def MAX_S3_POLICY_STATEMENTS_def full_rights_statement)
qed

lemma example_signed_principal:
  "signed_principal_new (S3AccountId ''123456789012'') (caller_arn (S3AccountId ''123456789012'') ''key'') ''key'' d
     = Ok \<lparr>sp_account_id = S3AccountId ''123456789012'', sp_principal_arn = ''arn:aws:iam::123456789012:user/key'',
           sp_userid = ''key'', sp_identity_decision = d\<rparr>"
proof -
  have "validate_principal_arn ''arn:aws:iam::123456789012:user/key'' ''123456789012'' = Ok ()" by code_simp
  then show ?thesis
    by (simp add: signed_principal_new_def caller_arn_def MAX_S3_POLICY_STRING_BYTES_def char_is_control_def)
qed

lemma example_identity_allows:
  assumes "di_action input = GetBucketPolicy" "di_object_key input = None" "di_bucket_name input = ''photos''"
    "di_version_id input = None" "di_prefix input = None" "di_delimiter input = None"
  shows "caller_identity_decision example_app example_identity input ''key'' = AllowDecision"
proof -
  let ?arn = "''arn:aws:iam::123456789012:user/key''"
  have "valid_runtime_principal_arn ?arn" by code_simp
  moreover have "valid_account_id ''123456789012''" by code_simp
  ultimately show ?thesis
    using assms photos_name full_rights_matches
    by (simp add: caller_identity_decision_def example_identity_def example_app_def full_rights_parsed
        s3_identity_policy_request_def caller_arn_def identity_request_bucket_def identity_request_new_def
        identity_policy_evaluate_def identity_evaluation_request_def request_context_is_well_formed_def
        MAX_S3_POLICY_STRING_BYTES_def char_is_control_def evaluate_statements_eq identity_statement_matches_def
        evaluation_request_new_def)
qed

lemma example_owner_request:
  "authorize_s3_signed_owner_bucket_request example_app example_auth GetBucketPolicy ''photos'' example_uri None ''r''
     = Ok \<lparr>ad_bucket = snap_identity photos_snapshot\<rparr>"
proof -
  let ?input = "identity_only_input GetBucketPolicy ''photos'' example_uri None"
  have "caller_identity_decision example_app example_identity ?input ''key'' = AllowDecision"
    by (rule example_identity_allows) (simp_all add: identity_only_input_def)
  then have "load_s3_signed_policy_principal example_app example_auth ?input resource ''r''
      = Ok (ResolvedPrincipal \<lparr>sp_account_id = S3AccountId ''123456789012'',
          sp_principal_arn = ''arn:aws:iam::123456789012:user/key'', sp_userid = ''key'',
          sp_identity_decision = AllowDecision\<rparr>)" for resource
    using example_signed_principal [of AllowDecision]
    by (simp add: load_s3_signed_policy_principal_def example_auth_def example_application_def)
       (simp add: example_app_def example_identity_def Let_def)
  then show ?thesis
    by (simp add: authorize_s3_signed_owner_bucket_request_def authorize_s3_signed_identity_bucket_request_def
        authorize_identity_only_def)
       (simp add: example_app_def photos_snapshot_def example_auth_def example_application_def)
qed

lemma example_anonymous_request:
  "authorize_s3_data_request example_app ''GET'' example_uri []
     \<lparr>di_action = GetObject, di_bucket_name = ''photos'', di_object_key = Some ''a'', di_version_id = None,
      di_prefix = None, di_delimiter = None, di_max_keys = None, di_secure_transport = True, di_source_ip = None\<rparr> ''r''
   = Some (Ok \<lparr>ad_bucket = snap_identity photos_snapshot\<rparr>)" (is "authorize_s3_data_request _ _ _ _ ?input _ = _")
proof -
  have stmts: "installed_statements example_writer full_rights_reader photos_snapshot = Some (bp_statements parsed_example)"
  proof -
    have "bucket_policy_parse full_rights_reader ''{}'' ''photos'' = bucket_policy_parse reader_example ''{}'' ''photos''"
      by (simp add: bucket_policy_parse_def parse_policy_document_def parse_unique_json_def full_rights_reader_def)
    then show ?thesis
      by (simp add: installed_statements_def photos_snapshot_def example_writer_def reader_example_parsed)
  qed
  have req: "authorization_request ?input Anonymous = anonymous_get"
    by (simp add: authorization_request_def anonymous_get_def)
  have "authorize example_writer full_rights_reader photos_lookup anonymous_get
      = Some (Ok (AuthAllowed (snap_identity photos_snapshot)))"
    using authorize_eq [where get_policy = photos_lookup, OF photos_lookup_hit, of example_writer full_rights_reader]
      anonymous_get_granted
    by (simp add: stmts request_denied_def principal_identity_decision_def) (simp add: anonymous_get_def)
  then show ?thesis
    by (simp add: authorize_s3_data_request_def s3_has_authentication_material_def example_app_def
        header_contains_def header_get_def authorize_s3_policy_principal_request_def req)
qed

theorem data_request_admitted_witness:
  "\<exists>snapshot ss. installed_statements example_writer full_rights_reader snapshot = Some ss
     \<and> stated Allow ss (core_policy_request anonymous_get)"
proof -
  have "\<not> s3_has_authentication_material (app_env example_app) [] example_uri"
    by (simp add: s3_has_authentication_material_def example_app_def header_contains_def header_get_def)
  with data_request_admitted [OF example_anonymous_request] show ?thesis
    by (auto simp: Let_def authorization_request_def anonymous_get_def example_app_def)
qed

text \<open>C21: both policies judge the same request. For every bucket or object action and every caller the
  service accepts, the identity policy and the bucket policy are evaluated on one and the same
  request (resource name, principal, version, transport, address and query), and when the request
  is malformed both refuse to evaluate it.\<close>

theorem policies_see_same_request:
  assumes "signed_principal_new account arn key d = Ok p" and "scope (di_action input) \<noteq> AccountScope"
  shows "Option.bind (s3_identity_policy_request input arn (account_as_str account) key) identity_evaluation_request
       = bucket_evaluation_request (core_policy_request (authorization_request input (Signed p)))"
proof -
  from assms(1) have p: "sp_account_id p = account" "sp_principal_arn p = arn" "sp_userid p = key"
    by (auto simp: signed_principal_new_def and_then_Ok_iff split: if_splits)
  let ?c = "core_policy_request (authorization_request input (Signed p))"
  have core: "?c = \<lparr>rc_version_id = di_version_id input, rc_principal_arn = Some arn,
       rc_principal_account = Some (account_as_str account), rc_userid = Some key,
       rc_secure_transport = di_secure_transport input, rc_source_ip = di_source_ip input,
       rc_query = \<lparr>q_prefix = di_prefix input, q_delimiter = di_delimiter input, q_max_keys = di_max_keys input\<rparr>,
       pr_action = di_action input, pr_bucket = di_bucket_name input, pr_key = di_object_key input\<rparr>"
    by (simp add: core_policy_request_def authorization_request_def p)
  show ?thesis
    unfolding core using assms(2)
    by (cases "scope (di_action input)"; cases "di_object_key input")
       (simp_all add: s3_identity_policy_request_def identity_evaluation_request_def bucket_evaluation_request_def
         request_is_well_formed_def identity_request_bucket_def identity_request_object_def identity_request_new_def
         evaluation_request_new_def request_context_is_well_formed_def)
qed

theorem policies_see_same_request_witness:
  "Option.bind (s3_identity_policy_request (identity_only_input GetBucketPolicy ''photos'' example_uri None)
       ''arn:aws:iam::123456789012:user/key'' ''123456789012'' ''key'') identity_evaluation_request
   = bucket_evaluation_request (core_policy_request (authorization_request
       (identity_only_input GetBucketPolicy ''photos'' example_uri None)
       (Signed \<lparr>sp_account_id = S3AccountId ''123456789012'', sp_principal_arn = ''arn:aws:iam::123456789012:user/key'',
                sp_userid = ''key'', sp_identity_decision = AllowDecision\<rparr>)))"
  using policies_see_same_request [OF example_signed_principal [of AllowDecision],
      of "identity_only_input GetBucketPolicy ''photos'' example_uri None"]
  by (simp add: identity_only_input_def caller_arn_def)

text \<open>C20: only the owner manages a bucket's policy. The check in front of reading, replacing and deleting
  a bucket policy succeeds only for a caller whose application and account own the bucket and whose
  own identity policy allows the action; no bucket policy has any say in it, so a policy can never
  authorize its own replacement.\<close>

theorem policy_management_owner_only:
  assumes "authorize_s3_signed_owner_bucket_request app auth action bucket_name uri source_ip request_id = Ok granted"
  shows "\<exists>hmac ids. au_hmac_identity auth = Some hmac
      \<and> app_get_s3_identity_policy app (hi_access_key_id hmac) = Ok (Some ids)
      \<and> ki_application_id (ids_identity ids) = as_id (au_application auth)
      \<and> app_resolve_s3_bucket_identity app bucket_name = Ok (Some (ad_bucket granted))
      \<and> bi_application_id (ad_bucket granted) = as_id (au_application auth)
      \<and> bi_owner_account_id (ad_bucket granted) = ki_account_id (ids_identity ids)
      \<and> scope action = BucketScope
      \<and> caller_identity_decision app ids (identity_only_input action bucket_name uri source_ip) (hi_access_key_id hmac)
          = AllowDecision
      \<and> authorize_s3_signed_owner_bucket_request (app\<lparr>app_get_s3_bucket_policy := lookup\<rparr>) auth action bucket_name
          uri source_ip request_id = Ok granted"
proof -
  let ?input = "identity_only_input action bucket_name uri source_ip"
  from assms obtain a where a: "authorize_s3_signed_identity_bucket_request app auth action bucket_name uri source_ip request_id = Ok a"
    and c: "(case app_resolve_s3_bucket_identity app bucket_name of
          Inl _ \<Rightarrow> Err (service_unavailable (u_path uri) request_id)
        | Inr None \<Rightarrow> Err (no_such_bucket (u_path uri) request_id)
        | Inr (Some identity) \<Rightarrow>
            if bi_application_id identity \<noteq> aa_application_id a
               \<or> account_as_str (bi_owner_account_id identity) \<noteq> aa_account_id a
            then Err (method_not_allowed ''The specified method is not allowed against this resource.'' (u_path uri) request_id)
            else Ok \<lparr>ad_bucket = identity\<rparr>) = Ok granted"
    unfolding authorize_s3_signed_owner_bucket_request_def and_then_Ok_iff by blast
  from a obtain p where p: "load_s3_signed_policy_principal app auth ?input (u_path uri) request_id = Ok (ResolvedPrincipal p)"
      "sp_identity_decision p = AllowDecision" "scope action = BucketScope"
    and a': "aa_application_id a = as_id (au_application auth)" "aa_account_id a = account_as_str (sp_account_id p)"
    by (auto simp: authorize_s3_signed_identity_bucket_request_def authorize_identity_only_def
        split: if_splits sum.split_asm s3_signed_principal_resolution.split_asm)
  from c a' have b: "app_resolve_s3_bucket_identity app bucket_name = Ok (Some (ad_bucket granted))"
      "bi_application_id (ad_bucket granted) = as_id (au_application auth)"
      "account_as_str (bi_owner_account_id (ad_bucket granted)) = account_as_str (sp_account_id p)"
    by (auto split: sum.split_asm option.split_asm if_splits)
  from p(1) obtain hmac ids where i: "au_hmac_identity auth = Some hmac"
    "app_get_s3_identity_policy app (hi_access_key_id hmac) = Ok (Some ids)"
    "ki_application_id (ids_identity ids) = as_id (au_application auth)"
    "sp_account_id p = ki_account_id (ids_identity ids)"
    "sp_identity_decision p = caller_identity_decision app ids ?input (hi_access_key_id hmac)"
    by (rule load_principal_Ok)
  have load: "load_s3_signed_policy_principal (app\<lparr>app_get_s3_bucket_policy := lookup\<rparr>) auth ?input (u_path uri) request_id
      = load_s3_signed_policy_principal app auth ?input (u_path uri) request_id"
  proof -
    have "app_get_s3_identity_policy (app\<lparr>app_get_s3_bucket_policy := lookup\<rparr>) = app_get_s3_identity_policy app"
      "caller_identity_decision (app\<lparr>app_get_s3_bucket_policy := lookup\<rparr>) = caller_identity_decision app"
      by (simp_all add: fun_eq_iff caller_identity_decision_def Let_def split: option.split sum.split)
    then show ?thesis unfolding load_s3_signed_policy_principal_def by (simp only:)
  qed
  have "authorize_s3_signed_owner_bucket_request (app\<lparr>app_get_s3_bucket_policy := lookup\<rparr>) auth action bucket_name
          uri source_ip request_id = Ok granted"
  proof -
    have "app_resolve_s3_bucket_identity (app\<lparr>app_get_s3_bucket_policy := lookup\<rparr>) = app_resolve_s3_bucket_identity app"
      by simp
    with assms load show ?thesis
      unfolding authorize_s3_signed_owner_bucket_request_def authorize_s3_signed_identity_bucket_request_def
        authorize_identity_only_def
      by (simp only:)
  qed
  moreover have "bi_owner_account_id (ad_bucket granted) = sp_account_id p" using b(3) by (rule s3_account_id.expand)
  ultimately show ?thesis using i b p by auto
qed

theorem policy_management_owner_only_witness:
  "authorize_s3_signed_owner_bucket_request (example_app\<lparr>app_get_s3_bucket_policy := \<lambda>_. Ok None\<rparr>) example_auth
     GetBucketPolicy ''photos'' example_uri None ''r'' = Ok \<lparr>ad_bucket = snap_identity photos_snapshot\<rparr>"
  using policy_management_owner_only [OF example_owner_request] by blast

lemma query_value_loop_None:
  "query_value_loop dup name v pairs = Ok None \<Longrightarrow> v = None \<and> name \<notin> fst ` set pairs"
  by (induction dup name v pairs rule: query_value_loop.induct) (auto split: if_splits)

lemma s3_query_value_None: "s3_query_value env uri name request_id = Ok None \<Longrightarrow> name \<notin> fst ` set (form_pairs env uri)"
  unfolding s3_query_value_def by (drule query_value_loop_None) simp

lemma tagging_loop_False:
  "tagging_loop bad seen version_seen pairs = Ok False \<Longrightarrow> \<not> seen \<and> ''tagging'' \<notin> fst ` set pairs"
  by (induction bad seen version_seen pairs rule: tagging_loop.induct) (auto split: if_splits)

lemma unsupported_loop_None:
  "unsupported_loop env uri request_id u names = Ok None \<Longrightarrow>
     u = None \<and> (\<forall>name \<in> set names. name \<notin> fst ` set (form_pairs env uri))"
proof (induction names arbitrary: u)
  case (Cons name names)
  then obtain v where v: "s3_query_value env uri name request_id = Ok v"
    and rest: "(if v \<noteq> None then (if u \<noteq> None
          then Err (invalid_request ''Object subresources cannot be combined.'' (u_path uri) request_id)
          else unsupported_loop env uri request_id (Some name) names)
        else unsupported_loop env uri request_id u names) = Ok None"
    by (auto simp: and_then_Ok_iff)
  from rest have "v = None" using Cons.IH [of "Some name"] by (cases "v = None"; cases "u = None") auto
  with v rest Cons.IH [of u] show ?case by (auto dest!: s3_query_value_None)
qed simp

lemma version_lock_None:
  "classify_s3_object_version_lock env uri request_id = Ok None \<Longrightarrow>
     ''retention'' \<notin> fst ` set (form_pairs env uri) \<and> ''legal-hold'' \<notin> fst ` set (form_pairs env uri)"
  by (auto simp: classify_s3_object_version_lock_def and_then_Ok_iff Let_def split: if_splits dest: s3_query_value_None)

text \<open>A plain read names no subresource. When the query of an object read is classified as a plain
  read, it contains none of the parameters that select another operation, so the action that is
  authorized for it is the one that is performed; parameters given twice or in combination are
  rejected.\<close>

theorem plain_read_names_no_subresource:
  assumes "classify_s3_object_get env uri request_id = Ok PlainRead"
    and "name \<in> {''tagging'', ''retention'', ''legal-hold'', ''acl'', ''uploadId''} \<union> set UNSUPPORTED_SUBRESOURCES"
  shows "name \<notin> fst ` set (form_pairs env uri)"
proof -
  from assms(1) have "classify_s3_object_tagging env uri request_id = Ok False"
    and lock: "classify_s3_object_version_lock env uri request_id = Ok None"
    and acl: "s3_query_flag env uri ''acl'' request_id = Ok False"
    and upload: "s3_query_value env uri ''uploadId'' request_id = Ok None"
    and other: "unsupported_loop env uri request_id None UNSUPPORTED_SUBRESOURCES = Ok None"
    by (auto simp: classify_s3_object_get_def and_then_Ok_iff Let_def split: if_splits option.split_asm)
  then have "tagging_loop (\<lambda>message. invalid_argument message (u_path uri) request_id) False False (form_pairs env uri) = Ok False"
    by (auto simp: classify_s3_object_tagging_def Let_def and_then_Ok_iff split: if_splits)
  from tagging_loop_False [OF this] have tagging: "''tagging'' \<notin> fst ` set (form_pairs env uri)" by simp
  from acl have "s3_query_value env uri ''acl'' request_id = Ok None" by (auto simp: s3_query_flag_def and_then_Ok_iff)
  from s3_query_value_None [OF this] s3_query_value_None [OF upload] version_lock_None [OF lock] tagging
  have "\<forall>n \<in> {''tagging'', ''retention'', ''legal-hold'', ''acl'', ''uploadId''}. n \<notin> fst ` set (form_pairs env uri)"
    by (simp only: ball_simps) simp
  with unsupported_loop_None [OF other] assms(2) show ?thesis by (metis UnE)
qed

end
