(* ===== verification/S3_List.thy ===== *)
theory S3_List
  imports S3_Data_Authorization S3_Repository
begin

text \<open>
  The object listing of the S3 endpoint: the query parameters of ListObjectsV2, the continuation tokens
  and the XML document of \<^verbatim>\<open>crates/mediahub-server/src/s3_list.rs\<close>, and the handler
  \<open>s3_list_objects\<close> of \<^verbatim>\<open>s3_http_core.rs\<close>.

  Third-party code is in the record \<open>token_env\<close>: the AES-GCM cipher under the server's key, URL-safe
  base64 without padding, and the RFC 3339 text of an instant.
\<close>

section \<open>Errors\<close>

datatype s3_list_error =
    MissingListType
  | UnsupportedListType
  | DuplicateParameter str
  | InvalidDelimiter
  | InvalidMaxKeys
  | InvalidEncodingType
  | InvalidPrefix
  | InvalidStartAfter
  | InvalidContinuationToken
  | ConflictingCursors
  | InvalidBucketContext
  | InvalidInternalCursor
  | TokenEncodingFailed
  | PageExceedsMaxKeys
  | InvalidLastModified
  | InvalidXmlCharacter

fun list_error_text :: "s3_list_error \<Rightarrow> str" where
  "list_error_text MissingListType = ''list-type is required''"
| "list_error_text UnsupportedListType = ''only list-type=2 is supported''"
| "list_error_text (DuplicateParameter name) = ''query parameter '' @ name @ '' must not occur more than once''"
| "list_error_text InvalidDelimiter = ''delimiter must be empty or /''"
| "list_error_text InvalidMaxKeys = ''max-keys must be an integer between 0 and 1000''"
| "list_error_text InvalidEncodingType = ''encoding-type must be url''"
| "list_error_text InvalidPrefix = ''prefix is invalid''"
| "list_error_text InvalidStartAfter = ''start-after is invalid''"
| "list_error_text InvalidContinuationToken = ''continuation-token is invalid''"
| "list_error_text ConflictingCursors = ''continuation-token and start-after cannot be used together''"
| "list_error_text InvalidBucketContext = ''the continuation token bucket context is invalid''"
| "list_error_text InvalidInternalCursor = ''the internal continuation cursor is invalid''"
| "list_error_text TokenEncodingFailed = ''continuation token encoding failed''"
| "list_error_text PageExceedsMaxKeys = ''the result page contains more entries than max-keys''"
| "list_error_text InvalidLastModified = ''last-modified cannot be represented as an S3 timestamp''"
| "list_error_text InvalidXmlCharacter = ''response contains a character that XML 1.0 cannot represent''"

definition from_list :: "s3_list_error \<Rightarrow> str \<Rightarrow> str \<Rightarrow> s3_api_error" where
  "from_list e resource request_id =
     (if e \<in> {TokenEncodingFailed, PageExceedsMaxKeys, InvalidLastModified, InvalidXmlCharacter,
              InvalidInternalCursor, InvalidBucketContext}
      then service_unavailable resource request_id
      else invalid_argument (list_error_text e) resource request_id)"

definition s3_list_api_error :: "s3_list_error \<Rightarrow> str \<Rightarrow> str \<Rightarrow> s3_api_error" where
  "s3_list_api_error e resource request_id =
     (if e = InvalidContinuationToken
      then api_error_new 400 ''InvalidToken'' (list_error_text e) resource request_id
      else from_list e resource request_id)"

section \<open>The query\<close>

definition MAX_TOKEN_BYTES :: nat where
  "MAX_TOKEN_BYTES = 8 * 1024"

definition MAX_INTERNAL_CURSOR_BYTES :: nat where
  "MAX_INTERNAL_CURSOR_BYTES = 4 * 1024"

definition MAX_KEY_BYTES :: nat where
  "MAX_KEY_BYTES = 1024"

definition MAX_KEYS :: nat where
  "MAX_KEYS = 1000"

datatype list_encoding_type = UrlEncoding

record list_objects_v2_query =
  lo_prefix :: str
  lo_delimiter :: "str option"
  lo_max_keys :: nat
  lo_continuation_token :: "str option"
  lo_start_after :: "str option"
  lo_encoding_type :: "list_encoding_type option"

text \<open>The parameters found so far, one slot each.\<close>

record list_slots =
  ls_list_type :: "str option"
  ls_prefix :: "str option"
  ls_delimiter :: "str option"
  ls_max_keys :: "str option"
  ls_continuation_token :: "str option"
  ls_start_after :: "str option"
  ls_encoding_type :: "str option"

definition empty_slots :: list_slots where
  "empty_slots = \<lparr>ls_list_type = None, ls_prefix = None, ls_delimiter = None, ls_max_keys = None,
                  ls_continuation_token = None, ls_start_after = None, ls_encoding_type = None\<rparr>"

definition set_once :: "str option \<Rightarrow> str \<Rightarrow> s3_list_error + unit" where
  "set_once slot name = (if slot \<noteq> None then Err (DuplicateParameter name) else Ok ())"

definition set_slot :: "list_slots \<Rightarrow> str \<Rightarrow> str \<Rightarrow> s3_list_error + list_slots" where
  "set_slot s name v =
     (if name = ''list-type''
      then and_then (set_once (ls_list_type s) name) (\<lambda>_. Ok (s\<lparr>ls_list_type := Some v\<rparr>))
      else if name = ''prefix''
      then and_then (set_once (ls_prefix s) name) (\<lambda>_. Ok (s\<lparr>ls_prefix := Some v\<rparr>))
      else if name = ''delimiter''
      then and_then (set_once (ls_delimiter s) name) (\<lambda>_. Ok (s\<lparr>ls_delimiter := Some v\<rparr>))
      else if name = ''max-keys''
      then and_then (set_once (ls_max_keys s) name) (\<lambda>_. Ok (s\<lparr>ls_max_keys := Some v\<rparr>))
      else if name = ''continuation-token''
      then and_then (set_once (ls_continuation_token s) name) (\<lambda>_. Ok (s\<lparr>ls_continuation_token := Some v\<rparr>))
      else if name = ''start-after''
      then and_then (set_once (ls_start_after s) name) (\<lambda>_. Ok (s\<lparr>ls_start_after := Some v\<rparr>))
      else if name = ''encoding-type''
      then and_then (set_once (ls_encoding_type s) name) (\<lambda>_. Ok (s\<lparr>ls_encoding_type := Some v\<rparr>))
      else Ok s)"

fun collect_slots :: "list_slots \<Rightarrow> (str \<times> str) list \<Rightarrow> s3_list_error + list_slots" where
  "collect_slots s [] = Ok s"
| "collect_slots s ((name, v) # rest) = and_then (set_slot s name v) (\<lambda>s. collect_slots s rest)"

definition parse_max_keys :: "str \<Rightarrow> s3_list_error + nat" where
  "parse_max_keys v =
     (if v = [] \<or> \<not> list_all is_ascii_digit v then Err InvalidMaxKeys
      else and_then (ok_or InvalidMaxKeys (parse_uint (2 ^ 64 - 1) v)) (\<lambda>n.
        if n > MAX_KEYS then Err InvalidMaxKeys else Ok n))"

definition validate_key_like :: "str \<Rightarrow> bool" where
  "validate_key_like v \<longleftrightarrow> length v \<le> MAX_KEY_BYTES \<and> CHR 0x00 \<notin> set v"

definition list_query_of_slots :: "list_slots \<Rightarrow> s3_list_error + list_objects_v2_query" where
  "list_query_of_slots s =
     and_then (case ls_list_type s of
                 None \<Rightarrow> Err MissingListType
               | Some t \<Rightarrow> if t = ''2'' then Ok () else Err UnsupportedListType) (\<lambda>_.
     let prefix0 = (case ls_prefix s of None \<Rightarrow> [] | Some p \<Rightarrow> p)
     in and_then (if validate_key_like prefix0 then Ok () else Err InvalidPrefix) (\<lambda>_.
     and_then (case ls_delimiter s of
                 None \<Rightarrow> Ok None
               | Some d \<Rightarrow> if d = [] then Ok None else if d = ''/'' then Ok (Some d) else Err InvalidDelimiter)
       (\<lambda>delimiter.
     and_then (case ls_max_keys s of None \<Rightarrow> Ok MAX_KEYS | Some v \<Rightarrow> parse_max_keys v) (\<lambda>max_keys.
     and_then (case ls_continuation_token s of
                 None \<Rightarrow> Ok None
               | Some t \<Rightarrow> if t = [] \<or> length t > MAX_TOKEN_BYTES then Err InvalidContinuationToken else Ok (Some t))
       (\<lambda>continuation_token.
     and_then (case ls_start_after s of
                 None \<Rightarrow> Ok None
               | Some v \<Rightarrow> if validate_key_like v then Ok (Some v) else Err InvalidStartAfter) (\<lambda>start_after.
     if continuation_token \<noteq> None \<and> start_after \<noteq> None then Err ConflictingCursors
     else and_then (case ls_encoding_type s of
                 None \<Rightarrow> Ok None
               | Some t \<Rightarrow> if t = ''url'' then Ok (Some UrlEncoding) else Err InvalidEncodingType) (\<lambda>encoding_type.
       Ok \<lparr>lo_prefix = prefix0, lo_delimiter = delimiter, lo_max_keys = max_keys,
           lo_continuation_token = continuation_token, lo_start_after = start_after,
           lo_encoding_type = encoding_type\<rparr>)))))))"

definition list_objects_v2_parse :: "gateway_env \<Rightarrow> http_uri \<Rightarrow> s3_list_error + list_objects_v2_query" where
  "list_objects_v2_parse env uri =
     and_then (collect_slots empty_slots (form_pairs env uri)) list_query_of_slots"

section \<open>Continuation tokens\<close>

record token_env =
  te_base64_encode :: "str \<Rightarrow> str"
  te_base64_decode :: "str \<Rightarrow> str option"
  te_encrypt :: "str \<Rightarrow> str \<Rightarrow> str \<Rightarrow> str option"
  te_decrypt :: "str \<Rightarrow> str \<Rightarrow> str \<Rightarrow> str option"
  te_rfc3339 :: "timestamp \<Rightarrow> str option"

definition TOKEN_VERSION :: char where
  "TOKEN_VERSION = CHR 0x01"

definition TOKEN_NONCE_BYTES :: nat where
  "TOKEN_NONCE_BYTES = 12"

definition TOKEN_TAG_BYTES :: nat where
  "TOKEN_TAG_BYTES = 16"

definition TOKEN_AAD_LABEL :: str where
  "TOKEN_AAD_LABEL = ''mediahub:s3:list-objects-v2:continuation:v1''"

definition to_be_bytes32 :: "nat \<Rightarrow> str" where
  "to_be_bytes32 n = [char_of (n div 16777216), char_of (n div 65536 mod 256), char_of (n div 256 mod 256), char_of (n mod 256)]"

definition push_context_component :: "str \<Rightarrow> str \<Rightarrow> s3_list_error + str" where
  "push_context_component out v =
     (if length v < 2 ^ 32 then Ok (out @ to_be_bytes32 (length v) @ v) else Err InvalidBucketContext)"

definition token_aad :: "str \<Rightarrow> list_objects_v2_query \<Rightarrow> s3_list_error + str" where
  "token_aad bucket query =
     (if bucket = [] then Err InvalidBucketContext
      else and_then (push_context_component TOKEN_AAD_LABEL bucket) (\<lambda>a.
           and_then (push_context_component a (lo_prefix query)) (\<lambda>b.
             push_context_component b (case lo_delimiter query of None \<Rightarrow> [] | Some d \<Rightarrow> d))))"

definition token_encode :: "token_env \<Rightarrow> str \<Rightarrow> str \<Rightarrow> list_objects_v2_query \<Rightarrow> str \<Rightarrow> s3_list_error + str" where
  "token_encode env nonce bucket query internal_cursor =
     (if internal_cursor = [] \<or> length internal_cursor > MAX_INTERNAL_CURSOR_BYTES then Err InvalidInternalCursor
      else and_then (token_aad bucket query) (\<lambda>aad.
           and_then (ok_or TokenEncodingFailed (te_encrypt env nonce internal_cursor aad)) (\<lambda>ciphertext.
             Ok (te_base64_encode env ([TOKEN_VERSION] @ nonce @ ciphertext)))))"

definition token_decode :: "token_env \<Rightarrow> str \<Rightarrow> str \<Rightarrow> list_objects_v2_query \<Rightarrow> s3_list_error + str" where
  "token_decode env token bucket query =
     (if token = [] \<or> length token > MAX_TOKEN_BYTES then Err InvalidContinuationToken
      else and_then (ok_or InvalidContinuationToken (te_base64_decode env token)) (\<lambda>bytes.
        if length bytes < 1 + TOKEN_NONCE_BYTES + TOKEN_TAG_BYTES + 1 \<or> take 1 bytes \<noteq> [TOKEN_VERSION]
        then Err InvalidContinuationToken
        else
          let nonce = take TOKEN_NONCE_BYTES (drop 1 bytes);
              ciphertext = drop (1 + TOKEN_NONCE_BYTES) bytes
          in and_then (token_aad bucket query) (\<lambda>aad.
             and_then (ok_or InvalidContinuationToken (te_decrypt env nonce ciphertext aad)) (\<lambda>cursor.
               if cursor = [] \<or> length cursor > MAX_INTERNAL_CURSOR_BYTES then Err InvalidContinuationToken
               else if valid_utf8 cursor then Ok cursor else Err InvalidContinuationToken))))"

definition decode_continuation_cursor ::
  "token_env \<Rightarrow> list_objects_v2_query \<Rightarrow> str \<Rightarrow> s3_list_error + str option" where
  "decode_continuation_cursor env query bucket =
     (case lo_continuation_token query of
        None \<Rightarrow> Ok None
      | Some token \<Rightarrow> and_then (token_decode env token bucket query) (\<lambda>cursor. Ok (Some cursor)))"

section \<open>The document\<close>

text \<open>The characters of a text, each with its bytes.\<close>

fun char_chunks :: "str \<Rightarrow> (nat \<times> str) list" where
  "char_chunks [] = []"
| "char_chunks (a # s) =
     (if byte a < 128 then (byte a, [a]) # char_chunks s
      else if byte a < 224 then
        (case s of
           b # t \<Rightarrow> ((byte a mod 32) * 64 + byte b mod 64, [a, b]) # char_chunks t
         | _ \<Rightarrow> [])
      else if byte a < 240 then
        (case s of
           b # c # t \<Rightarrow>
             ((byte a mod 16) * 4096 + (byte b mod 64) * 64 + byte c mod 64, [a, b, c]) # char_chunks t
         | _ \<Rightarrow> [])
      else
        (case s of
           b # c # d # t \<Rightarrow>
             ((byte a mod 8) * 262144 + (byte b mod 64) * 4096 + (byte c mod 64) * 64 + byte d mod 64,
              [a, b, c, d]) # char_chunks t
         | _ \<Rightarrow> []))"

definition is_xml_1_0_character :: "nat \<Rightarrow> bool" where
  "is_xml_1_0_character c \<longleftrightarrow>
     c = 9 \<or> c = 10 \<or> c = 13 \<or> (32 \<le> c \<and> c \<le> 55295) \<or> (57344 \<le> c \<and> c \<le> 65533) \<or> (65536 \<le> c \<and> c \<le> 1114111)"

definition escape_char :: "nat \<times> str \<Rightarrow> str" where
  "escape_char cb =
     (case cb of (c, bytes) \<Rightarrow>
        if c = 38 then ''&amp;'' else if c = 60 then ''&lt;'' else if c = 62 then ''&gt;''
        else if c = 34 then ''&quot;'' else if c = 39 then ''&apos;'' else bytes)"

fun escape_chunks :: "str \<Rightarrow> (nat \<times> str) list \<Rightarrow> s3_list_error + str" where
  "escape_chunks out [] = Ok out"
| "escape_chunks out (cb # rest) =
     (if \<not> is_xml_1_0_character (fst cb) then Err InvalidXmlCharacter
      else escape_chunks (out @ escape_char cb) rest)"

definition escape_xml_text :: "str \<Rightarrow> str \<Rightarrow> s3_list_error + str" where
  "escape_xml_text out v = escape_chunks out (char_chunks v)"

definition push_element :: "str \<Rightarrow> str \<Rightarrow> str \<Rightarrow> s3_list_error + str" where
  "push_element out name v =
     and_then (escape_xml_text (out @ ''<'' @ name @ ''>'') v) (\<lambda>out. Ok (out @ ''</'' @ name @ ''>''))"

definition HEX :: str where
  "HEX = ''0123456789ABCDEF''"

definition url_encode_byte :: "char \<Rightarrow> str" where
  "url_encode_byte c =
     (if is_ascii_alphanumeric c \<or> c \<in> {CHR ''-'', CHR ''.'', CHR ''_'', CHR ''~''} then [c]
      else [CHR ''%'', HEX ! (byte c div 16), HEX ! (byte c mod 16)])"

definition s3_url_encode :: "str \<Rightarrow> str" where
  "s3_url_encode v = concat (map url_encode_byte v)"

definition push_encoded_element ::
  "str \<Rightarrow> str \<Rightarrow> str \<Rightarrow> list_encoding_type option \<Rightarrow> s3_list_error + str" where
  "push_encoded_element out name v encoding_type =
     (if encoding_type = Some UrlEncoding then push_element out name (s3_url_encode v) else push_element out name v)"

record list_object =
  lob_key :: str
  lob_last_modified :: timestamp
  lob_etag :: str
  lob_size :: u64

record list_objects_v2_result =
  lv_bucket :: str
  lv_query :: list_objects_v2_query
  lv_items :: "list_object list"
  lv_common_prefixes :: "str list"
  lv_next_cursor :: "str option"

definition push_contents ::
  "token_env \<Rightarrow> list_encoding_type option \<Rightarrow> str \<Rightarrow> list_object \<Rightarrow> s3_list_error + str" where
  "push_contents env encoding_type out item =
     and_then (push_encoded_element (out @ ''<Contents>'') ''Key'' (lob_key item) encoding_type) (\<lambda>out.
     and_then (ok_or InvalidLastModified (te_rfc3339 env (lob_last_modified item))) (\<lambda>last_modified.
     and_then (push_element out ''LastModified'' last_modified) (\<lambda>out.
     let etag = (if starts_with (lob_etag item) [CHR 0x22] \<and> ends_with (lob_etag item) [CHR 0x22]
                 then lob_etag item else [CHR 0x22] @ lob_etag item @ [CHR 0x22])
     in and_then (push_element out ''ETag'' etag) (\<lambda>out.
     and_then (push_element out ''Size'' (decimal (unat (lob_size item)))) (\<lambda>out.
     and_then (push_element out ''StorageClass'' ''STANDARD'') (\<lambda>out.
       Ok (out @ ''</Contents>'')))))))"

definition push_common_prefix ::
  "list_encoding_type option \<Rightarrow> str \<Rightarrow> str \<Rightarrow> s3_list_error + str" where
  "push_common_prefix encoding_type out p =
     and_then (push_encoded_element (out @ ''<CommonPrefixes>'') ''Prefix'' p encoding_type) (\<lambda>out.
       Ok (out @ ''</CommonPrefixes>''))"

fun try_fold :: "('b \<Rightarrow> 'a \<Rightarrow> 'e + 'b) \<Rightarrow> 'b \<Rightarrow> 'a list \<Rightarrow> 'e + 'b" where
  "try_fold f b [] = Ok b"
| "try_fold f b (a # as) = and_then (f b a) (\<lambda>b. try_fold f b as)"

definition list_key_count :: "list_objects_v2_result \<Rightarrow> nat" where
  "list_key_count r =
     (if lo_max_keys (lv_query r) = 0 then 0 else length (lv_items r) + length (lv_common_prefixes r))"

definition list_next_token :: "token_env \<Rightarrow> str \<Rightarrow> list_objects_v2_result \<Rightarrow> s3_list_error + str option" where
  "list_next_token env nonce r =
     (if lo_max_keys (lv_query r) = 0 then Ok None
      else case lv_next_cursor r of
             None \<Rightarrow> Ok None
           | Some cursor \<Rightarrow>
               and_then (token_encode env nonce (lv_bucket r) (lv_query r) cursor) (\<lambda>token. Ok (Some token)))"

definition push_optional ::
  "(str \<Rightarrow> str \<Rightarrow> s3_list_error + str) \<Rightarrow> str \<Rightarrow> str option \<Rightarrow> s3_list_error + str" where
  "push_optional push out v = (case v of None \<Rightarrow> Ok out | Some v \<Rightarrow> push out v)"

definition list_to_xml :: "token_env \<Rightarrow> str \<Rightarrow> list_objects_v2_result \<Rightarrow> s3_list_error + str" where
  "list_to_xml env nonce r =
     (let q = lv_query r; enc = lo_encoding_type q; key_count = list_key_count r
      in if key_count > lo_max_keys q then Err PageExceedsMaxKeys
         else
           and_then (list_next_token env nonce r) (\<lambda>next_token.
           let out = ''<?xml version='' @ [CHR 0x22] @ ''1.0'' @ [CHR 0x22] @ '' encoding='' @ [CHR 0x22]
                  @ ''UTF-8'' @ [CHR 0x22] @ ''?>'' @ ''<ListBucketResult xmlns='' @ [CHR 0x22]
                  @ ''http://s3.amazonaws.com/doc/2006-03-01/'' @ [CHR 0x22] @ ''>''
           in and_then (push_element out ''Name'' (lv_bucket r)) (\<lambda>out.
           and_then (push_encoded_element out ''Prefix'' (lo_prefix q) enc) (\<lambda>out.
           and_then (push_element out ''KeyCount'' (decimal key_count)) (\<lambda>out.
           and_then (push_element out ''MaxKeys'' (decimal (lo_max_keys q))) (\<lambda>out.
           and_then (push_optional (\<lambda>out d. push_encoded_element out ''Delimiter'' d enc) out (lo_delimiter q)) (\<lambda>out.
           and_then (if enc = Some UrlEncoding then push_element out ''EncodingType'' ''url'' else Ok out) (\<lambda>out.
           and_then (push_element out ''IsTruncated'' (if next_token \<noteq> None then ''true'' else ''false'')) (\<lambda>out.
           and_then (if lo_max_keys q \<noteq> 0
                     then and_then (try_fold (push_contents env enc) out (lv_items r)) (\<lambda>out.
                            try_fold (push_common_prefix enc) out (lv_common_prefixes r))
                     else Ok out) (\<lambda>out.
           and_then (push_optional (\<lambda>out t. push_element out ''ContinuationToken'' t) out (lo_continuation_token q)) (\<lambda>out.
           and_then (push_optional (\<lambda>out t. push_element out ''NextContinuationToken'' t) out next_token) (\<lambda>out.
           and_then (push_optional (\<lambda>out v. push_encoded_element out ''StartAfter'' v enc) out (lo_start_after q)) (\<lambda>out.
             Ok (out @ ''</ListBucketResult>''))))))))))))))"

section \<open>The handler\<close>

definition list_object_from_version ::
  "application_id \<Rightarrow> bucket_id \<Rightarrow> s3_object_list_item \<Rightarrow> list_object option" where
  "list_object_from_version application_id bucket_id item =
     (let version = li_version item
      in if ov_application_id version \<noteq> application_id \<or> ov_bucket_id version \<noteq> bucket_id
            \<or> ov_state version \<noteq> VersionCommitted \<or> ov_became_noncurrent_at version \<noteq> None
         then None
         else case ov_payload version of
                DeleteMarker \<Rightarrow> None
              | PayloadObject payload \<Rightarrow>
                  Some \<lparr>lob_key = li_key item, lob_last_modified = ov_created_at version,
                        lob_etag = entity_tag_str (sv_etag payload), lob_size = sv_size_bytes payload\<rparr>)"

definition list_result_from_object_page ::
  "application_id \<Rightarrow> bucket_id \<Rightarrow> str \<Rightarrow> list_objects_v2_query \<Rightarrow> s3_object_page \<Rightarrow> list_objects_v2_result" where
  "list_result_from_object_page application_id bucket_id bucket query page =
     \<lparr>lv_bucket = bucket, lv_query = query,
      lv_items = List.map_filter (list_object_from_version application_id bucket_id) (pg_items page),
      lv_common_prefixes = pg_common_prefixes page, lv_next_cursor = pg_next_cursor page\<rparr>"


text \<open>The bucket names the S3 endpoint accepts.\<close>

definition s3_bucket_name_ok :: "str \<Rightarrow> bool" where
  "s3_bucket_name_ok name \<longleftrightarrow>
     (let valid_edge = (\<lambda>c. is_ascii_lowercase c \<or> is_ascii_digit c)
      in 3 \<le> length name \<and> length name \<le> 63 \<and> list_all is_ascii name
         \<and> valid_edge (name ! 0) \<and> valid_edge (name ! (length name - 1))
         \<and> list_all (\<lambda>c. is_ascii_lowercase c \<or> is_ascii_digit c \<or> c = CHR ''.'' \<or> c = CHR ''-'') name
         \<and> \<not> contains_str name ''..'' \<and> parse_ip name = None
         \<and> \<not> list_ex (starts_with name) [''xn--'', ''sthree-'', ''amzn_s3_demo_'']
         \<and> \<not> list_ex (ends_with name) [''-s3alias'', ''--ol-s3'', ''.mrap'', ''--x-s3'', ''--table-s3''])"

definition invalid_bucket_name :: "str \<Rightarrow> str \<Rightarrow> s3_api_error" where
  "invalid_bucket_name resource request_id =
     api_error_new 400 ''InvalidBucketName'' ''The specified bucket is not valid.'' resource request_id"

definition repository_list_query ::
  "bucket_id \<Rightarrow> list_objects_v2_query \<Rightarrow> str option \<Rightarrow> s3_object_list_query" where
  "repository_list_query bucket_id query cursor =
     \<lparr>lq_bucket_id = bucket_id, lq_prefix = lo_prefix query,
      lq_start_after = (case cursor of Some c \<Rightarrow> Some c | None \<Rightarrow> lo_start_after query),
      lq_delimiter = (lo_delimiter query \<noteq> None), lq_limit = lo_max_keys query\<rparr>"

definition list_authorization_input ::
  "str \<Rightarrow> http_uri \<Rightarrow> (ip_addr \<times> u16) option \<Rightarrow> list_objects_v2_query \<Rightarrow> s3_data_authorization_input" where
  "list_authorization_input bucket_name uri connect_info query =
     \<lparr>di_action = ListBucket, di_bucket_name = bucket_name, di_object_key = None, di_version_id = None,
      di_prefix = Some (lo_prefix query), di_delimiter = lo_delimiter query,
      di_max_keys = Some (of_nat (lo_max_keys query)), di_secure_transport = s3_data_secure_transport uri,
      di_source_ip = s3_data_source_ip connect_info\<rparr>"

type_synonym listing_port = "application_id \<Rightarrow> s3_object_list_query \<Rightarrow> (repository_error + s3_object_page) option"

definition s3_list_objects ::
  "token_env \<Rightarrow> app_state \<Rightarrow> listing_port \<Rightarrow> str \<Rightarrow> str \<Rightarrow> http_uri \<Rightarrow> str \<Rightarrow> header_map
   \<Rightarrow> (ip_addr \<times> u16) option \<Rightarrow> str \<Rightarrow> (s3_api_error + str) option" where
  "s3_list_objects tokens app list_current nonce bucket_name uri method headers connect_info request_id =
     (let failed = (\<lambda>e. Some (Err (s3_list_api_error e (u_path uri) request_id)))
      in if \<not> s3_bucket_name_ok bucket_name then Some (Err (invalid_bucket_name (u_path uri) request_id))
         else case list_objects_v2_parse (app_env app) uri of
           Inl e \<Rightarrow> failed e
         | Inr query \<Rightarrow>
             (case authorize_s3_data_request app method uri headers
                     (list_authorization_input bucket_name uri connect_info query) request_id of
                None \<Rightarrow> None
              | Some (Inl e) \<Rightarrow> Some (Err e)
              | Some (Inr authorization) \<Rightarrow>
                  let application_id = bi_application_id (ad_bucket authorization);
                      bucket_id = bi_bucket_id (ad_bucket authorization)
                  in case decode_continuation_cursor tokens query bucket_name of
                       Inl e \<Rightarrow> failed e
                     | Inr cursor \<Rightarrow>
                         (case list_current application_id (repository_list_query bucket_id query cursor) of
                            None \<Rightarrow> None
                          | Some (Inl _) \<Rightarrow> Some (Err (service_unavailable (u_path uri) request_id))
                          | Some (Inr page) \<Rightarrow>
                              (case list_to_xml tokens nonce
                                      (list_result_from_object_page application_id bucket_id bucket_name query page) of
                                 Inl e \<Rightarrow> failed e
                               | Inr body \<Rightarrow> Some (Ok body)))))"

end
