(* ===== verification/S3_List_Pages.thy ===== *)
theory S3_List_Pages
  imports S3_List Memory_S3_Listing
begin

text \<open>
  The listing endpoint over the in-memory repository: escaping and URL encoding lose nothing, a
  continuation token brings back the cursor it was made from, and a client that follows the tokens sees
  the pages of the repository.
\<close>

section \<open>Percent encoding\<close>

definition hex_value :: "char \<Rightarrow> nat" where
  "hex_value c = (if is_ascii_digit c then byte c - 48 else byte c - 55)"

text \<open>RFC 3986 decoding.\<close>

fun pct_decode :: "str \<Rightarrow> str" where
  "pct_decode (h # a # b # s) =
     (if h = CHR ''%'' then char_of (16 * hex_value a + hex_value b) # pct_decode s else h # pct_decode (a # b # s))"
| "pct_decode (c # s) = c # pct_decode s"
| "pct_decode [] = []"

lemma hex_digit: "n < 16 \<Longrightarrow> hex_value (HEX ! n) = n \<and> HEX ! n \<noteq> CHR ''%'' \<and> is_ascii (HEX ! n)"
proof -
  have "\<forall>n \<in> set [0..<16]. hex_value (HEX ! n) = n \<and> HEX ! n \<noteq> CHR ''%'' \<and> is_ascii (HEX ! n)" by code_simp
  then show "n < 16 \<Longrightarrow> hex_value (HEX ! n) = n \<and> HEX ! n \<noteq> CHR ''%'' \<and> is_ascii (HEX ! n)" by simp
qed

lemma pct_decode_plain: "c \<noteq> CHR ''%'' \<Longrightarrow> pct_decode (c # s) = c # pct_decode s"
  by (cases s rule: list.exhaust; cases "tl s") auto

lemma url_encode_byte_decode: "pct_decode (url_encode_byte c @ s) = c # pct_decode s"
proof (cases "is_ascii_alphanumeric c \<or> c \<in> {CHR ''-'', CHR ''.'', CHR ''_'', CHR ''~''}")
  case True
  then have "c \<noteq> CHR ''%''" by (auto simp: is_ascii_alphanumeric_def is_ascii_digit_def is_ascii_lowercase_def is_ascii_uppercase_def)
  with True pct_decode_plain show ?thesis by (simp add: url_encode_byte_def)
next
  case False
  have "byte c < 256" by simp
  then have "byte c div 16 < 16" "byte c mod 16 < 16" by (simp_all add: less_mult_imp_div_less)
  with hex_digit have "16 * hex_value (HEX ! (byte c div 16)) + hex_value (HEX ! (byte c mod 16)) = byte c"
    by simp
  with False show ?thesis by (simp add: url_encode_byte_def)
qed

lemma url_encode_decode: "pct_decode (s3_url_encode s) = s"
  by (induction s) (simp_all add: s3_url_encode_def url_encode_byte_decode)

section \<open>XML text\<close>

definition valid_chunk :: "nat \<times> str \<Rightarrow> bool" where
  "valid_chunk cb \<longleftrightarrow>
     (case cb of (c, bytes) \<Rightarrow> bytes \<noteq> [] \<and> (if c < 128 then bytes = [char_of c] else list_all (\<lambda>b. 128 \<le> byte b) bytes))"

lemma chars_chunks: "map fst (char_chunks s) = chars s"
  by (induction s rule: char_chunks.induct) (auto split: list.split)


text \<open>Valid UTF-8, one character at a time.\<close>

inductive utf8_text :: "str \<Rightarrow> bool" where
  utf8_nil: "utf8_text []"
| utf8_one: "byte a < 128 \<Longrightarrow> utf8_text s \<Longrightarrow> utf8_text (a # s)"
| utf8_two: "194 \<le> byte a \<Longrightarrow> byte a \<le> 223 \<Longrightarrow> continuation b \<Longrightarrow> utf8_text s \<Longrightarrow> utf8_text (a # b # s)"
| utf8_three: "224 \<le> byte a \<Longrightarrow> byte a \<le> 239 \<Longrightarrow> continuation b \<Longrightarrow> byte a = 224 \<longrightarrow> 160 \<le> byte b
     \<Longrightarrow> byte a = 237 \<longrightarrow> byte b \<le> 159 \<Longrightarrow> continuation c \<Longrightarrow> utf8_text s \<Longrightarrow> utf8_text (a # b # c # s)"
| utf8_four: "240 \<le> byte a \<Longrightarrow> byte a \<le> 244 \<Longrightarrow> continuation b \<Longrightarrow> byte a = 240 \<longrightarrow> 144 \<le> byte b
     \<Longrightarrow> byte a = 244 \<longrightarrow> byte b \<le> 143 \<Longrightarrow> continuation c \<Longrightarrow> continuation d \<Longrightarrow> utf8_text s
     \<Longrightarrow> utf8_text (a # b # c # d # s)"

lemma valid_utf8_text: "valid_utf8 s \<Longrightarrow> utf8_text s"
proof (induction s rule: length_induct)
  case (1 s)
  note IH = 1(1) [rule_format] and v = 1(2)
  show ?case
  proof (cases s)
    case (Cons a t)
    consider "byte a < 128" | "194 \<le> byte a" "byte a \<le> 223" | "224 \<le> byte a" "byte a \<le> 239"
      | "\<not> byte a < 128" "\<not> (194 \<le> byte a \<and> byte a \<le> 223)" "\<not> (224 \<le> byte a \<and> byte a \<le> 239)"
      by linarith
    then show ?thesis
    proof cases
      case 1 with v IH [of t] Cons show ?thesis by (simp add: utf8_one)
    next
      case 2
      with v Cons obtain b u where "t = b # u" "continuation b" "valid_utf8 u" by (auto split: list.splits)
      with 2 IH [of u] Cons show ?thesis by (simp add: utf8_two)
    next
      case 3
      with v Cons obtain b c u where "t = b # c # u" "continuation b" "byte a = 224 \<longrightarrow> 160 \<le> byte b"
        "byte a = 237 \<longrightarrow> byte b \<le> 159" "continuation c" "valid_utf8 u"
        by (auto split: list.splits)
      with 3 IH [of u] Cons show ?thesis by (simp add: utf8_three)
    next
      case 4
      with v Cons obtain b c d u where t: "t = b # c # d # u" by (auto split: list.splits if_splits)
      with 4 v Cons have "240 \<le> byte a \<and> byte a \<le> 244 \<and> continuation b \<and> (byte a = 240 \<longrightarrow> 144 \<le> byte b)
        \<and> (byte a = 244 \<longrightarrow> byte b \<le> 143) \<and> continuation c \<and> continuation d \<and> valid_utf8 u"
        by (simp split: if_splits)
      with IH [of u] Cons t show ?thesis by (simp add: utf8_four)
    qed
  qed (simp add: utf8_nil)
qed

lemma utf8_text_valid: "utf8_text s \<Longrightarrow> valid_utf8 s"
  by (induction rule: utf8_text.induct) simp_all

lemma mod_minus:
  fixes a k m :: nat
  assumes "k * m \<le> a" and "a < Suc k * m"
  shows "a mod m = a - k * m"
proof -
  from assms(1) obtain r where "a = r + k * m" by (metis add.commute nat_le_iff_add)
  with assms(2) show ?thesis by simp
qed

lemma two_bytes: "194 \<le> a \<Longrightarrow> a \<le> 223 \<Longrightarrow> 128 \<le> (a mod 32) * 64 + x" for a x :: nat
  using mod_minus [of 6 32 a] by simp

lemma three_bytes:
  fixes a b x :: nat
  assumes "224 \<le> a" "a \<le> 239" "128 \<le> b" "b \<le> 191" "a = 224 \<longrightarrow> 160 \<le> b"
  shows "128 \<le> (a mod 16) * 4096 + (b mod 64) * 64 + x"
proof (cases "a = 224")
  case True
  with assms mod_minus [of 2 64 b] show ?thesis by simp
next
  case False
  with assms mod_minus [of 14 16 a] show ?thesis by simp
qed

lemma four_bytes:
  fixes a b x y :: nat
  assumes "240 \<le> a" "a \<le> 244" "128 \<le> b" "b \<le> 191" "a = 240 \<longrightarrow> 144 \<le> b"
  shows "128 \<le> (a mod 8) * 262144 + (b mod 64) * 4096 + x + y"
proof (cases "a = 240")
  case True
  with assms mod_minus [of 2 64 b] show ?thesis by simp
next
  case False
  with assms mod_minus [of 30 8 a] show ?thesis by simp
qed

lemma utf8_chunks:
  "utf8_text s \<Longrightarrow> concat (map snd (char_chunks s)) = s \<and> list_all valid_chunk (char_chunks s)"
proof (induction rule: utf8_text.induct)
  case (utf8_two a b s)
  with two_bytes [of "byte a" "byte b mod 64"] show ?case by (simp add: valid_chunk_def continuation_def)
next
  case (utf8_three a b c s)
  with three_bytes [of "byte a" "byte b" "byte c mod 64"] show ?case by (simp add: valid_chunk_def continuation_def)
next
  case (utf8_four a b c d s)
  with four_bytes [of "byte a" "byte b" "(byte c mod 64) * 64" "byte d mod 64"]
  show ?case by (simp add: valid_chunk_def continuation_def)
qed (simp_all add: valid_chunk_def)


text \<open>Reading XML text: the predefined entities.\<close>

definition entity :: "str \<Rightarrow> (char \<times> nat) option" where
  "entity s =
     (if starts_with s ''amp;'' then Some (CHR ''&'', 4)
      else if starts_with s ''lt;'' then Some (CHR ''<'', 3)
      else if starts_with s ''gt;'' then Some (CHR ''>'', 3)
      else if starts_with s ''quot;'' then Some (CHR 0x22, 5)
      else if starts_with s ''apos;'' then Some (CHR 0x27, 5)
      else None)"

fun xml_text :: "str \<Rightarrow> str" where
  "xml_text [] = []"
| "xml_text (c # s) =
     (if c = CHR ''&''
      then case entity s of Some (d, n) \<Rightarrow> d # xml_text (drop n s) | None \<Rightarrow> c # xml_text s
      else c # xml_text s)"

lemma xml_text_plain: "CHR ''&'' \<notin> set t \<Longrightarrow> xml_text (t @ s) = t @ xml_text s"
  by (induction t) auto

lemma entity_simps:
  "entity (''amp;'' @ s) = Some (CHR ''&'', 4)" "entity (''lt;'' @ s) = Some (CHR ''<'', 3)"
  "entity (''gt;'' @ s) = Some (CHR ''>'', 3)" "entity (''quot;'' @ s) = Some (CHR 0x22, 5)"
  "entity (''apos;'' @ s) = Some (CHR 0x27, 5)"
  by (simp_all add: entity_def starts_with_def)

definition markup :: str where
  "markup = [CHR ''<'', CHR ''>'', CHR 0x22, CHR 0x27]"

lemma escape_char_ok:
  assumes "valid_chunk cb"
  shows "xml_text (escape_char cb @ s) = snd cb @ xml_text s" and "set (escape_char cb) \<inter> set markup = {}"
proof -
  obtain c bytes where cb: "cb = (c, bytes)" by (cases cb)
  consider "c \<in> {38, 60, 62, 34, 39}" | "c < 128" "c \<notin> {38, 60, 62, 34, 39}" | "\<not> c < 128" by blast
  then have "xml_text (escape_char cb @ s) = snd cb @ xml_text s \<and> set (escape_char cb) \<inter> set markup = {}"
  proof cases
    case 1
    have "char_of (38 :: nat) = CHR ''&''" "char_of (60 :: nat) = CHR ''<''" "char_of (62 :: nat) = CHR ''>''"
      "char_of (34 :: nat) = CHR 0x22" "char_of (39 :: nat) = CHR 0x27" by code_simp+
    with 1 assms entity_simps [of s] show ?thesis
      by (auto simp: cb escape_char_def valid_chunk_def markup_def)
  next
    case 2
    with assms have b: "bytes = [char_of c]" by (simp add: cb valid_chunk_def)
    have "byte (char_of c) = c" using 2 by simp
    then have "char_of c \<noteq> d" if "byte d \<in> {38, 60, 62, 34, 39}" for d using 2(2) that by metis
    then have "char_of c \<notin> set (CHR ''&'' # markup)" by (simp add: markup_def)
    with 2 b show ?thesis by (auto simp: cb escape_char_def)
  next
    case 3
    with assms have "\<forall>b \<in> set bytes. 128 \<le> byte b" by (simp add: cb valid_chunk_def list_all_iff)
    then have "set bytes \<inter> set (CHR ''&'' # markup) = {}" by (auto simp: markup_def)
    with 3 show ?thesis by (auto simp: cb escape_char_def xml_text_plain)
  qed
  then show "xml_text (escape_char cb @ s) = snd cb @ xml_text s" "set (escape_char cb) \<inter> set markup = {}" by auto
qed

lemma escape_chunks_eq:
  "escape_chunks out cs =
     (if list_all is_xml_1_0_character (map fst cs) then Ok (out @ concat (map escape_char cs)) else Err InvalidXmlCharacter)"
  by (induction out cs rule: escape_chunks.induct) auto

lemma escaped_text:
  "list_all valid_chunk cs \<Longrightarrow> xml_text (concat (map escape_char cs)) = concat (map snd cs)
     \<and> set (concat (map escape_char cs)) \<inter> set markup = {}"
  by (induction cs) (simp_all add: escape_char_ok Int_Un_distrib2)

lemma escape_xml_text_ok:
  assumes "valid_utf8 v" and "list_all is_xml_1_0_character (chars v)"
  shows "\<exists>e. escape_xml_text out v = Ok (out @ e) \<and> xml_text e = v \<and> set e \<inter> set markup = {}"
  using assms utf8_chunks [OF valid_utf8_text [OF assms(1)]] escaped_text [of "char_chunks v"]
  by (simp add: escape_xml_text_def escape_chunks_eq chars_chunks)

lemma escape_xml_text_err:
  "\<not> list_all is_xml_1_0_character (chars v) \<Longrightarrow> escape_xml_text out v = Err InvalidXmlCharacter"
  by (simp add: escape_xml_text_def escape_chunks_eq chars_chunks)

lemma ascii_text: "list_all is_ascii v \<Longrightarrow> utf8_text v \<and> chars v = map byte v"
  by (induction v) (simp_all add: utf8_text.intros is_ascii_def)

lemma url_encode_byte_graphic: "list_all (\<lambda>c. is_ascii c \<and> 32 \<le> byte c) (url_encode_byte c)"
proof (cases "is_ascii_alphanumeric c \<or> c \<in> {CHR ''-'', CHR ''.'', CHR ''_'', CHR ''~''}")
  case True
  then show ?thesis
    by (auto simp: url_encode_byte_def is_ascii_def is_ascii_alphanumeric_def is_ascii_digit_def
        is_ascii_lowercase_def is_ascii_uppercase_def)
next
  case False
  have "\<forall>n \<in> set [0..<16]. is_ascii (HEX ! n) \<and> 32 \<le> byte (HEX ! n)" by code_simp
  then have "n < 16 \<Longrightarrow> is_ascii (HEX ! n) \<and> 32 \<le> byte (HEX ! n)" for n by simp
  moreover have "byte c div 16 < 16" "byte c mod 16 < 16" by (simp_all add: less_mult_imp_div_less)
  ultimately show ?thesis using False by (simp add: url_encode_byte_def is_ascii_def)
qed

lemma url_encoded_text: "valid_utf8 (s3_url_encode v) \<and> list_all is_xml_1_0_character (chars (s3_url_encode v))"
proof -
  have g: "list_all (\<lambda>c. is_ascii c \<and> 32 \<le> byte c) (s3_url_encode v)"
    using url_encode_byte_graphic by (auto simp: s3_url_encode_def list_all_iff)
  then have "list_all is_ascii (s3_url_encode v)" by (simp add: list_all_iff)
  with ascii_text have "utf8_text (s3_url_encode v)" "chars (s3_url_encode v) = map byte (s3_url_encode v)" by auto
  with g utf8_text_valid show ?thesis by (auto simp: list_all_iff is_xml_1_0_character_def is_ascii_def)
qed


section \<open>Elements of the document\<close>

definition element_text :: "list_encoding_type option \<Rightarrow> str \<Rightarrow> str" where
  "element_text enc e = (if enc = Some UrlEncoding then pct_decode (xml_text e) else xml_text e)"



section \<open>Continuation tokens\<close>

text \<open>What the token code relies on: URL-safe base64 without padding and AES-GCM with its 16-byte tag.\<close>

definition token_env_ok :: "token_env \<Rightarrow> bool" where
  "token_env_ok env \<longleftrightarrow>
     (\<forall>b. te_base64_decode env (te_base64_encode env b) = Some b
          \<and> length b \<le> length (te_base64_encode env b) \<and> 3 * length (te_base64_encode env b) \<le> 4 * length b + 2)
     \<and> (\<forall>nonce p aad. length nonce = TOKEN_NONCE_BYTES \<longrightarrow> length p < 2 ^ 32 \<longrightarrow> length aad < 2 ^ 36
          \<longrightarrow> (\<exists>c. te_encrypt env nonce p aad = Some c \<and> length c = length p + TOKEN_TAG_BYTES
                  \<and> te_decrypt env nonce c aad = Some p))"

definition same_context :: "list_objects_v2_query \<Rightarrow> list_objects_v2_query \<Rightarrow> bool" where
  "same_context q q' \<longleftrightarrow> lo_prefix q' = lo_prefix q \<and> lo_delimiter q' = lo_delimiter q"

definition context_ok :: "str \<Rightarrow> list_objects_v2_query \<Rightarrow> bool" where
  "context_ok bucket q \<longleftrightarrow> bucket \<noteq> [] \<and> length bucket < 2 ^ 32 \<and> length (lo_prefix q) < 2 ^ 32
     \<and> length (case lo_delimiter q of None \<Rightarrow> [] | Some d \<Rightarrow> d) < 2 ^ 32"

definition cursor_ok :: "str \<Rightarrow> bool" where
  "cursor_ok c \<longleftrightarrow> c \<noteq> [] \<and> length c \<le> MAX_INTERNAL_CURSOR_BYTES \<and> valid_utf8 c"

lemma token_aad_context: "same_context q q' \<Longrightarrow> token_aad bucket q' = token_aad bucket q"
  by (simp add: token_aad_def same_context_def)

lemma token_decode_context: "same_context q q' \<Longrightarrow> token_decode env t bucket q' = token_decode env t bucket q"
  unfolding token_decode_def by (simp only: token_aad_context)

lemma token_aad_ok:
  assumes "context_ok bucket q"
  shows "\<exists>aad. token_aad bucket q = Ok aad \<and> length aad < 2 ^ 36"
  using assms
  by (auto simp: token_aad_def push_context_component_def context_ok_def to_be_bytes32_def TOKEN_AAD_LABEL_def)

lemma token_encode_decode:
  assumes env: "token_env_ok env" and nonce: "length nonce = TOKEN_NONCE_BYTES" and ctx: "context_ok bucket q"
    and cursor: "cursor_ok c"
  shows "\<exists>t. token_encode env nonce bucket q c = Ok t \<and> t \<noteq> [] \<and> length t \<le> MAX_TOKEN_BYTES
            \<and> token_decode env t bucket q = Ok c"
proof -
  from token_aad_ok [OF ctx] obtain aad where aad: "token_aad bucket q = Ok aad" "length aad < 2 ^ 36" by blast
  have len: "c \<noteq> []" "length c \<le> 4096" "valid_utf8 c"
    using cursor by (simp_all add: cursor_ok_def MAX_INTERNAL_CURSOR_BYTES_def)
  then have "length c < 2 ^ 32" by simp
  with env nonce aad(2) obtain ct where ct: "te_encrypt env nonce c aad = Some ct" "length ct = length c + 16"
    "te_decrypt env nonce ct aad = Some c"
    unfolding token_env_ok_def TOKEN_TAG_BYTES_def by meson
  let ?b = "[TOKEN_VERSION] @ nonce @ ct"
  let ?t = "te_base64_encode env ?b"
  from env have b64: "te_base64_decode env ?t = Some ?b" "length ?b \<le> length ?t" "3 * length ?t \<le> 4 * length ?b + 2"
    unfolding token_env_ok_def by blast+
  have n: "length nonce = 12" using nonce by (simp add: TOKEN_NONCE_BYTES_def)
  with b64 ct(2) len have t: "?t \<noteq> []" "length ?t \<le> MAX_TOKEN_BYTES" by (auto simp: MAX_TOKEN_BYTES_def)
  have "token_encode env nonce bucket q c = Ok ?t"
    using len ct aad by (simp add: token_encode_def MAX_INTERNAL_CURSOR_BYTES_def ok_or_def)
  moreover have "token_decode env ?t bucket q = Ok c"
    using t b64(1) n ct aad(1) len
    by (simp add: token_decode_def ok_or_def TOKEN_NONCE_BYTES_def TOKEN_TAG_BYTES_def MAX_INTERNAL_CURSOR_BYTES_def)
  ultimately show ?thesis using t by blast
qed


text \<open>A continuation token brings the listing back to its place. For a non-empty UTF-8 cursor of at most
  4096 bytes, encoding succeeds with any 12-byte nonce, the token is short enough to be accepted as a query
  parameter, and the next request with the same bucket, prefix and delimiter decodes it to exactly that
  cursor.\<close>

theorem continuation_token_roundtrip:
  assumes "token_env_ok env" and "length nonce = TOKEN_NONCE_BYTES" and "context_ok bucket q" and "cursor_ok c"
    and "same_context q q'"
  shows "\<exists>t. token_encode env nonce bucket q c = Ok t \<and> t \<noteq> [] \<and> length t \<le> MAX_TOKEN_BYTES
            \<and> decode_continuation_cursor env (q'\<lparr>lo_continuation_token := Some t\<rparr>) bucket = Ok (Some c)"
proof -
  from token_encode_decode [OF assms(1-4)] obtain t where t: "token_encode env nonce bucket q c = Ok t"
    "t \<noteq> []" "length t \<le> MAX_TOKEN_BYTES" "token_decode env t bucket q = Ok c" by blast
  have "same_context q (q'\<lparr>lo_continuation_token := Some t\<rparr>)" using assms(5) by (simp add: same_context_def)
  from token_decode_context [OF this] t show ?thesis by (simp add: decode_continuation_cursor_def)
qed

definition example_tokens :: token_env where
  "example_tokens =
     \<lparr>te_base64_encode = id, te_base64_decode = Some,
      te_encrypt = (\<lambda>nonce p aad. Some (p @ nonce @ ''tag!'')),
      te_decrypt = (\<lambda>nonce c aad. Some (take (length c - 16) c)),
      te_rfc3339 = (\<lambda>_. None)\<rparr>"

lemma example_tokens_ok: "token_env_ok example_tokens"
  by (simp add: token_env_ok_def example_tokens_def TOKEN_TAG_BYTES_def TOKEN_NONCE_BYTES_def)

definition example_query :: list_objects_v2_query where
  "example_query = \<lparr>lo_prefix = [], lo_delimiter = Some ''/'', lo_max_keys = 1, lo_continuation_token = None,
                    lo_start_after = None, lo_encoding_type = None\<rparr>"

lemma example_query_ok: "context_ok ''bucket'' example_query \<and> same_context example_query example_query"
  by (simp add: context_ok_def same_context_def example_query_def)

section \<open>Following the tokens\<close>

inductive token_pages ::
  "token_env \<Rightarrow> repo_state \<Rightarrow> application_id \<Rightarrow> bucket_id \<Rightarrow> str \<Rightarrow> list_objects_v2_query \<Rightarrow> s3_object_page list \<Rightarrow> bool"
  for env s application_id bucket_id bucket where
  last_token: "decode_continuation_cursor env query bucket = Ok cursor
     \<Longrightarrow> list_current_s3_objects s application_id (repository_list_query bucket_id query cursor) = Some (Ok page)
     \<Longrightarrow> length nonce = TOKEN_NONCE_BYTES
     \<Longrightarrow> list_next_token env nonce (list_result_from_object_page application_id bucket_id bucket query page) = Ok None
     \<Longrightarrow> token_pages env s application_id bucket_id bucket query [page]"
| next_token: "decode_continuation_cursor env query bucket = Ok cursor
     \<Longrightarrow> list_current_s3_objects s application_id (repository_list_query bucket_id query cursor) = Some (Ok page)
     \<Longrightarrow> length nonce = TOKEN_NONCE_BYTES
     \<Longrightarrow> list_next_token env nonce (list_result_from_object_page application_id bucket_id bucket query page) = Ok (Some token)
     \<Longrightarrow> token_pages env s application_id bucket_id bucket
           (query\<lparr>lo_continuation_token := Some token, lo_start_after := None\<rparr>) pages
     \<Longrightarrow> token_pages env s application_id bucket_id bucket query (page # pages)"

definition listed_keys_ok :: "repo_state \<Rightarrow> application_id \<Rightarrow> s3_object_list_query \<Rightarrow> bool" where
  "listed_keys_ok s a rq \<longleftrightarrow>
     (\<forall>obj \<in> set (listed_objects s a rq). so_key obj \<noteq> [] \<and> length (so_key obj) \<le> MAX_KEY_BYTES \<and> valid_utf8 (so_key obj))"

lemma utf8_up_to_slash: "utf8_text w \<Longrightarrow> w = x @ CHR ''/'' # y \<Longrightarrow> utf8_text (x @ ''/'')"
proof (induction arbitrary: x rule: utf8_text.induct)
  case (utf8_one a s)
  then show ?case by (cases x) (auto intro: utf8_text.intros)
next
  case (utf8_two a b s)
  then have "a \<noteq> CHR ''/''" "b \<noteq> CHR ''/''" by (auto simp: continuation_def)
  with utf8_two.prems obtain x' where "x = a # b # x'" "s = x' @ CHR ''/'' # y" by (auto simp: Cons_eq_append_conv)
  with utf8_two show ?case by (simp add: utf8_text.utf8_two)
next
  case (utf8_three a b c s)
  then have "a \<noteq> CHR ''/''" "b \<noteq> CHR ''/''" "c \<noteq> CHR ''/''" by (auto simp: continuation_def)
  with utf8_three.prems obtain x' where "x = a # b # c # x'" "s = x' @ CHR ''/'' # y"
    by (auto simp: Cons_eq_append_conv)
  with utf8_three show ?case by (simp add: utf8_text.utf8_three)
next
  case (utf8_four a b c d s)
  then have "a \<noteq> CHR ''/''" "b \<noteq> CHR ''/''" "c \<noteq> CHR ''/''" "d \<noteq> CHR ''/''" by (auto simp: continuation_def)
  with utf8_four.prems obtain x' where "x = a # b # c # d # x'" "s = x' @ CHR ''/'' # y"
    by (auto simp: Cons_eq_append_conv)
  with utf8_four show ?case by (simp add: utf8_text.utf8_four)
qed simp

lemma entry_cursor_ok:
  assumes keys: "listed_keys_ok s a rq" and obj: "obj \<in> set (listed_objects s a rq)"
  shows "cursor_ok (entry_key rq obj)"
proof (cases "folded_prefix rq (so_key obj)")
  case None
  with keys obj show ?thesis
    by (auto simp: entry_key_def listed_keys_ok_def cursor_ok_def MAX_KEY_BYTES_def MAX_INTERNAL_CURSOR_BYTES_def)
next
  case (Some p)
  then obtain segment rest where "split_once CHR ''/'' (drop (length (lq_prefix rq)) (so_key obj)) = Some (segment, rest)"
    and p: "p = lq_prefix rq @ segment @ ''/''"
    by (auto simp: folded_prefix_def split: if_splits option.splits)
  then have "drop (length (lq_prefix rq)) (so_key obj) = segment @ CHR ''/'' # rest" by (simp add: split_once_Some_iff)
  moreover have "take (length (lq_prefix rq)) (so_key obj) = lq_prefix rq"
    using obj by (auto simp: listed_objects_def starts_with_def)
  ultimately have key: "so_key obj = (lq_prefix rq @ segment) @ CHR ''/'' # rest"
    by (metis append.assoc append_take_drop_id)
  have ok: "length (so_key obj) \<le> 1024" "valid_utf8 (so_key obj)"
    using keys obj by (auto simp: listed_keys_ok_def MAX_KEY_BYTES_def)
  from utf8_up_to_slash [OF valid_utf8_text [OF ok(2)] key] utf8_text_valid have "valid_utf8 p" by (simp add: p)
  moreover have "length p \<le> 1024" using ok(1) by (simp add: key p)
  ultimately show ?thesis using Some by (simp add: entry_key_def cursor_ok_def MAX_INTERNAL_CURSOR_BYTES_def p)
qed


text \<open>The next request of a listing, seen by the repository, is the same query after the returned cursor.\<close>

lemma page_cursor_ok:
  assumes keys: "listed_keys_ok s a rq" and limit: "1 \<le> lq_limit rq" "lq_limit rq \<le> 1000"
    and page: "list_current_s3_objects s a rq = Some (Ok p)" "pg_next_cursor p = Some c"
  shows "cursor_ok c"
proof -
  let ?r = "remaining s a rq" and ?n = "lq_limit rq"
  from page list_page [OF limit, of s a] have "length ?r > ?n" and c: "c = fst (last (take ?n ?r))"
    by (auto simp: cut_def split: if_splits)
  then have "last (take ?n ?r) \<in> set (take ?n ?r)" using limit by (intro last_in_set) auto
  then have "last (take ?n ?r) \<in> set ?r" by (rule in_set_takeD)
  from remaining_entry(3) [OF this] obtain obj where "obj \<in> set (listed_objects s a rq)" "c = entry_key rq obj"
    by (auto simp: c)
  with entry_cursor_ok [OF keys] show ?thesis by simp
qed

lemma token_step:
  assumes env: "token_env_ok env" and ctx: "context_ok bucket q" and nonce: "length nonce = TOKEN_NONCE_BYTES"
    and max_keys: "1 \<le> lo_max_keys q"
    and cursor: "\<And>c. pg_next_cursor p = Some c \<Longrightarrow> cursor_ok c"
  shows "case pg_next_cursor p of
           None \<Rightarrow> list_next_token env nonce (list_result_from_object_page a b bucket q p) = Ok None
         | Some c \<Rightarrow> \<exists>t. list_next_token env nonce (list_result_from_object_page a b bucket q p) = Ok (Some t)
             \<and> decode_continuation_cursor env (q\<lparr>lo_continuation_token := Some t, lo_start_after := None\<rparr>) bucket = Ok (Some c)"
proof (cases "pg_next_cursor p")
  case None
  then show ?thesis by (simp add: list_next_token_def list_result_from_object_page_def)
next
  case (Some c)
  from token_encode_decode [OF env nonce ctx cursor [OF Some]] obtain t
    where t: "token_encode env nonce bucket q c = Ok t" "token_decode env t bucket q = Ok c" by blast
  have "same_context q (q\<lparr>lo_continuation_token := Some t, lo_start_after := None\<rparr>)" by (simp add: same_context_def)
  from token_decode_context [OF this] t
  have "decode_continuation_cursor env (q\<lparr>lo_continuation_token := Some t, lo_start_after := None\<rparr>) bucket = Ok (Some c)"
    by (simp add: decode_continuation_cursor_def)
  with Some t(1) max_keys show ?thesis by (simp add: list_next_token_def list_result_from_object_page_def)
qed

lemma next_repository_query:
  "repository_list_query b (q\<lparr>lo_continuation_token := t, lo_start_after := None\<rparr>) (Some c)
     = (repository_list_query b q cursor)\<lparr>lq_start_after := Some c\<rparr>"
  by (simp add: repository_list_query_def)

definition listing_ok :: "repo_state \<Rightarrow> application_id \<Rightarrow> bucket_id \<Rightarrow> str \<Rightarrow> list_objects_v2_query \<Rightarrow> bool" where
  "listing_ok s a b bucket q \<longleftrightarrow>
     context_ok bucket q \<and> 1 \<le> lo_max_keys q \<and> lo_max_keys q \<le> MAX_KEYS
     \<and> listed_keys_ok s a (repository_list_query b q None)"

lemma listing_ok_next:
  "listing_ok s a b bucket (q\<lparr>lo_continuation_token := t, lo_start_after := v\<rparr>) = listing_ok s a b bucket q"
  by (simp add: listing_ok_def context_ok_def listed_keys_ok_def repository_list_query_def listed_objects_def)

lemma listing_ok_cursor:
  assumes "listing_ok s a b bucket q"
    and "list_current_s3_objects s a (repository_list_query b q cursor) = Some (Ok p)" "pg_next_cursor p = Some c"
  shows "cursor_ok c"
proof -
  have "listed_keys_ok s a (repository_list_query b q cursor)"
    using assms(1) by (simp add: listing_ok_def listed_keys_ok_def repository_list_query_def listed_objects_def)
  then show ?thesis
    using assms by (intro page_cursor_ok) (simp_all add: listing_ok_def repository_list_query_def MAX_KEYS_def)
qed

lemma token_pages_listing:
  assumes "token_env_ok env"
  shows "token_pages env s a b bucket q ps \<Longrightarrow> listing_ok s a b bucket q
     \<Longrightarrow> decode_continuation_cursor env q bucket = Ok cursor
     \<Longrightarrow> listing_pages s a (repository_list_query b q cursor) ps"
proof (induction arbitrary: cursor rule: token_pages.induct)
  case (last_token q cursor' p nonce)
  then have "cursor' = cursor" by simp
  with last_token token_step [OF assms, of bucket q nonce p a b] listing_ok_cursor
  have "pg_next_cursor p = None"
    by (cases "pg_next_cursor p") (fastforce simp: listing_ok_def)+
  with last_token \<open>cursor' = cursor\<close> show ?case by (simp add: listing_pages.last_page)
next
  case (next_token q cursor' p nonce t ps)
  have eq: "cursor' = cursor" using next_token by simp
  have step: "case pg_next_cursor p of
      None \<Rightarrow> list_next_token env nonce (list_result_from_object_page a b bucket q p) = Ok None
    | Some c \<Rightarrow> \<exists>t. list_next_token env nonce (list_result_from_object_page a b bucket q p) = Ok (Some t)
        \<and> decode_continuation_cursor env (q\<lparr>lo_continuation_token := Some t, lo_start_after := None\<rparr>) bucket = Ok (Some c)"
    using next_token listing_ok_cursor by (intro token_step [OF assms]) (auto simp: listing_ok_def)
  with next_token.hyps(4) obtain c where c: "pg_next_cursor p = Some c"
    "decode_continuation_cursor env (q\<lparr>lo_continuation_token := Some t, lo_start_after := None\<rparr>) bucket = Ok (Some c)"
    by (auto split: option.splits)
  have "listing_pages s a (repository_list_query b (q\<lparr>lo_continuation_token := Some t, lo_start_after := None\<rparr>) (Some c)) ps"
    using next_token c(2) by (simp add: listing_ok_next)
  with next_token.hyps(2) c(1) show ?case
    by (auto simp: next_repository_query [where cursor = cursor] eq intro: listing_pages.next_page)
qed

lemma listing_token_pages:
  assumes "token_env_ok env"
  shows "listing_pages s a rq ps \<Longrightarrow> listing_ok s a b bucket q \<Longrightarrow> rq = repository_list_query b q cursor
     \<Longrightarrow> decode_continuation_cursor env q bucket = Ok cursor \<Longrightarrow> token_pages env s a b bucket q ps"
proof (induction arbitrary: q cursor rule: listing_pages.induct)
  case (last_page rq p)
  let ?n = "replicate TOKEN_NONCE_BYTES CHR 0x00"
  have "list_next_token env ?n (list_result_from_object_page a b bucket q p) = Ok None"
    using token_step [OF assms, of bucket q ?n p a b] last_page by (simp add: listing_ok_def)
  with last_page show ?case by (intro token_pages.last_token [where cursor = cursor and nonce = ?n]) simp_all
next
  case (next_page rq p c ps)
  let ?n = "replicate TOKEN_NONCE_BYTES CHR 0x00"
  have "cursor_ok c" using listing_ok_cursor [OF next_page.prems(1)] next_page by simp
  with token_step [OF assms, of bucket q ?n p a b] next_page obtain t
    where t: "list_next_token env ?n (list_result_from_object_page a b bucket q p) = Ok (Some t)"
      "decode_continuation_cursor env (q\<lparr>lo_continuation_token := Some t, lo_start_after := None\<rparr>) bucket = Ok (Some c)"
    by (auto simp: listing_ok_def)
  have "token_pages env s a b bucket (q\<lparr>lo_continuation_token := Some t, lo_start_after := None\<rparr>) ps"
    using next_page t(2) by (intro next_page.IH) (simp_all add: listing_ok_next next_repository_query [where cursor = cursor])
  with next_page t(1) show ?case by (intro token_pages.next_token [where cursor = cursor and nonce = ?n]) simp_all
qed




end
