(* ===== verification/Object_Store.thy ===== *)
theory Object_Store
  imports S3_Repository Upload_Session MH_Ordered_Map
begin

text \<open>
  The object store port of \<^verbatim>\<open>crates/mediahub-app/src/ports.rs\<close> and its in-memory implementation
  \<open>InMemoryObjectStore\<close> of \<^verbatim>\<open>memory_object_store.rs\<close>: staged content becomes visible under its final key by
  one promotion, and a final key is written once.

  The hexadecimal SHA-256 digest and the text of an identifier come from third-party code and are arguments.
\<close>

section \<open>State\<close>

datatype object_store_error =
    StoreNotFound
  | StoreAlreadyExists
  | StoreInvalidRange
  | StoreInvalidCursor
  | StoreInvalidLimit
  | StoreUnavailable str

record streamed_object =
  sm_size :: u64
  sm_sha256 :: str
  sm_md5 :: str

record object_metadata =
  om_key :: str
  om_size :: u64
  om_content_type :: "str option"
  om_etag :: "str option"
  om_version :: "str option"
  om_checksum_sha256 :: "str option"
  om_provider_metadata :: "(str \<times> str) list"

record object_page =
  op_objects :: "object_metadata list"
  op_next_cursor :: "str option"

record composed_object =
  co_size :: u64
  co_sha256 :: str

record stored_object =
  st_content :: str
  st_content_type :: str

record object_store_state =
  os_temporary :: "(str, stored_object) hash_map"
  os_objects :: "(str, stored_object) hash_map"
  os_fail_put :: "object_store_error option"
  os_fail_commit :: "object_store_error option"
  os_fail_abort :: "object_store_error option"

definition store_default :: object_store_state where
  "store_default = \<lparr>os_temporary = [], os_objects = [], os_fail_put = None, os_fail_commit = None, os_fail_abort = None\<rparr>"

definition MEMORY_BACKEND :: str where
  "MEMORY_BACKEND = ''memory''"

definition fail_next_put :: "object_store_state \<Rightarrow> object_store_error \<Rightarrow> object_store_state" where
  "fail_next_put t e = t\<lparr>os_fail_put := Some e\<rparr>"

definition fail_next_commit :: "object_store_state \<Rightarrow> object_store_error \<Rightarrow> object_store_state" where
  "fail_next_commit t e = t\<lparr>os_fail_commit := Some e\<rparr>"

definition fail_next_abort :: "object_store_state \<Rightarrow> object_store_error \<Rightarrow> object_store_state" where
  "fail_next_abort t e = t\<lparr>os_fail_abort := Some e\<rparr>"

definition object_content :: "object_store_state \<Rightarrow> str \<Rightarrow> str option" where
  "object_content t key = map_option st_content (hm_get (os_objects t) key)"

definition object_content_type :: "object_store_state \<Rightarrow> str \<Rightarrow> str option" where
  "object_content_type t key = map_option st_content_type (hm_get (os_objects t) key)"

section \<open>Operations of the store\<close>

definition put_upload ::
  "object_store_state \<Rightarrow> upload_session \<Rightarrow> str \<Rightarrow> str \<Rightarrow> object_store_state \<times> (object_store_error + unit)" where
  "put_upload t session content content_type =
     (if hm_get (os_objects t) (us_storage_key session) \<noteq> None then (t, Err StoreAlreadyExists)
      else (t\<lparr>os_objects := hm_insert (us_storage_key session)
              \<lparr>st_content = content, st_content_type = content_type\<rparr> (os_objects t)\<rparr>, Ok ()))"

definition put_temporary ::
  "object_store_state \<Rightarrow> str \<Rightarrow> str \<Rightarrow> str \<Rightarrow> object_store_state \<times> (object_store_error + unit)" where
  "put_temporary t temporary_key content content_type =
     (case os_fail_put t of
        Some e \<Rightarrow> (t\<lparr>os_fail_put := None\<rparr>, Err e)
      | None \<Rightarrow>
          if hm_get (os_temporary t) temporary_key \<noteq> None then (t, Err StoreAlreadyExists)
          else (t\<lparr>os_temporary := hm_insert temporary_key
                  \<lparr>st_content = content, st_content_type = content_type\<rparr> (os_temporary t)\<rparr>, Ok ()))"

fun gather_parts :: "object_store_state \<Rightarrow> str \<Rightarrow> str list \<Rightarrow> object_store_error + str" where
  "gather_parts t content [] = Ok content"
| "gather_parts t content (key # keys) =
     (case hm_get (os_temporary t) key of
        None \<Rightarrow> Err StoreNotFound
      | Some source \<Rightarrow> gather_parts t (content @ st_content source) keys)"

definition compose_temporary ::
  "(str \<Rightarrow> str) \<Rightarrow> object_store_state \<Rightarrow> str \<Rightarrow> str list \<Rightarrow> str
   \<Rightarrow> object_store_state \<times> (object_store_error + composed_object)" where
  "compose_temporary digest t temporary_key source_keys content_type =
     (if source_keys = [] then (t, Err (StoreUnavailable ''multipart composition requires at least one part''))
      else if hm_get (os_temporary t) temporary_key \<noteq> None then (t, Err StoreAlreadyExists)
      else case gather_parts t [] source_keys of
             Inl e \<Rightarrow> (t, Err e)
           | Inr content \<Rightarrow>
               if length content \<ge> 2 ^ 64
               then (t, Err (StoreUnavailable ''composed object size exceeds u64''))
               else (t\<lparr>os_temporary := hm_insert temporary_key
                       \<lparr>st_content = content, st_content_type = content_type\<rparr> (os_temporary t)\<rparr>,
                     Ok \<lparr>co_size = of_nat (length content), co_sha256 = digest content\<rparr>))"

definition commit_temporary ::
  "object_store_state \<Rightarrow> str \<Rightarrow> str \<Rightarrow> object_store_state \<times> (object_store_error + unit)" where
  "commit_temporary t temporary_key final_key =
     (case os_fail_commit t of
        Some e \<Rightarrow> (t\<lparr>os_fail_commit := None\<rparr>, Err e)
      | None \<Rightarrow>
          if hm_get (os_objects t) final_key \<noteq> None then (t, Err StoreAlreadyExists)
          else case hm_get (os_temporary t) temporary_key of
                 None \<Rightarrow> (t, Err StoreNotFound)
               | Some obj \<Rightarrow>
                   (t\<lparr>os_temporary := AList.delete temporary_key (os_temporary t),
                      os_objects := hm_insert final_key obj (os_objects t)\<rparr>, Ok ()))"

definition read_object :: "object_store_state \<Rightarrow> str \<Rightarrow> object_store_error + str" where
  "read_object t key = ok_or StoreNotFound (map_option st_content (hm_get (os_objects t) key))"

definition read_range :: "object_store_state \<Rightarrow> str \<Rightarrow> u64 \<Rightarrow> u64 \<Rightarrow> object_store_error + str" where
  "read_range t key range_start range_end =
     and_then (read_object t key) (\<lambda>content.
       let i = unat range_start; j = unat range_end
       in if i \<ge> j \<or> j > length content then Err StoreInvalidRange
          else Ok (take (j - i) (drop i content)))"

definition metadata_of :: "(str \<Rightarrow> str) \<Rightarrow> str \<Rightarrow> stored_object \<Rightarrow> object_metadata" where
  "metadata_of digest key obj =
     \<lparr>om_key = key, om_size = of_nat (length (st_content obj)), om_content_type = Some (st_content_type obj),
      om_etag = None, om_version = None, om_checksum_sha256 = Some (digest (st_content obj)),
      om_provider_metadata = []\<rparr>"

definition head_object :: "(str \<Rightarrow> str) \<Rightarrow> object_store_state \<Rightarrow> str \<Rightarrow> object_store_error + object_metadata" where
  "head_object digest t key =
     and_then (ok_or StoreNotFound (hm_get (os_objects t) key)) (\<lambda>obj. Ok (metadata_of digest key obj))"

definition checksum_sha256 :: "(str \<Rightarrow> str) \<Rightarrow> object_store_state \<Rightarrow> str \<Rightarrow> object_store_error + str" where
  "checksum_sha256 digest t key =
     and_then (head_object digest t key) (\<lambda>metadata.
       ok_or (StoreUnavailable ''object backend did not provide a trustworthy SHA-256'') (om_checksum_sha256 metadata))"

text \<open>\<open>keys.sort()\<close>.\<close>

fun insert_key :: "str \<Rightarrow> str list \<Rightarrow> str list" where
  "insert_key k [] = [k]"
| "insert_key k (k' # ks) = (if bytes_less k' k then k' # insert_key k ks else k # k' # ks)"

fun sort_keys :: "str list \<Rightarrow> str list" where
  "sort_keys [] = []"
| "sort_keys (k # ks) = insert_key k (sort_keys ks)"

definition list_objects ::
  "(str \<Rightarrow> str) \<Rightarrow> object_store_state \<Rightarrow> str \<Rightarrow> str option \<Rightarrow> nat \<Rightarrow> object_store_error + object_page" where
  "list_objects digest t prefix0 cursor limit =
     (if limit = 0 \<or> limit > 1000 then Err StoreInvalidLimit
      else if is_some_and cursor (\<lambda>value. \<not> starts_with value prefix0) then Err StoreInvalidCursor
      else
        let keys = sort_keys (filter (\<lambda>key. starts_with key prefix0 \<and> is_none_or cursor (\<lambda>value. bytes_less value key))
              (map fst (os_objects t)));
            has_more = length keys > limit;
            page = take limit keys
        in Ok \<lparr>op_objects = List.map_filter (\<lambda>key. map_option (metadata_of digest key) (hm_get (os_objects t) key)) page,
               op_next_cursor = (if has_more then Some (last page) else None)\<rparr>)"

definition delete_object :: "object_store_state \<Rightarrow> str \<Rightarrow> object_store_state \<times> (object_store_error + unit)" where
  "delete_object t key =
     (t\<lparr>os_temporary := AList.delete key (os_temporary t), os_objects := AList.delete key (os_objects t)\<rparr>, Ok ())"

definition exists_object :: "object_store_state \<Rightarrow> str \<Rightarrow> object_store_error + bool" where
  "exists_object t key = Ok (hm_get (os_temporary t) key \<noteq> None \<or> hm_get (os_objects t) key \<noteq> None)"

section \<open>Direct uploads\<close>

record upload_target =
  ut_method :: str
  ut_url :: str
  ut_headers :: "(str \<times> str) list"
  ut_expires_at :: timestamp

record prepared_upload =
  pu_target :: upload_target
  pu_storage_backend :: str
  pu_storage_key :: str

record stored_upload =
  su_size :: u64
  su_mime :: str
  su_sha256 :: str

definition prepare_upload ::
  "(uuid \<Rightarrow> str) \<Rightarrow> upload_session_id \<Rightarrow> media_id \<Rightarrow> str \<Rightarrow> timestamp \<Rightarrow> prepared_upload" where
  "prepare_upload uuid_text upload_session_id media_id expected_mime expires_at =
     \<lparr>pu_target = \<lparr>ut_method = ''PUT'', ut_url = ''memory://uploads/'' @ uuid_text upload_session_id,
                   ut_headers = [(''content-type'', expected_mime)], ut_expires_at = expires_at\<rparr>,
      pu_storage_backend = MEMORY_BACKEND, pu_storage_key = ''objects/'' @ uuid_text media_id\<rparr>"

definition inspect_upload :: "(str \<Rightarrow> str) \<Rightarrow> object_store_state \<Rightarrow> upload_session \<Rightarrow> object_store_error + stored_upload" where
  "inspect_upload digest t session =
     and_then (ok_or StoreNotFound (hm_get (os_objects t) (us_storage_key session))) (\<lambda>obj.
       if length (st_content obj) \<ge> 2 ^ 64 then Err (StoreUnavailable ''object exceeds u64 size'')
       else Ok \<lparr>su_size = of_nat (length (st_content obj)), su_mime = st_content_type obj,
                su_sha256 = digest (st_content obj)\<rparr>)"

definition abort_upload ::
  "object_store_state \<Rightarrow> upload_session \<Rightarrow> object_store_state \<times> (object_store_error + unit)" where
  "abort_upload t session =
     (case os_fail_abort t of
        Some e \<Rightarrow> (t\<lparr>os_fail_abort := None\<rparr>, Err e)
      | None \<Rightarrow>
          if us_state session = SessionCompleted then (t, Ok ()) else delete_object t (us_storage_key session))"

end
