(* ===== verification/MH_Action.thy ===== *)
theory MH_Action
  imports MH_Prelude
begin

text \<open>
  Programs that call fallible operations on a shared world: an action takes the world and returns the new one
  with a result, or \<open>None\<close> when it panics. \<open>act_bind\<close> is \<open>?\<close> on the result of an awaited call; \<open>act_try\<close> keeps
  the result for a \<open>match\<close>. The rules of \<open>triple\<close> follow the structure of a program.
\<close>

section \<open>Actions\<close>

type_synonym ('w, 'e, 'a) action = "'w \<Rightarrow> ('w \<times> ('e + 'a)) option"

definition act_return :: "'a \<Rightarrow> ('w, 'e, 'a) action" where
  "act_return a w = Some (w, Ok a)"

definition act_of :: "'e + 'a \<Rightarrow> ('w, 'e, 'a) action" where
  "act_of r w = Some (w, r)"

definition act_bind :: "('w, 'e, 'a) action \<Rightarrow> ('a \<Rightarrow> ('w, 'e, 'b) action) \<Rightarrow> ('w, 'e, 'b) action" where
  "act_bind m f w =
     (case m w of
        None \<Rightarrow> None
      | Some (w', Inl e) \<Rightarrow> Some (w', Err e)
      | Some (w', Inr a) \<Rightarrow> f a w')"

definition act_map_err :: "('d \<Rightarrow> 'e) \<Rightarrow> ('w, 'd, 'a) action \<Rightarrow> ('w, 'e, 'a) action" where
  "act_map_err g m w = map_option (\<lambda>(w', r). (w', case r of Inl e \<Rightarrow> Err (g e) | Inr a \<Rightarrow> Ok a)) (m w)"

definition act_try :: "('w, 'd, 'a) action \<Rightarrow> ('w, 'e, 'd + 'a) action" where
  "act_try m w = map_option (\<lambda>(w', r). (w', Ok r)) (m w)"

text \<open>A call that cannot fail: the clock, a fresh identifier.\<close>

definition act_call :: "('w \<Rightarrow> 'w \<times> 'a) \<Rightarrow> ('w, 'e, 'a) action" where
  "act_call f w = (case f w of (w', a) \<Rightarrow> Some (w', Ok a))"

definition map_err :: "('d \<Rightarrow> 'e) \<Rightarrow> 'd + 'a \<Rightarrow> 'e + 'a" where
  "map_err g r = (case r of Inl e \<Rightarrow> Err (g e) | Inr a \<Rightarrow> Ok a)"

lemma map_err_Ok_iff [simp]: "map_err g r = Ok a \<longleftrightarrow> r = Ok a"
  by (cases r) (simp_all add: map_err_def)

text \<open>How a run ended.\<close>

lemma ended_Ok: "(case m of Some (w, Inr a) \<Rightarrow> Q w a | _ \<Rightarrow> False) \<Longrightarrow> \<exists>w a. m = Some (w, Ok a) \<and> Q w a"
  by (cases m; cases "snd (the m)") auto

lemma ended_Err: "(case m of Some (w, Inl e) \<Rightarrow> Q w e | _ \<Rightarrow> False) \<Longrightarrow> \<exists>w e. m = Some (w, Err e) \<and> Q w e"
  by (cases m; cases "snd (the m)") auto

lemma is_some: "(case x of None \<Rightarrow> False | Some a \<Rightarrow> Q a) \<Longrightarrow> \<exists>a. x = Some a \<and> Q a"
  by (auto split: option.splits)

section \<open>Triples\<close>

text \<open>From \<open>P\<close>, a run that returns a value ends in \<open>Q\<close> and one that returns an error ends in \<open>E\<close>.\<close>

definition triple ::
  "('w \<Rightarrow> bool) \<Rightarrow> ('w, 'e, 'a) action \<Rightarrow> ('a \<Rightarrow> 'w \<Rightarrow> bool) \<Rightarrow> ('e \<Rightarrow> 'w \<Rightarrow> bool) \<Rightarrow> bool" where
  "triple P m Q E \<longleftrightarrow>
     (\<forall>w w' r. P w \<longrightarrow> m w = Some (w', r) \<longrightarrow> (case r of Inl e \<Rightarrow> E e w' | Inr a \<Rightarrow> Q a w'))"

named_theorems triple_rules \<open>rules for the constructors of actions\<close>

lemma tripleD:
  assumes "triple P m Q E" and "P w" and "m w = Some (w', r)"
  shows "case r of Inl e \<Rightarrow> E e w' | Inr a \<Rightarrow> Q a w'"
  using assms unfolding triple_def by blast

lemma triple_bind [triple_rules]:
  assumes "triple P m R E" and "\<And>a. triple (R a) (f a) Q E"
  shows "triple P (act_bind m f) Q E"
  unfolding triple_def
proof (intro allI impI)
  fix w w' r assume "P w" and run: "act_bind m f w = Some (w', r)"
  then obtain v x where m: "m w = Some (v, x)" by (auto simp: act_bind_def split: option.splits)
  note first = tripleD [OF assms(1) \<open>P w\<close> m]
  show "case r of Inl e \<Rightarrow> E e w' | Inr a \<Rightarrow> Q a w'"
  proof (cases x)
    case (Inl e)
    with first m run show ?thesis by (auto simp: act_bind_def)
  next
    case (Inr a)
    with first m run have "R a v" "f a v = Some (w', r)" by (simp_all add: act_bind_def)
    with assms(2) [of a] show ?thesis by (rule tripleD)
  qed
qed

lemma triple_return [triple_rules]: "(\<And>w. P w \<Longrightarrow> Q a w) \<Longrightarrow> triple P (act_return a) Q E"
  by (auto simp: triple_def act_return_def)

lemma triple_of [triple_rules]:
  "(\<And>w. P w \<Longrightarrow> case r of Inl e \<Rightarrow> E e w | Inr a \<Rightarrow> Q a w) \<Longrightarrow> triple P (act_of r) Q E"
  by (auto simp: triple_def act_of_def)

lemma triple_map_err [triple_rules]: "triple P m Q (\<lambda>e. E (g e)) \<Longrightarrow> triple P (act_map_err g m) Q E"
  unfolding triple_def act_map_err_def by (fastforce split: sum.splits)

lemma triple_try [triple_rules]: "triple P m (\<lambda>a. Q (Ok a)) (\<lambda>e. Q (Err e)) \<Longrightarrow> triple P (act_try m) Q E"
  unfolding triple_def act_try_def by (fastforce split: sum.splits)

lemma triple_call: "(\<And>w. P w \<Longrightarrow> Q (snd (f w)) (fst (f w))) \<Longrightarrow> triple P (act_call f) Q E"
  unfolding triple_def act_call_def by (auto split: prod.splits) (metis fst_conv snd_conv)

lemma triple_weaken:
  assumes "triple P' m Q' E'" and "\<And>w. P w \<Longrightarrow> P' w" and "\<And>a w. Q' a w \<Longrightarrow> Q a w" and "\<And>e w. E' e w \<Longrightarrow> E e w"
  shows "triple P m Q E"
  using assms unfolding triple_def by (fastforce split: sum.splits)

lemma triple_if [triple_rules]:
  "(b \<Longrightarrow> triple P m Q E) \<Longrightarrow> (\<not> b \<Longrightarrow> triple P n Q E) \<Longrightarrow> triple P (if b then m else n) Q E"
  by simp

lemma triple_option [triple_rules]:
  "(x = None \<Longrightarrow> triple P m Q E) \<Longrightarrow> (\<And>a. x = Some a \<Longrightarrow> triple P (f a) Q E)
   \<Longrightarrow> triple P (case x of None \<Rightarrow> m | Some a \<Rightarrow> f a) Q E"
  by (cases x) auto

lemma triple_sum [triple_rules]:
  "(\<And>e. x = Inl e \<Longrightarrow> triple P (g e) Q E) \<Longrightarrow> (\<And>a. x = Inr a \<Longrightarrow> triple P (f a) Q E)
   \<Longrightarrow> triple P (case x of Inl e \<Rightarrow> g e | Inr a \<Rightarrow> f a) Q E"
  by (cases x) auto

lemma triple_pure: "(b \<Longrightarrow> triple P m Q E) \<Longrightarrow> triple (\<lambda>w. P w \<and> b) m Q E"
  unfolding triple_def by blast

lemma triple_ex: "(\<And>x. triple (P x) m Q E) \<Longrightarrow> triple (\<lambda>w. \<exists>x. P x w) m Q E"
  unfolding triple_def by blast

text \<open>Only what holds when a value is returned.\<close>

abbreviation returning :: "('w \<Rightarrow> bool) \<Rightarrow> ('w, 'e, 'a) action \<Rightarrow> ('a \<Rightarrow> 'w \<Rightarrow> bool) \<Rightarrow> bool" where
  "returning P m Q \<equiv> triple P m Q (\<lambda>_ _. True)"

lemma returning_of: "triple P m Q E \<Longrightarrow> returning P m Q"
  by (erule triple_weaken) simp_all

lemma returning_map_err: "triple P m Q E \<Longrightarrow> returning P (act_map_err g m) Q"
  by (rule triple_map_err) (rule returning_of)

lemma triple_false: "(\<And>w. \<not> P w) \<Longrightarrow> triple P m Q E"
  by (simp add: triple_def)

text \<open>An assertion about the world that every run keeps.\<close>

abbreviation keeps :: "('w \<Rightarrow> bool) \<Rightarrow> ('w, 'e, 'a) action \<Rightarrow> bool" where
  "keeps I m \<equiv> triple I m (\<lambda>_. I) (\<lambda>_. I)"

lemma keeps_bind: "keeps I m \<Longrightarrow> (\<And>a. keeps I (f a)) \<Longrightarrow> keeps I (act_bind m f)"
  by (rule triple_bind)

lemma keeps_of: "keeps I (act_of r)"
  by (rule triple_of) (simp split: sum.split)

lemma keeps_return: "keeps I (act_return a)"
  by (rule triple_return)

lemma keeps_map_err: "keeps I m \<Longrightarrow> keeps I (act_map_err g m)"
  by (rule triple_map_err)

lemma keeps_try: "keeps I m \<Longrightarrow> keeps I (act_try m)"
  by (rule triple_try)

text \<open>The value of a pure step is known in the rest of the program.\<close>

lemma triple_bind_of:
  assumes "\<And>a. r = Inr a \<Longrightarrow> triple P (f a) Q E" and "\<And>e w. r = Inl e \<Longrightarrow> P w \<Longrightarrow> E e w"
  shows "triple P (act_bind (act_of r) f) Q E"
  using assms by (cases r) (auto simp: triple_def act_bind_def act_of_def)

lemma keeps_bind_of: "(\<And>a. r = Inr a \<Longrightarrow> keeps I (f a)) \<Longrightarrow> keeps I (act_bind (act_of r) f)"
  by (rule triple_bind_of)

lemmas keeps_rules = keeps_bind_of keeps_bind keeps_of keeps_return keeps_map_err keeps_try triple_if triple_option triple_sum


text \<open>A program that keeps an assertion until it returns.\<close>

lemma until_of:
  "(\<And>a. r = Inr a \<Longrightarrow> triple I (f a) Q (\<lambda>_. I)) \<Longrightarrow> triple I (act_bind (act_of r) f) Q (\<lambda>_. I)"
  by (rule triple_bind_of)

lemma until_bind:
  "keeps I m \<Longrightarrow> (\<And>a. triple I (f a) Q (\<lambda>_. I)) \<Longrightarrow> triple I (act_bind m f) Q (\<lambda>_. I)"
  by (rule triple_bind)

lemma until_err: "triple I (act_of (Err e)) Q (\<lambda>_. I)"
  by (rule triple_of) simp

lemma until_prod:
  "(\<And>a b. x = (a, b) \<Longrightarrow> triple P (f a b) Q E) \<Longrightarrow> triple P (case x of (a, b) \<Rightarrow> f a b) Q E"
  by (cases x) simp

lemmas until_rules = until_of until_err until_bind until_prod triple_if triple_return

end
