(* ===== verification/S3_Object_Service.thy ===== *)
theory S3_Object_Service
  imports Object_Store MH_Action
begin

text \<open>
  \<open>S3ObjectService\<close> of \<^verbatim>\<open>crates/mediahub-app/src/s3_object_service.rs\<close>: uploads through a durable intent, a
  fenced lease, promotion in the object store and one atomic commit; reads, tags, Object Lock, deletion and
  version listing.

  The service is generic in its repositories, its object store and its clock. They are the fields of the
  record \<open>s3_ports\<close>, operations on a world \<open>'w\<close> that the service only reaches through them, so a world may
  also contain other clients that act between two calls. Fresh identifiers come from the world as well.
\<close>

section \<open>What the service calls\<close>

type_synonym ('w, 'a) repo_action = "('w, repository_error, 'a) action"
type_synonym ('w, 'a) store_action = "('w, object_store_error, 'a) action"

record 'w s3_ports =
  po_find_s3_bucket :: "application_id \<Rightarrow> str \<Rightarrow> ('w, s3_bucket option) repo_action"
  po_list_s3_buckets :: "application_id \<Rightarrow> ('w, s3_bucket list) repo_action"
  po_find_s3_object :: "application_id \<Rightarrow> bucket_id \<Rightarrow> str \<Rightarrow> ('w, s3_object option) repo_action"
  po_find_s3_object_version :: "object_id \<Rightarrow> s3_version_id \<Rightarrow> ('w, object_version option) repo_action"
  po_find_current_s3_object_version :: "object_id \<Rightarrow> ('w, object_version option) repo_action"
  po_find_s3_object_version_by_id :: "object_version_id \<Rightarrow> ('w, object_version option) repo_action"
  po_list_s3_object_versions :: "object_id \<Rightarrow> ('w, object_version list) repo_action"
  po_find_s3_object_version_tags :: "application_id \<Rightarrow> object_version_id \<Rightarrow> ('w, s3_object_tag_set option) repo_action"
  po_get_s3_object_tagging :: "s3_object_tagging_command \<Rightarrow> ('w, s3_object_tagging_outcome) repo_action"
  po_replace_s3_object_tagging ::
    "s3_object_tagging_command \<Rightarrow> s3_object_tag_set \<Rightarrow> ('w, s3_object_tagging_outcome) repo_action"
  po_put_s3_object_lock :: "put_s3_object_lock_command \<Rightarrow> ('w, put_s3_object_lock_outcome) repo_action"
  po_delete_s3_object :: "delete_s3_object_command \<Rightarrow> ('w, delete_s3_object_outcome) repo_action"
  po_create_upload_intent :: "upload_intent \<Rightarrow> ('w, unit) repo_action"
  po_find_upload_intent :: "upload_intent_id \<Rightarrow> ('w, upload_intent option) repo_action"
  po_complete_staging ::
    "upload_intent_id \<Rightarrow> entity_tag \<Rightarrow> checksum \<Rightarrow> u64 \<Rightarrow> timestamp \<Rightarrow> ('w, upload_intent) repo_action"
  po_claim :: "upload_intent_id \<Rightarrow> str \<Rightarrow> timestamp \<Rightarrow> timestamp \<Rightarrow> ('w, upload_intent) repo_action"
  po_release :: "upload_intent_id \<Rightarrow> str \<Rightarrow> timestamp \<Rightarrow> ('w, upload_intent) repo_action"
  po_abort :: "upload_intent_id \<Rightarrow> new_storage_gc_task \<Rightarrow> timestamp \<Rightarrow> ('w, upload_intent) repo_action"
  po_commit :: "upload_intent_id \<Rightarrow> str \<Rightarrow> s3_object_version_commit \<Rightarrow> ('w, s3_object) repo_action"
  po_backend_name :: str
  po_exists :: "str \<Rightarrow> ('w, bool) store_action"
  po_commit_temporary :: "str \<Rightarrow> str \<Rightarrow> ('w, unit) store_action"
  po_head :: "str \<Rightarrow> ('w, object_metadata) store_action"
  po_read :: "str \<Rightarrow> ('w, str) store_action"
  po_now :: "'w \<Rightarrow> 'w \<times> timestamp"
  po_new_id :: "'w \<Rightarrow> 'w \<times> uuid"
  po_uuid_text :: "uuid \<Rightarrow> str"
  po_unicode :: unicode_tables

datatype s3_object_service_error =
    SvcBucketNotFound
  | SvcObjectNotFound
  | SvcVersionNotFound
  | SvcDeleteMarker s3_version_id bool
  | SvcUploadIntentNotFound
  | SvcUploadIntentOwnershipMismatch
  | SvcUploadIntentFactsMismatch
  | SvcInvalidUploadIntentState upload_intent_state
  | SvcCompletionInProgress
  | SvcInvalidGcGrace
  | SvcDeleteLocked s3_delete_lock_reason
  | SvcObjectLockNotEnabled
  | SvcObjectRetentionNotFound
  | SvcRetentionUpdateLocked s3_delete_lock_reason
  | SvcInvalidObjectRetention
  | SvcPromotion object_store_error
  | SvcPromotionRelease object_store_error repository_error
  | SvcPromotionUncertain object_store_error object_store_error
  | SvcModel s3_model_error
  | SvcRepository repository_error
  | SvcStorage object_store_error

type_synonym ('w, 'a) service = "('w, s3_object_service_error, 'a) action"

text \<open>\<open>?\<close> with the conversions of the \<open>From\<close> implementations.\<close>

abbreviation repo :: "('w, 'a) repo_action \<Rightarrow> ('w, 'a) service" where
  "repo m \<equiv> act_map_err SvcRepository m"

abbreviation storage :: "('w, 'a) store_action \<Rightarrow> ('w, 'a) service" where
  "storage m \<equiv> act_map_err SvcStorage m"

abbreviation model :: "s3_model_error + 'a \<Rightarrow> ('w, 'a) service" where
  "model r \<equiv> act_of (map_err SvcModel r)"

abbreviation invariant_error :: "str \<Rightarrow> s3_object_service_error" where
  "invariant_error message \<equiv> SvcRepository (RepoInvariant (Message message))"

section \<open>Requests and receipts\<close>

definition DEFAULT_S3_UPLOAD_INTENT_TTL_SECONDS :: int where
  "DEFAULT_S3_UPLOAD_INTENT_TTL_SECONDS = 3600"

definition DEFAULT_S3_UPLOAD_LEASE_SECONDS :: int where
  "DEFAULT_S3_UPLOAD_LEASE_SECONDS = 120"

definition DEFAULT_S3_GC_GRACE_SECONDS :: int where
  "DEFAULT_S3_GC_GRACE_SECONDS = 24 * 60 * 60"

definition DEFAULT_S3_GC_MAX_ATTEMPTS :: u32 where
  "DEFAULT_S3_GC_MAX_ATTEMPTS = 10"

record begin_put_object_request =
  bp_application_id :: application_id
  bp_bucket_name :: str
  bp_object_key :: str
  bp_expected_size_bytes :: u64
  bp_content_type :: "str option"
  bp_user_metadata :: json
  bp_object_tags :: s3_object_tag_set
  bp_expires_at :: "timestamp option"

record abort_staged_put_request =
  ap_application_id :: application_id
  ap_intent_id :: upload_intent_id

record complete_put_object_request =
  cp_application_id :: application_id
  cp_intent_id :: upload_intent_id
  cp_streamed :: streamed_object
  cp_created_by :: str
  cp_source_protocol :: source_protocol

record complete_put_object_receipt =
  cr_object :: s3_object
  cr_version :: object_version

record new_s3_object_lock =
  nl_retention :: "object_retention option"
  nl_legal_hold :: "bool option"

definition lock_default :: new_s3_object_lock where
  "lock_default = \<lparr>nl_retention = None, nl_legal_hold = None\<rparr>"

definition lock_requested :: "new_s3_object_lock \<Rightarrow> bool" where
  "lock_requested l \<longleftrightarrow> nl_retention l \<noteq> None \<or> nl_legal_hold l \<noteq> None"

record prepare_claimed_upload_commit_request =
  pr_intent :: upload_intent
  pr_lease_token :: str
  pr_entity_tag :: entity_tag
  pr_checksum :: checksum
  pr_size_bytes :: u64
  pr_created_by :: str
  pr_source_protocol :: source_protocol

record prepared_s3_object_version_commit =
  pc_commit :: s3_object_version_commit
  pc_version :: object_version

record s3_object_request =
  rq_application_id :: application_id
  rq_bucket_name :: str
  rq_object_key :: str
  rq_version_id :: "s3_version_id option"

record delete_object_request =
  dr_application_id :: application_id
  dr_bucket_name :: str
  dr_object_key :: str
  dr_version_id :: "s3_version_id option"
  dr_bypass_governance :: bool
  dr_deleted_by :: str

record delete_object_receipt =
  dt_version_id :: "s3_version_id option"
  dt_delete_marker :: bool

record s3_head_object_receipt =
  hr_object :: s3_object
  hr_version :: object_version
  hr_tags :: s3_object_tag_set

record s3_get_object_receipt =
  gr_head :: s3_head_object_receipt
  gr_content :: str

definition with_gc_grace :: "int \<Rightarrow> s3_object_service_error + int" where
  "with_gc_grace gc_grace = (if gc_grace < 0 then Err SvcInvalidGcGrace else Ok gc_grace)"

section \<open>Helpers\<close>

definition temporary_storage_key :: "'w s3_ports \<Rightarrow> upload_intent_id \<Rightarrow> object_version_id \<Rightarrow> str" where
  "temporary_storage_key p intent_id proposed_version_id =
     ''s3/staging/'' @ po_uuid_text p intent_id @ ''/'' @ po_uuid_text p proposed_version_id"

definition final_storage_key :: "'w s3_ports \<Rightarrow> application_id \<Rightarrow> bucket_id \<Rightarrow> object_version_id \<Rightarrow> str" where
  "final_storage_key p application_id bucket_id proposed_version_id =
     ''s3/objects/'' @ po_uuid_text p application_id @ ''/'' @ po_uuid_text p bucket_id @ ''/''
       @ po_uuid_text p proposed_version_id"

definition external_version_id ::
  "'w s3_ports \<Rightarrow> versioning_status \<Rightarrow> object_version_id \<Rightarrow> s3_model_error + s3_version_id \<times> bool" where
  "external_version_id p status proposed_version_id =
     (case status of
        VersioningEnabled \<Rightarrow>
          and_then (s3_version_id_new (po_uuid_text p proposed_version_id)) (\<lambda>v. Ok (v, False))
      | _ \<Rightarrow> and_then (s3_version_id_new ''null'') (\<lambda>v. Ok (v, True)))"

definition ensure_ready_facts ::
  "upload_intent \<Rightarrow> entity_tag \<Rightarrow> checksum \<Rightarrow> u64 \<Rightarrow> s3_object_service_error + unit" where
  "ensure_ready_facts intent entity_tag checksum sz =
     (if ui_entity_tag intent = Some entity_tag \<and> ui_checksum intent = Some checksum \<and> ui_size_bytes intent = Some sz
      then Ok () else Err SvcUploadIntentFactsMismatch)"

definition null_replacement_gc_tasks ::
  "'w s3_ports \<Rightarrow> object_version option \<Rightarrow> timestamp \<Rightarrow> int \<Rightarrow> ('w, new_storage_gc_task list) service" where
  "null_replacement_gc_tasks p replaced committed_at gc_grace =
     (case replaced of
        None \<Rightarrow> act_return []
      | Some replaced \<Rightarrow>
          (case ov_payload replaced of
             DeleteMarker \<Rightarrow> act_return []
           | PayloadObject payload \<Rightarrow>
               act_bind (act_call (po_new_id p)) (\<lambda>task_id.
                 act_return
                   [\<lparr>gc_id = task_id, gc_application_id = ov_application_id replaced,
                     gc_bucket_id = ov_bucket_id replaced, gc_object_version_id = Some (ov_id replaced),
                     gc_upload_intent_id = None, gc_multipart_upload_id = None,
                     gc_storage_backend = sv_storage_backend payload, gc_storage_key = sv_storage_key payload,
                     gc_reason = ReplacedNullVersion, gc_not_before = committed_at + gc_grace,
                     gc_max_attempts = DEFAULT_S3_GC_MAX_ATTEMPTS, gc_created_at = committed_at\<rparr>])))"

fun map_object_tagging_outcome ::
  "s3_object_tagging_outcome \<Rightarrow> s3_object_service_error + s3_head_object_receipt" where
  "map_object_tagging_outcome (TagsFound obj version tags) =
     Ok \<lparr>hr_object = obj, hr_version = version, hr_tags = tags\<rparr>"
| "map_object_tagging_outcome TagsObjectNotFound = Err SvcObjectNotFound"
| "map_object_tagging_outcome TagsVersionNotFound = Err SvcVersionNotFound"
| "map_object_tagging_outcome (TagsDeleteMarker version_id is_current) = Err (SvcDeleteMarker version_id is_current)"

text \<open>\<open>find_s3_bucket(..).await?.ok_or(BucketNotFound)?\<close>\<close>

definition require_bucket :: "'w s3_ports \<Rightarrow> application_id \<Rightarrow> str \<Rightarrow> ('w, s3_bucket) service" where
  "require_bucket p application_id bucket_name =
     act_bind (repo (po_find_s3_bucket p application_id bucket_name)) (\<lambda>found.
       act_of (ok_or SvcBucketNotFound found))"

definition find_bucket_by_id :: "'w s3_ports \<Rightarrow> upload_intent \<Rightarrow> ('w, s3_bucket) service" where
  "find_bucket_by_id p intent =
     act_bind (repo (po_list_s3_buckets p (ui_application_id intent))) (\<lambda>buckets.
       act_of (ok_or SvcBucketNotFound (List.find (\<lambda>b. sb_id b = ui_bucket_id intent) buckets)))"

section \<open>Uploads\<close>

definition begin_put :: "'w s3_ports \<Rightarrow> begin_put_object_request \<Rightarrow> ('w, upload_intent) service" where
  "begin_put p request =
     act_bind (require_bucket p (bp_application_id request) (bp_bucket_name request)) (\<lambda>bucket.
     act_bind (act_call (po_now p)) (\<lambda>now.
     act_bind (act_call (po_new_id p)) (\<lambda>intent_id.
     act_bind (act_call (po_new_id p)) (\<lambda>proposed_version_id.
     act_bind (model (intent_new (po_unicode p) intent_id (bp_application_id request) (sb_id bucket)
         (bp_object_key request) proposed_version_id (po_backend_name p)
         (temporary_storage_key p intent_id proposed_version_id)
         (final_storage_key p (bp_application_id request) (sb_id bucket) proposed_version_id)
         (bp_expected_size_bytes request) (bp_content_type request) (bp_user_metadata request)
         (bp_object_tags request)
         (case bp_expires_at request of
            Some t \<Rightarrow> t
          | None \<Rightarrow> now + DEFAULT_S3_UPLOAD_INTENT_TTL_SECONDS * nanos_per_second) now)) (\<lambda>intent.
     act_bind (repo (po_create_upload_intent p intent)) (\<lambda>_. act_return intent))))))"

text \<open>\<open>find_upload_intent(..).await?.ok_or(..)?\<close> and the check of the owner.\<close>

definition require_intent :: "'w s3_ports \<Rightarrow> application_id \<Rightarrow> upload_intent_id \<Rightarrow> ('w, upload_intent) service" where
  "require_intent p application_id intent_id =
     act_bind (repo (po_find_upload_intent p intent_id)) (\<lambda>found.
     act_bind (act_of (ok_or SvcUploadIntentNotFound found)) (\<lambda>intent.
       act_of (if ui_application_id intent \<noteq> application_id then Err SvcUploadIntentOwnershipMismatch
               else Ok intent)))"

definition abort_staged_put :: "'w s3_ports \<Rightarrow> abort_staged_put_request \<Rightarrow> ('w, upload_intent) service" where
  "abort_staged_put p request =
     act_bind (require_intent p (ap_application_id request) (ap_intent_id request)) (\<lambda>intent.
       if ui_state intent = IntentAborted \<or> ui_state intent = IntentExpired then act_return intent
       else if ui_state intent \<noteq> IntentStaging \<and> ui_state intent \<noteq> IntentReady
       then act_of (Err (SvcInvalidUploadIntentState (ui_state intent)))
       else
         act_bind (act_call (po_now p)) (\<lambda>now.
         act_bind (act_call (po_new_id p)) (\<lambda>task_id.
           repo (po_abort p (ui_id intent)
             \<lparr>gc_id = task_id, gc_application_id = ui_application_id intent, gc_bucket_id = ui_bucket_id intent,
              gc_object_version_id = None, gc_upload_intent_id = Some (ui_id intent), gc_multipart_upload_id = None,
              gc_storage_backend = ui_storage_backend intent, gc_storage_key = ui_temporary_storage_key intent,
              gc_reason = AbortedUploadIntent, gc_not_before = now, gc_max_attempts = DEFAULT_S3_GC_MAX_ATTEMPTS,
              gc_created_at = now\<rparr> now))))"

text \<open>The promotion failed and the final key does not exist: the lease is given back.\<close>

definition release_failed ::
  "'w s3_ports \<Rightarrow> upload_intent \<Rightarrow> str \<Rightarrow> object_store_error \<Rightarrow> ('w, unit) service" where
  "release_failed p intent lease_token promotion =
     act_bind (act_call (po_now p)) (\<lambda>now.
     act_bind (act_try (po_release p (ui_id intent) lease_token now)) (\<lambda>released.
       case released of
         Inl release \<Rightarrow> act_of (Err (SvcPromotionRelease promotion release))
       | Inr _ \<Rightarrow> act_of (Err (SvcPromotion promotion))))"

definition probe_failed ::
  "'w s3_ports \<Rightarrow> upload_intent \<Rightarrow> str \<Rightarrow> object_store_error \<Rightarrow> ('w, unit) service" where
  "probe_failed p intent lease_token promotion =
     act_bind (act_try (po_exists p (ui_final_storage_key intent))) (\<lambda>probe.
       case probe of
         Inl probe \<Rightarrow> act_of (Err (SvcPromotionUncertain promotion probe))
       | Inr present \<Rightarrow> if present then act_return () else release_failed p intent lease_token promotion)"

definition promote :: "'w s3_ports \<Rightarrow> upload_intent \<Rightarrow> str \<Rightarrow> ('w, unit) service" where
  "promote p intent lease_token =
     act_bind (storage (po_exists p (ui_final_storage_key intent))) (\<lambda>present.
       if present then act_return ()
       else
         act_bind (act_try (po_commit_temporary p (ui_temporary_storage_key intent) (ui_final_storage_key intent)))
           (\<lambda>promotion.
             case promotion of
               Inr _ \<Rightarrow> act_return ()
             | Inl promotion \<Rightarrow> probe_failed p intent lease_token promotion))"

definition claimed_by :: "upload_intent \<Rightarrow> str \<Rightarrow> s3_object_service_error + unit" where
  "claimed_by intent lease_token =
     (if ui_state intent \<noteq> IntentCommitting \<or> ui_lease_token intent \<noteq> Some lease_token
      then Err (SvcInvalidUploadIntentState (ui_state intent)) else Ok ())"

definition promote_claimed_upload_intent :: "'w s3_ports \<Rightarrow> upload_intent \<Rightarrow> str \<Rightarrow> ('w, unit) service" where
  "promote_claimed_upload_intent p intent lease_token =
     act_bind (act_of (claimed_by intent lease_token)) (\<lambda>_. promote p intent lease_token)"

text \<open>The target of the commit, its object and the generation of the new version.\<close>

definition commit_target ::
  "'w s3_ports \<Rightarrow> upload_intent \<Rightarrow> s3_object option \<Rightarrow> ('w, s3_object_commit_target \<times> object_id \<times> u64) service" where
  "commit_target p intent existing_object =
     (case existing_object of
        Some obj \<Rightarrow>
          act_bind (act_of (ok_or (invariant_error ''object generation overflow'') (checked_add (so_generation obj) 1)))
            (\<lambda>generation. act_return (CommitAppend (so_id obj) (so_generation obj), so_id obj, generation))
      | None \<Rightarrow>
          act_bind (act_call (po_new_id p)) (\<lambda>object_id.
          act_bind (act_call (po_now p)) (\<lambda>now.
          act_bind (model (s3_object_new object_id (ui_application_id intent) (ui_bucket_id intent)
              (ui_object_key intent) now)) (\<lambda>obj.
            act_return (CommitCreate obj, so_id obj, 1)))))"

definition replaced_null ::
  "'w s3_ports \<Rightarrow> versioning_status \<Rightarrow> s3_object option \<Rightarrow> ('w, object_version option) service" where
  "replaced_null p versioning_status existing_object =
     (if versioning_status = VersioningEnabled then act_return None
      else case existing_object of
             None \<Rightarrow> act_return None
           | Some obj \<Rightarrow>
               act_bind (repo (po_list_s3_object_versions p (so_id obj))) (\<lambda>versions.
                 act_return (List.find ov_is_null_version versions)))"

definition prepare_claimed_upload_commit_with_object_lock ::
  "'w s3_ports \<Rightarrow> int \<Rightarrow> prepare_claimed_upload_commit_request \<Rightarrow> new_s3_object_lock
   \<Rightarrow> ('w, prepared_s3_object_version_commit) service" where
  "prepare_claimed_upload_commit_with_object_lock p gc_grace request object_lock =
     (let intent = pr_intent request
      in act_bind (act_of (claimed_by intent (pr_lease_token request))) (\<lambda>_.
         act_bind (act_of (ensure_ready_facts intent (pr_entity_tag request) (pr_checksum request)
             (pr_size_bytes request))) (\<lambda>_.
         act_bind (find_bucket_by_id p intent) (\<lambda>bucket.
         if lock_requested object_lock \<and> \<not> bc_object_lock_enabled (sb_configuration bucket)
         then act_of (Err SvcObjectLockNotEnabled)
         else
         act_bind (repo (po_find_s3_object p (ui_application_id intent) (ui_bucket_id intent)
             (ui_object_key intent))) (\<lambda>existing_object.
         let versioning_status = bc_versioning_status (sb_configuration bucket)
         in act_bind (replaced_null p versioning_status existing_object) (\<lambda>replaced.
         act_bind (commit_target p intent existing_object) (\<lambda>(target, object_id, generation).
         act_bind (model (external_version_id p versioning_status (ui_proposed_version_id intent)))
           (\<lambda>(external_id, is_null_version).
         act_bind (storage (po_head p (ui_final_storage_key intent))) (\<lambda>provider.
         act_bind (model (case om_etag provider of
             None \<Rightarrow> Ok None | Some tag \<Rightarrow> and_then (entity_tag_new tag) (\<lambda>t. Ok (Some t)))) (\<lambda>provider_etag.
         act_bind (model (stored_object_version_new (ui_storage_backend intent) (ui_final_storage_key intent)
             provider_etag (om_version provider) (pr_entity_tag request) (pr_size_bytes request)
             (ui_content_type intent) (ui_user_metadata intent) (Some (pr_checksum request)))) (\<lambda>stored.
         act_bind (act_call (po_now p)) (\<lambda>committed_at.
         act_bind (model (new_object (ui_proposed_version_id intent) object_id (ui_application_id intent)
             (ui_bucket_id intent) external_id generation is_null_version VersionCommitted stored None False
             (pr_created_by request) (pr_source_protocol request) committed_at)) (\<lambda>version.
         act_bind (null_replacement_gc_tasks p replaced committed_at gc_grace) (\<lambda>gc_tasks.
           act_return
             \<lparr>pc_commit = \<lparr>vc_target = target, vc_version = version, vc_committed_at = committed_at,
                           vc_replaced_null_version_id = map_option ov_id replaced, vc_gc_tasks = gc_tasks,
                           vc_requested_retention = nl_retention object_lock,
                           vc_requested_legal_hold = nl_legal_hold object_lock\<rparr>,
              pc_version = version\<rparr>))))))))))))))"

definition prepare_claimed_upload_commit ::
  "'w s3_ports \<Rightarrow> int \<Rightarrow> prepare_claimed_upload_commit_request \<Rightarrow> ('w, prepared_s3_object_version_commit) service" where
  "prepare_claimed_upload_commit p gc_grace request =
     prepare_claimed_upload_commit_with_object_lock p gc_grace request lock_default"

definition committed_receipt :: "'w s3_ports \<Rightarrow> upload_intent \<Rightarrow> ('w, complete_put_object_receipt) service" where
  "committed_receipt p intent =
     act_bind (act_of (ok_or (invariant_error ''committed intent has no object ID'') (ui_committed_object_id intent)))
       (\<lambda>object_id.
     act_bind (act_of (ok_or (invariant_error ''committed intent has no object version ID'')
         (ui_committed_version_id intent))) (\<lambda>version_id.
     act_bind (repo (po_find_s3_object p (ui_application_id intent) (ui_bucket_id intent) (ui_object_key intent)))
       (\<lambda>found.
     act_bind (act_of (case found of
         Some obj \<Rightarrow> if so_id obj = object_id then Ok obj
                     else Err (invariant_error ''committed intent object is missing'')
       | None \<Rightarrow> Err (invariant_error ''committed intent object is missing''))) (\<lambda>obj.
     act_bind (repo (po_find_s3_object_version_by_id p version_id)) (\<lambda>found_version.
     act_bind (act_of (case found_version of
         Some version \<Rightarrow>
           if ov_object_id version = object_id \<and> ov_application_id version = ui_application_id intent
              \<and> ov_bucket_id version = ui_bucket_id intent
           then Ok version else Err (invariant_error ''committed intent version is missing'')
       | None \<Rightarrow> Err (invariant_error ''committed intent version is missing''))) (\<lambda>version.
       act_return \<lparr>cr_object = obj, cr_version = version\<rparr>))))))"

text \<open>From a promoted payload to the committed version, and before that from a ready intent.\<close>

definition commit_promoted ::
  "'w s3_ports \<Rightarrow> int \<Rightarrow> complete_put_object_request \<Rightarrow> new_s3_object_lock \<Rightarrow> entity_tag \<Rightarrow> checksum \<Rightarrow> upload_intent
   \<Rightarrow> str \<Rightarrow> ('w, complete_put_object_receipt) service" where
  "commit_promoted p gc_grace request object_lock entity_tag checksum committing lease_token =
     act_bind (prepare_claimed_upload_commit_with_object_lock p gc_grace
         \<lparr>pr_intent = committing, pr_lease_token = lease_token, pr_entity_tag = entity_tag, pr_checksum = checksum,
          pr_size_bytes = sm_size (cp_streamed request), pr_created_by = cp_created_by request,
          pr_source_protocol = cp_source_protocol request\<rparr> object_lock) (\<lambda>prepared.
     act_bind (repo (po_commit p (ui_id committing) lease_token (pc_commit prepared))) (\<lambda>obj.
     act_bind (repo (po_find_s3_object_version_by_id p (ov_id (pc_version prepared)))) (\<lambda>found_version.
     act_bind (act_of (case found_version of
         Some version \<Rightarrow>
           if ov_object_id version = so_id obj \<and> ov_application_id version = cp_application_id request
              \<and> ov_bucket_id version = so_bucket_id obj
           then Ok version else Err (invariant_error ''committed object-lock version is missing'')
       | None \<Rightarrow> Err (invariant_error ''committed object-lock version is missing''))) (\<lambda>version.
       act_return \<lparr>cr_object = obj, cr_version = version\<rparr>))))"

definition commit_ready ::
  "'w s3_ports \<Rightarrow> int \<Rightarrow> complete_put_object_request \<Rightarrow> new_s3_object_lock \<Rightarrow> entity_tag \<Rightarrow> checksum \<Rightarrow> upload_intent
   \<Rightarrow> ('w, complete_put_object_receipt) service" where
  "commit_ready p gc_grace request object_lock entity_tag checksum ready =
     act_bind (act_call (po_new_id p)) (\<lambda>token_id.
     act_bind (act_call (po_now p)) (\<lambda>now.
     let lease_token = ''s3-put-'' @ po_uuid_text p token_id
     in act_bind (repo (po_claim p (ui_id ready) lease_token
         (now + DEFAULT_S3_UPLOAD_LEASE_SECONDS * nanos_per_second) now)) (\<lambda>committing.
     act_bind (promote_claimed_upload_intent p committing lease_token) (\<lambda>_.
       commit_promoted p gc_grace request object_lock entity_tag checksum committing lease_token))))"

definition complete_put_with_object_lock ::
  "'w s3_ports \<Rightarrow> int \<Rightarrow> complete_put_object_request \<Rightarrow> new_s3_object_lock
   \<Rightarrow> ('w, complete_put_object_receipt) service" where
  "complete_put_with_object_lock p gc_grace request object_lock =
     act_bind (model (sha256_hex (sm_sha256 (cp_streamed request)))) (\<lambda>checksum.
     act_bind (model (entity_tag_new (sm_md5 (cp_streamed request)))) (\<lambda>entity_tag.
     act_bind (require_intent p (cp_application_id request) (cp_intent_id request)) (\<lambda>intent.
     act_bind (if lock_requested object_lock
               then act_bind (find_bucket_by_id p intent) (\<lambda>bucket.
                      act_of (if bc_object_lock_enabled (sb_configuration bucket) then Ok ()
                              else Err SvcObjectLockNotEnabled))
               else act_return ()) (\<lambda>_.
       case ui_state intent of
         IntentStaging \<Rightarrow>
           act_bind (act_call (po_now p)) (\<lambda>now.
           act_bind (repo (po_complete_staging p (ui_id intent) entity_tag checksum
               (sm_size (cp_streamed request)) now)) (\<lambda>ready.
             commit_ready p gc_grace request object_lock entity_tag checksum ready))
       | IntentReady \<Rightarrow>
           act_bind (act_of (ensure_ready_facts intent entity_tag checksum (sm_size (cp_streamed request)))) (\<lambda>_.
             commit_ready p gc_grace request object_lock entity_tag checksum intent)
       | IntentCommitted \<Rightarrow>
           act_bind (act_of (ensure_ready_facts intent entity_tag checksum (sm_size (cp_streamed request)))) (\<lambda>_.
             committed_receipt p intent)
       | IntentCommitting \<Rightarrow> act_of (Err SvcCompletionInProgress)
       | state \<Rightarrow> act_of (Err (SvcInvalidUploadIntentState state))))))"

definition complete_put ::
  "'w s3_ports \<Rightarrow> int \<Rightarrow> complete_put_object_request \<Rightarrow> ('w, complete_put_object_receipt) service" where
  "complete_put p gc_grace request = complete_put_with_object_lock p gc_grace request lock_default"

section \<open>Reads\<close>

definition resolve_visible_version :: "'w s3_ports \<Rightarrow> s3_object_request \<Rightarrow> ('w, s3_head_object_receipt) service" where
  "resolve_visible_version p request =
     act_bind (require_bucket p (rq_application_id request) (rq_bucket_name request)) (\<lambda>bucket.
     act_bind (repo (po_find_s3_object p (rq_application_id request) (sb_id bucket) (rq_object_key request))) (\<lambda>found.
     act_bind (act_of (ok_or SvcObjectNotFound found)) (\<lambda>obj.
     act_bind (case rq_version_id request of
         Some version_id \<Rightarrow>
           act_bind (repo (po_find_s3_object_version p (so_id obj) version_id)) (\<lambda>v. act_of (ok_or SvcVersionNotFound v))
       | None \<Rightarrow>
           act_bind (repo (po_find_current_s3_object_version p (so_id obj))) (\<lambda>v. act_of (ok_or SvcObjectNotFound v)))
       (\<lambda>version.
     if ov_state version \<noteq> VersionCommitted
     then act_of (Err (if rq_version_id request \<noteq> None then SvcVersionNotFound else SvcObjectNotFound))
     else if is_delete_marker version
     then act_of (Err (SvcDeleteMarker (ov_external_version_id version)
            (so_current_version_id obj = Some (ov_id version))))
     else
       act_bind (repo (po_find_s3_object_version_tags p (rq_application_id request) (ov_id version))) (\<lambda>found_tags.
       act_bind (act_of (ok_or (invariant_error ''resolved object version has no tenant-scoped tag record'') found_tags))
         (\<lambda>tags. act_return \<lparr>hr_object = obj, hr_version = version, hr_tags = tags\<rparr>))))))"

text \<open>\<open>unreachable!\<close> is a panic.\<close>

definition get_object :: "'w s3_ports \<Rightarrow> s3_object_request \<Rightarrow> ('w, s3_get_object_receipt) service" where
  "get_object p request =
     act_bind (resolve_visible_version p request) (\<lambda>head.
       case ov_payload (hr_version head) of
         DeleteMarker \<Rightarrow> (\<lambda>_. None)
       | PayloadObject payload \<Rightarrow>
           act_bind (storage (po_read p (sv_storage_key payload))) (\<lambda>content.
             act_return \<lparr>gr_head = head, gr_content = content\<rparr>))"

definition head_object_version :: "'w s3_ports \<Rightarrow> s3_object_request \<Rightarrow> ('w, s3_head_object_receipt) service" where
  "head_object_version p request = resolve_visible_version p request"

definition list_versions ::
  "'w s3_ports \<Rightarrow> application_id \<Rightarrow> str \<Rightarrow> str \<Rightarrow> ('w, object_version list) service" where
  "list_versions p application_id bucket_name object_key =
     act_bind (require_bucket p application_id bucket_name) (\<lambda>bucket.
     act_bind (repo (po_find_s3_object p application_id (sb_id bucket) object_key)) (\<lambda>found.
       case found of
         None \<Rightarrow> act_return []
       | Some obj \<Rightarrow> repo (po_list_s3_object_versions p (so_id obj))))"

section \<open>Tags and Object Lock\<close>

definition tagging_command :: "s3_object_request \<Rightarrow> bucket_id \<Rightarrow> s3_object_tagging_command" where
  "tagging_command request bucket_id =
     \<lparr>tc_application_id = rq_application_id request, tc_bucket_id = bucket_id,
      tc_object_key = rq_object_key request, tc_version_id = rq_version_id request\<rparr>"

definition get_object_tags :: "'w s3_ports \<Rightarrow> s3_object_request \<Rightarrow> ('w, s3_head_object_receipt) service" where
  "get_object_tags p request =
     act_bind (require_bucket p (rq_application_id request) (rq_bucket_name request)) (\<lambda>bucket.
     act_bind (repo (po_get_s3_object_tagging p (tagging_command request (sb_id bucket)))) (\<lambda>outcome.
       act_of (map_object_tagging_outcome outcome)))"

definition replace_object_tags ::
  "'w s3_ports \<Rightarrow> s3_object_request \<Rightarrow> s3_object_tag_set \<Rightarrow> ('w, s3_head_object_receipt) service" where
  "replace_object_tags p request tags =
     act_bind (act_of (map_err (\<lambda>e. SvcRepository (RepoInvariant (TaggingError e)))
         (object_tag_set_validate (po_unicode p) tags))) (\<lambda>_.
     act_bind (require_bucket p (rq_application_id request) (rq_bucket_name request)) (\<lambda>bucket.
     act_bind (repo (po_replace_s3_object_tagging p (tagging_command request (sb_id bucket)) tags)) (\<lambda>outcome.
       act_of (map_object_tagging_outcome outcome))))"

definition put_object_tags ::
  "'w s3_ports \<Rightarrow> s3_object_request \<Rightarrow> s3_object_tag_set \<Rightarrow> ('w, s3_head_object_receipt) service" where
  "put_object_tags p request tags = replace_object_tags p request tags"

definition delete_object_tags :: "'w s3_ports \<Rightarrow> s3_object_request \<Rightarrow> ('w, s3_head_object_receipt) service" where
  "delete_object_tags p request = replace_object_tags p request (ObjectTagSet [])"

definition get_object_lock :: "'w s3_ports \<Rightarrow> s3_object_request \<Rightarrow> ('w, s3_head_object_receipt) service" where
  "get_object_lock p request =
     act_bind (require_bucket p (rq_application_id request) (rq_bucket_name request)) (\<lambda>bucket.
       if \<not> bc_object_lock_enabled (sb_configuration bucket) then act_of (Err SvcObjectLockNotEnabled)
       else resolve_visible_version p request)"

fun lock_outcome :: "put_s3_object_lock_outcome \<Rightarrow> s3_object_service_error + object_version" where
  "lock_outcome (LockUpdated version) = Ok version"
| "lock_outcome LockObjectNotFound = Err SvcObjectNotFound"
| "lock_outcome LockVersionNotFound = Err SvcVersionNotFound"
| "lock_outcome (LockDeleteMarker version_id is_current) = Err (SvcDeleteMarker version_id is_current)"
| "lock_outcome LockNotEnabled = Err SvcObjectLockNotEnabled"
| "lock_outcome (LockRetentionLocked reason) = Err (SvcRetentionUpdateLocked reason)"
| "lock_outcome LockInvalidRetention = Err SvcInvalidObjectRetention"

definition put_object_lock ::
  "'w s3_ports \<Rightarrow> s3_object_request \<Rightarrow> s3_object_lock_mutation \<Rightarrow> ('w, object_version) service" where
  "put_object_lock p request mutation =
     act_bind (require_bucket p (rq_application_id request) (rq_bucket_name request)) (\<lambda>bucket.
     act_bind (act_call (po_now p)) (\<lambda>now.
     act_bind (repo (po_put_s3_object_lock p
         \<lparr>lc_application_id = rq_application_id request, lc_bucket_id = sb_id bucket,
          lc_object_key = rq_object_key request, lc_version_id = rq_version_id request,
          lc_mutation = mutation, lc_updated_at = now\<rparr>)) (\<lambda>outcome.
       act_of (lock_outcome outcome))))"

definition put_object_retention ::
  "'w s3_ports \<Rightarrow> s3_object_request \<Rightarrow> object_retention \<Rightarrow> bool \<Rightarrow> ('w, object_version) service" where
  "put_object_retention p request retention bypass_governance =
     put_object_lock p request (RetentionMutation retention bypass_governance)"

definition put_object_legal_hold :: "'w s3_ports \<Rightarrow> s3_object_request \<Rightarrow> bool \<Rightarrow> ('w, object_version) service" where
  "put_object_legal_hold p request legal_hold = put_object_lock p request (LegalHoldMutation legal_hold)"

section \<open>Deletion\<close>

fun delete_outcome :: "delete_s3_object_outcome \<Rightarrow> s3_object_service_error + delete_object_receipt" where
  "delete_outcome (delete_s3_object_outcome.Deleted deleted) =
     Ok \<lparr>dt_version_id = dv_version_id deleted, dt_delete_marker = dv_delete_marker deleted\<rparr>"
| "delete_outcome DeleteNoOp = Ok \<lparr>dt_version_id = None, dt_delete_marker = False\<rparr>"
| "delete_outcome DeleteVersionNotFound = Err SvcVersionNotFound"
| "delete_outcome (DeleteLocked reason) = Err (SvcDeleteLocked reason)"

definition delete_object_request_of ::
  "int \<Rightarrow> delete_object_request \<Rightarrow> bucket_id \<Rightarrow> timestamp \<Rightarrow> object_version_id \<Rightarrow> s3_version_id \<Rightarrow> storage_gc_task_id
   \<Rightarrow> delete_s3_object_command" where
  "delete_object_request_of gc_grace request bucket_id now marker_id marker_version_id task_id =
     \<lparr>dc_application_id = dr_application_id request, dc_bucket_id = bucket_id,
      dc_object_key = dr_object_key request, dc_version_id = dr_version_id request,
      dc_bypass_governance = dr_bypass_governance request, dc_deleted_by = dr_deleted_by request,
      dc_deleted_at = now, dc_delete_marker_id = marker_id, dc_delete_marker_version_id = marker_version_id,
      dc_gc_task_id = task_id, dc_gc_not_before = now + gc_grace, dc_gc_max_attempts = DEFAULT_S3_GC_MAX_ATTEMPTS\<rparr>"

definition delete_s3 :: "'w s3_ports \<Rightarrow> int \<Rightarrow> delete_object_request \<Rightarrow> ('w, delete_object_receipt) service" where
  "delete_s3 p gc_grace request =
     act_bind (require_bucket p (dr_application_id request) (dr_bucket_name request)) (\<lambda>bucket.
     act_bind (act_call (po_now p)) (\<lambda>now.
     act_bind (act_call (po_new_id p)) (\<lambda>marker_id.
     act_bind (model (s3_version_id_new (po_uuid_text p marker_id))) (\<lambda>marker_version_id.
     act_bind (act_call (po_new_id p)) (\<lambda>task_id.
     act_bind (repo (po_delete_s3_object p
         (delete_object_request_of gc_grace request (sb_id bucket) now marker_id marker_version_id task_id)))
       (\<lambda>outcome. act_of (delete_outcome outcome)))))))"

end
