(* ===== verification/S3_Object_Storage.thy ===== *)
theory S3_Object_Storage
  imports S3_Object_Service
begin

text \<open>
  What the object service keeps true whatever else acts on its repositories and its object store: every
  version it records has its bytes in the store, so a read never misses them. The laws it needs of the
  operations it calls are the locale \<open>object_world\<close>.
\<close>

section \<open>The contract\<close>

text \<open>The invariant of the world, and that the storage keys in \<open>K\<close> are readable.\<close>

definition holds :: "('w \<Rightarrow> bool) \<Rightarrow> ('w \<Rightarrow> str \<Rightarrow> bool) \<Rightarrow> str set \<Rightarrow> 'w \<Rightarrow> bool" where
  "holds world_ok stored K w \<longleftrightarrow> world_ok w \<and> (\<forall>k \<in> K. stored w k)"

definition payload_stored :: "('w \<Rightarrow> str \<Rightarrow> bool) \<Rightarrow> object_version \<Rightarrow> 'w \<Rightarrow> bool" where
  "payload_stored stored v w \<longleftrightarrow>
     (case ov_payload v of PayloadObject payload \<Rightarrow> stored w (sv_storage_key payload) | DeleteMarker \<Rightarrow> True)"

text \<open>No promotion is missing: a read fails only for a reason other than a missing object.\<close>

definition not_missing :: "s3_object_service_error \<Rightarrow> bool" where
  "not_missing e \<longleftrightarrow> e \<noteq> SvcStorage StoreNotFound"

text \<open>The calls that only read, the clock and fresh identifiers keep an assertion about the world.\<close>

locale object_reads =
  fixes p :: "'w s3_ports"
    and assertion :: "'w \<Rightarrow> bool"
  assumes queries:
    "keeps assertion (po_find_s3_bucket p a name)"
    "keeps assertion (po_list_s3_buckets p a)"
    "keeps assertion (po_find_s3_object p a b key)"
    "keeps assertion (po_find_s3_object_version p i e)"
    "keeps assertion (po_find_current_s3_object_version p i)"
    "keeps assertion (po_find_s3_object_version_by_id p v)"
    "keeps assertion (po_list_s3_object_versions p i)"
    "keeps assertion (po_find_s3_object_version_tags p a v)"
    "keeps assertion (po_get_s3_object_tagging p tc)"
    "keeps assertion (po_find_upload_intent p k)"
    "keeps assertion (po_head p storage_key)"
    and ticks: "assertion w \<Longrightarrow> assertion (fst (po_now p w))" "assertion w \<Longrightarrow> assertion (fst (po_new_id p w))"
begin

lemma calls: "keeps assertion (act_call (po_now p))" "keeps assertion (act_call (po_new_id p))"
  by (intro triple_call ticks; assumption)+

lemmas read_steps = queries calls keeps_rules

lemma helpers:
  "keeps assertion (require_bucket p a name)"
  "keeps assertion (find_bucket_by_id p intent)"
  "keeps assertion (require_intent p a k)"
  "keeps assertion (null_replacement_gc_tasks p replaced at grace)"
  "keeps assertion (replaced_null p status existing)"
  "keeps assertion (commit_target p intent existing)"
  "keeps assertion (committed_receipt p intent)"
proof -
  show "keeps assertion (require_bucket p a name)" unfolding require_bucket_def by (intro read_steps)
  show "keeps assertion (find_bucket_by_id p intent)" unfolding find_bucket_by_id_def by (intro read_steps)
  show "keeps assertion (require_intent p a k)" unfolding require_intent_def by (intro read_steps)
  show "keeps assertion (null_replacement_gc_tasks p replaced at grace)"
    unfolding null_replacement_gc_tasks_def by (auto intro!: read_steps split: option.split object_version_payload.split)
  show "keeps assertion (replaced_null p status existing)" unfolding replaced_null_def by (intro read_steps)
  show "keeps assertion (commit_target p intent existing)" unfolding commit_target_def by (intro read_steps)
  show "keeps assertion (committed_receipt p intent)" unfolding committed_receipt_def by (intro read_steps)
qed

lemma resolve_keeps: "keeps assertion (resolve_visible_version p request)"
  unfolding resolve_visible_version_def by (intro read_steps helpers)

lemma reading_operations_keep:
  "keeps assertion (list_versions p a name key)"
  "keeps assertion (get_object_tags p request)"
  "keeps assertion (get_object_lock p request)"
proof -
  show "keeps assertion (list_versions p a name key)" unfolding list_versions_def by (intro read_steps helpers)
  show "keeps assertion (get_object_tags p request)" unfolding get_object_tags_def by (intro read_steps helpers)
  show "keeps assertion (get_object_lock p request)"
    unfolding get_object_lock_def by (intro read_steps helpers resolve_keeps)
qed

lemma prepare_keeps: "keeps assertion (prepare_claimed_upload_commit_with_object_lock p grace request lock)"
  unfolding prepare_claimed_upload_commit_with_object_lock_def Let_def
  by (intro until_rules helpers queries calls keeps_map_err)

end

locale object_world =
  fixes p :: "'w s3_ports"
    and world_ok :: "'w \<Rightarrow> bool"
    and stored :: "'w \<Rightarrow> str \<Rightarrow> bool"
    and final_key :: "str \<Rightarrow> bool"
  assumes reads:
    "keeps (holds world_ok stored K) (po_find_s3_bucket p a name)"
    "keeps (holds world_ok stored K) (po_list_s3_buckets p a)"
    "keeps (holds world_ok stored K) (po_find_s3_object p a b key)"
    "keeps (holds world_ok stored K) (po_find_s3_object_version_by_id p i)"
    "keeps (holds world_ok stored K) (po_list_s3_object_versions p i)"
    "keeps (holds world_ok stored K) (po_find_s3_object_version_tags p a i)"
    "keeps (holds world_ok stored K) (po_get_s3_object_tagging p tc)"
    "keeps (holds world_ok stored K) (po_find_upload_intent p i)"
    "keeps (holds world_ok stored K) (po_head p k)"
    and found_version:
    "triple (holds world_ok stored K) (po_find_s3_object_version p i e)
       (\<lambda>r w. holds world_ok stored K w \<and> (\<forall>v. r = Some v \<longrightarrow> payload_stored stored v w)) (\<lambda>_. holds world_ok stored K)"
    "triple (holds world_ok stored K) (po_find_current_s3_object_version p i)
       (\<lambda>r w. holds world_ok stored K w \<and> (\<forall>v. r = Some v \<longrightarrow> payload_stored stored v w)) (\<lambda>_. holds world_ok stored K)"
    and writes:
    "keeps (holds world_ok stored K) (po_replace_s3_object_tagging p tc tags)"
    "keeps (holds world_ok stored K) (po_put_s3_object_lock p lc)"
    "keeps (holds world_ok stored K) (po_delete_s3_object p dc)"
    "keeps (holds world_ok stored K) (po_complete_staging p i tag ck sz now)"
    "keeps (holds world_ok stored K) (po_release p i token now)"
    "keeps (holds world_ok stored K) (po_abort p i task now)"
    and create: "final_key (ui_final_storage_key intent) \<Longrightarrow> keeps (holds world_ok stored K) (po_create_upload_intent p intent)"
    and claim:
    "triple (holds world_ok stored K) (po_claim p i token until now)
       (\<lambda>intent w. holds world_ok stored K w \<and> final_key (ui_final_storage_key intent)) (\<lambda>_. holds world_ok stored K)"
    and exists_final:
    "final_key k \<Longrightarrow> triple (holds world_ok stored K) (po_exists p k)
       (\<lambda>present w. holds world_ok stored K w \<and> (present \<longrightarrow> stored w k)) (\<lambda>_. holds world_ok stored K)"
    and promoted:
    "final_key k \<Longrightarrow> triple (holds world_ok stored K) (po_commit_temporary p t k)
       (\<lambda>_ w. holds world_ok stored K w \<and> stored w k) (\<lambda>_. holds world_ok stored K)"
    and commit:
    "triple (\<lambda>w. holds world_ok stored K w \<and> payload_stored stored (vc_version c) w) (po_commit p i token c)
       (\<lambda>_. holds world_ok stored K) (\<lambda>_. holds world_ok stored K)"
    and read_stored:
    "triple (\<lambda>w. holds world_ok stored K w \<and> stored w k) (po_read p k)
       (\<lambda>_. holds world_ok stored K) (\<lambda>e w. holds world_ok stored K w \<and> e \<noteq> StoreNotFound)"
    and clock: "holds world_ok stored K w \<Longrightarrow> holds world_ok stored K (fst (po_now p w))"
    and identifiers: "holds world_ok stored K w \<Longrightarrow> holds world_ok stored K (fst (po_new_id p w))"
    and final_key_names: "final_key (final_storage_key p a b v)"
begin

lemma reads_world: "object_reads p (holds world_ok stored K)"
proof (unfold_locales, goal_cases)
  case (4 i e) show ?case by (rule triple_weaken [OF found_version(1)]) auto
next
  case (5 i) show ?case by (rule triple_weaken [OF found_version(2)]) auto
qed (rule reads clock identifiers; assumption?)+

end

sublocale object_world \<subseteq> reading: object_reads p "holds world_ok stored K" for K
  by (rule reads_world)

context object_world begin

lemmas calls = reading.calls
lemmas helpers = reading.helpers
lemmas steps = reads writes calls keeps_rules

section \<open>Every operation keeps it\<close>

lemma announces:
  assumes "map_err SvcModel (intent_new uc i a b key v backend temporary (final_storage_key p a b v) n ct um tags expiry now)
      = Ok intent"
  shows "keeps (holds world_ok stored K) (po_create_upload_intent p intent)"
proof (rule create)
  have "ui_final_storage_key intent = final_storage_key p a b v"
    using assms by (auto simp: intent_new_def intent_from_persistence_def Let_def result_simps split: if_splits)
  with final_key_names show "final_key (ui_final_storage_key intent)" by simp
qed

lemma begin_put_keeps: "keeps (holds world_ok stored K) (begin_put p request)"
  unfolding begin_put_def by (intro steps helpers announces; assumption)

lemma abort_staged_put_keeps: "keeps (holds world_ok stored K) (abort_staged_put p request)"
  unfolding abort_staged_put_def by (intro steps helpers)

lemma other_operations_keep:
  "keeps (holds world_ok stored K) (replace_object_tags p request tags)"
  "keeps (holds world_ok stored K) (put_object_lock p request mutation)"
  "keeps (holds world_ok stored K) (delete_s3 p grace deletion)"
proof -
  show "keeps (holds world_ok stored K) (replace_object_tags p request tags)"
    unfolding replace_object_tags_def by (intro steps helpers)
  show "keeps (holds world_ok stored K) (put_object_lock p request mutation)"
    unfolding put_object_lock_def by (intro steps helpers)
  show "keeps (holds world_ok stored K) (delete_s3 p grace deletion)" unfolding delete_s3_def by (intro steps helpers)
qed

section \<open>Promotion before commit\<close>

lemma holds_insert: "holds world_ok stored (insert k K) w \<longleftrightarrow> holds world_ok stored K w \<and> stored w k"
  by (auto simp: holds_def)

abbreviation ready_or :: "str set \<Rightarrow> str \<Rightarrow> bool \<Rightarrow> 'w \<Rightarrow> bool" where
  "ready_or K k present w \<equiv> holds world_ok stored K w \<and> (present \<longrightarrow> stored w k)"

lemma release_failed_keeps: "triple (holds world_ok stored K) (release_failed p intent token e) Q (\<lambda>_. holds world_ok stored K)"
  unfolding release_failed_def
  by (rule triple_bind [OF calls(1)], rule triple_bind [OF keeps_try [OF writes(5)]])
     (auto intro!: triple_of split: sum.split)

lemma probe_failed_stores:
  assumes "final_key (ui_final_storage_key intent)"
  shows "triple (holds world_ok stored K) (probe_failed p intent token e)
    (\<lambda>_. holds world_ok stored (insert (ui_final_storage_key intent) K)) (\<lambda>_. holds world_ok stored K)"
  unfolding probe_failed_def
proof (rule triple_bind)
  let ?k = "ui_final_storage_key intent"
  show "triple (holds world_ok stored K) (act_try (po_exists p ?k))
      (\<lambda>r w. holds world_ok stored K w \<and> (case r of Inl _ \<Rightarrow> True | Inr present \<Rightarrow> present \<longrightarrow> stored w ?k))
      (\<lambda>_. holds world_ok stored K)"
    by (rule triple_try, rule triple_weaken [OF exists_final [OF assms]]) auto
qed (auto intro!: triple_sum triple_of triple_if triple_return triple_weaken [OF release_failed_keeps] simp: holds_insert)

lemma promote_stores:
  assumes "final_key (ui_final_storage_key intent)"
  shows "triple (holds world_ok stored K) (promote p intent token)
    (\<lambda>_. holds world_ok stored (insert (ui_final_storage_key intent) K)) (\<lambda>_. holds world_ok stored K)"
  unfolding promote_def
proof (rule triple_bind [OF triple_map_err [OF exists_final [OF assms]]], rule triple_if, goal_cases)
  case (2 present)
  let ?k = "ui_final_storage_key intent"
  show ?case
  proof (rule triple_bind)
    show "triple (ready_or K ?k present) (act_try (po_commit_temporary p (ui_temporary_storage_key intent) ?k))
        (\<lambda>r w. holds world_ok stored K w \<and> (case r of Inl _ \<Rightarrow> True | Inr _ \<Rightarrow> stored w ?k)) (\<lambda>_. holds world_ok stored K)"
      by (rule triple_try, rule triple_weaken [OF promoted [OF assms]]) auto
  qed (auto intro!: triple_sum triple_return triple_weaken [OF probe_failed_stores [OF assms]] simp: holds_insert)
qed (auto intro!: triple_return simp: holds_insert)

definition final_payload :: "str \<Rightarrow> object_version \<Rightarrow> bool" where
  "final_payload k v \<longleftrightarrow> (\<exists>payload. ov_payload v = PayloadObject payload \<and> sv_storage_key payload = k)"

lemma prepared_version:
  "triple (holds world_ok stored K) (prepare_claimed_upload_commit_with_object_lock p grace request lock)
     (\<lambda>r w. (holds world_ok stored K w \<and> final_payload (ui_final_storage_key (pr_intent request)) (vc_version (pc_commit r)))
        \<and> pc_version r = vc_version (pc_commit r))
     (\<lambda>_. holds world_ok stored K)"
proof -
  have payload: "final_payload k v"
    if "map_err SvcModel (stored_object_version_new b k pe pv t n ct um c) = Ok stored_version"
      and "map_err SvcModel (new_object i oid a bid e g nul st stored_version r h by pr at) = Ok v"
    for b k pe pv t n ct um c stored_version i oid a bid e g nul st r h "by" pr at v
    using that by (auto simp: final_payload_def stored_object_version_new_def new_object_def
        version_from_persistence_def split: if_splits)
  show ?thesis
    unfolding prepare_claimed_upload_commit_with_object_lock_def Let_def
    by (intro until_rules helpers reads calls keeps_map_err) (simp add: payload)
qed

lemma final_payload_stored: "final_payload k v \<Longrightarrow> stored w k \<Longrightarrow> payload_stored stored v w"
  by (auto simp: final_payload_def payload_stored_def)

lemma commit_prepared:
  "triple (\<lambda>w. holds world_ok stored (insert k K) w \<and> final_payload k (vc_version c))
     (act_map_err SvcRepository (po_commit p i token c)) (\<lambda>_. holds world_ok stored K) (\<lambda>_. holds world_ok stored K)"
  by (rule triple_map_err, rule triple_weaken [OF commit [where K = K]]) (auto simp: holds_insert final_payload_stored)

lemma prepared_promoted:
  assumes "ui_final_storage_key (pr_intent request) = k"
  shows "triple (holds world_ok stored (insert k K)) (prepare_claimed_upload_commit_with_object_lock p grace request lock)
     (\<lambda>r w. (holds world_ok stored (insert k K) w \<and> final_payload k (vc_version (pc_commit r)))
        \<and> pc_version r = vc_version (pc_commit r)) (\<lambda>_. holds world_ok stored K)"
  by (rule triple_weaken [OF prepared_version [where K = "insert k K"]]) (auto simp: holds_insert assms)

lemma commit_promoted_keeps:
  "triple (holds world_ok stored (insert (ui_final_storage_key intent) K))
     (commit_promoted p grace request lock tag ck intent token) (\<lambda>_. holds world_ok stored K) (\<lambda>_. holds world_ok stored K)"
  unfolding commit_promoted_def
  by (rule triple_bind [OF prepared_promoted], simp, rule triple_pure, rule triple_bind [OF commit_prepared], intro steps)

lemma promote_claimed_stores:
  "triple (\<lambda>w. holds world_ok stored K w \<and> final_key (ui_final_storage_key intent))
     (promote_claimed_upload_intent p intent token)
     (\<lambda>_. holds world_ok stored (insert (ui_final_storage_key intent) K)) (\<lambda>_. holds world_ok stored K)"
proof (cases "final_key (ui_final_storage_key intent)")
  case True
  show ?thesis
    unfolding promote_claimed_upload_intent_def
    by (rule triple_weaken [OF until_of [OF promote_stores [OF True]]]) auto
qed (intro triple_false, simp)

lemma commit_ready_keeps: "keeps (holds world_ok stored K) (commit_ready p grace request lock tag ck ready)"
  unfolding commit_ready_def Let_def
  by (rule keeps_bind [OF calls(2)], rule keeps_bind [OF calls(1)], rule triple_bind [OF triple_map_err [OF claim]],
      rule triple_bind [OF promote_claimed_stores commit_promoted_keeps])

lemma complete_put_keeps:
  "keeps (holds world_ok stored K) (complete_put_with_object_lock p grace request lock)"
proof -
  have "keeps (holds world_ok stored K) (case ui_state intent of
      IntentStaging \<Rightarrow>
        act_bind (act_call (po_now p)) (\<lambda>now.
        act_bind (repo (po_complete_staging p (ui_id intent) tag ck sz now)) (\<lambda>ready.
          commit_ready p grace request lock tag ck ready))
    | IntentReady \<Rightarrow>
        act_bind (act_of (ensure_ready_facts intent tag ck sz)) (\<lambda>_. commit_ready p grace request lock tag ck intent)
    | IntentCommitted \<Rightarrow>
        act_bind (act_of (ensure_ready_facts intent tag ck sz)) (\<lambda>_. committed_receipt p intent)
    | IntentCommitting \<Rightarrow> act_of (Err SvcCompletionInProgress)
    | state \<Rightarrow> act_of (Err (SvcInvalidUploadIntentState state)))" for intent tag ck sz
    by (cases "ui_state intent"; simp; intro steps helpers commit_ready_keeps)
  then show ?thesis
    unfolding complete_put_with_object_lock_def by (intro steps helpers)
qed

section \<open>Reads find their bytes\<close>

abbreviation unless_missing :: "str set \<Rightarrow> s3_object_service_error \<Rightarrow> 'w \<Rightarrow> bool" where
  "unless_missing K e w \<equiv> holds world_ok stored K w \<and> not_missing e"

lemma call_repo: "triple P m Q (\<lambda>_. holds world_ok stored K) \<Longrightarrow> triple P (act_map_err SvcRepository m) Q (unless_missing K)"
  by (rule triple_map_err) (simp add: not_missing_def)

lemma check: "(\<And>e. r = Inl e \<Longrightarrow> not_missing e) \<Longrightarrow> triple (holds world_ok stored K) (act_of r) (\<lambda>a w. holds world_ok stored K w \<and> r = Inr a) (unless_missing K)"
  by (rule triple_of) (simp split: sum.split)

lemma bucket_found: "triple (holds world_ok stored K) (require_bucket p a name) (\<lambda>_. holds world_ok stored K) (unless_missing K)"
  unfolding require_bucket_def
  by (rule triple_bind [OF call_repo [OF reads(1)]])
     (auto intro!: triple_of simp: not_missing_def ok_or_def split: option.split)

lemma lookup_stored:
  "triple (holds world_ok stored K)
     (case version_id of
        Some v \<Rightarrow> act_bind (act_map_err SvcRepository (po_find_s3_object_version p i v)) (\<lambda>v. act_of (ok_or SvcVersionNotFound v))
      | None \<Rightarrow> act_bind (act_map_err SvcRepository (po_find_current_s3_object_version p i)) (\<lambda>v. act_of (ok_or SvcObjectNotFound v)))
     (\<lambda>v w. holds world_ok stored K w \<and> payload_stored stored v w) (unless_missing K)"
  by (rule triple_option; rule triple_bind [OF call_repo], rule found_version)
     (auto intro!: triple_of simp: not_missing_def ok_or_def split: option.split)

text \<open>Reading the tags afterwards must not lose the bytes either, so the version's key joins \<open>K\<close>.\<close>

definition version_keys :: "object_version \<Rightarrow> str set" where
  "version_keys v = (case ov_payload v of PayloadObject payload \<Rightarrow> {sv_storage_key payload} | DeleteMarker \<Rightarrow> {})"

lemma holds_version_keys: "holds world_ok stored (version_keys v \<union> K) w \<longleftrightarrow> holds world_ok stored K w \<and> payload_stored stored v w"
  by (auto simp: holds_def version_keys_def payload_stored_def split: object_version_payload.split)

lemma resolve_stored:
  "triple (holds world_ok stored K) (resolve_visible_version p request)
     (\<lambda>r w. holds world_ok stored K w \<and> payload_stored stored (hr_version r) w \<and> \<not> is_delete_marker (hr_version r))
     (unless_missing K)"
proof -
  have tail: "triple (\<lambda>w. holds world_ok stored K w \<and> payload_stored stored v w)
      (act_bind (act_map_err SvcRepository (po_find_s3_object_version_tags p a (ov_id v))) (\<lambda>found.
       act_bind (act_of (ok_or (invariant_error m) found)) (\<lambda>tags.
         act_return \<lparr>hr_object = obj, hr_version = v, hr_tags = tags\<rparr>)))
      (\<lambda>r w. holds world_ok stored K w \<and> payload_stored stored (hr_version r) w \<and> \<not> is_delete_marker (hr_version r))
      (unless_missing K)" if "\<not> is_delete_marker v" for v a m obj
  proof (rule triple_bind [where R = "\<lambda>_. holds world_ok stored (version_keys v \<union> K)"])
    show "triple (\<lambda>w. holds world_ok stored K w \<and> payload_stored stored v w)
        (act_map_err SvcRepository (po_find_s3_object_version_tags p a (ov_id v)))
        (\<lambda>_. holds world_ok stored (version_keys v \<union> K)) (unless_missing K)"
      by (rule triple_weaken [OF call_repo [OF reads(6) [where K = "version_keys v \<union> K"]]])
         (auto simp: holds_version_keys)
  qed (auto intro!: triple_bind_of triple_return simp: that holds_version_keys ok_or_def not_missing_def split: option.splits)
  show ?thesis
    unfolding resolve_visible_version_def
  proof (rule triple_bind [OF bucket_found], rule triple_bind [OF call_repo [OF reads(3)]], rule triple_bind_of,
      rule triple_bind [OF lookup_stored], goal_cases)
    case (1 bucket found obj version)
    show ?case
      by (intro triple_if tail triple_of) (auto simp: not_missing_def)
  next
    case (2 bucket found e w)
    then show ?case by (cases found) (auto simp: not_missing_def)
  qed
qed

lemma get_object_stored:
  "triple (holds world_ok stored K) (get_object p request) (\<lambda>_. holds world_ok stored K) (unless_missing K)"
  unfolding get_object_def
proof (rule triple_bind [OF resolve_stored], goal_cases)
  case (1 head)
  show ?case
  proof (cases "ov_payload (hr_version head)")
    case (PayloadObject payload)
    have "triple (\<lambda>w. holds world_ok stored K w \<and> stored w (sv_storage_key payload))
        (act_map_err SvcStorage (po_read p (sv_storage_key payload))) (\<lambda>_. holds world_ok stored K) (unless_missing K)"
      by (rule triple_map_err, rule triple_weaken [OF read_stored]) (auto simp: not_missing_def)
    from triple_bind [OF this triple_return [where Q = "\<lambda>_. holds world_ok stored K"]]
    show ?thesis
      by (simp add: PayloadObject) (rule triple_weaken, assumption, auto simp: PayloadObject payload_stored_def)
  next
    case DeleteMarker
    then show ?thesis by (intro triple_false) (simp add: is_delete_marker_def)
  qed
qed

end

end
