(* ===== verification/Memory_S3_Keys.thy ===== *)
theory Memory_S3_Keys
  imports Memory_S3_Retention
begin

text \<open>
  Which storage keys the repository refers to: those of its data versions and the final keys of its upload
  intents. Only a commit adds a key to the versions, and it adds the key of the version it commits.
\<close>

definition payload_keys :: "object_version \<Rightarrow> str set" where
  "payload_keys v = (case ov_payload v of PayloadObject payload \<Rightarrow> {sv_storage_key payload} | DeleteMarker \<Rightarrow> {})"

definition data_keys :: "repo_state \<Rightarrow> str set" where
  "data_keys s = (\<Union>i. \<Union>v \<in> set (versions_of s i). payload_keys v)"

definition intent_keys :: "repo_state \<Rightarrow> str set" where
  "intent_keys s = {ui_final_storage_key i |i k. hm_get (rs_intents s) k = Some i}"

fun committed_keys :: "repo_op \<Rightarrow> str set" where
  "committed_keys (OpCommit k token c) = payload_keys (vc_version c)"
| "committed_keys (OpCommitMultipart u token c tag ck) = payload_keys (vc_version c)"
| "committed_keys _ = {}"

fun announced_keys :: "repo_op \<Rightarrow> str set" where
  "announced_keys (OpCreateIntent i) = {ui_final_storage_key i}"
| "announced_keys _ = {}"

section \<open>Versions\<close>

definition core_keys ::
  "(object_version_id \<times> object_id \<times> application_id \<times> bucket_id)
     \<times> (s3_version_id \<times> u64 \<times> bool) \<times> object_version_state \<times> object_version_payload \<Rightarrow> str set" where
  "core_keys c = (case snd (snd (snd c)) of PayloadObject payload \<Rightarrow> {sv_storage_key payload} | DeleteMarker \<Rightarrow> {})"

lemma payload_keys_of_core: "payload_keys = core_keys \<circ> version_core"
  by (simp add: fun_eq_iff payload_keys_def core_keys_def version_core_def)

lemma payload_keys_core: "version_core v = version_core w \<Longrightarrow> payload_keys v = payload_keys w"
  by (simp add: payload_keys_of_core)

lemma data_keys_same: "same_versions s t \<Longrightarrow> data_keys t = data_keys s"
  using same_versions_eqs(2) [of s t] by (simp add: data_keys_def)

lemma data_keys_hides: "hides s t x \<Longrightarrow> data_keys t = data_keys s"
  using hides_versions(2) [of s t x] by (simp add: data_keys_def)

lemma data_keys_touches:
  assumes "touches s t"
  shows "data_keys t = data_keys s"
proof -
  have "(\<Union>v \<in> set (versions_of r i). payload_keys v) = \<Union> (core_keys ` set (map version_core (versions_of r i)))" for r i
    by (simp add: payload_keys_of_core image_image)
  then show ?thesis by (simp only: data_keys_def touches_cores [OF assms])
qed

lemma UN_extended: "(\<Union>j. A j \<union> (if j = i then P else {})) = (\<Union>j. A j) \<union> P"
  by (auto split: if_splits)

lemma data_keys_push [simp]: "data_keys (insert_object (push_version s i v) i' obj) = data_keys s \<union> payload_keys v"
proof -
  have "(\<Union>v \<in> set (versions_of (insert_object (push_version s i v) i' obj) j). payload_keys v)
      = (\<Union>v \<in> set (versions_of s j). payload_keys v) \<union> (if j = i then payload_keys v else {})" for j
    by (auto simp: push_version_eq)
  then show ?thesis by (simp add: data_keys_def UN_extended)
qed

lemma data_keys_superseded [simp]: "data_keys (superseded s old) = data_keys s"
  using data_keys_hides [OF hides_supersede_version] by (simp add: superseded_def split: option.split)

lemma data_keys_gc: "enqueue_optional s task = Inr t \<Longrightarrow> data_keys t = data_keys s"
  using enqueue_optional_frame(4) data_keys_same by (auto simp: same_store_def)

lemma data_keys_quota [simp]: "data_keys (insert_quota s a q) = data_keys s"
  by (rule data_keys_same) (simp add: same_versions_def insert_quota_def)

lemma marker_keys: "new_delete_marker i oid a b e g n c pr now = Inr m \<Longrightarrow> payload_keys m = {}"
  by (auto simp: new_delete_marker_def version_from_persistence_def payload_keys_def split: if_splits)

lemma delete_suspended_keys:
  assumes run: "delete_when_suspended s obj vs c = (t, r)"
  shows "data_keys t = data_keys s"
proof (cases "t = s")
  case False
  let ?null = "List.find ov_is_null_version vs"
  from run False obtain s1 m obj' where gc: "enqueue_optional s (Option.bind ?null (\<lambda>v. explicit_delete_gc_task v c)) = Inr s1"
    and t: "same_versions (insert_object (push_version (superseded s1 ?null) (so_id obj) m) (so_id obj) obj') t"
    and m: "payload_keys m = {}"
    by (auto simp: delete_when_suspended_def Let_def result_simps superseded_def insert_quota_def
        same_versions_def dest!: marker_keys split: sum.splits option.splits)
  show ?thesis using data_keys_same [OF t] data_keys_gc [OF gc] m by simp
qed simp

lemma delete_keys: "data_keys (fst (delete_s3_object s c)) = data_keys s"
proof -
  have hides: "data_keys t = data_keys s"
    if "t = s \<or> (\<exists>v \<in> set vs. delete_lock_reason v c = None \<and> hides s t (ov_id v))" for t vs
    using that data_keys_hides by blast
  have "data_keys (fst (delete_when_enabled s obj c)) = data_keys s" for obj
    by (auto simp: delete_when_enabled_def result_simps dest!: marker_keys split: sum.splits)
  moreover have "data_keys (fst (delete_when_suspended s obj vs c)) = data_keys s" for obj vs
    using delete_suspended_keys by (metis prod.collapse)
  moreover have "data_keys (fst (delete_exact_version s obj (memory_active_versions s i) c e)) = data_keys s"
    "data_keys (fst (delete_when_unversioned s obj (memory_active_versions s i) c)) = data_keys s" for obj i e
    using hides [OF delete_exact_hides] hides [OF delete_unversioned_hides] by (metis prod.collapse)+
  ultimately show ?thesis by (simp add: delete_s3_object_def Let_def split: option.split versioning_status.split)
qed

lemma put_lock_keys: "data_keys (fst (put_s3_object_lock s c)) = data_keys s"
  using put_s3_object_lock_cases [of s c] data_keys_touches by auto

lemma lifecycle_marker_keys: "lifecycle_delete_marker obj b c = Inr m \<Longrightarrow> payload_keys m = {}"
  by (auto simp: lifecycle_delete_marker_def result_simps dest!: marker_keys)

lemma expire_current_keys:
  assumes "expire_current_enabled s obj v c = Inr (t, out) \<or> expire_current_suspended s obj vs v c = Inr (t, out)
    \<or> expire_current_unversioned s obj v c = Inr (t, out)"
  shows "data_keys t = data_keys s"
  using assms
proof (elim disjE)
  assume "expire_current_enabled s obj v c = Inr (t, out)"
  then show ?thesis
    by (auto simp: expire_current_enabled_def Let_def result_simps
        dest!: mark_noncurrent_touches data_keys_touches lifecycle_marker_keys)
next
  assume run: "expire_current_suspended s obj vs v c = Inr (t, out)"
  show ?thesis
  proof (cases "t = s")
    case False
    let ?null = "List.find ov_is_null_version vs"
    from run False obtain s1 s2 m obj' where
      mark: "mark_memory_version_noncurrent s (so_id obj) (ov_id v) (lifecycle_action_time (xc_evaluated_at c)) = Inr s1"
      and gc: "enqueue_optional s1 (Option.bind ?null (\<lambda>w. lifecycle_object_gc_task w c)) = Inr s2"
      and t: "same_versions (insert_object (push_version (superseded s2 ?null) (so_id obj) m) (so_id obj) obj') t"
      and m: "lifecycle_delete_marker obj True c = Inr m"
      by (auto simp: expire_current_suspended_def Let_def result_simps superseded_def insert_quota_def
          same_versions_def split: if_splits option.splits)
    show ?thesis
      using data_keys_same [OF t] data_keys_gc [OF gc] data_keys_touches [OF mark_noncurrent_touches [OF mark]]
        lifecycle_marker_keys [OF m] by simp
  qed simp
next
  assume run: "expire_current_unversioned s obj v c = Inr (t, out)"
  show ?thesis
  proof (cases "t = s")
    case False
    from run False obtain s1 s2 head q where
      mark: "mark_memory_version_noncurrent s (so_id obj) (ov_id v) (lifecycle_action_time (xc_evaluated_at c)) = Inr s1"
      and gc: "enqueue_optional s1 (lifecycle_object_gc_task v c) = Inr s2"
      and t: "t = insert_quota (insert_object (supersede_version s2 v) (so_id obj) head) (ov_application_id v) q"
      by (auto simp: expire_current_unversioned_def Let_def result_simps split: if_splits)
    have "hides s1 t (ov_id v)" using hides_via_gc(2) [OF gc] by (simp add: t)
    then show ?thesis using data_keys_hides data_keys_touches [OF mark_noncurrent_touches [OF mark]] by simp
  qed simp
qed

lemma lifecycle_target_keys:
  assumes run: "execute_lifecycle_target uc new_id s bucket c = Inr (t, out)"
  shows "data_keys t = data_keys s"
proof (cases "t = s")
  case False
  show ?thesis
  proof (cases "xc_target c")
    case (ExpireCurrent i key cur created)
    from run ExpireCurrent False obtain obj v where
      "expire_current_enabled s obj v c = Inr (t, out)
        \<or> expire_current_suspended s obj (memory_active_versions s i) v c = Inr (t, out)
        \<or> expire_current_unversioned s obj v c = Inr (t, out)"
      by (auto simp: execute_lifecycle_target_def execute_memory_current_expiration_def Let_def
          split: if_splits option.splits versioning_status.splits)
    then show ?thesis by (rule expire_current_keys)
  next
    case (ExpireNoncurrent i key vid became)
    from run ExpireNoncurrent False obtain v q s1 where
      gc: "enqueue_optional s (lifecycle_object_gc_task v c) = Inr s1"
      and t: "t = insert_quota (hide_version s1 v) (ov_application_id v) q"
      by (auto simp: execute_lifecycle_target_def execute_memory_noncurrent_expiration_def Let_def result_simps
          split: if_splits option.splits)
    have "hides s t (ov_id v)" using hides_via_gc(1) [OF gc] by (simp add: t)
    then show ?thesis by (rule data_keys_hides)
  next
    case (RemoveExpiredDeleteMarker i key vid)
    from run RemoveExpiredDeleteMarker False obtain v head where "t = insert_object (hide_version s v) i head"
      by (auto simp: execute_lifecycle_target_def execute_memory_expired_marker_def Let_def result_simps
          split: if_splits option.splits list.splits)
    then have "hides s t (ov_id v)" using hides_hide_version by simp
    then show ?thesis by (rule data_keys_hides)
  next
    case (AbortMultipart u key initiated)
    then have "execute_memory_multipart_abort uc new_id s u key initiated c = Inr (t, out)"
      using run by (simp add: execute_lifecycle_target_def)
    then show ?thesis by (rule data_keys_same [OF multipart_abort_versions])
  qed
qed simp

lemma lifecycle_keys: "data_keys (fst (execute_s3_lifecycle uc new_id s c)) = data_keys s"
  using lifecycle_target_keys by (auto simp: execute_s3_lifecycle_def split: option.split sum.split prod.split)

lemma commit_keys:
  assumes run: "commit_memory_upload_intent uc cal s k token c = Some (t, r)"
  shows "data_keys t \<subseteq> data_keys s \<union> payload_keys (vc_version c)"
proof (cases "t = s \<or> t = s\<lparr>rs_fail_commit := False\<rparr>")
  case True
  then have "same_versions s t" by (auto simp: same_versions_def)
  then show ?thesis using data_keys_same by blast
next
  case False
  with run obtain i frozen old q obj where prep: "prepare_commit cal s i c = Inr (frozen, old, q, obj)"
    and app: "apply_commit uc s k i frozen old q obj = Some (t, r)"
    by (auto simp: commit_memory_upload_intent_def split: sum.splits option.splits if_splits object_version_payload.splits)
  have "freeze_memory_object_lock cal (rs_buckets s) c = Inr frozen"
    using prep by (auto simp: prepare_commit_def result_simps Let_def split: if_splits)
  from payload_keys_core [OF freeze_Ok(1) [OF this]]
  have "payload_keys (vc_version frozen) = payload_keys (vc_version c)" .
  moreover have "same_versions (insert_object (push_version (superseded s old) (so_id obj) (vc_version frozen)) (so_id obj) obj) t"
    using app by (auto simp: apply_commit_def Let_def intent_ops same_versions_def simp flip: superseded_def)
  ultimately show ?thesis using data_keys_same by fastforce
qed

lemma commit_multipart_keys:
  assumes run: "commit_multipart_object_version uc cal s u token c tag ck = Some (t, r)"
  shows "data_keys t \<subseteq> data_keys s \<union> payload_keys (vc_version c)"
proof (cases "t = s")
  case False
  with run obtain k staged obj where "commit_memory_upload_intent uc cal s k token c = Some (staged, Inr obj)"
    and t: "same_versions staged t"
    by (auto simp: commit_multipart_object_version_def same_versions_def
        split: sum.splits option.splits if_splits object_version_payload.splits prod.splits)
  then show ?thesis using commit_keys data_keys_same [OF t] by fastforce
qed blast

lemma frame_keys:
  "data_keys (fst (set_quota_bytes s a n)) = data_keys s"
  "data_keys (create_s3_bucket s b) = data_keys s"
  "data_keys (fst (delete_s3_bucket s a name)) = data_keys s"
  "data_keys (fst (update_configuration s a name f)) = data_keys s"
  "data_keys (fst (replace_s3_object_tagging uc s tc tags)) = data_keys s"
proof -
  show "data_keys (fst (set_quota_bytes s a n)) = data_keys s" "data_keys (create_s3_bucket s b) = data_keys s"
    by (rule data_keys_same; auto simp: set_quota_bytes_def create_s3_bucket_def same_versions_def split: option.split)+
  show "data_keys (fst (delete_s3_bucket s a name)) = data_keys s"
    "data_keys (fst (update_configuration s a name f)) = data_keys s"
    "data_keys (fst (replace_s3_object_tagging uc s tc tags)) = data_keys s"
    using delete_s3_bucket_frame(1) update_configuration_frame(1) replace_s3_object_tagging_frame(1) data_keys_same
    by (auto simp: same_store_def)
qed

lemma repo_apply_data_keys:
  assumes "repo_apply uc cal new_id s x = Some t"
  shows "data_keys t \<subseteq> data_keys s \<union> committed_keys x"
  using assms
proof (cases x)
  case (OpCommit k token c)
  with assms obtain r where "commit_memory_upload_intent uc cal s k token c = Some (t, r)"
    by (auto simp: commit_upload_intent_def)
  then show ?thesis unfolding OpCommit committed_keys.simps by (rule commit_keys)
next
  case (OpCommitMultipart u token c tag ck)
  with assms obtain r where "commit_multipart_object_version uc cal s u token c tag ck = Some (t, r)" by auto
  then show ?thesis unfolding OpCommitMultipart committed_keys.simps by (rule commit_multipart_keys)
qed (auto simp: frame_keys delete_keys put_lock_keys lifecycle_keys set_s3_bucket_versioning_def
    replace_s3_bucket_object_lock_def replace_s3_bucket_lifecycle_def data_keys_same [OF intent_ops_versions(1)]
    dest!: intent_ops_versions(2-) data_keys_same)

lemma repo_step_data_keys: "data_keys (repo_step uc cal new_id s x) \<subseteq> data_keys s \<union> committed_keys x"
  unfolding repo_step_def by (cases "repo_apply uc cal new_id s x") (simp_all add: repo_apply_data_keys)

end
