(* ===== verification/Memory_S3_Intent_Rows.thy ===== *)
theory Memory_S3_Intent_Rows
  imports Memory_S3_Keys
begin

text \<open>
  How every operation of the in-memory repository changes the rows of upload intents: a row keeps its id and its
  final key, a committed row does not change at all, and only \<open>create_upload_intent\<close> adds a row. One relation,
  \<open>intents_evolve\<close>, that is closed under composition and holds from any state.
\<close>

section \<open>The relation\<close>

definition keyed :: "repo_state \<Rightarrow> bool" where
  "keyed s \<longleftrightarrow> hm_ok (rs_intents s) \<and> (\<forall>k i. hm_get (rs_intents s) k = Some i \<longrightarrow> ui_id i = k)"

definition continues :: "upload_intent \<Rightarrow> upload_intent \<Rightarrow> bool" where
  "continues i j \<longleftrightarrow> ui_id j = ui_id i \<and> ui_final_storage_key j = ui_final_storage_key i
     \<and> (ui_state i = IntentCommitted \<longrightarrow> j = i)"

definition intents_evolve :: "str set \<Rightarrow> repo_state \<Rightarrow> repo_state \<Rightarrow> bool" where
  "intents_evolve A s t \<longleftrightarrow> (keyed s \<longrightarrow> keyed t
     \<and> (\<forall>k i. hm_get (rs_intents s) k = Some i \<longrightarrow> (\<exists>j. hm_get (rs_intents t) k = Some j \<and> continues i j))
     \<and> (\<forall>k j. hm_get (rs_intents t) k = Some j \<longrightarrow> hm_get (rs_intents s) k = None \<longrightarrow> ui_final_storage_key j \<in> A))"

lemma continues_refl [simp]: "continues i i"
  by (simp add: continues_def)

lemma continues_trans: "continues i j \<Longrightarrow> continues j k \<Longrightarrow> continues i k"
  by (auto simp: continues_def)

lemma evolve_same: "rs_intents t = rs_intents s \<Longrightarrow> intents_evolve A s t"
  by (auto simp: intents_evolve_def keyed_def)

lemma evolve_trans:
  assumes st: "intents_evolve A s t" and tu: "intents_evolve A t u"
  shows "intents_evolve A s u"
  unfolding intents_evolve_def
proof (intro impI conjI allI)
  assume s: "keyed s"
  then have t: "keyed t" using st by (simp add: intents_evolve_def)
  then show "keyed u" using tu by (simp add: intents_evolve_def)
  show "\<exists>j. hm_get (rs_intents u) k = Some j \<and> continues i j" if "hm_get (rs_intents s) k = Some i" for k i
    using st tu s t that unfolding intents_evolve_def by (meson continues_trans)
  show "ui_final_storage_key j \<in> A" if u: "hm_get (rs_intents u) k = Some j" and none: "hm_get (rs_intents s) k = None" for k j
  proof (cases "hm_get (rs_intents t) k")
    case None
    then show ?thesis using tu t u by (auto simp: intents_evolve_def)
  next
    case (Some i)
    with tu t obtain j' where "hm_get (rs_intents u) k = Some j'" "continues i j'" unfolding intents_evolve_def by blast
    with u have "ui_final_storage_key j = ui_final_storage_key i" by (simp add: continues_def)
    moreover have "ui_final_storage_key i \<in> A" using st s none Some by (simp add: intents_evolve_def)
    ultimately show ?thesis by simp
  qed
qed

text \<open>Replacing the row of an intent that is not committed.\<close>

lemma evolve_replace:
  assumes "hm_get (rs_intents s) k = Some i" and "rs_intents t = hm_insert k j (rs_intents s)"
    and "ui_id j = ui_id i" and "ui_final_storage_key j = ui_final_storage_key i" and "ui_state i \<noteq> IntentCommitted"
  shows "intents_evolve A s t"
  using assms by (auto simp: intents_evolve_def keyed_def continues_def hm_ok_insert)

lemma rebuild_same_row:
  "rebuild_intent uc i st fs lease com now = Some j \<Longrightarrow> ui_id j = ui_id i \<and> ui_final_storage_key j = ui_final_storage_key i"
  by (auto simp: rebuild_intent_cases Let_def split: if_splits)

lemma abort_same_row: "abort_intent uc i now = Inr j \<Longrightarrow> ui_id j = ui_id i \<and> ui_final_storage_key j = ui_final_storage_key i"
  by (auto simp: abort_intent_def result_simps intent_from_persistence_def Let_def split: if_splits)

lemma evolve_rebuild:
  assumes "hm_get (rs_intents s) k = Some i" and "rebuild_intent uc i st fs lease com now = Some j"
    and "rs_intents t = hm_insert k j (rs_intents s)" and "ui_state i \<noteq> IntentCommitted"
  shows "intents_evolve A s t"
  using evolve_replace [OF assms(1,3)] rebuild_same_row [OF assms(2)] assms(4) by blast

section \<open>Uploads\<close>

lemma create_evolve: "intents_evolve {ui_final_storage_key i} s (fst (create_upload_intent s i))"
proof (cases "rs_intents (fst (create_upload_intent s i)) = rs_intents s")
  case False
  then have "rs_intents (fst (create_upload_intent s i)) = hm_insert (ui_id i) i (rs_intents s)"
    and "hm_get (rs_intents s) (ui_id i) = None"
    by (auto simp: create_upload_intent_def intent_ops split: option.splits if_splits)
  then show ?thesis by (auto simp: intents_evolve_def keyed_def hm_ok_insert split: if_splits)
qed (rule evolve_same)

lemma stage_evolve: "complete_upload_intent_staging uc s k tag ck n now = Some (t, r) \<Longrightarrow> intents_evolve A s t"
  by (auto simp: complete_upload_intent_staging_def insert_intent_def intro: evolve_rebuild evolve_same
      split: option.splits if_splits)

lemma claim_evolve: "claim_upload_intent uc s k token until now = Some (t, r) \<Longrightarrow> intents_evolve A s t"
  by (auto simp: claim_upload_intent_def Let_def insert_intent_def intro: evolve_rebuild evolve_same
      split: option.splits if_splits)

lemma release_evolve: "release_upload_intent uc s k token now = Some (t, r) \<Longrightarrow> intents_evolve A s t"
  by (auto simp: release_upload_intent_def insert_intent_def intro: evolve_rebuild evolve_same
      split: option.splits if_splits)

lemma abort_evolve: "abort_upload_intent_and_enqueue_gc uc s k task now = Some (t, r) \<Longrightarrow> intents_evolve A s t"
  by (auto simp: abort_upload_intent_and_enqueue_gc_def insert_intent_def intro: evolve_rebuild evolve_same
      split: option.splits if_splits sum.splits)

lemma commit_evolve:
  assumes "commit_memory_upload_intent uc cal s k token c = Some (t, r)"
  shows "intents_evolve A s t"
proof (cases "rs_intents t = rs_intents s")
  case False
  with assms obtain i frozen old q obj where i: "hm_get (rs_intents s) k = Some i" and fenced: "commit_fenced i token c"
    and app: "apply_commit uc s k i frozen old q obj = Some (t, r)"
    by (auto simp: commit_memory_upload_intent_def split: sum.splits option.splits if_splits object_version_payload.splits)
  from app obtain j where "rebuild_intent uc i IntentCommitted (facts i) None
      (Some (so_id obj, ov_id (vc_version frozen))) (vc_committed_at frozen) = Some j"
    and "rs_intents t = hm_insert k j (rs_intents s)"
    by (auto simp: apply_commit_def Let_def intent_ops supersede_version_def split: option.splits)
  with i fenced show ?thesis by (auto simp: commit_fenced_def intro: evolve_rebuild)
qed (rule evolve_same)

lemma commit_multipart_evolve:
  assumes "commit_multipart_object_version uc cal s u token c tag ck = Some (t, r)"
  shows "intents_evolve A s t"
proof (cases "rs_intents t = rs_intents s")
  case False
  with assms obtain k staged obj where "commit_memory_upload_intent uc cal s k token c = Some (staged, Inr obj)"
    and "rs_intents t = rs_intents staged"
    by (auto simp: commit_multipart_object_version_def
        split: sum.splits option.splits if_splits object_version_payload.splits prod.splits)
  then show ?thesis using commit_evolve evolve_same evolve_trans by metis
qed (rule evolve_same)

section \<open>Expiry\<close>

lemma expire_one_evolve:
  assumes "expire_one_intent uc new_id now n s k = Some (Inr t)"
    and "\<And>i. hm_get (rs_intents s) k = Some i \<Longrightarrow> ui_state i \<noteq> IntentCommitted"
  shows "intents_evolve A s t"
    and "\<And>k' i. hm_get (rs_intents t) k' = Some i \<Longrightarrow> ui_state i = IntentCommitted \<Longrightarrow> hm_get (rs_intents s) k' = Some i"
proof -
  from assms(1) obtain i where i: "hm_get (rs_intents s) k = Some i"
    by (auto simp: expire_one_intent_def split: option.splits)
  with assms(1) obtain tasks s1 q j where gc: "enqueue_gc_tasks s tasks = Inr s1"
    and j: "rebuild_intent uc i IntentExpired (facts i) None None now = Some j"
    and t: "t = insert_quota (insert_intent s1 k j) (ui_application_id i) q"
    by (auto simp: expire_one_intent_def result_simps simp del: enqueue_gc_tasks.simps list.map split: sum.splits)
  have rows: "rs_intents t = hm_insert k j (rs_intents s)" by (simp add: t insert_intent_def gc_frame(1) [OF gc])
  show "intents_evolve A s t" by (rule evolve_rebuild [OF i j rows assms(2) [OF i]])
  show "hm_get (rs_intents s) k' = Some i'" if "hm_get (rs_intents t) k' = Some i'" "ui_state i' = IntentCommitted" for k' i'
    using that rebuild_intent_keeps(3) [OF j] by (auto simp: rows split: if_splits)
qed

lemma expire_loop_evolve:
  assumes "expire_intents_loop uc new_id now n s ks = Some (Inr t)"
    and "\<And>k i. k \<in> set ks \<Longrightarrow> hm_get (rs_intents s) k = Some i \<Longrightarrow> ui_state i \<noteq> IntentCommitted"
  shows "intents_evolve A s t"
  using assms
proof (induction ks arbitrary: s)
  case (Cons k ks)
  from Cons.prems(1) obtain u where one: "expire_one_intent uc new_id now n s k = Some (Inr u)"
    and rest: "expire_intents_loop uc new_id now n u ks = Some (Inr t)"
    by (auto split: option.splits sum.splits)
  have first: "\<And>i. hm_get (rs_intents s) k = Some i \<Longrightarrow> ui_state i \<noteq> IntentCommitted"
    by (rule Cons.prems(2) [OF list.set_intros(1)])
  have "ui_state i \<noteq> IntentCommitted" if "k' \<in> set ks" and "hm_get (rs_intents u) k' = Some i" for k' i
    using Cons.prems(2) [OF list.set_intros(2) [OF that(1)]] expire_one_evolve(2) [OF one first that(2)] by metis
  then have "intents_evolve A u t" by (rule Cons.IH [OF rest])
  with expire_one_evolve(1) [OF one first] show ?case by (rule evolve_trans)
qed (simp add: evolve_same)

lemma expire_evolve:
  assumes "expire_upload_intents uc new_id s now limit m = Some (t, r)"
  shows "intents_evolve A s t"
proof (cases "keyed s \<and> t \<noteq> s")
  case True
  let ?ids = "take limit (sort (map ui_id (filter (expirable now) (hm_values (rs_intents s)))))"
  from assms True have run: "expire_intents_loop uc new_id now m s ?ids = Some (Inr t)"
    by (auto simp: expire_upload_intents_def Let_def split: option.splits sum.splits if_splits)
  show ?thesis
  proof (rule expire_loop_evolve [OF run])
    fix k i assume "k \<in> set ?ids" and k: "hm_get (rs_intents s) k = Some i"
    from in_set_takeD [OF this(1)]
    obtain j where j: "j \<in> set (hm_values (rs_intents s))" "expirable now j" "ui_id j = k" by auto
    from True have ok: "hm_ok (rs_intents s)" and ids: "\<And>k i. hm_get (rs_intents s) k = Some i \<Longrightarrow> ui_id i = k"
      by (simp_all add: keyed_def)
    from j(1) hm_values_get [OF ok] obtain k' where k': "hm_get (rs_intents s) k' = Some j" by blast
    with ids [OF k'] j(3) k have "i = j" by simp
    with j(2) show "ui_state i \<noteq> IntentCommitted" by (auto simp: expirable_def)
  qed
next
  case False
  then show ?thesis by (auto simp: intents_evolve_def evolve_same)
qed

section \<open>Deletion and lifecycle\<close>

lemma delete_intents: "rs_intents (fst (delete_s3_object s c)) = rs_intents s"
proof -
  have "rs_intents (fst (delete_exact_version s obj vs c e)) = rs_intents s" for obj vs e
    by (auto simp: delete_exact_version_def Let_def dest!: enqueue_optional_frame(1) split: option.split sum.split)
  moreover have "rs_intents (fst (delete_when_unversioned s obj vs c)) = rs_intents s" for obj vs
    by (auto simp: delete_when_unversioned_def Let_def dest!: enqueue_optional_frame(1) split: option.split sum.split)
  moreover have "rs_intents (fst (delete_when_suspended s obj vs c)) = rs_intents s" for obj vs
    by (auto simp: delete_when_suspended_def Let_def result_simps dest!: enqueue_optional_frame(1)
        split: option.splits sum.split)
  moreover have "rs_intents (fst (delete_when_enabled s obj c)) = rs_intents s" for obj
    by (simp add: delete_when_enabled_def split: sum.split)
  ultimately show ?thesis by (simp add: delete_s3_object_def Let_def split: option.split versioning_status.split)
qed

lemma put_lock_intents: "rs_intents (fst (put_s3_object_lock s c)) = rs_intents s"
  using put_s3_object_lock_cases [of s c] touches_frame(3) by auto

lemma multipart_abort_evolve:
  assumes "execute_memory_multipart_abort uc new_id s u key initiated c = Inr (t, out)"
  shows "intents_evolve A s t"
proof (cases "t = s")
  case False
  from assms False obtain upload s1 released tasks s2 where
    ab: "abort_multipart_intent uc new_id s upload c = Inr (Inr (s1, released))"
    and gc: "enqueue_gc_tasks s1 tasks = Inr s2"
    and t: "t = (let s3 = s2\<lparr>rs_multipart_uploads := hm_insert u
                     (aborted_multipart_row upload (xc_evaluated_at c)) (rs_multipart_uploads s2)\<rparr>
                 in case released of None \<Rightarrow> s3 | Some (a, q) \<Rightarrow> insert_quota s3 a q)"
    by (rule multipart_abort_cases)
  have "rs_intents t = rs_intents s1"
    using gc_frame(1) [OF gc] by (simp add: t Let_def split: option.split)
  moreover have "intents_evolve A s s1"
  proof (cases "mu_upload_intent_id upload")
    case (Some k)
    with ab obtain i tasks s0 where i: "hm_get (rs_intents s) k = Some i" and open0: "ui_state i \<noteq> IntentCommitted"
      and gc: "enqueue_gc_tasks s tasks = Inr s0"
      and s1: "s1 = s0 \<or> (\<exists>j. abort_intent uc i (xc_evaluated_at c) = Inr j \<and> s1 = insert_intent s0 k j)"
      by (auto simp: abort_multipart_intent_def result_simps Let_def
          simp del: enqueue_gc_tasks.simps list.map split: if_splits)
    from s1 show ?thesis
    proof (elim disjE exE conjE)
      fix j assume j: "abort_intent uc i (xc_evaluated_at c) = Inr j" and "s1 = insert_intent s0 k j"
      then have "rs_intents s1 = hm_insert k j (rs_intents s)" using gc_frame(1) [OF gc] by (simp add: insert_intent_def)
      with evolve_replace [OF i] abort_same_row [OF j] open0 show ?thesis by blast
    qed (simp add: evolve_same gc_frame(1) [OF gc])
  qed (use ab in \<open>simp add: abort_multipart_intent_def evolve_same\<close>)
  ultimately show ?thesis using evolve_same evolve_trans by metis
qed (simp add: evolve_same)

lemma expire_current_intents:
  assumes "expire_current_enabled s obj v c = Inr (t, out) \<or> expire_current_suspended s obj vs v c = Inr (t, out)
    \<or> expire_current_unversioned s obj v c = Inr (t, out)"
  shows "rs_intents t = rs_intents s"
  using assms
proof (elim disjE)
  assume "expire_current_enabled s obj v c = Inr (t, out)"
  then show ?thesis
    by (auto simp: expire_current_enabled_def Let_def result_simps dest!: mark_noncurrent_touches touches_frame(3))
next
  assume run: "expire_current_suspended s obj vs v c = Inr (t, out)"
  show ?thesis
  proof (cases "t = s")
    case False
    let ?null = "List.find ov_is_null_version vs"
    from run False obtain s1 s2 where
      mark: "mark_memory_version_noncurrent s (so_id obj) (ov_id v) (lifecycle_action_time (xc_evaluated_at c)) = Inr s1"
      and gc: "enqueue_optional s1 (Option.bind ?null (\<lambda>w. lifecycle_object_gc_task w c)) = Inr s2"
      and t: "rs_intents t = rs_intents (superseded s2 ?null)"
      by (auto simp: expire_current_suspended_def Let_def result_simps superseded_def insert_quota_def
          split: if_splits option.splits)
    then show ?thesis
      using enqueue_optional_frame(1) [OF gc] touches_frame(3) [OF mark_noncurrent_touches [OF mark]] by simp
  qed simp
next
  assume run: "expire_current_unversioned s obj v c = Inr (t, out)"
  show ?thesis
  proof (cases "t = s")
    case False
    from run False obtain s1 s2 where
      mark: "mark_memory_version_noncurrent s (so_id obj) (ov_id v) (lifecycle_action_time (xc_evaluated_at c)) = Inr s1"
      and gc: "enqueue_optional s1 (lifecycle_object_gc_task v c) = Inr s2" and "rs_intents t = rs_intents s2"
      by (auto simp: expire_current_unversioned_def Let_def result_simps split: if_splits)
    then show ?thesis
      using enqueue_optional_frame(1) [OF gc] touches_frame(3) [OF mark_noncurrent_touches [OF mark]] by simp
  qed simp
qed

lemma lifecycle_evolve: "intents_evolve A s (fst (execute_s3_lifecycle uc new_id s c))"
proof -
  have "intents_evolve A s t" if run: "execute_lifecycle_target uc new_id s bucket c = Inr (t, out)" for bucket t out
  proof (cases "xc_target c")
    case (AbortMultipart u key initiated)
    then show ?thesis using run multipart_abort_evolve by (simp add: execute_lifecycle_target_def)
  next
    case (ExpireCurrent i key cur created)
    then have "t = s \<or> (\<exists>obj v. expire_current_enabled s obj v c = Inr (t, out)
        \<or> expire_current_suspended s obj (memory_active_versions s i) v c = Inr (t, out)
        \<or> expire_current_unversioned s obj v c = Inr (t, out))"
      using run
      by (auto simp: execute_lifecycle_target_def execute_memory_current_expiration_def Let_def
          split: if_splits option.splits versioning_status.splits)
    then have "rs_intents t = rs_intents s" using expire_current_intents by blast
    then show ?thesis by (rule evolve_same)
  next
    case (ExpireNoncurrent i key vid became)
    have "rs_intents t = rs_intents s"
      using run ExpireNoncurrent
      by (auto simp: execute_lifecycle_target_def execute_memory_noncurrent_expiration_def Let_def result_simps
          dest!: enqueue_optional_frame(1) split: if_splits option.splits)
    then show ?thesis by (rule evolve_same)
  next
    case (RemoveExpiredDeleteMarker i key vid)
    have "rs_intents t = rs_intents s"
      using run RemoveExpiredDeleteMarker
      by (auto simp: execute_lifecycle_target_def execute_memory_expired_marker_def Let_def result_simps
          split: if_splits option.splits list.splits)
    then show ?thesis by (rule evolve_same)
  qed
  then show ?thesis by (simp add: execute_s3_lifecycle_def evolve_same split: option.split sum.split prod.split)
qed

section \<open>Every operation\<close>

lemma repo_apply_evolve:
  assumes "repo_apply uc cal new_id s x = Some t"
  shows "intents_evolve (announced_keys x) s t"
proof (cases x)
  case (OpCreateIntent i)
  with assms create_evolve [of i s] show ?thesis by (auto simp only: repo_apply.simps announced_keys.simps option.inject)
next
  case (OpLifecycle c)
  with assms lifecycle_evolve [of "announced_keys x" s uc new_id c] show ?thesis by auto
qed (use assms in \<open>auto intro: stage_evolve claim_evolve release_evolve abort_evolve commit_evolve
      commit_multipart_evolve expire_evolve evolve_same simp: commit_upload_intent_def delete_intents put_lock_intents
      update_configuration_frame replace_s3_object_tagging_frame delete_s3_bucket_frame set_s3_bucket_versioning_def
      replace_s3_bucket_object_lock_def replace_s3_bucket_lifecycle_def create_s3_bucket_def set_quota_bytes_def
      split: option.splits\<close>)

lemma repo_step_evolve: "intents_evolve (announced_keys x) s (repo_step uc cal new_id s x)"
  unfolding repo_step_def by (cases "repo_apply uc cal new_id s x") (simp_all add: repo_apply_evolve evolve_same)

section \<open>What the object service relies on\<close>

lemma intent_key: "hm_get (rs_intents s) k = Some i \<Longrightarrow> ui_final_storage_key i \<in> intent_keys s"
  by (auto simp: intent_keys_def)

lemma evolve_keys:
  assumes "intents_evolve A s t" and "keyed s"
  shows "keyed t" "intent_keys t \<subseteq> intent_keys s \<union> A"
proof -
  show "keyed t" using assms by (simp add: intents_evolve_def)
  show "intent_keys t \<subseteq> intent_keys s \<union> A"
  proof
    fix key assume "key \<in> intent_keys t"
    then obtain j k where j: "hm_get (rs_intents t) k = Some j" "key = ui_final_storage_key j" by (auto simp: intent_keys_def)
    show "key \<in> intent_keys s \<union> A"
    proof (cases "hm_get (rs_intents s) k")
      case None
      with assms j show ?thesis by (auto simp: intents_evolve_def)
    next
      case (Some i)
      with assms obtain j' where "hm_get (rs_intents t) k = Some j'" "continues i j'" unfolding intents_evolve_def by blast
      with j intent_key [OF Some] show ?thesis by (auto simp: continues_def)
    qed
  qed
qed

lemma evolve_committed:
  assumes "intents_evolve A s t" and "keyed s" and "hm_get (rs_intents s) k = Some i" and "ui_state i = IntentCommitted"
  shows "hm_get (rs_intents t) k = Some i"
  using assms unfolding intents_evolve_def continues_def by blast

end
