(* ===== verification/S3_Object_World.thy ===== *)
theory S3_Object_World
  imports S3_Object_Storage Memory_S3_Intent_Rows
begin

text \<open>
  The object service on the in-memory repository and the in-memory object store, with other clients: before
  each call of the service to a repository or to the store, the next batch of their steps is executed. Any
  operation of the repository may be such a step; a commit may only refer to promoted bytes. In the store they
  may upload to temporary keys, promote, and delete what is not under a final key.
\<close>

section \<open>The world\<close>

datatype env_step =
    EnvRepo repo_op
  | EnvPut str str str
  | EnvPromote str str
  | EnvDelete str

record world =
  wd_repo :: repo_state
  wd_store :: object_store_state
  wd_pending :: "env_step list list"
  wd_tick :: nat
  wd_drawn :: nat

text \<open>What is outside: readings of the clock, drawn identifiers and their text, the calendar, the digest.\<close>

record 'd world_env =
  we_unicode :: unicode_tables
  we_calendar :: "'d calendar"
  we_gc_id :: "str \<Rightarrow> storage_gc_task_id"
  we_now :: "nat \<Rightarrow> timestamp"
  we_id :: "nat \<Rightarrow> uuid"
  we_uuid_text :: "uuid \<Rightarrow> str"
  we_digest :: "str \<Rightarrow> str"

definition is_final :: "str \<Rightarrow> bool" where
  "is_final key \<longleftrightarrow> starts_with key ''s3/objects/''"

text \<open>The key is the final key of bytes that are in the store.\<close>

definition readable :: "world \<Rightarrow> str \<Rightarrow> bool" where
  "readable w key \<longleftrightarrow> is_final key \<and> hm_get (os_objects (wd_store w)) key \<noteq> None"

definition env_allowed :: "world \<Rightarrow> repo_op \<Rightarrow> bool" where
  "env_allowed w x \<longleftrightarrow> (\<forall>k \<in> committed_keys x. readable w k) \<and> (\<forall>k \<in> announced_keys x. is_final k)"

fun env_apply :: "'d world_env \<Rightarrow> world \<Rightarrow> env_step \<Rightarrow> world" where
  "env_apply we w (EnvRepo x) =
     (if env_allowed w x
      then w\<lparr>wd_repo := repo_step (we_unicode we) (we_calendar we) (we_gc_id we) (wd_repo w) x\<rparr> else w)"
| "env_apply we w (EnvPut key content content_type) =
     (if is_final key then w else w\<lparr>wd_store := fst (put_temporary (wd_store w) key content content_type)\<rparr>)"
| "env_apply we w (EnvPromote temporary_key final_key) =
     w\<lparr>wd_store := fst (commit_temporary (wd_store w) temporary_key final_key)\<rparr>"
| "env_apply we w (EnvDelete key) =
     (if is_final key then w else w\<lparr>wd_store := fst (delete_object (wd_store w) key)\<rparr>)"

definition interfere :: "'d world_env \<Rightarrow> world \<Rightarrow> world" where
  "interfere we w =
     (case wd_pending w of
        [] \<Rightarrow> w
      | steps # rest \<Rightarrow> foldl (env_apply we) (w\<lparr>wd_pending := rest\<rparr>) steps)"

definition on_repo ::
  "'d world_env \<Rightarrow> (repo_state \<Rightarrow> (repo_state \<times> (repository_error + 'a)) option) \<Rightarrow> (world, 'a) repo_action" where
  "on_repo we f w =
     (let w = interfere we w in map_option (\<lambda>(s, r). (w\<lparr>wd_repo := s\<rparr>, r)) (f (wd_repo w)))"

definition on_store ::
  "'d world_env \<Rightarrow> (object_store_state \<Rightarrow> object_store_state \<times> (object_store_error + 'a)) \<Rightarrow> (world, 'a) store_action" where
  "on_store we f w =
     (let w = interfere we w in case f (wd_store w) of (t, r) \<Rightarrow> Some (w\<lparr>wd_store := t\<rparr>, r))"

definition query :: "(repo_state \<Rightarrow> 'a) \<Rightarrow> repo_state \<Rightarrow> (repo_state \<times> (repository_error + 'a)) option" where
  "query f s = Some (s, Ok (f s))"

definition world_ports :: "'d world_env \<Rightarrow> world s3_ports" where
  "world_ports we =
     \<lparr>po_find_s3_bucket = (\<lambda>a name. on_repo we (query (\<lambda>s. find_s3_bucket s a name))),
      po_list_s3_buckets = (\<lambda>a. on_repo we (query (\<lambda>s. list_s3_buckets s a))),
      po_find_s3_object = (\<lambda>a b key. on_repo we (query (\<lambda>s. find_s3_object s a b key))),
      po_find_s3_object_version = (\<lambda>i v. on_repo we (query (\<lambda>s. find_s3_object_version s i v))),
      po_find_current_s3_object_version = (\<lambda>i. on_repo we (query (\<lambda>s. find_current_s3_object_version s i))),
      po_find_s3_object_version_by_id = (\<lambda>v. on_repo we (query (\<lambda>s. find_s3_object_version_by_id s v))),
      po_list_s3_object_versions = (\<lambda>i. on_repo we (query (\<lambda>s. list_s3_object_versions s i))),
      po_find_s3_object_version_tags = (\<lambda>a v. on_repo we (query (\<lambda>s. find_s3_object_version_tags s a v))),
      po_get_s3_object_tagging = (\<lambda>c. on_repo we (\<lambda>s. Some (s, get_s3_object_tagging s c))),
      po_replace_s3_object_tagging = (\<lambda>c tags. on_repo we (\<lambda>s. Some (replace_s3_object_tagging (we_unicode we) s c tags))),
      po_put_s3_object_lock = (\<lambda>c. on_repo we (\<lambda>s. Some (put_s3_object_lock s c))),
      po_delete_s3_object = (\<lambda>c. on_repo we (\<lambda>s. Some (delete_s3_object s c))),
      po_create_upload_intent = (\<lambda>i. on_repo we (\<lambda>s. Some (create_upload_intent s i))),
      po_find_upload_intent = (\<lambda>i. on_repo we (query (\<lambda>s. find_upload_intent s i))),
      po_complete_staging = (\<lambda>i tag ck n now. on_repo we (\<lambda>s.
        complete_upload_intent_staging (we_unicode we) s i tag ck n now)),
      po_claim = (\<lambda>i token until now. on_repo we (\<lambda>s. claim_upload_intent (we_unicode we) s i token until now)),
      po_release = (\<lambda>i token now. on_repo we (\<lambda>s. release_upload_intent (we_unicode we) s i token now)),
      po_abort = (\<lambda>i task now. on_repo we (\<lambda>s. abort_upload_intent_and_enqueue_gc (we_unicode we) s i task now)),
      po_commit = (\<lambda>i token c. on_repo we (\<lambda>s. commit_upload_intent (we_unicode we) (we_calendar we) s i token c)),
      po_backend_name = MEMORY_BACKEND,
      po_exists = (\<lambda>key. on_store we (\<lambda>t. (t, exists_object t key))),
      po_commit_temporary = (\<lambda>temporary_key final_key. on_store we (\<lambda>t. commit_temporary t temporary_key final_key)),
      po_head = (\<lambda>key. on_store we (\<lambda>t. (t, head_object (we_digest we) t key))),
      po_read = (\<lambda>key. on_store we (\<lambda>t. (t, read_object t key))),
      po_now = (\<lambda>w. (w\<lparr>wd_tick := Suc (wd_tick w)\<rparr>, we_now we (wd_tick w))),
      po_new_id = (\<lambda>w. (w\<lparr>wd_drawn := Suc (wd_drawn w)\<rparr>, we_id we (wd_drawn w))),
      po_uuid_text = we_uuid_text we,
      po_unicode = we_unicode we\<rparr>"

section \<open>Its invariant\<close>

text \<open>
  Every version's bytes are in the store, intents name final keys, nothing is staged under a final key, the
  final keys in \<open>M\<close> hold the bytes that \<open>M\<close> says, and the intents in \<open>C\<close> are committed as \<open>C\<close> says.
\<close>

definition rows_ok :: "(upload_intent_id \<rightharpoonup> upload_intent) \<Rightarrow> repo_state \<Rightarrow> bool" where
  "rows_ok C s \<longleftrightarrow> keyed s \<and> (\<forall>k \<in> intent_keys s. is_final k)
     \<and> (\<forall>k i. C k = Some i \<longrightarrow> hm_get (rs_intents s) k = Some i \<and> ui_state i = IntentCommitted)"

definition bytes_ok :: "(str \<rightharpoonup> stored_object) \<Rightarrow> object_store_state \<Rightarrow> bool" where
  "bytes_ok M t \<longleftrightarrow> (\<forall>k. is_final k \<longrightarrow> hm_get (os_temporary t) k = None)
     \<and> (\<forall>k obj. M k = Some obj \<longrightarrow> is_final k \<and> hm_get (os_objects t) k = Some obj)"

type_synonym known = "(str \<rightharpoonup> stored_object) \<times> (upload_intent_id \<rightharpoonup> upload_intent)"

definition world_ok :: "known \<Rightarrow> world \<Rightarrow> bool" where
  "world_ok M w \<longleftrightarrow> (\<forall>k \<in> data_keys (wd_repo w). readable w k) \<and> rows_ok (snd M) (wd_repo w) \<and> bytes_ok (fst M) (wd_store w)"

abbreviation well :: "known \<Rightarrow> str set \<Rightarrow> world \<Rightarrow> bool" where
  "well M K \<equiv> holds (world_ok M) readable K"

lemma well_iff:
  "well M K w \<longleftrightarrow> (\<forall>k \<in> data_keys (wd_repo w) \<union> K. readable w k)
     \<and> rows_ok (snd M) (wd_repo w) \<and> bytes_ok (fst M) (wd_store w)"
  by (auto simp: holds_def world_ok_def)

lemma readable_frame [simp]:
  "readable (w\<lparr>wd_repo := s\<rparr>) k = readable w k" "readable (w\<lparr>wd_pending := e\<rparr>) k = readable w k"
  "readable (w\<lparr>wd_tick := n\<rparr>) k = readable w k" "readable (w\<lparr>wd_drawn := n\<rparr>) k = readable w k"
  by (simp_all add: readable_def)

lemma well_clock [simp]:
  "well M K (w\<lparr>wd_pending := e\<rparr>) = well M K w" "well M K (w\<lparr>wd_tick := n\<rparr>) = well M K w" "well M K (w\<lparr>wd_drawn := n\<rparr>) = well M K w"
  by (simp_all add: well_iff)

lemma rows_evolve:
  assumes "rows_ok C s" and ev: "intents_evolve A s t" and "\<forall>k \<in> A. is_final k"
  shows "rows_ok C t"
proof -
  from assms(1) have keyed: "keyed s" by (simp add: rows_ok_def)
  show ?thesis
    using assms(1,3) evolve_keys [OF ev keyed] evolve_committed [OF ev keyed] unfolding rows_ok_def by blast
qed

lemma well_repo:
  assumes "well M K w" and "data_keys s \<subseteq> data_keys (wd_repo w) \<union> D" and "\<forall>k \<in> D. readable w k"
    and "intents_evolve A (wd_repo w) s" and "\<forall>k \<in> A. is_final k"
  shows "well M K (w\<lparr>wd_repo := s\<rparr>)"
  using assms(1-3) rows_evolve [OF _ assms(4,5)] unfolding well_iff by (simp add: subset_iff) blast

definition store_grows :: "object_store_state \<Rightarrow> object_store_state \<Rightarrow> bool" where
  "store_grows t u \<longleftrightarrow> (\<forall>k. is_final k \<longrightarrow>
     (hm_get (os_objects t) k \<noteq> None \<longrightarrow> hm_get (os_objects u) k = hm_get (os_objects t) k)
     \<and> (hm_get (os_temporary t) k = None \<longrightarrow> hm_get (os_temporary u) k = None))"

lemma well_store: "well M K w \<Longrightarrow> store_grows (wd_store w) t \<Longrightarrow> well M K (w\<lparr>wd_store := t\<rparr>)"
  unfolding well_iff readable_def bytes_ok_def store_grows_def by simp

lemma store_grows_refl [simp]: "store_grows t t"
  by (simp add: store_grows_def)

lemma put_temporary_grows: "\<not> is_final key \<Longrightarrow> store_grows t (fst (put_temporary t key content ct))"
  by (auto simp: put_temporary_def store_grows_def split: option.split)

lemma commit_temporary_grows: "store_grows t (fst (commit_temporary t temporary_key final_key))"
  by (auto simp: commit_temporary_def store_grows_def delete_conv split: option.split)

lemma delete_object_grows: "\<not> is_final key \<Longrightarrow> store_grows t (fst (delete_object t key))"
  by (auto simp: delete_object_def store_grows_def delete_conv)

lemma env_apply_well: "well M K w \<Longrightarrow> well M K (env_apply we w step)"
proof (cases step)
  case (EnvRepo x)
  assume well: "well M K w"
  show ?thesis
  proof (cases "env_allowed w x")
    case True
    then have "\<forall>k \<in> committed_keys x. readable w k" "\<forall>k \<in> announced_keys x. is_final k"
      by (simp_all add: env_allowed_def)
    from well_repo [OF well repo_step_data_keys this(1) repo_step_evolve this(2)]
    show ?thesis by (simp add: EnvRepo True)
  qed (use well EnvRepo in simp)
qed (auto intro: well_store put_temporary_grows commit_temporary_grows delete_object_grows)

lemma interfere_well:
  assumes "well M K w"
  shows "well M K (interfere we w)"
proof -
  have "well M K (foldl (env_apply we) v steps)" if "well M K v" for v steps
    using that by (induction steps arbitrary: v) (auto intro: env_apply_well)
  with assms show ?thesis by (auto simp: interfere_def split: list.split)
qed

lemma on_repo_triple:
  assumes "\<And>w s r. well M K w \<Longrightarrow> f (wd_repo w) = Some (s, r) \<Longrightarrow>
      well M K (w\<lparr>wd_repo := s\<rparr>) \<and> (\<forall>a. r = Inr a \<longrightarrow> Q a (w\<lparr>wd_repo := s\<rparr>))"
  shows "triple (well M K) (on_repo we f) (\<lambda>a w. well M K w \<and> Q a w) (\<lambda>_. well M K)"
  unfolding triple_def
proof (intro allI impI)
  fix w w' r assume pre: "well M K w" and run: "on_repo we f w = Some (w', r)"
  let ?v = "interfere we w"
  from run obtain s where "f (wd_repo ?v) = Some (s, r)" "w' = ?v\<lparr>wd_repo := s\<rparr>"
    by (auto simp: on_repo_def Let_def)
  with assms [of ?v s r] interfere_well [OF pre, of we]
  show "case r of Inl e \<Rightarrow> well M K w' | Inr a \<Rightarrow> well M K w' \<and> Q a w'" by (auto split: sum.split)
qed

lemma on_store_triple:
  assumes "\<And>t. store_grows t (fst (f t))"
    and "\<And>w a. well M K w \<Longrightarrow> snd (f (wd_store w)) = Inr a \<Longrightarrow> Q a (w\<lparr>wd_store := fst (f (wd_store w))\<rparr>)"
    and "\<And>w e. well M K w \<Longrightarrow> snd (f (wd_store w)) = Inl e \<Longrightarrow> E e"
  shows "triple (well M K) (on_store we f) (\<lambda>a w. well M K w \<and> Q a w) (\<lambda>e w. well M K w \<and> E e)"
  unfolding triple_def
proof (intro allI impI)
  fix w w' r assume pre: "well M K w" and run: "on_store we f w = Some (w', r)"
  let ?v = "interfere we w"
  from run have r: "r = snd (f (wd_store ?v))" and w': "w' = ?v\<lparr>wd_store := fst (f (wd_store ?v))\<rparr>"
    by (auto simp: on_store_def Let_def split: prod.splits)
  note v = interfere_well [OF pre, of we]
  have "well M K w'" unfolding w' by (rule well_store [OF v assms(1)])
  then show "case r of Inl e \<Rightarrow> well M K w' \<and> E e | Inr a \<Rightarrow> well M K w' \<and> Q a w'"
    using assms(2,3) [OF v] by (auto simp: r w' split: sum.split)
qed

lemma query_triple:
  assumes "\<And>w. well M K w \<Longrightarrow> Q (f (wd_repo w)) w"
  shows "triple (well M K) (on_repo we (query f)) (\<lambda>a w. well M K w \<and> Q a w) (\<lambda>_. well M K)"
  by (rule on_repo_triple) (auto simp: query_def assms)

lemma query_keeps: "keeps (well M K) (on_repo we (query f))"
  using query_triple [where Q = "\<lambda>_ _. True" and f = f] by simp

lemma apply_keeps:
  assumes "\<And>s t r. f s = Some (t, r) \<Longrightarrow> repo_apply uc cal g s x = Some t" and "committed_keys x = {}"
    and "\<forall>k \<in> announced_keys x. is_final k"
  shows "keeps (well M K) (on_repo we f)"
proof -
  have "well M K (w\<lparr>wd_repo := s\<rparr>)" if "well M K w" and "f (wd_repo w) = Some (s, r)" for w s r
    by (rule well_repo [OF that(1) repo_apply_data_keys [OF assms(1) [OF that(2)]] _
          repo_apply_evolve [OF assms(1) [OF that(2)]]]) (use assms(2,3) in auto)
  then show ?thesis using on_repo_triple [where Q = "\<lambda>_ _. True" and f = f and we = we] by simp
qed

lemma lookup_readable:
  assumes "well M K w" and "v \<in> set (versions_of (wd_repo w) i)"
  shows "payload_stored readable v w"
proof (cases "ov_payload v")
  case (PayloadObject payload)
  then have "sv_storage_key payload \<in> payload_keys v" by (simp add: payload_keys_def)
  with assms(2) have "sv_storage_key payload \<in> data_keys (wd_repo w)" unfolding data_keys_def by blast
  with assms(1) PayloadObject show ?thesis by (simp add: well_iff payload_stored_def)
qed (simp add: payload_stored_def)

lemma claim_final:
  assumes "well M K w" and run: "claim_upload_intent uc (wd_repo w) i token until now = Some (s, Inr intent)"
  shows "is_final (ui_final_storage_key intent)" and "ui_id intent = i"
proof -
  from run obtain old where old: "hm_get (rs_intents (wd_repo w)) i = Some old"
    by (auto simp: claim_upload_intent_def split: option.splits)
  with run have "ui_final_storage_key intent = ui_final_storage_key old"
    and "ui_id intent = ui_id old"
    by (auto simp: claim_upload_intent_def Let_def dest!: rebuild_same_row split: if_splits)
  with old intent_key [OF old] assms(1) show "is_final (ui_final_storage_key intent)" "ui_id intent = i"
    by (simp_all add: well_iff rows_ok_def keyed_def)
qed

lemma well_payload: "well M (payload_keys v \<union> K) w \<longleftrightarrow> well M K w \<and> payload_stored readable v w"
  by (auto simp: holds_def payload_keys_def payload_stored_def split: object_version_payload.split)

lemma commit_well:
  assumes "well M K w" and stored: "payload_stored readable (vc_version c) w"
    and run: "commit_upload_intent uc cal (wd_repo w) i token c = Some (s, r)"
  shows "well M K (w\<lparr>wd_repo := s\<rparr>)"
proof (rule well_repo [OF assms(1)])
  have ap: "repo_apply uc cal g (wd_repo w) (OpCommit i token c) = Some s" for g using run by simp
  show "data_keys s \<subseteq> data_keys (wd_repo w) \<union> payload_keys (vc_version c)"
    using repo_apply_data_keys [OF ap] by simp
  show "intents_evolve {} (wd_repo w) s" using repo_apply_evolve [OF ap] by simp
  show "\<forall>k \<in> payload_keys (vc_version c). readable w k"
    using stored by (auto simp: payload_keys_def payload_stored_def split: object_version_payload.splits)
qed simp

section \<open>The laws hold\<close>

lemma found_in: "List.find P xs = Some x \<Longrightarrow> x \<in> set xs"
  by (auto simp: find_Some_iff)

lemma store_read_keeps: "keeps (well M K) (on_store we (\<lambda>t. (t, f t)))"
  using on_store_triple [where f = "\<lambda>t. (t, f t)" and Q = "\<lambda>_ _. True" and E = "\<lambda>_. True"] by simp

lemma tagging_keeps: "keeps (well M K) (on_repo we (\<lambda>s. Some (s, get_s3_object_tagging s tc)))"
proof -
  have "triple (well M K) (on_repo we (\<lambda>s. Some (s, get_s3_object_tagging s tc))) (\<lambda>_ w. well M K w \<and> True) (\<lambda>_. well M K)"
    by (rule on_repo_triple) auto
  then show ?thesis by simp
qed

lemma version_found:
  "triple (well M K) (on_repo we (query (\<lambda>s. find_s3_object_version s i e)))
     (\<lambda>r w. well M K w \<and> (\<forall>v. r = Some v \<longrightarrow> payload_stored readable v w)) (\<lambda>_. well M K)"
proof (rule query_triple)
  show "\<forall>v. find_s3_object_version (wd_repo w) i e = Some v \<longrightarrow> payload_stored readable v w" if "well M K w" for w
    using lookup_readable [OF that] by (auto simp: find_s3_object_version_def dest: found_in)
qed

lemma current_found:
  "triple (well M K) (on_repo we (query (\<lambda>s. find_current_s3_object_version s i)))
     (\<lambda>r w. well M K w \<and> (\<forall>v. r = Some v \<longrightarrow> payload_stored readable v w)) (\<lambda>_. well M K)"
proof (rule query_triple)
  show "\<forall>v. find_current_s3_object_version (wd_repo w) i = Some v \<longrightarrow> payload_stored readable v w" if "well M K w" for w
    using lookup_readable [OF that]
    by (auto simp: find_current_s3_object_version_def dest!: found_in split: option.splits if_splits)
qed

text \<open>A repository operation that refers to no new bytes and announces final keys only.\<close>

lemma write_keeps:
  assumes "\<And>s. repo_apply (we_unicode we) (we_calendar we) (we_gc_id we) s x = map_option fst (f s)"
    and "committed_keys x = {}" and "\<forall>k \<in> announced_keys x. is_final k"
  shows "keeps (well M K) (on_repo we f)"
  by (rule apply_keeps [where x = x and uc = "we_unicode we" and cal = "we_calendar we" and g = "we_gc_id we"])
     (use assms in auto)

lemma claim_row:
  "triple (well M K) (on_repo we (\<lambda>s. claim_upload_intent (we_unicode we) s i token until now))
     (\<lambda>intent w. well M K w \<and> is_final (ui_final_storage_key intent) \<and> ui_id intent = i) (\<lambda>_. well M K)"
proof (rule on_repo_triple)
  fix w s r assume well: "well M K w" and run: "claim_upload_intent (we_unicode we) (wd_repo w) i token until now = Some (s, r)"
  then have ap: "repo_apply (we_unicode we) cal g (wd_repo w) (OpClaim i token until now) = Some s" for cal :: "unit calendar" and g
    by simp
  have "well M K (w\<lparr>wd_repo := s\<rparr>)"
    by (rule well_repo [OF well repo_apply_data_keys [OF ap] _ repo_apply_evolve [OF ap]]) simp_all
  with claim_final [OF well] run
  show "well M K (w\<lparr>wd_repo := s\<rparr>) \<and> (\<forall>a. r = Inr a \<longrightarrow> is_final (ui_final_storage_key a) \<and> ui_id a = i)" by blast
qed

lemma claim_triple:
  "triple (well M K) (on_repo we (\<lambda>s. claim_upload_intent (we_unicode we) s i token until now))
     (\<lambda>intent w. well M K w \<and> is_final (ui_final_storage_key intent)) (\<lambda>_. well M K)"
  by (rule triple_weaken [OF claim_row]) simp_all

lemma exists_triple:
  assumes "is_final k"
  shows "triple (well M K) (on_store we (\<lambda>t. (t, exists_object t k))) (\<lambda>present w. well M K w \<and> (present \<longrightarrow> readable w k)) (\<lambda>_. well M K)"
proof -
  have "triple (well M K) (on_store we (\<lambda>t. (t, exists_object t k)))
      (\<lambda>present w. well M K w \<and> (present \<longrightarrow> readable w k)) (\<lambda>e w. well M K w \<and> True)"
    by (rule on_store_triple) (use assms in \<open>auto simp: exists_object_def well_iff bytes_ok_def readable_def\<close>)
  then show ?thesis by simp
qed

lemma promote_triple:
  assumes "is_final k"
  shows "triple (well M K) (on_store we (\<lambda>t. commit_temporary t temporary_key k)) (\<lambda>_ w. well M K w \<and> readable w k) (\<lambda>_. well M K)"
proof -
  have "triple (well M K) (on_store we (\<lambda>t. commit_temporary t temporary_key k))
      (\<lambda>_ w. well M K w \<and> readable w k) (\<lambda>e w. well M K w \<and> True)"
    by (rule on_store_triple [OF commit_temporary_grows])
       (use assms in \<open>auto simp: commit_temporary_def readable_def split: option.splits if_splits\<close>)
  then show ?thesis by simp
qed

text \<open>The intent \<open>i\<close> is committed as the version \<open>vid\<close> of the object \<open>oid\<close>.\<close>

definition committed_as :: "object_id \<Rightarrow> object_version_id \<Rightarrow> upload_intent \<Rightarrow> bool" where
  "committed_as oid vid i \<longleftrightarrow> ui_state i = IntentCommitted \<and> ui_committed_object_id i = Some oid
     \<and> ui_committed_version_id i = Some vid"

lemma commit_row:
  assumes "commit_upload_intent uc cal s k token c = Some (t, Inr obj)"
  shows "\<exists>i. hm_get (rs_intents t) k = Some i \<and> committed_as (so_id obj) (ov_id (vc_version c)) i"
proof -
  from assms obtain intent frozen old q where prep: "prepare_commit cal s intent c = Inr (frozen, old, q, obj)"
    and app: "apply_commit uc s k intent frozen old q obj = Some (t, Inr obj)"
    by (auto simp: commit_upload_intent_def commit_memory_upload_intent_def apply_commit_def Let_def
        split: sum.splits option.splits if_splits object_version_payload.splits)
  from prep have "freeze_memory_object_lock cal (rs_buckets s) c = Inr frozen"
    by (auto simp: prepare_commit_def result_simps Let_def split: if_splits)
  from freeze_Ok(1) [OF this] have id: "ov_id (vc_version frozen) = ov_id (vc_version c)"
    by (simp add: version_core_eq_iff)
  from app obtain j where j: "rebuild_intent uc intent IntentCommitted (facts intent) None
      (Some (so_id obj, ov_id (vc_version frozen))) (vc_committed_at frozen) = Some j"
    and row: "rs_intents t = hm_insert k j (rs_intents s)"
    by (auto simp: apply_commit_def Let_def intent_ops supersede_version_def split: option.splits)
  from j id have "committed_as (so_id obj) (ov_id (vc_version c)) j"
    by (auto simp: rebuild_intent_cases Let_def committed_as_def split: if_splits)
  with row show ?thesis by simp
qed

definition known_as :: "known \<Rightarrow> upload_intent_id \<Rightarrow> upload_intent \<Rightarrow> known" where
  "known_as M k i = (fst M, [k \<mapsto> i])"

lemma well_row:
  assumes "well M K w" and "hm_get (rs_intents (wd_repo w)) k = Some i" and "ui_state i = IntentCommitted"
  shows "well (known_as M k i) K w"
  using assms by (auto simp: well_iff rows_ok_def known_as_def)

lemma known_row: "well (known_as M k i) K w \<Longrightarrow> hm_get (rs_intents (wd_repo w)) k = Some i \<and> ui_state i = IntentCommitted"
  by (simp add: well_iff rows_ok_def known_as_def)

lemma row_id: "well M K w \<Longrightarrow> hm_get (rs_intents (wd_repo w)) k = Some i \<Longrightarrow> ui_id i = k"
  by (simp add: well_iff rows_ok_def keyed_def)

lemma commit_recorded:
  "triple (\<lambda>w. well M K w \<and> payload_stored readable (vc_version c) w)
     (on_repo we (\<lambda>s. commit_upload_intent (we_unicode we) (we_calendar we) s k token c))
     (\<lambda>obj w. well M K w \<and> (\<exists>i. hm_get (rs_intents (wd_repo w)) k = Some i \<and> committed_as (so_id obj) (ov_id (vc_version c)) i))
     (\<lambda>_. well M K)"
proof -
  let ?K = "payload_keys (vc_version c) \<union> K"
  let ?row = "\<lambda>obj w. \<exists>i. hm_get (rs_intents (wd_repo w)) k = Some i \<and> committed_as (so_id obj) (ov_id (vc_version c)) i"
  have "triple (well M ?K) (on_repo we (\<lambda>s. commit_upload_intent (we_unicode we) (we_calendar we) s k token c))
      (\<lambda>obj w. well M ?K w \<and> ?row obj w) (\<lambda>_. well M ?K)"
  proof (rule on_repo_triple)
    fix w s r assume well: "well M ?K w"
      and run: "commit_upload_intent (we_unicode we) (we_calendar we) (wd_repo w) k token c = Some (s, r)"
    from well have "payload_stored readable (vc_version c) w" by (simp add: well_payload)
    with commit_well [OF well _ run] commit_row run
    show "well M ?K (w\<lparr>wd_repo := s\<rparr>) \<and> (\<forall>obj. r = Inr obj \<longrightarrow> ?row obj (w\<lparr>wd_repo := s\<rparr>))" by fastforce
  qed
  then show ?thesis by (rule triple_weaken) (simp_all add: well_payload)
qed

lemma commit_triple:
  "triple (\<lambda>w. well M K w \<and> payload_stored readable (vc_version c) w)
     (on_repo we (\<lambda>s. commit_upload_intent (we_unicode we) (we_calendar we) s i token c)) (\<lambda>_. well M K) (\<lambda>_. well M K)"
  by (rule triple_weaken [OF commit_recorded]) simp_all

lemma read_triple:
  "triple (\<lambda>w. well M K w \<and> readable w k) (on_store we (\<lambda>t. (t, read_object t k)))
     (\<lambda>_. well M K) (\<lambda>e w. well M K w \<and> e \<noteq> StoreNotFound)"
proof -
  have "triple (well M (insert k K)) (on_store we (\<lambda>t. (t, read_object t k)))
      (\<lambda>_ w. well M (insert k K) w \<and> True) (\<lambda>e w. well M (insert k K) w \<and> e \<noteq> StoreNotFound)"
    by (rule on_store_triple) (auto simp: read_object_def ok_or_def well_iff readable_def split: option.splits)
  then show ?thesis by (rule triple_weaken) (auto simp: holds_def)
qed

interpretation memory_world: object_world "world_ports we" "world_ok M" readable is_final for we :: "'d world_env" and M
proof (unfold_locales, goal_cases)
  case (1 K a name) show ?case by (simp add: world_ports_def query_keeps)
next
  case (2 K a) show ?case by (simp add: world_ports_def query_keeps)
next
  case (3 K a b key) show ?case by (simp add: world_ports_def query_keeps)
next
  case (4 K i) show ?case by (simp add: world_ports_def query_keeps)
next
  case (5 K i) show ?case by (simp add: world_ports_def query_keeps)
next
  case (6 K a i) show ?case by (simp add: world_ports_def query_keeps)
next
  case (7 K tc)
  show ?case by (simp add: world_ports_def tagging_keeps)
next
  case (8 K i) show ?case by (simp add: world_ports_def query_keeps)
next
  case (9 K k) show ?case by (simp add: world_ports_def store_read_keeps)
next
  case (10 K i e) show ?case by (simp add: world_ports_def version_found)
next
  case (11 K i) show ?case by (simp add: world_ports_def current_found)
next
  case (12 K tc tags)
  show ?case unfolding world_ports_def s3_ports.simps by (rule write_keeps [where x = "OpReplaceTagging tc tags"]) simp_all
next
  case (13 K lc) show ?case unfolding world_ports_def s3_ports.simps by (rule write_keeps [where x = "OpPutLock lc"]) simp_all
next
  case (14 K dc) show ?case unfolding world_ports_def s3_ports.simps by (rule write_keeps [where x = "OpDelete dc"]) simp_all
next
  case (15 K i tag ck sz now)
  show ?case unfolding world_ports_def s3_ports.simps by (rule write_keeps [where x = "OpStage i tag ck sz now"]) simp_all
next
  case (16 K i token now)
  show ?case unfolding world_ports_def s3_ports.simps by (rule write_keeps [where x = "OpRelease i token now"]) simp_all
next
  case (17 K i task now)
  show ?case unfolding world_ports_def s3_ports.simps by (rule write_keeps [where x = "OpAbort i task now"]) simp_all
next
  case (18 intent K)
  then show ?case unfolding world_ports_def s3_ports.simps by (intro write_keeps [where x = "OpCreateIntent intent"]) simp_all
next
  case (19 K i token until now) show ?case by (simp add: world_ports_def claim_triple)
next
  case (20 k K) then show ?case by (simp add: world_ports_def exists_triple)
next
  case (21 k K t) then show ?case by (simp add: world_ports_def promote_triple)
next
  case (22 K c i token) show ?case by (simp add: world_ports_def commit_triple)
next
  case (23 K k) show ?case by (simp add: world_ports_def read_triple)
next
  case (24 K w) then show ?case by (simp add: world_ports_def)
next
  case (25 K w) then show ?case by (simp add: world_ports_def)
next
  case (26 a b v) show ?case by (simp add: is_final_def final_storage_key_def starts_with_def)
qed

end
