(* ===== verification/S3_Object_Runs.thy ===== *)
theory S3_Object_Runs
  imports S3_Object_World
begin

text \<open>
  Histories of the object service in the memory world: calls of the service in any order, with any schedule of
  other clients between their repository and store calls.
\<close>

section \<open>Histories\<close>

datatype service_op =
    SvcBegin begin_put_object_request
  | SvcAbort abort_staged_put_request
  | SvcComplete int complete_put_object_request new_s3_object_lock
  | SvcHead s3_object_request
  | SvcGet s3_object_request
  | SvcList application_id str str
  | SvcGetTags s3_object_request
  | SvcReplaceTags s3_object_request s3_object_tag_set
  | SvcGetLock s3_object_request
  | SvcPutLock s3_object_request s3_object_lock_mutation
  | SvcDelete int delete_object_request
  | SvcSchedule "env_step list list"

definition ending :: "('w, 'e, 'a) action \<Rightarrow> 'w \<Rightarrow> 'w option" where
  "ending m w = map_option fst (m w)"

text \<open>\<open>None\<close> is a panic.\<close>

fun service_step :: "'d world_env \<Rightarrow> world \<Rightarrow> service_op \<Rightarrow> world option" where
  "service_step we w (SvcBegin request) = ending (begin_put (world_ports we) request) w"
| "service_step we w (SvcAbort request) = ending (abort_staged_put (world_ports we) request) w"
| "service_step we w (SvcComplete grace request lock) =
     ending (complete_put_with_object_lock (world_ports we) grace request lock) w"
| "service_step we w (SvcHead request) = ending (head_object_version (world_ports we) request) w"
| "service_step we w (SvcGet request) = ending (get_object (world_ports we) request) w"
| "service_step we w (SvcList a name key) = ending (list_versions (world_ports we) a name key) w"
| "service_step we w (SvcGetTags request) = ending (get_object_tags (world_ports we) request) w"
| "service_step we w (SvcReplaceTags request tags) = ending (replace_object_tags (world_ports we) request tags) w"
| "service_step we w (SvcGetLock request) = ending (get_object_lock (world_ports we) request) w"
| "service_step we w (SvcPutLock request mutation) = ending (put_object_lock (world_ports we) request mutation) w"
| "service_step we w (SvcDelete grace request) = ending (delete_s3 (world_ports we) grace request) w"
| "service_step we w (SvcSchedule steps) = Some (w\<lparr>wd_pending := wd_pending w @ steps\<rparr>)"

fun service_run :: "'d world_env \<Rightarrow> world \<Rightarrow> service_op list \<Rightarrow> world option" where
  "service_run we w [] = Some w"
| "service_run we w (x # xs) = Option.bind (service_step we w x) (\<lambda>w'. service_run we w' xs)"

definition fresh_world :: "s3_bucket \<Rightarrow> world" where
  "fresh_world bucket =
     \<lparr>wd_repo = repo_new bucket, wd_store = store_default, wd_pending = [], wd_tick = 0, wd_drawn = 0\<rparr>"

section \<open>The invariant over histories\<close>

lemma ending_keeps: "keeps I m \<Longrightarrow> I w \<Longrightarrow> ending m w = Some w' \<Longrightarrow> I w'"
  unfolding triple_def ending_def by (fastforce split: sum.splits)

lemma get_object_keeps: "keeps (well M K) (get_object (world_ports we) request)"
  by (rule triple_weaken [OF memory_world.get_object_stored]) auto

lemmas service_keeps =
  memory_world.begin_put_keeps memory_world.abort_staged_put_keeps memory_world.complete_put_keeps
  memory_world.reading.resolve_keeps get_object_keeps memory_world.reading.reading_operations_keep
  memory_world.other_operations_keep

lemmas service_ends = service_keeps [THEN ending_keeps [where I = "well M K" for M K]]

lemma service_step_keeps:
  assumes "well M K w" and "service_step we w x = Some w'"
  shows "well M K w'"
  using assms(2) by (cases x) (use assms(1) in \<open>auto simp: head_object_version_def elim: service_ends\<close>)

lemma service_run_keeps: "service_run we w xs = Some w' \<Longrightarrow> well M K w \<Longrightarrow> well M K w'"
proof (induction xs arbitrary: w)
  case (Cons x xs)
  from Cons.prems(1) obtain v where "service_step we w x = Some v" and "service_run we v xs = Some w'"
    by (auto split: bind_splits)
  with Cons.IH [of v] service_step_keeps [OF Cons.prems(2)] show ?case by blast
qed simp

lemma fresh_well: "well (Map.empty, Map.empty) {} (fresh_world bucket)"
  by (simp add: well_iff rows_ok_def bytes_ok_def keyed_def fresh_world_def repo_new_def store_default_def data_keys_def intent_keys_def versions_of_def)

lemma reached_well: "service_run we (fresh_world bucket) ops = Some w \<Longrightarrow> well (Map.empty, Map.empty) {} w"
  by (erule service_run_keeps) (rule fresh_well)

section \<open>Reads return\<close>

definition returns :: "('w, 'e, 'a) action \<Rightarrow> bool" where
  "returns m \<longleftrightarrow> (\<forall>w. m w \<noteq> None)"

lemma returns_bind: "returns m \<Longrightarrow> (\<And>a. returns (f a)) \<Longrightarrow> returns (act_bind m f)"
  unfolding returns_def act_bind_def by (auto split: option.split sum.split)

lemma returns_simple:
  "returns (act_of r)" "returns (act_return a)" "returns m \<Longrightarrow> returns (act_map_err g m)"
  "returns (on_repo we (query q))" "returns (on_store we h)"
  by (simp_all add: returns_def act_of_def act_return_def act_map_err_def on_repo_def query_def on_store_def Let_def
      split: prod.split)

lemma returns_if: "returns m \<Longrightarrow> returns n \<Longrightarrow> returns (if b then m else n)"
  by simp

lemma returns_option: "returns m \<Longrightarrow> (\<And>a. returns (f a)) \<Longrightarrow> returns (case x of None \<Rightarrow> m | Some a \<Rightarrow> f a)"
  by (cases x) auto

lemmas returns_rules = returns_bind returns_simple returns_if returns_option

lemma resolve_returns: "returns (resolve_visible_version (world_ports we) request)"
  unfolding resolve_visible_version_def require_bucket_def
  by (simp only: world_ports_def s3_ports.simps) (intro returns_rules)

lemma get_object_returns:
  assumes well: "well M K w"
  shows "get_object (world_ports we) request w \<noteq> None"
proof -
  from resolve_returns obtain v r where run: "resolve_visible_version (world_ports we) request w = Some (v, r)"
    by (fastforce simp: returns_def)
  show ?thesis
  proof (cases r)
    case (Inr head)
    with tripleD [OF memory_world.resolve_stored well run] have "\<not> is_delete_marker (hr_version head)" by simp
    then obtain payload where payload: "ov_payload (hr_version head) = PayloadObject payload"
      by (cases "ov_payload (hr_version head)") (simp_all add: is_delete_marker_def)
    have "returns (storage (po_read (world_ports we) (sv_storage_key payload)))"
      by (simp only: world_ports_def s3_ports.simps) (intro returns_rules)
    then show ?thesis
      by (auto simp: get_object_def act_bind_def run Inr payload returns_def act_return_def split: option.split sum.split)
  qed (simp add: get_object_def act_bind_def run)
qed

section \<open>An example\<close>

text \<open>One upload; before each of the first two calls of its completion another client acts.\<close>

definition example_env :: "unit world_env" where
  "example_env =
     \<lparr>we_unicode = example_tables, we_calendar = example_calendar, we_gc_id = (\<lambda>_. 9),
      we_now = int, we_id = (\<lambda>n. of_nat (100 + n)),
      we_uuid_text = (\<lambda>u. ''u'' @ replicate (unat u - 100) (CHR ''x'')), we_digest = (\<lambda>_. ''digest'')\<rparr>"

definition example_request :: begin_put_object_request where
  "example_request =
     \<lparr>bp_application_id = 2, bp_bucket_name = ''photos'', bp_object_key = ''asset.png'', bp_expected_size_bytes = 5,
      bp_content_type = Some ''text/plain'', bp_user_metadata = JObject [], bp_object_tags = ObjectTagSet [],
      bp_expires_at = None\<rparr>"

definition example_completion :: complete_put_object_request where
  "example_completion =
     \<lparr>cp_application_id = 2, cp_intent_id = 100,
      cp_streamed = \<lparr>sm_size = 5, sm_sha256 = replicate 64 (CHR ''a''),
                     sm_md5 = replicate 32 (CHR ''b'')\<rparr>,
      cp_created_by = ''user'', cp_source_protocol = ProtocolS3\<rparr>"

definition example_get :: s3_object_request where
  "example_get = \<lparr>rq_application_id = 2, rq_bucket_name = ''photos'', rq_object_key = ''asset.png'', rq_version_id = None\<rparr>"

definition example_put :: "service_op list" where
  "example_put =
     [SvcBegin example_request,
      SvcSchedule [[EnvPut ''s3/staging/u/ux'' ''hello'' ''text/plain''], [EnvRepo (OpSetQuota 2 1000)]],
      SvcComplete 0 example_completion lock_default]"

definition example_world :: world where
  "example_world =
     (case service_run example_env (fresh_world example_bucket) example_put of
        Some w \<Rightarrow> w | None \<Rightarrow> fresh_world example_bucket)"

lemma example_run: "service_run example_env (fresh_world example_bucket) example_put = Some example_world"
proof -
  have "service_run example_env (fresh_world example_bucket) example_put \<noteq> None" by code_simp
  then show ?thesis by (auto simp: example_world_def)
qed

section \<open>Properties\<close>

text \<open>C2: no version without its bytes. After every sequence of calls of the object service, with arbitrary calls
  of other clients to the repository and to the store between the calls that the service itself makes, the bytes of
  every version that is not a delete marker are in the object store under the version's storage key.\<close>

theorem committed_versions_have_bytes:
  assumes "service_run we (fresh_world bucket) ops = Some w"
    and "v \<in> set (versions_of (wd_repo w) object_id)" and "ov_payload v = PayloadObject payload"
  shows "\<exists>content. read_object (wd_store w) (sv_storage_key payload) = Ok content"
proof -
  from lookup_readable [OF reached_well [OF assms(1)] assms(2)] assms(3)
  have "readable w (sv_storage_key payload)" by (simp add: payload_stored_def)
  then show ?thesis by (auto simp: readable_def read_object_def ok_or_def)
qed

theorem committed_versions_have_bytes_witness:
  "\<exists>content. read_object (wd_store example_world) ''s3/objects/u/u/ux'' = Ok content"
proof -
  let ?vs = "versions_of (wd_repo example_world) 103"
  have "case ?vs of [] \<Rightarrow> False
      | v # _ \<Rightarrow> (case ov_payload v of PayloadObject payload \<Rightarrow> sv_storage_key payload = ''s3/objects/u/u/ux'' | DeleteMarker \<Rightarrow> False)"
    by code_simp
  then obtain v payload where "v \<in> set ?vs" "ov_payload v = PayloadObject payload"
    and "sv_storage_key payload = ''s3/objects/u/u/ux''"
    by (auto split: list.splits object_version_payload.splits)
  with committed_versions_have_bytes [OF example_run this(1,2)] show ?thesis by simp
qed

text \<open>C8: reads return, and find their bytes. In every world that calls of the service and of other clients can
  reach, and whatever other clients do while it runs, a read of an object returns; it may find no such object or
  only a delete marker, but never a version whose bytes the object store does not have.\<close>

theorem reads_find_their_bytes:
  assumes "service_run we (fresh_world bucket) ops = Some w"
  shows "\<exists>w' r. get_object (world_ports we) request w = Some (w', r) \<and> r \<noteq> Err (SvcStorage StoreNotFound)"
proof -
  note well = reached_well [OF assms]
  from get_object_returns [OF well, of we request]
  obtain w' r where run: "get_object (world_ports we) request w = Some (w', r)" by auto
  with tripleD [OF memory_world.get_object_stored well run] show ?thesis by (cases r) (auto simp: not_missing_def)
qed

theorem reads_find_their_bytes_witness:
  "\<exists>w' r. get_object (world_ports example_env) example_get example_world = Some (w', Ok r) \<and> gr_content r = ''hello''"
proof -
  from reads_find_their_bytes [OF example_run, of example_get]
  obtain w' r where run: "get_object (world_ports example_env) example_get example_world = Some (w', r)" by blast
  have "case get_object (world_ports example_env) example_get example_world of
      Some (w', Inr r) \<Rightarrow> gr_content r = ''hello'' | _ \<Rightarrow> False" by code_simp
  with run show ?thesis by (cases r) auto
qed


definition example_overwrite :: "service_op list" where
  "example_overwrite =
     [SvcSchedule [[EnvPut ''s3/staging/other'' ''bye'' ''text/plain'',
                    EnvPromote ''s3/staging/other'' ''s3/objects/u/u/ux'', EnvDelete ''s3/staging/other'']],
      SvcDelete 0 \<lparr>dr_application_id = 2, dr_bucket_name = ''photos'', dr_object_key = ''asset.png'', dr_version_id = None,
                   dr_bypass_governance = False, dr_deleted_by = ''user''\<rparr>]"


end
