(* ===== verification/S3_Object_Once.thy ===== *)
theory S3_Object_Once
  imports S3_Object_Runs
begin

text \<open>
  A completed upload is recorded in its intent, and the record answers every repetition: whatever other clients
  do in between, a repeated completion names the version of the first one.
\<close>

section \<open>Rows behind the calls\<close>

text \<open>The receipt \<open>r\<close> is what the committed intent \<open>i\<close> records.\<close>

definition acknowledged :: "complete_put_object_receipt \<Rightarrow> upload_intent \<Rightarrow> bool" where
  "acknowledged r i \<longleftrightarrow> committed_as (so_id (cr_object r)) (ov_id (cr_version r)) i"

text \<open>A committed row read from the repository stays; of another row only the id is known later.\<close>

definition row_facts :: "known \<Rightarrow> upload_intent \<Rightarrow> known" where
  "row_facts M i = (if ui_state i = IntentCommitted then known_as M (ui_id i) i else M)"

lemma find_row:
  "triple (well M K) (po_find_upload_intent (world_ports we) k)
     (\<lambda>found w. well M K w \<and> (\<forall>i. found = Some i \<longrightarrow> well (row_facts M i) K w \<and> ui_id i = k)) (\<lambda>_. well M K)"
proof -
  have "\<forall>i. find_upload_intent (wd_repo w) k = Some i \<longrightarrow> well (row_facts M i) K w \<and> ui_id i = k" if "well M K w" for w
    using that well_row [OF that] row_id [OF that] unfolding find_upload_intent_def row_facts_def by simp
  from query_triple [where Q = "\<lambda>found w. \<forall>i. found = Some i \<longrightarrow> well (row_facts M i) K w \<and> ui_id i = k", OF this]
  show ?thesis by (simp add: world_ports_def)
qed

lemma require_row:
  "returning (well M K) (require_intent (world_ports we) a k) (\<lambda>i w. well (row_facts M i) K w \<and> ui_id i = k)"
  unfolding require_intent_def
  by (rule triple_bind [OF returning_map_err [OF find_row]])
     (rule triple_bind_of; auto intro!: triple_of simp: ok_or_def split: option.splits sum.splits if_splits)

text \<open>The intent named by a committed row is that row.\<close>

lemma require_known:
  "returning (well (known_as M k i) K) (require_intent (world_ports we) a k) (\<lambda>j w. well (known_as M k i) K w \<and> j = i)"
proof -
  have "find_upload_intent (wd_repo w) k = Some i" if "well (known_as M k i) K w" for w
    using known_row [OF that] by (simp add: find_upload_intent_def)
  from query_triple [where Q = "\<lambda>found w. found = Some i" and f = "\<lambda>s. find_upload_intent s k", OF this]
  have "triple (well (known_as M k i) K) (po_find_upload_intent (world_ports we) k)
      (\<lambda>found w. well (known_as M k i) K w \<and> found = Some i) (\<lambda>_. well (known_as M k i) K)"
    by (simp add: world_ports_def)
  then show ?thesis
    unfolding require_intent_def
    by (rule triple_bind [OF returning_map_err]) (rule triple_bind_of; auto intro!: triple_of simp: ok_or_def split: option.splits sum.splits if_splits)
qed

lemma find_by_id_keeps:
  "triple (well M K) (po_find_s3_object_version_by_id (world_ports we) vid)
     (\<lambda>found w. well M K w \<and> (\<forall>v. found = Some v \<longrightarrow> ov_id v = vid)) (\<lambda>_. well M K)"
proof -
  have "\<forall>v. find_s3_object_version_by_id s vid = Some v \<longrightarrow> ov_id v = vid" for s
    by (auto simp: find_s3_object_version_by_id_def find_Some_iff)
  then show ?thesis
    using query_triple [where Q = "\<lambda>found w. \<forall>v. found = Some v \<longrightarrow> ov_id v = vid" and M = M and K = K
        and f = "\<lambda>s. find_s3_object_version_by_id s vid"]
    by (simp add: world_ports_def)
qed

section \<open>Completing\<close>

lemma receipt_acknowledged:
  assumes "ui_state i = IntentCommitted"
  shows "returning (well M K) (committed_receipt (world_ports we) i) (\<lambda>r w. well M K w \<and> acknowledged r i)"
  unfolding committed_receipt_def
proof (rule triple_bind_of, rule triple_bind_of, rule triple_bind [OF returning_map_err [OF memory_world.reads(3)]],
    rule triple_bind_of, rule triple_bind [OF returning_map_err [OF find_by_id_keeps]], goal_cases)
  case (1 oid vid found obj found_version)
  then have obj: "ui_committed_object_id i = Some (so_id obj)" "ui_committed_version_id i = Some vid"
    by (auto simp: ok_or_def split: option.splits if_splits)
  show ?case
    by (rule triple_bind_of)
       (use assms obj in \<open>auto intro!: triple_return simp: acknowledged_def committed_as_def split: option.splits if_splits\<close>)
qed simp_all

lemma recorded:
  "triple (\<lambda>w. well M (insert key K) w \<and> memory_world.final_payload key (vc_version c))
     (act_map_err SvcRepository (po_commit (world_ports we) k token c))
     (\<lambda>obj w. \<exists>i. well (known_as M k i) K w \<and> committed_as (so_id obj) (ov_id (vc_version c)) i) (\<lambda>_. well M K)"
proof (rule triple_map_err)
  have "triple (\<lambda>w. well M K w \<and> payload_stored readable (vc_version c) w) (po_commit (world_ports we) k token c)
      (\<lambda>obj w. \<exists>i. well (known_as M k i) K w \<and> committed_as (so_id obj) (ov_id (vc_version c)) i) (\<lambda>_. well M K)"
    unfolding world_ports_def s3_ports.simps
    by (rule triple_weaken [OF commit_recorded]) (auto simp: committed_as_def intro: well_row)
  then show "triple (\<lambda>w. well M (insert key K) w \<and> memory_world.final_payload key (vc_version c))
      (po_commit (world_ports we) k token c)
      (\<lambda>obj w. \<exists>i. well (known_as M k i) K w \<and> committed_as (so_id obj) (ov_id (vc_version c)) i) (\<lambda>_. well M K)"
    by (rule triple_weaken) (auto simp: memory_world.holds_insert memory_world.final_payload_stored)
qed

lemma commit_promoted_acknowledged:
  "returning (well M (insert (ui_final_storage_key intent) K))
     (commit_promoted (world_ports we) grace request lock tag ck intent token)
     (\<lambda>r w. \<exists>i. well (known_as M (ui_id intent) i) K w \<and> acknowledged r i)"
  unfolding commit_promoted_def
proof (rule triple_bind [OF returning_of [OF memory_world.prepared_promoted]], simp, rule triple_pure,
    rule triple_bind [OF returning_of [OF recorded]], rule triple_ex, rule triple_pure,
    rule triple_bind [OF returning_map_err [OF find_by_id_keeps]], rule triple_bind_of, goal_cases)
  case (1 prepared obj i found_version v)
  then have v: "found_version = Some v" by (auto split: option.splits if_splits)
  show ?case
  proof (rule triple_return)
    fix w assume "well (known_as M (ui_id intent) i) K w \<and> (\<forall>v. found_version = Some v \<longrightarrow> ov_id v = ov_id (pc_version prepared))"
    then have "well (known_as M (ui_id intent) i) K w" and "ov_id v = ov_id (vc_version (pc_commit prepared))"
      using v 1(1) by simp_all
    with 1(2) show "\<exists>i. well (known_as M (ui_id intent) i) K w \<and> acknowledged \<lparr>cr_object = obj, cr_version = v\<rparr> i"
      unfolding acknowledged_def by (intro exI [of _ i]) simp
  qed
qed simp_all

lemma commit_ready_acknowledged:
  "returning (well M K) (commit_ready (world_ports we) grace request lock tag ck ready)
     (\<lambda>r w. \<exists>i. well (known_as M (ui_id ready) i) K w \<and> acknowledged r i)"
proof -
  have claim: "returning (well M K) (repo (po_claim (world_ports we) (ui_id ready) token until now))
      (\<lambda>intent w. well M K w \<and> is_final (ui_final_storage_key intent) \<and> ui_id intent = ui_id ready)" for token until now
    unfolding world_ports_def s3_ports.simps by (rule returning_map_err [OF claim_row])
  have rest: "returning (\<lambda>w. well M K w \<and> is_final (ui_final_storage_key i) \<and> ui_id i = ui_id ready)
      (act_bind (promote_claimed_upload_intent (world_ports we) i token)
         (\<lambda>_. commit_promoted (world_ports we) grace request lock tag ck i token))
      (\<lambda>r w. \<exists>i. well (known_as M (ui_id ready) i) K w \<and> acknowledged r i)" for i token
  proof (cases "ui_id i = ui_id ready")
    case True
    note stored = returning_of [OF memory_world.promote_claimed_stores]
    show ?thesis
      by (rule triple_weaken [OF triple_bind [OF stored commit_promoted_acknowledged]]) (simp_all add: True)
  qed (auto intro: triple_false)
  show ?thesis
    unfolding commit_ready_def Let_def
    by (rule triple_bind [OF returning_of [OF memory_world.calls(2)]], rule triple_bind [OF returning_of [OF memory_world.calls(1)]],
        rule triple_bind [OF claim rest])
qed

lemma staged_row:
  "returning (well M K) (repo (po_complete_staging (world_ports we) k tag ck sz now)) (\<lambda>i w. well M K w \<and> ui_id i = k)"
proof (rule returning_map_err, simp only: world_ports_def s3_ports.simps, rule on_repo_triple)
  fix w s r assume well: "well M K w"
    and run: "complete_upload_intent_staging (we_unicode we) (wd_repo w) k tag ck sz now = Some (s, r)"
  then have ap: "repo_apply (we_unicode we) cal g (wd_repo w) (OpStage k tag ck sz now) = Some s" for cal :: "unit calendar" and g
    by simp
  have keep: "well M K (w\<lparr>wd_repo := s\<rparr>)"
    by (rule well_repo [OF well repo_apply_data_keys [OF ap] _ repo_apply_evolve [OF ap]]) simp_all
  have "ui_id i = k" if "r = Inr i" for i
    using run that row_id [OF well, of k]
    by (auto simp: complete_upload_intent_staging_def dest!: rebuild_same_row split: option.splits if_splits)
  with keep show "well M K (w\<lparr>wd_repo := s\<rparr>) \<and> (\<forall>i. r = Inr i \<longrightarrow> ui_id i = k)" by simp
qed

section \<open>Completion and its repetition\<close>

definition completes_as :: "known \<Rightarrow> upload_intent_id \<Rightarrow> complete_put_object_receipt \<Rightarrow> world \<Rightarrow> bool" where
  "completes_as M k r w \<longleftrightarrow> (\<exists>i. well (known_as M k i) {} w \<and> acknowledged r i)"

lemmas acknowledging =
  commit_ready_acknowledged [where K = "{}", folded completes_as_def]

text \<open>The last step of a completion, by the state in which the intent was found.\<close>

lemma continue_acknowledged:
  "returning (well (row_facts M intent) {})
     (case ui_state intent of
        IntentStaging \<Rightarrow>
          act_bind (act_call (po_now (world_ports we))) (\<lambda>now.
          act_bind (repo (po_complete_staging (world_ports we) (ui_id intent) tag ck sz now)) (\<lambda>ready.
            commit_ready (world_ports we) grace request lock tag ck ready))
      | IntentReady \<Rightarrow>
          act_bind (act_of (ensure_ready_facts intent tag ck sz)) (\<lambda>_.
            commit_ready (world_ports we) grace request lock tag ck intent)
      | IntentCommitted \<Rightarrow>
          act_bind (act_of (ensure_ready_facts intent tag ck sz)) (\<lambda>_. committed_receipt (world_ports we) intent)
      | IntentCommitting \<Rightarrow> act_of (Err SvcCompletionInProgress)
      | state \<Rightarrow> act_of (Err (SvcInvalidUploadIntentState state)))
     (completes_as M (ui_id intent))"
proof (cases "ui_state intent")
  case IntentStaging
  have "returning (\<lambda>w. well M {} w \<and> ui_id ready = ui_id intent) (commit_ready (world_ports we) grace request lock tag ck ready)
      (completes_as M (ui_id intent))" for ready
    by (rule triple_pure) (use acknowledging [of M we grace request lock tag ck ready] in simp)
  then show ?thesis
    by (simp add: IntentStaging row_facts_def)
       (rule triple_bind [OF returning_of [OF memory_world.calls(1)]], rule triple_bind [OF staged_row])
next
  case IntentReady
  then show ?thesis by (simp add: row_facts_def) (rule triple_bind_of [OF acknowledging], simp)
next
  case IntentCommitted
  have "returning (well (known_as M (ui_id intent) intent) {}) (committed_receipt (world_ports we) intent)
      (completes_as M (ui_id intent))"
    by (rule triple_weaken [OF receipt_acknowledged [OF IntentCommitted]]) (auto simp: completes_as_def)
  then show ?thesis by (simp add: IntentCommitted row_facts_def) (rule triple_bind_of, simp_all)
qed (auto intro: triple_of)

lemma lock_keeps:
  "returning (well M {}) (if b then act_bind (find_bucket_by_id (world_ports we) intent) (\<lambda>bucket. act_of (g bucket))
     else act_return ()) (\<lambda>_. well M {})"
  by (rule returning_of [where E = "\<lambda>_. well M {}"]) (intro keeps_rules memory_world.helpers)

lemma complete_acknowledged:
  "returning (well M {}) (complete_put_with_object_lock (world_ports we) grace request lock)
     (completes_as M (cp_intent_id request))"
  unfolding complete_put_with_object_lock_def
proof (rule triple_bind_of, rule triple_bind_of, rule triple_bind [OF require_row], rule triple_pure,
    rule triple_bind [OF lock_keeps], goal_cases)
  case (1 ck tag intent)
  then show ?case using continue_acknowledged [of M intent] by simp
qed simp_all

lemma complete_repeated:
  "returning (well (known_as M (cp_intent_id request) i) {})
     (complete_put_with_object_lock (world_ports we) grace request lock) (\<lambda>r _. acknowledged r i)"
proof (cases "ui_state i = IntentCommitted")
  case True
  have receipt: "returning (well (known_as M (cp_intent_id request) i) {}) (committed_receipt (world_ports we) i)
      (\<lambda>r _. acknowledged r i)"
    by (rule triple_weaken [OF receipt_acknowledged [OF True]]) (assumption, erule conjunct2, rule TrueI)
  show ?thesis
    unfolding complete_put_with_object_lock_def
  proof (rule triple_bind_of, rule triple_bind_of, rule triple_bind [OF require_known], rule triple_pure,
      rule triple_bind [OF lock_keeps], goal_cases)
    case (1 ck tag intent)
    then show ?case by (simp add: True) (rule triple_bind_of, rule receipt, rule TrueI)
  qed simp_all
next
  case False
  then show ?thesis using known_row by (intro triple_false) blast
qed

section \<open>Property\<close>

text \<open>C3: an upload completes exactly once. Once a completion has returned a receipt, every later completion of the
  same upload that returns one, whatever calls of the service and of other clients lie before it, between the two and
  within them, and whatever lock or grace period it asks for, names the same object and the same version.\<close>

theorem completion_exactly_once:
  assumes "service_run we (fresh_world bucket) before = Some w"
    and "complete_put_with_object_lock (world_ports we) grace request lock w = Some (w1, Ok receipt)"
    and "service_run we w1 later = Some w2"
    and "complete_put_with_object_lock (world_ports we) grace' request' lock' w2 = Some (w3, Ok again)"
    and "cp_intent_id request' = cp_intent_id request"
  shows "so_id (cr_object again) = so_id (cr_object receipt) \<and> ov_id (cr_version again) = ov_id (cr_version receipt)"
proof -
  from tripleD [OF complete_acknowledged reached_well [OF assms(1)] assms(2)]
  obtain i where well: "well (known_as (Map.empty, Map.empty) (cp_intent_id request') i) {} w1" and first: "acknowledged receipt i"
    by (auto simp: completes_as_def assms(5))
  from tripleD [OF complete_repeated service_run_keeps [OF assms(3) well] assms(4)] first show ?thesis
    by (simp add: acknowledged_def committed_as_def)
qed

theorem completion_exactly_once_witness:
  "\<exists>w w1 r w2 w3 r'. service_run example_env (fresh_world example_bucket) (take 2 example_put) = Some w
     \<and> complete_put_with_object_lock (world_ports example_env) 0 example_completion lock_default w = Some (w1, Ok r)
     \<and> service_run example_env w1 (tl example_overwrite) = Some w2
     \<and> complete_put_with_object_lock (world_ports example_env) 5 example_completion lock_default w2 = Some (w3, Ok r')
     \<and> ov_id (cr_version r') = ov_id (cr_version r)"
proof -
  let ?p = "world_ports example_env"
  have "case service_run example_env (fresh_world example_bucket) (take 2 example_put) of None \<Rightarrow> False | Some w \<Rightarrow>
      (case complete_put_with_object_lock ?p 0 example_completion lock_default w of
         Some (w1, Inr r) \<Rightarrow>
           (case service_run example_env w1 (tl example_overwrite) of None \<Rightarrow> False | Some w2 \<Rightarrow>
              (case complete_put_with_object_lock ?p 5 example_completion lock_default w2 of
                 Some (w3, Inr r') \<Rightarrow> True | _ \<Rightarrow> False))
       | _ \<Rightarrow> False)"
    by code_simp
  then obtain w w1 r w2 w3 r' where "service_run example_env (fresh_world example_bucket) (take 2 example_put) = Some w"
    and "complete_put_with_object_lock ?p 0 example_completion lock_default w = Some (w1, Ok r)"
    and "service_run example_env w1 (tl example_overwrite) = Some w2"
    and "complete_put_with_object_lock ?p 5 example_completion lock_default w2 = Some (w3, Ok r')"
    by (fastforce dest!: is_some ended_Ok)
  with completion_exactly_once [OF this refl] show ?thesis by blast
qed

end
