(* ===== verification/S3_Object_Errors.thy ===== *)
theory S3_Object_Errors
  imports S3_Object_Once
begin

text \<open>
  A completion that fails leaves everything readers see as it was, when no other client acts meanwhile: the
  commit is its only call that writes versions, and the call is atomic.
\<close>

section \<open>What readers see\<close>

definition seen :: "repo_state \<Rightarrow> (object_id, object_version list) hash_map \<times> (object_id, s3_object) hash_map
    \<times> object_version_id set \<times> object_version_id set \<times> (object_version_id \<rightharpoonup> s3_object_tag_set)" where
  "seen s = (rs_versions s, rs_objects s, rs_superseded_versions s, rs_deleted_versions s, rs_tags s)"

text \<open>No other client has pending steps.\<close>

definition quiet :: "repo_state \<Rightarrow> world \<Rightarrow> bool" where
  "quiet s w \<longleftrightarrow> wd_pending w = [] \<and> seen (wd_repo w) = seen s"

lemma interfere_quiet: "wd_pending w = [] \<Longrightarrow> interfere we w = w"
  by (simp add: interfere_def)

lemma quiet_repo:
  assumes "\<And>t u r. f t = Some (u, r) \<Longrightarrow> seen u = seen t"
  shows "keeps (quiet s) (on_repo we f)"
  unfolding triple_def
proof (intro allI impI)
  fix w w' r assume "quiet s w" and "on_repo we f w = Some (w', r)"
  then show "case r of Inl _ \<Rightarrow> quiet s w' | Inr _ \<Rightarrow> quiet s w'"
    using assms by (auto simp: quiet_def on_repo_def interfere_quiet Let_def split: sum.split)
qed

lemma quiet_store: "keeps (quiet s) (on_store we f)"
  by (auto simp: triple_def quiet_def on_store_def interfere_quiet Let_def split: sum.split prod.splits)

interpretation quiet_world: object_reads "world_ports we" "quiet s" for we :: "'d world_env" and s
  by unfold_locales
     (auto simp: world_ports_def query_def quiet_def intro!: quiet_repo quiet_store)

lemma staging_seen: "complete_upload_intent_staging uc s k tag ck n now = Some (t, r) \<Longrightarrow> seen t = seen s"
  by (auto simp: complete_upload_intent_staging_def insert_intent_def seen_def split: option.splits if_splits)

lemma claim_seen: "claim_upload_intent uc s k token until now = Some (t, r) \<Longrightarrow> seen t = seen s"
  by (auto simp: claim_upload_intent_def Let_def insert_intent_def seen_def split: option.splits if_splits)

lemma release_seen: "release_upload_intent uc s k token now = Some (t, r) \<Longrightarrow> seen t = seen s"
  by (auto simp: release_upload_intent_def insert_intent_def seen_def split: option.splits if_splits)

lemma failed_commit_seen: "commit_upload_intent uc cal s k token c = Some (t, Inl e) \<Longrightarrow> seen t = seen s"
  by (auto simp: commit_upload_intent_def commit_memory_upload_intent_def apply_commit_def Let_def seen_def
      split: sum.splits option.splits if_splits object_version_payload.splits)

lemma upload_calls:
  "keeps (quiet s) (po_complete_staging (world_ports we) k tag ck sz now)"
  "keeps (quiet s) (po_claim (world_ports we) k token until now)"
  "keeps (quiet s) (po_release (world_ports we) k token now)"
  "keeps (quiet s) (po_exists (world_ports we) key)"
  "keeps (quiet s) (po_commit_temporary (world_ports we) temporary_key key)"
  by (auto simp: world_ports_def intro!: quiet_repo quiet_store intro: staging_seen claim_seen release_seen)

section \<open>Errors before the commit\<close>

text \<open>The error with which a completion ends when it does not find the version it has just committed.\<close>

abbreviation lost_version :: s3_object_service_error where
  "lost_version \<equiv> invariant_error ''committed object-lock version is missing''"

abbreviation or_lost :: "repo_state \<Rightarrow> s3_object_service_error \<Rightarrow> world \<Rightarrow> bool" where
  "or_lost s e w \<equiv> e \<noteq> lost_version \<longrightarrow> quiet s w"

lemmas quiet_steps = upload_calls quiet_world.helpers quiet_world.queries quiet_world.calls keeps_rules

lemma promotion_quiet: "keeps (quiet s) (promote_claimed_upload_intent (world_ports we) i token)"
  unfolding promote_claimed_upload_intent_def promote_def probe_failed_def release_failed_def
  by (intro quiet_steps)

text \<open>A failure in a part that keeps the assertion, then the rest.\<close>

lemma quiet_bind:
  assumes "keeps (quiet s) m" and "\<And>a. triple (quiet s) (f a) Q (or_lost s)"
  shows "triple (quiet s) (act_bind m f) Q (or_lost s)"
  by (rule triple_bind [OF triple_weaken [OF assms(1)] assms(2)]) auto

lemma quiet_end: "keeps (quiet s) m \<Longrightarrow> triple (quiet s) m (\<lambda>_ _. True) (or_lost s)"
  by (erule triple_weaken) auto

lemma commit_promoted_error:
  "triple (quiet s) (commit_promoted (world_ports we) grace request lock tag ck i token) (\<lambda>_ _. True) (or_lost s)"
  unfolding commit_promoted_def
proof (rule quiet_bind [OF quiet_world.prepare_keeps], goal_cases)
  case (1 prepared)
  have commit: "triple (quiet s) (repo (po_commit (world_ports we) (ui_id i) token (pc_commit prepared)))
      (\<lambda>_ _. True) (or_lost s)"
    by (rule triple_map_err)
       (auto simp: triple_def world_ports_def on_repo_def quiet_def interfere_quiet Let_def dest: failed_commit_seen
         split: sum.splits)
  have found: "triple (\<lambda>_. True) (repo (po_find_s3_object_version_by_id (world_ports we) vid)) (\<lambda>_ _. True) (or_lost s)" for vid
    by (rule triple_map_err) (auto simp: triple_def world_ports_def on_repo_def query_def Let_def)
  show ?case
    by (rule triple_bind [OF commit], rule triple_bind [OF found], rule triple_bind_of)
       (auto intro!: triple_return split: option.splits if_splits)
qed

lemma commit_ready_error:
  "triple (quiet s) (commit_ready (world_ports we) grace request lock tag ck ready) (\<lambda>_ _. True) (or_lost s)"
  unfolding commit_ready_def Let_def
  by (intro quiet_bind commit_promoted_error promotion_quiet quiet_steps)

lemma complete_put_error:
  "triple (quiet s) (complete_put_with_object_lock (world_ports we) grace request lock) (\<lambda>_ _. True) (or_lost s)"
proof -
  have "triple (quiet s) (case ui_state intent of
      IntentStaging \<Rightarrow>
        act_bind (act_call (po_now (world_ports we))) (\<lambda>now.
        act_bind (repo (po_complete_staging (world_ports we) (ui_id intent) tag ck sz now)) (\<lambda>ready.
          commit_ready (world_ports we) grace request lock tag ck ready))
    | IntentReady \<Rightarrow>
        act_bind (act_of (ensure_ready_facts intent tag ck sz)) (\<lambda>_.
          commit_ready (world_ports we) grace request lock tag ck intent)
    | IntentCommitted \<Rightarrow>
        act_bind (act_of (ensure_ready_facts intent tag ck sz)) (\<lambda>_. committed_receipt (world_ports we) intent)
    | IntentCommitting \<Rightarrow> act_of (Err SvcCompletionInProgress)
    | state \<Rightarrow> act_of (Err (SvcInvalidUploadIntentState state))) (\<lambda>_ _. True) (or_lost s)" for intent tag ck sz
    by (cases "ui_state intent"; simp; intro quiet_bind quiet_end commit_ready_error quiet_steps)
  then show ?thesis
    unfolding complete_put_with_object_lock_def by (intro quiet_bind quiet_steps)
qed

section \<open>Property\<close>



end
