(* ===== verification/S3_Restored.thy ===== *)
theory S3_Restored
  imports Lifecycle_Batch S3_List
begin

text \<open>
  A deviation across components: the in-memory repository leaves the mark that lifecycle expiration puts on a
  version when the deletion of the marker makes the version current again, and the listing endpoint takes the
  mark to mean that the version is not current.
\<close>

definition expiration_command :: execute_s3_lifecycle_command where
  "expiration_command =
     \<lparr>xc_application_id = 2, xc_bucket_id = 3,
      xc_expected_configuration_revision = bc_revision (sb_configuration expiring_bucket), xc_rule = daily_rule,
      xc_target = ExpireCurrent 5 ''asset.png'' 4 0,
      xc_evaluated_at = 2 * nanos_per_day, xc_delete_marker_id = 20, xc_delete_marker_version_id = S3VersionId ''marker'',
      xc_gc_task_id = 21, xc_gc_not_before = 2 * nanos_per_day, xc_gc_max_attempts = 3\<rparr>"

definition restored :: repo_state where
  "restored = repo_after example_tables example_calendar (\<lambda>_. 9) expiring_bucket
     (example_uploads @ [OpLifecycle expiration_command,
        OpDelete (example_delete\<lparr>dc_version_id := Some (S3VersionId ''marker''), dc_deleted_at := 3 * nanos_per_day\<rparr>)])"

lemma restored_version_not_listed:
  "case find_current_s3_object_version restored 5 of None \<Rightarrow> False
    | Some v \<Rightarrow> ov_id v = 4 \<and> \<not> is_delete_marker v
        \<and> list_object_from_version 2 3 \<lparr>li_key = ''asset.png'', li_version = v\<rparr> = None"
  by code_simp

end
