(* ===== verification/Spec2Isabelle.thy ===== *)
theory Spec2Isabelle
  imports Object_Version S3_Storage S3_Tagging S3_Cors Async_Job Media Upload_Session Variant
    Policy_Status Policy_Parse Memory_S3_Listing Lifecycle_Batch S3_Admission
    S3_List_Pages S3_Object_Errors S3_Restored
begin

text \<open>
  Verification of MediaHub (PrismArk), an S3-compatible media store written in Rust.

  \<^bold>\<open>The program.\<close> The workspace has a domain crate \<^verbatim>\<open>mediahub-core\<close> (pure aggregates, validators and
  the policy engine), an application crate \<^verbatim>\<open>mediahub-app\<close> (services over repository and object-store
  ports, and in-memory adapters of these ports), adapters for PostgreSQL, local files, S3 and image
  processing, and an HTTP server. A request passes through the server, which verifies its signature,
  resolves the caller's identity policy and asks the authorization service for a decision; admitted
  requests reach the repository, which keeps buckets, upload intents, objects, versions and quota and
  calls the aggregates of the domain crate to decide every change. Objects are written by the object
  service: it records an intent in the repository, the payload is staged in the object store, and the
  completion claims the intent under a lease, promotes the payload to its final key and commits the
  version in one repository call. This development models the domain crate, the in-memory S3
  repository and object store, the object service, the authorization service, and the server's
  authentication, authorization and object listing.

  \<^bold>\<open>Conventions\<close> (theories \<open>MH_Prelude\<close>, \<open>MH_Text\<close>, \<open>MH_Ordered_Map\<close>). A Rust \<open>Result\<close> is a sum with the
  error on the left, \<open>?\<close> is \<open>and_then\<close>; \<open>&mut self\<close> operations return the updated record; \<open>u8\<close>, \<open>u32\<close>
  and \<open>u64\<close> are words, \<open>checked_add\<close> and \<open>saturating_add\<close> are written out; text is its UTF-8 bytes and
  \<open>chars\<close> decodes it; instants are integers (nanoseconds); JSON objects are their entries in
  iteration order; a panic of \<open>expect\<close> is the value \<open>None\<close>. A service that awaits calls of its ports is an
  action on a world (\<open>MH_Action\<close>: \<open>act_bind\<close> is \<open>.await?\<close>), reasoned about with the rules of \<open>triple\<close>. \<open>MH_Text\<close> holds decimal numbers and the
  address readers of \<open>core::net\<close>; \<open>MH_Ordered_Map\<close> is \<open>BTreeMap\<close> with text keys; a \<open>HashMap\<close> is an
  association list with distinct keys whose order stands for the iteration order. Loops are structural
  recursions over the data they walk, so no model needs fuel; the recursions with a measure are
  \<open>str::trim\<close> (the length of the text) and the loop of a lifecycle batch (the work units left).

  \<^bold>\<open>Interfaces\<close> (locales). \<open>MH_Aggregates\<close> states the contract of a stored aggregate: \<open>aggregate\<close>
  (operations keep an invariant), \<open>rehydratable\<close> (a valid aggregate survives the trip through its
  persistence record), \<open>absorbing\<close> (terminal states are final) and \<open>ranked\<close> (a quantity that never
  decreases), and lifts each law to every history of calls (\<open>run\<close>). They are interpreted on the
  bucket configuration, the object version, the async job, the media object, the upload session and
  on the whole in-memory repository (\<open>memory_s3\<close> for its invariant, \<open>worm\<close> for versions under
  compliance retention). \<open>Policy_Eval.statement_evaluation\<close> is the contract of policy evaluation,
  interpreted on bucket and on identity policies; \<open>MH_Ordered_Map.key_value_map\<close> is the contract of
  maps, interpreted on ordered association lists; \<open>Lifecycle_Service.lifecycle_repository\<close> is what the
  lifecycle service relies on. \<open>S3_Object_Storage.object_world\<close> states what the object service relies on of its
  repositories, store and clock while others use them too (every call keeps the stored bytes of every
  version), with \<open>object_reads\<close> for the reading calls as a part of it; both are interpreted on the
  in-memory repository and store with interfering clients, \<open>object_reads\<close> also on a world without them.

  \<^bold>\<open>Domain components\<close> (paths under \<^verbatim>\<open>src/crates/mediahub-core/src/\<close>).

  \<^item> \<open>S3_Lifecycle_Config\<close> (\<^verbatim>\<open>s3_lifecycle.rs\<close>) and \<open>S3_Bucket\<close> (\<^verbatim>\<open>s3_bucket.rs\<close>): lifecycle rules, bucket
    names and regions, default retention, and the configuration aggregate with
    \<open>transition_versioning\<close>, \<open>replace_lifecycle_configuration\<close> and
    \<open>replace_object_lock_configuration\<close>. Shown: every history keeps the configuration loadable;
    versioning, object lock and the revision never go back; each call bumps the revision by one or
    changes nothing, except at the last revision, where the fields change although an error is
    returned.
  \<^item> \<open>S3_Storage\<close> (\<^verbatim>\<open>s3_storage.rs\<close>) and \<open>S3_Tagging\<close> (\<^verbatim>\<open>s3_tagging.rs\<close>): entity tags, checksums, upload
    intents, garbage-collection tasks and tag sets; the state shapes and the exact acceptance
    conditions.
  \<^item> \<open>Object_Version\<close> (\<^verbatim>\<open>object_version.rs\<close>): object versions with retention and legal hold, logical
    objects with their current pointer. Shown: compliance retention cannot be weakened, retention
    is never shortened without governance bypass, content is immutable, the pointer follows the
    generations.
  \<^item> \<open>S3_Cors\<close> (\<^verbatim>\<open>s3_cors.rs\<close>): CORS rules; exact acceptance, and an inconsistency in port syntax.
  \<^item> \<open>Policy_Model\<close>, \<open>Policy_Glob\<close>, \<open>Policy_Eval\<close>, \<open>Policy_Status\<close>, \<open>Policy_Document\<close>, \<open>Policy_Parse\<close>
    (\<^verbatim>\<open>s3_policy.rs\<close>): the policy language. Shown: the dynamic-programming wildcard matcher decides
    the declarative meaning of patterns; denials override and order is irrelevant; evaluation fails
    closed; address networks compare leading bits; a policy whose public-access status is \<open>false\<close>
    admits only the owning account and listed addresses; parsing rejects duplicate keys, never
    panics and yields only well-formed policies.
  \<^item> \<open>MH_Domain_Error\<close>, \<open>MH_Visibility\<close> (\<^verbatim>\<open>error.rs\<close>, \<^verbatim>\<open>visibility.rs\<close>), \<open>MH_Bucket\<close> (\<^verbatim>\<open>bucket.rs\<close>),
    \<open>Media_Metadata\<close> (\<^verbatim>\<open>metadata.rs\<close>), \<open>Media\<close> (\<^verbatim>\<open>media.rs\<close>), \<open>Upload_Session\<close> (\<^verbatim>\<open>upload_session.rs\<close>),
    \<open>Variant\<close> (\<^verbatim>\<open>variant.rs\<close>): the media side. Shown: exact upload admission and metadata limits,
    canonical MIME types, no lost updates, retirement is final, content immutability, persistence
    round trips, one terminal action per upload session, injective variant cache keys.
  \<^item> \<open>Async_Job\<close> (\<^verbatim>\<open>async_job*.rs\<close>): leased batch jobs. Shown: fencing by lease tokens, takeover,
    bounded attempts, availability, finality, persistence of every history.

  \<^bold>\<open>Application components\<close> (paths under \<^verbatim>\<open>src/crates/mediahub-app/src/\<close>).

  \<^item> \<open>S3_Repository\<close> (\<^verbatim>\<open>s3_repository.rs\<close>, \<^verbatim>\<open>ports.rs\<close>): commands, outcomes and errors of the repository
    port.
  \<^item> \<open>S3_Lifecycle_Rules\<close> and \<open>Lifecycle_Service\<close> (\<^verbatim>\<open>s3_lifecycle.rs\<close>): when a rule applies, which action a
    scan round takes, and the batch executor over the operations of the repository port, whose
    locale \<open>lifecycle_repository\<close> is interpreted on the in-memory repository. Shown (\<open>Lifecycle_Batch\<close>):
    the expiration window of day rules; a batch follows the plain schedule over the buckets, every
    action of every rule comes up, and a batch is a history of repository calls.
  \<^item> \<open>Memory_S3\<close>, \<open>Memory_S3_Delete\<close>, \<open>Memory_S3_Upload\<close>, \<open>Memory_S3_Lifecycle\<close>, \<open>Memory_S3_Listing\<close>
    (\<^verbatim>\<open>memory_s3.rs\<close>): the state of the repository and its operations, each a function from the state
    to the new state and a result: buckets and configuration, quota, tags and locks; deletion by
    versioning state; upload intents with leases and the commit of versions; lifecycle candidates and
    execution; paged listing. \<open>Memory_S3_History\<close> collects them in \<open>repo_op\<close>, with
    \<open>repo_enabled\<close> the obligations of the callers (fresh version identifiers, new intents in
    their initial state, non-empty lease tokens, versions built by their constructors), and
    \<open>repo_history\<close> the sequences of calls.
  \<^item> The invariant of the repository is built up in \<open>Memory_S3_Accounting\<close> (quota books),
    \<open>Memory_S3_Invariant\<close>, \<open>Memory_S3_Versions\<close>, \<open>Memory_S3_Intents\<close> and \<open>Memory_S3_Commit\<close>. Shown over all
    histories: the books balance, the current pointer names the newest visible version, stored
    records are well formed, no call panics (\<open>Memory_S3_History\<close>); an intent commits once and a
    takeover fences the former holder (\<open>Memory_S3_Fencing\<close>); a version under compliance retention
    survives every sequence of calls (\<open>Memory_S3_Retention\<close>). \<open>Memory_S3_Semantics\<close> gives an abstract
    version store and shows that deletion refines it and that deleting a delete marker restores the
    object. \<open>Memory_S3_Listing\<close> shows that following the cursor ends and lists everything once.
  \<^item> \<open>Object_Store\<close> (\<^verbatim>\<open>memory_object_store.rs\<close>, types of \<^verbatim>\<open>ports.rs\<close>) and \<open>S3_Object_Service\<close>
    (\<^verbatim>\<open>s3_object_service.rs\<close>): the object store and the service over the record \<open>s3_ports\<close> of its calls.
    \<open>S3_Object_World\<close> composes them with the in-memory repository: before each call of the service the next
    batch of \<open>wd_pending\<close>, steps of other clients, is executed; these may be any repository operation (a commit
    only of bytes that are in the store), uploads to temporary keys, promotions and deletions of keys that are
    not final. \<open>S3_Object_Runs\<close> has the histories (\<open>service_run\<close>). Shown: versions never lack their bytes, reads
    return and find them, stored bytes never change (\<open>S3_Object_Runs\<close>); a completed upload stays completed as
    the same version (\<open>S3_Object_Once\<close>, over \<open>Memory_S3_Intent_Rows\<close>, which shows that committed intents never
    change from any state, and \<open>Memory_S3_Keys\<close>, which follows storage keys through every operation); a failed
    completion changes nothing that readers see (\<open>S3_Object_Errors\<close>). The collector of garbage deletes final
    keys of hidden versions and is not among the other clients.
  \<^item> \<open>S3_Authorization\<close> (\<^verbatim>\<open>s3_authorization.rs\<close>, \<^verbatim>\<open>s3_bucket_policy.rs\<close>): signed principals and the decision
    over identity and bucket policies. Shown: the decision as a formula over the matching
    statements; strangers reach a bucket without public policy only from listed addresses.

  \<^bold>\<open>Server components\<close> (paths under \<^verbatim>\<open>src/crates/mediahub-server/src/\<close>).

  \<^item> \<open>S3_Gateway\<close> (\<^verbatim>\<open>s3_gateway.rs\<close>): SigV4 parsing and verification. Shown: the freshness window, and
    that a verified signature covers the request.
  \<^item> \<open>S3_Data_Authorization\<close> (\<^verbatim>\<open>s3_data_authorization.rs\<close>, parts of \<^verbatim>\<open>s3_http_core.rs\<close>,
    \<^verbatim>\<open>s3_http_support.rs\<close>, \<^verbatim>\<open>s3_http_tagging.rs\<close>, \<^verbatim>\<open>s3_http_object_version_lock.rs\<close>): authentication,
    resolution of identity policies and the admission of data, account and policy requests; the
    classification of object reads. \<open>S3_Admission\<close> composes the three: an admitted request was
    verified and allowed, both policies see the same request, policies are managed by the owning
    account only.

  \<^item> \<open>S3_List\<close> (\<^verbatim>\<open>s3_list.rs\<close>, \<open>s3_list_objects\<close> of \<^verbatim>\<open>s3_http_core.rs\<close>, bucket names of \<^verbatim>\<open>s3_http_bucket.rs\<close>):
    the listing endpoint: query parameters, encrypted continuation tokens, the XML document. Shown
    (\<open>S3_List_Pages\<close>): a token brings the listing back to its place, following tokens lists the whole bucket,
    values in the document read back and inject no markup. \<open>S3_Restored\<close> runs one history after which the
    endpoint leaves out a visible object.

  Properties that span the domain components are in this theory.

  \<^bold>\<open>Parameters.\<close> Code outside the repository is an argument of the definitions that use it: the
  calendar of the \<open>time\<close> crate (\<open>calendar\<close>), the Unicode tables of the tag characters
  (\<open>unicode_tables\<close>), the byte lengths \<open>serde_json\<close> writes (\<open>serializer\<close>), the tree it reads
  (\<open>json_reader\<close>) and the text it writes (\<open>json_writer\<close>), fresh identifiers (\<open>new_id\<close>), signing,
  hashing, form decoding and header text (\<open>gateway_env\<close>), the control plane and policy
  repositories a request consults (\<open>app_state\<close>), the cipher, base64 and instant text of the listing
  (\<open>token_env\<close>), and the clock, identifiers and digest of the object service (\<open>world_env\<close>). The hypotheses on
  them are \<open>media_json_contains_client\<close> (the JSON of a record with one more field is not shorter) and
  \<open>token_env_ok\<close> (decryption and base64 decoding invert encryption and encoding, with the lengths of AES-GCM
  and of base64).

  \<^bold>\<open>Not modelled.\<close> Formatting and \<open>Debug\<close> redaction, UUID generation, the deterministic JSON printer
  of policies (\<open>to_stable_json\<close>), derived serializers, the asynchronous multipart, upload and
  job services, the garbage collector, the media-side in-memory adapters, the SQL, file, network and image
  adapters, configuration XML and routing of the server, OpenAPI and the web client. The next steps, in order,
  are the multipart service over the world of the object service, the collector as one more client of it,
  the CORS runtime and the policy printer with its round trip.
\<close>

section \<open>Upload admission across components\<close>

text \<open>Admission is stable under storage. The bucket decides an upload by its declared MIME type
  when the session is created and by the stored type when it completes; for every session built
  from a declared type the two decisions are the same, error included, since the canonical type
  the session stores is normalized to itself.\<close>

theorem upload_admission_stable:
  assumes "session_new input now = Ok s"
  shows "bucket_validate_upload b (us_expected_mime (run session_step s ops)) sz
       = bucket_validate_upload b (nu_expected_mime input) sz"
proof -
  from assms have m: "canonical_mime_type (nu_expected_mime input) = Ok (us_expected_mime s)"
    by (auto simp: session_new_def result_simps split: if_splits)
  have "us_expected_mime (session_step t x) = us_expected_mime t" for t x
    by (cases x) (auto simp: session_step_def session_op_defs Let_def split: upload_session_state.splits)
  then have "us_expected_mime (run session_step s ops) = us_expected_mime s"
    by (induction ops arbitrary: s) simp_all
  with m canonical_mime_type_fixpoint [OF m] show ?thesis
    by (simp add: bucket_validate_upload_def policy_validate_upload_def)
qed

section \<open>Default retention across components\<close>

text \<open>C38: default compliance retention protects new versions. When a bucket's default retention is in
  compliance mode, the lock computed for a version at its creation is accepted only if it ends
  after the creation, and from then on no sequence of version updates issued before that end can
  shorten it or weaken its mode.\<close>

theorem default_retention_protects:
  assumes "default_retention_new Compliance period = Ok r"
    and "for_object_at cal r (ov_created_at v) = Ok retention"
    and "with_initial_object_lock v (Some retention) hold = Ok w"
    and "\<And>x now bypass. UpdateRetention x now bypass \<in> set ops \<Longrightarrow> now < or_retain_until retention"
  shows "\<exists>u. or_retain_until retention \<le> u \<and> ov_created_at v < u
           \<and> ov_retention (run version_step w ops) = Some \<lparr>or_mode = Compliance, or_retain_until = u\<rparr>"
proof -
  have mode: "or_mode retention = Compliance"
    using assms(1,2) by (auto simp: default_retention_new_def for_object_at_def result_simps split: if_splits)
  have w: "ov_retention w = Some retention" and later: "ov_created_at v < or_retain_until retention"
    using assms(3) by (auto simp: with_initial_object_lock_def split: if_splits)
  have "retained_until {Compliance} (or_retain_until retention) w"
    using w mode by (simp add: retained_until_def)
  moreover have "admissible version_step (called_before (or_retain_until retention)) w' ops" for w'
    using assms(4) by (induction ops arbitrary: w') (auto, metis called_before.elims(3))
  ultimately have "retained_until {Compliance} (or_retain_until retention) (run version_step w ops)"
    by (rule compliance.run_valid)
  then obtain x where x: "ov_retention (run version_step w ops) = Some x" "or_mode x = Compliance"
      "or_retain_until retention \<le> or_retain_until x"
    by (auto simp: retained_until_def is_some_and_iff)
  then show ?thesis using later by (intro exI [of _ "or_retain_until x"]) auto
qed

definition day_calendar :: "unit calendar" where
  "day_calendar =
     \<lparr>cal_checked_add_days = (\<lambda>t n. Some (t + int n * 86400 * nanos_per_second)),
      cal_year = (\<lambda>_. 1970), cal_date = (\<lambda>_. ()), cal_replace_year = (\<lambda>_ _. None),
      cal_replace_day = (\<lambda>_ _. None), cal_replace_date = (\<lambda>t _. t)\<rparr>"

theorem default_retention_protects_witness:
  "\<exists>u. 86400 * nanos_per_second \<le> u
     \<and> ov_retention (run version_step
          (version_example\<lparr>ov_retention := Some \<lparr>or_mode = Compliance, or_retain_until = 86400 * nanos_per_second\<rparr>\<rparr>)
          [UpdateRetention \<lparr>or_mode = Governance, or_retain_until = 7\<rparr> 5 True])
        = Some \<lparr>or_mode = Compliance, or_retain_until = u\<rparr>"
proof -
  let ?r = "\<lparr>or_mode = Compliance, or_retain_until = 86400 * nanos_per_second\<rparr>"
  have "default_retention_new Compliance (RetentionDays 1) = Ok \<lparr>dr_mode = Compliance, dr_period = RetentionDays 1\<rparr>"
    by (simp add: default_retention_new_def)
  moreover have "for_object_at day_calendar \<lparr>dr_mode = Compliance, dr_period = RetentionDays 1\<rparr>
      (ov_created_at version_example) = Ok ?r"
    by (simp add: for_object_at_def day_calendar_def version_example_def)
  moreover have "with_initial_object_lock version_example (Some ?r) False = Ok (version_example\<lparr>ov_retention := Some ?r\<rparr>)"
    by (simp add: with_initial_object_lock_def version_example_def is_delete_marker_def nanos_per_second_def)
  ultimately have "\<exists>u. or_retain_until ?r \<le> u \<and> ov_created_at version_example < u
      \<and> ov_retention (run version_step (version_example\<lparr>ov_retention := Some ?r\<rparr>)
          [UpdateRetention \<lparr>or_mode = Governance, or_retain_until = 7\<rparr> 5 True])
        = Some \<lparr>or_mode = Compliance, or_retain_until = u\<rparr>"
    by (rule default_retention_protects) (simp add: nanos_per_second_def)
  then show ?thesis by auto
qed

end
